(* ===== verification/Py_Prelude.thy ===== *)
theory Py_Prelude
  imports Complex_Main "HOL-Library.Sublist"
begin

text \<open>
  The shared prelude of the development: the part of Python that the modelled modules use.

  \<^item> Strings are HOL \<open>string\<close>s (lists of \<open>char\<close>). A Python string is a sequence of code points; the
    model is exact for ASCII text, and a non-ASCII literal of the source (an em dash, an ellipsis) is
    written as its UTF-8 bytes. \<open>str.strip\<close>, \<open>str.lower\<close>, \<open>str.upper\<close>, \<open>str.startswith\<close>,
    \<open>str.endswith\<close>, \<open>str.replace\<close> on one character, the operator \<open>in\<close> and \<open>int(str)\<close> are functions.
  \<^item> A dynamically typed value is a \<open>pyval\<close>. A float carries its exact value and the text that
    Python prints for it, so that \<open>str(x)\<close> is defined on it.
  \<^item> A \<open>dict\<close> is an association list in insertion order, as Python keeps it.
  \<^item> Exceptions are values of \<open>py_error\<close> on the left of a sum.

  The lemmas are the generic facts the components share; the collection \<open>py_eval\<close> holds the
  unfoldings that let \<open>simp\<close> evaluate string operations on literals.
\<close>

named_theorems py_eval "unfoldings that evaluate Python string operations on literals"

section \<open>Exceptions and results\<close>

datatype py_error =
    ValueError string
  | TypeError string
  | AttributeError string
  | KeyError string
  | IndexError string
  | HTTPException nat string
  | AssertionError string
  | DomainDegradedError string
  | OSError string

type_synonym 'a py_result = "py_error + 'a"

text \<open>\<open>str(exc)\<close>.\<close>

fun error_text :: "py_error \<Rightarrow> string" where
  "error_text (ValueError m) = m"
| "error_text (TypeError m) = m"
| "error_text (AttributeError m) = m"
| "error_text (KeyError m) = m"
| "error_text (IndexError m) = m"
| "error_text (HTTPException n m) = m"
| "error_text (AssertionError m) = m"
| "error_text (DomainDegradedError m) = m"
| "error_text (OSError m) = m"

fun bind_r :: "'e + 'a \<Rightarrow> ('a \<Rightarrow> 'e + 'b) \<Rightarrow> 'e + 'b" where
  "bind_r (Inl e) f = Inl e"
| "bind_r (Inr x) f = f x"

fun map_r :: "('a \<Rightarrow> 'e + 'b) \<Rightarrow> 'a list \<Rightarrow> 'e + 'b list" where
  "map_r f [] = Inr []"
| "map_r f (x # xs) = bind_r (f x) (\<lambda>y. bind_r (map_r f xs) (\<lambda>ys. Inr (y # ys)))"

lemma bind_r_Inr: "bind_r r f = Inr y \<longleftrightarrow> (\<exists>x. r = Inr x \<and> f x = Inr y)"
  by (cases r) auto

lemma map_r_all: "(\<And>x. x \<in> set xs \<Longrightarrow> \<exists>y. f x = Inr y) \<Longrightarrow> \<exists>ys. map_r f xs = Inr ys"
  by (induction xs) (auto simp: bind_r_Inr)

lemma map_r_length: "map_r f xs = Inr ys \<Longrightarrow> length ys = length xs"
  by (induction xs arbitrary: ys) (auto simp: bind_r_Inr)

lemma map_r_nth: "map_r f xs = Inr ys \<Longrightarrow> i < length xs \<Longrightarrow> f (xs ! i) = Inr (ys ! i)"
proof (induction xs arbitrary: ys i)
  case (Cons x xs)
  then show ?case by (cases i) (auto simp: bind_r_Inr)
qed simp

section \<open>Characters and strings\<close>

definition char_code :: "char \<Rightarrow> nat" where
  "char_code c = of_char c"

definition is_space :: "char \<Rightarrow> bool" where
  "is_space c = (let n = char_code c in (9 \<le> n \<and> n \<le> 13) \<or> (28 \<le> n \<and> n \<le> 32))"

definition is_digit :: "char \<Rightarrow> bool" where
  "is_digit c = (let n = char_code c in 48 \<le> n \<and> n \<le> 57)"

definition is_upper :: "char \<Rightarrow> bool" where
  "is_upper c = (let n = char_code c in 65 \<le> n \<and> n \<le> 90)"

definition is_lower :: "char \<Rightarrow> bool" where
  "is_lower c = (let n = char_code c in 97 \<le> n \<and> n \<le> 122)"

definition is_alpha :: "char \<Rightarrow> bool" where
  "is_alpha c = (is_upper c \<or> is_lower c)"

definition is_hex :: "char \<Rightarrow> bool" where
  "is_hex c = (let n = char_code c in is_digit c \<or> (65 \<le> n \<and> n \<le> 70) \<or> (97 \<le> n \<and> n \<le> 102))"

definition lower_char :: "char \<Rightarrow> char" where
  "lower_char c = (if is_upper c then char_of (char_code c + 32) else c)"

definition upper_char :: "char \<Rightarrow> char" where
  "upper_char c = (if is_lower c then char_of (char_code c - 32) else c)"

definition py_lower :: "string \<Rightarrow> string" where
  "py_lower s = map lower_char s"

definition py_upper :: "string \<Rightarrow> string" where
  "py_upper s = map upper_char s"

definition strip_by :: "('a \<Rightarrow> bool) \<Rightarrow> 'a list \<Rightarrow> 'a list" where
  "strip_by p s = rev (dropWhile p (rev (dropWhile p s)))"

definition py_strip :: "string \<Rightarrow> string" where
  "py_strip s = strip_by is_space s"

definition py_strip_chars :: "string \<Rightarrow> string \<Rightarrow> string" where
  "py_strip_chars cs s = strip_by (\<lambda>c. c \<in> set cs) s"

definition py_startswith :: "string \<Rightarrow> string \<Rightarrow> bool" where
  "py_startswith s p = prefix p s"

definition py_endswith :: "string \<Rightarrow> string \<Rightarrow> bool" where
  "py_endswith s p = prefix (rev p) (rev s)"

fun py_in :: "string \<Rightarrow> string \<Rightarrow> bool" where
  "py_in sub [] = (sub = [])"
| "py_in sub (c # s) = (prefix sub (c # s) \<or> py_in sub s)"

definition py_replace_char :: "char \<Rightarrow> char \<Rightarrow> string \<Rightarrow> string" where
  "py_replace_char a b s = map (\<lambda>c. if c = a then b else c) s"

definition py_replace_str :: "char \<Rightarrow> string \<Rightarrow> string \<Rightarrow> string" where
  "py_replace_str a bs s = concat (map (\<lambda>c. if c = a then bs else [c]) s)"

text \<open>\<open>str.title\<close>: a letter is upper case exactly when no letter stands before it.\<close>

fun title_from :: "bool \<Rightarrow> string \<Rightarrow> string" where
  "title_from after_letter [] = []"
| "title_from after_letter (c # s) = (if after_letter then lower_char c else upper_char c) # title_from (is_alpha c) s"

definition py_title :: "string \<Rightarrow> string" where
  "py_title s = title_from False s"

definition em_dash :: string where
  "em_dash = [CHR 0xE2, CHR 0x80, CHR 0x94]"

definition ellipsis_char :: string where
  "ellipsis_char = [CHR 0xE2, CHR 0x80, CHR 0xA6]"

lemmas py_string_defs [py_eval] =
  char_code_def is_space_def is_digit_def is_upper_def is_lower_def is_alpha_def is_hex_def
  lower_char_def upper_char_def py_lower_def py_upper_def strip_by_def py_strip_def
  py_strip_chars_def py_startswith_def py_endswith_def py_replace_char_def Let_def

subsection \<open>Facts about string operations\<close>

lemma char_code_less: "char_code c < 256"
  by (simp add: char_code_def)

lemma char_code_char_of: "n < 256 \<Longrightarrow> char_code (char_of n) = n"
  by (simp add: char_code_def)

lemma char_code_inj: "char_code c = char_code d \<longleftrightarrow> c = d"
  by (simp add: char_code_def)

lemma is_space_not_digit: "is_digit c \<Longrightarrow> \<not> is_space c"
  by (auto simp: is_digit_def is_space_def Let_def)

lemma dropWhile_id: "(\<And>x. x \<in> set xs \<Longrightarrow> \<not> p x) \<Longrightarrow> dropWhile p xs = xs"
  by (cases xs) auto

lemma takeWhile_id: "(\<And>x. x \<in> set xs \<Longrightarrow> p x) \<Longrightarrow> takeWhile p xs = xs"
  by (induction xs) auto

lemma length_concat_map_const:
  "(\<And>x. x \<in> set xs \<Longrightarrow> length (f x) = k) \<Longrightarrow> length (concat (map f xs)) = k * length xs"
  by (induction xs) auto

lemma foldl_invariant:
  "P a \<Longrightarrow> (\<And>a x. x \<in> set xs \<Longrightarrow> P a \<Longrightarrow> P (f a x)) \<Longrightarrow> P (foldl f a xs)"
  by (induction xs arbitrary: a) auto

lemma strip_by_id:
  assumes "s = [] \<or> (\<not> p (hd s) \<and> \<not> p (last s))"
  shows "strip_by p s = s"
proof (cases "s = []")
  case True
  then show ?thesis by (simp add: strip_by_def)
next
  case False
  with assms have h: "\<not> p (hd s)" and l: "\<not> p (last s)" by auto
  have "dropWhile p s = s" using False h by (cases s) auto
  moreover have "dropWhile p (rev s) = rev s"
    using False l by (cases s rule: rev_cases) auto
  ultimately show ?thesis by (simp add: strip_by_def)
qed

lemma strip_by_ends:
  assumes "strip_by p s \<noteq> []"
  shows "\<not> p (hd (strip_by p s)) \<and> \<not> p (last (strip_by p s))"
proof -
  let ?t = "dropWhile p s" and ?u = "dropWhile p (rev (dropWhile p s))"
  have ne: "?u \<noteq> []" using assms by (simp add: strip_by_def)
  then have lastp: "\<not> p (hd ?u)" by (rule hd_dropWhile)
  have "?t \<noteq> []" using ne by (metis dropWhile.simps(1) rev.simps(1))
  then have hdt: "\<not> p (hd ?t)" by (rule hd_dropWhile)
  have "suffix ?u (rev ?t)" by (rule suffix_dropWhile)
  then have "prefix (rev ?u) ?t" by (simp add: suffix_to_prefix)
  then obtain z where "?t = rev ?u @ z" by (auto elim: prefixE)
  then have "hd ?t = hd (rev ?u)" using ne by (metis hd_append rev_is_Nil_conv)
  with hdt lastp ne show ?thesis
    by (simp add: strip_by_def last_rev)
qed

lemma strip_by_idem: "strip_by p (strip_by p s) = strip_by p s"
  using strip_by_ends [of p s] by (intro strip_by_id) auto

lemma set_strip_by: "set (strip_by p s) \<subseteq> set s"
  by (auto simp: strip_by_def dest!: set_dropWhileD)

lemma py_strip_idem [simp]: "py_strip (py_strip s) = py_strip s"
  by (simp add: py_strip_def strip_by_idem)

lemma py_strip_Nil [simp]: "py_strip [] = []"
  by (simp add: py_strip_def strip_by_def)

lemma py_strip_id: "s = [] \<or> (\<not> is_space (hd s) \<and> \<not> is_space (last s)) \<Longrightarrow> py_strip s = s"
  by (simp add: py_strip_def strip_by_id)

lemma py_strip_no_space: "(\<And>c. c \<in> set s \<Longrightarrow> \<not> is_space c) \<Longrightarrow> py_strip s = s"
  by (rule py_strip_id) (metis last_in_set list.set_sel(1))

lemma set_py_strip_chars: "set (py_strip_chars cs s) \<subseteq> set s"
  by (simp add: py_strip_chars_def set_strip_by)

lemma py_strip_chars_idem [simp]: "py_strip_chars cs (py_strip_chars cs s) = py_strip_chars cs s"
  by (simp add: py_strip_chars_def strip_by_idem)

lemma is_hex_not_space: "is_hex c \<Longrightarrow> \<not> is_space c"
  by (auto simp: is_hex_def is_digit_def is_space_def Let_def)

lemma py_in_sublist: "py_in sub s \<longleftrightarrow> sublist sub s"
proof (induction s)
  case Nil
  then show ?case by auto
next
  case (Cons c s)
  then show ?case by (simp only: py_in.simps sublist_Cons_right)
qed

lemma py_in_refl [simp]: "py_in s s"
  by (simp add: py_in_sublist)

lemma py_in_Nil [simp]: "py_in [] s"
  by (simp add: py_in_sublist)

lemma py_in_append: "py_in sub s \<Longrightarrow> py_in sub (a @ s @ b)"
  by (auto simp: py_in_sublist sublist_def) (metis append.assoc)

lemma lower_char_idem [simp]: "lower_char (lower_char c) = lower_char c"
proof (cases "is_upper c")
  case True
  then have "65 \<le> char_code c" "char_code c \<le> 90" by (auto simp: is_upper_def Let_def)
  then have "char_code (lower_char c) = char_code c + 32"
    using True by (simp add: lower_char_def char_code_char_of)
  then have "\<not> is_upper (lower_char c)"
    using \<open>65 \<le> char_code c\<close> by (simp add: is_upper_def Let_def)
  then show ?thesis by (simp add: lower_char_def)
next
  case False
  then show ?thesis by (simp add: lower_char_def)
qed

lemma py_lower_idem [simp]: "py_lower (py_lower s) = py_lower s"
  by (simp add: py_lower_def)

lemma lower_space: "is_space (lower_char c) = is_space c"
proof (cases "is_upper c")
  case True
  then have "65 \<le> char_code c" "char_code c \<le> 90" by (auto simp: is_upper_def Let_def)
  then show ?thesis using True by (simp add: lower_char_def is_space_def char_code_char_of Let_def)
next
  case False
  then show ?thesis by (simp add: lower_char_def)
qed

lemma py_lower_strip: "py_lower (py_strip v) = py_strip (py_lower v)"
  by (simp add: py_lower_def py_strip_def strip_by_def dropWhile_map rev_map comp_def lower_space)

lemma py_lower_append [simp]: "py_lower (a @ b) = py_lower a @ py_lower b"
  by (simp add: py_lower_def)

lemma py_lower_Nil_iff [simp]: "py_lower s = [] \<longleftrightarrow> s = []"
  by (simp add: py_lower_def)

end
