(* ===== verification/Py_Values.thy ===== *)
theory Py_Values
  imports Py_Prelude "HOL-Library.Char_ord" "HOL-Library.List_Lexorder"
begin

text \<open>
  Python's dynamically typed values, decimal numerals, dictionaries and the compact JSON text that
  \<open>json.dumps(obj, sort_keys=True, separators=(",", ":"))\<close> writes. The lemmas give the round trip
  between integers and their decimal text, the lookup laws of dictionaries and the behaviour of
  first-occurrence deduplication (\<open>dict.fromkeys\<close>), which several components rely on.
\<close>

section \<open>Decimal numerals\<close>

definition digit_char :: "nat \<Rightarrow> char" where
  "digit_char n = char_of (48 + n mod 10)"

definition digit_val :: "char \<Rightarrow> nat" where
  "digit_val c = char_code c - 48"

fun nat_str :: "nat \<Rightarrow> string" where
  "nat_str n = (if n < 10 then [digit_char n] else nat_str (n div 10) @ [digit_char (n mod 10)])"

declare nat_str.simps [simp del]

definition int_str :: "int \<Rightarrow> string" where
  "int_str i = (if i < 0 then CHR ''-'' # nat_str (nat (- i)) else nat_str (nat i))"

definition digits_val :: "string \<Rightarrow> nat" where
  "digits_val s = foldl (\<lambda>a c. 10 * a + digit_val c) 0 s"

text \<open>
  \<open>int(text)\<close>: surrounding white space is ignored, one sign is allowed, and single underscores may
  stand between digits; every other text raises \<open>ValueError\<close>, here \<open>None\<close>.
\<close>

fun digits_us :: "string \<Rightarrow> bool \<Rightarrow> nat \<Rightarrow> nat option" where
  "digits_us [] prev acc = (if prev then Some acc else None)"
| "digits_us (c # cs) prev acc =
     (if is_digit c then digits_us cs True (10 * acc + digit_val c)
      else if c = CHR ''_'' \<and> prev then digits_us cs False acc
      else None)"

definition py_int_of_str :: "string \<Rightarrow> int option" where
  "py_int_of_str s =
     (case py_strip s of
        [] \<Rightarrow> None
      | c # cs \<Rightarrow>
          (if c = CHR ''-'' then map_option (\<lambda>n. - int n) (digits_us cs False 0)
           else if c = CHR ''+'' then map_option int (digits_us cs False 0)
           else map_option int (digits_us (c # cs) False 0)))"

lemma digit_char_digit [simp]: "is_digit (digit_char n)"
  by (simp add: is_digit_def digit_char_def char_code_char_of Let_def)

lemma digit_val_digit_char [simp]: "digit_val (digit_char n) = n mod 10"
  by (simp add: digit_val_def digit_char_def char_code_char_of)

lemma nat_str_digits: "c \<in> set (nat_str n) \<Longrightarrow> is_digit c"
proof (induction n rule: nat_str.induct)
  case (1 n)
  then show ?case by (subst (asm) nat_str.simps) (auto split: if_splits)
qed

lemma nat_str_ne [simp]: "nat_str n \<noteq> []"
  by (subst nat_str.simps) simp

lemma digits_val_snoc: "digits_val (s @ [c]) = 10 * digits_val s + digit_val c"
  by (simp add: digits_val_def)

lemma digits_val_nat_str [simp]: "digits_val (nat_str n) = n"
proof (induction n rule: nat_str.induct)
  case (1 n)
  show ?case
  proof (cases "n < 10")
    case True
    then show ?thesis by (subst nat_str.simps) (simp add: digits_val_def)
  next
    case False
    then have "digits_val (nat_str n) = 10 * digits_val (nat_str (n div 10)) + n mod 10"
      by (subst nat_str.simps) (simp add: digits_val_snoc)
    also have "\<dots> = n" using 1 False by simp
    finally show ?thesis .
  qed
qed

lemma length_nat_str: "n < 10 ^ k \<Longrightarrow> 0 < k \<Longrightarrow> length (nat_str n) \<le> k"
proof (induction k arbitrary: n)
  case 0
  then show ?case by simp
next
  case (Suc k)
  show ?case
  proof (cases "n < 10")
    case True
    then show ?thesis by (subst nat_str.simps) simp
  next
    case False
    with Suc.prems have "0 < k" by (cases k) auto
    moreover have "n div 10 < 10 ^ k" using Suc.prems by (simp add: less_mult_imp_div_less mult.commute)
    ultimately have "length (nat_str (n div 10)) \<le> k" by (rule Suc.IH [rotated])
    with False show ?thesis by (subst nat_str.simps) simp
  qed
qed

lemma digits_us_digits:
  assumes "\<And>c. c \<in> set s \<Longrightarrow> is_digit c" and "s \<noteq> [] \<or> prev"
  shows "digits_us s prev a = Some (foldl (\<lambda>a c. 10 * a + digit_val c) a s)"
  using assms by (induction s arbitrary: prev a) auto

lemma is_digit_signs [simp]: "\<not> is_digit (CHR ''-'')" "\<not> is_digit (CHR ''+'')" "\<not> is_digit (CHR '':'')"
  by (simp_all add: py_eval)

lemma py_int_of_nat_str [simp]: "py_int_of_str (nat_str n) = Some (int n)"
proof -
  have dig: "\<And>c. c \<in> set (nat_str n) \<Longrightarrow> is_digit c" by (rule nat_str_digits)
  obtain c cs where s: "nat_str n = c # cs" by (cases "nat_str n") auto
  have "py_strip (nat_str n) = nat_str n"
    by (rule py_strip_id) (metis dig is_space_not_digit last_in_set list.set_sel(1))
  moreover have "is_digit c" using dig s by simp
  then have "c \<noteq> CHR ''-''" "c \<noteq> CHR ''+''" by auto
  moreover have "digits_us (nat_str n) False 0 = Some n"
    using digits_us_digits [of "nat_str n" False 0] dig digits_val_nat_str [of n]
    by (simp add: digits_val_def)
  ultimately show ?thesis by (simp add: py_int_of_str_def s)
qed

lemma py_int_of_int_str: "py_int_of_str (int_str i) = Some i"
proof (cases "i < 0")
  case False
  then show ?thesis by (simp add: int_str_def)
next
  case True
  let ?t = "nat_str (nat (- i))"
  have dig: "\<And>c. c \<in> set ?t \<Longrightarrow> is_digit c" by (rule nat_str_digits)
  have "last (CHR ''-'' # ?t) = last ?t" by simp
  then have "\<not> is_space (last (CHR ''-'' # ?t))"
    using dig [OF last_in_set] is_space_not_digit by simp
  then have "py_strip (CHR ''-'' # ?t) = CHR ''-'' # ?t"
    by (intro py_strip_id) (simp add: py_eval)
  moreover have "digits_us ?t False 0 = Some (nat (- i))"
    using digits_us_digits [of ?t False 0] dig digits_val_nat_str [of "nat (- i)"]
    by (simp add: digits_val_def)
  ultimately show ?thesis using True by (simp add: py_int_of_str_def int_str_def)
qed

text \<open>Rounding to the nearest integer, ties to the even one, as \<open>round\<close> and the \<open>f\<close> format do.\<close>

definition round_half_even :: "rat \<Rightarrow> int" where
  "round_half_even x =
     (let f = \<lfloor>x\<rfloor>; d = x - of_int f
      in if d < 1/2 then f else if d > 1/2 then f + 1 else if even f then f else f + 1)"

lemma round_half_even_mono: "x \<le> y \<Longrightarrow> round_half_even x \<le> round_half_even y"
proof -
  assume le: "x \<le> y"
  show ?thesis
  proof (cases "\<lfloor>x\<rfloor> = \<lfloor>y\<rfloor>")
    case True
    then show ?thesis using le by (auto simp: round_half_even_def Let_def)
  next
    case False
    then have "\<lfloor>x\<rfloor> + 1 \<le> \<lfloor>y\<rfloor>" using floor_mono [OF le] by linarith
    moreover have "round_half_even x \<le> \<lfloor>x\<rfloor> + 1" "\<lfloor>y\<rfloor> \<le> round_half_even y" by (auto simp: round_half_even_def Let_def)
    ultimately show ?thesis by linarith
  qed
qed

lemma round_half_even_int [simp]: "round_half_even (of_int n) = n"
  by (simp add: round_half_even_def)

text \<open>The decimal text of a number of thousandths, without trailing zeros.\<close>

definition decimal3 :: "int \<Rightarrow> string" where
  "decimal3 n =
     (let a = nat \<bar>n\<bar>; frac = nat_str (1000 + a mod 1000);
          digs = rev (dropWhile (\<lambda>c. c = CHR ''0'') (rev (tl frac)))
      in (if n < 0 then ''-'' else []) @ nat_str (a div 1000) @ ''.'' @ (if digs = [] then ''0'' else digs))"

section \<open>Values\<close>

datatype pyval =
    PyNone
  | PyBool bool
  | PyInt int
  | PyFloat rat string
  | PyStr string
  | PyList "pyval list"
  | PyDict "(string \<times> pyval) list"

type_synonym pydict = "(string \<times> pyval) list"

definition float3 :: "rat \<Rightarrow> pyval" where
  "float3 x = PyFloat x (decimal3 (round_half_even (1000 * x)))"

fun truthy :: "pyval \<Rightarrow> bool" where
  "truthy PyNone = False"
| "truthy (PyBool b) = b"
| "truthy (PyInt i) = (i \<noteq> 0)"
| "truthy (PyFloat v r) = (v \<noteq> 0)"
| "truthy (PyStr s) = (s \<noteq> [])"
| "truthy (PyList xs) = (xs \<noteq> [])"
| "truthy (PyDict d) = (d \<noteq> [])"

definition py_or :: "pyval \<Rightarrow> pyval \<Rightarrow> pyval" where
  "py_or a b = (if truthy a then a else b)"

fun is_bool :: "pyval \<Rightarrow> bool" where
  "is_bool (PyBool b) = True"
| "is_bool _ = False"

fun is_str :: "pyval \<Rightarrow> bool" where
  "is_str (PyStr s) = True"
| "is_str _ = False"

fun is_list :: "pyval \<Rightarrow> bool" where
  "is_list (PyList s) = True"
| "is_list _ = False"

fun is_dict :: "pyval \<Rightarrow> bool" where
  "is_dict (PyDict d) = True"
| "is_dict _ = False"

definition join_with :: "'a list \<Rightarrow> 'a list list \<Rightarrow> 'a list" where
  "join_with sep xs = (case xs of [] \<Rightarrow> [] | y # ys \<Rightarrow> y @ concat (map (\<lambda>z. sep @ z) ys))"

definition hex_char :: "nat \<Rightarrow> char" where
  "hex_char n = (if n < 10 then char_of (48 + n) else char_of (87 + n))"

definition hex2 :: "nat \<Rightarrow> string" where
  "hex2 n = [hex_char (n div 16 mod 16), hex_char (n mod 16)]"

definition repr_char :: "char \<Rightarrow> char \<Rightarrow> string" where
  "repr_char q c =
     (if c = q \<or> c = CHR 0x5C then [CHR 0x5C, c]
      else if c = CHR 0x0A then [CHR 0x5C, CHR ''n'']
      else if c = CHR 0x0D then [CHR 0x5C, CHR ''r'']
      else if c = CHR 0x09 then [CHR 0x5C, CHR ''t'']
      else if char_code c < 32 \<or> char_code c = 127 then [CHR 0x5C, CHR ''x''] @ hex2 (char_code c)
      else [c])"

definition py_repr_str :: "string \<Rightarrow> string" where
  "py_repr_str s =
     (let q = (if CHR 0x27 \<in> set s \<and> CHR 0x22 \<notin> set s then CHR 0x22 else CHR 0x27)
      in [q] @ concat (map (repr_char q) s) @ [q])"

fun py_repr :: "pyval \<Rightarrow> string" where
  "py_repr PyNone = ''None''"
| "py_repr (PyBool b) = (if b then ''True'' else ''False'')"
| "py_repr (PyInt i) = int_str i"
| "py_repr (PyFloat v r) = r"
| "py_repr (PyStr s) = py_repr_str s"
| "py_repr (PyList xs) = ''['' @ join_with '', '' (map py_repr xs) @ '']''"
| "py_repr (PyDict d) = ''{'' @ join_with '', '' (map (\<lambda>(k, v). py_repr_str k @ '': '' @ py_repr v) d) @ ''}''"

fun py_str :: "pyval \<Rightarrow> string" where
  "py_str (PyStr s) = s"
| "py_str v = py_repr v"

text \<open>\<open>int(v)\<close>; \<open>None\<close> stands for the \<open>TypeError\<close> or \<open>ValueError\<close> that the callers catch.\<close>

fun py_int :: "pyval \<Rightarrow> int option" where
  "py_int (PyBool b) = Some (if b then 1 else 0)"
| "py_int (PyInt i) = Some i"
| "py_int (PyFloat v r) = Some (if v < 0 then - \<lfloor>- v\<rfloor> else \<lfloor>v\<rfloor>)"
| "py_int (PyStr s) = py_int_of_str s"
| "py_int _ = None"

fun py_type_name :: "pyval \<Rightarrow> string" where
  "py_type_name PyNone = ''NoneType''"
| "py_type_name (PyBool b) = ''bool''"
| "py_type_name (PyInt i) = ''int''"
| "py_type_name (PyFloat v r) = ''float''"
| "py_type_name (PyStr s) = ''str''"
| "py_type_name (PyList xs) = ''list''"
| "py_type_name (PyDict d) = ''dict''"

text \<open>\<open>list(v)\<close> and the iteration \<open>for x in v\<close>.\<close>

fun list_of_value :: "pyval \<Rightarrow> pyval list py_result" where
  "list_of_value (PyList xs) = Inr xs"
| "list_of_value (PyStr s) = Inr (map (\<lambda>c. PyStr [c]) s)"
| "list_of_value (PyDict d) = Inr (map (\<lambda>kv. PyStr (fst kv)) d)"
| "list_of_value v = Inl (TypeError (py_type_name v @ '' object is not iterable''))"

definition no_attribute :: "pyval \<Rightarrow> string \<Rightarrow> py_error" where
  "no_attribute v a = AttributeError ([CHR 0x27] @ py_type_name v @ [CHR 0x27] @ '' object has no attribute '' @ [CHR 0x27] @ a @ [CHR 0x27])"

text \<open>A zero prints as \<open>0.0\<close> or \<open>-0.0\<close>.\<close>

fun plain_float :: "pyval \<Rightarrow> bool" where
  "plain_float (PyFloat v r) = (v = 0 \<longrightarrow> r \<in> {''0.0'', ''-0.0''})"
| "plain_float v = True"

section \<open>Dictionaries\<close>

definition dict_get :: "pydict \<Rightarrow> string \<Rightarrow> pyval" where
  "dict_get d k = (case map_of d k of None \<Rightarrow> PyNone | Some v \<Rightarrow> v)"

definition dict_get_or :: "pydict \<Rightarrow> string \<Rightarrow> pyval \<Rightarrow> pyval" where
  "dict_get_or d k v0 = (case map_of d k of None \<Rightarrow> v0 | Some v \<Rightarrow> v)"

definition has_key :: "pydict \<Rightarrow> string \<Rightarrow> bool" where
  "has_key d k = (map_of d k \<noteq> None)"

fun dict_set :: "(string \<times> 'v) list \<Rightarrow> string \<Rightarrow> 'v \<Rightarrow> (string \<times> 'v) list" where
  "dict_set [] k v = [(k, v)]"
| "dict_set ((a, w) # d) k v = (if a = k then (k, v) # d else (a, w) # dict_set d k v)"

definition dict_update :: "pydict \<Rightarrow> pydict \<Rightarrow> pydict" where
  "dict_update d e = foldl (\<lambda>acc (k, v). dict_set acc k v) d e"

definition dict_setdefault :: "pydict \<Rightarrow> string \<Rightarrow> pyval \<Rightarrow> pydict" where
  "dict_setdefault d k v = (if has_key d k then d else dict_set d k v)"

fun as_dict :: "pyval \<Rightarrow> pydict" where
  "as_dict (PyDict d) = d"
| "as_dict _ = []"

fun as_list :: "pyval \<Rightarrow> pyval list" where
  "as_list (PyList xs) = xs"
| "as_list _ = []"

lemma map_of_dict_set: "map_of (dict_set d k v) = (map_of d)(k \<mapsto> v)"
  by (induction d k v rule: dict_set.induct) (auto simp: fun_eq_iff)

lemma keys_dict_set: "fst ` set (dict_set d k v) = insert k (fst ` set d)"
  by (induction d k v rule: dict_set.induct) auto

lemma distinct_dict_set: "distinct (map fst d) \<Longrightarrow> distinct (map fst (dict_set d k v))"
proof (induction d k v rule: dict_set.induct)
  case (2 a w d k v)
  then show ?case using keys_dict_set [of d k v] by (auto simp: image_iff)
qed simp

lemma map_of_dict_update: "map_of (dict_update d e) k = (case map_of (rev e) k of None \<Rightarrow> map_of d k | Some v \<Rightarrow> Some v)"
proof (induction e rule: rev_induct)
  case Nil
  then show ?case by (simp add: dict_update_def)
next
  case (snoc x e)
  obtain a v where x: "x = (a, v)" by (cases x)
  have "dict_update d (e @ [x]) = dict_set (dict_update d e) a v"
    by (simp add: dict_update_def x)
  then show ?case using snoc by (simp add: map_of_dict_set x)
qed

lemma dict_get_set [simp]: "dict_get (dict_set d k v) k' = (if k' = k then v else dict_get d k')"
  by (simp add: dict_get_def map_of_dict_set)

lemma has_key_set [simp]: "has_key (dict_set d k v) k' \<longleftrightarrow> k' = k \<or> has_key d k'"
  by (simp add: has_key_def map_of_dict_set)

lemma dict_get_setdefault:
  "dict_get (dict_setdefault d k v) k' = (if k' = k \<and> \<not> has_key d k then v else dict_get d k')"
  by (auto simp: dict_setdefault_def)

section \<open>First-occurrence deduplication\<close>

text \<open>
  \<open>list(dict.fromkeys(xs))\<close> and the loops with a \<open>seen\<close> set keep the first element for each key, in
  order. \<open>dedupe_by\<close> is that loop.
\<close>

fun dedupe_by :: "('a \<Rightarrow> 'k) \<Rightarrow> 'k list \<Rightarrow> 'a list \<Rightarrow> 'a list" where
  "dedupe_by key seen [] = []"
| "dedupe_by key seen (x # xs) =
     (if key x \<in> set seen then dedupe_by key seen xs
      else x # dedupe_by key (key x # seen) xs)"

definition dict_fromkeys :: "'a list \<Rightarrow> 'a list" where
  "dict_fromkeys xs = dedupe_by (\<lambda>x. x) [] xs"

lemma dedupe_by_keys: "key ` set (dedupe_by key seen xs) = key ` set xs - set seen"
  by (induction key seen xs rule: dedupe_by.induct) auto

lemma dedupe_by_subset: "set (dedupe_by key seen xs) \<subseteq> set xs"
  by (induction key seen xs rule: dedupe_by.induct) auto

lemma dedupe_by_distinct: "distinct (map key (dedupe_by key seen xs))"
proof (induction key seen xs rule: dedupe_by.induct)
  case (2 key seen x xs)
  have "key x \<notin> key ` set (dedupe_by key (key x # seen) xs)"
    by (simp add: dedupe_by_keys)
  then show ?case using 2 by auto
qed simp

lemma dedupe_by_id:
  "distinct (map key xs) \<Longrightarrow> key ` set xs \<inter> set seen = {} \<Longrightarrow> dedupe_by key seen xs = xs"
  by (induction key seen xs rule: dedupe_by.induct) auto

lemma set_dict_fromkeys [simp]: "set (dict_fromkeys xs) = set xs"
  using dedupe_by_keys [of "\<lambda>x. x" "[]" xs] by (simp add: dict_fromkeys_def)

lemma distinct_dict_fromkeys [simp]: "distinct (dict_fromkeys xs)"
  using dedupe_by_distinct [of "\<lambda>x. x" "[]" xs] by (simp add: dict_fromkeys_def)

section \<open>Searching and replacing in strings\<close>

text \<open>\<open>str.replace(old, new)\<close> for a non-empty \<open>old\<close>, and \<open>str.find\<close>.\<close>

fun replace_sub :: "string \<Rightarrow> string \<Rightarrow> string \<Rightarrow> string" where
  "replace_sub old new [] = []"
| "replace_sub old new (c # s) =
     (if old \<noteq> [] \<and> prefix old (c # s) then new @ replace_sub old new (drop (length old - 1) s)
      else c # replace_sub old new s)"

fun find_sub :: "string \<Rightarrow> string \<Rightarrow> nat option" where
  "find_sub p [] = (if p = [] then Some 0 else None)"
| "find_sub p (c # s) = (if prefix p (c # s) then Some 0 else map_option Suc (find_sub p s))"

lemma find_sub_None: "find_sub p s = None \<longleftrightarrow> \<not> py_in p s"
  by (induction p s rule: find_sub.induct) auto

lemma set_replace_sub: "set (replace_sub old new s) \<subseteq> set new \<union> set s"
proof (induction old new s rule: replace_sub.induct)
  case (2 old new c s)
  then show ?case using set_drop_subset[of "length old - 1" s] by auto
qed simp

lemma replace_sub_other: "\<not> prefix old (c # s) \<Longrightarrow> replace_sub old new (c # s) = c # replace_sub old new s"
  by simp

text \<open>\<open>s.split(c)[-1]\<close> for one character, and \<open>str.lstrip\<close>, \<open>str.rstrip\<close> with a set of characters.\<close>

definition last_field :: "char \<Rightarrow> string \<Rightarrow> string" where
  "last_field c s = rev (takeWhile (\<lambda>x. x \<noteq> c) (rev s))"

definition py_lstrip_chars :: "string \<Rightarrow> string \<Rightarrow> string" where
  "py_lstrip_chars cs s = dropWhile (\<lambda>c. c \<in> set cs) s"

definition py_rstrip_chars :: "string \<Rightarrow> string \<Rightarrow> string" where
  "py_rstrip_chars cs s = rev (dropWhile (\<lambda>c. c \<in> set cs) (rev s))"

section \<open>Access to untyped values\<close>

text \<open>\<open>v.get(key)\<close> and \<open>v.get(key, default)\<close> on a value of any type.\<close>

fun value_get_or :: "pyval \<Rightarrow> string \<Rightarrow> pyval \<Rightarrow> pyval py_result" where
  "value_get_or (PyDict d) k v0 = Inr (dict_get_or d k v0)"
| "value_get_or v k v0 = Inl (no_attribute v ''get'')"

abbreviation value_get :: "pyval \<Rightarrow> string \<Rightarrow> pyval py_result" where
  "value_get v k \<equiv> value_get_or v k PyNone"

text \<open>\<open>v.get(key) or {}\<close>, \<open>v.get(key) or []\<close>.\<close>

definition or_dict :: "pyval \<Rightarrow> pyval" where
  "or_dict v = py_or v (PyDict [])"

definition iter_or_empty :: "pyval \<Rightarrow> pyval list py_result" where
  "iter_or_empty v = (if truthy v then list_of_value v else Inr [])"

text \<open>\<open>key in v\<close> for a string \<open>key\<close>.\<close>

fun value_contains :: "string \<Rightarrow> pyval \<Rightarrow> bool py_result" where
  "value_contains k (PyDict d) = Inr (has_key d k)"
| "value_contains k (PyStr s) = Inr (py_in k s)"
| "value_contains k (PyList xs) = Inr (PyStr k \<in> set xs)"
| "value_contains k v = Inl (TypeError (''argument of type '' @ [CHR 0x27] @ py_type_name v @ [CHR 0x27] @ '' is not iterable''))"

text \<open>An optional string or number as a value.\<close>

fun optional_text :: "string option \<Rightarrow> pyval" where
  "optional_text None = PyNone"
| "optional_text (Some s) = PyStr s"

fun optional_int :: "int option \<Rightarrow> pyval" where
  "optional_int None = PyNone"
| "optional_int (Some i) = PyInt i"

text \<open>A loop that returns \<open>True\<close> at the first element for which the test holds.\<close>

fun any_r :: "('a \<Rightarrow> bool py_result) \<Rightarrow> 'a list \<Rightarrow> bool py_result" where
  "any_r f [] = Inr False"
| "any_r f (x # xs) = bind_r (f x) (\<lambda>b. if b then Inr True else any_r f xs)"

lemma any_r_iff: "any_r f xs = Inr b \<Longrightarrow> b \<longleftrightarrow> (\<exists>x \<in> set xs. f x = Inr True)"
  by (induction xs arbitrary: b) (auto simp: bind_r_Inr split: if_splits)

section \<open>Compact JSON with sorted keys\<close>

definition json_char :: "char \<Rightarrow> string" where
  "json_char c =
     (if c = CHR 0x22 \<or> c = CHR 0x5C then [CHR 0x5C, c]
      else if c = CHR 0x0A then [CHR 0x5C, CHR ''n'']
      else if c = CHR 0x0D then [CHR 0x5C, CHR ''r'']
      else if c = CHR 0x09 then [CHR 0x5C, CHR ''t'']
      else if c = CHR 0x08 then [CHR 0x5C, CHR ''b'']
      else if c = CHR 0x0C then [CHR 0x5C, CHR ''f'']
      else if char_code c < 32 \<or> 127 \<le> char_code c
        then [CHR 0x5C, CHR ''u'', CHR ''0'', CHR ''0''] @ hex2 (char_code c)
      else [c])"

definition json_str :: "string \<Rightarrow> string" where
  "json_str s = [CHR 0x22] @ concat (map json_char s) @ [CHR 0x22]"

fun json_dumps :: "pyval \<Rightarrow> string" where
  "json_dumps PyNone = ''null''"
| "json_dumps (PyBool b) = (if b then ''true'' else ''false'')"
| "json_dumps (PyInt i) = int_str i"
| "json_dumps (PyFloat v r) = r"
| "json_dumps (PyStr s) = json_str s"
| "json_dumps (PyList xs) = ''['' @ join_with '','' (map json_dumps xs) @ '']''"
| "json_dumps (PyDict d) =
     ''{'' @ join_with '',''
       (map (\<lambda>(k, t). json_str k @ '':'' @ t) (sort_key fst (map (\<lambda>(k, v). (k, json_dumps v)) d))) @ ''}''"

text \<open>
  \<open>json.dumps\<close> with the given separators, with sorted or kept key order; the default separators are a comma and a colon with a blank.
\<close>

fun json_text :: "bool \<Rightarrow> string \<Rightarrow> string \<Rightarrow> pyval \<Rightarrow> string" where
  "json_text srt isep ksep PyNone = ''null''"
| "json_text srt isep ksep (PyBool b) = (if b then ''true'' else ''false'')"
| "json_text srt isep ksep (PyInt i) = int_str i"
| "json_text srt isep ksep (PyFloat v r) = r"
| "json_text srt isep ksep (PyStr s) = json_str s"
| "json_text srt isep ksep (PyList xs) = ''['' @ join_with isep (map (json_text srt isep ksep) xs) @ '']''"
| "json_text srt isep ksep (PyDict d) =
     (let items = map (\<lambda>(k, v). (k, json_text srt isep ksep v)) d
      in ''{'' @ join_with isep (map (\<lambda>(k, t). json_str k @ ksep @ t) (if srt then sort_key fst items else items)) @ ''}'')"

lemma json_text_compact: "json_text True '','' '':'' v = json_dumps v"
proof (induction v)
  case (PyList xs)
  then show ?case by (simp cong: map_cong)
next
  case (PyDict d)
  then have "map (\<lambda>(k, v). (k, json_text True '','' '':'' v)) d = map (\<lambda>(k, v). (k, json_dumps v)) d" by auto
  then show ?case by (simp only: json_text.simps json_dumps.simps if_True Let_def)
qed simp_all

end
