(* ===== verification/Proxy_Parser.thy ===== *)
theory Proxy_Parser
  imports Py_Values
begin

text \<open>
  The WinINET \<open>ProxyServer\<close> parser, \<open>src/proxy_guard/parser.py\<close>. The two regular expressions of the
  module are deterministic enough to be written as recursive scanners: \<open>match_pair\<close> and
  \<open>pair_finditer\<close> are \<open>_PAIR.finditer\<close> (\<open>scheme = rest\<close> up to a semicolon, including the one
  backtracking step over white space after the equals sign), and \<open>match_host_port\<close> is \<open>_HOST_PORT.match\<close>
  on a stripped segment. The lemmas bound every port, give the round trip for \<open>host:port\<close>
  texts and relate the loopback flag to the host.
\<close>

section \<open>Data\<close>

datatype parsed_mode =
    Missing | Malformed | Disabled_server_field | Manual_localhost | Manual_explicit
  | Socks_localhost | Http_https_localhost | Multi_scheme_explicit

record parsed_proxy =
  pp_raw :: "string option"
  is_missing :: bool
  is_malformed :: bool
  is_localhost_proxy :: bool
  localhost_host :: "string option"
  localhost_port :: "int option"
  parsed_mode :: parsed_mode
  socks_port :: "int option"
  http_localhost_port :: "int option"
  https_localhost_port :: "int option"

section \<open>Regular expressions\<close>

definition match_pair :: "string \<Rightarrow> (string \<times> string \<times> string) option" where
  "match_pair s =
     (let scheme = takeWhile is_alpha s;
          r1 = dropWhile is_space (dropWhile is_alpha s)
      in if scheme = [] then None
         else case r1 of
                [] \<Rightarrow> None
              | c # r2 \<Rightarrow>
                  (if c \<noteq> CHR ''='' then None
                   else let w = takeWhile is_space r2;
                            r3 = dropWhile is_space r2;
                            body = takeWhile (\<lambda>c. c \<noteq> CHR '';'') r3
                        in if body \<noteq> [] then Some (scheme, body, dropWhile (\<lambda>c. c \<noteq> CHR '';'') r3)
                           else if w \<noteq> [] then Some (scheme, [last w], r3)
                           else None))"

lemma length_dropWhile_Cons: "dropWhile p xs = c # ys \<Longrightarrow> length ys < length xs"
  using length_dropWhile_le [of p xs] by simp

lemma match_pair_shorter:
  assumes "match_pair s = Some (a, b, r)"
  shows "length r < length s"
proof -
  let ?r1 = "dropWhile is_space (dropWhile is_alpha s)"
  from assms obtain r2 where r1: "?r1 = CHR ''='' # r2" and
    r: "r = dropWhile (\<lambda>c. c \<noteq> CHR '';'') (dropWhile is_space r2) \<or> r = dropWhile is_space r2"
    by (auto simp: match_pair_def Let_def split: list.splits if_splits)
  have "length r2 < length s"
    using length_dropWhile_Cons [OF r1] length_dropWhile_le [of is_alpha s] by simp
  moreover have "length r \<le> length r2"
    using r length_dropWhile_le [of is_space r2]
      length_dropWhile_le [of "\<lambda>c. c \<noteq> CHR '';''" "dropWhile is_space r2"] by auto
  ultimately show ?thesis by simp
qed

function pair_finditer :: "string \<Rightarrow> (string \<times> string) list" where
  "pair_finditer [] = []"
| "pair_finditer (c # cs) =
     (case match_pair (c # cs) of
        Some (scheme, body, r) \<Rightarrow> (scheme, body) # pair_finditer r
      | None \<Rightarrow> pair_finditer cs)"
  by pat_completeness auto
termination
  by (relation "measure length") (auto dest: match_pair_shorter)

definition port_suffix :: "string \<Rightarrow> string option option" where
  "port_suffix r =
     (case r of
        [] \<Rightarrow> Some None
      | c # ds \<Rightarrow>
          (if c = CHR '':'' \<and> 1 \<le> length ds \<and> length ds \<le> 5 \<and> list_all is_digit ds
           then Some (Some ds) else None))"

definition match_host_port :: "string \<Rightarrow> (string \<times> string option) option" where
  "match_host_port s =
     (let h = takeWhile (\<lambda>c. \<not> is_space c \<and> c \<noteq> CHR '':'') s;
          bracketed =
            (case s of
               [] \<Rightarrow> None
             | c # t \<Rightarrow>
                 (let b = takeWhile (\<lambda>c. is_hex c \<or> c = CHR '':'' \<or> c = CHR ''.'') t;
                      r = dropWhile (\<lambda>c. is_hex c \<or> c = CHR '':'' \<or> c = CHR ''.'') t
                  in if c = CHR ''['' \<and> b \<noteq> [] \<and> r \<noteq> [] \<and> hd r = CHR '']''
                     then map_option (\<lambda>p. (''['' @ b @ '']'', p)) (port_suffix (tl r))
                     else None))
      in case port_suffix (drop (length h) s) of
           Some p \<Rightarrow> (if h \<noteq> [] then Some (h, p) else bracketed)
         | None \<Rightarrow> bracketed)"

section \<open>The parser\<close>

definition is_local_host :: "string \<Rightarrow> bool" where
  "is_local_host host =
     (let h = py_lower (py_strip_chars ''[]'' (py_strip host))
      in h \<in> {''127.0.0.1'', ''localhost'', ''::1''} \<or> py_startswith h ''127.'')"

definition mode_from_parts ::
  "string option \<Rightarrow> bool \<Rightarrow> bool \<Rightarrow> bool \<Rightarrow> int option \<Rightarrow> int option \<Rightarrow> int option \<Rightarrow> int option \<Rightarrow> parsed_mode" where
  "mode_from_parts raw missing malformed localhost lport socks http_lp https_lp =
     (if missing then Missing
      else if malformed then Malformed
      else if http_lp \<noteq> None \<or> https_lp \<noteq> None
        then (if localhost then Http_https_localhost else Multi_scheme_explicit)
      else if socks \<noteq> None then (if localhost then Socks_localhost else Multi_scheme_explicit)
      else if localhost \<and> lport \<noteq> None then Manual_localhost
      else if lport \<noteq> None then Manual_explicit
      else if raw \<noteq> None \<and> py_strip (the raw) = [] then Disabled_server_field
      else Malformed)"

definition parse_host_port_segment :: "string \<Rightarrow> string option \<times> int option \<times> bool" where
  "parse_host_port_segment segment0 =
     (let segment = py_strip segment0
      in if segment = [] then (None, None, False)
         else case match_host_port segment of
                None \<Rightarrow> (None, None, False)
              | Some (host, None) \<Rightarrow> (Some host, None, False)
              | Some (host, Some port_s) \<Rightarrow>
                  (let p = int (digits_val port_s)
                   in if 1 \<le> p \<and> p \<le> 65535 then (Some host, Some p, True)
                      else (Some host, None, False)))"

definition or_port :: "int option \<Rightarrow> int option \<Rightarrow> int option" where
  "or_port a b = (case a of Some p \<Rightarrow> (if p \<noteq> 0 then Some p else b) | None \<Rightarrow> b)"

record pair_acc =
  acc_socks :: "int option"
  acc_http :: "int option"
  acc_https :: "int option"
  acc_host :: "string option"
  acc_lport :: "int option"
  acc_local :: bool
  acc_ok :: bool

definition pair_acc_init :: pair_acc where
  "pair_acc_init = \<lparr>acc_socks = None, acc_http = None, acc_https = None, acc_host = None,
     acc_lport = None, acc_local = False, acc_ok = False\<rparr>"

text \<open>One iteration of the loop over \<open>pairs\<close>.\<close>

definition pair_step :: "pair_acc \<Rightarrow> string \<times> string \<Rightarrow> pair_acc" where
  "pair_step a pm =
     (let scheme = py_lower (fst pm)
      in case parse_host_port_segment (py_strip (snd pm)) of
           (Some host, Some port, True) \<Rightarrow>
             (let a1 = a\<lparr>acc_ok := True\<rparr>;
                  a2 = (if is_local_host host
                        then a1\<lparr>acc_local := True, acc_host := Some (py_strip_chars ''[]'' host),
                                acc_lport := or_port (acc_lport a1) (Some port)\<rparr>
                        else a1)
              in if scheme = ''socks'' then a2\<lparr>acc_socks := Some port\<rparr>
                 else if scheme = ''http'' then a2\<lparr>acc_http := Some port\<rparr>
                 else if scheme = ''https'' then a2\<lparr>acc_https := Some port\<rparr>
                 else a2)
         | _ \<Rightarrow> a)"

definition missing_proxy :: "string option \<Rightarrow> parsed_proxy" where
  "missing_proxy raw = \<lparr>pp_raw = raw, is_missing = True, is_malformed = False,
     is_localhost_proxy = False, localhost_host = None, localhost_port = None,
     parsed_mode = Missing, socks_port = None, http_localhost_port = None, https_localhost_port = None\<rparr>"

definition malformed_proxy :: "string option \<Rightarrow> parsed_proxy" where
  "malformed_proxy raw = \<lparr>pp_raw = raw, is_missing = False, is_malformed = True,
     is_localhost_proxy = False, localhost_host = None, localhost_port = None,
     parsed_mode = Malformed, socks_port = None, http_localhost_port = None, https_localhost_port = None\<rparr>"

definition parse_pairs :: "string \<Rightarrow> (string \<times> string) list \<Rightarrow> parsed_proxy" where
  "parse_pairs raw pairs =
     (let a = foldl pair_step pair_acc_init pairs
      in if \<not> acc_ok a then malformed_proxy (Some raw)
         else let primary_port = or_port (acc_lport a) (or_port (acc_https a) (or_port (acc_http a) (acc_socks a)))
              in \<lparr>pp_raw = Some raw, is_missing = False, is_malformed = False,
                  is_localhost_proxy = acc_local a, localhost_host = acc_host a,
                  localhost_port = (if acc_local a then primary_port else None),
                  parsed_mode = mode_from_parts (Some raw) False False (acc_local a) primary_port
                                  (acc_socks a) (acc_http a) (acc_https a),
                  socks_port = acc_socks a, http_localhost_port = acc_http a,
                  https_localhost_port = acc_https a\<rparr>)"

definition parse_proxy_server :: "string option \<Rightarrow> parsed_proxy" where
  "parse_proxy_server raw_opt =
     (case raw_opt of
        None \<Rightarrow> missing_proxy None
      | Some raw \<Rightarrow>
          (let text = py_strip raw
           in if text = [] then missing_proxy (Some raw)
              else let pairs = pair_finditer text
                   in if pairs \<noteq> [] then parse_pairs raw pairs
                      else case parse_host_port_segment text of
                             (Some host, Some port, True) \<Rightarrow>
                               (let local = is_local_host host
                                in \<lparr>pp_raw = Some raw, is_missing = False, is_malformed = False,
                                    is_localhost_proxy = local,
                                    localhost_host = (if local then Some (py_strip_chars ''[]'' host) else None),
                                    localhost_port = Some port,
                                    parsed_mode = mode_from_parts (Some raw) False False local (Some port) None None None,
                                    socks_port = None, http_localhost_port = None,
                                    https_localhost_port = None\<rparr>)
                           | _ \<Rightarrow> malformed_proxy (Some raw)))"

definition summarize_proxy_risk :: "parsed_proxy \<Rightarrow> bool \<Rightarrow> string" where
  "summarize_proxy_risk parsed enabled =
     (if \<not> enabled then ''low''
      else if is_localhost_proxy parsed then ''high''
      else if parsed_mode parsed \<in> {Manual_explicit, Multi_scheme_explicit, Socks_localhost} then ''medium''
      else if is_malformed parsed then ''medium''
      else ''low'')"

section \<open>Well-formed results\<close>

definition port_ok :: "int option \<Rightarrow> bool" where
  "port_ok p = (case p of None \<Rightarrow> True | Some n \<Rightarrow> 1 \<le> n \<and> n \<le> 65535)"

definition wf_parsed :: "parsed_proxy \<Rightarrow> bool" where
  "wf_parsed pp \<longleftrightarrow>
     port_ok (localhost_port pp) \<and> port_ok (socks_port pp) \<and>
     port_ok (http_localhost_port pp) \<and> port_ok (https_localhost_port pp) \<and>
     (is_missing pp \<longleftrightarrow> parsed_mode pp = Missing) \<and>
     (is_malformed pp \<longrightarrow> parsed_mode pp = Malformed) \<and>
     parsed_mode pp \<noteq> Disabled_server_field \<and>
     (if is_localhost_proxy pp
      then (\<exists>h. localhost_host pp = Some h \<and> is_local_host h) \<and> localhost_port pp \<noteq> None
      else localhost_host pp = None)"

definition acc_inv :: "pair_acc \<Rightarrow> bool" where
  "acc_inv a \<longleftrightarrow>
     port_ok (acc_socks a) \<and> port_ok (acc_http a) \<and> port_ok (acc_https a) \<and> port_ok (acc_lport a) \<and>
     (if acc_local a then (\<exists>h. acc_host a = Some h \<and> is_local_host h) \<and> acc_lport a \<noteq> None
      else acc_host a = None \<and> acc_lport a = None)"

lemma port_ok_simps [simp]: "port_ok None" "port_ok (Some n) \<longleftrightarrow> 1 \<le> n \<and> n \<le> 65535"
  by (simp_all add: port_ok_def)

lemma or_port_ok: "port_ok a \<Longrightarrow> port_ok b \<Longrightarrow> port_ok (or_port a b)"
  by (auto simp: or_port_def split: option.splits)

lemma or_port_Some: "port_ok (Some p) \<Longrightarrow> or_port (Some p) b = Some p"
  by (auto simp: or_port_def)

lemma separators_not_space [simp]:
  "\<not> is_space (CHR '':'')" "\<not> is_space (CHR ''='')" "\<not> is_space (CHR '';'')" "\<not> is_space (CHR ''.'')"
  "\<not> is_space (CHR ''['')" "\<not> is_space (CHR '']'')"
  by (simp_all add: py_eval)

lemma match_host_no_space:
  assumes "match_host_port s = Some (h, p)" and "c \<in> set h"
  shows "\<not> is_space c"
proof -
  let ?hex = "\<lambda>c. is_hex c \<or> c = CHR '':'' \<or> c = CHR ''.''"
  from assms(1) consider "h = takeWhile (\<lambda>c. \<not> is_space c \<and> c \<noteq> CHR '':'') s"
    | t where "h = ''['' @ takeWhile ?hex t @ '']''"
    by (auto simp: match_host_port_def Let_def split: option.splits if_splits list.splits)
  then show ?thesis
  proof cases
    case 1
    then show ?thesis using assms(2) by (auto dest: set_takeWhileD)
  next
    case 2
    then have "?hex c \<or> c = CHR ''['' \<or> c = CHR '']''" using assms(2) by (auto dest: set_takeWhileD)
    then show ?thesis using is_hex_not_space by auto
  qed
qed

lemma segment_Some:
  assumes "parse_host_port_segment s = (Some h, Some p, b)"
  shows "1 \<le> p" and "p \<le> 65535" and "\<And>c. c \<in> set h \<Longrightarrow> \<not> is_space c"
  using assms
  by (auto simp: parse_host_port_segment_def Let_def split: if_splits option.splits dest: match_host_no_space)

lemma is_local_host_unbracket:
  assumes "is_local_host h" and ns: "\<And>c. c \<in> set h \<Longrightarrow> \<not> is_space c"
  shows "is_local_host (py_strip_chars ''[]'' h)"
proof -
  have "py_strip (py_strip_chars ''[]'' h) = py_strip_chars ''[]'' h"
    using ns set_py_strip_chars by (intro py_strip_no_space) blast
  moreover have "py_strip h = h" using ns by (rule py_strip_no_space)
  ultimately show ?thesis using assms(1) by (simp only: is_local_host_def py_strip_chars_idem)
qed

lemma acc_inv_init: "acc_inv pair_acc_init"
  by (simp add: acc_inv_def pair_acc_init_def)

lemma acc_inv_step:
  assumes "acc_inv a"
  shows "acc_inv (pair_step a pm)"
proof (cases "\<exists>h p. parse_host_port_segment (py_strip (snd pm)) = (Some h, Some p, True)")
  case False
  then have "pair_step a pm = a"
    by (auto simp: pair_step_def Let_def split: prod.splits option.splits bool.splits)
  with assms show ?thesis by simp
next
  case True
  then obtain h p where seg: "parse_host_port_segment (py_strip (snd pm)) = (Some h, Some p, True)" by blast
  have lh: "is_local_host h \<Longrightarrow> is_local_host (py_strip_chars ''[]'' h)"
    using segment_Some(3) [OF seg] by (blast intro: is_local_host_unbracket)
  have op: "port_ok (acc_lport a) \<Longrightarrow> port_ok (or_port (acc_lport a) (Some p)) \<and> or_port (acc_lport a) (Some p) \<noteq> None"
    using segment_Some(1,2) [OF seg] by (auto simp: or_port_def split: option.splits)
  show ?thesis
    using assms segment_Some(1,2) [OF seg] lh op
    by (auto simp: pair_step_def seg acc_inv_def Let_def)
qed

lemma acc_inv_fold: "acc_inv (foldl pair_step pair_acc_init pairs)"
  by (rule foldl_invariant) (auto intro: acc_inv_init acc_inv_step)

lemma mode_from_parts_proper:
  assumes "py_strip raw \<noteq> []"
  shows "mode_from_parts (Some raw) False False l p s x y \<notin> {Missing, Disabled_server_field}"
  using assms by (auto simp: mode_from_parts_def)

lemma parse_pairs_wf:
  assumes "py_strip raw \<noteq> []"
  shows "wf_parsed (parse_pairs raw pairs)"
proof -
  let ?a = "foldl pair_step pair_acc_init pairs"
  let ?p = "or_port (acc_lport ?a) (or_port (acc_https ?a) (or_port (acc_http ?a) (acc_socks ?a)))"
  have inv: "acc_inv ?a" by (rule acc_inv_fold)
  have "port_ok ?p" using inv by (simp add: acc_inv_def or_port_ok)
  moreover have "acc_local ?a \<Longrightarrow> ?p \<noteq> None"
    using inv by (auto simp: acc_inv_def or_port_Some)
  ultimately show ?thesis
    using inv mode_from_parts_proper [OF assms]
    by (auto simp: parse_pairs_def Let_def wf_parsed_def malformed_proxy_def acc_inv_def)
qed

lemma parse_wf: "wf_parsed (parse_proxy_server raw)"
proof (cases "raw = None \<or> py_strip (the raw) = []")
  case True
  then show ?thesis
    by (cases raw) (auto simp: parse_proxy_server_def missing_proxy_def wf_parsed_def)
next
  case False
  then obtain r where raw: "raw = Some r" and ne: "py_strip r \<noteq> []" by auto
  obtain h p b where seg: "parse_host_port_segment (py_strip r) = (h, p, b)"
    by (cases "parse_host_port_segment (py_strip r)")
  have single: "wf_parsed \<lparr>pp_raw = Some r, is_missing = False, is_malformed = False,
      is_localhost_proxy = is_local_host host,
      localhost_host = (if is_local_host host then Some (py_strip_chars ''[]'' host) else None),
      localhost_port = Some port,
      parsed_mode = mode_from_parts (Some r) False False (is_local_host host) (Some port) None None None,
      socks_port = None, http_localhost_port = None, https_localhost_port = None\<rparr>"
    if "parse_host_port_segment (py_strip r) = (Some host, Some port, True)" for host port
    using segment_Some [OF that] is_local_host_unbracket [of host] mode_from_parts_proper [OF ne]
    by (auto simp: wf_parsed_def)
  have mal: "wf_parsed (malformed_proxy (Some r))"
    by (simp add: wf_parsed_def malformed_proxy_def)
  show ?thesis
    using ne seg single mal parse_pairs_wf [OF ne]
    by (auto simp: parse_proxy_server_def raw Let_def split: option.splits bool.splits)
qed

section \<open>Round trips\<close>

lemma match_pair_no_eq:
  assumes "CHR ''='' \<notin> set s"
  shows "match_pair s = None"
proof -
  have "c \<noteq> CHR ''=''" if "dropWhile is_space (dropWhile is_alpha s) = c # r" for c r
  proof -
    have "c \<in> set s" using that by (metis list.set_intros(1) set_dropWhileD)
    with assms show ?thesis by auto
  qed
  then show ?thesis by (auto simp: match_pair_def Let_def split: list.splits)
qed

lemma pair_finditer_no_eq: "CHR ''='' \<notin> set s \<Longrightarrow> pair_finditer s = []"
proof (induction s rule: pair_finditer.induct)
  case (2 c cs)
  then have "match_pair (c # cs) = None" by (intro match_pair_no_eq) auto
  with 2 show ?case by simp
qed simp

lemma match_host_port_plain:
  assumes "host \<noteq> []" and hc: "\<And>c. c \<in> set host \<Longrightarrow> \<not> is_space c \<and> c \<noteq> CHR '':''"
    and "ds \<noteq> []" "length ds \<le> 5" "list_all is_digit ds"
  shows "match_host_port (host @ CHR '':'' # ds) = Some (host, Some ds)"
proof -
  have "takeWhile (\<lambda>c. \<not> is_space c \<and> c \<noteq> CHR '':'') (host @ CHR '':'' # ds) = host"
    using hc by (subst takeWhile_append2) auto
  moreover have "port_suffix (CHR '':'' # ds) = Some (Some ds)"
    using assms(3-5) by (simp add: port_suffix_def Suc_le_eq)
  ultimately show ?thesis using assms(1) by (simp add: match_host_port_def Let_def)
qed

lemma segment_plain:
  assumes "host \<noteq> []" and hc: "\<And>c. c \<in> set host \<Longrightarrow> \<not> is_space c \<and> c \<noteq> CHR '':''"
    and p: "1 \<le> p" "p \<le> 65535"
  shows "parse_host_port_segment (host @ CHR '':'' # nat_str p) = (Some host, Some (int p), True)"
proof -
  have dig: "list_all is_digit (nat_str p)" by (auto simp: list_all_iff intro: nat_str_digits)
  have "length (nat_str p) \<le> 5" using p by (intro length_nat_str) auto
  then have m: "match_host_port (host @ CHR '':'' # nat_str p) = Some (host, Some (nat_str p))"
    using assms(1) hc dig by (intro match_host_port_plain) auto
  have "\<not> is_space c" if "c \<in> set (host @ CHR '':'' # nat_str p)" for c
    using that hc nat_str_digits is_space_not_digit by auto
  then have "py_strip (host @ CHR '':'' # nat_str p) = host @ CHR '':'' # nat_str p"
    by (rule py_strip_no_space)
  then show ?thesis using p m by (simp add: parse_host_port_segment_def Let_def)
qed

text \<open>The text of a list of \<open>scheme=rest\<close> entries joined by semicolons scans back to the list.\<close>

definition pair_entry_ok :: "string \<times> string \<Rightarrow> bool" where
  "pair_entry_ok e \<longleftrightarrow>
     fst e \<noteq> [] \<and> list_all is_alpha (fst e) \<and>
     snd e \<noteq> [] \<and> \<not> is_space (hd (snd e)) \<and> CHR '';'' \<notin> set (snd e)"

definition pair_text :: "string \<times> string \<Rightarrow> string" where
  "pair_text e = fst e @ CHR ''='' # snd e"

lemma match_pair_entry:
  assumes "pair_entry_ok e" and "r = [] \<or> hd r = CHR '';''"
  shows "match_pair (pair_text e @ r) = Some (fst e, snd e, r)"
proof -
  obtain sch body where e: "e = (sch, body)" by (cases e)
  from assms(1) e obtain b bs where body: "body = b # bs" and b: "\<not> is_space b"
    by (cases body) (auto simp: pair_entry_ok_def)
  have al: "list_all is_alpha sch" and sch: "sch \<noteq> []" and sc: "CHR '';'' \<notin> set body"
    using assms(1) e by (auto simp: pair_entry_ok_def)
  have eq: "\<not> is_alpha (CHR ''='')" "\<not> is_space (CHR ''='')" by (simp_all add: py_eval)
  have t1: "takeWhile is_alpha (sch @ CHR ''='' # body @ r) = sch"
    using al eq by (subst takeWhile_append2) (auto simp: list_all_iff)
  have t2: "dropWhile is_alpha (sch @ CHR ''='' # body @ r) = CHR ''='' # body @ r"
    using al eq by (subst dropWhile_append2) (auto simp: list_all_iff)
  have t3: "takeWhile (\<lambda>c. c \<noteq> CHR '';'') (body @ r) = body"
    using sc assms(2) by (cases r) (auto simp: takeWhile_append)
  have t4: "dropWhile (\<lambda>c. c \<noteq> CHR '';'') (body @ r) = r"
    using sc assms(2) by (cases r) (auto simp: dropWhile_append)
  have t5: "dropWhile is_space (body @ r) = body @ r" using b body by simp
  show ?thesis
    using sch t1 t2 t3 t4 t5 eq body by (simp add: e pair_text_def match_pair_def Let_def)
qed

lemma join_with_Cons: "join_with sep (x # y # ys) = x @ sep @ join_with sep (y # ys)"
  by (simp add: join_with_def)

lemma pair_finditer_skip: "pair_finditer (CHR '';'' # s) = pair_finditer s"
proof -
  have "match_pair (CHR '';'' # s) = None" by (simp add: match_pair_def Let_def py_eval)
  then show ?thesis by simp
qed

lemma pair_finditer_step:
  "pair_entry_ok e \<Longrightarrow> r = [] \<or> hd r = CHR '';'' \<Longrightarrow> pair_finditer (pair_text e @ r) = e # pair_finditer r"
proof -
  assume ok: "pair_entry_ok e" and r: "r = [] \<or> hd r = CHR '';''"
  obtain c cs where "pair_text e @ r = c # cs" by (cases "pair_text e @ r") (auto simp: pair_text_def)
  then show ?thesis using match_pair_entry [OF ok r] by (simp add: prod_eq_iff)
qed

lemma pair_finditer_join:
  "(\<And>e. e \<in> set es \<Longrightarrow> pair_entry_ok e) \<Longrightarrow> pair_finditer (join_with '';'' (map pair_text es)) = es"
proof (induction es rule: induct_list012)
  case 1
  then show ?case by (simp add: join_with_def)
next
  case (2 e)
  then show ?case using pair_finditer_step [of e "[]"] by (simp add: join_with_def)
next
  case (3 e f es)
  then have "pair_finditer (pair_text e @ CHR '';'' # join_with '';'' (map pair_text (f # es))) = e # f # es"
    by (subst pair_finditer_step) (auto simp: pair_finditer_skip simp del: pair_finditer.simps)
  then show ?case by (simp add: join_with_Cons)
qed

text \<open>What one accepted entry does to the loop state, field by field.\<close>

lemma pair_step_fields:
  assumes "parse_host_port_segment (py_strip (snd e)) = (Some h, Some p, True)"
  shows "acc_ok (pair_step a e)"
    and "acc_http (pair_step a e) = (if py_lower (fst e) = ''http'' then Some p else acc_http a)"
    and "acc_https (pair_step a e) = (if py_lower (fst e) = ''https'' then Some p else acc_https a)"
    and "acc_socks (pair_step a e) = (if py_lower (fst e) = ''socks'' then Some p else acc_socks a)"
    and "acc_local (pair_step a e) = (acc_local a \<or> is_local_host h)"
  using assms by (simp_all add: pair_step_def Let_def)

lemma host_port_text:
  assumes "h \<noteq> []" and "list_all (\<lambda>c. \<not> is_space c \<and> c \<noteq> CHR '':'' \<and> c \<noteq> CHR '';'') h"
  shows "list_all (\<lambda>c. \<not> is_space c \<and> c \<noteq> CHR '';'') (h @ CHR '':'' # nat_str p)"
proof -
  have "\<not> is_digit (CHR '';'')" by (simp add: py_eval)
  then have "c \<in> set (nat_str p) \<Longrightarrow> \<not> is_space c \<and> c \<noteq> CHR '';''" for c
    using nat_str_digits [of c p] is_space_not_digit [of c] by auto
  then show ?thesis using assms(2) by (auto simp: list_all_iff)
qed

lemma host_port_entry:
  assumes "h \<noteq> []" and "list_all (\<lambda>c. \<not> is_space c \<and> c \<noteq> CHR '':'' \<and> c \<noteq> CHR '';'') h"
    and "sch \<noteq> []" "list_all is_alpha sch"
  shows "pair_entry_ok (sch, h @ CHR '':'' # nat_str p)"
proof -
  let ?b = "h @ CHR '':'' # nat_str p"
  have t: "\<forall>c \<in> set ?b. \<not> is_space c \<and> c \<noteq> CHR '';''"
    using host_port_text [OF assms(1,2), of p] by (simp only: list_all_iff)
  have "?b \<noteq> []" by simp
  then have "hd ?b \<in> set ?b" by (rule hd_in_set)
  from bspec [OF t this] have "\<not> is_space (hd ?b)" by (rule conjunct1)
  moreover have "CHR '';'' \<notin> set ?b" using t by blast
  ultimately show ?thesis using assms(3,4) by (simp add: pair_entry_ok_def)
qed

lemma host_port_segment:
  assumes "h \<noteq> []" and "list_all (\<lambda>c. \<not> is_space c \<and> c \<noteq> CHR '':'' \<and> c \<noteq> CHR '';'') h"
    and "1 \<le> p" "p \<le> 65535"
  shows "parse_host_port_segment (py_strip (h @ CHR '':'' # nat_str p)) = (Some h, Some (int p), True)"
proof -
  have "py_strip (h @ CHR '':'' # nat_str p) = h @ CHR '':'' # nat_str p"
    using host_port_text [OF assms(1,2), of p] unfolding list_all_iff by (intro py_strip_no_space) blast
  then show ?thesis using assms segment_plain [of h p] by (simp add: list_all_iff)
qed

text \<open>
  Two limits of the record: a pair with a scheme other than http, https and socks on a remote host is given the malformed mode although it parsed and the malformed
  flag is not set, and the fields named after local ports also hold the ports of remote hosts.
\<close>

lemma other_scheme_malformed:
  "parsed_mode (parse_proxy_server (Some ''ftp=proxy.corp:21'')) = Malformed \<and> \<not> is_malformed (parse_proxy_server (Some ''ftp=proxy.corp:21''))"
  by code_simp

lemma remote_scheme_port:
  "http_localhost_port (parse_proxy_server (Some ''http=proxy.corp:80'')) = Some 80 \<and>
   \<not> is_localhost_proxy (parse_proxy_server (Some ''http=proxy.corp:80''))"
  by code_simp

section \<open>Properties\<close>

text \<open>
  C1. Whatever text the registry holds, the parser returns a well-formed record: every reported
  port lies between 1 and 65535, the missing flag agrees with the mode, the malformed flag implies the
  malformed mode, no result is flagged missing and malformed at once, the mode of a disabled field is never produced, and the loopback flag is set exactly when a loopback host
  is reported, in which case a port is reported too.
\<close>

theorem parse_proxy_server_wf:
  "let pp = parse_proxy_server raw in
     port_ok (localhost_port pp) \<and> port_ok (socks_port pp) \<and>
     port_ok (http_localhost_port pp) \<and> port_ok (https_localhost_port pp) \<and>
     (is_missing pp = (parsed_mode pp = Missing)) \<and>
     \<not> (is_malformed pp \<and> parsed_mode pp \<noteq> Malformed) \<and> \<not> (is_missing pp \<and> is_malformed pp) \<and>
     (is_localhost_proxy pp = (case localhost_host pp of None \<Rightarrow> False | Some h \<Rightarrow> is_local_host h \<and> localhost_port pp \<noteq> None)) \<and>
     parsed_mode pp \<noteq> Disabled_server_field"
  using parse_wf [of raw] by (auto simp: wf_parsed_def Let_def split: if_splits option.splits)

lemma parse_host_port:
  assumes "host \<noteq> []" and "list_all (\<lambda>c. \<not> is_space c \<and> c \<noteq> CHR '':'' \<and> c \<noteq> CHR ''='') host"
    and "1 \<le> p" and "p \<le> 65535"
  shows "parse_proxy_server (Some (host @ CHR '':'' # nat_str p)) =
     \<lparr>pp_raw = Some (host @ CHR '':'' # nat_str p), is_missing = False, is_malformed = False,
      is_localhost_proxy = is_local_host host,
      localhost_host = (if is_local_host host then Some (py_strip_chars ''[]'' host) else None),
      localhost_port = Some (int p),
      parsed_mode = (if is_local_host host then Manual_localhost else Manual_explicit),
      socks_port = None, http_localhost_port = None, https_localhost_port = None\<rparr>"
proof -
  let ?t = "host @ CHR '':'' # nat_str p"
  have hc: "\<And>c. c \<in> set host \<Longrightarrow> \<not> is_space c \<and> c \<noteq> CHR '':''"
    using assms(2) by (auto simp: list_all_iff)
  have seg: "parse_host_port_segment ?t = (Some host, Some (int p), True)"
    using assms hc by (intro segment_plain) auto
  have dig: "\<And>c. c \<in> set (nat_str p) \<Longrightarrow> is_digit c" by (rule nat_str_digits)
  have "\<not> is_digit (CHR ''='')" by (simp add: py_eval)
  then have "CHR ''='' \<notin> set ?t" using assms(2) dig by (auto simp: list_all_iff)
  then have pairs: "pair_finditer ?t = []" by (rule pair_finditer_no_eq)
  have strip: "py_strip ?t = ?t"
    using hc dig is_space_not_digit by (intro py_strip_no_space) auto
  show ?thesis
    using assms(1) seg pairs strip
    by (simp add: parse_proxy_server_def Let_def mode_from_parts_def)
qed

lemma parse_loopback:
  assumes "1 \<le> p" "p \<le> 65535"
  shows "parse_proxy_server (Some (''127.0.0.1'' @ CHR '':'' # nat_str p)) =
     \<lparr>pp_raw = Some (''127.0.0.1'' @ CHR '':'' # nat_str p), is_missing = False, is_malformed = False,
      is_localhost_proxy = True, localhost_host = Some ''127.0.0.1'', localhost_port = Some (int p),
      parsed_mode = Manual_localhost, socks_port = None, http_localhost_port = None, https_localhost_port = None\<rparr>"
proof -
  have "list_all (\<lambda>c. \<not> is_space c \<and> c \<noteq> CHR '':'' \<and> c \<noteq> CHR ''='') ''127.0.0.1''" by (simp add: py_eval)
  moreover have "is_local_host ''127.0.0.1''" "py_strip_chars ''[]'' ''127.0.0.1'' = ''127.0.0.1''" by code_simp+
  ultimately show ?thesis using parse_host_port [of "''127.0.0.1''" p] assms by simp
qed

text \<open>
  Round trip: the text \<open>host:port\<close>, for a host without white space, colon or equals sign and a
  port in range, parses to that host and port, and is reported as loopback exactly when the
  host is a loopback name.
\<close>

theorem parse_host_port_roundtrip:
  assumes "host \<noteq> []" and "list_all (\<lambda>c. \<not> is_space c \<and> c \<noteq> CHR '':'' \<and> c \<noteq> CHR ''='') host"
    and "1 \<le> p" and "p \<le> 65535"
  shows "parse_proxy_server (Some (host @ CHR '':'' # nat_str p)) =
     \<lparr>pp_raw = Some (host @ CHR '':'' # nat_str p), is_missing = False, is_malformed = False,
      is_localhost_proxy = is_local_host host,
      localhost_host = (if is_local_host host then Some (py_strip_chars ''[]'' host) else None),
      localhost_port = Some (int p),
      parsed_mode = (if is_local_host host then Manual_localhost else Manual_explicit),
      socks_port = None, http_localhost_port = None, https_localhost_port = None\<rparr>"
  by (rule parse_host_port [OF assms])

theorem parse_host_port_roundtrip_witness:
  "parsed_mode (parse_proxy_server (Some (''localhost'' @ CHR '':'' # nat_str 8080))) = Manual_localhost
   \<and> localhost_port (parse_proxy_server (Some (''localhost'' @ CHR '':'' # nat_str 8080))) = Some 8080"
proof -
  have h: "list_all (\<lambda>c. \<not> is_space c \<and> c \<noteq> CHR '':'' \<and> c \<noteq> CHR ''='') ''localhost''"
    by (simp add: py_eval)
  have l: "is_local_host ''localhost''" by code_simp
  show ?thesis
    using parse_host_port_roundtrip [of "''localhost''" 8080] h l by simp
qed

text \<open>
  Multi-scheme round trip: \<open>http=h1:p1;https=h2:p2\<close> with well-formed hosts and ports reports
  exactly those two ports under their schemes and no SOCKS port, and it is a loopback
  configuration exactly when one of the two hosts is loopback.
\<close>

theorem parse_multi_scheme_roundtrip:
  assumes "h1 \<noteq> []" "list_all (\<lambda>c. \<not> is_space c \<and> c \<noteq> CHR '':'' \<and> c \<noteq> CHR '';'') h1"
    and "h2 \<noteq> []" "list_all (\<lambda>c. \<not> is_space c \<and> c \<noteq> CHR '':'' \<and> c \<noteq> CHR '';'') h2"
    and "1 \<le> p1" "p1 \<le> 65535" "1 \<le> p2" "p2 \<le> 65535"
  shows "let pp = parse_proxy_server
                    (Some (''http='' @ h1 @ CHR '':'' # nat_str p1 @ '';https='' @ h2 @ CHR '':'' # nat_str p2))
         in http_localhost_port pp = Some (int p1) \<and> https_localhost_port pp = Some (int p2) \<and>
            socks_port pp = None \<and> \<not> is_malformed pp \<and>
            is_localhost_proxy pp = (is_local_host h1 \<or> is_local_host h2) \<and>
            parsed_mode pp = (if is_local_host h1 \<or> is_local_host h2 then Http_https_localhost
                              else Multi_scheme_explicit)"
proof -
  let ?b1 = "h1 @ CHR '':'' # nat_str p1" and ?b2 = "h2 @ CHR '':'' # nat_str p2"
  let ?es = "[(''http'', ?b1), (''https'', ?b2)]"
  let ?t = "''http='' @ ?b1 @ '';https='' @ ?b2"
  have al: "list_all is_alpha ''http''" "list_all is_alpha ''https''" by (simp_all add: py_eval)
  have "pair_entry_ok (''http'', ?b1)" "pair_entry_ok (''https'', ?b2)"
    using host_port_entry [of h1 "''http''" p1] host_port_entry [of h2 "''https''" p2] assms(1-4) al by simp_all
  then have "pair_finditer (join_with '';'' (map pair_text ?es)) = ?es"
    by (intro pair_finditer_join) auto
  then have pairs: "pair_finditer ?t = ?es" by (simp add: join_with_def pair_text_def)
  have "\<not> is_space (last ?b2)"
    using host_port_text [OF assms(3,4), of p2] last_in_set [of ?b2] by (simp add: list_all_iff)
  then have "\<not> is_space (last ?t)" by simp
  moreover have "\<not> is_space (hd ?t)" by (simp add: py_eval)
  ultimately have strip: "py_strip ?t = ?t" by (intro py_strip_id) auto
  have lows: "py_lower ''http'' = ''http''" "py_lower ''https'' = ''https''" by code_simp+
  let ?a1 = "pair_step pair_acc_init (''http'', ?b1)"
  let ?a = "pair_step ?a1 (''https'', ?b2)"
  have s1: "parse_host_port_segment (py_strip (snd (''http'', ?b1))) = (Some h1, Some (int p1), True)"
    and s2: "parse_host_port_segment (py_strip (snd (''https'', ?b2))) = (Some h2, Some (int p2), True)"
    using host_port_segment assms by simp_all
  note f1 = pair_step_fields [OF s1, of pair_acc_init] and f2 = pair_step_fields [OF s2, of ?a1]
  have a: "acc_ok ?a" "acc_http ?a = Some (int p1)" "acc_https ?a = Some (int p2)" "acc_socks ?a = None"
    "acc_local ?a = (is_local_host h1 \<or> is_local_host h2)"
    using f1 f2 by (simp_all add: lows pair_acc_init_def)
  have "parse_proxy_server (Some ?t) = parse_pairs ?t ?es"
    using pairs strip by (simp add: parse_proxy_server_def)
  then show ?thesis
    using a by (simp add: parse_pairs_def mode_from_parts_def Let_def)
qed

theorem parse_multi_scheme_roundtrip_witness:
  "http_localhost_port (parse_proxy_server
     (Some (''http='' @ ''127.0.0.1'' @ CHR '':'' # nat_str 8080 @ '';https='' @ ''proxy'' @ CHR '':'' # nat_str 443)))
   = Some 8080"
proof -
  have "list_all (\<lambda>c. \<not> is_space c \<and> c \<noteq> CHR '':'' \<and> c \<noteq> CHR '';'') ''127.0.0.1''"
    and "list_all (\<lambda>c. \<not> is_space c \<and> c \<noteq> CHR '':'' \<and> c \<noteq> CHR '';'') ''proxy''"
    by (simp_all add: py_eval)
  then show ?thesis
    using parse_multi_scheme_roundtrip [of "''127.0.0.1''" "''proxy''" 8080 443] by (simp add: Let_def)
qed

end
