(* ===== verification/Proxy_State.thy ===== *)
theory Proxy_State
  imports Proxy_Parser
begin

text \<open>
  The classifier core of \<open>windows_network_toolkit/proxy_state_machine.py\<close>: the derived proxy modes,
  the transition classes, the normalisation of a raw registry or fixture dictionary into a
  comparable WinINET state, the classification of a before/after pair and the tables that map a
  transition class to a risk, a confidence, a proof tier, a policy decision, an action and its
  limitations. Python floats that are decimal constants are rationals.

  The lemmas describe \<open>classify_transition\<close> as a decision on the full state: when each label can be
  returned, and that a cleared proxy server never yields a remote label.
\<close>

section \<open>Enumerations\<close>

datatype proxy_mode =
    PM_DISABLED | PM_LOCALHOST_PROXY | PM_REMOTE_PROXY | PM_PAC_CONFIGURED | PM_AUTODETECT
  | PM_INCONSISTENT | PM_UNKNOWN

fun proxy_mode_value :: "proxy_mode \<Rightarrow> string" where
  "proxy_mode_value PM_DISABLED = ''DISABLED''"
| "proxy_mode_value PM_LOCALHOST_PROXY = ''LOCALHOST_PROXY''"
| "proxy_mode_value PM_REMOTE_PROXY = ''REMOTE_PROXY''"
| "proxy_mode_value PM_PAC_CONFIGURED = ''PAC_CONFIGURED''"
| "proxy_mode_value PM_AUTODETECT = ''AUTODETECT''"
| "proxy_mode_value PM_INCONSISTENT = ''INCONSISTENT''"
| "proxy_mode_value PM_UNKNOWN = ''UNKNOWN''"

datatype transition_class =
    TC_NO_CHANGE | TC_PROXY_DISABLED | TC_PROXY_SERVER_REMOVED | TC_PROXY_SERVER_REMOVED_PARTIAL
  | TC_PROXY_DISABLED_AND_SERVER_REMOVED | TC_LOCALHOST_PROXY_ENABLED
  | TC_REMOTE_OR_NON_LOOPBACK_PROXY_CONFIGURED | TC_PROXY_SERVER_CHANGED_TO_REMOTE
  | TC_PROXY_ENABLED_WITH_NO_SERVER | TC_PAC_CONFIGURED | TC_PAC_REMOVED | TC_AUTODETECT_ENABLED
  | TC_WININET_WINHTTP_MISMATCH | TC_LOCALHOST_PROXY_PORT_CHANGED
  | TC_REVERTER_SUSPECTED_LOCALHOST_PROXY_LOOP | TC_ERROR_INSUFFICIENT_DATA

fun transition_class_value :: "transition_class \<Rightarrow> string" where
  "transition_class_value TC_NO_CHANGE = ''NO_CHANGE''"
| "transition_class_value TC_PROXY_DISABLED = ''PROXY_DISABLED''"
| "transition_class_value TC_PROXY_SERVER_REMOVED = ''PROXY_SERVER_REMOVED''"
| "transition_class_value TC_PROXY_SERVER_REMOVED_PARTIAL = ''PROXY_SERVER_REMOVED_PARTIAL''"
| "transition_class_value TC_PROXY_DISABLED_AND_SERVER_REMOVED = ''PROXY_DISABLED_AND_SERVER_REMOVED''"
| "transition_class_value TC_LOCALHOST_PROXY_ENABLED = ''LOCALHOST_PROXY_ENABLED''"
| "transition_class_value TC_REMOTE_OR_NON_LOOPBACK_PROXY_CONFIGURED = ''REMOTE_OR_NON_LOOPBACK_PROXY_CONFIGURED''"
| "transition_class_value TC_PROXY_SERVER_CHANGED_TO_REMOTE = ''PROXY_SERVER_CHANGED_TO_REMOTE''"
| "transition_class_value TC_PROXY_ENABLED_WITH_NO_SERVER = ''PROXY_ENABLED_WITH_NO_SERVER''"
| "transition_class_value TC_PAC_CONFIGURED = ''PAC_CONFIGURED''"
| "transition_class_value TC_PAC_REMOVED = ''PAC_REMOVED''"
| "transition_class_value TC_AUTODETECT_ENABLED = ''AUTODETECT_ENABLED''"
| "transition_class_value TC_WININET_WINHTTP_MISMATCH = ''WININET_WINHTTP_MISMATCH''"
| "transition_class_value TC_LOCALHOST_PROXY_PORT_CHANGED = ''LOCALHOST_PROXY_PORT_CHANGED''"
| "transition_class_value TC_REVERTER_SUSPECTED_LOCALHOST_PROXY_LOOP = ''REVERTER_SUSPECTED_LOCALHOST_PROXY_LOOP''"
| "transition_class_value TC_ERROR_INSUFFICIENT_DATA = ''ERROR_INSUFFICIENT_DATA''"

definition all_transition_classes :: "transition_class list" where
  "all_transition_classes =
     [TC_NO_CHANGE, TC_PROXY_DISABLED, TC_PROXY_SERVER_REMOVED, TC_PROXY_SERVER_REMOVED_PARTIAL,
      TC_PROXY_DISABLED_AND_SERVER_REMOVED, TC_LOCALHOST_PROXY_ENABLED,
      TC_REMOTE_OR_NON_LOOPBACK_PROXY_CONFIGURED, TC_PROXY_SERVER_CHANGED_TO_REMOTE,
      TC_PROXY_ENABLED_WITH_NO_SERVER, TC_PAC_CONFIGURED, TC_PAC_REMOVED, TC_AUTODETECT_ENABLED,
      TC_WININET_WINHTTP_MISMATCH, TC_LOCALHOST_PROXY_PORT_CHANGED,
      TC_REVERTER_SUSPECTED_LOCALHOST_PROXY_LOOP, TC_ERROR_INSUFFICIENT_DATA]"

section \<open>Normalised state\<close>

record wininet_state =
  proxy_enable :: bool
  proxy_server :: "string option"
  auto_config_url :: "string option"
  auto_detect :: "bool option"
  proxy_override :: "string option"
  parsed_host :: "string option"
  parsed_port :: "int option"
  proxy_mode :: proxy_mode
  winhttp_direct_access :: "bool option"

definition opt_str :: "string option \<Rightarrow> pyval" where
  "opt_str x = (case x of None \<Rightarrow> PyNone | Some s \<Rightarrow> PyStr s)"

definition opt_int :: "int option \<Rightarrow> pyval" where
  "opt_int x = (case x of None \<Rightarrow> PyNone | Some i \<Rightarrow> PyInt i)"

definition opt_bool :: "bool option \<Rightarrow> pyval" where
  "opt_bool x = (case x of None \<Rightarrow> PyNone | Some b \<Rightarrow> PyBool b)"

definition state_to_dict :: "wininet_state \<Rightarrow> pydict" where
  "state_to_dict s =
     [(''proxy_enable'', PyBool (proxy_enable s)), (''proxy_server'', opt_str (proxy_server s)),
      (''auto_config_url'', opt_str (auto_config_url s)), (''auto_detect'', opt_bool (auto_detect s)),
      (''proxy_override'', opt_str (proxy_override s)), (''parsed_host'', opt_str (parsed_host s)),
      (''parsed_port'', opt_int (parsed_port s)),
      (''proxy_mode'', PyStr (proxy_mode_value (proxy_mode s))),
      (''winhttp_direct_access'', opt_bool (winhttp_direct_access s))]"

text \<open>\<open>_server_empty\<close> on a value and on a normalised string.\<close>

fun server_empty_val :: "pyval \<Rightarrow> bool" where
  "server_empty_val PyNone = True"
| "server_empty_val v = (py_strip (py_str v) = [])"

definition server_empty :: "string option \<Rightarrow> bool" where
  "server_empty x = (case x of None \<Rightarrow> True | Some s \<Rightarrow> py_strip s = [])"

text \<open>The flag coercion: a boolean as it is, else \<open>int(x) == 1\<close>, else the truth value.\<close>

definition coerce_flag :: "pyval \<Rightarrow> bool" where
  "coerce_flag v =
     (case v of
        PyBool b \<Rightarrow> b
      | _ \<Rightarrow> (case py_int v of Some i \<Rightarrow> i = 1 | None \<Rightarrow> truthy v))"

definition nonblank_str :: "pyval \<Rightarrow> string option" where
  "nonblank_str v = (if v = PyNone \<or> v = PyStr [] then None else Some (py_strip (py_str v)))"

definition opt_truthy_str :: "string option \<Rightarrow> bool" where
  "opt_truthy_str x = (case x of None \<Rightarrow> False | Some s \<Rightarrow> s \<noteq> [])"

definition normalize_mode ::
  "parsed_proxy \<Rightarrow> bool \<Rightarrow> string option \<Rightarrow> string option \<Rightarrow> bool option \<Rightarrow> int option \<Rightarrow> proxy_mode" where
  "normalize_mode parsed enable server pac auto_det port =
     (let det = (auto_det = Some True); pac_set = opt_truthy_str pac;
          port_set = (case port of None \<Rightarrow> False | Some p \<Rightarrow> p \<noteq> 0)
      in if is_malformed parsed \<and> enable then PM_INCONSISTENT
         else if \<not> enable \<and> server_empty server \<and> \<not> pac_set \<and> \<not> det then PM_DISABLED
         else if pac_set then PM_PAC_CONFIGURED
         else if det \<and> \<not> enable \<and> server_empty server then PM_AUTODETECT
         else if enable \<and> is_localhost_proxy parsed \<and> port_set then PM_LOCALHOST_PROXY
         else if enable \<and> \<not> server_empty server \<and> \<not> is_localhost_proxy parsed then PM_REMOTE_PROXY
         else if enable \<and> server_empty server \<and> \<not> pac_set then PM_INCONSISTENT
         else if \<not> enable \<and> \<not> server_empty server then PM_INCONSISTENT
         else PM_UNKNOWN)"

definition normalize_proxy_state :: "pydict option \<Rightarrow> wininet_state" where
  "normalize_proxy_state raw0 =
     (let raw = (case raw0 of None \<Rightarrow> [] | Some d \<Rightarrow> d);
          enable_raw = dict_get_or raw ''proxy_enable''
                         (dict_get_or raw ''ProxyEnable'' (dict_get raw ''wininet_proxy_enabled''));
          enable = (if enable_raw = PyNone then False else coerce_flag enable_raw);
          server_raw = dict_get_or raw ''proxy_server''
                         (dict_get_or raw ''ProxyServer'' (dict_get raw ''wininet_proxy_server''));
          server = (case server_raw of
                      PyNone \<Rightarrow> None
                    | PyStr s \<Rightarrow> (if py_strip s = [] then None else Some (py_strip s))
                    | v \<Rightarrow> Some (py_strip (py_str v)));
          pac_str = nonblank_str (dict_get_or raw ''auto_config_url''
                      (dict_get_or raw ''AutoConfigURL'' (dict_get raw ''wininet_auto_config_url'')));
          auto_raw = dict_get_or raw ''auto_detect'' (dict_get raw ''AutoDetect'');
          auto_det = (if auto_raw = PyNone then None else Some (coerce_flag auto_raw));
          override = nonblank_str (dict_get_or raw ''proxy_override''
                       (dict_get_or raw ''ProxyOverride'' (dict_get raw ''wininet_proxy_override'')));
          winhttp = dict_get raw ''winhttp_direct_access'';
          parsed = parse_proxy_server server;
          port = (case localhost_port parsed of
                    Some p \<Rightarrow> Some p
                  | None \<Rightarrow> (if dict_get raw ''localhost_port'' = PyNone then None
                             else py_int (dict_get raw ''localhost_port'')))
      in \<lparr>proxy_enable = enable, proxy_server = server, auto_config_url = pac_str,
          auto_detect = auto_det, proxy_override = override,
          parsed_host = (if is_localhost_proxy parsed then localhost_host parsed else None),
          parsed_port = port, proxy_mode = normalize_mode parsed enable server pac_str auto_det port,
          winhttp_direct_access = (if winhttp = PyNone then None else Some (truthy winhttp))\<rparr>)"

definition states_equal :: "wininet_state \<Rightarrow> wininet_state \<Rightarrow> bool" where
  "states_equal a b \<longleftrightarrow>
     proxy_enable a = proxy_enable b \<and> proxy_server a = proxy_server b \<and>
     auto_config_url a = auto_config_url b \<and> auto_detect a = auto_detect b \<and>
     proxy_override a = proxy_override b"

section \<open>Classification of a transition\<close>

definition classify_states :: "wininet_state \<Rightarrow> wininet_state \<Rightarrow> bool option \<Rightarrow> transition_class" where
  "classify_states old new winhttp_mismatch =
     (if states_equal old new then TC_NO_CHANGE
      else
        let server_removed = (\<not> server_empty (proxy_server old) \<and> server_empty (proxy_server new));
            enable_off = (proxy_enable old \<and> \<not> proxy_enable new);
            enable_on = (\<not> proxy_enable old \<and> proxy_enable new);
            pac_added = (server_empty (auto_config_url old) \<and> \<not> server_empty (auto_config_url new));
            pac_removed = (\<not> server_empty (auto_config_url old) \<and> server_empty (auto_config_url new));
            pac_changed = (\<not> server_empty (auto_config_url old) \<and> \<not> server_empty (auto_config_url new)
                           \<and> auto_config_url old \<noteq> auto_config_url new);
            autodetect_on = (auto_detect old \<noteq> Some True \<and> auto_detect new = Some True);
            localhost_to_remote = (proxy_mode old = PM_LOCALHOST_PROXY \<and> proxy_mode new = PM_REMOTE_PROXY
                                   \<and> \<not> server_empty (proxy_server new));
            mismatch = (case winhttp_mismatch of
                          Some b \<Rightarrow> b
                        | None \<Rightarrow> (case winhttp_direct_access new of
                                     None \<Rightarrow> False
                                   | Some d \<Rightarrow> proxy_enable new \<and> d))
        in if enable_off \<and> server_removed then TC_PROXY_DISABLED_AND_SERVER_REMOVED
           else if server_removed \<and> proxy_enable new then TC_PROXY_SERVER_REMOVED_PARTIAL
           else if server_removed \<and> \<not> proxy_enable new then TC_PROXY_SERVER_REMOVED
           else if enable_off then TC_PROXY_DISABLED
           else if mismatch \<and> proxy_enable new then TC_WININET_WINHTTP_MISMATCH
           else if proxy_enable new \<and> server_empty (proxy_server new) \<and> \<not> opt_truthy_str (auto_config_url new)
             then TC_PROXY_ENABLED_WITH_NO_SERVER
           else if proxy_enable new \<and> proxy_mode new = PM_INCONSISTENT then TC_PROXY_ENABLED_WITH_NO_SERVER
           else if pac_removed then TC_PAC_REMOVED
           else if pac_added \<or> pac_changed then TC_PAC_CONFIGURED
           else if autodetect_on then TC_AUTODETECT_ENABLED
           else if proxy_mode old = PM_LOCALHOST_PROXY \<and> proxy_mode new = PM_LOCALHOST_PROXY
                   \<and> parsed_port old \<noteq> parsed_port new
                   \<and> parsed_port old \<noteq> None \<and> parsed_port new \<noteq> None
             then TC_LOCALHOST_PROXY_PORT_CHANGED
           else if enable_on \<and> proxy_mode new = PM_LOCALHOST_PROXY then TC_LOCALHOST_PROXY_ENABLED
           else if localhost_to_remote then TC_PROXY_SERVER_CHANGED_TO_REMOTE
           else if proxy_enable new \<and> \<not> server_empty (proxy_server new) \<and> proxy_mode new = PM_REMOTE_PROXY
             then TC_REMOTE_OR_NON_LOOPBACK_PROXY_CONFIGURED
           else if proxy_mode new = PM_PAC_CONFIGURED \<and> \<not> (pac_added \<or> pac_changed) then TC_PAC_CONFIGURED
           else TC_ERROR_INSUFFICIENT_DATA)"

definition classify_transition :: "pydict option \<Rightarrow> pydict option \<Rightarrow> bool option \<Rightarrow> transition_class" where
  "classify_transition before_raw after_raw winhttp_mismatch =
     (if before_raw = None \<or> after_raw = None then TC_ERROR_INSUFFICIENT_DATA
      else classify_states (normalize_proxy_state before_raw) (normalize_proxy_state after_raw) winhttp_mismatch)"

section \<open>Tables over transition classes\<close>

fun risk_for_transition :: "transition_class \<Rightarrow> bool \<Rightarrow> bool \<Rightarrow> string" where
  "risk_for_transition TC_REVERTER_SUSPECTED_LOCALHOST_PROXY_LOOP listener_trusted listener_unknown =
     (if listener_unknown then ''HIGH'' else if listener_trusted then ''MEDIUM'' else ''HIGH'')"
| "risk_for_transition TC_NO_CHANGE _ _ = ''INFO''"
| "risk_for_transition TC_PROXY_DISABLED _ _ = ''LOW''"
| "risk_for_transition TC_PROXY_SERVER_REMOVED _ _ = ''LOW''"
| "risk_for_transition TC_PROXY_SERVER_REMOVED_PARTIAL _ _ = ''LOW''"
| "risk_for_transition TC_PROXY_DISABLED_AND_SERVER_REMOVED _ _ = ''LOW''"
| "risk_for_transition TC_LOCALHOST_PROXY_ENABLED _ _ = ''MEDIUM''"
| "risk_for_transition TC_REMOTE_OR_NON_LOOPBACK_PROXY_CONFIGURED _ _ = ''HIGH''"
| "risk_for_transition TC_PROXY_ENABLED_WITH_NO_SERVER _ _ = ''MEDIUM''"
| "risk_for_transition TC_PAC_CONFIGURED _ _ = ''MEDIUM''"
| "risk_for_transition TC_AUTODETECT_ENABLED _ _ = ''LOW''"
| "risk_for_transition TC_WININET_WINHTTP_MISMATCH _ _ = ''MEDIUM''"
| "risk_for_transition TC_LOCALHOST_PROXY_PORT_CHANGED _ _ = ''MEDIUM''"
| "risk_for_transition TC_PAC_REMOVED _ _ = ''LOW''"
| "risk_for_transition TC_PROXY_SERVER_CHANGED_TO_REMOTE _ _ = ''HIGH''"
| "risk_for_transition TC_ERROR_INSUFFICIENT_DATA _ _ = ''LOW''"

definition confidence_for_transition :: "transition_class \<Rightarrow> bool \<Rightarrow> rat \<times> string" where
  "confidence_for_transition t writer_proof =
     (if writer_proof then (92/100, ''0.92'')
      else case t of
             TC_NO_CHANGE \<Rightarrow> (1, ''1.0'')
           | TC_PROXY_DISABLED \<Rightarrow> (85/100, ''0.85'')
           | TC_PROXY_SERVER_REMOVED \<Rightarrow> (88/100, ''0.88'')
           | TC_PROXY_SERVER_REMOVED_PARTIAL \<Rightarrow> (88/100, ''0.88'')
           | TC_PROXY_DISABLED_AND_SERVER_REMOVED \<Rightarrow> (90/100, ''0.9'')
           | TC_LOCALHOST_PROXY_ENABLED \<Rightarrow> (72/100, ''0.72'')
           | TC_REMOTE_OR_NON_LOOPBACK_PROXY_CONFIGURED \<Rightarrow> (85/100, ''0.85'')
           | TC_PROXY_ENABLED_WITH_NO_SERVER \<Rightarrow> (75/100, ''0.75'')
           | TC_PAC_CONFIGURED \<Rightarrow> (80/100, ''0.8'')
           | TC_AUTODETECT_ENABLED \<Rightarrow> (78/100, ''0.78'')
           | TC_WININET_WINHTTP_MISMATCH \<Rightarrow> (70/100, ''0.7'')
           | TC_LOCALHOST_PROXY_PORT_CHANGED \<Rightarrow> (80/100, ''0.8'')
           | TC_REVERTER_SUSPECTED_LOCALHOST_PROXY_LOOP \<Rightarrow> (65/100, ''0.65'')
           | TC_ERROR_INSUFFICIENT_DATA \<Rightarrow> (30/100, ''0.3'')
           | _ \<Rightarrow> (55/100, ''0.55''))"

definition proof_tier_for_transition :: "transition_class \<Rightarrow> bool \<Rightarrow> bool \<Rightarrow> string" where
  "proof_tier_for_transition t writer_proof listener =
     (if writer_proof then ''T3''
      else if listener \<and> t \<in> {TC_LOCALHOST_PROXY_ENABLED, TC_REVERTER_SUSPECTED_LOCALHOST_PROXY_LOOP} then ''T2''
      else if t = TC_NO_CHANGE then ''T0''
      else ''T1'')"

definition policy_decision_for_risk :: "string \<Rightarrow> string" where
  "policy_decision_for_risk risk =
     (if risk = ''CRITICAL'' then ''REQUIRE_HUMAN_REVIEW''
      else if risk = ''HIGH'' then ''REQUIRE_HUMAN_REVIEW''
      else if risk = ''MEDIUM'' then ''ALERT''
      else if risk = ''LOW'' then ''OBSERVE''
      else ''OBSERVE'')"

fun recommended_action :: "transition_class \<Rightarrow> string" where
  "recommended_action TC_NO_CHANGE = ''observe '' @ em_dash @ '' no WinINET proxy state change''"
| "recommended_action TC_PROXY_DISABLED = ''observe '' @ em_dash @ '' proxy disabled during developer/tool session''"
| "recommended_action TC_PROXY_SERVER_REMOVED = ''observe '' @ em_dash @ '' ProxyServer removed''"
| "recommended_action TC_PROXY_SERVER_REMOVED_PARTIAL =
     ''observe '' @ em_dash @ '' ProxyServer removed while ProxyEnable remained enabled''"
| "recommended_action TC_PROXY_DISABLED_AND_SERVER_REMOVED =
     ''observe '' @ em_dash @ '' proxy disabled and server removed''"
| "recommended_action TC_LOCALHOST_PROXY_ENABLED =
     ''alert '' @ em_dash @ '' localhost proxy enabled; investigate listener process executable path and command line''"
| "recommended_action TC_REMOTE_OR_NON_LOOPBACK_PROXY_CONFIGURED =
     ''require human review '' @ em_dash @ '' remote or non-loopback proxy server configured''"
| "recommended_action TC_PROXY_ENABLED_WITH_NO_SERVER =
     ''alert '' @ em_dash @ '' ProxyEnable set without ProxyServer; inconsistent WinINET state''"
| "recommended_action TC_PAC_CONFIGURED = ''alert '' @ em_dash @ '' PAC (AutoConfigURL) configured or changed''"
| "recommended_action TC_PAC_REMOVED = ''observe '' @ em_dash @ '' PAC (AutoConfigURL) removed''"
| "recommended_action TC_PROXY_SERVER_CHANGED_TO_REMOTE =
     ''require human review '' @ em_dash @ '' proxy server changed to remote/non-loopback endpoint''"
| "recommended_action TC_AUTODETECT_ENABLED = ''observe '' @ em_dash @ '' WinINET auto-detect enabled''"
| "recommended_action TC_WININET_WINHTTP_MISMATCH =
     ''alert '' @ em_dash @ '' WinINET proxy enabled while WinHTTP reports direct access''"
| "recommended_action TC_LOCALHOST_PROXY_PORT_CHANGED =
     ''alert '' @ em_dash @ '' localhost proxy port changed; verify listener correlation only''"
| "recommended_action TC_REVERTER_SUSPECTED_LOCALHOST_PROXY_LOOP =
     ''require human review '' @ em_dash @ '' pattern suggests a proxy reverter or auto-reapply loop; '' @
     ''this is correlation, not proof of registry write; collect Sysmon Event ID 13 or Procmon trace''"
| "recommended_action TC_ERROR_INSUFFICIENT_DATA =
     ''observe '' @ em_dash @ '' insufficient state to classify transition''"

fun extra_limitations :: "transition_class \<Rightarrow> string list" where
  "extra_limitations TC_PROXY_SERVER_REMOVED_PARTIAL =
     [''This event shows removal of ProxyServer, not remote proxy configuration'']"
| "extra_limitations TC_PROXY_DISABLED_AND_SERVER_REMOVED =
     [''This event shows proxy disable and server removal, not remote proxy configuration'']"
| "extra_limitations TC_LOCALHOST_PROXY_ENABLED =
     [''Process was listening on the configured localhost proxy port (correlation only)'']"
| "extra_limitations TC_REVERTER_SUSPECTED_LOCALHOST_PROXY_LOOP =
     [''Pattern suggests a proxy reverter or auto-reapply loop'',
      ''This is correlation, not proof of registry write'',
      ''Collect Sysmon Event ID 13 or Procmon trace for registry writer proof'',
      ''Investigate listener process executable path and command line'']"
| "extra_limitations TC_REMOTE_OR_NON_LOOPBACK_PROXY_CONFIGURED =
     [''Remote proxy configuration observed in registry state '' @ em_dash @ '' verify business justification'']"
| "extra_limitations _ = []"

definition limitations_for_transition :: "transition_class \<Rightarrow> string list" where
  "limitations_for_transition t = [''Registry writer proof unavailable''] @ extra_limitations t"

section \<open>Normalised states are well formed\<close>

definition wf_state :: "wininet_state \<Rightarrow> bool" where
  "wf_state s \<longleftrightarrow>
     (proxy_mode s = PM_REMOTE_PROXY \<longrightarrow>
        proxy_enable s \<and> \<not> server_empty (proxy_server s) \<and> parsed_host s = None \<and>
        \<not> is_localhost_proxy (parse_proxy_server (proxy_server s))) \<and>
     (proxy_mode s = PM_LOCALHOST_PROXY \<longrightarrow>
        proxy_enable s \<and> \<not> server_empty (proxy_server s) \<and> parsed_port s \<noteq> None \<and>
        (\<exists>h. parsed_host s = Some h \<and> is_local_host h)) \<and>
     (proxy_mode s = PM_DISABLED \<longrightarrow> \<not> proxy_enable s \<and> server_empty (proxy_server s)) \<and>
     (proxy_mode s = PM_AUTODETECT \<longrightarrow> \<not> proxy_enable s \<and> auto_detect s = Some True) \<and>
     (proxy_mode s = PM_PAC_CONFIGURED \<longrightarrow> opt_truthy_str (auto_config_url s))"

lemma server_empty_missing: "server_empty x \<Longrightarrow> is_missing (parse_proxy_server x)"
  by (auto simp: server_empty_def parse_proxy_server_def missing_proxy_def split: option.splits)

lemma missing_not_localhost: "server_empty x \<Longrightarrow> \<not> is_localhost_proxy (parse_proxy_server x)"
  by (auto simp: server_empty_def parse_proxy_server_def missing_proxy_def split: option.splits)

lemma localhost_parsed:
  "is_localhost_proxy (parse_proxy_server x) \<Longrightarrow>
     (\<exists>h. localhost_host (parse_proxy_server x) = Some h \<and> is_local_host h) \<and>
     (\<exists>p. localhost_port (parse_proxy_server x) = Some p \<and> 1 \<le> p \<and> p \<le> 65535)"
  using parse_wf [of x] by (auto simp: wf_parsed_def)

lemma normalize_mode_remote:
  "normalize_mode pp e srv pac det port = PM_REMOTE_PROXY \<longleftrightarrow>
     \<not> is_malformed pp \<and> e \<and> \<not> opt_truthy_str pac \<and> \<not> server_empty srv \<and> \<not> is_localhost_proxy pp"
  by (auto simp: normalize_mode_def Let_def)

lemma normalize_mode_localhost:
  "normalize_mode pp e srv pac det port = PM_LOCALHOST_PROXY \<longleftrightarrow>
     \<not> is_malformed pp \<and> e \<and> \<not> opt_truthy_str pac \<and> is_localhost_proxy pp \<and>
     (\<exists>p. port = Some p \<and> p \<noteq> 0)"
  by (auto simp: normalize_mode_def Let_def split: option.splits)

lemma normalize_mode_other:
  "normalize_mode pp e srv pac det port = PM_DISABLED \<Longrightarrow> \<not> e \<and> server_empty srv"
  "normalize_mode pp e srv pac det port = PM_AUTODETECT \<Longrightarrow> \<not> e \<and> det = Some True"
  "normalize_mode pp e srv pac det port = PM_PAC_CONFIGURED \<Longrightarrow> opt_truthy_str pac"
  by (auto simp: normalize_mode_def Let_def split: if_splits)

text \<open>The derived fields of a normalised state, as functions of the primary ones.\<close>

lemma normalize_derived:
  fixes raw
  defines "s \<equiv> normalize_proxy_state raw"
  defines "pp \<equiv> parse_proxy_server (proxy_server s)"
  shows "proxy_mode s = normalize_mode pp (proxy_enable s) (proxy_server s) (auto_config_url s) (auto_detect s) (parsed_port s)"
    and "parsed_host s = (if is_localhost_proxy pp then localhost_host pp else None)"
    and "localhost_port pp = Some p \<Longrightarrow> parsed_port s = Some p"
  by (simp_all add: s_def pp_def normalize_proxy_state_def Let_def)

lemma normalize_wf: "wf_state (normalize_proxy_state raw)"
proof -
  let ?s = "normalize_proxy_state raw"
  let ?pp = "parse_proxy_server (proxy_server ?s)"
  note d = normalize_derived [of raw]
  have lp: "is_localhost_proxy ?pp \<Longrightarrow> parsed_port ?s \<noteq> None" using localhost_parsed d(3) by blast
  show ?thesis
    unfolding wf_state_def d(1)
    using localhost_parsed [of "proxy_server ?s"] missing_not_localhost [of "proxy_server ?s"] d(2) lp
    by (auto simp: normalize_mode_remote normalize_mode_localhost dest: normalize_mode_other)
qed

section \<open>What each label means\<close>

lemmas classify_simps = classify_states_def Let_def

lemma classify_not_reverter: "classify_states b a m \<noteq> TC_REVERTER_SUSPECTED_LOCALHOST_PROXY_LOOP"
  by (simp add: classify_simps)

lemma classify_remote_server:
  "classify_states b a m \<in> {TC_REMOTE_OR_NON_LOOPBACK_PROXY_CONFIGURED, TC_PROXY_SERVER_CHANGED_TO_REMOTE} \<Longrightarrow>
     \<not> server_empty (proxy_server a) \<and> proxy_mode a = PM_REMOTE_PROXY"
  by (simp add: classify_simps split: if_splits)

lemma classify_removed:
  "\<not> server_empty (proxy_server b) \<Longrightarrow> server_empty (proxy_server a) \<Longrightarrow>
     classify_states b a m =
       (if proxy_enable a then TC_PROXY_SERVER_REMOVED_PARTIAL
        else if proxy_enable b then TC_PROXY_DISABLED_AND_SERVER_REMOVED
        else TC_PROXY_SERVER_REMOVED)"
  by (auto simp: classify_simps states_equal_def)

lemma classify_no_change: "classify_states b a m = TC_NO_CHANGE \<longleftrightarrow> states_equal b a"
  by (simp add: classify_simps)

section \<open>Normalisation is stable\<close>

definition drop_blank :: "string option \<Rightarrow> string option" where
  "drop_blank x = (if x = Some [] then None else x)"

definition stripped :: "string option \<Rightarrow> bool" where
  "stripped x = (case x of None \<Rightarrow> True | Some u \<Rightarrow> py_strip u = u)"

lemma nonblank_str_strip: "nonblank_str v = Some u \<Longrightarrow> py_strip u = u"
  by (auto simp: nonblank_str_def split: if_splits)

lemma nonblank_opt_str: "x = nonblank_str v \<Longrightarrow> nonblank_str (opt_str x) = drop_blank x"
  by (cases x) (auto simp: opt_str_def nonblank_str_def drop_blank_def split: if_splits)

lemma opt_truthy_drop_blank [simp]: "opt_truthy_str (drop_blank x) = opt_truthy_str x"
  by (auto simp: drop_blank_def opt_truthy_str_def)

lemma normalize_server_strip: "stripped (proxy_server (normalize_proxy_state raw))"
  by (simp add: stripped_def normalize_proxy_state_def Let_def split: pyval.splits)

lemma normalize_mode_port:
  assumes "is_localhost_proxy pp \<Longrightarrow> (\<exists>p. port = Some p \<and> p \<noteq> 0)"
    and "is_localhost_proxy pp \<Longrightarrow> (\<exists>p. port' = Some p \<and> p \<noteq> 0)"
  shows "normalize_mode pp e srv pac det port = normalize_mode pp e srv pac det port'"
  using assms by (cases "is_localhost_proxy pp") (auto simp: normalize_mode_def Let_def)

lemma normalize_mode_drop_blank:
  "normalize_mode pp e srv (drop_blank pac) det port = normalize_mode pp e srv pac det port"
  by (simp add: normalize_mode_def)

lemma state_dict_gets:
  "dict_get_or (state_to_dict s) ''proxy_enable'' v = PyBool (proxy_enable s)"
  "dict_get_or (state_to_dict s) ''proxy_server'' v = opt_str (proxy_server s)"
  "dict_get_or (state_to_dict s) ''auto_config_url'' v = opt_str (auto_config_url s)"
  "dict_get_or (state_to_dict s) ''auto_detect'' v = opt_bool (auto_detect s)"
  "dict_get_or (state_to_dict s) ''proxy_override'' v = opt_str (proxy_override s)"
  "dict_get (state_to_dict s) ''winhttp_direct_access'' = opt_bool (winhttp_direct_access s)"
  "dict_get (state_to_dict s) ''localhost_port'' = PyNone"
  by (simp_all add: state_to_dict_def dict_get_or_def dict_get_def)

lemma coerce_opt_bool: "(if opt_bool x = PyNone then None else Some (coerce_flag (opt_bool x))) = x"
  by (cases x) (simp_all add: opt_bool_def coerce_flag_def)

lemma truthy_opt_bool: "(if opt_bool x = PyNone then None else Some (truthy (opt_bool x))) = x"
  by (cases x) (simp_all add: opt_bool_def)

lemma server_opt_str:
  "stripped x \<Longrightarrow> x \<noteq> Some [] \<Longrightarrow>
   (case opt_str x of PyNone \<Rightarrow> None | PyStr s \<Rightarrow> if py_strip s = [] then None else Some (py_strip s)
      | v \<Rightarrow> Some (py_strip (py_str v))) = x"
  by (cases x) (auto simp: opt_str_def stripped_def)

lemma normalize_state_to_dict:
  assumes srv: "stripped (proxy_server s)" "proxy_server s \<noteq> Some []"
    and pac: "auto_config_url s = nonblank_str v" and ovr: "proxy_override s = nonblank_str w"
  shows "normalize_proxy_state (Some (state_to_dict s)) =
     (let pp = parse_proxy_server (proxy_server s)
      in \<lparr>proxy_enable = proxy_enable s, proxy_server = proxy_server s,
          auto_config_url = drop_blank (auto_config_url s), auto_detect = auto_detect s,
          proxy_override = drop_blank (proxy_override s),
          parsed_host = (if is_localhost_proxy pp then localhost_host pp else None),
          parsed_port = localhost_port pp,
          proxy_mode = normalize_mode pp (proxy_enable s) (proxy_server s) (auto_config_url s) (auto_detect s) (localhost_port pp),
          winhttp_direct_access = winhttp_direct_access s\<rparr>)"
  unfolding normalize_proxy_state_def Let_def option.case state_dict_gets
    server_opt_str [OF srv] nonblank_opt_str [OF pac] nonblank_opt_str [OF ovr]
    coerce_opt_bool truthy_opt_bool normalize_mode_drop_blank
  by (simp add: coerce_flag_def option.case_eq_if)

section \<open>Properties\<close>

text \<open>
  C2. Safety contract of the classifier: a remote-proxy label is returned only for an after-state
  whose proxy is enabled and whose server text is non-blank and does not parse as a loopback
  proxy. In particular a cleared server never yields a remote label.
\<close>

theorem classify_remote_sound:
  assumes "classify_transition b a m \<in>
             {TC_REMOTE_OR_NON_LOOPBACK_PROXY_CONFIGURED, TC_PROXY_SERVER_CHANGED_TO_REMOTE}"
  shows "\<exists>srv. proxy_server (normalize_proxy_state a) = Some srv \<and> py_strip srv \<noteq> [] \<and>
               proxy_enable (normalize_proxy_state a) \<and>
               \<not> is_localhost_proxy (parse_proxy_server (Some srv))"
proof -
  let ?a = "normalize_proxy_state a"
  from assms have "classify_states (normalize_proxy_state b) ?a m \<in>
      {TC_REMOTE_OR_NON_LOOPBACK_PROXY_CONFIGURED, TC_PROXY_SERVER_CHANGED_TO_REMOTE}"
    by (auto simp: classify_transition_def split: if_splits)
  then have "\<not> server_empty (proxy_server ?a)" and "proxy_mode ?a = PM_REMOTE_PROXY"
    using classify_remote_server by blast+
  with normalize_wf [of a] show ?thesis
    by (auto simp: wf_state_def server_empty_def split: option.splits)
qed

theorem classify_remote_sound_witness:
  "let b = Some [(''ProxyEnable'', PyInt 1), (''ProxyServer'', PyStr ''127.0.0.1:80'')];
       a = Some [(''ProxyEnable'', PyInt 1), (''ProxyServer'', PyStr ''proxy:8080'')]
   in classify_transition b a None = TC_PROXY_SERVER_CHANGED_TO_REMOTE \<and>
      (\<exists>srv. proxy_server (normalize_proxy_state a) = Some srv \<and> py_strip srv \<noteq> [] \<and>
             proxy_enable (normalize_proxy_state a) \<and>
             \<not> is_localhost_proxy (parse_proxy_server (Some srv)))"
proof -
  let ?b = "Some [(''ProxyEnable'', PyInt 1), (''ProxyServer'', PyStr ''127.0.0.1:80'')]"
  let ?a = "Some [(''ProxyEnable'', PyInt 1), (''ProxyServer'', PyStr ''proxy:8080'')]"
  have c: "classify_transition ?b ?a None = TC_PROXY_SERVER_CHANGED_TO_REMOTE" by code_simp
  show ?thesis using c classify_remote_sound [of ?b ?a None] by (simp only: Let_def) simp
qed

text \<open>
  A removal is labelled from the full state: when the server text was non-blank before and is
  blank after, the label is decided by the two enable flags alone, whatever the PAC, auto-detect
  or WinHTTP fields say.
\<close>

theorem classify_server_removal:
  assumes "\<not> server_empty (proxy_server (normalize_proxy_state (Some b)))"
    and "server_empty (proxy_server (normalize_proxy_state (Some a)))"
  shows "classify_transition (Some b) (Some a) m =
     (if proxy_enable (normalize_proxy_state (Some a)) then TC_PROXY_SERVER_REMOVED_PARTIAL
      else if proxy_enable (normalize_proxy_state (Some b)) then TC_PROXY_DISABLED_AND_SERVER_REMOVED
      else TC_PROXY_SERVER_REMOVED)"
  using classify_removed [OF assms] by (simp add: classify_transition_def)

theorem classify_server_removal_witness:
  "classify_transition (Some [(''proxy_enable'', PyBool True), (''proxy_server'', PyStr ''127.0.0.1:80'')])
     (Some [(''proxy_enable'', PyBool False)]) None = TC_PROXY_DISABLED_AND_SERVER_REMOVED"
proof -
  let ?b = "[(''proxy_enable'', PyBool True), (''proxy_server'', PyStr ''127.0.0.1:80'')]"
  let ?a = "[(''proxy_enable'', PyBool False)] :: pydict"
  have "\<not> server_empty (proxy_server (normalize_proxy_state (Some ?b)))" by code_simp
  moreover have "server_empty (proxy_server (normalize_proxy_state (Some ?a)))" by code_simp
  moreover have "proxy_enable (normalize_proxy_state (Some ?b))" "\<not> proxy_enable (normalize_proxy_state (Some ?a))"
    by code_simp+
  ultimately show ?thesis using classify_server_removal [of ?b ?a None] by simp
qed

text \<open>
  Feeding a normalised state's own dictionary back through the normaliser gives the same state,
  up to two documented differences: a blank PAC URL or override becomes absent, and a port
  that came from the side field \<open>localhost_port\<close> is replaced by the port of the server text. The mode,
  the flags, the server and the loopback host are unchanged. (The hypothesis excludes a
  non-string server value whose printed form is blank.)
\<close>

theorem normalize_idempotent:
  assumes "proxy_server (normalize_proxy_state raw) \<noteq> Some []"
  shows "normalize_proxy_state (Some (state_to_dict (normalize_proxy_state raw))) =
     (normalize_proxy_state raw)
       \<lparr>auto_config_url := drop_blank (auto_config_url (normalize_proxy_state raw)),
        proxy_override := drop_blank (proxy_override (normalize_proxy_state raw)),
        parsed_port := localhost_port (parse_proxy_server (proxy_server (normalize_proxy_state raw)))\<rparr>"
proof -
  let ?s = "normalize_proxy_state raw"
  let ?pp = "parse_proxy_server (proxy_server ?s)"
  obtain v w where vw: "auto_config_url ?s = nonblank_str v" "proxy_override ?s = nonblank_str w"
    by (simp add: normalize_proxy_state_def Let_def)
  have ports: "is_localhost_proxy ?pp \<Longrightarrow> (\<exists>p. parsed_port ?s = Some p \<and> p \<noteq> 0)"
    "is_localhost_proxy ?pp \<Longrightarrow> (\<exists>p. localhost_port ?pp = Some p \<and> p \<noteq> 0)"
    using localhost_parsed [of "proxy_server ?s"] normalize_derived(3) [of raw] by fastforce+
  have mode: "proxy_mode ?s = normalize_mode ?pp (proxy_enable ?s) (proxy_server ?s) (auto_config_url ?s) (auto_detect ?s) (localhost_port ?pp)"
    using normalize_mode_port [OF ports] normalize_derived(1) [of raw] by simp
  show ?thesis
    using normalize_state_to_dict [OF normalize_server_strip assms vw] mode normalize_derived(2) [of raw]
    by (simp add: Let_def)
qed

theorem normalize_idempotent_witness:
  "proxy_mode (normalize_proxy_state (Some (state_to_dict
     (normalize_proxy_state (Some [(''ProxyEnable'', PyInt 1), (''ProxyServer'', PyStr ''127.0.0.1:80'')])))))
   = PM_LOCALHOST_PROXY"
proof -
  let ?r = "Some [(''ProxyEnable'', PyInt 1), (''ProxyServer'', PyStr ''127.0.0.1:80'')]"
  have "proxy_server (normalize_proxy_state ?r) \<noteq> Some []" by code_simp
  moreover have "proxy_mode (normalize_proxy_state ?r) = PM_LOCALHOST_PROXY" by code_simp
  ultimately show ?thesis using normalize_idempotent [of ?r] by simp
qed

end
