(* ===== verification/Sha256.thy ===== *)
theory Sha256
  imports Py_Values "HOL-Library.Word"
begin

text \<open>
  The digest functions the audit components use from the standard library:
  \<open>hashlib.sha256(b).hexdigest()\<close> (FIPS 180-4) and \<open>hmac.new(key, msg, hashlib.sha256).hexdigest()\<close>
  (RFC 2104), as executable definitions over bytes. The components depend on one fact only, stated as
  the locale \<open>hex_digest\<close>: a digest is a text of 64 hexadecimal digits. The collision argument of
  the audit chain is proved once in that locale.
\<close>

unbundle bit_operations_syntax

type_synonym w32 = "32 word"

text \<open>The round constants (the first 32 bits of the fractional parts of the cube roots of the first 64 primes).\<close>

definition sha_K :: "w32 list" where
  "sha_K = [
    1116352408, 1899447441, 3049323471, 3921009573, 961987163, 1508970993, 2453635748, 2870763221,
    3624381080, 310598401, 607225278, 1426881987, 1925078388, 2162078206, 2614888103, 3248222580,
    3835390401, 4022224774, 264347078, 604807628, 770255983, 1249150122, 1555081692, 1996064986,
    2554220882, 2821834349, 2952996808, 3210313671, 3336571891, 3584528711, 113926993, 338241895,
    666307205, 773529912, 1294757372, 1396182291, 1695183700, 1986661051, 2177026350, 2456956037,
    2730485921, 2820302411, 3259730800, 3345764771, 3516065817, 3600352804, 4094571909, 275423344,
    430227734, 506948616, 659060556, 883997877, 958139571, 1322822218, 1537002063, 1747873779,
    1955562222, 2024104815, 2227730452, 2361852424, 2428436474, 2756734187, 3204031479, 3329325298]"

definition sha_H0 :: "w32 list" where
  "sha_H0 = [0x6a09e667, 0xbb67ae85, 0x3c6ef372, 0xa54ff53a, 0x510e527f, 0x9b05688c, 0x1f83d9ab, 0x5be0cd19]"

definition be_bytes :: "nat \<Rightarrow> nat \<Rightarrow> nat list" where
  "be_bytes n v = map (\<lambda>i. v div 256 ^ (n - 1 - i) mod 256) [0..<n]"

definition sha_pad :: "nat list \<Rightarrow> nat list" where
  "sha_pad bs = bs @ [128] @ replicate ((119 - length bs mod 64) mod 64) 0 @ be_bytes 8 (8 * length bs mod 2 ^ 64)"

fun chunks :: "nat \<Rightarrow> 'a list \<Rightarrow> 'a list list" where
  "chunks n xs = (if xs = [] \<or> n = 0 then [] else take n xs # chunks n (drop n xs))"

declare chunks.simps [simp del]

definition word_be :: "nat list \<Rightarrow> w32" where
  "word_be bs = of_nat (foldl (\<lambda>a b. 256 * a + b) 0 bs)"

definition small_sigma0 :: "w32 \<Rightarrow> w32" where
  "small_sigma0 x = word_rotr 7 x XOR word_rotr 18 x XOR drop_bit 3 x"

definition small_sigma1 :: "w32 \<Rightarrow> w32" where
  "small_sigma1 x = word_rotr 17 x XOR word_rotr 19 x XOR drop_bit 10 x"

definition big_sigma0 :: "w32 \<Rightarrow> w32" where
  "big_sigma0 x = word_rotr 2 x XOR word_rotr 13 x XOR word_rotr 22 x"

definition big_sigma1 :: "w32 \<Rightarrow> w32" where
  "big_sigma1 x = word_rotr 6 x XOR word_rotr 11 x XOR word_rotr 25 x"

text \<open>The message schedule, newest word first: entry \<open>t\<close> depends on \<open>t-2\<close>, \<open>t-7\<close>, \<open>t-15\<close>, \<open>t-16\<close>.\<close>

fun sha_schedule :: "nat \<Rightarrow> w32 list \<Rightarrow> w32 list" where
  "sha_schedule 0 ws = ws"
| "sha_schedule (Suc k) ws =
     sha_schedule k ((small_sigma1 (ws ! 1) + ws ! 6 + small_sigma0 (ws ! 14) + ws ! 15) # ws)"

fun sha_round :: "w32 list \<Rightarrow> w32 \<times> w32 \<Rightarrow> w32 list" where
  "sha_round [a, b, c, d, e, f, g, h] (k, w) =
     (let t1 = h + big_sigma1 e + ((e AND f) XOR (NOT e AND g)) + k + w;
          t2 = big_sigma0 a + ((a AND b) XOR (a AND c) XOR (b AND c))
      in [t1 + t2, a, b, c, d + t1, e, f, g])"
| "sha_round hs kw = hs"

definition sha_block :: "w32 list \<Rightarrow> nat list \<Rightarrow> w32 list" where
  "sha_block hs block =
     (let ws = rev (sha_schedule 48 (rev (map word_be (chunks 4 block))))
      in map2 (+) hs (foldl sha_round hs (zip sha_K ws)))"

definition sha256_words :: "nat list \<Rightarrow> w32 list" where
  "sha256_words bs = foldl sha_block sha_H0 (chunks 64 (sha_pad bs))"

definition hex_word :: "w32 \<Rightarrow> string" where
  "hex_word w = concat (map hex2 (be_bytes 4 (unat w)))"

definition sha256_hex_bytes :: "nat list \<Rightarrow> string" where
  "sha256_hex_bytes bs = concat (map hex_word (sha256_words bs))"

definition sha256_hexdigest :: "string \<Rightarrow> string" where
  "sha256_hexdigest s = sha256_hex_bytes (map char_code s)"

definition hmac_sha256_hexdigest :: "string \<Rightarrow> string \<Rightarrow> string" where
  "hmac_sha256_hexdigest key msg =
     (let kb = map char_code key;
          digest = (\<lambda>bs. concat (map (\<lambda>w. be_bytes 4 (unat w)) (sha256_words bs)));
          k0 = (if 64 < length kb then digest kb else kb);
          k = k0 @ replicate (64 - length k0) 0;
          pad = (\<lambda>c. map (\<lambda>b. unat ((of_nat b :: 8 word) XOR of_nat c)) k)
      in sha256_hex_bytes (pad 0x5c @ digest (pad 0x36 @ map char_code msg)))"

section \<open>Shape of a digest\<close>

lemma length_sha_round: "length (sha_round hs kw) = length hs"
  by (cases "(hs, kw)" rule: sha_round.cases) (simp_all add: Let_def)

lemma length_foldl_sha_round: "length (foldl sha_round hs kws) = length hs"
  by (induction kws arbitrary: hs) (simp_all add: length_sha_round)

lemma length_sha_block: "length (sha_block hs b) = length hs"
  by (simp add: sha_block_def Let_def length_foldl_sha_round)

lemma length_foldl_sha_block: "length (foldl sha_block hs bs) = length hs"
  by (induction bs arbitrary: hs) (simp_all add: length_sha_block)

lemma length_sha256_words: "length (sha256_words bs) = 8"
  by (simp add: sha256_words_def length_foldl_sha_block sha_H0_def)

lemma hex_char_is_hex: "n < 16 \<Longrightarrow> is_hex (hex_char n)"
  by (auto simp: is_hex_def is_digit_def hex_char_def char_code_char_of Let_def)

lemma hex2_is_hex: "c \<in> set (hex2 n) \<Longrightarrow> is_hex c"
  by (auto simp: hex2_def intro!: hex_char_is_hex)

lemma length_hex_word: "length (hex_word w) = 8"
  unfolding hex_word_def
  by (subst length_concat_map_const [where k = 2]) (simp_all add: hex2_def be_bytes_def)

lemma sha256_hex_bytes_length: "length (sha256_hex_bytes bs) = 64"
  unfolding sha256_hex_bytes_def
  by (subst length_concat_map_const [where k = 8]) (simp_all add: length_hex_word length_sha256_words)

lemma sha256_hex_bytes_hex: "c \<in> set (sha256_hex_bytes bs) \<Longrightarrow> is_hex c"
  by (auto simp: sha256_hex_bytes_def hex_word_def dest: hex2_is_hex)

section \<open>The contract the audit components rely on\<close>

locale hex_digest =
  fixes digest :: "string \<Rightarrow> string"
  assumes digest_length: "length (digest s) = 64"
    and digest_hex: "c \<in> set (digest s) \<Longrightarrow> is_hex c"
begin

lemma bar_not_in_digest: "CHR ''|'' \<notin> set (digest s)"
proof
  assume "CHR ''|'' \<in> set (digest s)"
  then have "is_hex (CHR ''|'')" by (rule digest_hex)
  then show False by (simp add: py_eval)
qed

text \<open>A separator that occurs in neither left part splits both texts at the same place.\<close>

lemma bar_split:
  assumes "CHR ''|'' \<notin> set a" and "CHR ''|'' \<notin> set b"
    and "a @ CHR ''|'' # x = b @ CHR ''|'' # y"
  shows "a = b \<and> x = y"
proof -
  have "takeWhile (\<lambda>c. c \<noteq> CHR ''|'') (a @ CHR ''|'' # x) = a"
    using assms(1) by (subst takeWhile_append2) auto
  moreover have "takeWhile (\<lambda>c. c \<noteq> CHR ''|'') (b @ CHR ''|'' # y) = b"
    using assms(2) by (subst takeWhile_append2) auto
  ultimately have "a = b" using assms(3) by simp
  with assms(3) show ?thesis by simp
qed

text \<open>
  A hash chain over a list of bodies, starting from a text: the tip, and the texts that are hashed on
  the way. Two chains with the same tip either have the same bodies, or two different texts hashed
  along the two chains have the same digest.
\<close>

definition link :: "string \<Rightarrow> string \<Rightarrow> string" where
  "link prev body = prev @ ''|'' @ body"

fun chain_tip :: "string \<Rightarrow> string list \<Rightarrow> string" where
  "chain_tip prev [] = prev"
| "chain_tip prev (b # bs) = chain_tip (digest (link prev b)) bs"

fun chain_texts :: "string \<Rightarrow> string list \<Rightarrow> string list" where
  "chain_texts prev [] = []"
| "chain_texts prev (b # bs) = link prev b # chain_texts (digest (link prev b)) bs"

lemma chain_tip_snoc: "chain_tip prev (bs @ [b]) = digest (link (chain_tip prev bs) b)"
  by (induction bs arbitrary: prev) auto

lemma chain_texts_snoc: "chain_texts prev (bs @ [b]) = chain_texts prev bs @ [link (chain_tip prev bs) b]"
  by (induction bs arbitrary: prev) auto

lemma chain_tip_shape:
  "CHR ''|'' \<notin> set prev \<Longrightarrow> CHR ''|'' \<notin> set (chain_tip prev bs)"
  by (cases bs rule: rev_cases) (auto simp: chain_tip_snoc bar_not_in_digest)

lemma chain_tip_length: "bs \<noteq> [] \<Longrightarrow> length (chain_tip prev bs) = 64"
  by (cases bs rule: rev_cases) (auto simp: chain_tip_snoc digest_length)

theorem chain_tip_binds:
  assumes "CHR ''|'' \<notin> set g" and "length g \<noteq> 64" and "chain_tip g xs = chain_tip g ys"
  shows "xs = ys \<or> (\<exists>u\<in>set (chain_texts g xs). \<exists>v\<in>set (chain_texts g ys). u \<noteq> v \<and> digest u = digest v)"
  using assms(3)
proof (induction xs arbitrary: ys rule: rev_induct)
  case Nil
  then show ?case using chain_tip_length [of ys g] assms(2) by (cases "ys = []") auto
next
  case (snoc x xs)
  show ?case
  proof (cases ys rule: rev_cases)
    case Nil
    then show ?thesis using snoc.prems chain_tip_length [of "xs @ [x]" g] assms(2) by auto
  next
    case (snoc zs z)
    let ?u = "link (chain_tip g xs) x" and ?v = "link (chain_tip g zs) z"
    have d: "digest ?u = digest ?v" using snoc.prems snoc by (simp add: chain_tip_snoc)
    show ?thesis
    proof (cases "?u = ?v")
      case True
      then have eq: "chain_tip g xs = chain_tip g zs" "x = z"
        using bar_split [OF chain_tip_shape chain_tip_shape] assms(1) by (auto simp: link_def)
      from snoc.IH [OF eq(1)] show ?thesis using snoc eq(2) by (auto simp: chain_texts_snoc)
    next
      case False
      then show ?thesis using d snoc by (auto simp: chain_texts_snoc)
    qed
  qed
qed

end

interpretation sha: hex_digest sha256_hexdigest
  by unfold_locales (auto simp: sha256_hexdigest_def sha256_hex_bytes_length sha256_hex_bytes_hex)

interpretation hmac: hex_digest "hmac_sha256_hexdigest key" for key
  by unfold_locales (auto simp: hmac_sha256_hexdigest_def Let_def sha256_hex_bytes_length sha256_hex_bytes_hex)

end
