(* ===== verification/Proxy_Evidence.thy ===== *)
theory Proxy_Evidence
  imports Proxy_State Sha256
begin

text \<open>
  The evidence half of \<open>windows_network_toolkit/proxy_state_machine.py\<close>: primary classification and
  secondary signals, the safety check on a label, the explainable classification, process
  attribution, the structured evidence event and the legacy mappings. Output dictionaries are
  modelled as dictionaries, key by key; the parameter \<open>now\<close> stands for the clock's text. A
  \<open>frozenset\<close> is listed in source order.

  The lemmas read fields off an evidence event. The properties are the two safety contracts of
  the module: no remote label for a cleared server, and no writer-grade claim without writer proof.
\<close>

section \<open>Primary classification\<close>

datatype primary_classification =
    PC_NO_CHANGE | PC_LOCALHOST_PROXY_REMOVED | PC_PROXY_REMOVED | PC_PROXY_DISABLED_OR_REMOVED
  | PC_LOCALHOST_PROXY_CONFIGURED | PC_LOCALHOST_PROXY_PORT_CHANGED | PC_PROXY_SERVER_CHANGED_TO_REMOTE
  | PC_REMOTE_PROXY_CONFIGURED | PC_PAC_CONFIGURED | PC_PAC_REMOVED | PC_PROXY_ENABLED_INCONSISTENT
  | PC_WININET_WINHTTP_MISMATCH | PC_REVERTER_SUSPECTED | PC_INSUFFICIENT_DATA

fun primary_value :: "primary_classification \<Rightarrow> string" where
  "primary_value PC_NO_CHANGE = ''NO_CHANGE''"
| "primary_value PC_LOCALHOST_PROXY_REMOVED = ''LOCALHOST_PROXY_REMOVED''"
| "primary_value PC_PROXY_REMOVED = ''PROXY_REMOVED''"
| "primary_value PC_PROXY_DISABLED_OR_REMOVED = ''PROXY_DISABLED_OR_REMOVED''"
| "primary_value PC_LOCALHOST_PROXY_CONFIGURED = ''LOCALHOST_PROXY_CONFIGURED''"
| "primary_value PC_LOCALHOST_PROXY_PORT_CHANGED = ''LOCALHOST_PROXY_PORT_CHANGED''"
| "primary_value PC_PROXY_SERVER_CHANGED_TO_REMOTE = ''PROXY_SERVER_CHANGED_TO_REMOTE''"
| "primary_value PC_REMOTE_PROXY_CONFIGURED = ''REMOTE_PROXY_CONFIGURED''"
| "primary_value PC_PAC_CONFIGURED = ''PAC_CONFIGURED''"
| "primary_value PC_PAC_REMOVED = ''PAC_REMOVED''"
| "primary_value PC_PROXY_ENABLED_INCONSISTENT = ''PROXY_ENABLED_INCONSISTENT''"
| "primary_value PC_WININET_WINHTTP_MISMATCH = ''WININET_WINHTTP_MISMATCH''"
| "primary_value PC_REVERTER_SUSPECTED = ''REVERTER_SUSPECTED''"
| "primary_value PC_INSUFFICIENT_DATA = ''INSUFFICIENT_DATA''"

definition forbidden_when_after_server_empty :: "string list" where
  "forbidden_when_after_server_empty =
     [''REMOTE_OR_NON_LOOPBACK_PROXY_CONFIGURED'', ''REMOTE_PROXY_CONFIGURED'',
      ''PROXY_SERVER_CHANGED_TO_REMOTE'', ''NON_LOOPBACK_PROXY_CONFIGURED'']"

definition TRUSTED_DEV_TOOLS :: "string set" where
  "TRUSTED_DEV_TOOLS = {''node.exe'', ''node'', ''cursor.exe'', ''cursor'', ''code.exe'', ''vscode.exe''}"

definition STANDARD_ATTRIBUTION_LIMITATIONS :: "string list" where
  "STANDARD_ATTRIBUTION_LIMITATIONS =
     [''Likely process / correlation only'', ''Registry writer proof unavailable'',
      ''Attribution requires Sysmon, Procmon, or EventLog registry write evidence'']"

definition map_primary_classification ::
  "transition_class \<Rightarrow> wininet_state \<Rightarrow> wininet_state \<Rightarrow> primary_classification" where
  "map_primary_classification t old new =
     (let before_localhost = (proxy_mode old = PM_LOCALHOST_PROXY);
          server_removed = (\<not> server_empty (proxy_server old) \<and> server_empty (proxy_server new))
      in if t = TC_NO_CHANGE then PC_NO_CHANGE
         else if t = TC_REVERTER_SUSPECTED_LOCALHOST_PROXY_LOOP then PC_REVERTER_SUSPECTED
         else if t = TC_ERROR_INSUFFICIENT_DATA then PC_INSUFFICIENT_DATA
         else if t = TC_WININET_WINHTTP_MISMATCH then PC_WININET_WINHTTP_MISMATCH
         else if t = TC_LOCALHOST_PROXY_PORT_CHANGED then PC_LOCALHOST_PROXY_PORT_CHANGED
         else if t = TC_PROXY_SERVER_CHANGED_TO_REMOTE then PC_PROXY_SERVER_CHANGED_TO_REMOTE
         else if t = TC_REMOTE_OR_NON_LOOPBACK_PROXY_CONFIGURED then PC_REMOTE_PROXY_CONFIGURED
         else if t = TC_PAC_CONFIGURED then PC_PAC_CONFIGURED
         else if t = TC_PAC_REMOVED then PC_PAC_REMOVED
         else if t = TC_PROXY_ENABLED_WITH_NO_SERVER then PC_PROXY_ENABLED_INCONSISTENT
         else if t = TC_LOCALHOST_PROXY_ENABLED then PC_LOCALHOST_PROXY_CONFIGURED
         else if t = TC_PROXY_DISABLED_AND_SERVER_REMOVED then PC_PROXY_DISABLED_OR_REMOVED
         else if t = TC_PROXY_SERVER_REMOVED_PARTIAL \<and> before_localhost then PC_LOCALHOST_PROXY_REMOVED
         else if t \<in> {TC_PROXY_SERVER_REMOVED, TC_PROXY_SERVER_REMOVED_PARTIAL} \<and> server_removed
           then (if \<not> before_localhost then PC_PROXY_REMOVED else PC_LOCALHOST_PROXY_REMOVED)
         else if t = TC_PROXY_DISABLED then PC_PROXY_DISABLED_OR_REMOVED
         else PC_INSUFFICIENT_DATA)"

text \<open>The process dictionary of a listener: its \<open>process\<close> entry when that is a dictionary, else itself.\<close>

definition listener_proc :: "pydict \<Rightarrow> pydict" where
  "listener_proc listener =
     (if listener = [] then []
      else case dict_get listener ''process'' of PyDict d \<Rightarrow> d | _ \<Rightarrow> listener)"

definition secondary_signals ::
  "wininet_state \<Rightarrow> wininet_state \<Rightarrow> transition_class \<Rightarrow> pydict \<Rightarrow> pydict \<Rightarrow> bool \<Rightarrow> string list" where
  "secondary_signals old new t listener health writer_proof =
     (let before_localhost = (proxy_mode old = PM_LOCALHOST_PROXY);
          server_removed = (\<not> server_empty (proxy_server old) \<and> server_empty (proxy_server new));
          proc = listener_proc listener;
          direct_ok = truthy (dict_get health ''direct_probe_ok'');
          proxy_ok = truthy (dict_get health ''proxy_probe_ok'');
          s1 = (if before_localhost \<and> server_removed then [''LOCALHOST_PROXY_REMOVED''] else []);
          s2 = (if t = TC_PROXY_DISABLED_AND_SERVER_REMOVED \<and> before_localhost then [''LOCALHOST_PROXY_REMOVED''] else []);
          s3 = (if t = TC_PROXY_DISABLED then [''PROXY_ENABLE_DISABLED''] else []);
          s4 = (if proxy_mode new = PM_LOCALHOST_PROXY
                then (if proc \<noteq> [] \<and> truthy (dict_get proc ''name'') then [''LISTENER_PRESENT'']
                      else if health \<noteq> [] \<and> dict_get health ''tcp_listening'' = PyBool False then [''LISTENER_MISSING'']
                      else [''LISTENER_UNKNOWN''])
                else []);
          s5 = (if health \<noteq> []
                then (if py_str (py_or (dict_get health ''proxy_status'') (PyStr [])) = ''DEAD_LOCALHOST_PROXY''
                         \<or> (direct_ok \<and> \<not> proxy_ok) then [''DIRECT_OK_PROXY_FAIL''] else [])
                     @ (if proxy_ok \<and> \<not> direct_ok then [''PROXY_OK_DIRECT_FAIL''] else [])
                     @ (if \<not> direct_ok \<and> \<not> proxy_ok then [''BOTH_PATHS_FAIL''] else [])
                else []);
          s6 = (if writer_proof then [''REGISTRY_WRITER_PROOF_PRESENT''] else [''REGISTRY_WRITER_PROOF_UNAVAILABLE''])
      in dict_fromkeys (s1 @ s2 @ s3 @ s4 @ s5 @ s6))"

definition validate_classification_safety :: "pyval \<Rightarrow> string \<Rightarrow> string \<Rightarrow> string list" where
  "validate_classification_safety after_proxy_server primary transition =
     (if server_empty_val after_proxy_server
      then map (\<lambda>f. ''after_proxy_server is empty but classification is '' @ f)
             (filter (\<lambda>f. f = primary \<or> f = transition) forbidden_when_after_server_empty)
      else [])"

definition strs :: "string list \<Rightarrow> pyval" where
  "strs xs = PyList (map PyStr xs)"

definition or_none :: "string option \<Rightarrow> string" where
  "or_none x = (case x of None \<Rightarrow> ''None'' | Some s \<Rightarrow> if s = [] then ''None'' else s)"

definition bit_str :: "bool \<Rightarrow> string" where
  "bit_str b = (if b then ''1'' else ''0'')"

definition build_explainable_classification ::
  "pydict \<Rightarrow> pydict \<Rightarrow> transition_class \<Rightarrow> pydict \<Rightarrow> pydict \<Rightarrow> bool \<Rightarrow> pydict" where
  "build_explainable_classification before_raw after_raw t listener health writer_proof =
     (let old = normalize_proxy_state (Some before_raw);
          new = normalize_proxy_state (Some after_raw);
          primary = map_primary_classification t old new;
          secondary = secondary_signals old new t listener health writer_proof;
          confidence = confidence_for_transition t writer_proof;
          why = (if proxy_server old \<noteq> proxy_server new
                 then [''Observed ProxyServer transition: '' @ or_none (proxy_server old) @ '' -> '' @ or_none (proxy_server new)]
                 else [])
              @ (if proxy_enable old \<noteq> proxy_enable new
                 then [''Observed ProxyEnable transition: '' @ bit_str (proxy_enable old) @ '' -> '' @ bit_str (proxy_enable new)]
                 else [])
              @ (if primary = PC_LOCALHOST_PROXY_REMOVED
                 then [''Evidence indicates localhost proxy server removal, not remote proxy configuration.''] else [])
              @ (if primary = PC_REVERTER_SUSPECTED
                 then [''Repeated enable/disable pattern observed '' @ em_dash @ '' correlation only without registry writer proof.'']
                 else []);
          next_checks =
              (if ''REGISTRY_WRITER_PROOF_UNAVAILABLE'' \<in> set secondary
               then [''Collect Sysmon Event ID 13, Security 4657, or Procmon registry write trace.''] else [])
              @ (if ''LISTENER_MISSING'' \<in> set secondary
                 then [''Identify process bound to configured localhost port or confirm stale proxy config.''] else [])
              @ (if primary \<in> {PC_REMOTE_PROXY_CONFIGURED, PC_PROXY_SERVER_CHANGED_TO_REMOTE}
                 then [''Verify business justification for non-loopback proxy endpoint.''] else []);
          blocked =
              (if \<not> writer_proof
               then [''Malware accusation blocked because registry writer proof is missing.'',
                     ''Process name treated as correlation only '' @ em_dash @ '' not registry writer proof.''] else [])
              @ (if server_empty (proxy_server new)
                 then [''Remote proxy configured inference blocked because after_proxy_server is empty.''] else [])
      in [(''primary_classification'', PyStr (primary_value primary)),
          (''secondary_signals'', strs secondary),
          (''confidence'', PyFloat (fst confidence) (snd confidence)),
          (''confidence_semantics'', PyStr ''ordinal_not_probability''),
          (''why'', strs (if why \<noteq> [] then why
                         else [''Full before/after WinINET state compared '' @ em_dash @ '' not isolated field diff.''])),
          (''limitations'', strs (limitations_for_transition t)),
          (''recommended_next_checks'', strs next_checks),
          (''unsafe_inferences_blocked'', strs blocked),
          (''transition_class'', PyStr (transition_class_value t)),
          (''safety_violations'', strs (validate_classification_safety (opt_str (proxy_server new))
                                          (primary_value primary) (transition_class_value t)))])"

definition build_attribution :: "pydict \<Rightarrow> bool \<Rightarrow> string option \<Rightarrow> pydict" where
  "build_attribution listener writer_proof writer_kind =
     (let proc = listener_proc listener;
          (kind, conf, limits) =
            (if writer_proof \<and> writer_kind \<in> {Some ''eventlog'', Some ''sysmon'', Some ''procmon''}
             then (the writer_kind, PyFloat (85/100) ''0.85'', [])
             else if proc \<noteq> [] then (''correlation'', PyFloat (55/100) ''0.55'', STANDARD_ATTRIBUTION_LIMITATIONS)
             else (''none'', PyFloat 0 ''0.0'', STANDARD_ATTRIBUTION_LIMITATIONS));
          field = (\<lambda>a b. if proc \<noteq> [] then py_or (dict_get proc a) (dict_get proc b) else PyNone)
      in [(''kind'', PyStr kind),
          (''process_name'', dict_get proc ''name''),
          (''pid'', dict_get proc ''pid''),
          (''parent_process'', field ''parent'' ''parent_name''),
          (''executable_path'', field ''exe'' ''executable_path''),
          (''command_line'', field ''cmdline'' ''command_line''),
          (''confidence'', conf),
          (''limitations'', strs limits)])"

definition make_transition_event_id :: "string \<Rightarrow> pydict \<Rightarrow> pydict \<Rightarrow> string" where
  "make_transition_event_id ts before_d after_d =
     take 24 (sha256_hexdigest (json_dumps (PyDict
       [(''timestamp_utc'', PyStr ts), (''before'', PyDict before_d), (''after'', PyDict after_d)])))"

definition build_proxy_evidence_event ::
  "string \<Rightarrow> pydict \<Rightarrow> pydict \<Rightarrow> string option \<Rightarrow> pydict \<Rightarrow> bool \<Rightarrow> string option \<Rightarrow> bool option \<Rightarrow>
   pydict \<Rightarrow> transition_class option \<Rightarrow> pydict \<Rightarrow> pydict list \<Rightarrow> pydict" where
  "build_proxy_evidence_event now before_raw after_raw timestamp_utc listener writer_proof writer_kind
       winhttp_mismatch health transition_override coalesce_meta raw_sub_events =
     (let ts = (case timestamp_utc of None \<Rightarrow> now | Some s \<Rightarrow> if s = [] then now else s);
          old = normalize_proxy_state (Some before_raw);
          new = normalize_proxy_state (Some after_raw);
          t = (case transition_override of
                 Some ovr \<Rightarrow> ovr
               | None \<Rightarrow> classify_transition (Some before_raw) (Some after_raw) winhttp_mismatch);
          proc_name = dict_get_or (listener_proc listener) ''name'' (PyStr []);
          listener_trusted = (py_lower (py_str proc_name) \<in> TRUSTED_DEV_TOOLS);
          listener_unknown = (proxy_mode new = PM_LOCALHOST_PROXY \<and> \<not> truthy proc_name);
          risk = risk_for_transition t listener_trusted listener_unknown;
          confidence = confidence_for_transition t writer_proof;
          proof_tier = proof_tier_for_transition t writer_proof (listener \<noteq> []);
          attribution0 = build_attribution listener writer_proof writer_kind;
          attribution = (if proof_tier \<in> {''T0'', ''T1'', ''T2''} \<and> dict_get attribution0 ''kind'' = PyStr ''correlation''
                         then dict_set attribution0 ''limitations'' (strs STANDARD_ATTRIBUTION_LIMITATIONS)
                         else attribution0);
          evidence_lines =
              (if proxy_server old \<noteq> proxy_server new
               then [''ProxyServer: '' @ or_none (proxy_server old) @ '' -> '' @ or_none (proxy_server new)] else [])
              @ (if proxy_enable old \<noteq> proxy_enable new
                 then [''ProxyEnable: '' @ bit_str (proxy_enable old) @ '' -> '' @ bit_str (proxy_enable new)] else [])
              @ (if listener \<noteq> [] \<and> truthy proc_name
                 then [''Process was listening on the configured localhost proxy port: '' @ py_str proc_name
                       @ '' (Likely process / correlation only)''] else []);
          classification = build_explainable_classification before_raw after_raw t listener health writer_proof;
          event0 =
            [(''event_id'', PyStr (make_transition_event_id ts (state_to_dict old) (state_to_dict new))),
             (''timestamp_utc'', PyStr ts),
             (''before_state'', PyDict (state_to_dict old)),
             (''after_state'', PyDict (state_to_dict new)),
             (''transition_class'', PyStr (transition_class_value t)),
             (''risk'', PyStr risk),
             (''confidence'', PyFloat (fst confidence) (snd confidence)),
             (''proof_tier'', PyStr proof_tier),
             (''attribution'', PyDict attribution),
             (''evidence'', strs evidence_lines),
             (''limitations'', strs (limitations_for_transition t)),
             (''recommended_action'', PyStr (recommended_action t)),
             (''policy_decision'', PyStr (policy_decision_for_risk risk)),
             (''classification'', PyDict classification)];
          event1 = dict_set event0 ''primary_classification'' (dict_get classification ''primary_classification'');
          event2 = (if coalesce_meta \<noteq> [] then dict_update event1 coalesce_meta else event1)
      in if raw_sub_events \<noteq> [] then dict_set event2 ''raw_sub_events'' (PyList (map PyDict raw_sub_events)) else event2)"

section \<open>Legacy mappings\<close>

definition transition_class_of_value :: "string \<Rightarrow> transition_class option" where
  "transition_class_of_value s = find (\<lambda>t. transition_class_value t = s) all_transition_classes"

definition transition_class_to_legacy_risk :: "string \<Rightarrow> string" where
  "transition_class_to_legacy_risk transition =
     (case transition_class_of_value transition of
        None \<Rightarrow> ''medium''
      | Some tc \<Rightarrow> (let risk = risk_for_transition tc False False
                   in if risk \<noteq> ''INFO'' then py_lower risk else ''low''))"

definition transition_class_to_legacy_reason :: "string \<Rightarrow> string" where
  "transition_class_to_legacy_reason transition =
     (case transition_class_of_value transition of
        None \<Rightarrow> ''Proxy-related registry fields changed''
      | Some tc \<Rightarrow>
          (if tc = TC_REMOTE_OR_NON_LOOPBACK_PROXY_CONFIGURED then ''Remote or non-loopback proxy server configured''
           else recommended_action tc))"

section \<open>What an evidence event says\<close>

text \<open>The keys that a caller may pass in \<open>coalesce_meta\<close>: the ones \<open>coalesce_proxy_events\<close> passes.\<close>

definition coalesce_keys :: "string set" where
  "coalesce_keys = {''coalesced'', ''coalesce_window_ms'', ''raw_sub_event_count''}"

definition event_transition :: "pydict \<Rightarrow> pydict \<Rightarrow> bool option \<Rightarrow> transition_class option \<Rightarrow> transition_class" where
  "event_transition b a m ovr =
     (case ovr of Some t \<Rightarrow> t | None \<Rightarrow> classify_transition (Some b) (Some a) m)"

lemma dict_get_update_other: "k \<notin> fst ` set e \<Longrightarrow> dict_get (dict_update d e) k = dict_get d k"
proof -
  assume "k \<notin> fst ` set e"
  then have "map_of (rev e) k = None" by (simp add: map_of_eq_None_iff)
  then show ?thesis by (simp add: dict_get_def map_of_dict_update)
qed

lemma dict_get_update_hit: "map_of (rev e) k = Some v \<Longrightarrow> dict_get (dict_update d e) k = v"
  by (simp add: dict_get_def map_of_dict_update)

lemma evidence_event_decomp:
  "build_proxy_evidence_event now b a ts lst wp wk m h ovr meta raw =
     (let e = build_proxy_evidence_event now b a ts lst wp wk m h ovr [] [];
          e' = (if meta \<noteq> [] then dict_update e meta else e)
      in if raw \<noteq> [] then dict_set e' ''raw_sub_events'' (PyList (map PyDict raw)) else e')"
  unfolding build_proxy_evidence_event_def Let_def by (simp only: refl simp_thms if_False)

lemma evidence_event_get:
  assumes "fst ` set meta \<subseteq> coalesce_keys" and "k \<notin> coalesce_keys" and "k \<noteq> ''raw_sub_events''"
  shows "dict_get (build_proxy_evidence_event now b a ts lst wp wk m h ovr meta raw) k =
         dict_get (build_proxy_evidence_event now b a ts lst wp wk m h ovr [] []) k"
proof -
  have k: "k \<notin> fst ` set meta" using assms by blast
  show ?thesis using assms(3)
    by (subst evidence_event_decomp) (simp add: Let_def dict_get_update_other [OF k])
qed

lemma evidence_event_fields:
  fixes b a m ovr now ts lst wp wk h
  defines "t \<equiv> event_transition b a m ovr"
  defines "ev \<equiv> build_proxy_evidence_event now b a ts lst wp wk m h ovr [] []"
  shows "dict_get ev ''transition_class'' = PyStr (transition_class_value t)"
    and "dict_get ev ''proof_tier'' = PyStr (proof_tier_for_transition t wp (lst \<noteq> []))"
    and "dict_get ev ''classification'' = PyDict (build_explainable_classification b a t lst h wp)"
    and "dict_get ev ''before_state'' = PyDict (state_to_dict (normalize_proxy_state (Some b)))"
    and "dict_get ev ''after_state'' = PyDict (state_to_dict (normalize_proxy_state (Some a)))"
    and "dict_get ev ''primary_classification'' =
           PyStr (primary_value (map_primary_classification t (normalize_proxy_state (Some b)) (normalize_proxy_state (Some a))))"
    and "\<exists>d. dict_get ev ''attribution'' = PyDict d \<and> dict_get d ''kind'' = dict_get (build_attribution lst wp wk) ''kind''"
    and "\<exists>r. dict_get ev ''risk'' = PyStr r \<and> dict_get ev ''policy_decision'' = PyStr (policy_decision_for_risk r) \<and>
             (\<exists>x y. r = risk_for_transition t x y)"
  by (auto simp: ev_def t_def event_transition_def build_proxy_evidence_event_def Let_def dict_get_def
      build_explainable_classification_def map_of_dict_set)

lemma classify_transition_Some:
  "classify_transition (Some b) (Some a) m =
     classify_states (normalize_proxy_state (Some b)) (normalize_proxy_state (Some a)) m"
  by (simp add: classify_transition_def)

lemma forbidden_transition_values:
  "transition_class_value t \<in> set forbidden_when_after_server_empty \<longleftrightarrow>
     t \<in> {TC_REMOTE_OR_NON_LOOPBACK_PROXY_CONFIGURED, TC_PROXY_SERVER_CHANGED_TO_REMOTE}"
  by (cases t) (simp_all add: forbidden_when_after_server_empty_def)

lemma forbidden_primary_values:
  "primary_value (map_primary_classification t x y) \<in> set forbidden_when_after_server_empty \<longleftrightarrow>
     t \<in> {TC_REMOTE_OR_NON_LOOPBACK_PROXY_CONFIGURED, TC_PROXY_SERVER_CHANGED_TO_REMOTE}"
  by (cases t) (simp_all add: forbidden_when_after_server_empty_def map_primary_classification_def Let_def)

lemma safety_violations_none:
  assumes "server_empty (proxy_server y) \<Longrightarrow>
             t \<notin> {TC_REMOTE_OR_NON_LOOPBACK_PROXY_CONFIGURED, TC_PROXY_SERVER_CHANGED_TO_REMOTE}"
  shows "validate_classification_safety (opt_str (proxy_server y))
           (primary_value (map_primary_classification t x y)) (transition_class_value t) = []"
proof (cases "server_empty (proxy_server y)")
  case True
  then have "t \<notin> {TC_REMOTE_OR_NON_LOOPBACK_PROXY_CONFIGURED, TC_PROXY_SERVER_CHANGED_TO_REMOTE}"
    by (rule assms)
  then have "primary_value (map_primary_classification t x y) \<notin> set forbidden_when_after_server_empty"
    "transition_class_value t \<notin> set forbidden_when_after_server_empty"
    by (simp_all only: forbidden_primary_values forbidden_transition_values) simp_all
  then show ?thesis by (auto simp: validate_classification_safety_def filter_empty_conv)
next
  case False
  then have "\<not> server_empty_val (opt_str (proxy_server y))"
    by (auto simp: server_empty_def opt_str_def split: option.splits)
  then show ?thesis by (simp add: validate_classification_safety_def)
qed

lemma event_transition_safe:
  assumes "ovr \<in> {None, Some TC_REVERTER_SUSPECTED_LOCALHOST_PROXY_LOOP}"
    and "server_empty (proxy_server (normalize_proxy_state (Some a)))"
  shows "event_transition b a m ovr \<notin> {TC_REMOTE_OR_NON_LOOPBACK_PROXY_CONFIGURED, TC_PROXY_SERVER_CHANGED_TO_REMOTE}"
  using assms classify_remote_server [of "normalize_proxy_state (Some b)" "normalize_proxy_state (Some a)" m]
  by (auto simp: event_transition_def classify_transition_Some)

lemma secondary_writer_signal:
  "(if wp then ''REGISTRY_WRITER_PROOF_PRESENT'' else ''REGISTRY_WRITER_PROOF_UNAVAILABLE'')
     \<in> set (secondary_signals x y t lst h wp)"
  by (simp add: secondary_signals_def Let_def)

lemma attribution_kind:
  "dict_get (build_attribution lst wp wk) ''kind'' =
     PyStr (if wp \<and> wk \<in> {Some ''eventlog'', Some ''sysmon'', Some ''procmon''} then the wk
            else if listener_proc lst \<noteq> [] then ''correlation'' else ''none'')"
  by (auto simp: build_attribution_def Let_def dict_get_def split: prod.splits)

lemma risk_review_iff:
  "policy_decision_for_risk (risk_for_transition t x y) = ''REQUIRE_HUMAN_REVIEW'' \<longleftrightarrow>
     risk_for_transition t x y = ''HIGH''"
  by (cases t) (simp_all add: policy_decision_for_risk_def)

section \<open>Properties\<close>

text \<open>
  Release-blocking safety contract: an evidence event built by the classifier itself, or with the
  reverter override that replay uses, never carries a safety violation, whatever the two
  snapshots, the listener, the probes and the writer evidence are. Its top-level primary label is
  the one of its classification block.
\<close>

theorem evidence_event_safe:
  assumes "ovr \<in> {None, Some TC_REVERTER_SUSPECTED_LOCALHOST_PROXY_LOOP}"
    and "fst ` set meta \<subseteq> coalesce_keys"
  shows "\<exists>c. dict_get (build_proxy_evidence_event now b a ts lst wp wk m h ovr meta raw) ''classification'' = PyDict c \<and>
             dict_get c ''safety_violations'' = PyList [] \<and>
             dict_get c ''primary_classification'' =
               dict_get (build_proxy_evidence_event now b a ts lst wp wk m h ovr meta raw) ''primary_classification''"
proof -
  note get = evidence_event_get [OF assms(2)]
  have "validate_classification_safety (opt_str (proxy_server (normalize_proxy_state (Some a))))
          (primary_value (map_primary_classification (event_transition b a m ovr)
             (normalize_proxy_state (Some b)) (normalize_proxy_state (Some a))))
          (transition_class_value (event_transition b a m ovr)) = []"
    using event_transition_safe [OF assms(1)] by (rule safety_violations_none)
  then show ?thesis
    by (simp add: get coalesce_keys_def evidence_event_fields)
       (simp add: build_explainable_classification_def Let_def dict_get_def strs_def)
qed

theorem evidence_event_safe_witness:
  "\<exists>c. dict_get (build_proxy_evidence_event ''t'' [(''ProxyServer'', PyStr ''p:1''), (''ProxyEnable'', PyInt 1)] [] None [] False None None [] None
          [(''coalesced'', PyBool True)] []) ''classification'' = PyDict c \<and> dict_get c ''safety_violations'' = PyList []"
  using evidence_event_safe [of None "[(''coalesced'', PyBool True)]" "''t''"
      "[(''ProxyServer'', PyStr ''p:1''), (''ProxyEnable'', PyInt 1)]" "[]" None "[]" False None None "[]" "[]"]
  by (auto simp: coalesce_keys_def)

text \<open>
  Proof discipline of an evidence event: the tier T3 is given exactly when registry-writer proof is
  present; without it the event signals that the proof is unavailable, blocks the malware
  accusation in writing, and attributes at most by correlation. A human review is demanded exactly
  when the risk is high.
\<close>

theorem evidence_event_proof_discipline:
  assumes "fst ` set meta \<subseteq> coalesce_keys"
    and "ev = build_proxy_evidence_event now b a ts lst wp wk m h ovr meta raw"
  shows "\<exists>tier c blocked d kind risk policy signals.
     dict_get ev ''proof_tier'' = PyStr tier \<and> (tier = ''T3'' \<longleftrightarrow> wp) \<and> tier \<in> {''T0'', ''T1'', ''T2'', ''T3''} \<and>
     dict_get ev ''classification'' = PyDict c \<and>
     dict_get c ''secondary_signals'' = strs signals \<and>
     (\<not> wp \<longrightarrow> ''REGISTRY_WRITER_PROOF_UNAVAILABLE'' \<in> set signals) \<and>
     dict_get c ''unsafe_inferences_blocked'' = strs blocked \<and>
     (\<not> wp \<longrightarrow> ''Malware accusation blocked because registry writer proof is missing.'' \<in> set blocked) \<and>
     dict_get ev ''attribution'' = PyDict d \<and> dict_get d ''kind'' = PyStr kind \<and>
     (\<not> wp \<longrightarrow> kind \<in> {''correlation'', ''none''}) \<and>
     dict_get ev ''risk'' = PyStr risk \<and> dict_get ev ''policy_decision'' = PyStr policy \<and>
     (policy = ''REQUIRE_HUMAN_REVIEW'' \<longleftrightarrow> risk = ''HIGH'')"
proof -
  let ?t = "event_transition b a m ovr"
  note get = evidence_event_get [OF assms(1)] and f = evidence_event_fields [of now b a ts lst wp wk m h ovr]
  have e: "k \<notin> coalesce_keys \<Longrightarrow> k \<noteq> ''raw_sub_events'' \<Longrightarrow>
      dict_get ev k = dict_get (build_proxy_evidence_event now b a ts lst wp wk m h ovr [] []) k" for k
    by (simp add: assms(2) get)
  obtain d where d: "dict_get ev ''attribution'' = PyDict d"
    and kd: "dict_get d ''kind'' = dict_get (build_attribution lst wp wk) ''kind''"
    using f(7) by (auto simp: e coalesce_keys_def)
  obtain kind where k: "dict_get (build_attribution lst wp wk) ''kind'' = PyStr kind"
    and kn: "\<not> wp \<longrightarrow> kind \<in> {''correlation'', ''none''}"
    by (auto simp: attribution_kind)
  obtain r x y where r: "dict_get ev ''risk'' = PyStr r" "dict_get ev ''policy_decision'' = PyStr (policy_decision_for_risk r)"
    "r = risk_for_transition ?t x y"
    using f(8) by (auto simp: e coalesce_keys_def)
  let ?c = "build_explainable_classification b a ?t lst h wp"
  let ?s = "secondary_signals (normalize_proxy_state (Some b)) (normalize_proxy_state (Some a)) ?t lst h wp"
  have c: "dict_get ev ''classification'' = PyDict ?c"
    "dict_get ev ''proof_tier'' = PyStr (proof_tier_for_transition ?t wp (lst \<noteq> []))"
    using f(2,3) by (auto simp: e coalesce_keys_def)
  obtain blocked where bl: "dict_get ?c ''unsafe_inferences_blocked'' = strs blocked"
    "\<not> wp \<longrightarrow> ''Malware accusation blocked because registry writer proof is missing.'' \<in> set blocked"
    by (cases wp) (auto simp: build_explainable_classification_def Let_def dict_get_def)
  have s: "dict_get ?c ''secondary_signals'' = strs ?s"
    by (simp add: build_explainable_classification_def Let_def dict_get_def)
  have sig: "\<not> wp \<longrightarrow> ''REGISTRY_WRITER_PROOF_UNAVAILABLE'' \<in> set ?s"
    using secondary_writer_signal [of wp] by (cases wp) auto
  have tier: "proof_tier_for_transition ?t wp (lst \<noteq> []) = ''T3'' \<longleftrightarrow> wp"
    "proof_tier_for_transition ?t wp (lst \<noteq> []) \<in> {''T0'', ''T1'', ''T2'', ''T3''}"
    by (simp_all add: proof_tier_for_transition_def)
  show ?thesis
    using c s sig bl d kd k kn r tier risk_review_iff [of ?t x y] by (auto intro!: exI)
qed

theorem evidence_event_proof_discipline_witness:
  "\<exists>kind d. dict_get (build_proxy_evidence_event ''t'' [] [(''ProxyServer'', PyStr ''p:1''), (''ProxyEnable'', PyInt 1)] None
          [(''name'', PyStr ''x.exe'')] False None None [] None [] []) ''attribution'' = PyDict d \<and>
     dict_get d ''kind'' = PyStr kind \<and> kind \<in> {''correlation'', ''none''}"
  using evidence_event_proof_discipline [of "[]" _ "''t''" "[]" "[(''ProxyServer'', PyStr ''p:1''), (''ProxyEnable'', PyInt 1)]"
      None "[(''name'', PyStr ''x.exe'')]" False None None "[]" None "[]", OF _ refl]
  by auto

end
