(* ===== verification/Proxy_Coalesce.thy ===== *)
theory Proxy_Coalesce
  imports Proxy_Evidence "HOL-Library.Multiset"
begin

text \<open>
  The stream half of \<open>windows_network_toolkit/proxy_state_machine.py\<close>: coalescing of rapid
  observations into batches, the reverter-loop pattern and the coalescing buffer.

  Two things the source takes from its host are parameters: \<open>fromiso\<close> stands for
  \<open>datetime.fromisoformat(text).timestamp()\<close> (\<open>None\<close> for a \<open>ValueError\<close>; its value depends on the
  host's time zone for naive texts), \<open>now\<close> and \<open>now_ts\<close> for the clock. Time stamps are rationals.
  Where the source calls \<open>dict(x)\<close> or \<open>x.get\<close> on a value that is not a dictionary, the model returns
  an error.

  The lemmas show that batching is a partition of the sorted rows into maximal windows, that
  every observation is accounted for in the output and by the buffer, and what the reverter
  pattern requires of the observed timeline.
\<close>

section \<open>Coalescing\<close>

definition parse_ts :: "(string \<Rightarrow> rat option) \<Rightarrow> string \<Rightarrow> rat option" where
  "parse_ts fromiso ts = (if ts = [] then None else fromiso (py_replace_str (CHR ''Z'') ''+00:00'' ts))"

definition row_ts :: "(string \<Rightarrow> rat option) \<Rightarrow> pydict \<Rightarrow> rat option" where
  "row_ts fromiso ev = parse_ts fromiso (py_str (py_or (dict_get ev ''timestamp_utc'') (PyStr [])))"

fun expect_dict :: "pyval \<Rightarrow> pydict py_result" where
  "expect_dict (PyDict d) = Inr d"
| "expect_dict v = Inl (TypeError ''expected a dictionary'')"

definition merge_before :: "pydict \<Rightarrow> pyval" where
  "merge_before ev = py_or (dict_get ev ''before'') (py_or (dict_get ev ''old_state'')
                       (py_or (dict_get ev ''before_state'') (PyDict [])))"

definition merge_after :: "pydict \<Rightarrow> pyval" where
  "merge_after ev = py_or (dict_get ev ''after'') (py_or (dict_get ev ''new_state'')
                      (py_or (dict_get ev ''after_state'') (PyDict [])))"

definition merge_coalesced_states :: "pydict list \<Rightarrow> (pydict \<times> pydict \<times> pydict list) py_result" where
  "merge_coalesced_states sub_events =
     (if sub_events = [] then Inr ([], [], [])
      else let raw = map (\<lambda>ev.
                 [(''timestamp_utc'', dict_get ev ''timestamp_utc''),
                  (''before'', py_or (dict_get ev ''before'') (dict_get ev ''old_state'')),
                  (''after'', py_or (dict_get ev ''after'') (dict_get ev ''new_state'')),
                  (''changed_fields'', dict_get ev ''changed_fields'')]) sub_events
           in bind_r (expect_dict (merge_before (hd sub_events))) (\<lambda>b.
              bind_r (expect_dict (merge_after (last sub_events))) (\<lambda>a. Inr (b, a, raw))))"

definition window_sec :: "int \<Rightarrow> rat" where
  "window_sec ms = max (2/10) (min (of_int ms / 1000) 5)"

text \<open>The batching loop: \<open>cur\<close> is the open batch and \<open>start\<close> the time stamp of its first row.\<close>

fun batch_loop :: "(pydict \<Rightarrow> rat option) \<Rightarrow> rat \<Rightarrow> pydict list list \<Rightarrow> pydict list \<Rightarrow> rat option \<Rightarrow> pydict list \<Rightarrow> pydict list list" where
  "batch_loop ts_of w acc cur start [] = (if cur = [] then acc else acc @ [cur])"
| "batch_loop ts_of w acc cur start (ev # evs) =
     (if cur = [] then batch_loop ts_of w acc [ev] (ts_of ev) evs
      else if ts_of ev \<noteq> None \<and> start \<noteq> None \<and> the (ts_of ev) - the start \<le> w
        then batch_loop ts_of w acc (cur @ [ev]) start evs
      else batch_loop ts_of w (acc @ [cur]) [ev] (ts_of ev) evs)"

definition coalesce_batches :: "(string \<Rightarrow> rat option) \<Rightarrow> int \<Rightarrow> pydict list \<Rightarrow> pydict list list" where
  "coalesce_batches fromiso ms events =
     batch_loop (row_ts fromiso) (window_sec ms) [] [] None
       (sort_key (\<lambda>e. case row_ts fromiso e of None \<Rightarrow> 0 | Some t \<Rightarrow> t) events)"

definition coalesce_batch :: "string \<Rightarrow> int \<Rightarrow> pydict list \<Rightarrow> pydict py_result" where
  "coalesce_batch now ms batch =
     (if length batch = 1
      then Inr (dict_setdefault (dict_setdefault (dict_setdefault (hd batch) ''coalesced'' (PyBool False))
                  ''coalesce_window_ms'' (PyInt ms)) ''raw_sub_event_count'' (PyInt 1))
      else bind_r (merge_coalesced_states batch) (\<lambda>(b, a, raw_sub).
             let lst = last batch;
                 ts = py_or (dict_get lst ''timestamp_utc'') (PyStr now);
                 listener0 = py_or (dict_get lst ''owner'') (dict_get lst ''listener'')
             in bind_r (if truthy listener0 then expect_dict listener0 else Inr []) (\<lambda>listener.
                  let merged = build_proxy_evidence_event now b a (Some (py_str ts)) listener False None None [] None
                        [(''coalesced'', PyBool True), (''coalesce_window_ms'', PyInt ms),
                         (''raw_sub_event_count'', PyInt (int (length batch)))] raw_sub
                  in Inr (dict_set (dict_set merged ''before'' (PyDict b)) ''after'' (PyDict a)))))"

definition coalesce_proxy_events :: "(string \<Rightarrow> rat option) \<Rightarrow> string \<Rightarrow> int \<Rightarrow> pydict list \<Rightarrow> pydict list py_result" where
  "coalesce_proxy_events fromiso now ms events =
     (if events = [] then Inr [] else map_r (coalesce_batch now ms) (coalesce_batches fromiso ms events))"

section \<open>Reverter loops\<close>

type_synonym timeline = "(rat \<times> bool \<times> int option) list"

definition row_before :: "pydict \<Rightarrow> pyval" where
  "row_before item = py_or (dict_get item ''before_state'') (py_or (dict_get item ''before'')
                       (py_or (dict_get item ''old_state'') (PyDict [])))"

definition row_after :: "pydict \<Rightarrow> pyval" where
  "row_after item = py_or (dict_get item ''after_state'') (py_or (dict_get item ''after'')
                      (py_or (dict_get item ''new_state'') (PyDict [])))"

fun build_timeline :: "(string \<Rightarrow> rat option) \<Rightarrow> timeline \<Rightarrow> pydict list \<Rightarrow> timeline py_result" where
  "build_timeline fromiso tl0 [] = Inr tl0"
| "build_timeline fromiso tl0 (item # items) =
     (case row_ts fromiso item of
        None \<Rightarrow> build_timeline fromiso tl0 items
      | Some ts \<Rightarrow>
          bind_r (if tl0 = []
                  then bind_r (expect_dict (row_before item)) (\<lambda>b.
                         let s = normalize_proxy_state (Some b) in Inr [(ts, proxy_enable s, parsed_port s)])
                  else Inr tl0) (\<lambda>tl1.
          bind_r (expect_dict (row_after item)) (\<lambda>a.
            let s = normalize_proxy_state (Some a)
            in build_timeline fromiso (tl1 @ [(ts, proxy_enable s, parsed_port s)]) items)))"

text \<open>The two counters, over the enable flags and ports of consecutive observations.\<close>

fun full_cycles :: "int \<Rightarrow> timeline \<Rightarrow> int" where
  "full_cycles port (x # y # z # rest) =
     (if \<not> fst (snd x) \<and> fst (snd y) \<and> snd (snd y) = Some port \<and> \<not> fst (snd z) then 1 else 0)
     + full_cycles port (y # z # rest)"
| "full_cycles port _ = 0"

fun enable_from_disabled :: "int \<Rightarrow> timeline \<Rightarrow> int" where
  "enable_from_disabled port (x # y # rest) =
     (if \<not> fst (snd x) \<and> fst (snd y) \<and> snd (snd y) = Some port then 1 else 0)
     + enable_from_disabled port (y # rest)"
| "enable_from_disabled port _ = 0"

definition timeline_ports :: "timeline \<Rightarrow> int list" where
  "timeline_ports xs = dict_fromkeys (concat (map (\<lambda>x. case snd (snd x) of None \<Rightarrow> [] | Some p \<Rightarrow> [p]) xs))"

definition reverter_window :: "rat \<Rightarrow> timeline \<Rightarrow> timeline" where
  "reverter_window window_seconds timeline0 =
     (let tl1 = sort_key fst timeline0
      in filter (\<lambda>e. fst (last tl1) - fst e \<le> window_seconds) tl1)"

definition detect_in_timeline :: "rat \<Rightarrow> int \<Rightarrow> timeline \<Rightarrow> transition_class option py_result" where
  "detect_in_timeline window_seconds min_cycles timeline0 =
     (if int (length timeline0) < min_cycles + 1 then Inr None
      else if timeline0 = [] then Inl (IndexError ''list index out of range'')
      else let windowed = reverter_window window_seconds timeline0
           in if int (length windowed) < min_cycles + 1 then Inr None
              else case timeline_ports windowed of
                     [port] \<Rightarrow>
                       (if full_cycles port windowed \<ge> min_cycles \<or> enable_from_disabled port windowed \<ge> min_cycles
                        then Inr (Some TC_REVERTER_SUSPECTED_LOCALHOST_PROXY_LOOP) else Inr None)
                   | _ \<Rightarrow> Inr None)"

definition detect_reverter_loop_pattern ::
  "(string \<Rightarrow> rat option) \<Rightarrow> pydict list \<Rightarrow> rat \<Rightarrow> int \<Rightarrow> transition_class option py_result" where
  "detect_reverter_loop_pattern fromiso transitions window_seconds min_cycles =
     (if int (length transitions) < min_cycles then Inr None
      else bind_r (build_timeline fromiso [] transitions) (detect_in_timeline window_seconds min_cycles))"

section \<open>The coalescing buffer\<close>

record coalescing_buffer =
  coalesce_window_ms :: int
  pending :: "pydict list"
  first_ts :: "rat option"

definition buffer_add ::
  "(string \<Rightarrow> rat option) \<Rightarrow> string \<Rightarrow> rat \<Rightarrow> coalescing_buffer \<Rightarrow> pydict \<Rightarrow> (pydict list \<times> coalescing_buffer) py_result" where
  "buffer_add fromiso now now_ts buf event =
     (let ts = (case row_ts fromiso event of None \<Rightarrow> now_ts | Some t \<Rightarrow> if t = 0 then now_ts else t)
      in if pending buf = [] then Inr ([], buf\<lparr>pending := [event], first_ts := Some ts\<rparr>)
         else if first_ts buf \<noteq> None \<and> ts - the (first_ts buf) \<le> window_sec (coalesce_window_ms buf)
           then Inr ([], buf\<lparr>pending := pending buf @ [event]\<rparr>)
         else bind_r (coalesce_proxy_events fromiso now (coalesce_window_ms buf) (pending buf))
                (\<lambda>flushed. Inr (flushed, buf\<lparr>pending := [event], first_ts := Some ts\<rparr>)))"

definition buffer_flush ::
  "(string \<Rightarrow> rat option) \<Rightarrow> string \<Rightarrow> coalescing_buffer \<Rightarrow> (pydict list \<times> coalescing_buffer) py_result" where
  "buffer_flush fromiso now buf =
     (if pending buf = [] then Inr ([], buf)
      else bind_r (coalesce_proxy_events fromiso now (coalesce_window_ms buf) (pending buf))
             (\<lambda>merged. Inr (merged, buf\<lparr>pending := [], first_ts := None\<rparr>)))"

section \<open>Batches\<close>

definition row_key :: "(string \<Rightarrow> rat option) \<Rightarrow> pydict \<Rightarrow> rat" where
  "row_key fromiso e = (case row_ts fromiso e of None \<Rightarrow> 0 | Some t \<Rightarrow> t)"

definition close_to :: "(pydict \<Rightarrow> rat option) \<Rightarrow> rat \<Rightarrow> pydict \<Rightarrow> pydict \<Rightarrow> bool" where
  "close_to ts_of w e0 e = (\<exists>t0 t. ts_of e0 = Some t0 \<and> ts_of e = Some t \<and> t - t0 \<le> w)"

lemma coalesce_batches_alt:
  "coalesce_batches fromiso ms events =
     batch_loop (row_ts fromiso) (window_sec ms) [] [] None (sort_key (row_key fromiso) events)"
  by (simp add: coalesce_batches_def row_key_def [abs_def])

lemma batch_loop_concat: "concat (batch_loop ts_of w acc cur start evs) = concat acc @ cur @ evs"
  by (induction ts_of w acc cur start evs rule: batch_loop.induct) auto

lemma batch_loop_nonempty: "[] \<notin> set acc \<Longrightarrow> [] \<notin> set (batch_loop ts_of w acc cur start evs)"
  by (induction ts_of w acc cur start evs rule: batch_loop.induct) auto

lemma batch_loop_window:
  assumes "\<forall>b\<in>set acc. \<forall>e\<in>set (tl b). close_to ts_of w (hd b) e"
    and "\<forall>e\<in>set (tl cur). close_to ts_of w (hd cur) e"
    and "cur \<noteq> [] \<longrightarrow> start = ts_of (hd cur)"
  shows "\<forall>b\<in>set (batch_loop ts_of w acc cur start evs). \<forall>e\<in>set (tl b). close_to ts_of w (hd b) e"
  using assms
proof (induction ts_of w acc cur start evs rule: batch_loop.induct)
  case (2 ts_of w acc cur start ev evs)
  show ?case
  proof (cases "cur = []")
    case True
    show ?thesis
      unfolding batch_loop.simps if_P [OF True] by (intro 2(1) [OF True 2(4)]) simp_all
  next
    case False
    show ?thesis
    proof (cases "ts_of ev \<noteq> None \<and> start \<noteq> None \<and> the (ts_of ev) - the start \<le> w")
      case True
      with 2(6) False have "close_to ts_of w (hd cur) ev" by (auto simp: close_to_def)
      then have "\<forall>e\<in>set (tl (cur @ [ev])). close_to ts_of w (hd (cur @ [ev])) e"
        using 2(5) False by auto
      moreover have "cur @ [ev] \<noteq> [] \<longrightarrow> start = ts_of (hd (cur @ [ev]))" using 2(6) False by simp
      ultimately show ?thesis
        unfolding batch_loop.simps if_not_P [OF False] if_P [OF True] by (rule 2(2) [OF False True 2(4)])
    next
      case no: False
      have "\<forall>b\<in>set (acc @ [cur]). \<forall>e\<in>set (tl b). close_to ts_of w (hd b) e" using 2(4,5) by auto
      then show ?thesis
        unfolding batch_loop.simps if_not_P [OF False] if_not_P [OF no] by (rule 2(3) [OF False no]) simp_all
    qed
  qed
qed simp

text \<open>Consecutive batches are apart: the window of one does not reach the first row of the next.\<close>

fun apart :: "(pydict \<Rightarrow> rat option) \<Rightarrow> rat \<Rightarrow> pydict list list \<Rightarrow> bool" where
  "apart ts_of w (b # c # bs) \<longleftrightarrow> \<not> close_to ts_of w (hd b) (hd c) \<and> apart ts_of w (c # bs)"
| "apart ts_of w _ \<longleftrightarrow> True"

lemma apart_snoc: "bs \<noteq> [] \<Longrightarrow> apart ts_of w (bs @ [c]) \<longleftrightarrow> apart ts_of w bs \<and> \<not> close_to ts_of w (hd (last bs)) (hd c)"
proof (induction bs)
  case (Cons b bs)
  then show ?case by (cases bs) auto
qed simp

lemma batch_loop_apart:
  assumes "cur \<noteq> [] \<longrightarrow> start = ts_of (hd cur) \<and> apart ts_of w (acc @ [cur])" and "cur = [] \<longrightarrow> acc = []"
  shows "apart ts_of w (batch_loop ts_of w acc cur start evs)"
  using assms
proof (induction ts_of w acc cur start evs rule: batch_loop.induct)
  case (2 ts_of w acc cur start ev evs)
  show ?case
  proof (cases "cur = []")
    case True
    then have "acc = []" using 2(5) by simp
    then show ?thesis
      unfolding batch_loop.simps if_P [OF True] by (intro 2(1) [OF True]) simp_all
  next
    case False
    show ?thesis
    proof (cases "ts_of ev \<noteq> None \<and> start \<noteq> None \<and> the (ts_of ev) - the start \<le> w")
      case True
      have "apart ts_of w (acc @ [cur @ [ev]])"
        using 2(4) False by (cases "acc = []") (auto simp: apart_snoc)
      then show ?thesis
        unfolding batch_loop.simps if_not_P [OF False] if_P [OF True]
        by (intro 2(2) [OF False True]) (use 2(4) False in simp_all)
    next
      case no: False
      then have "\<not> close_to ts_of w (hd cur) ev" using 2(4) False by (auto simp: close_to_def)
      then have "apart ts_of w ((acc @ [cur]) @ [[ev]])"
        using 2(4) False by (subst apart_snoc) auto
      then show ?thesis
        unfolding batch_loop.simps if_not_P [OF False] if_not_P [OF no] by (intro 2(3) [OF False no]) simp_all
    qed
  qed
qed simp

lemma coalesce_batches_concat: "concat (coalesce_batches fromiso ms events) = sort_key (row_key fromiso) events"
  by (simp add: coalesce_batches_alt batch_loop_concat)

lemma coalesce_batches_nonempty: "[] \<notin> set (coalesce_batches fromiso ms events)"
  by (simp add: coalesce_batches_alt batch_loop_nonempty)

lemma coalesce_batches_window:
  "b \<in> set (coalesce_batches fromiso ms events) \<Longrightarrow> e \<in> set (tl b) \<Longrightarrow> close_to (row_ts fromiso) (window_sec ms) (hd b) e"
  using batch_loop_window [of "[]" "row_ts fromiso" "window_sec ms" "[]"] by (simp add: coalesce_batches_alt)

lemma coalesce_batches_apart: "apart (row_ts fromiso) (window_sec ms) (coalesce_batches fromiso ms events)"
  by (simp add: coalesce_batches_alt batch_loop_apart)

lemma sorted_concat_part: "sorted (map f (concat bs)) \<Longrightarrow> b \<in> set bs \<Longrightarrow> sorted (map f b)"
  by (induction bs) (auto simp: sorted_append)

lemma coalesce_batches_ordered:
  assumes "b \<in> set (coalesce_batches fromiso ms events)" and "e \<in> set (tl b)"
  shows "row_key fromiso (hd b) \<le> row_key fromiso e"
proof -
  have "sorted (map (row_key fromiso) b)"
    by (rule sorted_concat_part [OF _ assms(1)]) (simp add: coalesce_batches_concat)
  with assms(2) show ?thesis by (cases b) auto
qed

section \<open>Accounting\<close>

definition row_ok :: "pydict \<Rightarrow> bool" where
  "row_ok ev \<longleftrightarrow> is_dict (merge_before ev) \<and> is_dict (merge_after ev) \<and>
     (let l = py_or (dict_get ev ''owner'') (dict_get ev ''listener'') in truthy l \<longrightarrow> is_dict l) \<and>
     \<not> has_key ev ''raw_sub_event_count''"

definition raw_count :: "pydict \<Rightarrow> int" where
  "raw_count ev = (case dict_get ev ''raw_sub_event_count'' of PyInt n \<Rightarrow> n | _ \<Rightarrow> 0)"

lemma expect_dict_ok: "is_dict v \<Longrightarrow> \<exists>d. v = PyDict d \<and> expect_dict v = Inr d"
  by (cases v) auto

lemma raw_count_merged:
  assumes "map_of (rev meta) ''raw_sub_event_count'' = Some z"
  shows "dict_get (build_proxy_evidence_event now b a ts lst wp wk m h ovr meta raw) ''raw_sub_event_count'' = z"
proof -
  have "meta \<noteq> []" using assms by auto
  then show ?thesis using dict_get_update_hit [OF assms]
    by (subst evidence_event_decomp) (simp add: Let_def)
qed

lemma coalesce_batch_ok:
  assumes "batch \<noteq> []" and "\<forall>e\<in>set batch. row_ok e"
  shows "\<exists>r. coalesce_batch now ms batch = Inr r \<and> raw_count r = int (length batch)"
proof (cases "length batch = 1")
  case True
  then obtain e where "batch = [e]" by (cases batch) auto
  with assms show ?thesis
    by (auto simp: coalesce_batch_def raw_count_def dict_get_setdefault dict_setdefault_def row_ok_def)
next
  case False
  have h: "row_ok (hd batch)" "row_ok (last batch)" using assms by auto
  obtain b where b: "expect_dict (merge_before (hd batch)) = Inr b"
    using h(1) expect_dict_ok unfolding row_ok_def by blast
  obtain a where a: "expect_dict (merge_after (last batch)) = Inr a"
    using h(2) expect_dict_ok unfolding row_ok_def by blast
  let ?l = "py_or (dict_get (last batch) ''owner'') (dict_get (last batch) ''listener'')"
  obtain l where l: "(if truthy ?l then expect_dict ?l else Inr []) = Inr l"
    using h(2) expect_dict_ok [of ?l] unfolding row_ok_def Let_def by (cases "truthy ?l") auto
  show ?thesis using assms(1) False
    by (simp add: coalesce_batch_def merge_coalesced_states_def Let_def a b l)
       (simp add: raw_count_def raw_count_merged)
qed

lemma map_r_sum:
  assumes "\<forall>x\<in>set xs. \<exists>r. f x = Inr r \<and> g r = h x"
  shows "\<exists>rs. map_r f xs = Inr rs \<and> length rs = length xs \<and> sum_list (map g rs) = sum_list (map h xs)"
  using assms
proof (induction xs)
  case (Cons x xs)
  then obtain r rs where "f x = Inr r" "g r = h x" "map_r f xs = Inr rs" "length rs = length xs"
    "sum_list (map g rs) = sum_list (map h xs)" by auto
  then show ?case by simp
qed simp

lemma sum_length_concat: "sum_list (map (\<lambda>b. int (length b)) bs) = int (length (concat bs))"
  by (induction bs) auto

lemma coalesce_accounts:
  assumes "\<forall>e\<in>set events. row_ok e"
  shows "\<exists>outs. coalesce_proxy_events fromiso now ms events = Inr outs \<and>
     length outs = length (coalesce_batches fromiso ms events) \<and>
     sum_list (map raw_count outs) = int (length events)"
proof -
  let ?B = "coalesce_batches fromiso ms events"
  have c: "concat ?B = sort_key (row_key fromiso) events" by (rule coalesce_batches_concat)
  have "\<forall>b\<in>set ?B. \<exists>r. coalesce_batch now ms b = Inr r \<and> raw_count r = int (length b)"
  proof
    fix b assume b: "b \<in> set ?B"
    have "set b \<subseteq> set events"
    proof -
      have "set b \<subseteq> set (concat ?B)" using b by auto
      then show ?thesis by (simp only: c set_sort)
    qed
    with assms b coalesce_batches_nonempty show "\<exists>r. coalesce_batch now ms b = Inr r \<and> raw_count r = int (length b)"
      by (intro coalesce_batch_ok) (metis, blast)
  qed
  from map_r_sum [OF this] obtain rs where rs: "map_r (coalesce_batch now ms) ?B = Inr rs" "length rs = length ?B"
    "sum_list (map raw_count rs) = int (length (concat ?B))"
    unfolding sum_length_concat by blast
  have "events = [] \<Longrightarrow> ?B = []" by (simp add: coalesce_batches_alt)
  with rs show ?thesis by (auto simp: coalesce_proxy_events_def c)
qed

section \<open>The reverter pattern\<close>

definition enable_events :: "int \<Rightarrow> timeline \<Rightarrow> nat set" where
  "enable_events port W =
     {i. Suc i < length W \<and> \<not> fst (snd (W ! i)) \<and> fst (snd (W ! Suc i)) \<and> snd (snd (W ! Suc i)) = Some port}"

definition observed_ports :: "timeline \<Rightarrow> int set" where
  "observed_ports W = {p. \<exists>e\<in>set W. snd (snd e) = Some p}"

lemma enable_events_Cons:
  "enable_events port (x # y # W) =
     (if \<not> fst (snd x) \<and> fst (snd y) \<and> snd (snd y) = Some port then {0} else {}) \<union> Suc ` enable_events port (y # W)"
proof (rule set_eqI)
  fix i
  show "i \<in> enable_events port (x # y # W) \<longleftrightarrow>
     i \<in> (if \<not> fst (snd x) \<and> fst (snd y) \<and> snd (snd y) = Some port then {0} else {}) \<union> Suc ` enable_events port (y # W)"
    by (cases i) (auto simp: enable_events_def)
qed

lemma finite_enable_events: "finite (enable_events port W)"
  by (rule finite_subset [of _ "{..<length W}"]) (auto simp: enable_events_def)

lemma enable_from_disabled_card: "enable_from_disabled port W = int (card (enable_events port W))"
proof (induction port W rule: enable_from_disabled.induct)
  case (1 port x y rest)
  have fin: "finite (Suc ` enable_events port (y # rest))" by (simp add: finite_enable_events)
  have "card (Suc ` enable_events port (y # rest)) = card (enable_events port (y # rest))"
    by (simp add: card_image)
  with 1 fin show ?case by (auto simp: enable_events_Cons card_insert_if)
qed (simp_all add: enable_events_def)

lemma full_cycles_le: "full_cycles port W \<le> enable_from_disabled port W"
  by (induction port W rule: full_cycles.induct) auto

lemma set_timeline_ports: "set (timeline_ports W) = observed_ports W"
  by (force simp: timeline_ports_def observed_ports_def split: option.splits)

lemma timeline_ports_single: "timeline_ports W = [p] \<longleftrightarrow> observed_ports W = {p}"
proof
  assume "observed_ports W = {p}"
  then have st: "set (timeline_ports W) = {p}" by (simp add: set_timeline_ports)
  have d: "distinct (timeline_ports W)" by (simp add: timeline_ports_def)
  obtain x xs where c: "timeline_ports W = x # xs" using st by (cases "timeline_ports W") auto
  have "set xs \<subseteq> {p}" "x = p" "x \<notin> set xs" using st d by (auto simp: c)
  then have "set xs = {}" by (cases xs) auto
  then show "timeline_ports W = [p]" using c \<open>x = p\<close> by simp
qed (simp add: set_timeline_ports [symmetric])

section \<open>The buffer\<close>

fun buffer_run ::
  "(string \<Rightarrow> rat option) \<Rightarrow> string \<Rightarrow> coalescing_buffer \<Rightarrow> (rat \<times> pydict) list \<Rightarrow> (pydict list \<times> coalescing_buffer) py_result" where
  "buffer_run fromiso now buf [] = Inr ([], buf)"
| "buffer_run fromiso now buf ((now_ts, ev) # evs) =
     bind_r (buffer_add fromiso now now_ts buf ev) (\<lambda>(out, buf1).
     bind_r (buffer_run fromiso now buf1 evs) (\<lambda>(outs, buf2). Inr (out @ outs, buf2)))"

text \<open>Feeding a stream of observations through the buffer and flushing it at the end.\<close>

definition buffer_stream ::
  "(string \<Rightarrow> rat option) \<Rightarrow> string \<Rightarrow> coalescing_buffer \<Rightarrow> (rat \<times> pydict) list \<Rightarrow> pydict list py_result" where
  "buffer_stream fromiso now buf evs =
     bind_r (buffer_run fromiso now buf evs) (\<lambda>(outs, buf1).
     bind_r (buffer_flush fromiso now buf1) (\<lambda>(fin, buf2). Inr (outs @ fin)))"

lemma buffer_stream_Nil:
  "buffer_stream fromiso now buf [] =
     (if pending buf = [] then Inr [] else coalesce_proxy_events fromiso now (coalesce_window_ms buf) (pending buf))"
  by (cases "coalesce_proxy_events fromiso now (coalesce_window_ms buf) (pending buf)")
     (auto simp: buffer_stream_def buffer_flush_def)

lemma buffer_stream_Cons:
  "buffer_stream fromiso now buf ((now_ts, ev) # evs) =
     bind_r (buffer_add fromiso now now_ts buf ev) (\<lambda>(out, buf1).
     bind_r (buffer_stream fromiso now buf1 evs) (\<lambda>outs. Inr (out @ outs)))"
proof (cases "buffer_add fromiso now now_ts buf ev")
  case (Inr r)
  obtain out buf1 where r: "r = (out, buf1)" by (cases r)
  show ?thesis
  proof (cases "buffer_run fromiso now buf1 evs")
    case (Inr q)
    obtain outs buf2 where "q = (outs, buf2)" by (cases q)
    with \<open>buffer_add _ _ _ _ _ = _\<close> r Inr show ?thesis
      by (cases "buffer_flush fromiso now buf2") (auto simp: buffer_stream_def)
  qed (use Inr r in \<open>simp add: buffer_stream_def\<close>)
qed (simp add: buffer_stream_def)

lemma buffer_add_accounts:
  assumes "\<forall>e\<in>set (pending buf). row_ok e" and "row_ok ev"
  shows "\<exists>out buf1. buffer_add fromiso now nt buf ev = Inr (out, buf1) \<and> (\<forall>e\<in>set (pending buf1). row_ok e) \<and>
     sum_list (map raw_count out) + int (length (pending buf1)) = int (length (pending buf)) + 1"
proof -
  obtain outs where "coalesce_proxy_events fromiso now (coalesce_window_ms buf) (pending buf) = Inr outs"
    "sum_list (map raw_count outs) = int (length (pending buf))"
    using coalesce_accounts [OF assms(1)] by blast
  then show ?thesis using assms by (simp add: buffer_add_def Let_def)
qed

lemma buffer_stream_accounts:
  assumes "\<forall>e\<in>set (pending buf). row_ok e" and "\<forall>e\<in>set evs. row_ok (snd e)"
  shows "\<exists>outs. buffer_stream fromiso now buf evs = Inr outs \<and>
           sum_list (map raw_count outs) = int (length (pending buf) + length evs)"
  using assms
proof (induction evs arbitrary: buf)
  case Nil
  then show ?case
    using coalesce_accounts [of "pending buf" fromiso now "coalesce_window_ms buf"]
    by (auto simp: buffer_stream_Nil)
next
  case (Cons p evs)
  obtain nt ev where p: "p = (nt, ev)" by (cases p)
  have "row_ok ev" using Cons.prems(2) p by simp
  from buffer_add_accounts [OF Cons.prems(1) this] obtain out buf1
    where add: "buffer_add fromiso now nt buf ev = Inr (out, buf1)"
    and ok: "\<forall>e\<in>set (pending buf1). row_ok e"
    and n: "sum_list (map raw_count out) + int (length (pending buf1)) = int (length (pending buf)) + 1"
    by blast
  have "\<forall>e\<in>set evs. row_ok (snd e)" using Cons.prems(2) by simp
  from Cons.IH [OF ok this] obtain outs where "buffer_stream fromiso now buf1 evs = Inr outs"
    "sum_list (map raw_count outs) = int (length (pending buf1) + length evs)" by blast
  then show ?case using n by (simp add: p buffer_stream_Cons add)
qed

section \<open>Streaming equals batching on ordered observations\<close>

definition ordered_rows :: "(string \<Rightarrow> rat option) \<Rightarrow> pydict list \<Rightarrow> bool" where
  "ordered_rows fromiso evs \<longleftrightarrow>
     sorted (map (row_key fromiso) evs) \<and> (\<forall>e\<in>set evs. \<exists>t. row_ts fromiso e = Some t \<and> t \<noteq> 0)"

lemma batch_loop_acc: "batch_loop ts_of w acc cur start evs = acc @ batch_loop ts_of w [] cur start evs"
proof (induction evs arbitrary: acc cur start)
  case Nil
  show ?case by simp
next
  case (Cons ev evs)
  let ?c = "ts_of ev \<noteq> None \<and> start \<noteq> None \<and> the (ts_of ev) - the start \<le> w"
  have a: "batch_loop ts_of w (acc @ [cur]) [ev] (ts_of ev) evs =
      acc @ batch_loop ts_of w [cur] [ev] (ts_of ev) evs"
    using Cons.IH [of "acc @ [cur]"] Cons.IH [of "[cur]"] by simp
  show ?case
    unfolding batch_loop.simps
    using Cons.IH [of acc "[ev]" "ts_of ev"] Cons.IH [of acc "cur @ [ev]" start] a
    by (simp only: append.simps split: if_split) blast
qed

lemma batch_loop_close:
  assumes "cur \<noteq> []" and "start = ts_of (hd cur)" and "\<forall>e\<in>set evs. close_to ts_of w (hd cur) e"
  shows "batch_loop ts_of w acc cur start evs = acc @ [cur @ evs]"
  using assms
proof (induction evs arbitrary: cur)
  case (Cons ev evs)
  have c: "ts_of ev \<noteq> None \<and> start \<noteq> None \<and> the (ts_of ev) - the start \<le> w"
    using Cons.prems by (auto simp: close_to_def)
  have "batch_loop ts_of w acc (cur @ [ev]) start evs = acc @ [(cur @ [ev]) @ evs]"
    using Cons.prems by (intro Cons.IH) auto
  then show ?case unfolding batch_loop.simps if_not_P [OF Cons.prems(1)] if_P [OF c] by simp
qed simp

lemma coalesce_one_batch:
  assumes "cur \<noteq> []" and "ordered_rows fromiso cur"
    and "\<forall>e\<in>set (tl cur). close_to (row_ts fromiso) (window_sec ms) (hd cur) e"
  shows "coalesce_proxy_events fromiso now ms cur = map_r (coalesce_batch now ms) [cur]"
proof -
  obtain c cs where cur: "cur = c # cs" using assms(1) by (cases cur) auto
  have "sort_key (row_key fromiso) cur = cur"
    using assms(2) by (simp add: ordered_rows_def sort_key_id_if_sorted)
  then have "coalesce_batches fromiso ms cur = [cur]"
    using batch_loop_close [of "[c]" "row_ts fromiso c" "row_ts fromiso" cs "window_sec ms" "[]"] assms(3)
    by (simp add: coalesce_batches_alt cur)
  then show ?thesis using assms(1) by (simp add: coalesce_proxy_events_def)
qed

lemma buffer_stream_refines:
  assumes "pending buf = cur" and "cur \<noteq> []" and "first_ts buf = row_ts fromiso (hd cur)"
    and "\<forall>e\<in>set (tl cur). close_to (row_ts fromiso) (window_sec (coalesce_window_ms buf)) (hd cur) e"
    and "ordered_rows fromiso (cur @ map snd evs)"
  shows "buffer_stream fromiso now buf evs =
     map_r (coalesce_batch now (coalesce_window_ms buf))
       (batch_loop (row_ts fromiso) (window_sec (coalesce_window_ms buf)) [] cur (row_ts fromiso (hd cur)) (map snd evs))"
  using assms
proof (induction evs arbitrary: buf cur)
  case Nil
  then show ?case using coalesce_one_batch [of cur fromiso "coalesce_window_ms buf" now] by (simp add: buffer_stream_Nil)
next
  case (Cons p evs)
  obtain nt ev where p: "p = (nt, ev)" by (cases p)
  let ?w = "window_sec (coalesce_window_ms buf)" and ?ts = "row_ts fromiso"
  have ne: "pending buf \<noteq> []" using Cons.prems(1,2) by simp
  obtain t where t: "?ts ev = Some t" "t \<noteq> 0" using Cons.prems(5) by (auto simp: ordered_rows_def p)
  obtain t0 where t0: "?ts (hd cur) = Some t0"
    using Cons.prems(2,5) by (cases cur) (auto simp: ordered_rows_def)
  have oc: "ordered_rows fromiso cur" and oe: "ordered_rows fromiso (ev # map snd evs)"
    using Cons.prems(5) by (auto simp: ordered_rows_def p sorted_append)
  show ?case
  proof (cases "t - t0 \<le> ?w")
    case True
    let ?b = "buf\<lparr>pending := pending buf @ [ev]\<rparr>"
    have "buffer_add fromiso now nt buf ev = Inr ([], ?b)"
      using ne t t0 True Cons.prems(3) by (simp add: buffer_add_def Let_def)
    moreover have "\<forall>e\<in>set (tl (cur @ [ev])). close_to ?ts ?w (hd (cur @ [ev])) e"
      using Cons.prems(2,4) True t t0 by (auto simp: close_to_def)
    ultimately have "buffer_stream fromiso now buf (p # evs) =
        map_r (coalesce_batch now (coalesce_window_ms buf)) (batch_loop ?ts ?w [] (cur @ [ev]) (?ts (hd cur)) (map snd evs))"
      using Cons.IH [of ?b "cur @ [ev]"] Cons.prems p
      by (cases "buffer_stream fromiso now ?b evs") (simp_all add: buffer_stream_Cons)
    then show ?thesis using Cons.prems(2) True t t0 p by simp
  next
    case False
    let ?b = "buf\<lparr>pending := [ev], first_ts := Some t\<rparr>"
    have add: "buffer_add fromiso now nt buf ev =
        bind_r (map_r (coalesce_batch now (coalesce_window_ms buf)) [cur]) (\<lambda>out. Inr (out, ?b))"
      using ne t t0 False Cons.prems(1,3) coalesce_one_batch [OF Cons.prems(2) oc Cons.prems(4)]
      by (simp add: buffer_add_def Let_def)
    have ih: "buffer_stream fromiso now ?b evs =
        map_r (coalesce_batch now (coalesce_window_ms buf)) (batch_loop ?ts ?w [] [ev] (?ts ev) (map snd evs))"
      using Cons.IH [of ?b "[ev]"] oe t by simp
    have bl: "batch_loop ?ts ?w [] cur (?ts (hd cur)) (map snd (p # evs)) =
        cur # batch_loop ?ts ?w [] [ev] (?ts ev) (map snd evs)"
      using Cons.prems(2) False t t0 p batch_loop_acc [of ?ts ?w "[cur]"] by simp
    show ?thesis
      unfolding bl unfolding p buffer_stream_Cons add
      by (cases "coalesce_batch now (coalesce_window_ms buf) cur") (simp_all add: ih)
  qed
qed

section \<open>Properties\<close>

text \<open>
  C3. Coalescing groups the observations into batches that are exactly the sorted rows, in order, with
  no row lost, duplicated or moved: every batch is non-empty, every later row of a batch lies
  within the (clamped) window after the first row of that batch, and consecutive batches are
  maximal, the first row of the next one being outside the window of the previous one.
\<close>

theorem coalesce_batches_partition:
  "concat (coalesce_batches fromiso ms events) = sort_key (row_key fromiso) events \<and>
   [] \<notin> set (coalesce_batches fromiso ms events) \<and>
   (\<forall>b\<in>set (coalesce_batches fromiso ms events). \<forall>e\<in>set (tl b).
      row_key fromiso (hd b) \<le> row_key fromiso e \<and> close_to (row_ts fromiso) (window_sec ms) (hd b) e) \<and>
   apart (row_ts fromiso) (window_sec ms) (coalesce_batches fromiso ms events) \<and>
   2/10 \<le> window_sec ms \<and> window_sec ms \<le> 5"
  using coalesce_batches_concat coalesce_batches_nonempty coalesce_batches_ordered coalesce_batches_window
    coalesce_batches_apart
  by (auto simp: window_sec_def)

theorem coalesce_batches_partition_witness:
  "let fi = (\<lambda>s. Some (of_nat (digits_val s) :: rat));
       r = (\<lambda>t. [(''timestamp_utc'', PyStr t)]);
       B = coalesce_batches fi 1000 [r ''9'', r ''1'', r ''2'']
   in B = [[r ''1'', r ''2''], [r ''9'']] \<and> close_to (row_ts fi) (window_sec 1000) (r ''1'') (r ''2'')"
proof -
  let ?fi = "\<lambda>s. Some (of_nat (digits_val s) :: rat)"
  let ?r = "\<lambda>t. [(''timestamp_utc'', PyStr t)]"
  have t: "row_ts ?fi (?r ''1'') = Some 1" "row_ts ?fi (?r ''2'') = Some 2" "row_ts ?fi (?r ''9'') = Some 9" by code_simp+
  have w: "window_sec 1000 = 1" by (simp add: window_sec_def)
  have B: "coalesce_batches ?fi 1000 [?r ''9'', ?r ''1'', ?r ''2''] = [[?r ''1'', ?r ''2''], [?r ''9'']]"
    by (simp add: coalesce_batches_def t w)
  have "\<forall>b\<in>set (coalesce_batches ?fi 1000 [?r ''9'', ?r ''1'', ?r ''2'']). \<forall>e\<in>set (tl b).
      close_to (row_ts ?fi) (window_sec 1000) (hd b) e"
    using coalesce_batches_partition [of ?fi 1000 "[?r ''9'', ?r ''1'', ?r ''2'']"] by blast
  then show ?thesis unfolding Let_def B by simp
qed

text \<open>
  Coalescing always succeeds on rows whose snapshots and owner are dictionaries, returns one event
  per batch, and accounts for every observation: the \<open>raw_sub_event_count\<close> fields of the output sum to
  the number of rows that came in.
\<close>

theorem coalesce_conserves_rows:
  assumes "\<forall>e\<in>set events. row_ok e"
  shows "\<exists>outs. coalesce_proxy_events fromiso now ms events = Inr outs \<and>
     length outs = length (coalesce_batches fromiso ms events) \<and>
     sum_list (map raw_count outs) = int (length events)"
  using assms by (rule coalesce_accounts)

theorem coalesce_conserves_rows_witness:
  "\<exists>outs. coalesce_proxy_events (\<lambda>s. Some 1) ''now'' 1000
     [[(''timestamp_utc'', PyStr ''a''), (''before'', PyDict [(''ProxyEnable'', PyInt 1)])], [(''timestamp_utc'', PyStr ''b'')]] = Inr outs \<and>
     sum_list (map raw_count outs) = 2"
proof -
  let ?rows = "[[(''timestamp_utc'', PyStr ''a''), (''before'', PyDict [(''ProxyEnable'', PyInt 1)])], [(''timestamp_utc'', PyStr ''b'')]]"
  have "\<forall>e\<in>set ?rows. row_ok e" by code_simp
  from coalesce_conserves_rows [OF this, of "\<lambda>s. Some 1" "''now''" 1000] show ?thesis by auto
qed

text \<open>
  What a reverter finding means: the pattern is reported exactly when the observations inside the
  rolling window are at least \<open>min_cycles + 1\<close>, mention a single port, and contain at least \<open>min_cycles\<close>
  switches from disabled to enabled on that port. (The separate count of full off-on-off cycles
  never adds a finding, since it is bounded by the number of such switches.)
\<close>

theorem reverter_pattern_iff:
  assumes "build_timeline fromiso [] rows = Inr tl0" and "mc \<le> int (length rows)" and "0 \<le> mc"
  shows "detect_reverter_loop_pattern fromiso rows ws mc = Inr (Some c) \<longleftrightarrow>
     c = TC_REVERTER_SUSPECTED_LOCALHOST_PROXY_LOOP \<and>
     (let W = reverter_window ws tl0
      in mc + 1 \<le> int (length W) \<and>
         (\<exists>port. observed_ports W = {port} \<and> mc \<le> int (card (enable_events port W))))"
proof -
  let ?W = "reverter_window ws tl0"
  have len: "length ?W \<le> length tl0"
    by (simp add: reverter_window_def Let_def) (metis length_filter_le length_sort)
  have ports: "(\<exists>port. observed_ports ?W = {port} \<and> mc \<le> int (card (enable_events port ?W))) \<longleftrightarrow>
     (\<exists>port. timeline_ports ?W = [port] \<and> (mc \<le> full_cycles port ?W \<or> mc \<le> enable_from_disabled port ?W))"
    unfolding timeline_ports_single [symmetric] enable_from_disabled_card [symmetric]
    using full_cycles_le [of _ ?W] order_trans by blast
  show ?thesis
    using assms len unfolding Let_def ports detect_reverter_loop_pattern_def detect_in_timeline_def
    by (auto split: list.splits)
qed

theorem reverter_pattern_iff_witness:
  "let r = (\<lambda>t e. [(''timestamp_utc'', PyStr t), (''after'', PyDict [(''ProxyEnable'', PyInt e), (''ProxyServer'', PyStr ''127.0.0.1:80'')])]);
       rows = [r ''1'' 1, r ''2'' 0, r ''3'' 1, r ''4'' 0]
   in detect_reverter_loop_pattern (\<lambda>s. Some (of_nat (digits_val s))) rows 300 2
      = Inr (Some TC_REVERTER_SUSPECTED_LOCALHOST_PROXY_LOOP)"
proof -
  let ?fi = "\<lambda>s. Some (of_nat (digits_val s) :: rat)"
  let ?r = "\<lambda>t e. [(''timestamp_utc'', PyStr t), (''after'', PyDict [(''ProxyEnable'', PyInt e), (''ProxyServer'', PyStr ''127.0.0.1:80'')])]"
  let ?rows = "[?r ''1'' 1, ?r ''2'' 0, ?r ''3'' 1, ?r ''4'' 0]"
  let ?tl = "[(1, False, None), (1, True, Some 80), (2, False, Some 80), (3, True, Some 80), (4, False, Some 80)]"
  have tl: "build_timeline ?fi [] ?rows = Inr ?tl" by code_simp
  have W: "reverter_window 300 ?tl = ?tl" by code_simp
  have "enable_from_disabled 80 ?tl = 2" by simp
  then have "2 \<le> int (card (enable_events 80 ?tl))" by (simp only: enable_from_disabled_card)
  moreover have "observed_ports ?tl = {80}" by (auto simp: observed_ports_def)
  ultimately show ?thesis
    using reverter_pattern_iff [OF tl, of 2 300 TC_REVERTER_SUSPECTED_LOCALHOST_PROXY_LOOP]
    unfolding Let_def W by auto
qed

text \<open>
  C4. The coalescing buffer refines batch coalescing: feeding observations whose time stamps parse (to a
  non-zero instant) and do not decrease, one by one, through \<open>add\<close> and flushing at the end returns
  exactly what \<open>coalesce_proxy_events\<close> returns on the whole sequence, errors included.
\<close>

theorem buffer_refines_batch:
  assumes "ordered_rows fromiso (map snd evs)" and "pending buf = []"
  shows "buffer_stream fromiso now buf evs =
     coalesce_proxy_events fromiso now (coalesce_window_ms buf) (map snd evs)"
proof (cases evs)
  case Nil
  then show ?thesis using assms(2) by (simp add: buffer_stream_Nil coalesce_proxy_events_def)
next
  case (Cons p ps)
  obtain nt ev where p: "p = (nt, ev)" by (cases p)
  obtain t where t: "row_ts fromiso ev = Some t" "t \<noteq> 0"
    using assms(1) Cons p by (auto simp: ordered_rows_def)
  let ?b = "buf\<lparr>pending := [ev], first_ts := Some t\<rparr>"
  have "buffer_add fromiso now nt buf ev = Inr ([], ?b)"
    using assms(2) t by (simp add: buffer_add_def Let_def)
  then have "buffer_stream fromiso now buf evs = buffer_stream fromiso now ?b ps"
    unfolding Cons p buffer_stream_Cons by (cases "buffer_stream fromiso now ?b ps") simp_all
  also have "\<dots> = map_r (coalesce_batch now (coalesce_window_ms buf))
      (batch_loop (row_ts fromiso) (window_sec (coalesce_window_ms buf)) [] [ev] (row_ts fromiso ev) (map snd ps))"
    using buffer_stream_refines [of ?b "[ev]" fromiso ps now] assms(1) Cons p t by simp
  also have "\<dots> = coalesce_proxy_events fromiso now (coalesce_window_ms buf) (map snd evs)"
  proof -
    have "sort_key (row_key fromiso) (map snd evs) = map snd evs"
      using assms(1) unfolding ordered_rows_def by (intro sort_key_id_if_sorted) blast
    then show ?thesis
      unfolding coalesce_proxy_events_def coalesce_batches_alt by (simp add: Cons p del: sort_key_simps)
  qed
  finally show ?thesis .
qed

theorem buffer_refines_batch_witness:
  "let fi = (\<lambda>s. Some (of_nat (digits_val s) :: rat)); r = (\<lambda>t. [(''timestamp_utc'', PyStr t)])
   in buffer_stream fi ''now'' \<lparr>coalesce_window_ms = 1000, pending = [], first_ts = None\<rparr> [(0, r ''1''), (0, r ''2''), (0, r ''9'')]
      = coalesce_proxy_events fi ''now'' 1000 [r ''1'', r ''2'', r ''9'']"
proof -
  let ?fi = "\<lambda>s. Some (of_nat (digits_val s) :: rat)" and ?r = "\<lambda>t. [(''timestamp_utc'', PyStr t)]"
  let ?evs = "[(0::rat, ?r ''1''), (0, ?r ''2''), (0, ?r ''9'')]"
  let ?b = "\<lparr>coalesce_window_ms = 1000, pending = [], first_ts = None\<rparr>"
  have "sorted (map (row_key ?fi) (map snd ?evs))" by code_simp
  moreover have "row_ts ?fi (?r ''1'') = Some 1" "row_ts ?fi (?r ''2'') = Some 2" "row_ts ?fi (?r ''9'') = Some 9" by code_simp+
  ultimately have "ordered_rows ?fi (map snd ?evs)" by (simp add: ordered_rows_def)
  from buffer_refines_batch [OF this, of ?b "''now''"] show ?thesis by (simp add: Let_def)
qed

text \<open>
  The buffer never loses an observation: for well-typed rows, in any order and with any time stamps,
  feeding a sequence through \<open>add\<close> and a final \<open>flush\<close> succeeds, and the sub-event counts of everything
  it emits sum to the rows already pending plus the rows added.
\<close>

theorem buffer_conserves_rows:
  assumes "\<forall>e\<in>set (pending buf). row_ok e" and "\<forall>e\<in>set evs. row_ok (snd e)"
  shows "\<exists>outs. buffer_stream fromiso now buf evs = Inr outs \<and>
           sum_list (map raw_count outs) = int (length (pending buf) + length evs)"
  using assms by (rule buffer_stream_accounts)

theorem buffer_conserves_rows_witness:
  "\<exists>outs. buffer_stream (\<lambda>s. None) ''now'' \<lparr>coalesce_window_ms = 0, pending = [[]], first_ts = None\<rparr>
      [(7, [(''timestamp_utc'', PyStr ''x'')]), (9, [])] = Inr outs \<and> sum_list (map raw_count outs) = 3"
proof -
  let ?b = "\<lparr>coalesce_window_ms = 0, pending = [[]], first_ts = None\<rparr>"
  have "\<forall>e\<in>set (pending ?b). row_ok e" by code_simp
  moreover have "\<forall>e\<in>set [(7::rat, [(''timestamp_utc'', PyStr ''x'')]), (9, [])]. row_ok (snd e)" by code_simp
  ultimately show ?thesis using buffer_conserves_rows [of ?b "[(7, [(''timestamp_utc'', PyStr ''x'')]), (9, [])]" "\<lambda>s. None" "''now''"]
    by simp
qed

end
