(* ===== verification/Delivery.thy ===== *)
theory Delivery
  imports Py_Prelude
begin

text \<open>
  The delivery contracts of \<open>windows_network_toolkit/distributed_delivery.py\<close>: envelopes, the retry policy,
  the idempotency ledger, the bounded queue and the delivery processor.

  The side effect is the caller's function; each call is given by the result it has (\<open>effect_result\<close>:
  it returns, raises a permanent, a transient or any other error). Two interfaces are locales:
  \<open>bounded_fifo\<close>, what the processor relies on in its retry queue, and \<open>completion_ledger\<close>, what
  duplicate suppression relies on; both are interpreted on the definitions below. The step relation
  \<open>delivery_step\<close> interleaves arbitrary deliveries with redeliveries from the retry queue; its
  reachable states carry the at-most-once and boundedness invariants.
\<close>

section \<open>Data\<close>

datatype disposition = ACK | RETRY | DEAD_LETTER | DUPLICATE | BACKPRESSURE

record 'p envelope =
  event_id :: string
  idempotency_key :: string
  payload :: 'p
  attempt :: int

definition next_attempt :: "'p envelope \<Rightarrow> 'p envelope" where
  "next_attempt e = \<lparr>event_id = event_id e, idempotency_key = idempotency_key e, payload = payload e,
     attempt = attempt e + 1\<rparr>"

record retry_policy =
  max_attempts :: int

definition make_retry_policy :: "int \<Rightarrow> retry_policy py_result" where
  "make_retry_policy n =
     (if n < 1 then Inl (ValueError ''max_attempts must be >= 1'') else Inr \<lparr>max_attempts = n\<rparr>)"

record idempotency_ledger =
  completed_keys :: "string set"

definition is_completed :: "idempotency_ledger \<Rightarrow> string \<Rightarrow> bool" where
  "is_completed l key \<longleftrightarrow> key \<in> completed_keys l"

definition mark_completed :: "idempotency_ledger \<Rightarrow> string \<Rightarrow> idempotency_ledger" where
  "mark_completed l key = l\<lparr>completed_keys := insert key (completed_keys l)\<rparr>"

record 'p delivery_queue =
  capacity :: int
  q_items :: "'p envelope list"

definition make_queue :: "int \<Rightarrow> 'p delivery_queue py_result" where
  "make_queue n =
     (if n < 1 then Inl (ValueError ''capacity must be >= 1'') else Inr \<lparr>capacity = n, q_items = []\<rparr>)"

definition depth :: "'p delivery_queue \<Rightarrow> int" where
  "depth q = int (length (q_items q))"

definition utilization :: "'p delivery_queue \<Rightarrow> rat" where
  "utilization q = of_int (depth q) / of_int (capacity q)"

definition try_put :: "'p delivery_queue \<Rightarrow> 'p envelope \<Rightarrow> 'p delivery_queue \<times> disposition" where
  "try_put q item =
     (if depth q \<ge> capacity q then (q, BACKPRESSURE) else (q\<lparr>q_items := q_items q @ [item]\<rparr>, ACK))"

definition queue_get :: "'p delivery_queue \<Rightarrow> 'p envelope option \<times> 'p delivery_queue" where
  "queue_get q = (case q_items q of [] \<Rightarrow> (None, q) | x # xs \<Rightarrow> (Some x, q\<lparr>q_items := xs\<rparr>))"

record 'p delivery_outcome =
  disposition :: disposition
  out_envelope :: "'p envelope"
  out_error :: "string option"

datatype effect_result =
    Returns
  | RaisesPermanent string
  | RaisesTransient string
  | RaisesOther string

record 'p processor =
  retry_policy_of :: retry_policy
  ledger :: idempotency_ledger
  retry_queue :: "'p delivery_queue"
  dead_letter_queue :: "'p envelope list"

section \<open>The processor\<close>

text \<open>
  \<open>process\<close> returns the processor after the call and the outcome; an exception that is neither
  permanent nor transient propagates to the caller, here on the left of the sum.
\<close>

definition process ::
  "'p processor \<Rightarrow> 'p envelope \<Rightarrow> ('p \<Rightarrow> effect_result) \<Rightarrow> 'p processor \<times> (string + 'p delivery_outcome)" where
  "process pr env side_effect =
     (if is_completed (ledger pr) (idempotency_key env)
      then (pr, Inr \<lparr>disposition = DUPLICATE, out_envelope = env, out_error = None\<rparr>)
      else case side_effect (payload env) of
        RaisesPermanent msg \<Rightarrow>
          (pr\<lparr>dead_letter_queue := dead_letter_queue pr @ [env]\<rparr>,
           Inr \<lparr>disposition = DEAD_LETTER, out_envelope = env, out_error = Some msg\<rparr>)
      | RaisesTransient msg \<Rightarrow>
          (if attempt env \<ge> max_attempts (retry_policy_of pr)
           then (pr\<lparr>dead_letter_queue := dead_letter_queue pr @ [env]\<rparr>,
                 Inr \<lparr>disposition = DEAD_LETTER, out_envelope = env, out_error = Some msg\<rparr>)
           else let retry_envelope = next_attempt env;
                    (q, queued) = try_put (retry_queue pr) retry_envelope;
                    pr1 = pr\<lparr>retry_queue := q\<rparr>
                in if queued = BACKPRESSURE
                   then (pr1, Inr \<lparr>disposition = BACKPRESSURE, out_envelope = env, out_error = Some msg\<rparr>)
                   else (pr1, Inr \<lparr>disposition = RETRY, out_envelope = retry_envelope, out_error = Some msg\<rparr>))
      | RaisesOther msg \<Rightarrow> (pr, Inl msg)
      | Returns \<Rightarrow>
          (pr\<lparr>ledger := mark_completed (ledger pr) (idempotency_key env)\<rparr>,
           Inr \<lparr>disposition = ACK, out_envelope = env, out_error = None\<rparr>))"

section \<open>Interfaces\<close>

locale bounded_fifo =
  fixes put :: "'q \<Rightarrow> 'a \<Rightarrow> 'q \<times> disposition"
    and pop :: "'q \<Rightarrow> 'a option \<times> 'q"
    and contents :: "'q \<Rightarrow> 'a list"
    and room :: "'q \<Rightarrow> int"
  assumes put_room: "int (length (contents q)) < room q \<Longrightarrow>
      \<exists>q'. put q x = (q', ACK) \<and> contents q' = contents q @ [x] \<and> room q' = room q"
    and put_full: "room q \<le> int (length (contents q)) \<Longrightarrow> put q x = (q, BACKPRESSURE)"
    and pop_empty: "contents q = [] \<Longrightarrow> pop q = (None, q)"
    and pop_first: "contents q = x # xs \<Longrightarrow> \<exists>q'. pop q = (Some x, q') \<and> contents q' = xs \<and> room q' = room q"
begin

definition fits :: "'q \<Rightarrow> bool" where
  "fits q \<longleftrightarrow> int (length (contents q)) \<le> room q"

lemma put_cases:
  "put q x = (q', d) \<Longrightarrow>
     (d = ACK \<and> contents q' = contents q @ [x] \<and> int (length (contents q)) < room q \<and> room q' = room q) \<or>
     (d = BACKPRESSURE \<and> q' = q \<and> room q \<le> int (length (contents q)))"
  using put_room [of q x] put_full [of q x] by (cases "int (length (contents q)) < room q") auto

lemma put_fits: "put q x = (q', d) \<Longrightarrow> fits q \<Longrightarrow> fits q'"
  using put_cases [of q x q' d] unfolding fits_def by auto

lemma pop_fits: "pop q = (r, q') \<Longrightarrow> fits q \<Longrightarrow> fits q'"
  using pop_empty [of q] pop_first [of q] by (cases "contents q") (auto simp: fits_def)

lemma pop_cases:
  "pop q = (r, q') \<Longrightarrow>
     (r = None \<and> contents q = [] \<and> q' = q) \<or> (\<exists>x. r = Some x \<and> contents q = x # contents q' \<and> room q' = room q)"
  using pop_empty [of q] pop_first [of q] by (cases "contents q") auto

text \<open>First in, first out: after \<open>n\<close> accepted puts on an empty queue the pops return the same items in order.\<close>

fun put_list :: "'q \<Rightarrow> 'a list \<Rightarrow> 'q \<times> disposition list" where
  "put_list q [] = (q, [])"
| "put_list q (x # xs) = (let (q1, d) = put q x; (q2, ds) = put_list q1 xs in (q2, d # ds))"

fun pop_list :: "nat \<Rightarrow> 'q \<Rightarrow> 'a option list \<times> 'q" where
  "pop_list 0 q = ([], q)"
| "pop_list (Suc n) q = (let (r, q1) = pop q; (rs, q2) = pop_list n q1 in (r # rs, q2))"

lemma put_list_contents:
  "put_list q xs = (q', ds) \<Longrightarrow> int (length (contents q) + length xs) \<le> room q \<Longrightarrow>
     contents q' = contents q @ xs \<and> ds = replicate (length xs) ACK \<and> room q' = room q"
proof (induction xs arbitrary: q q' ds)
  case (Cons x xs)
  obtain q1 where q1: "put q x = (q1, ACK)" "contents q1 = contents q @ [x]" "room q1 = room q"
    using put_room [of q x] Cons.prems(2) by auto
  obtain q2 es where q2: "put_list q1 xs = (q2, es)" by (cases "put_list q1 xs")
  then have "contents q2 = contents q1 @ xs \<and> es = replicate (length xs) ACK \<and> room q2 = room q1"
    using q1 Cons.prems(2) by (intro Cons.IH) auto
  then show ?case using Cons.prems(1) q1 q2 by auto
qed simp

lemma pop_list_contents:
  "pop_list n q = (rs, q') \<Longrightarrow> n \<le> length (contents q) \<Longrightarrow> rs = map Some (take n (contents q)) \<and> contents q' = drop n (contents q)"
proof (induction n arbitrary: q rs q')
  case (Suc n)
  then obtain x xs where c: "contents q = x # xs" by (cases "contents q") auto
  obtain q1 where q1: "pop q = (Some x, q1)" "contents q1 = xs" using pop_first [OF c] by blast
  obtain rs1 q2 where "pop_list n q1 = (rs1, q2)" by (cases "pop_list n q1")
  then show ?case using Suc.IH [of q1 rs1 q2] Suc.prems q1 c by auto
qed simp

lemma fifo:
  assumes "contents q = []" and "int (length xs) \<le> room q"
  shows "fst (pop_list (length xs) (fst (put_list q xs))) = map Some xs"
proof -
  obtain q1 ds where a: "put_list q xs = (q1, ds)" by (cases "put_list q xs")
  obtain rs q2 where b: "pop_list (length xs) q1 = (rs, q2)" by (cases "pop_list (length xs) q1")
  have "contents q1 = xs" using put_list_contents [OF a] assms by simp
  then show ?thesis using pop_list_contents [OF b] a b by simp
qed

end

locale completion_ledger =
  fixes completed :: "'l \<Rightarrow> 'k \<Rightarrow> bool"
    and mark :: "'l \<Rightarrow> 'k \<Rightarrow> 'l"
  assumes completed_mark: "completed (mark l k) k' \<longleftrightarrow> k' = k \<or> completed l k'"
begin

lemma mark_stays: "completed l k \<Longrightarrow> completed (mark l k') k"
  by (simp add: completed_mark)

lemma mark_list: "completed (foldl mark l ks) k \<longleftrightarrow> k \<in> set ks \<or> completed l k"
  by (induction ks arbitrary: l) (auto simp: completed_mark)

end

interpretation dq: bounded_fifo try_put queue_get q_items capacity
  by unfold_locales (auto simp: try_put_def depth_def queue_get_def)

interpretation il: completion_ledger is_completed mark_completed
  by unfold_locales (auto simp: is_completed_def mark_completed_def)

section \<open>Runs\<close>

text \<open>
  A run interleaves deliveries of arbitrary envelopes with redeliveries of envelopes popped from the
  retry queue. The side effect may behave differently at every call. The second component of a
  state is a log of the keys whose side effect returned, in order.
\<close>

type_synonym 'p run_state = "'p processor \<times> string list"

definition effect_log :: "'p envelope \<Rightarrow> string + 'p delivery_outcome \<Rightarrow> string list" where
  "effect_log env r = (case r of Inr out \<Rightarrow> (if disposition out = ACK then [idempotency_key env] else []) | Inl _ \<Rightarrow> [])"

inductive delivery_step :: "'p run_state \<Rightarrow> 'p run_state \<Rightarrow> bool" where
  deliver: "process pr env eff = (pr', r) \<Longrightarrow> 1 \<le> attempt env \<Longrightarrow> attempt env \<le> max_attempts (retry_policy_of pr) \<Longrightarrow>
     delivery_step (pr, lg) (pr', lg @ effect_log env r)"
| redeliver: "queue_get (retry_queue pr) = (Some env, q) \<Longrightarrow> process (pr\<lparr>retry_queue := q\<rparr>) env eff = (pr', r) \<Longrightarrow>
     delivery_step (pr, lg) (pr', lg @ effect_log env r)"

inductive_cases delivery_stepE: "delivery_step s t"

text \<open>
  The invariant of a run: the log of completed effects has no repetition and is the ledger, the retry
  queue is within its capacity, and queued or dead envelopes have an attempt number between one and
  the maximum.
\<close>

definition attempt_ok :: "'p processor \<Rightarrow> 'p envelope \<Rightarrow> bool" where
  "attempt_ok pr e \<longleftrightarrow> 1 \<le> attempt e \<and> attempt e \<le> max_attempts (retry_policy_of pr)"

definition run_inv :: "'p run_state \<Rightarrow> bool" where
  "run_inv s \<longleftrightarrow>
     distinct (snd s) \<and> set (snd s) = completed_keys (ledger (fst s)) \<and>
     dq.fits (retry_queue (fst s)) \<and>
     (\<forall>e\<in>set (q_items (retry_queue (fst s))). attempt_ok (fst s) e) \<and>
     (\<forall>e\<in>set (dead_letter_queue (fst s)). attempt_ok (fst s) e)"

lemma process_policy: "process pr env eff = (pr', r) \<Longrightarrow> retry_policy_of pr' = retry_policy_of pr"
  by (auto simp: process_def Let_def split: if_splits effect_result.splits prod.splits)

lemma process_inv:
  assumes "process pr env eff = (pr', r)" and "attempt_ok pr env" and "run_inv (pr, lg)"
  shows "run_inv (pr', lg @ effect_log env r)"
proof (cases "is_completed (ledger pr) (idempotency_key env)")
  case True
  with assms show ?thesis by (auto simp: process_def effect_log_def)
next
  case False
  show ?thesis
  proof (cases "eff (payload env)")
    case Returns
    with assms False show ?thesis
      by (auto simp: process_def effect_log_def run_inv_def mark_completed_def is_completed_def attempt_ok_def)
  next
    case (RaisesTransient msg)
    show ?thesis
    proof (cases "attempt env \<ge> max_attempts (retry_policy_of pr)")
      case True
      with assms False RaisesTransient show ?thesis
        by (auto simp: process_def effect_log_def run_inv_def attempt_ok_def)
    next
      case retry: False
      obtain q d where pq: "try_put (retry_queue pr) (next_attempt env) = (q, d)"
        by (cases "try_put (retry_queue pr) (next_attempt env)")
      have fit: "dq.fits q" using dq.put_fits [OF pq] assms(3) by (simp add: run_inv_def)
      have "\<forall>e\<in>set (q_items q). attempt_ok pr e"
        using dq.put_cases [OF pq] assms(2,3) retry by (auto simp: run_inv_def attempt_ok_def next_attempt_def)
      moreover have "pr' = pr\<lparr>retry_queue := q\<rparr>" "effect_log env r = []"
        using assms(1) False RaisesTransient retry pq by (auto simp: process_def effect_log_def Let_def split: if_splits)
      ultimately show ?thesis using assms(3) fit by (simp add: run_inv_def attempt_ok_def)
    qed
  qed (use assms False in \<open>auto simp: process_def effect_log_def run_inv_def attempt_ok_def\<close>)
qed

lemma step_inv: "delivery_step s t \<Longrightarrow> run_inv s \<Longrightarrow> run_inv t"
proof (induction rule: delivery_step.induct)
  case (deliver pr env eff pr' r lg)
  then show ?case by (intro process_inv) (auto simp: attempt_ok_def)
next
  case (redeliver pr env q eff pr' r lg)
  have c: "q_items (retry_queue pr) = env # q_items q" "capacity q = capacity (retry_queue pr)"
    using dq.pop_cases [OF redeliver(1)] by auto
  have "run_inv (pr\<lparr>retry_queue := q\<rparr>, lg)"
    using redeliver.prems c dq.pop_fits [OF redeliver(1)] by (auto simp: run_inv_def attempt_ok_def)
  moreover have "attempt_ok (pr\<lparr>retry_queue := q\<rparr>) env"
    using redeliver.prems c by (auto simp: run_inv_def attempt_ok_def)
  ultimately show ?case using redeliver(2) by (intro process_inv)
qed

lemma run_reachable_inv: "delivery_step\<^sup>*\<^sup>* s t \<Longrightarrow> run_inv s \<Longrightarrow> run_inv t"
  by (induction rule: rtranclp_induct) (auto intro: step_inv)

section \<open>Redelivery until the retry queue is empty\<close>

text \<open>
  Pop and process until the queue is empty; the number counts the calls of \<open>process\<close>. The fuel bounds
  the number of pops.
\<close>

fun drain :: "nat \<Rightarrow> 'p processor \<Rightarrow> ('p \<Rightarrow> effect_result) \<Rightarrow> 'p processor \<times> nat" where
  "drain 0 pr eff = (pr, 0)"
| "drain (Suc n) pr eff =
     (case queue_get (retry_queue pr) of
        (None, q) \<Rightarrow> (pr, 0)
      | (Some env, q) \<Rightarrow>
          (let (pr2, k) = drain n (fst (process (pr\<lparr>retry_queue := q\<rparr>) env eff)) eff in (pr2, Suc k)))"

lemma drain_empty: "q_items (retry_queue pr) = [] \<Longrightarrow> drain n pr eff = (pr, 0)"
  by (cases n) (simp_all add: queue_get_def)

lemma drain_step:
  assumes "q_items (retry_queue pr) = [env]"
  shows "drain (Suc n) pr eff =
    (let (pr2, k) = drain n (fst (process (pr\<lparr>retry_queue := (retry_queue pr)\<lparr>q_items := []\<rparr>\<rparr>) env eff)) eff in (pr2, Suc k))"
  using assms by (simp add: queue_get_def)

declare drain.simps [simp del]

lemma process_transient_last:
  assumes "\<not> is_completed (ledger pr) (idempotency_key env)" and "eff (payload env) = RaisesTransient msg"
    and "max_attempts (retry_policy_of pr) \<le> attempt env"
  shows "fst (process pr env eff) = pr\<lparr>dead_letter_queue := dead_letter_queue pr @ [env]\<rparr>"
  using assms by (simp add: process_def)

lemma process_transient_retry:
  assumes "\<not> is_completed (ledger pr) (idempotency_key env)" and "eff (payload env) = RaisesTransient msg"
    and "attempt env < max_attempts (retry_policy_of pr)" and "depth (retry_queue pr) < capacity (retry_queue pr)"
  shows "fst (process pr env eff) =
     pr\<lparr>retry_queue := (retry_queue pr)\<lparr>q_items := q_items (retry_queue pr) @ [next_attempt env]\<rparr>\<rparr>"
  using assms by (simp add: process_def try_put_def Let_def)

lemma drain_transient:
  assumes "max_attempts (retry_policy_of pr) - attempt env = int n"
    and "q_items (retry_queue pr) = [env]" and "1 \<le> capacity (retry_queue pr)"
    and "\<not> is_completed (ledger pr) (idempotency_key env)" and "eff (payload env) = RaisesTransient msg"
  shows "drain (n + 2) pr eff =
     (pr\<lparr>retry_queue := (retry_queue pr)\<lparr>q_items := []\<rparr>,
         dead_letter_queue := dead_letter_queue pr @ [env\<lparr>attempt := max_attempts (retry_policy_of pr)\<rparr>]\<rparr>, n + 1)"
  using assms
proof (induction n arbitrary: pr env)
  case 0
  let ?p = "pr\<lparr>retry_queue := (retry_queue pr)\<lparr>q_items := []\<rparr>\<rparr>"
  have "fst (process ?p env eff) = ?p\<lparr>dead_letter_queue := dead_letter_queue ?p @ [env]\<rparr>"
    using 0 by (intro process_transient_last) auto
  moreover have "env\<lparr>attempt := max_attempts (retry_policy_of pr)\<rparr> = env" using 0(1) by simp
  ultimately show ?case
    using drain_step [OF 0(2), of 1 eff] by (simp add: drain_empty numeral_2_eq_2)
next
  case (Suc n)
  let ?p = "pr\<lparr>retry_queue := (retry_queue pr)\<lparr>q_items := []\<rparr>\<rparr>"
  let ?p1 = "pr\<lparr>retry_queue := (retry_queue pr)\<lparr>q_items := [next_attempt env]\<rparr>\<rparr>"
  have pr1: "fst (process ?p env eff) = ?p1"
    using process_transient_retry [of ?p env eff msg] Suc.prems by (simp add: depth_def)
  have "drain (n + 2) ?p1 eff =
     (?p1\<lparr>retry_queue := (retry_queue ?p1)\<lparr>q_items := []\<rparr>,
         dead_letter_queue := dead_letter_queue ?p1 @ [(next_attempt env)\<lparr>attempt := max_attempts (retry_policy_of ?p1)\<rparr>]\<rparr>, n + 1)"
    using Suc.prems by (intro Suc.IH) (auto simp: next_attempt_def)
  moreover have "(next_attempt env)\<lparr>attempt := x\<rparr> = env\<lparr>attempt := x\<rparr>" for x
    by (simp add: next_attempt_def)
  ultimately show ?case
    using drain_step [OF Suc.prems(2), of "n + 2" eff] pr1 by simp
qed

section \<open>Properties\<close>

text \<open>
  C5. At most one completed side effect per idempotency key, in every run: starting from an empty
  processor and interleaving deliveries and redeliveries in any order, with a side effect that may
  fail in any way at any call, the log of completed effects never repeats a key and is exactly the
  ledger; the retry queue never exceeds its capacity; every queued or dead-lettered envelope has been
  attempted at most the maximum number of times.
\<close>

theorem delivery_at_most_once:
  assumes "delivery_step\<^sup>*\<^sup>* (pr0, []) (pr, lg)"
    and "completed_keys (ledger pr0) = {}" and "q_items (retry_queue pr0) = []" and "dead_letter_queue pr0 = []"
    and "1 \<le> capacity (retry_queue pr0)"
  shows "distinct lg \<and> set lg = completed_keys (ledger pr) \<and> depth (retry_queue pr) \<le> capacity (retry_queue pr) \<and>
     (\<forall>e\<in>set (q_items (retry_queue pr)) \<union> set (dead_letter_queue pr). attempt e \<le> max_attempts (retry_policy_of pr))"
proof -
  have "run_inv (pr0, [])" using assms(2-5) by (simp add: run_inv_def dq.fits_def)
  with assms(1) have "run_inv (pr, lg)" by (rule run_reachable_inv)
  then show ?thesis by (auto simp: run_inv_def dq.fits_def depth_def attempt_ok_def)
qed

definition sample_processor :: "nat processor" where
  "sample_processor = \<lparr>retry_policy_of = \<lparr>max_attempts = 3\<rparr>, ledger = \<lparr>completed_keys = {}\<rparr>,
     retry_queue = \<lparr>capacity = 2, q_items = []\<rparr>, dead_letter_queue = []\<rparr>"

definition sample_envelope :: "nat envelope" where
  "sample_envelope = \<lparr>event_id = ''e1'', idempotency_key = ''k'', payload = 7, attempt = 1\<rparr>"

theorem delivery_at_most_once_witness:
  "\<exists>pr lg. delivery_step\<^sup>*\<^sup>* (sample_processor, []) (pr, lg) \<and> lg = [''k''] \<and> completed_keys (ledger pr) = {''k''} \<and> distinct lg"
proof -
  let ?r = "process sample_processor sample_envelope (\<lambda>_. Returns)"
  have log: "effect_log sample_envelope (snd ?r) = [''k'']"
    by (simp add: process_def sample_processor_def sample_envelope_def effect_log_def is_completed_def)
  have "delivery_step (sample_processor, []) (fst ?r, [] @ effect_log sample_envelope (snd ?r))"
    by (rule deliver [of _ _ "\<lambda>_. Returns"]) (simp_all add: sample_processor_def sample_envelope_def)
  then have run: "delivery_step\<^sup>*\<^sup>* (sample_processor, []) (fst ?r, [''k''])" using log by auto
  then have "distinct [''k''] \<and> set [''k''] = completed_keys (ledger (fst ?r))"
    using delivery_at_most_once [OF run] by (simp add: sample_processor_def)
  then show ?thesis using run by auto
qed

text \<open>
  No delivery is lost or misfiled: a call that returns either reports a duplicate of a completed key
  and changes nothing, or completes the effect and records its key, or appends the next attempt to
  the retry queue, or appends the envelope to the dead letters, or, only when the queue is full,
  hands the envelope back and changes nothing; any other exception propagates and changes nothing.
\<close>

theorem process_no_loss:
  assumes "process pr env eff = (pr', r)"
  shows "case r of
       Inl msg \<Rightarrow> pr' = pr \<and> eff (payload env) = RaisesOther msg
     | Inr out \<Rightarrow>
         (case disposition out of
            DUPLICATE \<Rightarrow> pr' = pr \<and> is_completed (ledger pr) (idempotency_key env)
          | ACK \<Rightarrow> eff (payload env) = Returns \<and> \<not> is_completed (ledger pr) (idempotency_key env) \<and>
                   pr' = pr\<lparr>ledger := mark_completed (ledger pr) (idempotency_key env)\<rparr>
          | RETRY \<Rightarrow> attempt env < max_attempts (retry_policy_of pr) \<and> depth (retry_queue pr) < capacity (retry_queue pr) \<and>
                   q_items (retry_queue pr') = q_items (retry_queue pr) @ [next_attempt env] \<and>
                   ledger pr' = ledger pr \<and> dead_letter_queue pr' = dead_letter_queue pr
          | DEAD_LETTER \<Rightarrow> pr' = pr\<lparr>dead_letter_queue := dead_letter_queue pr @ [env]\<rparr>
          | BACKPRESSURE \<Rightarrow> pr' = pr \<and> out_envelope out = env \<and> capacity (retry_queue pr) \<le> depth (retry_queue pr))"
  using assms
  by (auto simp: process_def try_put_def Let_def split: if_splits effect_result.splits)

theorem process_no_loss_witness:
  "\<exists>pr' out. process sample_processor sample_envelope (\<lambda>_. RaisesTransient ''timeout'') = (pr', Inr out) \<and>
     disposition out = RETRY \<and> q_items (retry_queue pr') = [next_attempt sample_envelope]"
proof -
  let ?p = "process sample_processor sample_envelope (\<lambda>_. RaisesTransient ''timeout'')"
  obtain out where out: "snd ?p = Inr out" "disposition out = RETRY"
    by (simp add: process_def sample_processor_def sample_envelope_def is_completed_def try_put_def depth_def Let_def)
  have "?p = (fst ?p, snd ?p)" by simp
  from process_no_loss [OF this] out show ?thesis
    by (auto simp: sample_processor_def intro!: exI [of _ "fst ?p"] exI [of _ out] prod_eqI)
qed

text \<open>
  Retries end: when the side effect keeps failing transiently, a first delivery followed by draining
  the retry queue calls \<open>process\<close> exactly as often as the policy allows, leaves the retry queue empty
  and the envelope, with the last attempt number, at the end of the dead letters.
\<close>

theorem transient_retries_exhaust:
  assumes "attempt env = 1" and "max_attempts (retry_policy_of pr) = int n + 2"
    and "q_items (retry_queue pr) = []" and "1 \<le> capacity (retry_queue pr)"
    and "\<not> is_completed (ledger pr) (idempotency_key env)" and "eff (payload env) = RaisesTransient msg"
  shows "let (pr', calls) = drain (n + 2) (fst (process pr env eff)) eff
         in calls = n + 1 \<and> q_items (retry_queue pr') = [] \<and>
            dead_letter_queue pr' = dead_letter_queue pr @ [env\<lparr>attempt := max_attempts (retry_policy_of pr)\<rparr>]"
proof -
  let ?p1 = "pr\<lparr>retry_queue := (retry_queue pr)\<lparr>q_items := [next_attempt env]\<rparr>\<rparr>"
  have "fst (process pr env eff) = ?p1"
    using process_transient_retry [of pr env eff msg] assms by (simp add: depth_def)
  moreover have "drain (n + 2) ?p1 eff =
     (?p1\<lparr>retry_queue := (retry_queue ?p1)\<lparr>q_items := []\<rparr>,
         dead_letter_queue := dead_letter_queue ?p1 @ [(next_attempt env)\<lparr>attempt := max_attempts (retry_policy_of ?p1)\<rparr>]\<rparr>, n + 1)"
    using assms by (intro drain_transient) (auto simp: next_attempt_def)
  ultimately show ?thesis by (simp add: next_attempt_def)
qed

theorem transient_retries_exhaust_witness:
  "let (pr', calls) = drain 3 (fst (process sample_processor sample_envelope (\<lambda>_. RaisesTransient ''t''))) (\<lambda>_. RaisesTransient ''t'')
   in calls = 2 \<and> dead_letter_queue pr' = [sample_envelope\<lparr>attempt := 3\<rparr>]"
  using transient_retries_exhaust [of sample_envelope sample_processor 1 "\<lambda>_. RaisesTransient ''t''" "''t''"]
  by (auto simp: sample_processor_def sample_envelope_def is_completed_def eval_nat_numeral)

end
