(* ===== verification/Order_Flow.thy ===== *)
theory Order_Flow
  imports Py_Values
begin

text \<open>
  The order-flow simulator, \<open>order_flow_simulator/{models,state_machine,simulator}.py\<close>: order states and
  events, the transition rules, the audit row, and the simulator with its state map and its
  append-only audit log.

  The log is a list of lines; a line that is not a JSON object (which \<open>replay_order\<close> skips) is \<open>None\<close>.
  The clock is a parameter: each event carries its time stamp text and its measured latency, a
  rational. \<open>round(x, 3)\<close> is modelled on rationals with the text Python prints for the result.

  The state machine is also given as the relation \<open>order_step\<close>; the locale \<open>event_machine\<close> states what the
  simulator relies on (an invalid event changes nothing, a terminal state accepts nothing) and is
  interpreted on \<open>apply_event\<close>.
\<close>

section \<open>States, events and rules\<close>

datatype order_state = NEW | ACCEPTED | PARTIALLY_FILLED | FILLED | CANCEL_PENDING | CANCELLED | REJECTED

fun order_state_value :: "order_state \<Rightarrow> string" where
  "order_state_value NEW = ''NEW''"
| "order_state_value ACCEPTED = ''ACCEPTED''"
| "order_state_value PARTIALLY_FILLED = ''PARTIALLY_FILLED''"
| "order_state_value FILLED = ''FILLED''"
| "order_state_value CANCEL_PENDING = ''CANCEL_PENDING''"
| "order_state_value CANCELLED = ''CANCELLED''"
| "order_state_value REJECTED = ''REJECTED''"

datatype order_event_type =
  ORDER_SUBMITTED | ORDER_ACCEPTED | PARTIAL_FILL | FULL_FILL | CANCEL_REQUESTED | CANCEL_CONFIRMED | REJECT

fun event_value :: "order_event_type \<Rightarrow> string" where
  "event_value ORDER_SUBMITTED = ''order_submitted''"
| "event_value ORDER_ACCEPTED = ''order_accepted''"
| "event_value PARTIAL_FILL = ''partial_fill''"
| "event_value FULL_FILL = ''full_fill''"
| "event_value CANCEL_REQUESTED = ''cancel_requested''"
| "event_value CANCEL_CONFIRMED = ''cancel_confirmed''"
| "event_value REJECT = ''reject''"

fun event_rules :: "order_event_type \<Rightarrow> (order_state set \<times> order_state) option" where
  "event_rules ORDER_SUBMITTED = Some ({NEW}, NEW)"
| "event_rules ORDER_ACCEPTED = Some ({NEW}, ACCEPTED)"
| "event_rules PARTIAL_FILL = Some ({ACCEPTED, PARTIALLY_FILLED}, PARTIALLY_FILLED)"
| "event_rules FULL_FILL = Some ({ACCEPTED, PARTIALLY_FILLED}, FILLED)"
| "event_rules CANCEL_REQUESTED = Some ({ACCEPTED, PARTIALLY_FILLED}, CANCEL_PENDING)"
| "event_rules CANCEL_CONFIRMED = Some ({CANCEL_PENDING}, CANCELLED)"
| "event_rules REJECT = Some ({NEW, ACCEPTED}, REJECTED)"

definition apply_event :: "order_state \<Rightarrow> order_event_type \<Rightarrow> order_state \<times> bool \<times> string" where
  "apply_event current event_type =
     (case event_rules event_type of
        None \<Rightarrow> (current, False, ''unknown_event_type:'' @ event_value event_type)
      | Some (allowed_from, to_state) \<Rightarrow>
          (if current \<notin> allowed_from
           then (current, False, ''invalid_transition:'' @ order_state_value current @ ''->'' @ order_state_value to_state
                                 @ '' via '' @ event_value event_type)
           else (to_state, True, ''ok'')))"

section \<open>Audit rows\<close>

record order_event =
  oe_event_type :: order_event_type
  oe_order_id :: string
  oe_timestamp :: string
  oe_latency_ms :: rat
  oe_from_state :: "order_state option"
  oe_to_state :: "order_state option"
  oe_valid :: bool
  oe_detail :: string

text \<open>\<open>round(x, 3)\<close>: to the nearest thousandth, ties to the even one, printed without trailing zeros.\<close>

definition round3 :: "rat \<Rightarrow> pyval" where
  "round3 x = (let n = round_half_even (1000 * x) in PyFloat (of_int n / 1000) (decimal3 n))"

definition opt_state :: "order_state option \<Rightarrow> pyval" where
  "opt_state x = (case x of None \<Rightarrow> PyNone | Some s \<Rightarrow> PyStr (order_state_value s))"

definition order_event_to_jsonable :: "order_event \<Rightarrow> pydict" where
  "order_event_to_jsonable e =
     [(''schema_version'', PyStr ''order_flow.v1''),
      (''record_type'', PyStr ''order_flow_event''),
      (''timestamp'', PyStr (oe_timestamp e)),
      (''event_type'', PyStr (event_value (oe_event_type e))),
      (''order_id'', PyStr (oe_order_id e)),
      (''latency_ms'', round3 (oe_latency_ms e)),
      (''from_state'', opt_state (oe_from_state e)),
      (''to_state'', opt_state (oe_to_state e)),
      (''valid'', PyBool (oe_valid e)),
      (''detail'', PyStr (oe_detail e))]"

definition build_audit_event ::
  "string \<Rightarrow> string \<Rightarrow> order_event_type \<Rightarrow> order_state \<Rightarrow> order_state \<Rightarrow> bool \<Rightarrow> rat \<Rightarrow> string \<Rightarrow> order_event" where
  "build_audit_event now order_id event_type from_state to_state valid latency_ms detail =
     \<lparr>oe_event_type = event_type, oe_order_id = order_id, oe_timestamp = now, oe_latency_ms = latency_ms,
      oe_from_state = Some from_state, oe_to_state = Some to_state, oe_valid = valid, oe_detail = detail\<rparr>"

section \<open>The simulator\<close>

record simulator =
  sim_states :: "string \<rightharpoonup> order_state"
  audit_log :: "pydict option list"

text \<open>An event as the simulator receives it: order, type, time stamp and measured latency.\<close>

type_synonym order_input = "string \<times> order_event_type \<times> string \<times> rat"

definition sim_state :: "simulator \<Rightarrow> string \<Rightarrow> order_state" where
  "sim_state sim order_id = (case sim_states sim order_id of None \<Rightarrow> NEW | Some s \<Rightarrow> s)"

fun sim_apply :: "simulator \<Rightarrow> order_input \<Rightarrow> simulator \<times> pydict" where
  "sim_apply sim (order_id, event_type, now, elapsed_ms) =
     (let before0 = sim_state sim order_id;
          (after0, valid0, detail0) = apply_event before0 event_type;
          first = (sim_states sim order_id = None \<and> event_type = ORDER_SUBMITTED);
          states1 = (if first then (sim_states sim)(order_id \<mapsto> NEW) else sim_states sim);
          prior = (if first then NEW else before0);
          (after1, valid, detail) = (if first then apply_event NEW event_type else (after0, valid0, detail0));
          states2 = (if valid then states1(order_id \<mapsto> after1) else states1);
          blob = order_event_to_jsonable
                   (build_audit_event now order_id event_type prior (if valid then after1 else prior) valid elapsed_ms detail)
      in (sim\<lparr>sim_states := states2, audit_log := audit_log sim @ [Some blob]\<rparr>, blob))"

fun sim_apply_all :: "simulator \<Rightarrow> order_input list \<Rightarrow> simulator \<times> pydict list" where
  "sim_apply_all sim [] = (sim, [])"
| "sim_apply_all sim (i # is) =
     (let (sim1, blob) = sim_apply sim i; (sim2, blobs) = sim_apply_all sim1 is in (sim2, blob # blobs))"

definition scenarios :: "(string \<times> order_event_type list) list" where
  "scenarios =
     [(''happy_path'', [ORDER_SUBMITTED, ORDER_ACCEPTED, PARTIAL_FILL, FULL_FILL]),
      (''cancel_path'', [ORDER_SUBMITTED, ORDER_ACCEPTED, CANCEL_REQUESTED, CANCEL_CONFIRMED]),
      (''invalid_cancel'', [ORDER_SUBMITTED, ORDER_ACCEPTED, FULL_FILL, CANCEL_REQUESTED]),
      (''reject_early'', [ORDER_SUBMITTED, REJECT])]"

record simulation_result =
  sr_scenario :: string
  sr_order_id :: string
  sr_final_state :: order_state
  sr_events :: "pydict list"
  sr_invalid_transition_count :: nat
  sr_processing_latency_ms_total :: rat

definition blob_latency :: "pydict \<Rightarrow> rat" where
  "blob_latency b = (case dict_get b ''latency_ms'' of PyFloat v _ \<Rightarrow> v | _ \<Rightarrow> 0)"

text \<open>
  \<open>run_scenario\<close>; the clock gives the time stamp and the latency of the \<open>n\<close>-th event. The sum of the
  latencies is exact here; the path of the log, which the source also returns, is left out.
\<close>

definition run_scenario ::
  "(nat \<Rightarrow> string \<times> rat) \<Rightarrow> simulator \<Rightarrow> string \<Rightarrow> string option \<Rightarrow> (simulation_result \<times> simulator) py_result" where
  "run_scenario clock sim name order_id =
     (case map_of scenarios name of
        None \<Rightarrow> Inl (ValueError (''unknown scenario: '' @ py_repr_str name @ ''; choose from ''
                     @ py_repr (PyList (map PyStr (sort (map fst scenarios))))))
      | Some script \<Rightarrow>
          (let oid = (case order_id of None \<Rightarrow> ''ORD-'' @ name | Some s \<Rightarrow> if s = [] then ''ORD-'' @ name else s);
               sim1 = sim\<lparr>sim_states := (sim_states sim)(oid \<mapsto> NEW)\<rparr>;
               inputs = map (\<lambda>(n, et). (oid, et, clock n)) (enumerate 0 script);
               (sim2, events) = sim_apply_all sim1 inputs
           in Inr (\<lparr>sr_scenario = name, sr_order_id = oid, sr_final_state = sim_state sim2 oid, sr_events = events,
                    sr_invalid_transition_count = length (filter (\<lambda>b. \<not> truthy (dict_get b ''valid'')) events),
                    sr_processing_latency_ms_total = sum_list (map blob_latency events)\<rparr>, sim2)))"

definition replay_order :: "simulator \<Rightarrow> string \<Rightarrow> pydict list" where
  "replay_order sim order_id =
     filter (\<lambda>row. dict_get row ''order_id'' = PyStr order_id) (List.map_filter (\<lambda>x. x) (audit_log sim))"

section \<open>The state machine as a relation\<close>

inductive order_step :: "order_state \<Rightarrow> order_event_type \<Rightarrow> order_state \<Rightarrow> bool" where
  submitted: "order_step NEW ORDER_SUBMITTED NEW"
| accepted: "order_step NEW ORDER_ACCEPTED ACCEPTED"
| partial: "s \<in> {ACCEPTED, PARTIALLY_FILLED} \<Longrightarrow> order_step s PARTIAL_FILL PARTIALLY_FILLED"
| full: "s \<in> {ACCEPTED, PARTIALLY_FILLED} \<Longrightarrow> order_step s FULL_FILL FILLED"
| cancel_req: "s \<in> {ACCEPTED, PARTIALLY_FILLED} \<Longrightarrow> order_step s CANCEL_REQUESTED CANCEL_PENDING"
| cancel_conf: "order_step CANCEL_PENDING CANCEL_CONFIRMED CANCELLED"
| rejected: "s \<in> {NEW, ACCEPTED} \<Longrightarrow> order_step s REJECT REJECTED"

inductive_simps order_step_iff: "order_step s e s'"

definition terminal :: "order_state \<Rightarrow> bool" where
  "terminal s \<longleftrightarrow> s \<in> {FILLED, CANCELLED, REJECTED}"

lemma apply_event_step: "fst (snd (apply_event s e)) \<longleftrightarrow> order_step s e (fst (apply_event s e))"
  by (cases e) (auto simp: apply_event_def order_step_iff)

lemma order_step_det: "order_step s e s' \<Longrightarrow> apply_event s e = (s', True, ''ok'')"
  by (auto simp: order_step_iff apply_event_def)

lemma apply_event_invalid: "\<not> fst (snd (apply_event s e)) \<Longrightarrow> fst (apply_event s e) = s"
  by (cases e) (auto simp: apply_event_def)

locale event_machine =
  fixes fire :: "'s \<Rightarrow> 'e \<Rightarrow> 's \<times> bool \<times> string"
    and final :: "'s \<Rightarrow> bool"
  assumes invalid_keeps: "\<not> fst (snd (fire s e)) \<Longrightarrow> fst (fire s e) = s"
    and final_rejects: "final s \<Longrightarrow> \<not> fst (snd (fire s e))"
begin

definition after :: "'s \<Rightarrow> 'e list \<Rightarrow> 's" where
  "after s es = foldl (\<lambda>t e. fst (fire t e)) s es"

lemma after_Nil [simp]: "after s [] = s"
  by (simp add: after_def)

lemma after_Cons [simp]: "after s (e # es) = after (fst (fire s e)) es"
  by (simp add: after_def)

lemma after_append: "after s (es @ fs) = after (after s es) fs"
  by (simp add: after_def)

lemma final_absorbing: "final s \<Longrightarrow> after s es = s"
  by (induction es) (simp_all add: invalid_keeps final_rejects)

lemma final_forever: "final (after s es) \<Longrightarrow> after s (es @ fs) = after s es"
  by (simp add: after_append final_absorbing)

end

interpretation order: event_machine apply_event terminal
proof
  fix s :: order_state and e
  show "\<not> fst (snd (apply_event s e)) \<Longrightarrow> fst (apply_event s e) = s" by (rule apply_event_invalid)
  show "terminal s \<Longrightarrow> \<not> fst (snd (apply_event s e))"
    by (cases e) (auto simp: terminal_def apply_event_def)
qed

section \<open>One order in isolation\<close>

text \<open>The row an event of an order in state \<open>s\<close> produces, and the rows of a sequence of its events.\<close>

fun audit_row :: "order_state \<Rightarrow> order_input \<Rightarrow> pydict" where
  "audit_row s (oid, e, now, ms) =
     (let (t, valid, detail) = apply_event s e
      in order_event_to_jsonable (build_audit_event now oid e s t valid ms detail))"

fun order_rows :: "order_state \<Rightarrow> order_input list \<Rightarrow> pydict list" where
  "order_rows s [] = []"
| "order_rows s (i # is) = audit_row s i # order_rows (fst (apply_event s (fst (snd i)))) is"

definition own_inputs :: "string \<Rightarrow> order_input list \<Rightarrow> order_input list" where
  "own_inputs oid is = filter (\<lambda>i. fst i = oid) is"

lemma apply_event_submit_new: "apply_event NEW ORDER_SUBMITTED = (NEW, True, ''ok'')"
  by (simp add: apply_event_def)

lemma sim_apply_row: "snd (sim_apply sim (oid, e, now, ms)) = audit_row (sim_state sim oid) (oid, e, now, ms)"
  using order.invalid_keeps [of "sim_state sim oid" e]
  by (cases "apply_event (sim_state sim oid) e")
     (auto simp: Let_def sim_state_def apply_event_submit_new split: prod.splits if_splits)

lemma sim_apply_log:
  "audit_log (fst (sim_apply sim i)) = audit_log sim @ [Some (snd (sim_apply sim i))]"
  by (cases i) (simp add: Let_def split: prod.split)

lemma sim_apply_state:
  "sim_state (fst (sim_apply sim (oid, e, now, ms))) oid' =
     (if oid' = oid then fst (apply_event (sim_state sim oid) e) else sim_state sim oid')"
  using order.invalid_keeps [of "sim_state sim oid" e]
  by (cases "apply_event (sim_state sim oid) e")
     (auto simp: Let_def sim_state_def apply_event_submit_new split: prod.splits if_splits option.splits)

lemma audit_row_order: "dict_get (audit_row s i) ''order_id'' = PyStr (fst i)"
  by (cases i) (simp add: order_event_to_jsonable_def build_audit_event_def dict_get_def split: prod.split)

lemma sim_apply_all_Cons:
  "sim_apply_all sim (i # is) =
     (fst (sim_apply_all (fst (sim_apply sim i)) is), snd (sim_apply sim i) # snd (sim_apply_all (fst (sim_apply sim i)) is))"
  by (simp split: prod.split del: sim_apply.simps)

declare sim_apply_all.simps(2) [simp del] sim_apply.simps [simp del] audit_row.simps [simp del]

lemma replay_order_apply:
  "replay_order (fst (sim_apply sim i)) oid =
     replay_order sim oid @ (if fst i = oid then [audit_row (sim_state sim oid) i] else [])"
proof -
  obtain oi e now ms where i: "i = (oi, e, now, ms)" by (cases i)
  have "replay_order (fst (sim_apply sim i)) oid =
     replay_order sim oid @ (if dict_get (audit_row (sim_state sim oi) i) ''order_id'' = PyStr oid
       then [audit_row (sim_state sim oi) i] else [])"
    by (simp add: replay_order_def sim_apply_log sim_apply_row i List.map_filter_def)
  then show ?thesis by (auto simp: audit_row_order i)
qed

lemma apply_all_isolated:
  "replay_order (fst (sim_apply_all sim is)) oid =
     replay_order sim oid @ order_rows (sim_state sim oid) (own_inputs oid is) \<and>
   sim_state (fst (sim_apply_all sim is)) oid =
     order.after (sim_state sim oid) (map (\<lambda>i. fst (snd i)) (own_inputs oid is))"
proof (induction "is" arbitrary: sim)
  case (Cons i "is")
  obtain oi e now ms where i: "i = (oi, e, now, ms)" by (cases i)
  show ?case
    using Cons.IH [of "fst (sim_apply sim i)"]
    by (simp add: sim_apply_all_Cons replay_order_apply sim_apply_state i own_inputs_def)
qed (simp add: own_inputs_def)

lemma apply_all_log:
  "audit_log (fst (sim_apply_all sim is)) = audit_log sim @ map Some (snd (sim_apply_all sim is)) \<and>
   length (snd (sim_apply_all sim is)) = length is"
  by (induction "is" arbitrary: sim) (simp_all add: sim_apply_all_Cons sim_apply_log)

lemma apply_all_rows:
  "\<forall>i\<in>set is. fst i = oid \<Longrightarrow> snd (sim_apply_all sim is) = order_rows (sim_state sim oid) is"
proof (induction "is" arbitrary: sim)
  case (Cons i "is")
  obtain e now ms where i: "i = (oid, e, now, ms)" using Cons.prems by (cases i) auto
  then show ?case using Cons by (simp add: sim_apply_all_Cons sim_apply_row sim_apply_state)
qed simp

lemma audit_row_valid: "dict_get (audit_row s (oid, e, now, ms)) ''valid'' = PyBool (fst (snd (apply_event s e)))"
  by (simp add: audit_row.simps order_event_to_jsonable_def build_audit_event_def dict_get_def split: prod.split)

text \<open>The number of refused events of a history.\<close>

fun refused :: "order_state \<Rightarrow> order_event_type list \<Rightarrow> nat" where
  "refused s [] = 0"
| "refused s (e # es) = (if fst (snd (apply_event s e)) then 0 else 1) + refused (fst (apply_event s e)) es"

lemma refused_rows:
  "length (filter (\<lambda>b. \<not> truthy (dict_get b ''valid'')) (order_rows s is)) = refused s (map (\<lambda>i. fst (snd i)) is)"
proof (induction "is" arbitrary: s)
  case (Cons i "is")
  obtain oid e now ms where "i = (oid, e, now, ms)" by (cases i)
  with Cons show ?case by (simp add: audit_row_valid)
qed simp

section \<open>Histories\<close>

text \<open>The events of a history that the machine accepted.\<close>

fun accepted_events :: "order_state \<Rightarrow> order_event_type list \<Rightarrow> order_event_type list" where
  "accepted_events s [] = []"
| "accepted_events s (e # es) =
     (let (t, valid, _) = apply_event s e in (if valid then [e] else []) @ accepted_events t es)"

lemma accepted_snoc:
  "accepted_events s (es @ [e]) =
     accepted_events s es @ (if fst (snd (apply_event (order.after s es) e)) then [e] else [])"
  by (induction es arbitrary: s) (auto simp: Let_def split: prod.splits)

lemma after_accepted: "order.after s (accepted_events s es) = order.after s es"
proof (induction es arbitrary: s)
  case (Cons e es)
  show ?case
  proof (cases "fst (snd (apply_event s e))")
    case True
    with Cons show ?thesis by (auto simp: Let_def split: prod.splits)
  next
    case False
    with Cons order.invalid_keeps [OF False] show ?thesis by (auto simp: Let_def split: prod.splits)
  qed
qed simp

text \<open>The accepted histories that lead to each state.\<close>

definition opened :: "nat \<Rightarrow> order_event_type list" where
  "opened j = replicate j ORDER_SUBMITTED @ [ORDER_ACCEPTED]"

fun history_of :: "order_state \<Rightarrow> order_event_type list \<Rightarrow> bool" where
  "history_of NEW es = (\<exists>j. es = replicate j ORDER_SUBMITTED)"
| "history_of ACCEPTED es = (\<exists>j. es = opened j)"
| "history_of PARTIALLY_FILLED es = (\<exists>j k. es = opened j @ replicate (Suc k) PARTIAL_FILL)"
| "history_of FILLED es = (\<exists>j k. es = opened j @ replicate k PARTIAL_FILL @ [FULL_FILL])"
| "history_of CANCEL_PENDING es = (\<exists>j k. es = opened j @ replicate k PARTIAL_FILL @ [CANCEL_REQUESTED])"
| "history_of CANCELLED es = (\<exists>j k. es = opened j @ replicate k PARTIAL_FILL @ [CANCEL_REQUESTED, CANCEL_CONFIRMED])"
| "history_of REJECTED es = (\<exists>j. es = replicate j ORDER_SUBMITTED @ [REJECT] \<or> es = opened j @ [REJECT])"

lemma replicate_snoc: "replicate n x @ [x] = replicate (Suc n) x"
  by (simp add: replicate_append_same)

lemma history_open:
  "s \<in> {ACCEPTED, PARTIALLY_FILLED} \<Longrightarrow> history_of s es \<Longrightarrow> \<exists>j k. es = opened j @ replicate k PARTIAL_FILL"
  by (auto simp del: replicate.simps) (metis append_Nil2 replicate_0, metis)

lemma history_step:
  assumes "order_step s e t" and "history_of s es"
  shows "history_of t (es @ [e])"
  using assms
proof (cases rule: order_step.cases)
  case submitted
  then obtain j where "es = replicate j ORDER_SUBMITTED" using assms(2) by auto
  then have "es @ [e] = replicate (Suc j) ORDER_SUBMITTED" using submitted replicate_snoc by metis
  then show ?thesis using submitted by (auto simp del: replicate.simps)
next
  case accepted
  then show ?thesis using assms(2) by (auto simp: opened_def)
next
  case partial
  then obtain j k where "es = opened j @ replicate k PARTIAL_FILL" using history_open assms(2) by blast
  then have "es @ [e] = opened j @ replicate (Suc k) PARTIAL_FILL" using partial replicate_snoc by (metis append_assoc)
  then show ?thesis using partial by (auto simp del: replicate.simps)
next
  case full
  then show ?thesis using history_open assms(2) by fastforce
next
  case cancel_req
  then show ?thesis using history_open assms(2) by fastforce
next
  case cancel_conf
  then show ?thesis using assms(2) by auto
next
  case rejected
  then show ?thesis using assms(2) by auto
qed

lemma accepted_history: "history_of (order.after NEW es) (accepted_events NEW es)"
proof (induction es rule: rev_induct)
  case Nil
  show ?case by simp
next
  case (snoc e es)
  let ?s = "order.after NEW es"
  show ?case
  proof (cases "fst (snd (apply_event ?s e))")
    case True
    then have "order_step ?s e (fst (apply_event ?s e))" by (simp add: apply_event_step)
    from history_step [OF this snoc] have "history_of (fst (apply_event ?s e)) (accepted_events NEW es @ [e])" .
    with True show ?thesis by (simp add: accepted_snoc order.after_append)
  next
    case False
    with snoc order.invalid_keeps [OF False] show ?thesis by (simp add: accepted_snoc order.after_append)
  qed
qed

lemma after_replicate:
  "fst (apply_event s e) = s \<Longrightarrow> order.after s (replicate n e) = s"
  by (induction n) simp_all

lemma after_opened: "order.after NEW (opened j) = ACCEPTED"
  by (simp add: opened_def order.after_append after_replicate apply_event_def)

lemma after_filling: "order.after ACCEPTED (replicate k PARTIAL_FILL) = (if k = 0 then ACCEPTED else PARTIALLY_FILLED)"
  by (cases k) (simp_all add: after_replicate apply_event_def)

lemma history_state: "history_of s es \<Longrightarrow> order.after NEW es = s"
  by (cases s) (auto simp: order.after_append after_opened after_filling after_replicate apply_event_def
      simp del: replicate.simps)

section \<open>Properties\<close>

text \<open>
  C6. Orders do not interfere, and the audit log reconstructs each of them: after any interleaving of
  events of many orders, the rows that \<open>replay_order\<close> returns for an order are exactly the rows its own
  events produce when played alone from the state NEW, the current state of the order is the state after
  its own events, and the log holds one row per event, valid or not.
\<close>

theorem audit_log_reconstructs_orders:
  assumes "sim_states sim0 = Map.empty" and "audit_log sim0 = []" and "sim_apply_all sim0 is = (sim, blobs)"
  shows "replay_order sim oid = order_rows NEW (own_inputs oid is) \<and>
     sim_state sim oid = order.after NEW (map (\<lambda>i. fst (snd i)) (own_inputs oid is)) \<and>
     audit_log sim = map Some blobs \<and> length blobs = length is"
proof -
  have "sim_state sim0 oid = NEW" "replay_order sim0 oid = []"
    using assms(1,2) by (simp_all add: sim_state_def replay_order_def List.map_filter_def)
  then show ?thesis
    using apply_all_isolated [of sim0 "is" oid] apply_all_log [of sim0 "is"] assms(2,3) by simp
qed

theorem audit_log_reconstructs_orders_witness:
  "let is = [(''a'', ORDER_SUBMITTED, ''t0'', 0), (''b'', REJECT, ''t1'', 1), (''a'', ORDER_ACCEPTED, ''t2'', 0)];
       sim = fst (sim_apply_all \<lparr>sim_states = Map.empty, audit_log = []\<rparr> is)
   in sim_state sim ''a'' = ACCEPTED \<and> length (replay_order sim ''a'') = 2"
proof -
  let ?is = "[(''a'', ORDER_SUBMITTED, ''t0'', 0), (''b'', REJECT, ''t1'', 1), (''a'', ORDER_ACCEPTED, ''t2'', 0)] :: order_input list"
  let ?s = "\<lparr>sim_states = Map.empty, audit_log = []\<rparr> :: simulator"
  show ?thesis
    using audit_log_reconstructs_orders [of ?s ?is "fst (sim_apply_all ?s ?is)" "snd (sim_apply_all ?s ?is)" "''a''"]
    by (simp add: own_inputs_def apply_event_def Let_def)
qed

text \<open>
  What a lifecycle can look like: whatever events are thrown at an order, the ones the machine
  accepted form the history of the state it reached. In particular an order is filled exactly
  after submissions, one acceptance, any number of partial fills and one full fill, and it never
  leaves a terminal state.
\<close>

theorem order_histories:
  "history_of s (accepted_events NEW es) \<longleftrightarrow> order.after NEW es = s"
  using accepted_history [of es] history_state [of s "accepted_events NEW es"] after_accepted [of NEW es] by auto

text \<open>
  A terminal order (filled, cancelled or rejected) keeps its state through every further sequence of
  events of any orders.
\<close>

theorem terminal_orders_frozen:
  assumes "terminal (sim_state sim oid)"
  shows "sim_state (fst (sim_apply_all sim is)) oid = sim_state sim oid"
  using apply_all_isolated [of sim "is" oid] order.final_absorbing [OF assms] by simp

theorem terminal_orders_frozen_witness:
  "sim_state (fst (sim_apply_all \<lparr>sim_states = [''a'' \<mapsto> FILLED], audit_log = []\<rparr>
     [(''a'', CANCEL_REQUESTED, ''t'', 0), (''a'', REJECT, ''t'', 0)])) ''a'' = FILLED"
  using terminal_orders_frozen [of "\<lparr>sim_states = [''a'' \<mapsto> FILLED], audit_log = []\<rparr>" "''a''"
      "[(''a'', CANCEL_REQUESTED, ''t'', 0), (''a'', REJECT, ''t'', 0)]"]
  by (simp add: sim_state_def terminal_def)

text \<open>
  A scenario run always restarts its order: from any simulator, a known scenario returns the state
  and the number of refused events of its script played from NEW, and one row per script event; an
  unknown name raises \<open>ValueError\<close> before any row is written.
\<close>

theorem run_scenario_result:
  "case map_of scenarios name of
     None \<Rightarrow> (\<exists>msg. run_scenario clock sim name order_id = Inl (ValueError msg))
   | Some script \<Rightarrow>
       (\<exists>r sim'. run_scenario clock sim name order_id = Inr (r, sim') \<and>
          sr_final_state r = order.after NEW script \<and> sr_invalid_transition_count r = refused NEW script \<and>
          length (sr_events r) = length script \<and> audit_log sim' = audit_log sim @ map Some (sr_events r))"
proof (cases "map_of scenarios name")
  case None
  then show ?thesis by (simp add: run_scenario_def)
next
  case (Some script)
  let ?oid = "case order_id of None \<Rightarrow> ''ORD-'' @ name | Some s \<Rightarrow> if s = [] then ''ORD-'' @ name else s"
  let ?s1 = "sim\<lparr>sim_states := (sim_states sim)(?oid \<mapsto> NEW)\<rparr>"
  let ?is = "map (\<lambda>(n, et). (?oid, et, clock n)) (enumerate 0 script)"
  have own: "\<forall>i\<in>set ?is. fst i = ?oid" by auto
  have ev: "map (\<lambda>i. fst (snd i)) ?is = script"
    by (simp add: case_prod_unfold comp_def)
  have st: "sim_state ?s1 ?oid = NEW" by (simp add: sim_state_def)
  have "own_inputs ?oid ?is = ?is" using own by (simp add: own_inputs_def)
  then have fin: "sim_state (fst (sim_apply_all ?s1 ?is)) ?oid = order.after NEW script"
    using apply_all_isolated [of ?s1 ?is ?oid] st ev by simp
  have rows: "snd (sim_apply_all ?s1 ?is) = order_rows NEW ?is" using apply_all_rows [OF own, of ?s1] st by simp
  have inv: "length (filter (\<lambda>b. \<not> truthy (dict_get b ''valid'')) (order_rows NEW ?is)) = refused NEW script"
    unfolding refused_rows ev ..
  show ?thesis
    using Some fin rows inv apply_all_log [of ?s1 ?is]
    by (auto simp: run_scenario_def Let_def split_beta)
qed

end
