(* ===== verification/Canonical_State.thy ===== *)
theory Canonical_State
  imports Py_Values
begin

text \<open>
  The canonical endpoint state machine, \<open>platform_core/state_machine.py\<close>: the five canonical states, the
  projection of scenario states, the explicit transition rules, the derivation of canonical
  transitions from events, signals and scenario transitions, deduplication and the state path.

  Generated identifiers and time stamps of a transition are left out, and so are its fields with a
  fixed text; \<open>details\<close> is kept as the scenario pair when there is one.
\<close>

section \<open>States and rules\<close>

datatype canonical_state = NORMAL | SUSPICIOUS | DEGRADED | BROKEN | RECOVERING

definition scenario_to_canonical :: "(string \<times> canonical_state) list" where
  "scenario_to_canonical =
     [(''healthy_browser_path'', NORMAL), (''proxy_drift_detected'', SUSPICIOUS),
      (''browser_path_failure_suspected'', DEGRADED), (''proxy_path_failure_confirmed'', BROKEN),
      (''remediation_preview_ready'', BROKEN), (''resolved'', RECOVERING), (''unresolved'', BROKEN)]"

record canonical_rule =
  cr_rule_id :: string
  cr_from_state :: canonical_state
  cr_to_state :: canonical_state
  cr_trigger_events :: "string list"
  cr_trigger_signals :: "string list"
  cr_confidence :: rat

definition canonical_transition_rules :: "canonical_rule list" where
  "canonical_transition_rules =
     [\<lparr>cr_rule_id = ''canonical_proxy_drift'', cr_from_state = NORMAL, cr_to_state = SUSPICIOUS,
       cr_trigger_events = [''wininet_proxy_changed'', ''wininet_proxy_enabled'', ''localhost_proxy_detected''],
       cr_trigger_signals = [], cr_confidence = 72/100\<rparr>,
      \<lparr>cr_rule_id = ''canonical_path_degraded'', cr_from_state = SUSPICIOUS, cr_to_state = DEGRADED,
       cr_trigger_events = [''ping_ok'', ''dns_ok'', ''tcp443_ok'', ''browser_https_failed'', ''wininet_proxy_enabled''],
       cr_trigger_signals = [], cr_confidence = 84/100\<rparr>,
      \<lparr>cr_rule_id = ''canonical_path_broken'', cr_from_state = DEGRADED, cr_to_state = BROKEN,
       cr_trigger_events = [''proxy_bypass_succeeded'', ''proxied_path_failed''],
       cr_trigger_signals = [], cr_confidence = 92/100\<rparr>,
      \<lparr>cr_rule_id = ''canonical_recovering'', cr_from_state = BROKEN, cr_to_state = RECOVERING,
       cr_trigger_events = [], cr_trigger_signals = [''endpoint_health_restored'', ''proxy_restored''],
       cr_confidence = 88/100\<rparr>,
      \<lparr>cr_rule_id = ''canonical_restored'', cr_from_state = RECOVERING, cr_to_state = NORMAL,
       cr_trigger_events = [], cr_trigger_signals = [''browser_https_ok'', ''wininet_proxy_disabled''],
       cr_confidence = 90/100\<rparr>]"

definition map_scenario_state :: "string \<Rightarrow> canonical_state" where
  "map_scenario_state scenario_state =
     (case map_of scenario_to_canonical scenario_state of None \<Rightarrow> SUSPICIOUS | Some s \<Rightarrow> s)"

definition event_category :: "string \<Rightarrow> string" where
  "event_category event_type =
     (if py_endswith event_type ''_ok'' then ''connectivity_positive''
      else if py_endswith event_type ''_failed'' \<or> py_endswith event_type ''_failure'' then ''connectivity_failure''
      else if py_in ''proxy'' event_type then ''proxy''
      else if py_startswith event_type ''browser_'' then ''browser''
      else if py_startswith event_type ''dns_'' \<or> py_startswith event_type ''tcp'' then ''network_transport''
      else if py_startswith event_type ''policy_'' then ''policy''
      else ''signal'')"

section \<open>Transitions\<close>

record endpoint_event =
  ee_id :: string
  ee_event_type :: string

record scenario_transition =
  st_from_state :: string
  st_to_state :: string
  st_event_ids :: "string list"
  st_rule_id :: string
  st_confidence :: rat

record canonical_transition =
  ct_from_state :: canonical_state
  ct_to_state :: canonical_state
  ct_rule_id :: string
  ct_scenario_rule_id :: string
  ct_event_ids :: "string list"
  ct_confidence :: rat
  ct_scenario_pair :: "(string \<times> string) option"

definition event_ids_for_types :: "string list \<Rightarrow> endpoint_event list \<Rightarrow> string list" where
  "event_ids_for_types required events =
     map ee_id (filter (\<lambda>e. ee_event_type e \<in> set required) events)"

definition has_signal :: "pydict \<Rightarrow> string \<Rightarrow> bool" where
  "has_signal signals name =
     (case dict_get signals name of
        PyNone \<Rightarrow> False
      | PyBool b \<Rightarrow> b
      | PyInt i \<Rightarrow> i \<noteq> 0
      | PyFloat v r \<Rightarrow> v \<noteq> 0
      | v \<Rightarrow> truthy v)"

definition rule_applies :: "endpoint_event list \<Rightarrow> pydict \<Rightarrow> canonical_rule \<Rightarrow> bool" where
  "rule_applies events signals rl \<longleftrightarrow>
     set (cr_trigger_events rl) \<subseteq> ee_event_type ` set events \<and>
     list_all (has_signal signals) (cr_trigger_signals rl)"

fun rules_loop ::
  "endpoint_event list \<Rightarrow> pydict \<Rightarrow> canonical_state \<Rightarrow> canonical_rule list \<Rightarrow> canonical_transition list \<times> canonical_state" where
  "rules_loop events signals current [] = ([], current)"
| "rules_loop events signals current (rl # rs) =
     (if \<not> rule_applies events signals rl \<or> current \<noteq> cr_from_state rl then rules_loop events signals current rs
      else let (out, final) = rules_loop events signals (cr_to_state rl) rs
           in (\<lparr>ct_from_state = cr_from_state rl, ct_to_state = cr_to_state rl, ct_rule_id = cr_rule_id rl,
                ct_scenario_rule_id = [], ct_event_ids = event_ids_for_types (cr_trigger_events rl) events,
                ct_confidence = cr_confidence rl, ct_scenario_pair = None\<rparr> # out, final))"

text \<open>\<open>seen\<close> tells whether the list \<open>canonical\<close> is already non-empty.\<close>

fun scenario_loop :: "bool \<Rightarrow> canonical_state \<Rightarrow> scenario_transition list \<Rightarrow> canonical_transition list" where
  "scenario_loop seen current [] = []"
| "scenario_loop seen current (t # ts) =
     (let mapped_from = map_scenario_state (st_from_state t); mapped_to = map_scenario_state (st_to_state t)
      in if mapped_to = current \<or> (mapped_from \<noteq> current \<and> seen) then scenario_loop seen current ts
         else \<lparr>ct_from_state = current, ct_to_state = mapped_to,
               ct_rule_id = ''canonical_map_'' @ (if st_rule_id t = [] then ''scenario'' else st_rule_id t),
               ct_scenario_rule_id = st_rule_id t, ct_event_ids = st_event_ids t, ct_confidence = st_confidence t,
               ct_scenario_pair = Some (st_from_state t, st_to_state t)\<rparr> # scenario_loop True mapped_to ts)"

definition transition_key :: "canonical_transition \<Rightarrow> canonical_state \<times> canonical_state \<times> string" where
  "transition_key t = (ct_from_state t, ct_to_state t, ct_rule_id t)"

definition dedupe_canonical_transitions :: "canonical_transition list \<Rightarrow> canonical_transition list" where
  "dedupe_canonical_transitions ts = dedupe_by transition_key [] ts"

definition raw_canonical_transitions ::
  "scenario_transition list \<Rightarrow> endpoint_event list \<Rightarrow> pydict \<Rightarrow> canonical_transition list" where
  "raw_canonical_transitions scenario events signals =
     (let (explicit, current) = rules_loop events signals NORMAL canonical_transition_rules
      in explicit @ scenario_loop (explicit \<noteq> []) current scenario)"

definition infer_canonical_transitions ::
  "scenario_transition list \<Rightarrow> endpoint_event list \<Rightarrow> pydict \<Rightarrow> canonical_transition list" where
  "infer_canonical_transitions scenario events signals =
     dedupe_canonical_transitions (raw_canonical_transitions scenario events signals)"

fun path_loop :: "canonical_state \<Rightarrow> canonical_transition list \<Rightarrow> canonical_state list" where
  "path_loop prev [] = []"
| "path_loop prev (t # ts) =
     (if prev \<noteq> ct_to_state t then ct_to_state t # path_loop (ct_to_state t) ts else path_loop prev ts)"

definition canonical_state_path :: "canonical_transition list \<Rightarrow> canonical_state list" where
  "canonical_state_path ts =
     (case ts of [] \<Rightarrow> [NORMAL] | t # _ \<Rightarrow> ct_from_state t # path_loop (ct_from_state t) ts)"

section \<open>Chains\<close>

text \<open>A chain of proper transitions from a state, and the state it ends in.\<close>

fun chained :: "canonical_state \<Rightarrow> canonical_transition list \<Rightarrow> bool" where
  "chained s [] \<longleftrightarrow> True"
| "chained s (x # xs) \<longleftrightarrow> ct_from_state x = s \<and> ct_to_state x \<noteq> s \<and> chained (ct_to_state x) xs"

definition end_state :: "canonical_state \<Rightarrow> canonical_transition list \<Rightarrow> canonical_state" where
  "end_state s xs = foldl (\<lambda>_ x. ct_to_state x) s xs"

lemma chained_append: "chained s (xs @ ys) \<longleftrightarrow> chained s xs \<and> chained (end_state s xs) ys"
  by (induction xs arbitrary: s) (auto simp: end_state_def)

lemma rules_loop_chained:
  "\<forall>rl\<in>set rs. cr_from_state rl \<noteq> cr_to_state rl \<Longrightarrow> rules_loop events signals s rs = (out, t) \<Longrightarrow>
     chained s out \<and> end_state s out = t"
proof (induction rs arbitrary: s out t)
  case (Cons rl rs)
  show ?case
  proof (cases "\<not> rule_applies events signals rl \<or> s \<noteq> cr_from_state rl")
    case True
    with Cons show ?thesis by simp
  next
    case False
    obtain out1 where r: "rules_loop events signals (cr_to_state rl) rs = (out1, t)"
      and o: "map ct_to_state out = cr_to_state rl # map ct_to_state out1" "tl out = out1" "ct_from_state (hd out) = s" "out \<noteq> []"
      using Cons.prems(2) False by (auto simp: Let_def split: prod.splits)
    have "chained (cr_to_state rl) out1 \<and> end_state (cr_to_state rl) out1 = t"
      using Cons.IH [OF _ r] Cons.prems(1) by simp
    with o False Cons.prems(1) show ?thesis by (cases out) (auto simp: end_state_def)
  qed
qed (simp add: end_state_def)

lemma scenario_loop_chained: "chained s (scenario_loop seen s ts)"
  by (induction ts arbitrary: seen s) (simp_all add: Let_def)

lemma rules_proper: "rl \<in> set canonical_transition_rules \<Longrightarrow> cr_from_state rl \<noteq> cr_to_state rl"
  by (auto simp: canonical_transition_rules_def)

lemma raw_chained: "chained NORMAL (raw_canonical_transitions scenario events signals)"
proof -
  obtain out t where r: "rules_loop events signals NORMAL canonical_transition_rules = (out, t)"
    by (cases "rules_loop events signals NORMAL canonical_transition_rules")
  have "chained NORMAL out \<and> end_state NORMAL out = t" using rules_loop_chained [OF _ r] rules_proper by blast
  then show ?thesis by (simp add: raw_canonical_transitions_def r chained_append scenario_loop_chained)
qed

lemma chained_path: "chained s ts \<Longrightarrow> path_loop s ts = map ct_to_state ts"
  by (induction ts arbitrary: s) auto

lemma subseq_set: "subseq xs ys \<Longrightarrow> set xs \<subseteq> set ys"
  by (induction rule: list_emb.induct) auto

lemma subseq_imp_distinct: "subseq xs ys \<Longrightarrow> distinct ys \<Longrightarrow> distinct xs"
proof (induction rule: list_emb.induct)
  case (list_emb_Cons2 x y xs ys)
  then show ?case using subseq_set [of xs ys] by auto
qed auto

lemma rules_loop_ids:
  "rules_loop events signals s rs = (out, t) \<Longrightarrow> subseq (map ct_rule_id out) (map cr_rule_id rs)"
  by (induction rs arbitrary: s out t) (auto simp: Let_def split: if_splits prod.splits)

lemma scenario_loop_ids:
  "subseq (map ct_rule_id (scenario_loop seen s ts))
     (map (\<lambda>t. ''canonical_map_'' @ (if st_rule_id t = [] then ''scenario'' else st_rule_id t)) ts)"
  by (induction ts arbitrary: seen s) (auto simp: Let_def)

lemma explicit_ids_not_mapped: "r \<in> set (map cr_rule_id canonical_transition_rules) \<Longrightarrow> \<not> prefix ''canonical_map_'' r"
  by (auto simp: canonical_transition_rules_def)

lemma explicit_ids_distinct: "distinct (map cr_rule_id canonical_transition_rules)"
  by (simp add: canonical_transition_rules_def)

lemma raw_ids_distinct:
  assumes "distinct (map st_rule_id scenario)" and "[] \<notin> set (map st_rule_id scenario)"
  shows "distinct (map ct_rule_id (raw_canonical_transitions scenario events signals))"
proof -
  obtain out t where r: "rules_loop events signals NORMAL canonical_transition_rules = (out, t)"
    by (cases "rules_loop events signals NORMAL canonical_transition_rules")
  let ?sc = "scenario_loop (out \<noteq> []) t scenario"
  let ?f = "\<lambda>t. ''canonical_map_'' @ (if st_rule_id t = [] then ''scenario'' else st_rule_id t)"
  note ids = rules_loop_ids [OF r] scenario_loop_ids [of "out \<noteq> []" t scenario]
  have "map ?f scenario = map (\<lambda>x. ''canonical_map_'' @ x) (map st_rule_id scenario)"
    using assms(2) by (auto simp: image_iff)
  then have "distinct (map ?f scenario)"
    using assms(1) by (simp only: distinct_map) (simp add: inj_on_def)
  then have d2: "distinct (map ct_rule_id ?sc)" using ids(2) subseq_imp_distinct by blast
  have d1: "distinct (map ct_rule_id out)" using explicit_ids_distinct ids(1) subseq_imp_distinct by blast
  have "set (map ct_rule_id out) \<subseteq> set (map cr_rule_id canonical_transition_rules)"
    using subseq_set [OF ids(1)] .
  moreover have "\<forall>x\<in>set (map ct_rule_id ?sc). prefix ''canonical_map_'' x"
  proof
    fix x assume "x \<in> set (map ct_rule_id ?sc)"
    then have "x \<in> set (map ?f scenario)" using subseq_set [OF ids(2)] by blast
    then obtain y where "x = ''canonical_map_'' @ y" unfolding set_map by blast
    then show "prefix ''canonical_map_'' x" by (simp only: prefixI)
  qed
  ultimately have "set (map ct_rule_id out) \<inter> set (map ct_rule_id ?sc) = {}"
    using explicit_ids_not_mapped by blast
  with d1 d2 show ?thesis using r by (simp add: raw_canonical_transitions_def)
qed

lemma dedupe_distinct_ids:
  "distinct (map ct_rule_id ts) \<Longrightarrow> dedupe_canonical_transitions ts = ts"
  unfolding dedupe_canonical_transitions_def
  by (rule dedupe_by_id) (auto simp: transition_key_def distinct_map inj_on_def)

section \<open>Properties\<close>

text \<open>
  The inferred canonical transitions form a connected path from NORMAL: when the scenario transitions
  carry pairwise different, non-empty rule names (so that deduplication has nothing to drop), each
  transition starts where the previous one ended and changes the state, and the state path is
  exactly NORMAL followed by the target of each transition.
\<close>

theorem canonical_transitions_connected:
  assumes "distinct (map st_rule_id scenario)" and "[] \<notin> set (map st_rule_id scenario)"
  shows "chained NORMAL (infer_canonical_transitions scenario events signals) \<and>
     canonical_state_path (infer_canonical_transitions scenario events signals) =
       NORMAL # map ct_to_state (infer_canonical_transitions scenario events signals)"
proof -
  let ?ts = "raw_canonical_transitions scenario events signals"
  have i: "infer_canonical_transitions scenario events signals = ?ts"
    by (simp add: infer_canonical_transitions_def dedupe_distinct_ids raw_ids_distinct [OF assms])
  have c: "chained NORMAL ?ts" by (rule raw_chained)
  have "canonical_state_path ?ts = NORMAL # path_loop NORMAL ?ts"
    using c by (cases ?ts) (auto simp: canonical_state_path_def)
  then show ?thesis using i c chained_path [OF c] by simp
qed

theorem canonical_transitions_connected_witness:
  "canonical_state_path (infer_canonical_transitions
     [\<lparr>st_from_state = ''proxy_drift_detected'', st_to_state = ''unresolved'', st_event_ids = [], st_rule_id = ''r1'', st_confidence = 1/2\<rparr>]
     [\<lparr>ee_id = ''1'', ee_event_type = ''wininet_proxy_changed''\<rparr>, \<lparr>ee_id = ''2'', ee_event_type = ''wininet_proxy_enabled''\<rparr>,
      \<lparr>ee_id = ''3'', ee_event_type = ''localhost_proxy_detected''\<rparr>] []) = [NORMAL, SUSPICIOUS, BROKEN]"
proof -
  let ?s = "[\<lparr>st_from_state = ''proxy_drift_detected'', st_to_state = ''unresolved'', st_event_ids = [], st_rule_id = ''r1'', st_confidence = 1/2\<rparr>]"
  let ?e = "[\<lparr>ee_id = ''1'', ee_event_type = ''wininet_proxy_changed''\<rparr>, \<lparr>ee_id = ''2'', ee_event_type = ''wininet_proxy_enabled''\<rparr>,
      \<lparr>ee_id = ''3'', ee_event_type = ''localhost_proxy_detected''\<rparr>]"
  have "map ct_to_state (infer_canonical_transitions ?s ?e []) = [SUSPICIOUS, BROKEN]" by code_simp
  then show ?thesis using canonical_transitions_connected [of ?s ?e "[]"] by simp
qed

end
