(* ===== verification/Audit_Chain.thy ===== *)
theory Audit_Chain
  imports Sha256
begin

text \<open>
  The hash-chained audit trail: \<open>src/platform_core/governance/chain_of_custody.py\<close> and
  \<open>src/platform_core/audit/{writer,tip_anchor,custody,schema,reader,paths}.py\<close>.

  An audit file is the list of its lines: blank, not JSON, or the value its JSON text denotes; the
  line a record is written as denotes that record's dictionary. The tip anchor file is the
  dictionary it holds (\<open>None\<close> when it is missing or not a JSON object). The random identifier, the clock
  and whether the operating system lets the tip file be written are parameters. The lock that
  serialises writers makes an append one step.

  The lemmas show that appending keeps the chain verifiable. The binding property rests on the
  locale \<open>hex_digest\<close>: it does not assume that SHA-256 has no collisions, it produces the collision.
\<close>

section \<open>The chain\<close>

definition canonical_json :: "pydict \<Rightarrow> string" where
  "canonical_json d = json_dumps (PyDict d)"

definition hash_chain_excluded_fields :: "string list" where
  "hash_chain_excluded_fields = [''previous_hash'', ''current_hash'', ''signature_status'']"

definition audit_hash_body :: "pydict \<Rightarrow> pydict" where
  "audit_hash_body rec = filter (\<lambda>kv. fst kv \<notin> set hash_chain_excluded_fields) rec"

definition chain_hash :: "string \<Rightarrow> pydict \<Rightarrow> string" where
  "chain_hash previous_hash record_body = sha256_hexdigest (previous_hash @ ''|'' @ canonical_json record_body)"

fun verify_chain_loop :: "string \<Rightarrow> nat \<Rightarrow> pydict list \<Rightarrow> bool \<times> string" where
  "verify_chain_loop prev idx [] = (True, ''ok'')"
| "verify_chain_loop prev idx (rec # recs) =
     (let expected = chain_hash prev (audit_hash_body rec);
          current = py_str (dict_get_or rec ''current_hash'' (PyStr []))
      in if current \<noteq> expected then (False, ''chain break at index '' @ nat_str idx)
         else verify_chain_loop current (Suc idx) recs)"

definition verify_chain :: "pydict list \<Rightarrow> bool \<times> string" where
  "verify_chain records = verify_chain_loop ''genesis'' 0 records"

section \<open>Files\<close>

datatype audit_line = BlankLine | BadLine | JsonLine pyval

record audit_store =
  audit_path :: string
  audit_lines :: "audit_line list"
  tip_file :: "pydict option"

definition read_chain_tip :: "audit_line list \<Rightarrow> string py_result" where
  "read_chain_tip lns =
     (if lns = [] then Inr ''genesis''
      else case last lns of
             JsonLine (PyDict d) \<Rightarrow> Inr (py_str (py_or (dict_get d ''current_hash'') (PyStr ''genesis'')))
           | JsonLine v \<Rightarrow> Inl (no_attribute v ''get'')
           | _ \<Rightarrow> Inr ''genesis'')"

definition count_records :: "audit_line list \<Rightarrow> nat" where
  "count_records lns = length (filter (\<lambda>l. l \<noteq> BlankLine) lns)"

fun line_record :: "audit_line \<Rightarrow> pydict option" where
  "line_record (JsonLine (PyDict d)) = Some d"
| "line_record _ = None"

definition read_audit_records :: "audit_line list \<Rightarrow> pydict list" where
  "read_audit_records lns = List.map_filter line_record lns"

section \<open>Appending\<close>

definition audit_actions :: "string list" where
  "audit_actions =
     [''event_received'', ''evidence_attached'', ''hypothesis_created'', ''decision_created'', ''policy_evaluated'',
      ''remediation_previewed'', ''human_approval_requested'', ''human_approval_granted'', ''action_executed'',
      ''validation_completed'', ''rollback_completed'', ''outcome_recorded'', ''replay_certified'',
      ''stakeholder_resolved'', ''timing_evaluated'', ''coordination_status_set'', ''decision_context_built'']"

text \<open>The fields of \<open>AuditRecord\<close> in their order; the values a caller supplies are the arguments.\<close>

record audit_input =
  in_action_type :: string
  in_trace_id :: string
  in_decision_id :: string
  in_incident_id :: string
  in_actor :: string
  in_payload :: pydict

definition audit_record :: "string \<Rightarrow> string \<Rightarrow> audit_input \<Rightarrow> string \<Rightarrow> string \<Rightarrow> pydict" where
  "audit_record uid now i previous current =
     [(''audit_id'', PyStr uid), (''schema_version'', PyStr ''erp.audit.v1''), (''timestamp_utc'', PyStr now),
      (''action_type'', PyStr (in_action_type i)), (''trace_id'', PyStr (in_trace_id i)),
      (''decision_id'', PyStr (in_decision_id i)), (''incident_id'', PyStr (in_incident_id i)),
      (''actor'', PyStr (in_actor i)), (''payload'', PyDict (in_payload i)),
      (''previous_hash'', PyStr previous), (''current_hash'', PyStr current),
      (''signature_status'', PyStr ''hash_chained'')]"

definition build_tip_anchor :: "string \<Rightarrow> string \<Rightarrow> nat \<Rightarrow> string \<Rightarrow> pydict" where
  "build_tip_anchor now tip_hash record_count path =
     [(''schema_version'', PyStr ''audit_tip_anchor.v1''), (''anchored_at_utc'', PyStr now),
      (''audit_path'', PyStr path), (''tip_hash'', PyStr tip_hash), (''record_count'', PyInt (int record_count)),
      (''limitations'', PyList
        [PyStr (''Tip match proves consistency with a previously recorded chain tip '' @ em_dash @ '' not observation truth.''),
         PyStr ''Same-host tip files are not WORM; relocate or sign tips for stronger custody.''])]"

definition write_tip_anchor :: "bool \<Rightarrow> string \<Rightarrow> string \<Rightarrow> nat \<Rightarrow> audit_store \<Rightarrow> audit_store" where
  "write_tip_anchor tip_ok now tip_hash record_count st =
     (if tip_ok then st\<lparr>tip_file := Some (build_tip_anchor now tip_hash record_count (audit_path st))\<rparr> else st)"

definition append_audit ::
  "string \<Rightarrow> string \<Rightarrow> bool \<Rightarrow> audit_store \<Rightarrow> audit_input \<Rightarrow> bool \<Rightarrow> (pydict \<times> audit_store) py_result" where
  "append_audit uid now tip_ok st i write_tip =
     (if in_action_type i \<notin> set audit_actions then Inl (ValueError ''action_type'')
      else bind_r (read_chain_tip (audit_lines st)) (\<lambda>prev_hash.
        let record0 = audit_record uid now i prev_hash [];
            current_hash = chain_hash prev_hash (audit_hash_body record0);
            record1 = audit_record uid now i prev_hash current_hash;
            st1 = st\<lparr>audit_lines := audit_lines st @ [JsonLine (PyDict record1)]\<rparr>;
            st2 = (if write_tip then write_tip_anchor tip_ok now current_hash (count_records (audit_lines st1)) st1 else st1)
        in Inr (record1, st2)))"

text \<open>The random identifier, the clock and the fate of the tip file at each append.\<close>

record audit_call =
  ac_uid :: string
  ac_now :: string
  ac_tip_ok :: bool

section \<open>Verification with the tip anchor\<close>

definition actual_tip :: "pydict list \<Rightarrow> string" where
  "actual_tip records =
     (if records = [] then ''genesis''
      else py_str (py_or (dict_get (last records) ''current_hash'') (PyStr ''genesis'')))"

record tip_verdict =
  v_records :: nat
  v_chain_verified :: bool
  v_chain_message :: string
  v_actual_tip_hash :: string
  v_tip_present :: bool
  v_tip_match :: "bool option"
  v_tip_record_count_match :: "bool option"
  v_tip_message :: string
  v_verified :: bool

definition verify_audit_with_tip :: "audit_store \<Rightarrow> bool \<Rightarrow> tip_verdict py_result" where
  "verify_audit_with_tip st require_tip =
     (let records = read_audit_records (audit_lines st);
          (chain_ok, chain_msg) = (if records \<noteq> [] then verify_chain records else (True, ''empty_chain''));
          tip_hash = actual_tip records
      in case tip_file st of
           None \<Rightarrow>
             Inr \<lparr>v_records = length records, v_chain_verified = chain_ok, v_chain_message = chain_msg,
                  v_actual_tip_hash = tip_hash, v_tip_present = False, v_tip_match = None,
                  v_tip_record_count_match = None, v_tip_message = ''tip_anchor_missing'',
                  v_verified = (chain_ok \<and> \<not> require_tip)\<rparr>
         | Some tip \<Rightarrow>
             (let tip_match = (py_str (py_or (dict_get tip ''tip_hash'') (PyStr [])) = tip_hash)
              in case py_int (py_or (dict_get tip ''record_count'') (PyInt (-1))) of
                   None \<Rightarrow> Inl (ValueError ''record_count'')
                 | Some n \<Rightarrow>
                     (let count_match = (n = int (length records))
                      in Inr \<lparr>v_records = length records, v_chain_verified = chain_ok, v_chain_message = chain_msg,
                              v_actual_tip_hash = tip_hash, v_tip_present = True, v_tip_match = Some tip_match,
                              v_tip_record_count_match = Some count_match,
                              v_tip_message = (if tip_match \<and> count_match then ''tip_match''
                                               else if \<not> tip_match then ''tip_hash_mismatch''
                                               else ''tip_record_count_mismatch''),
                              v_verified = (chain_ok \<and> tip_match \<and> count_match)\<rparr>)))"

section \<open>Reading and custody events\<close>

definition validate_audit_record :: "pydict \<Rightarrow> bool" where
  "validate_audit_record rec =
     list_all (has_key rec) [''audit_id'', ''schema_version'', ''timestamp_utc'', ''action_type'']"

text \<open>\<open>rows[-limit:]\<close>: the last \<open>limit\<close> rows, all of them for \<open>limit = 0\<close>.\<close>

definition slice_tail :: "int \<Rightarrow> 'a list \<Rightarrow> 'a list" where
  "slice_tail limit rows =
     (if limit \<le> 0 then drop (nat (- limit)) rows else drop (length rows - nat limit) rows)"

definition read_audit_tail :: "audit_line list \<Rightarrow> int \<Rightarrow> pydict list" where
  "read_audit_tail lns limit = slice_tail limit (filter validate_audit_record (read_audit_records lns))"

definition read_audit_for_decision :: "audit_line list \<Rightarrow> string \<Rightarrow> pydict list" where
  "read_audit_for_decision lns decision_id =
     filter (\<lambda>r. dict_get r ''decision_id'' = PyStr decision_id) (read_audit_tail lns 10000)"

definition event_action :: "(string \<times> string) list" where
  "event_action =
     [(''guardian_check'', ''event_received''), (''guardian_preview'', ''remediation_previewed''),
      (''guardian_blocked'', ''policy_evaluated''), (''guardian_apply'', ''action_executed''),
      (''proxy_fix_preview'', ''remediation_previewed''), (''proxy_fix_blocked'', ''policy_evaluated''),
      (''proxy_fix_applied'', ''action_executed''), (''prefer_direct_applied'', ''action_executed''),
      (''prefer_direct_blocked'', ''policy_evaluated''), (''ensure_proxy_health'', ''validation_completed'')]"

definition map_event_to_action :: "string \<Rightarrow> string" where
  "map_event_to_action event = (case map_of event_action event of None \<Rightarrow> ''event_received'' | Some a \<Rightarrow> a)"

definition secret_keys :: "string set" where
  "secret_keys = {''confirm'', ''confirmation'', ''confirm_phrase'', ''token'', ''password''}"

record custody_input =
  cu_actor :: string
  cu_subsystem :: string
  cu_dry_run :: "bool option"
  cu_confirmation_supplied :: bool
  cu_before :: "pydict option"
  cu_after :: "pydict option"
  cu_outcome :: "string option"
  cu_limitations :: "string list"
  cu_extra :: pydict

definition custody_payload :: "string \<Rightarrow> custody_input \<Rightarrow> pydict" where
  "custody_payload event c =
     [(''subsystem'', PyStr (cu_subsystem c)), (''event'', PyStr event),
      (''confirmation_supplied'', PyBool (cu_confirmation_supplied c))]
     @ (case cu_dry_run c of None \<Rightarrow> [] | Some b \<Rightarrow> [(''dry_run'', PyBool b)])
     @ (case cu_before c of None \<Rightarrow> [] | Some d \<Rightarrow> [(''before'', PyDict d)])
     @ (case cu_after c of None \<Rightarrow> [] | Some d \<Rightarrow> [(''after'', PyDict d)])
     @ (case cu_outcome c of None \<Rightarrow> [] | Some x \<Rightarrow> [(''outcome'', PyStr x)])
     @ (if cu_limitations c \<noteq> [] then [(''limitations'', PyList (map PyStr (cu_limitations c)))] else [])
     @ (if cu_extra c \<noteq> [] then [(''detail'', PyDict (filter (\<lambda>kv. py_lower (fst kv) \<notin> secret_keys) (cu_extra c)))] else [])"

text \<open>
  \<open>append_custody_event\<close>; the result dictionary, and the store. The path in the result is the store's.
\<close>

definition append_custody_event ::
  "string \<Rightarrow> string \<Rightarrow> bool \<Rightarrow> audit_store \<Rightarrow> string \<Rightarrow> custody_input \<Rightarrow> bool \<Rightarrow> bool \<Rightarrow> (pydict \<times> audit_store) py_result" where
  "append_custody_event uid now tip_ok st event c write_tip soft_fail =
     (let action = map_event_to_action event;
          i = \<lparr>in_action_type = action, in_trace_id = [], in_decision_id = [], in_incident_id = [],
               in_actor = cu_actor c, in_payload = custody_payload event c\<rparr>
      in case append_audit uid now tip_ok st i write_tip of
           Inr (rec, st1) \<Rightarrow>
             Inr ([(''ok'', PyBool True), (''audit_id'', dict_get rec ''audit_id''),
                   (''action_type'', dict_get rec ''action_type''), (''current_hash'', dict_get rec ''current_hash''),
                   (''path'', PyStr (audit_path st))], st1)
         | Inl e \<Rightarrow>
             (if soft_fail
              then Inr ([(''ok'', PyBool False), (''error'', PyStr (error_text e)), (''path'', PyStr (audit_path st))], st)
              else Inl e))"

section \<open>Chains of records\<close>

definition body_text :: "pydict \<Rightarrow> string" where
  "body_text rec = canonical_json (audit_hash_body rec)"

definition stored_hash :: "pydict \<Rightarrow> string" where
  "stored_hash rec = py_str (dict_get_or rec ''current_hash'' (PyStr []))"

lemma chain_hash_link: "chain_hash prev (audit_hash_body rec) = sha256_hexdigest (sha.link prev (body_text rec))"
  by (simp add: chain_hash_def sha.link_def body_text_def)

lemma verify_loop_ok:
  "fst (verify_chain_loop prev idx recs) \<Longrightarrow>
     verify_chain_loop prev idx recs = (True, ''ok'') \<and>
     foldl (\<lambda>_ r. stored_hash r) prev recs = sha.chain_tip prev (map body_text recs)"
  by (induction prev idx recs rule: verify_chain_loop.induct)
     (auto simp: Let_def stored_hash_def chain_hash_link split: if_splits)

lemma foldl_last: "foldl (\<lambda>_ r. f r) a xs = (if xs = [] then a else f (last xs))"
  by (induction xs rule: rev_induct) auto

lemma verify_loop_append:
  "fst (verify_chain_loop prev idx recs) \<Longrightarrow>
   stored_hash rec = chain_hash (foldl (\<lambda>_ r. stored_hash r) prev recs) (audit_hash_body rec) \<Longrightarrow>
   verify_chain_loop prev idx (recs @ [rec]) = (True, ''ok'')"
  by (induction prev idx recs rule: verify_chain_loop.induct) (auto simp: Let_def stored_hash_def split: if_splits)

lemma verified_tip:
  assumes "fst (verify_chain recs)" and "recs \<noteq> []"
  shows "stored_hash (last recs) = sha.chain_tip ''genesis'' (map body_text recs)"
  using verify_loop_ok [of "''genesis''" 0 recs] assms by (simp add: verify_chain_def foldl_last)

text \<open>The text of a digest is never the text of a false value.\<close>

lemma falsy_text_short:
  assumes "\<not> truthy v" and "plain_float v"
  shows "length (py_str v) \<noteq> 64"
proof (cases v)
  case (PyInt i)
  then show ?thesis using assms by (simp add: int_str_def nat_str.simps)
qed (use assms in \<open>auto simp: join_with_def\<close>)

lemma actual_tip_verified:
  assumes "fst (verify_chain recs)" and "recs \<noteq> []" and "plain_float (dict_get (last recs) ''current_hash'')"
  shows "actual_tip recs = sha.chain_tip ''genesis'' (map body_text recs)"
proof -
  let ?v = "dict_get (last recs) ''current_hash''"
  have tip: "stored_hash (last recs) = sha.chain_tip ''genesis'' (map body_text recs)"
    using verified_tip [OF assms(1,2)] .
  then have len: "length (stored_hash (last recs)) = 64" using sha.chain_tip_length assms(2) by simp
  have key: "map_of (last recs) ''current_hash'' \<noteq> None" using len by (cases "map_of (last recs) ''current_hash''") (auto simp: stored_hash_def dict_get_or_def)
  then have sh: "stored_hash (last recs) = py_str ?v"
    by (auto simp: stored_hash_def dict_get_or_def dict_get_def)
  then have "truthy ?v" using falsy_text_short [OF _ assms(3)] len by auto
  then show ?thesis using assms(2) tip sh by (simp add: actual_tip_def py_or_def)
qed

section \<open>Files written by appends\<close>

inductive appended :: "audit_store \<Rightarrow> bool" where
  created: "audit_lines st = [] \<Longrightarrow> appended st"
| grown: "appended st \<Longrightarrow> append_audit uid now tip_ok st i write_tip = Inr (rec, st') \<Longrightarrow> appended st'"

definition good_records :: "pydict list \<Rightarrow> bool" where
  "good_records recs \<longleftrightarrow> verify_chain recs = (True, ''ok'') \<and>
     (\<forall>r\<in>set recs. \<exists>h. map_of r ''current_hash'' = Some (PyStr h) \<and> h \<noteq> [])"

definition record_line :: "pydict \<Rightarrow> audit_line" where
  "record_line rec = JsonLine (PyDict rec)"

lemma read_record_lines: "read_audit_records (map record_line recs) = recs"
  by (induction recs) (simp_all add: read_audit_records_def List.map_filter_def record_line_def)

lemma count_record_lines: "count_records (map record_line recs) = length recs"
  by (simp add: count_records_def record_line_def)

lemma tip_of_good:
  assumes "good_records recs"
  shows "read_chain_tip (map record_line recs) = Inr (foldl (\<lambda>_ r. stored_hash r) ''genesis'' recs)"
proof (cases "recs = []")
  case True
  then show ?thesis by (simp add: read_chain_tip_def)
next
  case False
  then have "\<exists>h. map_of (last recs) ''current_hash'' = Some (PyStr h) \<and> h \<noteq> []"
    using assms unfolding good_records_def by (metis last_in_set)
  with False show ?thesis
    by (auto simp: read_chain_tip_def record_line_def last_map foldl_last stored_hash_def dict_get_or_def dict_get_def py_or_def)
qed

lemma record_body: "audit_hash_body (audit_record uid now i p c) = audit_hash_body (audit_record uid now i p' c')"
  by (simp add: audit_hash_body_def audit_record_def hash_chain_excluded_fields_def)

lemma record_stored_hash: "stored_hash (audit_record uid now i p c) = c"
  by (simp add: stored_hash_def audit_record_def dict_get_or_def)

lemma append_good:
  assumes "audit_lines st = map record_line recs" and "good_records recs"
    and "append_audit uid now tip_ok st i write_tip = Inr (rec, st')"
  shows "audit_lines st' = map record_line (recs @ [rec]) \<and> good_records (recs @ [rec]) \<and>
     audit_path st' = audit_path st \<and>
     (write_tip \<and> tip_ok \<longrightarrow> tip_file st' = Some (build_tip_anchor now (stored_hash rec) (Suc (length recs)) (audit_path st)))"
proof -
  let ?p = "foldl (\<lambda>_ r. stored_hash r) ''genesis'' recs"
  let ?h = "chain_hash ?p (audit_hash_body (audit_record uid now i ?p []))"
  have r: "rec = audit_record uid now i ?p ?h"
    using assms(3) tip_of_good [OF assms(2)] by (auto simp: append_audit_def assms(1) Let_def split: if_splits)
  have h: "stored_hash rec = chain_hash ?p (audit_hash_body rec)"
    unfolding r record_stored_hash using record_body by metis
  have "length ?h = 64" unfolding chain_hash_def by (rule sha.digest_length)
  then have "?h \<noteq> []" by auto
  then have key: "map_of rec ''current_hash'' = Some (PyStr ?h) \<and> ?h \<noteq> []"
    unfolding r by (simp add: audit_record_def)
  have "verify_chain (recs @ [rec]) = (True, ''ok'')"
    using assms(2) verify_loop_append [OF _ h, of 0] by (simp add: good_records_def verify_chain_def)
  with assms(2) key have g: "good_records (recs @ [rec])" by (auto simp: good_records_def)
  have l: "audit_lines st' = audit_lines st @ [record_line rec]"
    and path: "audit_path st' = audit_path st"
    and t: "write_tip \<and> tip_ok \<longrightarrow>
       tip_file st' = Some (build_tip_anchor now ?h (count_records (audit_lines st @ [record_line rec])) (audit_path st))"
    using assms(3) tip_of_good [OF assms(2)] r
    by (auto simp: append_audit_def assms(1) Let_def record_line_def write_tip_anchor_def split: if_splits)
  have "count_records (audit_lines st @ [record_line rec]) = Suc (length recs)"
    using count_record_lines [of "recs @ [rec]"] assms(1) by simp
  then show ?thesis using l g path t assms(1) r record_stored_hash by simp
qed

lemma appended_good: "appended st \<Longrightarrow> \<exists>recs. audit_lines st = map record_line recs \<and> good_records recs"
proof (induction rule: appended.induct)
  case (created st)
  then show ?case by (auto simp: good_records_def verify_chain_def)
next
  case (grown st uid now tip_ok i write_tip rec st')
  then obtain recs where "audit_lines st = map record_line recs" "good_records recs" by blast
  from append_good [OF this grown(2)] show ?case by blast
qed

lemma good_actual_tip:
  assumes "good_records recs" and "recs \<noteq> []"
  shows "actual_tip recs = stored_hash (last recs)"
proof -
  obtain h where "map_of (last recs) ''current_hash'' = Some (PyStr h)" "h \<noteq> []"
    using assms unfolding good_records_def by (metis last_in_set)
  then show ?thesis using assms(2) by (simp add: actual_tip_def stored_hash_def dict_get_or_def dict_get_def py_or_def)
qed

lemma tip_anchor_fields:
  "dict_get (build_tip_anchor now h n path) ''tip_hash'' = PyStr h"
  "dict_get (build_tip_anchor now h n path) ''record_count'' = PyInt (int n)"
  by (simp_all add: build_tip_anchor_def dict_get_def)

text \<open>A record is linked when its stored hash is that of its body chained to the stored hash before it.\<close>

definition linked_at :: "string \<Rightarrow> pydict list \<Rightarrow> nat \<Rightarrow> bool" where
  "linked_at prev recs k \<longleftrightarrow>
     stored_hash (recs ! k) = chain_hash (if k = 0 then prev else stored_hash (recs ! (k - 1))) (audit_hash_body (recs ! k))"

lemma linked_at_Suc: "linked_at prev (r # recs) (Suc k) = linked_at (stored_hash r) recs k"
  by (cases k) (simp_all add: linked_at_def)

lemma verify_loop_exact:
  "(verify_chain_loop prev idx recs = (True, ''ok'') \<and> (\<forall>k<length recs. linked_at prev recs k)) \<or>
   (\<exists>k<length recs. verify_chain_loop prev idx recs = (False, ''chain break at index '' @ nat_str (idx + k)) \<and>
      \<not> linked_at prev recs k \<and> (\<forall>j<k. linked_at prev recs j))"
proof (induction recs arbitrary: prev idx)
  case (Cons r recs)
  show ?case
  proof (cases "linked_at prev (r # recs) 0")
    case True
    then have step: "verify_chain_loop prev idx (r # recs) = verify_chain_loop (stored_hash r) (Suc idx) recs"
      by (simp add: linked_at_def stored_hash_def Let_def)
    from Cons.IH [of "stored_hash r" "Suc idx"] show ?thesis
    proof (elim disjE exE conjE)
      assume "verify_chain_loop (stored_hash r) (Suc idx) recs = (True, ''ok'')"
        and "\<forall>k<length recs. linked_at (stored_hash r) recs k"
      then show ?thesis unfolding step using True by (auto simp: less_Suc_eq_0_disj linked_at_Suc)
    next
      fix k assume k: "k < length recs" "\<not> linked_at (stored_hash r) recs k" "\<forall>j<k. linked_at (stored_hash r) recs j"
        and v: "verify_chain_loop (stored_hash r) (Suc idx) recs = (False, ''chain break at index '' @ nat_str (Suc idx + k))"
      have "\<not> linked_at prev (r # recs) (Suc k)" "\<forall>j<Suc k. linked_at prev (r # recs) j"
        using k True by (auto simp: less_Suc_eq_0_disj linked_at_Suc)
      with k v show ?thesis unfolding step by (intro disjI2 exI [of _ "Suc k"]) simp
    qed
  next
    case False
    then have "verify_chain_loop prev idx (r # recs) = (False, ''chain break at index '' @ nat_str (idx + 0))"
      by (simp add: linked_at_def stored_hash_def Let_def)
    with False show ?thesis by (intro disjI2 exI [of _ 0]) simp
  qed
qed simp

section \<open>Properties\<close>

text \<open>
  C7. An audit file grown only by \<open>append_audit\<close> always verifies: after any number of appends, one more
  append that refreshes the tip leaves a store on which \<open>verify_audit_with_tip\<close> succeeds, reports a
  matching tip, and counts every record ever appended.
\<close>

theorem appended_store_verifies:
  assumes "appended st" and "append_audit uid now True st i True = Inr (rec, st')"
  shows "\<exists>v. verify_audit_with_tip st' require_tip = Inr v \<and> v_verified v \<and> v_tip_message v = ''tip_match'' \<and>
     v_records v = Suc (length (audit_lines st))"
proof -
  obtain recs where recs: "audit_lines st = map record_line recs" "good_records recs"
    using appended_good [OF assms(1)] by blast
  note a = append_good [OF recs assms(2)]
  have len: "length (stored_hash rec) = 64"
  proof -
    have "fst (verify_chain (recs @ [rec]))" using a by (simp add: good_records_def)
    from verified_tip [OF this] show ?thesis using sha.chain_tip_length by simp
  qed
  then have ne: "stored_hash rec \<noteq> []" by auto
  have tip: "actual_tip (recs @ [rec]) = stored_hash rec" using good_actual_tip a by simp
  have v: "verify_chain (recs @ [rec]) = (True, ''ok'')" using a by (simp add: good_records_def)
  have lines: "read_audit_records (audit_lines st') = recs @ [rec]" using a read_record_lines by metis
  show ?thesis
    using a tip v lines ne recs(1)
    by (simp add: verify_audit_with_tip_def Let_def tip_anchor_fields py_or_def)
qed

text \<open>An append to an empty store succeeds.\<close>

definition sample_input :: audit_input where
  "sample_input = \<lparr>in_action_type = ''event_received'', in_trace_id = [], in_decision_id = [], in_incident_id = [],
     in_actor = ''platform'', in_payload = []\<rparr>"

definition empty_store :: audit_store where
  "empty_store = \<lparr>audit_path = ''a.jsonl'', audit_lines = [], tip_file = None\<rparr>"

lemma sample_append: "\<exists>rec st'. append_audit ''u'' ''t'' True empty_store sample_input True = Inr (rec, st')"
  by (simp add: append_audit_def sample_input_def empty_store_def audit_actions_def read_chain_tip_def Let_def)

theorem appended_store_verifies_witness:
  "\<exists>rec st' v. append_audit ''u'' ''t'' True empty_store sample_input True = Inr (rec, st') \<and>
     verify_audit_with_tip st' True = Inr v \<and> v_verified v \<and> v_records v = 1"
proof -
  have "appended empty_store" by (rule created) (simp add: empty_store_def)
  moreover obtain rec st' where "append_audit ''u'' ''t'' True empty_store sample_input True = Inr (rec, st')"
    using sample_append by blast
  ultimately show ?thesis
    using appended_store_verifies [of empty_store "''u''" "''t''" sample_input rec st' True]
    by (auto simp: empty_store_def)
qed

text \<open>
  C8. Tamper evidence: take a store grown by appends, its tip anchored by the last append, and let the
  audit file be replaced by arbitrary lines. If the forged file still verifies against the tip, then
  it holds the same hashed bodies in the same order, or two different texts hashed during the two
  verifications are a collision of SHA-256. (Fields outside the hash, such as the stored
  \<open>previous_hash\<close>, are not bound.)
\<close>

theorem tip_binds_history:
  assumes "appended st" and "append_audit uid now True st i True = Inr (rec, st')"
    and "verify_audit_with_tip (st'\<lparr>audit_lines := forged\<rparr>) require_tip = Inr v" and "v_verified v"
    and "\<forall>r\<in>set (read_audit_records forged). plain_float (dict_get r ''current_hash'')"
  shows "map body_text (read_audit_records forged) = map body_text (read_audit_records (audit_lines st')) \<or>
     (\<exists>x\<in>set (sha.chain_texts ''genesis'' (map body_text (read_audit_records (audit_lines st')))).
      \<exists>y\<in>set (sha.chain_texts ''genesis'' (map body_text (read_audit_records forged))).
        x \<noteq> y \<and> sha256_hexdigest x = sha256_hexdigest y)"
proof -
  obtain recs where recs: "audit_lines st = map record_line recs" "good_records recs"
    using appended_good [OF assms(1)] by blast
  note a = append_good [OF recs assms(2)]
  let ?new = "recs @ [rec]" and ?f = "read_audit_records forged"
  have lines: "read_audit_records (audit_lines st') = ?new" using a read_record_lines by metis
  have vn: "fst (verify_chain ?new)" using a by (simp add: good_records_def)
  have h: "stored_hash rec = sha.chain_tip ''genesis'' (map body_text ?new)"
    using verified_tip [OF vn] by simp
  have "length (stored_hash rec) = 64" unfolding h by (rule sha.chain_tip_length) simp
  then have ne: "stored_hash rec \<noteq> []" by auto
  have vf: "v_verified v \<longrightarrow> actual_tip ?f = stored_hash rec \<and> int (length ?f) = int (Suc (length recs)) \<and>
      (?f \<noteq> [] \<longrightarrow> fst (verify_chain ?f))"
    using assms(3) a ne by (cases "verify_chain ?f") (auto simp: verify_audit_with_tip_def Let_def tip_anchor_fields py_or_def split: if_splits)
  then have fne: "?f \<noteq> []" and fv: "fst (verify_chain ?f)" and ft: "actual_tip ?f = stored_hash rec"
    using assms(4) by auto
  have "actual_tip ?f = sha.chain_tip ''genesis'' (map body_text ?f)"
    using actual_tip_verified [OF fv fne] assms(5) fne by simp
  then have "sha.chain_tip ''genesis'' (map body_text ?new) = sha.chain_tip ''genesis'' (map body_text ?f)"
    using ft h by simp
  from sha.chain_tip_binds [OF _ _ this] show ?thesis unfolding lines by auto
qed

theorem tip_binds_history_witness:
  "\<exists>rec st' v. append_audit ''u'' ''t'' True empty_store sample_input True = Inr (rec, st') \<and>
     verify_audit_with_tip st' True = Inr v \<and> v_verified v \<and>
     (map body_text (read_audit_records (audit_lines st')) = map body_text (read_audit_records (audit_lines st')) \<or>
      (\<exists>x\<in>set (sha.chain_texts ''genesis'' (map body_text (read_audit_records (audit_lines st')))).
       \<exists>y\<in>set (sha.chain_texts ''genesis'' (map body_text (read_audit_records (audit_lines st')))).
         x \<noteq> y \<and> sha256_hexdigest x = sha256_hexdigest y))"
proof -
  have e: "appended empty_store" by (rule created) (simp add: empty_store_def)
  obtain rec st' where ap: "append_audit ''u'' ''t'' True empty_store sample_input True = Inr (rec, st')"
    using sample_append by blast
  have g: "audit_lines st' = map record_line [rec]" "good_records [rec]"
    using append_good [OF _ _ ap, of "[]"] by (simp_all add: empty_store_def good_records_def verify_chain_def)
  obtain h where "map_of rec ''current_hash'' = Some (PyStr h)" using g(2) by (auto simp: good_records_def)
  then have pf: "\<forall>r\<in>set (read_audit_records (audit_lines st')). plain_float (dict_get r ''current_hash'')"
    unfolding g(1) read_record_lines by (simp add: dict_get_def)
  have v1: "fst (verify_chain [rec])" "stored_hash rec \<noteq> []"
    using g(2) verified_tip [of "[rec]"] sha.chain_tip_length [of "[body_text rec]" "''genesis''"]
    by (auto simp: good_records_def)
  have tip: "tip_file st' = Some (build_tip_anchor ''t'' (stored_hash rec) 1 (audit_path empty_store))"
    using append_good [OF _ _ ap, of "[]"] by (simp add: empty_store_def good_records_def verify_chain_def)
  have "\<exists>v. verify_audit_with_tip st' True = Inr v \<and> v_verified v"
    using v1 good_actual_tip [OF g(2)] tip g read_record_lines [of "[rec]"]
    by (simp add: verify_audit_with_tip_def Let_def tip_anchor_fields py_or_def good_records_def)
  then obtain v where v: "verify_audit_with_tip (st'\<lparr>audit_lines := audit_lines st'\<rparr>) True = Inr v" "v_verified v" by auto
  from tip_binds_history [OF e ap v pf] show ?thesis using ap v by auto
qed

text \<open>
  The verdict of \<open>verify_chain\<close> is exact: it accepts when every stored hash is the hash of its own body
  chained to the stored hash before it, and otherwise names the first index where that fails.
\<close>

theorem verify_chain_exact:
  "(verify_chain recs = (True, ''ok'') \<and> (\<forall>k<length recs. linked_at ''genesis'' recs k)) \<or>
   (\<exists>k<length recs. verify_chain recs = (False, ''chain break at index '' @ nat_str k) \<and>
      \<not> linked_at ''genesis'' recs k \<and> (\<forall>j<k. linked_at ''genesis'' recs j))"
  using verify_loop_exact [of "''genesis''" 0 recs] by (simp add: verify_chain_def)

theorem verify_chain_exact_witness:
  "verify_chain [[(''current_hash'', PyStr ''0'')]] = (False, ''chain break at index 0'')"
proof -
  have "stored_hash [(''current_hash'', PyStr ''0'')] = ''0''" by (simp add: stored_hash_def dict_get_or_def)
  moreover have "length (chain_hash p b) = 64" for p b unfolding chain_hash_def by (rule sha.digest_length)
  ultimately have "\<not> linked_at ''genesis'' [[(''current_hash'', PyStr ''0'')]] 0"
    by (metis linked_at_def One_nat_def length_Cons list.size(3) nth_Cons_0 numeral_eq_one_iff semiring_norm(85))
  moreover have "nat_str 0 = ''0''" by code_simp
  ultimately show ?thesis
    using verify_chain_exact [of "[[(''current_hash'', PyStr ''0'')]]"] by auto
qed

text \<open>
  Custody events never record a confirmation secret and never break the chain: on a store grown by
  appends, a custody event succeeds for every event name, leaves a store that is again grown by
  appends, and the payload it stores keeps of the extra fields only those whose lower-case name is
  not one of the secret names.
\<close>

theorem custody_event_recorded:
  assumes "appended st"
  shows "\<exists>res st' rec. append_custody_event uid now tip_ok st event c write_tip soft_fail = Inr (res, st') \<and>
     dict_get res ''ok'' = PyBool True \<and> appended st' \<and>
     audit_lines st' = audit_lines st @ [JsonLine (PyDict rec)] \<and>
     dict_get rec ''payload'' = PyDict (custody_payload event c) \<and>
     (\<forall>k\<in>fst ` set (as_dict (dict_get (custody_payload event c) ''detail'')). py_lower k \<notin> secret_keys)"
proof -
  let ?i = "\<lparr>in_action_type = map_event_to_action event, in_trace_id = [], in_decision_id = [], in_incident_id = [],
               in_actor = cu_actor c, in_payload = custody_payload event c\<rparr>"
  obtain recs where recs: "audit_lines st = map record_line recs" "good_records recs"
    using appended_good [OF assms] by blast
  have act: "map_event_to_action event \<in> set audit_actions"
    by (auto simp: map_event_to_action_def event_action_def audit_actions_def)
  obtain rec st' where ap: "append_audit uid now tip_ok st ?i write_tip = Inr (rec, st')"
    and pl: "dict_get rec ''payload'' = PyDict (custody_payload event c)"
    using act tip_of_good [OF recs(2)]
    by (simp add: append_audit_def recs(1) Let_def audit_record_def dict_get_def)
  have grow: "appended st'" using assms ap by (rule grown)
  have lines: "audit_lines st' = audit_lines st @ [JsonLine (PyDict rec)]"
    using append_good [OF recs ap] recs(1) by (simp add: record_line_def)
  have "\<forall>k\<in>fst ` set (as_dict (dict_get (custody_payload event c) ''detail'')). py_lower k \<notin> secret_keys"
    by (auto simp: custody_payload_def dict_get_def split: option.splits)
  with ap pl grow lines show ?thesis
    by (simp add: append_custody_event_def Let_def dict_get_def)
qed

theorem custody_event_recorded_witness:
  "\<exists>res st'. append_custody_event ''u'' ''t'' False empty_store ''guardian_apply''
     \<lparr>cu_actor = ''op'', cu_subsystem = ''s'', cu_dry_run = Some False, cu_confirmation_supplied = True, cu_before = None,
      cu_after = None, cu_outcome = None, cu_limitations = [], cu_extra = [(''Token'', PyStr ''x'')]\<rparr> True False = Inr (res, st') \<and>
     dict_get res ''ok'' = PyBool True \<and> appended st'"
proof -
  have "appended empty_store" by (rule created) (simp add: empty_store_def)
  from custody_event_recorded [OF this] show ?thesis by blast
qed

end
