(* ===== verification/Evidence_Policy.thy ===== *)
theory Evidence_Policy
  imports Py_Values
begin

text \<open>
  Evidence tiers, their upgrade guards and the policy engine of the decision pipeline:
  \<open>src/platform_core/evidence/{tiers,guards}.py\<close>, \<open>src/platform_core/policy/{actions,approval,outcomes,engine}.py\<close>
  and the data contracts they use from \<open>src/platform_core/contracts.py\<close>.

  Fields of a contract that hold generated identifiers, schema texts or free narrative are left out
  of the records. Comparing two approval tokens raises \<open>TypeError\<close> on non-ASCII text, as
  \<open>secrets.compare_digest\<close> does.

  The lemmas give the exact condition under which a destructive action is unlocked, and what the
  policy answers on every branch.
\<close>

section \<open>Tiers\<close>

datatype evidence_tier =
  OBSERVED_ONLY | CORRELATED | PROVEN_REGISTRY_WRITER | PROVEN_NETWORK_IMPACT | FINAL_CAUSATION

fun tier_value :: "evidence_tier \<Rightarrow> string" where
  "tier_value OBSERVED_ONLY = ''OBSERVED_ONLY''"
| "tier_value CORRELATED = ''CORRELATED''"
| "tier_value PROVEN_REGISTRY_WRITER = ''PROVEN_REGISTRY_WRITER''"
| "tier_value PROVEN_NETWORK_IMPACT = ''PROVEN_NETWORK_IMPACT''"
| "tier_value FINAL_CAUSATION = ''FINAL_CAUSATION''"

definition evidence_tier_order :: "evidence_tier list" where
  "evidence_tier_order =
     [OBSERVED_ONLY, CORRELATED, PROVEN_REGISTRY_WRITER, PROVEN_NETWORK_IMPACT, FINAL_CAUSATION]"

definition tier_of_value :: "string \<Rightarrow> evidence_tier option" where
  "tier_of_value s = find (\<lambda>t. tier_value t = s) evidence_tier_order"

definition legacy_map :: "(string \<times> evidence_tier) list" where
  "legacy_map =
     [(''OBSERVED_ONLY'', OBSERVED_ONLY), (''CORRELATED'', CORRELATED), (''CORRELATED_PROCESS'', CORRELATED),
      (''PROVEN_REGISTRY_WRITER'', PROVEN_REGISTRY_WRITER), (''PROVEN_NETWORK_IMPACT'', PROVEN_NETWORK_IMPACT),
      (''PATH_VALIDATED'', PROVEN_NETWORK_IMPACT), (''FINAL_CAUSATION'', FINAL_CAUSATION)]"

fun rank :: "evidence_tier \<Rightarrow> int" where
  "rank OBSERVED_ONLY = 0"
| "rank CORRELATED = 1"
| "rank PROVEN_REGISTRY_WRITER = 2"
| "rank PROVEN_NETWORK_IMPACT = 3"
| "rank FINAL_CAUSATION = 4"

definition tier_rank :: "string \<Rightarrow> int" where
  "tier_rank tier =
     (let raw = py_upper tier
      in case map_of legacy_map raw of
           Some t \<Rightarrow> rank t
         | None \<Rightarrow> (case tier_of_value raw of Some t \<Rightarrow> rank t | None \<Rightarrow> -1))"

definition normalize_tier :: "string \<Rightarrow> evidence_tier" where
  "normalize_tier tier =
     (let key = py_upper tier
      in case map_of legacy_map key of
           Some t \<Rightarrow> t
         | None \<Rightarrow> (case tier_of_value key of Some t \<Rightarrow> t | None \<Rightarrow> OBSERVED_ONLY))"

section \<open>Guards\<close>

record proof_inputs =
  has_registry_writer_telemetry :: bool
  has_process_lineage :: bool
  has_timestamp_alignment :: bool
  has_path_validation :: bool
  has_listener_correlation_only :: bool
  has_replay_certification :: bool
  manual_tier_override :: bool

definition validate_tier_upgrade :: "evidence_tier \<Rightarrow> evidence_tier \<Rightarrow> proof_inputs \<Rightarrow> bool \<times> string" where
  "validate_tier_upgrade current proposed pin =
     (if manual_tier_override pin \<and> proposed = FINAL_CAUSATION
      then (False, ''Manual FINAL_CAUSATION override forbidden'')
      else if tier_rank (tier_value proposed) \<le> tier_rank (tier_value current)
        then (proposed = current, if proposed \<noteq> current then ''No downgrade'' else ''unchanged'')
      else if proposed = CORRELATED then (has_listener_correlation_only pin \<or> True, ''correlation observed'')
      else if proposed = PROVEN_NETWORK_IMPACT
        then (has_path_validation pin, ''PROVEN_NETWORK_IMPACT requires network path validation proof'')
      else if proposed = PROVEN_REGISTRY_WRITER
        then (has_registry_writer_telemetry pin, ''PROVEN_REGISTRY_WRITER requires writer telemetry'')
      else if proposed = FINAL_CAUSATION
        then (if \<not> (has_registry_writer_telemetry pin \<and> has_process_lineage pin \<and>
                     has_timestamp_alignment pin \<and> has_path_validation pin)
              then (False, ''FINAL_CAUSATION requires writer + lineage + alignment + path validation'')
              else (True, ''guarded proof satisfied''))
      else (False, ''Unknown tier transition to '' @ tier_value proposed))"

definition can_unlock_destructive_remediation :: "evidence_tier \<Rightarrow> proof_inputs \<Rightarrow> bool" where
  "can_unlock_destructive_remediation tier pin =
     (if has_listener_correlation_only pin \<and> \<not> has_registry_writer_telemetry pin then False
      else if tier_rank (tier_value tier) < tier_rank ''FINAL_CAUSATION'' then False
      else fst (validate_tier_upgrade PROVEN_REGISTRY_WRITER FINAL_CAUSATION pin))"

definition signal_truthy :: "pyval \<Rightarrow> bool" where
  "signal_truthy v =
     (case v of
        PyBool b \<Rightarrow> b
      | PyStr s \<Rightarrow> py_lower (py_strip s) \<in> {''1'', ''true'', ''yes'', ''on''}
      | _ \<Rightarrow> truthy v)"

definition proof_inputs_from_signals :: "pydict \<Rightarrow> proof_inputs" where
  "proof_inputs_from_signals signals =
     \<lparr>has_registry_writer_telemetry =
        signal_truthy (py_or (dict_get signals ''sysmon_event_13'') (dict_get signals ''registry_writer_observed'')),
      has_process_lineage =
        signal_truthy (py_or (dict_get signals ''writer_process'') (dict_get signals ''process_lineage'')),
      has_timestamp_alignment = signal_truthy (dict_get signals ''timestamp_alignment''),
      has_path_validation =
        signal_truthy (py_or (dict_get signals ''proxy_bypass_succeeded'')
          (py_or (dict_get signals ''direct_path_success'') (dict_get signals ''path_validated''))),
      has_listener_correlation_only =
        (signal_truthy (py_or (dict_get signals ''listener_on_proxy_port'') (dict_get signals ''listener_correlation''))
         \<and> \<not> signal_truthy (dict_get signals ''sysmon_event_13'')),
      has_replay_certification = signal_truthy (dict_get signals ''replay_certified''),
      manual_tier_override = signal_truthy (dict_get signals ''force_final_causation'')\<rparr>"

section \<open>Actions and approval\<close>

definition destructive_actions :: "string set" where
  "destructive_actions =
     {''registry_modification'', ''kill_process'', ''disable_proxy'', ''firewall_reset'', ''adapter_disable'',
      ''delete_files'', ''system_network_change''}"

definition action_aliases :: "(string \<times> string) list" where
  "action_aliases =
     [(''disable_wininet_proxy'', ''disable_proxy''), (''stop_proxy_listener'', ''kill_process''),
      (''stop_proxy_reverter'', ''kill_process''), (''registry_modification'', ''registry_modification''),
      (''reset_firewall'', ''firewall_reset''), (''adapter_disable'', ''adapter_disable'')]"

definition normalize_action :: "string \<Rightarrow> string" where
  "normalize_action action =
     (let key = py_replace_char (CHR ''-'') (CHR ''_'') (py_lower (py_strip action))
      in case map_of action_aliases key of None \<Rightarrow> key | Some a \<Rightarrow> a)"

definition is_destructive :: "string \<Rightarrow> bool" where
  "is_destructive action =
     (let norm = normalize_action action
      in norm \<in> destructive_actions \<or> list_ex (\<lambda>d. py_in d norm) [''disable'', ''kill'', ''reset'', ''delete''])"

definition is_ascii :: "string \<Rightarrow> bool" where
  "is_ascii s = list_all (\<lambda>c. char_code c < 128) s"

definition compare_digest :: "string \<Rightarrow> string \<Rightarrow> bool py_result" where
  "compare_digest a b =
     (if is_ascii a \<and> is_ascii b then Inr (a = b)
      else Inl (TypeError ''comparing strings with non-ASCII characters is not supported''))"

definition validate_approval_token :: "string \<Rightarrow> string \<Rightarrow> bool py_result" where
  "validate_approval_token provided expected =
     (if provided = [] \<or> expected = [] then Inr False
      else compare_digest (py_strip provided) (py_strip expected))"

section \<open>The policy engine\<close>

datatype policy_outcome = ALLOW | PREVIEW_ONLY | REQUIRE_HUMAN_APPROVAL | BLOCK | ROLLBACK_REQUIRED

record evidence_item =
  ei_signal :: string
  ei_observed_value :: string

record evidence_bundle =
  eb_incident_id :: string
  eb_tier :: evidence_tier
  eb_items :: "evidence_item list"

record decision_record =
  d_decision_id :: string
  d_incident_id :: string
  d_timestamp_utc :: string
  d_incident_type :: string
  d_recommended_action :: string
  d_confidence :: rat
  d_evidence_tier :: evidence_tier
  d_requires_human_review :: bool

record policy_evaluation =
  pe_evaluation_id :: string
  pe_decision_id :: string
  pe_timestamp_utc :: string
  pe_requested_action :: string
  pe_evidence_tier :: evidence_tier
  pe_outcome :: policy_outcome
  pe_allowed :: bool
  pe_requires_approval :: bool
  pe_requires_rollback_plan :: bool
  pe_blocked_reasons :: "string list"

definition bundle_signals :: "evidence_bundle \<Rightarrow> pydict" where
  "bundle_signals evb =
     foldl (\<lambda>d item. dict_set d (ei_signal item) (PyStr (ei_observed_value item))) [] (eb_items evb)"

definition evaluate_policy ::
  "decision_record \<Rightarrow> evidence_bundle \<Rightarrow> string \<Rightarrow> proof_inputs option \<Rightarrow> bool \<Rightarrow> policy_evaluation" where
  "evaluate_policy decision evb requested_action proof0 dry_run =
     (let pin = (case proof0 of Some p \<Rightarrow> p | None \<Rightarrow> proof_inputs_from_signals (bundle_signals evb));
          tier = eb_tier evb;
          action = normalize_action requested_action;
          destructive = is_destructive action;
          unlocked = can_unlock_destructive_remediation tier pin;
          blocked = (if destructive \<and> \<not> unlocked then [action, ''destructive_without_final_causation''] else []);
          (outcome0, requires_approval0, requires_rollback) =
            (if destructive \<and> \<not> unlocked then (BLOCK, False, False)
             else if destructive then (REQUIRE_HUMAN_APPROVAL, True, True)
             else if tier_rank (tier_value tier) < tier_rank ''PROVEN_NETWORK_IMPACT'' then (PREVIEW_ONLY, False, False)
             else (if \<not> dry_run then ALLOW else PREVIEW_ONLY, False, False));
          (outcome, requires_approval) =
            (if d_requires_human_review decision then (REQUIRE_HUMAN_APPROVAL, True) else (outcome0, requires_approval0));
          allowed = (outcome \<in> {ALLOW, PREVIEW_ONLY, REQUIRE_HUMAN_APPROVAL})
      in \<lparr>pe_evaluation_id = ''peval-'' @ d_decision_id decision, pe_decision_id = d_decision_id decision,
          pe_timestamp_utc = d_timestamp_utc decision, pe_requested_action = action, pe_evidence_tier = tier,
          pe_outcome = outcome, pe_allowed = (allowed \<and> action \<notin> set blocked),
          pe_requires_approval = requires_approval, pe_requires_rollback_plan = requires_rollback,
          pe_blocked_reasons = blocked\<rparr>)"

section \<open>Facts\<close>

lemma tier_rank_value [simp]: "tier_rank (tier_value t) = rank t"
  by (cases t) (simp_all add: tier_rank_def py_eval legacy_map_def)

lemma tier_rank_literals [simp]:
  "tier_rank ''OBSERVED_ONLY'' = 0" "tier_rank ''CORRELATED'' = 1" "tier_rank ''PROVEN_REGISTRY_WRITER'' = 2"
  "tier_rank ''PROVEN_NETWORK_IMPACT'' = 3" "tier_rank ''FINAL_CAUSATION'' = 4"
  using tier_rank_value [of OBSERVED_ONLY] tier_rank_value [of CORRELATED] tier_rank_value [of PROVEN_REGISTRY_WRITER]
    tier_rank_value [of PROVEN_NETWORK_IMPACT] tier_rank_value [of FINAL_CAUSATION] by simp_all

lemma rank_inj: "rank s = rank t \<longleftrightarrow> s = t"
  by (cases s; cases t) simp_all

lemma rank_le_4: "rank t \<le> 4" "rank t = 4 \<longleftrightarrow> t = FINAL_CAUSATION"
  by (cases t; simp)+

lemma unlock_iff:
  "can_unlock_destructive_remediation tier pin \<longleftrightarrow>
     tier = FINAL_CAUSATION \<and> has_registry_writer_telemetry pin \<and> has_process_lineage pin \<and>
     has_timestamp_alignment pin \<and> has_path_validation pin \<and> \<not> manual_tier_override pin"
  by (cases tier) (auto simp: can_unlock_destructive_remediation_def validate_tier_upgrade_def)

lemma normalize_aliases_destructive:
  "a \<in> snd ` set action_aliases \<Longrightarrow> a \<in> destructive_actions"
  by (auto simp: action_aliases_def destructive_actions_def)

section \<open>Properties\<close>

text \<open>
  C9. A destructive remediation is unlocked exactly at the final tier with all four proofs (writer
  telemetry, process lineage, time alignment, path validation) and without a manual override: no
  amount of listener correlation, and no forced tier, unlocks it.
\<close>

theorem destructive_unlock_iff:
  "can_unlock_destructive_remediation tier pin \<longleftrightarrow>
     tier = FINAL_CAUSATION \<and> has_registry_writer_telemetry pin \<and> has_process_lineage pin \<and>
     has_timestamp_alignment pin \<and> has_path_validation pin \<and> \<not> manual_tier_override pin"
  by (rule unlock_iff)

text \<open>
  The policy answer on every branch: a destructive action without the unlocking proof is never allowed
  and lists itself as blocked, and its outcome is BLOCK unless the decision asks for human review;
  an outright ALLOW is given only to a non-destructive action, on a decision without review, outside
  dry run, with at least the network-impact tier; a destructive action that is allowed always needs
  approval and a rollback plan.
\<close>

theorem policy_branches:
  assumes "ev = evaluate_policy dec evb action (Some pin) dry_run"
  shows "(is_destructive (normalize_action action) \<and> \<not> can_unlock_destructive_remediation (eb_tier evb) pin \<longrightarrow>
            \<not> pe_allowed ev \<and> normalize_action action \<in> set (pe_blocked_reasons ev) \<and>
            (pe_outcome ev = BLOCK \<longleftrightarrow> \<not> d_requires_human_review dec)) \<and>
         (pe_outcome ev = ALLOW \<longrightarrow>
            \<not> is_destructive (normalize_action action) \<and> \<not> d_requires_human_review dec \<and> \<not> dry_run \<and>
            rank PROVEN_NETWORK_IMPACT \<le> rank (eb_tier evb)) \<and>
         (is_destructive (normalize_action action) \<and> pe_allowed ev \<longrightarrow>
            pe_outcome ev = REQUIRE_HUMAN_APPROVAL \<and> pe_requires_approval ev \<and> pe_requires_rollback_plan ev \<and>
            can_unlock_destructive_remediation (eb_tier evb) pin)"
  unfolding assms
  by (cases "is_destructive (normalize_action action)"; cases "can_unlock_destructive_remediation (eb_tier evb) pin";
      cases "d_requires_human_review dec"; cases dry_run) (simp_all add: evaluate_policy_def Let_def)

definition sample_decision :: decision_record where
  "sample_decision = \<lparr>d_decision_id = ''d'', d_incident_id = ''i'', d_timestamp_utc = ''t'', d_incident_type = ''x'',
     d_recommended_action = ''kill_process'', d_confidence = 1/2, d_evidence_tier = CORRELATED, d_requires_human_review = False\<rparr>"

theorem policy_branches_witness:
  "pe_outcome (evaluate_policy sample_decision \<lparr>eb_incident_id = ''i'', eb_tier = CORRELATED, eb_items = []\<rparr> ''kill-process''
     (Some (proof_inputs_from_signals [])) False) = BLOCK"
proof -
  let ?b = "\<lparr>eb_incident_id = ''i'', eb_tier = CORRELATED, eb_items = []\<rparr>"
  have "is_destructive (normalize_action ''kill-process'')" by code_simp
  moreover have "\<not> can_unlock_destructive_remediation CORRELATED (proof_inputs_from_signals [])" by (simp add: unlock_iff)
  ultimately show ?thesis
    using policy_branches [OF refl, where dec = sample_decision and evb = ?b and action = "''kill-process''"
        and pin = "proof_inputs_from_signals []" and dry_run = False]
    by (simp add: sample_decision_def)
qed

text \<open>
  Tier names have one meaning: every spelling that \<open>tier_rank\<close> knows, in any case and including the
  legacy aliases, normalises to the tier of that rank; unknown names rank below every tier and
  normalise to the lowest tier.
\<close>

theorem tier_names_consistent:
  "(tier_rank s = -1 \<and> normalize_tier s = OBSERVED_ONLY) \<or> tier_rank s = rank (normalize_tier s)"
  by (auto simp: tier_rank_def normalize_tier_def Let_def split: option.splits)

end
