(* ===== verification/Rollback_Plan.thy ===== *)
theory Rollback_Plan
  imports Evidence_Policy
begin

text \<open>
  Rollback previews and the remediation planner: \<open>src/platform_core/remediation/{rollback,planner}.py\<close>.
  Output dictionaries are modelled key by key, except that the planner's result is a record whose
  nested decision and policy are records too.

  Parameters: \<open>hex\<close> gives the random hexadecimal texts (the part of a fresh identifier and the generated
  approval token), \<open>now\<close> the clock's text, and \<open>preview\<close> the dictionary that \<open>preview_proxy_disable\<close> returns.
  Appending the audit row to a file is not modelled.

  The properties: nothing in the rollback module ever executes, and the exact gate of the planner.
\<close>

section \<open>Rollback previews\<close>

definition rollback_confirmation_phrase :: string where
  "rollback_confirmation_phrase = ''RESTORE_PROXY_LKG''"

definition rollback_limitations :: pyval where
  "rollback_limitations = PyList
     [PyStr (''Rollback restores captured values only '' @ em_dash @ '' not a guarantee of safety or full prior state.''),
      PyStr ''Unknown prior PAC, proxy override, or per-user policy may differ after restore.'',
      PyStr ''Rollback preview does not execute registry or network mutations by default.'',
      PyStr ''Rollback success does not prove endpoint compromise is resolved.'',
      PyStr ''Human approval token and typed confirmation are required before any live rollback.'']"

definition settings_key :: string where
  "settings_key = ''HKCU'' @ [CHR 0x5C] @ ''Software'' @ [CHR 0x5C] @ ''Microsoft'' @ [CHR 0x5C] @ ''Windows'' @ [CHR 0x5C]
     @ ''CurrentVersion'' @ [CHR 0x5C] @ ''Internet Settings''"

record host =
  hex :: "nat \<Rightarrow> string"
  now :: string
  new_token :: "nat \<Rightarrow> string"

text \<open>
  Each use of \<open>uuid.uuid4().hex[:12]\<close> and of \<open>generate_approval_token\<close> in one call gets its own number;
  \<open>later\<close> is the host as a nested call sees it, with fresh numbers.
\<close>

definition later :: "host \<Rightarrow> host" where
  "later h = h\<lparr>hex := \<lambda>n. hex h (n + 5), new_token := \<lambda>n. new_token h (n + 1)\<rparr>"

definition capture_pre_change_snapshot ::
  "host \<Rightarrow> string \<Rightarrow> string \<Rightarrow> pydict \<Rightarrow> int option \<Rightarrow> string option \<Rightarrow> pydict" where
  "capture_pre_change_snapshot h endpoint_id incident_id evidence proxy_enable proxy_server =
     [(''snapshot_id'', PyStr (''snap-'' @ take 12 (hex h 0))),
      (''endpoint_id'', PyStr endpoint_id), (''incident_id'', PyStr incident_id),
      (''captured_at_utc'', PyStr (now h)), (''source'', PyStr ''rollback_pre_change_snapshot''),
      (''proxy_registry'', PyDict
         [(''ProxyEnable'', case proxy_enable of Some i \<Rightarrow> PyInt i | None \<Rightarrow> dict_get evidence ''proxy_enable''),
          (''ProxyServer'', case proxy_server of Some s \<Rightarrow> PyStr s | None \<Rightarrow> dict_get evidence ''proxy_server''),
          (''AutoConfigURL'', dict_get evidence ''auto_config_url''),
          (''ProxyOverride'', dict_get evidence ''proxy_override'')]),
      (''evidence_tier'', PyStr (py_str (dict_get_or evidence ''evidence_tier'' (PyStr ''OBSERVED_ONLY'')))),
      (''limitations'', rollback_limitations), (''read_only'', PyBool True)]"

definition build_proposed_mutation_preview :: "string \<Rightarrow> string \<Rightarrow> bool \<Rightarrow> pyval \<Rightarrow> pydict" where
  "build_proposed_mutation_preview action_id endpoint_id dry_run mutations =
     [(''action_id'', PyStr action_id), (''endpoint_id'', PyStr endpoint_id), (''dry_run'', PyBool dry_run),
      (''mutations'', py_or mutations (PyList [PyDict
         [(''operation'', PyStr ''registry_set''), (''target'', PyStr settings_key), (''field'', PyStr ''ProxyEnable''),
          (''value'', PyInt 0), (''human'', PyStr ''Disable WinINET proxy (preview)'')]])),
      (''executed'', PyBool False), (''limitations'', rollback_limitations)]"

definition build_reversible_action_record :: "host \<Rightarrow> string \<Rightarrow> string \<Rightarrow> pydict \<Rightarrow> string \<Rightarrow> pydict" where
  "build_reversible_action_record h action_id endpoint_id pre_change_snapshot approval_token =
     [(''reversible_action_id'', PyStr (''rev-'' @ take 12 (hex h 1))),
      (''action_id'', PyStr action_id), (''endpoint_id'', PyStr endpoint_id),
      (''pre_change_snapshot_id'', dict_get pre_change_snapshot ''snapshot_id''),
      (''approval_token_hint'', PyStr (if approval_token \<noteq> [] then take 8 approval_token @ ellipsis_char else [])),
      (''requires_typed_confirmation'', PyBool True),
      (''required_confirmation'', PyStr rollback_confirmation_phrase),
      (''reversible'', PyBool True), (''executed'', PyBool False), (''created_at_utc'', PyStr (now h)),
      (''limitations'', rollback_limitations)]"

definition can_execute_rollback :: "bool \<Rightarrow> string \<Rightarrow> string \<Rightarrow> string \<Rightarrow> string \<Rightarrow> (bool \<times> string) py_result" where
  "can_execute_rollback dry_run confirmation_token expected_token typed_confirmation required_phrase =
     (if dry_run then Inr (False, ''dry_run_default_no_execution'')
      else bind_r (validate_approval_token confirmation_token expected_token) (\<lambda>ok.
        if \<not> ok then Inr (False, ''approval_token_missing_or_invalid'')
        else if py_strip typed_confirmation \<noteq> required_phrase then Inr (False, ''typed_confirmation_required'')
        else Inr (False, ''live_rollback_executor_disabled_preview_only'')))"

definition build_rollback_audit_record ::
  "host \<Rightarrow> string \<Rightarrow> string \<Rightarrow> string \<Rightarrow> string \<Rightarrow> string \<Rightarrow> bool \<Rightarrow> string \<Rightarrow> bool \<Rightarrow> pydict" where
  "build_rollback_audit_record h rollback_preview_id endpoint_id incident_id action_id event_kind dry_run gate_reason can_execute =
     [(''audit_id'', PyStr (''aud-rb-'' @ take 12 (hex h 3))), (''event_kind'', PyStr event_kind),
      (''rollback_preview_id'', PyStr rollback_preview_id), (''endpoint_id'', PyStr endpoint_id),
      (''incident_id'', PyStr incident_id), (''action_id'', PyStr action_id), (''timestamp_utc'', PyStr (now h)),
      (''dry_run'', PyBool dry_run), (''executed'', PyBool False), (''can_execute'', PyBool can_execute),
      (''gate_reason'', PyStr gate_reason), (''policy_decision'', PyStr ''preview_only''),
      (''limitations'', rollback_limitations), (''read_only'', PyBool True)]"

definition rollback_steps :: "pydict \<Rightarrow> pyval" where
  "rollback_steps pre_change_snapshot = PyList
     [PyDict [(''step'', PyInt 1), (''operation'', PyStr ''registry_restore''), (''target'', PyStr settings_key),
              (''values'', py_or (dict_get pre_change_snapshot ''proxy_registry'') (PyDict [])),
              (''requires_typed_confirmation'', PyBool True)],
      PyDict [(''step'', PyInt 2), (''operation'', PyStr ''validate''),
              (''description'', PyStr ''Re-run proxy-proof and browser path probes after rollback.'')]]"

definition build_rollback_preview_package ::
  "host \<Rightarrow> string \<Rightarrow> string \<Rightarrow> string \<Rightarrow> pydict \<Rightarrow> pydict \<Rightarrow> bool \<Rightarrow> string \<Rightarrow> string \<Rightarrow> string \<Rightarrow> pydict py_result" where
  "build_rollback_preview_package h endpoint_id incident_id action_id snapshot mutation dry_run approval_token
       confirmation_token typed_confirmation =
     (let token = (if approval_token \<noteq> [] then approval_token else new_token h 0);
          reversible = build_reversible_action_record h action_id endpoint_id snapshot token;
          rollback_preview_id = ''rbprev-'' @ take 12 (hex h 2);
          rollback_preview =
            [(''rollback_preview_id'', PyStr rollback_preview_id), (''endpoint_id'', PyStr endpoint_id),
             (''incident_id'', PyStr incident_id), (''action_id'', PyStr action_id), (''dry_run'', PyBool dry_run),
             (''steps'', rollback_steps snapshot), (''required_confirmation'', PyStr rollback_confirmation_phrase),
             (''limitations'', rollback_limitations), (''executed'', PyBool False)]
      in bind_r (can_execute_rollback dry_run confirmation_token token typed_confirmation rollback_confirmation_phrase)
           (\<lambda>(can_execute, gate_reason).
         bind_r (if confirmation_token \<noteq> [] then validate_approval_token confirmation_token token else Inr False) (\<lambda>validated.
           Inr
            [(''rollback_preview_id'', PyStr rollback_preview_id), (''endpoint_id'', PyStr endpoint_id),
             (''incident_id'', PyStr incident_id), (''action_id'', PyStr action_id), (''dry_run'', PyBool dry_run),
             (''pre_change_snapshot'', PyDict snapshot), (''proposed_mutation_preview'', PyDict mutation),
             (''human_approval_token'', PyDict
                [(''required'', PyBool True), (''expected_token'', PyStr token),
                 (''expected_token_hint'', PyStr (take 8 token @ ellipsis_char)),
                 (''provided'', PyBool (confirmation_token \<noteq> [])), (''validated'', PyBool validated)]),
             (''reversible_action_record'', PyDict reversible), (''rollback_preview'', PyDict rollback_preview),
             (''rollback_audit_record'', PyDict (build_rollback_audit_record h rollback_preview_id endpoint_id incident_id
                action_id ''rollback_preview_generated'' dry_run gate_reason can_execute)),
             (''can_execute_rollback'', PyBool can_execute), (''gate_reason'', PyStr gate_reason),
             (''limitations'', rollback_limitations)])))"

definition build_rollback_plan :: "host \<Rightarrow> string \<Rightarrow> int \<Rightarrow> string \<Rightarrow> bool \<Rightarrow> pydict py_result" where
  "build_rollback_plan h action_id prior_proxy_enable prior_proxy_server dry_run =
     bind_r (build_rollback_preview_package h ''local'' ''legacy'' action_id
               (capture_pre_change_snapshot h ''local'' ''legacy'' [] (Some prior_proxy_enable) (Some prior_proxy_server))
               (build_proposed_mutation_preview action_id ''local'' dry_run PyNone) dry_run [] [] []) (\<lambda>preview.
       let rp = as_dict (dict_get preview ''rollback_preview'')
       in Inr [(''action_id'', PyStr action_id), (''dry_run'', PyBool dry_run),
               (''description'', PyStr ''Restore prior WinINET proxy registry values from captured snapshot.''),
               (''steps'', dict_get rp ''steps''), (''limitations'', dict_get rp ''limitations''),
               (''rollback_preview_id'', dict_get preview ''rollback_preview_id'')])"

definition attempt_rollback_execute :: "host \<Rightarrow> pydict \<Rightarrow> string \<Rightarrow> string \<Rightarrow> string \<Rightarrow> bool \<Rightarrow> pydict py_result" where
  "attempt_rollback_execute h package confirmation_token typed_confirmation expected_token dry_run =
     bind_r (case py_or (dict_get package ''human_approval_token'') (PyDict []) of
               PyDict d \<Rightarrow> Inr d | v \<Rightarrow> Inl (no_attribute v ''get'')) (\<lambda>ht.
      let token = (if expected_token \<noteq> [] then expected_token
                   else py_str (dict_get_or ht ''expected_token'' (PyStr [])));
          text = (\<lambda>k. py_str (dict_get_or package k (PyStr [])))
      in bind_r (can_execute_rollback dry_run confirmation_token token typed_confirmation rollback_confirmation_phrase)
           (\<lambda>(can_execute, reason).
           Inr [(''executed'', PyBool False), (''dry_run'', PyBool dry_run), (''can_execute'', PyBool can_execute),
                (''reason'', PyStr reason),
                (''rollback_audit_record'', PyDict (build_rollback_audit_record h (text ''rollback_preview_id'')
                   (text ''endpoint_id'') (text ''incident_id'') (text ''action_id'') ''rollback_execute_attempt'' dry_run
                   reason can_execute)),
                (''limitations'', rollback_limitations)]))"

section \<open>The planner\<close>

text \<open>\<open>_bundle_from_signals\<close>: the tier text must be a tier name, else validation fails.\<close>

definition bundle_from_signals :: "pydict \<Rightarrow> string \<Rightarrow> string \<Rightarrow> evidence_bundle py_result" where
  "bundle_from_signals signals incident_id tier =
     (case tier_of_value tier of
        None \<Rightarrow> Inl (ValueError ''tier'')
      | Some t \<Rightarrow> Inr \<lparr>eb_incident_id = incident_id, eb_tier = t,
           eb_items = map (\<lambda>(k, v). \<lparr>ei_signal = k, ei_observed_value = py_str v\<rparr>) (sort_key fst signals)\<rparr>)"

text \<open>The number a confidence value denotes; a text is left to the parameter \<open>float_of_text\<close> (\<open>float(str)\<close>).\<close>

fun confidence_number :: "(string \<Rightarrow> rat option) \<Rightarrow> pyval \<Rightarrow> rat option" where
  "confidence_number float_of_text (PyBool b) = Some (if b then 1 else 0)"
| "confidence_number float_of_text (PyInt i) = Some (of_int i)"
| "confidence_number float_of_text (PyFloat v r) = Some v"
| "confidence_number float_of_text (PyStr s) = float_of_text s"
| "confidence_number float_of_text _ = None"

record remediation_plan =
  rp_incident_id :: string
  rp_dry_run :: bool
  rp_decision :: decision_record
  rp_policy_gate :: policy_evaluation
  rp_previews :: "pydict list"
  rp_rollback_plan :: pydict
  rp_rollback_preview :: pydict
  rp_approval_required :: bool
  rp_token_expected_hint :: string
  rp_approved :: bool
  rp_can_execute :: bool

definition plan_decision ::
  "host \<Rightarrow> (string \<Rightarrow> rat option) \<Rightarrow> string \<Rightarrow> string \<Rightarrow> pydict \<Rightarrow> (evidence_bundle \<times> decision_record) py_result" where
  "plan_decision h float_of_text incident_id recommended_action signals =
     bind_r (bundle_from_signals signals incident_id
               (py_str (dict_get_or signals ''evidence_tier'' (PyStr ''OBSERVED_ONLY'')))) (\<lambda>evb.
       case confidence_number float_of_text (dict_get_or signals ''confidence'' (PyFloat (1/2) ''0.5'')) of
         None \<Rightarrow> Inl (ValueError ''confidence'')
       | Some conf \<Rightarrow>
           if conf < 0 \<or> 1 < conf then Inl (ValueError ''confidence'')
           else Inr (evb,
             \<lparr>d_decision_id = ''dec-'' @ take 12 (hex h 4), d_incident_id = incident_id, d_timestamp_utc = now h,
              d_incident_type = py_str (dict_get_or signals ''incident_type'' (PyStr ''WININET_PROXY_DRIFT'')),
              d_recommended_action = recommended_action, d_confidence = conf, d_evidence_tier = eb_tier evb,
              d_requires_human_review = True\<rparr>))"

definition plan_body ::
  "host \<Rightarrow> pydict \<Rightarrow> evidence_bundle \<Rightarrow> decision_record \<Rightarrow> pydict \<Rightarrow> int \<Rightarrow> string \<Rightarrow> bool \<Rightarrow> string \<Rightarrow> string \<Rightarrow> remediation_plan py_result" where
  "plan_body h preview evb decision signals prior_proxy_enable prior_proxy_server dry_run confirmation_token expected_token =
     (let incident_id = d_incident_id decision;
          recommended_action = d_recommended_action decision;
          policy = evaluate_policy decision evb recommended_action (Some (proof_inputs_from_signals signals)) dry_run;
          previews = (if pe_outcome policy \<noteq> BLOCK then [preview] else []);
          endpoint = py_str (dict_get_or signals ''endpoint_id'' (PyStr ''local''));
          server = (if prior_proxy_server \<noteq> [] then prior_proxy_server else ''127.0.0.1:8080'');
          snapshot = capture_pre_change_snapshot h endpoint incident_id signals (Some prior_proxy_enable) (Some server);
          mutation = build_proposed_mutation_preview recommended_action endpoint True
            (if previews \<noteq> [] then dict_get (hd previews) ''mutations'' else PyNone);
          approval_token = (if expected_token \<noteq> [] then expected_token else new_token h 0)
      in bind_r (build_rollback_preview_package h endpoint incident_id recommended_action snapshot mutation True
                   approval_token confirmation_token []) (\<lambda>rollback_preview.
         bind_r (build_rollback_plan (later h) recommended_action prior_proxy_enable server True) (\<lambda>rollback.
         bind_r (if confirmation_token \<noteq> [] then validate_approval_token confirmation_token approval_token else Inr False) (\<lambda>approved.
           Inr \<lparr>rp_incident_id = incident_id, rp_dry_run = dry_run, rp_decision = decision, rp_policy_gate = policy,
                rp_previews = previews, rp_rollback_plan = rollback, rp_rollback_preview = rollback_preview,
                rp_approval_required = (pe_requires_approval policy \<or> pe_outcome policy = REQUIRE_HUMAN_APPROVAL),
                rp_token_expected_hint = (if dry_run then take 8 approval_token @ ellipsis_char else []),
                rp_approved = approved,
                rp_can_execute = (approved \<and> pe_outcome policy \<in> {ALLOW, REQUIRE_HUMAN_APPROVAL} \<and> \<not> dry_run)\<rparr>))))"

definition plan_proxy_drift_remediation ::
  "host \<Rightarrow> (string \<Rightarrow> rat option) \<Rightarrow> pydict \<Rightarrow> string \<Rightarrow> string \<Rightarrow> pydict \<Rightarrow> int \<Rightarrow> string \<Rightarrow> bool \<Rightarrow> string \<Rightarrow> string \<Rightarrow>
   remediation_plan py_result" where
  "plan_proxy_drift_remediation h float_of_text preview incident_id recommended_action signals prior_proxy_enable
       prior_proxy_server dry_run confirmation_token expected_token =
     bind_r (plan_decision h float_of_text incident_id recommended_action signals) (\<lambda>(evb, decision).
       plan_body h preview evb decision signals prior_proxy_enable prior_proxy_server dry_run confirmation_token expected_token)"

section \<open>Facts\<close>

lemma can_execute_never:
  "can_execute_rollback dry ct tok typed phrase = Inr (b, r) \<Longrightarrow> \<not> b"
  by (auto simp: can_execute_rollback_def bind_r_Inr split: if_splits)

lemma package_fields:
  assumes "build_rollback_preview_package h ep inc act snap mut dry tok ct typed = Inr pkg"
  shows "dict_get pkg ''can_execute_rollback'' = PyBool False"
    and "\<exists>d. dict_get pkg ''rollback_preview'' = PyDict d \<and> dict_get d ''steps'' = rollback_steps snap \<and>
             dict_get d ''executed'' = PyBool False"
    and "dict_get pkg ''human_approval_token'' \<noteq> PyNone"
proof -
  obtain b r where c: "can_execute_rollback dry ct (if tok \<noteq> [] then tok else new_token h 0) typed rollback_confirmation_phrase = Inr (b, r)"
    using assms by (auto simp: build_rollback_preview_package_def Let_def bind_r_Inr)
  then have "b = False" using can_execute_never by blast
  with c show "dict_get pkg ''can_execute_rollback'' = PyBool False"
    "\<exists>d. dict_get pkg ''rollback_preview'' = PyDict d \<and> dict_get d ''steps'' = rollback_steps snap \<and> dict_get d ''executed'' = PyBool False"
    "dict_get pkg ''human_approval_token'' \<noteq> PyNone"
    using assms by (auto simp: build_rollback_preview_package_def Let_def bind_r_Inr dict_get_def)
qed

lemma review_outcome:
  "d_requires_human_review dec \<Longrightarrow> pe_outcome (evaluate_policy dec evb act pin dry) = REQUIRE_HUMAN_APPROVAL"
  by (simp add: evaluate_policy_def Let_def split: prod.split)

lemma plan_decision_review:
  "plan_decision h fl inc act signals = Inr (evb, dec) \<Longrightarrow>
     d_requires_human_review dec \<and> d_incident_id dec = inc \<and> d_recommended_action dec = act"
  by (auto simp: plan_decision_def bind_r_Inr split: option.splits if_splits)

lemma plan_elim:
  assumes "plan_proxy_drift_remediation h fl preview inc act signals pe ps dry ct tok = Inr plan"
  obtains evb dec where "plan_decision h fl inc act signals = Inr (evb, dec)"
    and "plan_body h preview evb dec signals pe ps dry ct tok = Inr plan"
  using assms by (auto simp: plan_proxy_drift_remediation_def bind_r_Inr)

lemma plan_body_parts:
  assumes "plan_body h preview evb dec signals pe ps dry ct tok = Inr plan"
  defines "token \<equiv> if tok \<noteq> [] then tok else new_token h 0"
  shows "rp_policy_gate plan = evaluate_policy dec evb (d_recommended_action dec) (Some (proof_inputs_from_signals signals)) dry"
    and "(if ct \<noteq> [] then validate_approval_token ct token else Inr False) = Inr (rp_approved plan)"
    and "rp_can_execute plan \<longleftrightarrow> rp_approved plan \<and> pe_outcome (rp_policy_gate plan) \<in> {ALLOW, REQUIRE_HUMAN_APPROVAL} \<and> \<not> dry"
    and "\<exists>mut. build_rollback_preview_package h (py_str (dict_get_or signals ''endpoint_id'' (PyStr ''local''))) (d_incident_id dec)
           (d_recommended_action dec)
           (capture_pre_change_snapshot h (py_str (dict_get_or signals ''endpoint_id'' (PyStr ''local''))) (d_incident_id dec) signals
              (Some pe) (Some (if ps \<noteq> [] then ps else ''127.0.0.1:8080'')))
           mut True token ct [] = Inr (rp_rollback_preview plan)"
  using assms(1) unfolding plan_body_def Let_def bind_r_Inr token_def by auto

section \<open>Properties\<close>

text \<open>
  The expected token of an attempt: the caller's, or by default the one stored in the package under
  \<open>human_approval_token\<close>; None when that entry is a value that has no \<open>get\<close>. Then the verdict on a
  confirmation: the first gate that fails, or the error that comparing non-ASCII texts raises.
\<close>

definition attempt_token :: "pydict \<Rightarrow> string \<Rightarrow> string option" where
  "attempt_token package expected_token =
     (case dict_get package ''human_approval_token'' of
        PyDict d \<Rightarrow> Some (if expected_token \<noteq> [] then expected_token else py_str (dict_get_or d ''expected_token'' (PyStr [])))
      | v \<Rightarrow> if truthy v then None else Some expected_token)"

definition comparison_raises :: "bool \<Rightarrow> string \<Rightarrow> string \<Rightarrow> bool" where
  "comparison_raises dry ct token =
     (\<not> dry \<and> ct \<noteq> [] \<and> token \<noteq> [] \<and> \<not> (is_ascii (py_strip ct) \<and> is_ascii (py_strip token)))"

definition first_failing_gate :: "bool \<Rightarrow> string \<Rightarrow> string \<Rightarrow> string \<Rightarrow> string" where
  "first_failing_gate dry ct token typed =
     (if dry then ''dry_run_default_no_execution''
      else if ct = [] \<or> token = [] \<or> py_strip ct \<noteq> py_strip token then ''approval_token_missing_or_invalid''
      else if py_strip typed \<noteq> ''RESTORE_PROXY_LKG'' then ''typed_confirmation_required''
      else ''live_rollback_executor_disabled_preview_only'')"

lemma can_execute_exact:
  "can_execute_rollback dry ct token typed rollback_confirmation_phrase =
     (if comparison_raises dry ct token
      then Inl (TypeError ''comparing strings with non-ASCII characters is not supported'')
      else Inr (False, first_failing_gate dry ct token typed))"
  by (simp add: can_execute_rollback_def validate_approval_token_def compare_digest_def comparison_raises_def
      first_failing_gate_def rollback_confirmation_phrase_def)

lemma attempt_token_lookup:
  "(case py_or (dict_get package ''human_approval_token'') (PyDict []) of
      PyDict d \<Rightarrow> Inr d | v \<Rightarrow> Inl (no_attribute v ''get'')) =
     (case attempt_token package tok of
        None \<Rightarrow> Inl (no_attribute (dict_get package ''human_approval_token'') ''get'')
      | Some token \<Rightarrow> Inr (case dict_get package ''human_approval_token'' of PyDict d \<Rightarrow> d | _ \<Rightarrow> []))"
  by (cases "dict_get package ''human_approval_token''") (auto simp: attempt_token_def py_or_def)

lemma attempt_token_Some:
  "attempt_token package tok = Some token \<Longrightarrow>
     token = (if tok \<noteq> [] then tok
              else py_str (dict_get_or (case dict_get package ''human_approval_token'' of PyDict d \<Rightarrow> d | _ \<Rightarrow> [])
                     ''expected_token'' (PyStr [])))"
  by (auto simp: attempt_token_def dict_get_or_def split: pyval.splits if_splits)

lemma dict_get_Cons: "dict_get ((k', v) # d) k = (if k = k' then v else dict_get d k)"
  by (simp add: dict_get_def)

lemma package_token:
  assumes "build_rollback_preview_package h ep inc act snap mut dry approval ct typed = Inr package"
  shows "attempt_token package tok =
     Some (if tok \<noteq> [] then tok else if approval \<noteq> [] then approval else new_token h 0)"
  using assms
  by (auto simp: build_rollback_preview_package_def Let_def bind_r_Inr dict_get_def dict_get_or_def attempt_token_def)

text \<open>
  C10. Nothing in the rollback module executes, for every package, confirmation, typed phrase, expected
  token and dry-run flag. An execute attempt raises in exactly two cases: the package's approval entry is
  a value without \<open>get\<close>, or a live attempt has to compare non-ASCII texts. Otherwise it reports \<open>executed\<close> and
  \<open>can_execute\<close> false, in the result and in its audit row, and the reason in both is the first gate that
  fails, judged against the caller's expected token or, by default, the token stored in the package. A
  preview package grants nothing, and an attempt on it with no token of the caller's is judged against the
  very token the package was built with: its confirmation passes the token gate if and only if it is not
  empty and equals that token up to surrounding space.
\<close>

theorem rollback_never_executes:
  "(case attempt_rollback_execute h package ct typed tok dry of
      Inl e \<Rightarrow> (case attempt_token package tok of
                  None \<Rightarrow> e = no_attribute (dict_get package ''human_approval_token'') ''get''
                | Some token \<Rightarrow> comparison_raises dry ct token \<and>
                    e = TypeError ''comparing strings with non-ASCII characters is not supported'')
    | Inr res \<Rightarrow> (\<exists>token a. attempt_token package tok = Some token \<and> \<not> comparison_raises dry ct token \<and>
        dict_get res ''executed'' = PyBool False \<and> dict_get res ''can_execute'' = PyBool False \<and>
        dict_get res ''reason'' = PyStr (first_failing_gate dry ct token typed) \<and>
        dict_get res ''rollback_audit_record'' = PyDict a \<and> dict_get a ''executed'' = PyBool False \<and>
        dict_get a ''can_execute'' = PyBool False \<and> dict_get a ''event_kind'' = PyStr ''rollback_execute_attempt'' \<and>
        dict_get a ''gate_reason'' = PyStr (first_failing_gate dry ct token typed))) \<and>
   (build_rollback_preview_package h' ep inc act snap mut dry' approval ct' typed' = Inr package \<longrightarrow>
      dict_get package ''can_execute_rollback'' = PyBool False \<and>
      attempt_token package tok =
        Some (if tok \<noteq> [] then tok else if approval \<noteq> [] then approval else new_token h' 0))"
proof (intro conjI impI)
  show "case attempt_rollback_execute h package ct typed tok dry of
      Inl e \<Rightarrow> (case attempt_token package tok of
                  None \<Rightarrow> e = no_attribute (dict_get package ''human_approval_token'') ''get''
                | Some token \<Rightarrow> comparison_raises dry ct token \<and>
                    e = TypeError ''comparing strings with non-ASCII characters is not supported'')
    | Inr res \<Rightarrow> (\<exists>token a. attempt_token package tok = Some token \<and> \<not> comparison_raises dry ct token \<and>
        dict_get res ''executed'' = PyBool False \<and> dict_get res ''can_execute'' = PyBool False \<and>
        dict_get res ''reason'' = PyStr (first_failing_gate dry ct token typed) \<and>
        dict_get res ''rollback_audit_record'' = PyDict a \<and> dict_get a ''executed'' = PyBool False \<and>
        dict_get a ''can_execute'' = PyBool False \<and> dict_get a ''event_kind'' = PyStr ''rollback_execute_attempt'' \<and>
        dict_get a ''gate_reason'' = PyStr (first_failing_gate dry ct token typed))"
  proof (cases "attempt_token package tok")
    case None
    then show ?thesis by (simp add: attempt_rollback_execute_def attempt_token_lookup [of _ tok])
  next
    case (Some token)
    then show ?thesis
      using attempt_token_Some [OF Some]
      by (simp add: attempt_rollback_execute_def attempt_token_lookup [of _ tok] Let_def can_execute_exact
          dict_get_Cons build_rollback_audit_record_def)
  qed
qed (rule package_fields(1) package_token; assumption)+

definition sample_host :: host where
  "sample_host = \<lparr>hex = (\<lambda>n. ''0123456789abcdef''), now = ''t'', new_token = (\<lambda>n. ''tok'')\<rparr>"

theorem rollback_never_executes_witness:
  "\<exists>package res. build_rollback_preview_package sample_host ''local'' ''i'' ''a'' [] [] True [] [] [] = Inr package \<and>
     attempt_rollback_execute sample_host package '' tok '' ''RESTORE_PROXY_LKG'' [] False = Inr res \<and>
     dict_get res ''executed'' = PyBool False \<and>
     dict_get res ''reason'' = PyStr ''live_rollback_executor_disabled_preview_only''"
proof -
  obtain package where p: "build_rollback_preview_package sample_host ''local'' ''i'' ''a'' [] [] True [] [] [] = Inr package"
    by (simp add: build_rollback_preview_package_def Let_def can_execute_exact comparison_raises_def)
  note t = rollback_never_executes [where h = sample_host and h' = sample_host and package = package and ct = "'' tok ''"
      and typed = "''RESTORE_PROXY_LKG''" and tok = "[]" and dry = False and ep = "''local''" and inc = "''i''" and act = "''a''"
      and snap = "[]" and mut = "[]" and dry' = True and approval = "[]" and ct' = "[]" and typed' = "[]"]
  have tk: "attempt_token package [] = Some ''tok''" using t p by (simp add: sample_host_def)
  have c: "\<not> comparison_raises False '' tok '' ''tok''"
    "first_failing_gate False '' tok '' ''tok'' ''RESTORE_PROXY_LKG'' = ''live_rollback_executor_disabled_preview_only''"
    by code_simp+
  show ?thesis using t p tk c by (auto split: sum.splits)
qed

text \<open>
  The gate of the remediation planner, exactly: the planner always marks its decision for human review,
  so its policy outcome is always REQUIRE HUMAN APPROVAL, and a plan is executable if and only if it is
  not a dry run and a non-empty confirmation equal (up to surrounding space) to the approval token was
  given. The evidence does not enter: a destructive action that the policy lists as blocked and not
  allowed is executable too.
\<close>

theorem planner_gate:
  assumes "plan_proxy_drift_remediation h fl preview inc act signals pe ps dry ct tok = Inr plan" and "tok \<noteq> []"
  shows "pe_outcome (rp_policy_gate plan) = REQUIRE_HUMAN_APPROVAL \<and>
     (rp_can_execute plan \<longleftrightarrow> \<not> dry \<and> ct \<noteq> [] \<and> py_strip ct = py_strip tok) \<and>
     dict_get (rp_rollback_preview plan) ''can_execute_rollback'' = PyBool False"
proof -
  obtain evb dec where d: "plan_decision h fl inc act signals = Inr (evb, dec)"
    and p: "plan_body h preview evb dec signals pe ps dry ct tok = Inr plan"
    using plan_elim [OF assms(1)] by blast
  note parts = plan_body_parts [OF p]
  have out: "pe_outcome (rp_policy_gate plan) = REQUIRE_HUMAN_APPROVAL"
    using parts(1) plan_decision_review [OF d] by (simp add: review_outcome)
  have "rp_approved plan \<longleftrightarrow> ct \<noteq> [] \<and> py_strip ct = py_strip tok"
    using parts(2) assms(2) by (auto simp: validate_approval_token_def compare_digest_def split: if_splits)
  then show ?thesis using out parts(3) parts(4) package_fields(1) by auto
qed

theorem planner_gate_witness:
  "\<exists>plan. plan_proxy_drift_remediation sample_host (\<lambda>_. None) [] ''i'' ''disable_wininet_proxy'' [] 1 [] False ''tok'' ''tok'' = Inr plan \<and>
     rp_can_execute plan \<and> \<not> pe_allowed (rp_policy_gate plan)"
proof -
  have asc: "is_ascii ''tok''" "py_strip ''tok'' = ''tok''" by code_simp+
  have act: "normalize_action ''disable_wininet_proxy'' = ''disable_proxy''" "is_destructive ''disable_proxy''" by code_simp+
  have t: "tier_of_value ''OBSERVED_ONLY'' = Some OBSERVED_ONLY" by code_simp
  have ex: "\<exists>plan. plan_proxy_drift_remediation sample_host (\<lambda>_. None) [] ''i'' ''disable_wininet_proxy'' [] 1 [] False ''tok'' ''tok'' = Inr plan \<and>
      \<not> pe_allowed (rp_policy_gate plan)"
    by (simp add: plan_proxy_drift_remediation_def plan_decision_def plan_body_def bundle_from_signals_def t dict_get_or_def Let_def
        build_rollback_preview_package_def build_rollback_plan_def can_execute_rollback_def validate_approval_token_def
        compare_digest_def asc evaluate_policy_def act unlock_iff)
  then obtain plan where p: "plan_proxy_drift_remediation sample_host (\<lambda>_. None) [] ''i'' ''disable_wininet_proxy'' [] 1 [] False ''tok'' ''tok'' = Inr plan"
    "\<not> pe_allowed (rp_policy_gate plan)" by blast
  then show ?thesis using planner_gate [OF p(1)] by auto
qed

text \<open>
  A rollback restores what was captured: the first step of every plan writes back exactly the prior
  proxy flag and the prior server text (or the default server when none is given), with the PAC URL
  and the override that the signals recorded, and nothing else.
\<close>

theorem rollback_restores_capture:
  assumes "plan_proxy_drift_remediation h fl preview inc act signals pe ps dry ct tok = Inr plan"
  shows "\<exists>d s1 s2 rest. dict_get (rp_rollback_preview plan) ''rollback_preview'' = PyDict d \<and>
     dict_get d ''steps'' = PyList (PyDict s1 # PyDict s2 # rest) \<and>
     dict_get s1 ''operation'' = PyStr ''registry_restore'' \<and>
     dict_get s1 ''values'' = PyDict
       [(''ProxyEnable'', PyInt pe), (''ProxyServer'', PyStr (if ps \<noteq> [] then ps else ''127.0.0.1:8080'')),
        (''AutoConfigURL'', dict_get signals ''auto_config_url''), (''ProxyOverride'', dict_get signals ''proxy_override'')]"
proof -
  let ?ep = "py_str (dict_get_or signals ''endpoint_id'' (PyStr ''local''))"
  let ?snap = "capture_pre_change_snapshot h ?ep inc signals (Some pe) (Some (if ps \<noteq> [] then ps else ''127.0.0.1:8080''))"
  obtain evb dec where d: "plan_decision h fl inc act signals = Inr (evb, dec)"
    and p: "plan_body h preview evb dec signals pe ps dry ct tok = Inr plan"
    using plan_elim [OF assms] by blast
  obtain mut tk where pkg: "build_rollback_preview_package h ?ep inc act ?snap mut True tk ct [] = Inr (rp_rollback_preview plan)"
    using plan_body_parts(4) [OF p] plan_decision_review [OF d] by auto
  from package_fields(2) [OF pkg] obtain d where
    "dict_get (rp_rollback_preview plan) ''rollback_preview'' = PyDict d" "dict_get d ''steps'' = rollback_steps ?snap"
    by blast
  then show ?thesis
    by (simp add: rollback_steps_def capture_pre_change_snapshot_def) (simp add: dict_get_def py_or_def)
qed

theorem rollback_restores_capture_witness:
  "\<exists>plan d s1 rest. plan_proxy_drift_remediation sample_host (\<lambda>_. None) [] ''i'' ''x'' [] 0 ''p:1'' True [] [] = Inr plan \<and>
     dict_get (rp_rollback_preview plan) ''rollback_preview'' = PyDict d \<and>
     dict_get d ''steps'' = PyList (PyDict s1 # rest) \<and> dict_get s1 ''operation'' = PyStr ''registry_restore''"
proof -
  have t: "tier_of_value ''OBSERVED_ONLY'' = Some OBSERVED_ONLY" by code_simp
  obtain plan where p: "plan_proxy_drift_remediation sample_host (\<lambda>_. None) [] ''i'' ''x'' [] 0 ''p:1'' True [] [] = Inr plan"
    by (simp add: plan_proxy_drift_remediation_def plan_decision_def plan_body_def bundle_from_signals_def t dict_get_or_def Let_def
        build_rollback_preview_package_def build_rollback_plan_def can_execute_rollback_def)
  show ?thesis using rollback_restores_capture [OF p] p by blast
qed

end
