(* ===== verification/Audit_Sign.thy ===== *)
theory Audit_Sign
  imports Sha256 Evidence_Policy
begin

text \<open>
  Signed decision records, \<open>platform_core/reliability/audit_integrity.py\<close>: signing, verification and the scan of
  a log for rows that fail. A record is the dictionary it dumps to. The configured API key is a
  parameter, and so is the schema validation of a log row (\<open>validate\<close>: the record a row denotes, or
  \<open>None\<close> when the model rejects it).

  The contract of a keyed signature is the locale \<open>signature_scheme\<close>, interpreted on the definitions below.
\<close>

section \<open>Signing and verifying\<close>

definition canonical_payload :: "pydict \<Rightarrow> string" where
  "canonical_payload rec = json_dumps (PyDict (filter (\<lambda>kv. fst kv \<noteq> ''audit_signature'') rec))"

definition signing_key :: "string option \<Rightarrow> string option \<Rightarrow> string" where
  "signing_key secret api_key =
     (case secret of
        Some (c # s) \<Rightarrow> c # s
      | _ \<Rightarrow> (case api_key of Some (c # s) \<Rightarrow> c # s | _ \<Rightarrow> ''local-dev-signing-key''))"

definition sign_decision_record :: "string option \<Rightarrow> string option \<Rightarrow> pydict \<Rightarrow> pydict" where
  "sign_decision_record api_key secret rec =
     dict_set rec ''audit_signature''
       (PyStr (hmac_sha256_hexdigest (signing_key secret api_key) (canonical_payload rec)))"

definition verify_decision_record :: "string option \<Rightarrow> string option \<Rightarrow> pydict \<Rightarrow> (bool \<times> string) py_result" where
  "verify_decision_record api_key secret rec =
     (case dict_get rec ''audit_signature'' of
        PyStr (c # sig) \<Rightarrow>
          bind_r (compare_digest (hmac_sha256_hexdigest (signing_key secret api_key) (canonical_payload rec)) (c # sig)) (\<lambda>eq.
            Inr (if eq then (True, ''ok'') else (False, ''signature_mismatch'')))
      | _ \<Rightarrow> Inr (False, ''missing_signature''))"

fun detect_tamper_in_jsonl ::
  "(pydict \<Rightarrow> pydict option) \<Rightarrow> string option \<Rightarrow> string option \<Rightarrow> pydict list \<Rightarrow> pydict list py_result" where
  "detect_tamper_in_jsonl validate api_key secret [] = Inr []"
| "detect_tamper_in_jsonl validate api_key secret (row # rows) =
     (case validate row of
        None \<Rightarrow> bind_r (detect_tamper_in_jsonl validate api_key secret rows) (\<lambda>bad.
                  Inr ([(''row'', PyDict row), (''reason'', PyStr ''schema_invalid'')] # bad))
      | Some rec \<Rightarrow>
          bind_r (verify_decision_record api_key secret rec) (\<lambda>(ok, reason).
          bind_r (detect_tamper_in_jsonl validate api_key secret rows) (\<lambda>bad.
            Inr (if ok then bad else [(''run_id'', dict_get rec ''run_id''), (''reason'', PyStr reason)] # bad))))"

section \<open>The contract of a signature\<close>

locale signature_scheme =
  fixes sign :: "'k \<Rightarrow> 'm \<Rightarrow> 'm" and verifies :: "'k \<Rightarrow> 'm \<Rightarrow> bool" and content :: "'m \<Rightarrow> 'c" and tag :: "'k \<Rightarrow> 'c \<Rightarrow> 't"
    and tag_of :: "'m \<Rightarrow> 't option"
  assumes sign_content: "content (sign k m) = content m"
    and sign_tag: "tag_of (sign k m) = Some (tag k (content m))"
    and verifies_iff: "verifies k m \<longleftrightarrow> tag_of m = Some (tag k (content m))"
begin

lemma verifies_sign: "verifies k (sign k m)"
  by (simp add: verifies_iff sign_content sign_tag)

lemma transplanted_tag:
  "tag_of m' = tag_of (sign k m) \<Longrightarrow> verifies k m' \<longleftrightarrow> tag k (content m') = tag k (content m)"
  by (auto simp: verifies_iff sign_tag)

lemma sign_again: "sign k m = m' \<Longrightarrow> tag_of (sign k m') = tag_of m'"
  by (auto simp: sign_tag sign_content)

end

definition signature_of :: "pydict \<Rightarrow> string option" where
  "signature_of rec = (case dict_get rec ''audit_signature'' of PyStr (c # s) \<Rightarrow> Some (c # s) | _ \<Rightarrow> None)"

definition record_verifies :: "string \<Rightarrow> pydict \<Rightarrow> bool" where
  "record_verifies key rec \<longleftrightarrow> verify_decision_record None (Some key) rec = Inr (True, ''ok'')"

lemma payload_set_signature: "canonical_payload (dict_set rec ''audit_signature'' v) = canonical_payload rec"
proof -
  have "filter (\<lambda>kv. fst kv \<noteq> ''audit_signature'') (dict_set rec ''audit_signature'' v) =
      filter (\<lambda>kv. fst kv \<noteq> ''audit_signature'') rec"
    by (induction rec) auto
  then show ?thesis by (simp add: canonical_payload_def)
qed

lemma digest_ne: "hmac_sha256_hexdigest key m \<noteq> []"
  using hmac.digest_length [of key m] by auto

lemma digest_ascii: "is_ascii (hmac_sha256_hexdigest key m)"
proof -
  have "is_hex c \<Longrightarrow> char_code c < 128" for c by (auto simp: is_hex_def is_digit_def Let_def)
  moreover have "\<forall>c\<in>set (hmac_sha256_hexdigest key m). is_hex c" using hmac.digest_hex [of _ key m] by (rule ballI)
  ultimately show ?thesis unfolding is_ascii_def list_all_iff by (intro ballI) (drule (1) bspec)
qed

lemma compare_digest_ok:
  "is_ascii a \<Longrightarrow> compare_digest a b = Inr True \<longleftrightarrow> a = b"
  by (auto simp: compare_digest_def)

lemma verify_ok_iff:
  "verify_decision_record api secret rec = Inr (True, ''ok'') \<longleftrightarrow>
     signature_of rec = Some (hmac_sha256_hexdigest (signing_key secret api) (canonical_payload rec))"
proof -
  define h where "h = hmac_sha256_hexdigest (signing_key secret api) (canonical_payload rec)"
  have v: "verify_decision_record api secret rec =
      (case signature_of rec of
         Some sig \<Rightarrow> bind_r (compare_digest h sig) (\<lambda>eq. Inr (if eq then (True, ''ok'') else (False, ''signature_mismatch'')))
       | None \<Rightarrow> Inr (False, ''missing_signature''))"
    by (simp add: verify_decision_record_def signature_of_def h_def split: pyval.split list.split)
  have c: "compare_digest h sig = Inr True \<longleftrightarrow> h = sig" for sig
    unfolding h_def by (rule compare_digest_ok) (rule digest_ascii)
  show ?thesis
  proof (cases "signature_of rec")
    case None
    then show ?thesis by (simp add: v)
  next
    case (Some sig)
    then show ?thesis using c [of sig] by (cases "compare_digest h sig") (auto simp: v h_def [symmetric])
  qed
qed

interpretation decision_sig: signature_scheme
  "\<lambda>key. sign_decision_record None (Some key)" record_verifies canonical_payload
  "\<lambda>key. hmac_sha256_hexdigest (signing_key (Some key) None)" signature_of
proof
  fix k m
  show "canonical_payload (sign_decision_record None (Some k) m) = canonical_payload m"
    by (simp add: sign_decision_record_def payload_set_signature)
  show "signature_of (sign_decision_record None (Some k) m) = Some (hmac_sha256_hexdigest (signing_key (Some k) None) (canonical_payload m))"
    using digest_ne by (auto simp: sign_decision_record_def signature_of_def split: list.splits)
  show "record_verifies k m \<longleftrightarrow> signature_of m = Some (hmac_sha256_hexdigest (signing_key (Some k) None) (canonical_payload m))"
    by (simp add: record_verifies_def verify_ok_iff)
qed

lemma detect_none:
  assumes "\<forall>row\<in>set rows. \<exists>rec. validate row = Some rec \<and> verify_decision_record api secret rec = Inr (True, ''ok'')"
  shows "detect_tamper_in_jsonl validate api secret rows = Inr []"
  using assms by (induction rows) auto

section \<open>Properties\<close>

text \<open>
  C11. Signing round trip and tamper detection: a log of freshly signed rows is reported clean, under any key
  configuration; and a row that keeps the signature of a signed record verifies if and only if its
  canonical payload has the same HMAC under the key, so any change of a signed field that goes
  unnoticed is a collision of the keyed hash.
\<close>

theorem signed_log_clean_and_tamper_evident:
  assumes "\<forall>rec\<in>set recs. validate (sign_decision_record api secret rec) = Some (sign_decision_record api secret rec)"
    and "signature_of row = signature_of (sign_decision_record None (Some key) rec)"
  shows "detect_tamper_in_jsonl validate api secret (map (sign_decision_record api secret) recs) = Inr [] \<and>
     (record_verifies key row \<longleftrightarrow>
        hmac_sha256_hexdigest (signing_key (Some key) None) (canonical_payload row) =
        hmac_sha256_hexdigest (signing_key (Some key) None) (canonical_payload rec))"
proof -
  have sig: "verify_decision_record api secret (sign_decision_record api secret r) = Inr (True, ''ok'')" for r
    using digest_ne by (auto simp: verify_ok_iff sign_decision_record_def signature_of_def payload_set_signature split: list.splits)
  have "\<forall>row\<in>set (map (sign_decision_record api secret) recs).
      \<exists>rec. validate row = Some rec \<and> verify_decision_record api secret rec = Inr (True, ''ok'')"
    using assms(1) sig by auto
  then have "detect_tamper_in_jsonl validate api secret (map (sign_decision_record api secret) recs) = Inr []"
    by (rule detect_none)
  then show ?thesis using decision_sig.transplanted_tag [OF assms(2)] by simp
qed

theorem signed_log_clean_and_tamper_evident_witness:
  "detect_tamper_in_jsonl Some None None (map (sign_decision_record None None) [[(''run_id'', PyStr ''r'')]]) = Inr []"
  using signed_log_clean_and_tamper_evident [of "[[(''run_id'', PyStr ''r'')]]" Some None None
      "sign_decision_record None (Some ''k'') []" "''k''" "[]"] by simp

end
