(* ===== verification/Platform_Decision.thy ===== *)
theory Platform_Decision
  imports Audit_Sign "HOL-Library.Multiset"
begin

text \<open>
  The reliability platform's decision pipeline, \<open>platform_core/reliability\<close>: normalisation of raw observations
  (\<open>event_pipeline.py\<close>), the state machine over signals (\<open>platform_states.py\<close>), the evidence graph (\<open>evidence_graph.py\<close>), hypothesis
  ranking (\<open>hypothesis_engine.py\<close>), the configurable policy (\<open>policy_config.py\<close>), their composition into a signed decision
  (\<open>decision_engine.py\<close>) and replay (\<open>time_travel.py\<close>).

  The identifiers and time stamps that the data models draw afresh are arguments (\<open>new_id\<close>, \<open>now\<close>: the \<open>n\<close>-th of an object kind). A schema rejection of a
  data model is a \<open>ValueError\<close>. Weights are rationals; the source rounds every score to three decimals, on which
  its comparisons agree with those of the rationals.

  The lemmas show when an action is allowed, that the ranking is ordered and bounded, that the graph is closed, and
  what a replay of the stored events preserves.
\<close>

text \<open>The \<open>n\<close>-th identifier or time stamp of an object kind.\<close>

type_synonym id_source = "string \<Rightarrow> nat \<Rightarrow> string"

section \<open>Normalised events\<close>

record platform_event =
  event_id :: string
  timestamp_utc :: string
  endpoint_id :: string
  source_kind :: string
  source_detail :: string
  signal_name :: string
  signal_value :: pyval
  severity :: string
  evidence_tier :: string
  observation_ids :: "string list"
  limitations :: "string list"
  payload :: pydict

definition source_kinds :: "string list" where
  "source_kinds = [''registry'', ''sysmon'', ''etw'', ''windows_event_log'', ''network_telemetry'', ''agent'', ''cli'', ''replay'', ''fixture'']"

definition severities :: "string list" where
  "severities = [''info'', ''low'', ''medium'', ''high'', ''critical'']"

definition event_tiers :: "string list" where
  "event_tiers = [''TIER_0_RAW_OBSERVATION'', ''TIER_1_CORRELATED_SIGNAL'', ''TIER_2_CONTRAST_TESTED'', ''TIER_3_CAUSAL_PROOF'']"

definition infer_source_kind :: "pydict \<Rightarrow> string py_result" where
  "infer_source_kind raw =
     (let src = py_lower (py_str (py_or (py_or (dict_get raw ''source'') (dict_get raw ''source_kind'')) (PyStr [])))
      in if py_in ''sysmon'' src then Inr ''sysmon''
         else if py_in ''procmon'' src \<or> py_in ''registry'' src then Inr ''registry''
         else if py_in ''etw'' src then Inr ''etw''
         else if py_in ''eventlog'' src \<or> py_in ''event_log'' src then Inr ''windows_event_log''
         else if py_in ''network'' src \<or> py_in ''netstat'' src \<or> py_in ''tcp'' src then Inr ''network_telemetry''
         else case dict_get raw ''source_kind'' of
                PyStr k \<Rightarrow> Inr (if k \<in> set source_kinds then k else ''agent'')
              | PyList xs \<Rightarrow> Inl (TypeError ''unhashable type'')
              | PyDict d \<Rightarrow> Inl (TypeError ''unhashable type'')
              | _ \<Rightarrow> Inr ''agent'')"

fun all_strings :: "pyval list \<Rightarrow> string list py_result" where
  "all_strings [] = Inr []"
| "all_strings (PyStr s # xs) = bind_r (all_strings xs) (\<lambda>ys. Inr (s # ys))"
| "all_strings (x # xs) = Inl (ValueError ''Input should be a valid string'')"

definition literal_field :: "string list \<Rightarrow> pyval \<Rightarrow> string py_result" where
  "literal_field options v =
     (case v of
        PyStr s \<Rightarrow> (if s \<in> set options then Inr s else Inl (ValueError ''unexpected literal''))
      | _ \<Rightarrow> Inl (ValueError ''unexpected literal''))"

definition raw_tier :: "pydict \<Rightarrow> pyval" where
  "raw_tier raw =
     (if dict_get raw ''proof_status'' = PyStr ''CONFIRMED'' \<or> dict_get raw ''strength'' = PyStr ''proof'' then PyStr ''TIER_3_CAUSAL_PROOF''
      else if dict_get raw ''strength'' \<in> {PyStr ''strong'', PyStr ''medium''} then PyStr ''TIER_1_CORRELATED_SIGNAL''
      else py_or (dict_get raw ''evidence_tier'') (PyStr ''TIER_0_RAW_OBSERVATION''))"

definition raw_signal :: "pydict \<Rightarrow> string" where
  "raw_signal raw =
     py_str (py_or (py_or (py_or (dict_get raw ''signal_name'') (dict_get raw ''name'')) (dict_get raw ''event_type'')) (PyStr ''unknown''))"

definition normalize_raw_observation :: "string \<Rightarrow> string \<Rightarrow> string \<Rightarrow> string option \<Rightarrow> pydict \<Rightarrow> platform_event py_result" where
  "normalize_raw_observation eid ts endpoint kind_opt raw =
     bind_r (case kind_opt of Some k \<Rightarrow> Inr k | None \<Rightarrow> infer_source_kind raw) (\<lambda>kind.
     bind_r (list_of_value (py_or (dict_get raw ''observation_ids'') (PyList []))) (\<lambda>oids0.
     bind_r (list_of_value (py_or (dict_get raw ''limitations'') (PyList []))) (\<lambda>lims0.
     bind_r (literal_field severities (py_or (dict_get raw ''severity'') (PyStr ''info''))) (\<lambda>sev.
     bind_r (literal_field event_tiers (raw_tier raw)) (\<lambda>tier.
     bind_r (all_strings oids0) (\<lambda>oids.
     bind_r (all_strings lims0) (\<lambda>lims.
       Inr \<lparr>event_id = eid, timestamp_utc = ts, endpoint_id = endpoint, source_kind = kind,
            source_detail = py_str (py_or (py_or (dict_get raw ''source_detail'') (dict_get raw ''source'')) (PyStr [])),
            signal_name = raw_signal raw,
            signal_value = (if has_key raw ''value'' then dict_get raw ''value'' else dict_get raw ''signal_value''),
            severity = sev, evidence_tier = tier, observation_ids = oids, limitations = lims,
            payload = filter (\<lambda>kv. fst kv \<notin> {''signal_name'', ''value''}) raw\<rparr>)))))))"

text \<open>\<open>model_dump(mode="json")\<close> of an event, the row appended to the pipeline file.\<close>

definition event_dump :: "platform_event \<Rightarrow> pydict" where
  "event_dump e =
     [(''event_id'', PyStr (event_id e)), (''timestamp_utc'', PyStr (timestamp_utc e)), (''endpoint_id'', PyStr (endpoint_id e)),
      (''source_kind'', PyStr (source_kind e)), (''source_detail'', PyStr (source_detail e)), (''signal_name'', PyStr (signal_name e)),
      (''signal_value'', signal_value e), (''severity'', PyStr (severity e)), (''evidence_tier'', PyStr (evidence_tier e)),
      (''observation_ids'', PyList (map PyStr (observation_ids e))), (''limitations'', PyList (map PyStr (limitations e))),
      (''payload'', PyDict (payload e)), (''schema_version'', PyStr ''platform_event.v1'')]"

definition ingest_raw_observation :: "string \<Rightarrow> string \<Rightarrow> string \<Rightarrow> pydict \<Rightarrow> pydict list \<Rightarrow> (platform_event \<times> pydict list) py_result" where
  "ingest_raw_observation eid ts endpoint raw file =
     bind_r (normalize_raw_observation eid ts endpoint None raw) (\<lambda>e. Inr (e, file @ [event_dump e]))"

section \<open>States\<close>

datatype platform_state = NORMAL | LOCAL_PROXY_ENABLED | PROXY_FAILURE | BYPASS_SUCCESS | ROOT_CAUSE_IDENTIFIED | DEGRADED | BROKEN | RECOVERING

fun platform_state_value :: "platform_state \<Rightarrow> string" where
  "platform_state_value NORMAL = ''NORMAL''"
| "platform_state_value LOCAL_PROXY_ENABLED = ''LOCAL_PROXY_ENABLED''"
| "platform_state_value PROXY_FAILURE = ''PROXY_FAILURE''"
| "platform_state_value BYPASS_SUCCESS = ''BYPASS_SUCCESS''"
| "platform_state_value ROOT_CAUSE_IDENTIFIED = ''ROOT_CAUSE_IDENTIFIED''"
| "platform_state_value DEGRADED = ''DEGRADED''"
| "platform_state_value BROKEN = ''BROKEN''"
| "platform_state_value RECOVERING = ''RECOVERING''"

record platform_rule =
  rule_id :: string
  from_state :: platform_state
  to_state :: platform_state
  signals :: "string list"
  signals_any :: "string list"
  rule_confidence :: rat

definition platform_transition_rules :: "platform_rule list" where
  "platform_transition_rules =
    [\<lparr>rule_id = ''localhost_proxy_enabled'', from_state = NORMAL, to_state = LOCAL_PROXY_ENABLED,
      signals = [''wininet_proxy_enabled'', ''localhost_proxy_detected''], signals_any = [], rule_confidence = 3/4\<rparr>,
     \<lparr>rule_id = ''proxy_path_failure'', from_state = LOCAL_PROXY_ENABLED, to_state = PROXY_FAILURE,
      signals = [''browser_https_failed'', ''wininet_proxy_enabled''], signals_any = [], rule_confidence = 82/100\<rparr>,
     \<lparr>rule_id = ''bypass_success'', from_state = PROXY_FAILURE, to_state = BYPASS_SUCCESS,
      signals = [''proxy_bypass_succeeded'', ''proxied_path_failed''], signals_any = [], rule_confidence = 9/10\<rparr>,
     \<lparr>rule_id = ''root_cause_identified'', from_state = BYPASS_SUCCESS, to_state = ROOT_CAUSE_IDENTIFIED,
      signals = [], signals_any = [''proof_confirmed'', ''sysmon_registry_write''], rule_confidence = 92/100\<rparr>,
     \<lparr>rule_id = ''recovering'', from_state = BROKEN, to_state = RECOVERING,
      signals = [''proxy_disabled'', ''endpoint_health_restored''], signals_any = [], rule_confidence = 85/100\<rparr>,
     \<lparr>rule_id = ''restored_normal'', from_state = RECOVERING, to_state = NORMAL,
      signals = [''browser_https_ok'', ''wininet_proxy_disabled''], signals_any = [], rule_confidence = 88/100\<rparr>]"

text \<open>\<open>v in (n, bool, text)\<close> for zero and one: Python's equality identifies numbers and truth values.\<close>

fun is_switch :: "int \<Rightarrow> pyval \<Rightarrow> bool" where
  "is_switch n (PyInt i) = (i = n)"
| "is_switch n (PyBool b) = ((if b then 1 else 0) = n)"
| "is_switch n (PyFloat v r) = (v = of_int n)"
| "is_switch n (PyStr s) = (s = int_str n)"
| "is_switch n _ = False"

definition event_signals :: "platform_event \<Rightarrow> string list" where
  "event_signals e =
     [signal_name e] @
     (if evidence_tier e = ''TIER_3_CAUSAL_PROOF'' then [''proof_confirmed''] else []) @
     (if source_kind e = ''sysmon'' \<and> py_in ''proxy'' (py_lower (signal_name e)) then [''sysmon_registry_write''] else []) @
     (if signal_name e = ''proxy_enable'' \<and> is_switch 0 (signal_value e) then [''wininet_proxy_disabled'', ''proxy_disabled''] else []) @
     (if signal_name e = ''proxy_enable'' \<and> is_switch 1 (signal_value e) then [''wininet_proxy_enabled''] else [])"

definition signal_set :: "platform_event list \<Rightarrow> string set" where
  "signal_set events = set (concat (map event_signals events))"

record platform_transition =
  tr_from :: platform_state
  tr_to :: platform_state
  tr_rule_id :: string
  triggering_event_ids :: "string list"
  tr_confidence :: rat

definition platform_rule_fires :: "string set \<Rightarrow> platform_state \<Rightarrow> platform_rule \<Rightarrow> bool" where
  "platform_rule_fires observed current r =
     (current = from_state r \<and> (signals r = [] \<or> set (signals r) \<subseteq> observed) \<and>
      (signals_any r = [] \<or> (\<exists>s\<in>set (signals_any r). s \<in> observed)))"

definition rule_triggers :: "platform_event list \<Rightarrow> platform_rule \<Rightarrow> string list" where
  "rule_triggers events r =
     (let ts = map event_id (filter (\<lambda>e. signal_name e \<in> set (signals r @ signals_any r)) events)
      in if ts \<noteq> [] then ts else take 3 (map event_id events))"

fun transition_loop ::
  "platform_event list \<Rightarrow> platform_rule list \<Rightarrow> platform_state \<Rightarrow> platform_transition list \<times> platform_state list" where
  "transition_loop events [] current = ([], [])"
| "transition_loop events (r # rs) current =
     (if platform_rule_fires (signal_set events) current r
      then (let (ts, path) = transition_loop events rs (to_state r)
            in (\<lparr>tr_from = current, tr_to = to_state r, tr_rule_id = rule_id r, triggering_event_ids = rule_triggers events r,
                 tr_confidence = rule_confidence r\<rparr> # ts,
                (if to_state r \<noteq> current then to_state r # path else path)))
      else transition_loop events rs current)"

definition transition_platform_state :: "platform_event list \<Rightarrow> platform_state \<Rightarrow> platform_transition list \<times> platform_state list" where
  "transition_platform_state events initial =
     (let (ts, path) = transition_loop events platform_transition_rules initial in (ts, initial # path))"

section \<open>The evidence graph\<close>

record graph_node =
  node_id :: string
  node_kind :: string
  node_label :: string
  strength :: string
  node_timestamp :: string
  node_event_ids :: "string list"
  node_detail :: pydict
  node_limitations :: "string list"

record graph_edge =
  edge_id :: string
  from_node_id :: string
  to_node_id :: string
  relation :: string
  weight :: rat

record evidence_graph =
  nodes :: "(string \<times> graph_node) list"
  edges :: "graph_edge list"

definition add_node :: "graph_node \<Rightarrow> evidence_graph \<Rightarrow> evidence_graph" where
  "add_node n g = g\<lparr>nodes := dict_set (nodes g) (node_id n) n\<rparr>"

definition link_nodes :: "id_source \<Rightarrow> string \<Rightarrow> string \<Rightarrow> string \<Rightarrow> rat \<Rightarrow> evidence_graph \<Rightarrow> evidence_graph" where
  "link_nodes new_id a b rel wt g =
     g\<lparr>edges := edges g @ [\<lparr>edge_id = new_id ''edge'' (length (edges g)), from_node_id = a, to_node_id = b, relation = rel, weight = wt\<rparr>]\<rparr>"

definition event_node_kind :: "platform_event \<Rightarrow> string" where
  "event_node_kind e =
     (if source_kind e = ''network_telemetry'' then ''network_flow''
      else if py_in ''listener'' (signal_name e) \<or> py_in ''tcp'' (signal_name e) then ''listener''
      else if evidence_tier e = ''TIER_3_CAUSAL_PROOF'' \<and> source_kind e \<in> {''sysmon'', ''registry''} then ''registry_write''
      else ''observation'')"

definition event_node :: "string \<Rightarrow> platform_event \<Rightarrow> graph_node" where
  "event_node nid e =
     \<lparr>node_id = nid, node_kind = event_node_kind e,
      node_label = signal_name e @ ''='' @ py_repr (signal_value e),
      strength = (if evidence_tier e = ''TIER_3_CAUSAL_PROOF'' then ''proof''
                  else if evidence_tier e = ''TIER_1_CORRELATED_SIGNAL'' then ''medium'' else ''weak''),
      node_timestamp = timestamp_utc e, node_event_ids = [event_id e],
      node_detail = [(''source_kind'', PyStr (source_kind e)), (''tier'', PyStr (evidence_tier e))],
      node_limitations = limitations e\<rparr>"

text \<open>
  The three passes of \<open>build_evidence_graph\<close>. The \<open>k\<close>-th node made gets the identifier \<open>new_id ''node'' k\<close>; the second
  component of the state of the first pass is \<open>obs_nodes\<close>, from event identifiers to their nodes.
\<close>

fun graph_events ::
  "id_source \<Rightarrow> nat \<Rightarrow> platform_event list \<Rightarrow> evidence_graph \<times> (string \<times> string) list \<Rightarrow> evidence_graph \<times> (string \<times> string) list" where
  "graph_events new_id k [] st = st"
| "graph_events new_id k (e # es) st =
     graph_events new_id (Suc k) es
       (add_node (event_node (new_id ''node'' k) e) (fst st), dict_set (snd st) (event_id e) (new_id ''node'' k))"

definition graph_process :: "id_source \<Rightarrow> string \<Rightarrow> string \<Rightarrow> pydict \<Rightarrow> evidence_graph \<times> (string \<times> string) list \<Rightarrow> evidence_graph" where
  "graph_process new_id ts nid snapshot st =
     (if snapshot = [] then fst st
      else let g = add_node
                 \<lparr>node_id = nid, node_kind = ''process'',
                  node_label = py_str (py_or (dict_get snapshot ''process_name'') (PyStr ''unknown'')),
                  strength = ''medium'', node_timestamp = ts, node_event_ids = [], node_detail = snapshot,
                  node_limitations = [''Process correlation is not registry writer proof.'']\<rparr> (fst st)
           in foldl (\<lambda>g (eid, n). link_nodes new_id n nid ''correlates_with'' (6/10) g) g (take 1 (snd st)))"

definition arrow_char :: string where
  "arrow_char = [CHR 0xE2, CHR 0x86, CHR 0x92]"

definition transition_node :: "string \<Rightarrow> string \<Rightarrow> platform_transition \<Rightarrow> graph_node" where
  "transition_node ts nid t =
     \<lparr>node_id = nid, node_kind = ''policy_decision'',
      node_label = platform_state_value (tr_from t) @ '' '' @ arrow_char @ '' '' @ platform_state_value (tr_to t),
      strength = ''strong'', node_timestamp = ts, node_event_ids = triggering_event_ids t,
      node_detail = [(''rule_id'', PyStr (tr_rule_id t)), (''confidence'', float3 (tr_confidence t))], node_limitations = []\<rparr>"

definition link_support :: "id_source \<Rightarrow> (string \<times> string) list \<Rightarrow> string \<Rightarrow> evidence_graph \<Rightarrow> string \<Rightarrow> evidence_graph" where
  "link_support new_id obs nid g eid =
     (case map_of obs eid of None \<Rightarrow> g | Some n \<Rightarrow> link_nodes new_id n nid ''supports'' (7/10) g)"

fun graph_transitions ::
  "id_source \<Rightarrow> id_source \<Rightarrow> nat \<Rightarrow> (string \<times> string) list \<Rightarrow> string option \<Rightarrow> platform_transition list \<Rightarrow> evidence_graph \<Rightarrow> evidence_graph" where
  "graph_transitions new_id now k obs prev [] g = g"
| "graph_transitions new_id now k obs prev (t # ts) g =
     (let nid = new_id ''node'' k;
          g1 = add_node (transition_node (now ''node'' k) nid t) g;
          g2 = (case prev of None \<Rightarrow> g1 | Some p \<Rightarrow> (if p = [] then g1 else link_nodes new_id p nid ''caused_by'' (tr_confidence t) g1));
          g3 = foldl (link_support new_id obs nid) g2 (triggering_event_ids t)
      in graph_transitions new_id now (Suc k) obs (Some nid) ts g3)"

definition build_evidence_graph ::
  "id_source \<Rightarrow> id_source \<Rightarrow> platform_event list \<Rightarrow> platform_transition list \<Rightarrow> pydict \<Rightarrow> evidence_graph" where
  "build_evidence_graph new_id now events transitions snapshot =
     (let st = graph_events new_id 0 events (\<lparr>nodes = [], edges = []\<rparr>, []);
          k = length events;
          g = graph_process new_id (now ''node'' k) (new_id ''node'' k) snapshot st
      in graph_transitions new_id now (Suc k) (snd st) None transitions g)"

definition node_dump :: "graph_node \<Rightarrow> pydict" where
  "node_dump n =
     [(''node_id'', PyStr (node_id n)), (''kind'', PyStr (node_kind n)), (''label'', PyStr (node_label n)),
      (''strength'', PyStr (strength n)), (''timestamp_utc'', PyStr (node_timestamp n)),
      (''event_ids'', PyList (map PyStr (node_event_ids n))), (''detail'', PyDict (node_detail n)),
      (''limitations'', PyList (map PyStr (node_limitations n)))]"

definition edge_dump :: "graph_edge \<Rightarrow> pydict" where
  "edge_dump e =
     [(''edge_id'', PyStr (edge_id e)), (''from_node_id'', PyStr (from_node_id e)), (''to_node_id'', PyStr (to_node_id e)),
      (''relation'', PyStr (relation e)), (''weight'', float3 (weight e))]"

definition graph_to_jsonable :: "evidence_graph \<Rightarrow> pydict" where
  "graph_to_jsonable g =
     [(''nodes'', PyList (map (\<lambda>(k, n). PyDict (node_dump n)) (nodes g))),
      (''edges'', PyList (map (\<lambda>e. PyDict (edge_dump e)) (edges g))),
      (''node_count'', PyInt (int (length (nodes g)))), (''edge_count'', PyInt (int (length (edges g))))]"

definition nodes_for_hypothesis :: "evidence_graph \<Rightarrow> string list \<Rightarrow> graph_node list" where
  "nodes_for_hypothesis g ids = List.map_filter (map_of (nodes g)) ids"

section \<open>Hypotheses\<close>

record hypothesis_spec =
  spec_id :: string
  spec_category :: string
  spec_label :: string
  base :: rat
  spec_signals :: "(string \<times> rat) list"

definition hypothesis_catalog :: "hypothesis_spec list" where
  "hypothesis_catalog =
    [\<lparr>spec_id = ''known_developer_tool'', spec_category = ''known_developer_tool'',
      spec_label = ''Known developer tool (Cursor/VS Code/Node dev proxy)'', base = 25/100,
      spec_signals = [(''localhost_proxy_detected'', 12/100), (''wininet_proxy_enabled'', 8/100), (''node_process'', 15/100),
        (''ide_parent'', 10/100), (''allowlist_match'', 12/100)]\<rparr>,
     \<lparr>spec_id = ''security_product'', spec_category = ''security_product'',
      spec_label = ''Security inspection product (Fiddler/Charles/mitmproxy)'', base = 20/100,
      spec_signals = [(''security_tool_process'', 25/100), (''localhost_proxy_detected'', 10/100)]\<rparr>,
     \<lparr>spec_id = ''misconfiguration'', spec_category = ''misconfiguration'',
      spec_label = ''Misconfiguration or stale localhost proxy registry'', base = 30/100,
      spec_signals = [(''browser_https_failed'', 15/100), (''wininet_proxy_enabled'', 10/100), (''no_listener'', 20/100),
        (''proxy_bypass_succeeded'', 12/100)]\<rparr>,
     \<lparr>spec_id = ''potential_malware'', spec_category = ''potential_malware'',
      spec_label = ''Potential unauthorized proxy (requires proof tier)'', base = 10/100,
      spec_signals = [(''unresolved_path'', 15/100), (''external_proxy'', 25/100), (''proof_confirmed_unauthorized'', 30/100)]\<rparr>]"

record ranked_hypothesis =
  hypothesis_id :: string
  category :: string
  hyp_label :: string
  confidence :: rat
  supporting_signals :: "string list"
  rejected_reason :: "string option"

definition context_flags :: "pydict \<Rightarrow> string list" where
  "context_flags ctx =
     (if truthy (dict_get ctx ''allowlist_match'') then [''allowlist_match''] else []) @
     (if truthy (dict_get ctx ''no_listener'') then [''no_listener''] else []) @
     (if truthy (dict_get ctx ''external_proxy'') then [''external_proxy''] else []) @
     (if truthy (dict_get ctx ''security_tool'') then [''security_tool_process''] else []) @
     (if truthy (dict_get ctx ''unresolved_path'') then [''unresolved_path''] else [])"

definition event_flags :: "platform_event \<Rightarrow> string list" where
  "event_flags e =
     [signal_name e] @
     (if evidence_tier e = ''TIER_3_CAUSAL_PROOF'' then [''proof_confirmed''] else []) @
     (if py_in ''node'' (py_lower (py_str (py_or (dict_get (payload e) ''process_name'') (PyStr [])))) then [''node_process''] else []) @
     (if source_kind e = ''sysmon'' then [''sysmon_registry_write''] else [])"

definition derive_signal_flags :: "platform_event list \<Rightarrow> pydict \<Rightarrow> string set" where
  "derive_signal_flags events ctx = set (concat (map event_flags events) @ context_flags ctx)"

definition round_thousandth :: "rat \<Rightarrow> rat" where
  "round_thousandth x = of_int (round_half_even (1000 * x)) / 1000"

definition score_hypothesis :: "string set \<Rightarrow> hypothesis_spec \<Rightarrow> ranked_hypothesis" where
  "score_hypothesis flags sp =
     (let hits = filter (\<lambda>(s, wt). s \<in> flags) (spec_signals sp);
          score = base sp + sum_list (map snd hits)
      in \<lparr>hypothesis_id = spec_id sp, category = spec_category sp, hyp_label = spec_label sp,
          confidence = round_thousandth (min (max score 0) (98/100)), supporting_signals = map fst hits, rejected_reason = None\<rparr>)"

definition adjust_hypothesis :: "string set \<Rightarrow> ranked_hypothesis \<Rightarrow> ranked_hypothesis" where
  "adjust_hypothesis flags h =
     (if category h = ''potential_malware'' \<and> ''proof_confirmed'' \<notin> flags
      then h\<lparr>confidence := min (confidence h) (35/100),
             rejected_reason := Some ''Elevated malware hypothesis requires proof-tier evidence.''\<rparr>
      else h)"

definition rank_hypotheses :: "platform_event list \<Rightarrow> pydict \<Rightarrow> ranked_hypothesis list" where
  "rank_hypotheses events ctx =
     (let flags = derive_signal_flags events ctx;
          ranked = sort_key (\<lambda>h. - confidence h) (map (score_hypothesis flags) hypothesis_catalog)
      in sort_key (\<lambda>h. - confidence h) (map (adjust_hypothesis flags) ranked))"

section \<open>The policy\<close>

datatype outcome = ALLOW | PREVIEW | BLOCK

record policy_rule =
  pr_rule_id :: string
  pr_outcome :: outcome
  min_confidence :: rat
  requires_proof_tier :: bool
  blocked_actions :: "string list"

record policy_config =
  default_outcome :: outcome
  safe_mode :: bool
  rules :: "policy_rule list"

definition production_defaults :: policy_config where
  "production_defaults =
     \<lparr>default_outcome = PREVIEW, safe_mode = True, rules =
       [\<lparr>pr_rule_id = ''destructive_always_block'', pr_outcome = BLOCK, min_confidence = 0, requires_proof_tier = False,
         blocked_actions = [''firewall_reset'', ''adapter_disable'', ''process_kill_arbitrary'']\<rparr>,
        \<lparr>pr_rule_id = ''proof_and_confirmation_allow'', pr_outcome = ALLOW, min_confidence = 85/100, requires_proof_tier = True, blocked_actions = []\<rparr>,
        \<lparr>pr_rule_id = ''high_impact_preview'', pr_outcome = PREVIEW, min_confidence = 70/100, requires_proof_tier = False, blocked_actions = []\<rparr>]\<rparr>"

definition parse_minimal_yaml :: "string \<Rightarrow> policy_config" where
  "parse_minimal_yaml text =
     (let c1 = (if py_in ''safe_mode: false'' (py_lower text) then production_defaults\<lparr>safe_mode := False\<rparr> else production_defaults)
      in if py_in (''default_outcome: '' @ [CHR 0x22] @ ''ALLOW'' @ [CHR 0x22]) text \<or> py_in ''default_outcome: ALLOW'' text
         then c1\<lparr>default_outcome := ALLOW\<rparr> else c1)"

text \<open>\<open>None\<close>: there is no file or it cannot be read.\<close>

definition from_yaml_path :: "string option \<Rightarrow> policy_config" where
  "from_yaml_path text = (case text of None \<Rightarrow> production_defaults | Some t \<Rightarrow> parse_minimal_yaml t)"

text \<open>The loop over the allowing rules: the outcome when it returns, and the codes it adds.\<close>

fun allow_loop :: "rat \<Rightarrow> bool \<Rightarrow> bool \<Rightarrow> policy_rule list \<Rightarrow> outcome option \<times> string list" where
  "allow_loop conf proof confirmed [] = (None, [])"
| "allow_loop conf proof confirmed (r # rs) =
     (if pr_outcome r = ALLOW \<and> conf \<ge> min_confidence r then
        (if requires_proof_tier r \<and> \<not> proof
         then (let (out, codes) = allow_loop conf proof confirmed rs in (out, ''allow_requires_proof_tier'' # codes))
         else if requires_proof_tier r \<and> \<not> confirmed then (Some PREVIEW, [''allow_requires_explicit_confirmation''])
         else (Some ALLOW, [''matched_rule:'' @ pr_rule_id r]))
      else allow_loop conf proof confirmed rs)"

definition evaluate_platform_policy ::
  "ranked_hypothesis option \<Rightarrow> policy_config \<Rightarrow> string option \<Rightarrow> bool \<Rightarrow> bool \<Rightarrow> outcome \<times> string list" where
  "evaluate_platform_policy hyp cfg requested_action proof confirmed =
     (case (case requested_action of
              Some (c # a) \<Rightarrow> find (\<lambda>r. c # a \<in> set (blocked_actions r)) (rules cfg)
            | _ \<Rightarrow> None) of
        Some r \<Rightarrow> (BLOCK, [''blocked_action:'' @ pr_rule_id r])
      | None \<Rightarrow>
          (let codes = (if safe_mode cfg then [''safe_mode_default_preview''] else []);
               conf = (case hyp of None \<Rightarrow> 0 | Some h \<Rightarrow> confidence h)
           in if (\<exists>h. hyp = Some h \<and> category h = ''potential_malware'') \<and> \<not> proof
              then (PREVIEW, codes @ [''malware_hypothesis_requires_proof_tier''])
              else case allow_loop conf proof confirmed (rules cfg) of
                     (Some out, extra) \<Rightarrow> (out, codes @ extra)
                   | (None, extra) \<Rightarrow>
                       (if conf \<ge> 70/100 \<and> \<not> proof
                        then (PREVIEW, codes @ extra @ [''unproven_high_confidence_is_not_execute_authority''])
                        else (default_outcome cfg, codes @ extra))))"

section \<open>The decision\<close>

fun outcome_value :: "outcome \<Rightarrow> string" where
  "outcome_value ALLOW = ''ALLOW''"
| "outcome_value PREVIEW = ''PREVIEW''"
| "outcome_value BLOCK = ''BLOCK''"

record platform_decision =
  decision_id :: string
  decision_timestamp :: string
  decision_endpoint :: string
  run_id :: string
  state_path :: "string list"
  accepted_hypothesis :: string
  hypothesis_ranking :: "pydict list"
  policy_outcome :: outcome
  policy_reason_codes :: "string list"
  evidence_graph_summary :: pydict
  event_ids :: "string list"
  decision_limitations :: "string list"
  audit_signature :: "string option"

definition hypothesis_dump :: "ranked_hypothesis \<Rightarrow> pydict" where
  "hypothesis_dump h =
     [(''hypothesis_id'', PyStr (hypothesis_id h)), (''category'', PyStr (category h)), (''label'', PyStr (hyp_label h)),
      (''confidence'', float3 (confidence h)), (''evidence_node_ids'', PyList []),
      (''supporting_signals'', PyList (map PyStr (supporting_signals h))),
      (''rejected_reason'', (case rejected_reason h of None \<Rightarrow> PyNone | Some r \<Rightarrow> PyStr r))]"

definition decision_dump :: "platform_decision \<Rightarrow> pydict" where
  "decision_dump d =
     [(''decision_id'', PyStr (decision_id d)), (''timestamp_utc'', PyStr (decision_timestamp d)),
      (''endpoint_id'', PyStr (decision_endpoint d)), (''run_id'', PyStr (run_id d)),
      (''state_path'', PyList (map PyStr (state_path d))), (''accepted_hypothesis'', PyStr (accepted_hypothesis d)),
      (''hypothesis_ranking'', PyList (map PyDict (hypothesis_ranking d))),
      (''policy_outcome'', PyStr (outcome_value (policy_outcome d))),
      (''policy_reason_codes'', PyList (map PyStr (policy_reason_codes d))),
      (''evidence_graph_summary'', PyDict (evidence_graph_summary d)), (''event_ids'', PyList (map PyStr (event_ids d))),
      (''limitations'', PyList (map PyStr (decision_limitations d))),
      (''audit_signature'', (case audit_signature d of None \<Rightarrow> PyNone | Some s \<Rightarrow> PyStr s)),
      (''schema_version'', PyStr ''platform_decision.v1'')]"

text \<open>The record with the signature that \<open>sign_decision_record\<close> puts into its dictionary.\<close>

definition sign_record :: "string option \<Rightarrow> string option \<Rightarrow> platform_decision \<Rightarrow> platform_decision" where
  "sign_record api_key secret d = d\<lparr>audit_signature := signature_of (sign_decision_record api_key secret (decision_dump d))\<rparr>"

fun normalize_all :: "id_source \<Rightarrow> id_source \<Rightarrow> nat \<Rightarrow> string \<Rightarrow> pydict list \<Rightarrow> platform_event list py_result" where
  "normalize_all new_id now k endpoint [] = Inr []"
| "normalize_all new_id now k endpoint (r # rs) =
     bind_r (normalize_raw_observation (new_id ''evt'' k) (now ''evt'' k) endpoint None r) (\<lambda>e.
     bind_r (normalize_all new_id now (Suc k) endpoint rs) (\<lambda>es. Inr (e # es)))"

definition has_proof :: "platform_event list \<Rightarrow> bool" where
  "has_proof events = (\<exists>e\<in>set events. evidence_tier e = ''TIER_3_CAUSAL_PROOF'')"

definition decision_limits :: "bool \<Rightarrow> string list" where
  "decision_limits proof =
     [''Observation != Proof; correlation != causation; confidence != certainty.'',
      ''Ordinal confidence scores are not calibrated probabilities.''] @
     (if proof then [] else [''No proof-tier evidence; registry writer not established.''])"

definition process_snapshot :: "pydict \<Rightarrow> pydict py_result" where
  "process_snapshot ctx =
     (let v = dict_get ctx ''process_snapshot''
      in if \<not> truthy v then Inr [] else case v of PyDict d \<Rightarrow> Inr d | _ \<Rightarrow> Inl (no_attribute v ''get''))"

record decision_request =
  dq_endpoint :: string
  dq_action :: "string option"
  dq_confirmed :: bool
  dq_context :: pydict
  dq_policy :: policy_config
  dq_run_id :: string
  dq_api_key :: "string option"
  dq_secret :: "string option"

definition run_platform_decision :: "id_source \<Rightarrow> id_source \<Rightarrow> decision_request \<Rightarrow> pydict list \<Rightarrow> platform_decision py_result" where
  "run_platform_decision new_id now q observations =
     bind_r (normalize_all new_id now 0 (dq_endpoint q) observations) (\<lambda>events.
     bind_r (process_snapshot (dq_context q)) (\<lambda>snapshot.
       let (transitions, path) = transition_platform_state events NORMAL;
           graph = build_evidence_graph new_id now events transitions snapshot;
           ranking = rank_hypotheses events (dq_context q);
           accepted = (case ranking of [] \<Rightarrow> None | h # hs \<Rightarrow> Some h);
           proof = has_proof events;
           (out, codes) = evaluate_platform_policy accepted (dq_policy q) (dq_action q) proof (dq_confirmed q)
       in Inr (sign_record (dq_api_key q) (dq_secret q)
            \<lparr>decision_id = new_id ''dec'' 0, decision_timestamp = now ''dec'' 0, decision_endpoint = dq_endpoint q,
             run_id = (if dq_run_id q = [] then new_id ''run'' 0 else dq_run_id q),
             state_path = map platform_state_value path,
             accepted_hypothesis = (case accepted of None \<Rightarrow> [] | Some h \<Rightarrow> hyp_label h),
             hypothesis_ranking = map hypothesis_dump ranking,
             policy_outcome = out, policy_reason_codes = codes, evidence_graph_summary = graph_to_jsonable graph,
             event_ids = map event_id events, decision_limitations = decision_limits proof, audit_signature = None\<rparr>)))"

section \<open>Persistence and replay\<close>

record platform_files =
  platform_events :: "pydict list"
  platform_decisions :: "pydict list"

definition persist_decision :: "platform_decision \<Rightarrow> platform_event list \<Rightarrow> platform_files \<Rightarrow> platform_files" where
  "persist_decision rec events f =
     f\<lparr>platform_events := platform_events f @ map event_dump events,
       platform_decisions := platform_decisions f @ [decision_dump rec]\<rparr>"

text \<open>
  What the callers of the pipeline do (\<open>run_decision\<close> of the v2 routes): decide, normalise the observations again,
  give the events the identifiers of the record, persist both.
\<close>

definition run_decision ::
  "id_source \<Rightarrow> id_source \<Rightarrow> id_source \<Rightarrow> decision_request \<Rightarrow> pydict list \<Rightarrow> platform_files \<Rightarrow> (platform_decision \<times> platform_files) py_result" where
  "run_decision new_id new_id' now q observations f =
     bind_r (run_platform_decision new_id now q observations) (\<lambda>rec.
     bind_r (normalize_all new_id' now 0 (dq_endpoint q) observations) (\<lambda>again.
       let events = map (\<lambda>(e, eid). e\<lparr>event_id := eid\<rparr>) (zip again (event_ids rec))
       in Inr (rec, persist_decision rec events f)))"

record replay_result =
  original :: platform_decision
  replayed :: platform_decision
  parity_policy_outcome :: bool
  parity_state_path :: bool
  parity_accepted_hypothesis :: bool

text \<open>A replayed decision knows neither the context nor the requested action and uses the default policy and key.\<close>

definition replay_request :: "string option \<Rightarrow> string \<Rightarrow> string \<Rightarrow> decision_request" where
  "replay_request api_key endpoint run =
     \<lparr>dq_endpoint = endpoint, dq_action = None, dq_confirmed = False, dq_context = [], dq_policy = production_defaults,
      dq_run_id = run, dq_api_key = api_key, dq_secret = None\<rparr>"

definition stored_observations :: "platform_decision \<Rightarrow> platform_files \<Rightarrow> pydict list" where
  "stored_observations d f = filter (\<lambda>row. dict_get row ''event_id'' \<in> PyStr ` set (event_ids d)) (platform_events f)"

text \<open>\<open>validate\<close> is the construction of the data model from a row.\<close>

definition load_and_replay ::
  "(pydict \<Rightarrow> platform_decision py_result) \<Rightarrow> id_source \<Rightarrow> id_source \<Rightarrow> string option \<Rightarrow> string \<Rightarrow> platform_files \<Rightarrow> replay_result py_result" where
  "load_and_replay validate new_id now api_key run f =
     (case find (\<lambda>row. py_str (py_or (dict_get row ''run_id'') (PyStr [])) = run) (platform_decisions f) of
        None \<Rightarrow> Inl (KeyError (''Decision run '' @ run @ '' not found''))
      | Some row \<Rightarrow>
          bind_r (validate row) (\<lambda>orig.
          bind_r (run_platform_decision new_id now (replay_request api_key (decision_endpoint orig) (run_id orig))
                    (stored_observations orig f)) (\<lambda>rep.
            Inr \<lparr>original = orig, replayed = rep,
                 parity_policy_outcome = (policy_outcome orig = policy_outcome rep),
                 parity_state_path = (state_path orig = state_path rep),
                 parity_accepted_hypothesis = (accepted_hypothesis orig = accepted_hypothesis rep)\<rparr>)))"

definition replay_events ::
  "id_source \<Rightarrow> id_source \<Rightarrow> string option \<Rightarrow> string \<Rightarrow> pydict \<Rightarrow> platform_event list \<Rightarrow> platform_decision py_result" where
  "replay_events new_id now api_key endpoint ctx events =
     run_platform_decision new_id now (replay_request api_key endpoint [] \<lparr>dq_context := ctx\<rparr>) (map event_dump events)"

section \<open>Normalisation\<close>

definition wf_event :: "platform_event \<Rightarrow> bool" where
  "wf_event e \<longleftrightarrow> source_kind e \<in> set source_kinds \<and> severity e \<in> set severities \<and> evidence_tier e \<in> set event_tiers"

lemma literal_field_Inr: "literal_field opts v = Inr s \<longleftrightarrow> v = PyStr s \<and> s \<in> set opts"
  by (auto simp: literal_field_def split: pyval.splits if_splits)

lemma infer_source_kind_typed: "infer_source_kind raw = Inr k \<Longrightarrow> k \<in> set source_kinds"
  by (auto simp: infer_source_kind_def Let_def source_kinds_def split: if_splits pyval.splits)

lemma normalize_Inr:
  assumes "normalize_raw_observation eid ts ep None raw = Inr e"
  shows "event_id e = eid \<and> timestamp_utc e = ts \<and> endpoint_id e = ep \<and> infer_source_kind raw = Inr (source_kind e) \<and>
     signal_name e = raw_signal raw \<and> raw_tier raw = PyStr (evidence_tier e) \<and> evidence_tier e \<in> set event_tiers \<and>
     severity e \<in> set severities"
  using assms by (auto simp: normalize_raw_observation_def bind_r_Inr literal_field_Inr)

lemma all_strings_map [simp]: "all_strings (map PyStr xs) = Inr xs"
  by (induction xs) auto

lemma py_or_list [simp]: "py_or (PyList xs) (PyList []) = PyList xs"
  by (simp add: py_or_def)

text \<open>A row of the pipeline file normalises again, to an event with the same signals.\<close>

lemma infer_source_kind_dump:
  "source_kind e \<in> set source_kinds \<Longrightarrow>
     infer_source_kind (event_dump e) = Inr (if source_kind e = ''network_telemetry'' then ''etw'' else source_kind e)"
  by (auto simp: infer_source_kind_def event_dump_def source_kinds_def dict_get_def py_or_def py_eval)

lemma normalize_dump:
  assumes "wf_event e" and "signal_name e \<noteq> []"
  shows "\<exists>e'. normalize_raw_observation eid ts ep None (event_dump e) = Inr e' \<and>
     event_signals e' = event_signals e \<and> evidence_tier e' = evidence_tier e"
proof -
  have k: "infer_source_kind (event_dump e) = Inr (if source_kind e = ''network_telemetry'' then ''etw'' else source_kind e)"
    using assms(1) by (simp add: wf_event_def infer_source_kind_dump)
  have t: "evidence_tier e \<noteq> []" "severity e \<noteq> []" using assms(1) by (auto simp: wf_event_def event_tiers_def severities_def)
  have "raw_tier (event_dump e) = PyStr (evidence_tier e)" "raw_signal (event_dump e) = signal_name e"
    using t assms(2) by (auto simp: raw_tier_def raw_signal_def event_dump_def dict_get_def py_or_def)
  moreover have "literal_field event_tiers (PyStr (evidence_tier e)) = Inr (evidence_tier e)"
    "literal_field severities (py_or (dict_get (event_dump e) ''severity'') (PyStr ''info'')) = Inr (severity e)"
    using assms(1) t by (auto simp: wf_event_def literal_field_def event_dump_def dict_get_def py_or_def)
  moreover have "dict_get (event_dump e) ''observation_ids'' = PyList (map PyStr (observation_ids e))"
    "dict_get (event_dump e) ''limitations'' = PyList (map PyStr (limitations e))"
    "\<not> has_key (event_dump e) ''value''" "dict_get (event_dump e) ''signal_value'' = signal_value e"
    by (auto simp: event_dump_def dict_get_def has_key_def)
  ultimately show ?thesis using k by (simp add: normalize_raw_observation_def event_signals_def)
qed

lemma normalize_all_dump:
  assumes "\<forall>e\<in>set es. wf_event e \<and> signal_name e \<noteq> []"
  shows "\<exists>es'. normalize_all new_id now k ep (map event_dump es) = Inr es' \<and>
     map event_signals es' = map event_signals es \<and> map evidence_tier es' = map evidence_tier es"
  using assms
proof (induction es arbitrary: k)
  case (Cons e es)
  then obtain es' where "normalize_all new_id now (Suc k) ep (map event_dump es) = Inr es'"
    "map event_signals es' = map event_signals es" "map evidence_tier es' = map evidence_tier es" by auto
  moreover obtain e' where "normalize_raw_observation (new_id ''evt'' k) (now ''evt'' k) ep None (event_dump e) = Inr e'"
    "event_signals e' = event_signals e" "evidence_tier e' = evidence_tier e"
    using normalize_dump [of e "new_id ''evt'' k" "now ''evt'' k" ep] Cons.prems by auto
  ultimately show ?case by simp
qed simp

lemma normalize_all_typed:
  "normalize_all new_id now k ep rs = Inr es \<Longrightarrow>
     length es = length rs \<and> (\<forall>e\<in>set es. wf_event e) \<and> map signal_name es = map raw_signal rs"
proof (induction rs arbitrary: k es)
  case (Cons r rs)
  then obtain e es' where e: "normalize_raw_observation (new_id ''evt'' k) (now ''evt'' k) ep None r = Inr e"
    and es: "normalize_all new_id now (Suc k) ep rs = Inr es'" "es = e # es'" by (auto simp: bind_r_Inr)
  show ?case using normalize_Inr [OF e] Cons.IH [OF es(1)] es(2) infer_source_kind_typed [of r]
    by (auto simp: wf_event_def)
qed simp

text \<open>Two normalisations of the same rows differ in identifiers and time stamps only.\<close>

lemma normalize_again:
  assumes "normalize_raw_observation eid ts ep None r = Inr e"
  shows "normalize_raw_observation eid' ts' ep' None r = Inr (e\<lparr>event_id := eid', timestamp_utc := ts', endpoint_id := ep'\<rparr>)"
  using assms by (auto simp: normalize_raw_observation_def bind_r_Inr)

lemma normalize_all_again:
  assumes "normalize_all new_id now k ep rs = Inr es"
  shows "\<exists>es'. normalize_all new_id' now' k ep' rs = Inr es' \<and>
     map event_signals es' = map event_signals es \<and> map evidence_tier es' = map evidence_tier es \<and>
     (\<forall>e\<in>set es'. wf_event e) \<and> map signal_name es' = map signal_name es \<and> length es' = length es"
  using assms
proof (induction rs arbitrary: k es)
  case (Cons r rs)
  then obtain e es1 where e: "normalize_raw_observation (new_id ''evt'' k) (now ''evt'' k) ep None r = Inr e"
    and es: "normalize_all new_id now (Suc k) ep rs = Inr es1" "es = e # es1" by (auto simp: bind_r_Inr)
  let ?e = "e\<lparr>event_id := new_id' ''evt'' k, timestamp_utc := now' ''evt'' k, endpoint_id := ep'\<rparr>"
  have e': "normalize_raw_observation (new_id' ''evt'' k) (now' ''evt'' k) ep' None r = Inr ?e" by (rule normalize_again [OF e])
  have "wf_event ?e" using normalize_Inr [OF e] infer_source_kind_typed [of r] by (auto simp: wf_event_def)
  moreover obtain es2 where "normalize_all new_id' now' (Suc k) ep' rs = Inr es2"
    "map event_signals es2 = map event_signals es1" "map evidence_tier es2 = map evidence_tier es1"
    "\<forall>e\<in>set es2. wf_event e" "map signal_name es2 = map signal_name es1" "length es2 = length es1"
    using Cons.IH [OF es(1)] by auto
  moreover have "event_signals ?e = event_signals e" by (simp add: event_signals_def)
  ultimately show ?case using e' es(2) by simp
qed simp

section \<open>The path\<close>

lemma signal_set_cong: "map event_signals es = map event_signals es' \<Longrightarrow> signal_set es = signal_set es'"
  by (simp add: signal_set_def)

lemma transition_path_signals:
  "signal_set es = signal_set es' \<Longrightarrow> snd (transition_loop es rs c) = snd (transition_loop es' rs c)"
  by (induction rs arbitrary: c) (auto simp: Let_def case_prod_beta)

lemma bex_map_iff: "(\<exists>e\<in>set es. f e = x) \<longleftrightarrow> x \<in> set (map f es)"
  by auto

lemma has_proof_tiers: "has_proof es \<longleftrightarrow> ''TIER_3_CAUSAL_PROOF'' \<in> set (map evidence_tier es)"
  unfolding has_proof_def by (rule bex_map_iff)

section \<open>The graph\<close>

definition node_ids :: "evidence_graph \<Rightarrow> string set" where
  "node_ids g = fst ` set (nodes g)"

definition closed_graph :: "evidence_graph \<Rightarrow> bool" where
  "closed_graph g \<longleftrightarrow>
     (\<forall>e\<in>set (edges g). from_node_id e \<in> node_ids g \<and> to_node_id e \<in> node_ids g \<and> 0 < weight e \<and> weight e \<le> 1) \<and>
     (\<forall>(k, n)\<in>set (nodes g). node_id n = k) \<and> distinct (map fst (nodes g))"

lemma set_dict_set: "set (dict_set d k v) \<subseteq> insert (k, v) (set d)"
  by (induction d k v rule: dict_set.induct) auto

lemma node_ids_add [simp]: "node_ids (add_node n g) = insert (node_id n) (node_ids g)"
  by (simp add: node_ids_def add_node_def keys_dict_set)

lemma node_ids_link [simp]: "node_ids (link_nodes new_id a b rel wt g) = node_ids g"
  by (simp add: node_ids_def link_nodes_def)

lemma add_node_closed [intro]: "closed_graph g \<Longrightarrow> closed_graph (add_node n g)"
  using set_dict_set [of "nodes g" "node_id n" n] distinct_dict_set [of "nodes g" "node_id n" n]
  unfolding closed_graph_def node_ids_add by (auto simp: add_node_def)

lemma link_closed [intro]:
  "closed_graph g \<Longrightarrow> a \<in> node_ids g \<Longrightarrow> b \<in> node_ids g \<Longrightarrow> 0 < wt \<Longrightarrow> wt \<le> 1 \<Longrightarrow> closed_graph (link_nodes new_id a b rel wt g)"
  unfolding closed_graph_def node_ids_link by (auto simp: link_nodes_def)

lemma event_node_id: "node_id (event_node nid e) = nid"
  by (simp add: event_node_def)

lemma graph_events_closed:
  "closed_graph (fst st) \<Longrightarrow> \<forall>p\<in>set (snd st). snd p \<in> node_ids (fst st) \<Longrightarrow>
     closed_graph (fst (graph_events new_id k es st)) \<and>
     (\<forall>p\<in>set (snd (graph_events new_id k es st)). snd p \<in> node_ids (fst (graph_events new_id k es st)))"
proof (induction es arbitrary: k st)
  case (Cons e es)
  let ?n = "new_id ''node'' k"
  have "snd p = ?n \<or> snd p \<in> node_ids (fst st)" if "p \<in> set (dict_set (snd st) (event_id e) ?n)" for p
    using that set_dict_set [of "snd st" "event_id e" ?n] Cons.prems(2) by auto
  then have "\<forall>p\<in>set (dict_set (snd st) (event_id e) ?n). snd p \<in> node_ids (add_node (event_node ?n e) (fst st))"
    by (auto simp: event_node_id)
  then show ?case unfolding graph_events.simps by (intro Cons.IH) (use Cons.prems(1) in auto)
qed simp

lemma graph_process_closed:
  assumes "closed_graph (fst st)" and "\<forall>p\<in>set (snd st). snd p \<in> node_ids (fst st)"
  shows "closed_graph (graph_process new_id ts nid snapshot st) \<and>
     node_ids (fst st) \<subseteq> node_ids (graph_process new_id ts nid snapshot st)"
  using assms by (cases "snd st") (auto simp: graph_process_def Let_def case_prod_beta)

lemma link_support_closed:
  assumes "closed_graph g" and "\<forall>p\<in>set obs. snd p \<in> node_ids g" and "nid \<in> node_ids g"
  shows "closed_graph (foldl (link_support new_id obs nid) g es) \<and> node_ids (foldl (link_support new_id obs nid) g es) = node_ids g"
proof -
  have "closed_graph (link_support new_id obs nid h e) \<and> node_ids (link_support new_id obs nid h e) = node_ids g"
    if h: "closed_graph h \<and> node_ids h = node_ids g" for h e
  proof (cases "map_of obs e")
    case (Some n)
    then have "n \<in> node_ids g" using assms(2) by (auto dest!: map_of_SomeD)
    with Some h assms(3) show ?thesis by (auto simp: link_support_def)
  qed (use h in \<open>simp add: link_support_def\<close>)
  then show ?thesis using assms(1) by (intro foldl_invariant [where P = "\<lambda>h. closed_graph h \<and> node_ids h = node_ids g"]) auto
qed

lemma graph_transitions_closed:
  assumes "closed_graph g" and "\<forall>p\<in>set obs. snd p \<in> node_ids g" and "\<And>p. prev = Some p \<Longrightarrow> p \<in> node_ids g"
    and "\<forall>t\<in>set ts. 0 < tr_confidence t \<and> tr_confidence t \<le> 1"
  shows "closed_graph (graph_transitions new_id now k obs prev ts g)"
  using assms
proof (induction ts arbitrary: k prev g)
  case (Cons t ts)
  let ?n = "new_id ''node'' k"
  define g1 where "g1 = add_node (transition_node (now ''node'' k) ?n t) g"
  define g2 where "g2 = (case prev of None \<Rightarrow> g1 | Some p \<Rightarrow> (if p = [] then g1 else link_nodes new_id p ?n ''caused_by'' (tr_confidence t) g1))"
  define g3 where "g3 = foldl (link_support new_id obs ?n) g2 (triggering_event_ids t)"
  have g1: "closed_graph g1" "node_ids g1 = insert ?n (node_ids g)"
    using Cons.prems(1) by (auto simp: g1_def transition_node_def)
  have g2: "closed_graph g2" "node_ids g2 = node_ids g1"
    using g1 Cons.prems(3,4) by (auto simp: g2_def split: option.split)
  have "\<forall>p\<in>set obs. snd p \<in> node_ids g2" "?n \<in> node_ids g2" using g1(2) g2(2) Cons.prems(2) by auto
  then have g3: "closed_graph g3" "node_ids g3 = node_ids g2"
    using link_support_closed [OF g2(1)] by (simp_all add: g3_def)
  have "closed_graph (graph_transitions new_id now (Suc k) obs (Some ?n) ts g3)"
    using g3 g2(2) g1(2) Cons.prems(2,4) by (intro Cons.IH) auto
  then show ?case by (simp only: graph_transitions.simps Let_def g1_def g2_def g3_def)
qed simp

lemma transition_confidences:
  "\<forall>r\<in>set rs. 0 < rule_confidence r \<and> rule_confidence r \<le> 1 \<Longrightarrow>
     \<forall>t\<in>set (fst (transition_loop es rs c)). 0 < tr_confidence t \<and> tr_confidence t \<le> 1"
  by (induction rs arbitrary: c) (auto simp: Let_def case_prod_beta)

lemma platform_rule_confidences: "\<forall>r\<in>set platform_transition_rules. 0 < rule_confidence r \<and> rule_confidence r \<le> 1"
  by (simp add: platform_transition_rules_def)

lemma platform_confidences: "\<forall>t\<in>set (fst (transition_platform_state es c)). 0 < tr_confidence t \<and> tr_confidence t \<le> 1"
  using transition_confidences [OF platform_rule_confidences, of es c] by (simp add: transition_platform_state_def case_prod_beta)

section \<open>The ranking\<close>

lemma round_half_even_le: "x \<le> of_int n \<Longrightarrow> round_half_even x \<le> n"
  using round_half_even_mono [of x "of_int n"] by simp

lemma round_half_even_ge: "of_int n \<le> x \<Longrightarrow> n \<le> round_half_even x"
  using round_half_even_mono [of "of_int n" x] by simp

lemma round_thousandth_le: "1000 * x \<le> of_int n \<Longrightarrow> round_thousandth x \<le> of_int n / 1000"
  using round_half_even_le [of "1000 * x" n] by (simp add: round_thousandth_def)

lemma round_thousandth_ge: "of_int n \<le> 1000 * x \<Longrightarrow> of_int n / 1000 \<le> round_thousandth x"
  using round_half_even_ge [of n "1000 * x"] by (simp add: round_thousandth_def)

lemma hd_sort_key:
  assumes "xs \<noteq> []"
  shows "hd (sort_key f xs) \<in> set xs \<and> (\<forall>x\<in>set xs. f (hd (sort_key f xs)) \<le> f x)"
proof -
  obtain y ys where s: "sort_key f xs = y # ys" using assms by (cases "sort_key f xs") (auto dest: arg_cong [where f = length])
  have st: "set (sort_key f xs) = set xs" by simp
  have "sorted (map f (y # ys))" using sorted_sort_key [of f xs] s by simp
  then have "\<forall>x\<in>set (y # ys). f y \<le> f x" by auto
  then show ?thesis using st s by auto
qed

definition bounded_confidence :: "rat \<Rightarrow> rat \<Rightarrow> ranked_hypothesis \<Rightarrow> bool" where
  "bounded_confidence lo hi h \<longleftrightarrow> lo \<le> confidence h \<and> confidence h \<le> hi"

lemma sum_hits:
  fixes ws :: "(string \<times> rat) list"
  assumes "\<forall>p\<in>set ws. 0 \<le> snd p"
  shows "0 \<le> sum_list (map snd (filter P ws)) \<and> sum_list (map snd (filter P ws)) \<le> sum_list (map snd ws)"
  using assms by (induction ws) auto

lemma score_bounds:
  assumes "\<forall>p\<in>set (spec_signals sp). 0 \<le> snd p" and "of_int lo = 1000 * base sp" and "0 \<le> lo" and "lo \<le> 980"
    and "1000 * (base sp + sum_list (map snd (spec_signals sp))) = of_int hi"
  shows "bounded_confidence (of_int lo / 1000) (of_int hi / 1000) (score_hypothesis flags sp)"
proof -
  define x where "x = base sp + sum_list (map snd (filter (\<lambda>(s, wt). s \<in> flags) (spec_signals sp)))"
  have x: "of_int lo \<le> 1000 * x" "1000 * x \<le> of_int hi"
    using sum_hits [OF assms(1), of "\<lambda>(s, wt). s \<in> flags"] assms(2,5) by (auto simp: x_def algebra_simps)
  have "of_int lo \<le> 1000 * min (max x 0) (98/100)"
    using x(1) assms(4) by (auto simp: min_def max_def)
  moreover have "1000 * min (max x 0) (98/100) \<le> of_int hi"
    using x assms(3) by (auto simp: min_def max_def)
  ultimately show ?thesis
    unfolding bounded_confidence_def score_hypothesis_def Let_def x_def [symmetric] ranked_hypothesis.select_convs
    by (intro conjI round_thousandth_le round_thousandth_ge)
qed

lemma catalog_cases:
  "set hypothesis_catalog = {hypothesis_catalog ! 0, hypothesis_catalog ! 1, hypothesis_catalog ! 2, hypothesis_catalog ! 3}"
  "spec_id (hypothesis_catalog ! 0) \<noteq> ''misconfiguration''" "spec_id (hypothesis_catalog ! 1) \<noteq> ''misconfiguration''"
  "spec_id (hypothesis_catalog ! 2) = ''misconfiguration''" "spec_id (hypothesis_catalog ! 3) \<noteq> ''misconfiguration''"
  by (simp_all add: hypothesis_catalog_def)

lemma score_id: "hypothesis_id (score_hypothesis flags sp) = spec_id sp"
  by (simp add: score_hypothesis_def Let_def)

lemma misconfiguration_unique:
  "h \<in> set (map (score_hypothesis flags) hypothesis_catalog) \<Longrightarrow> hypothesis_id h = ''misconfiguration'' \<Longrightarrow>
     h = score_hypothesis flags (hypothesis_catalog ! 2)"
  using catalog_cases(2-) by (auto simp only: set_map catalog_cases(1) image_insert image_empty insert_iff empty_iff score_id)

lemma catalog_bounds:
  assumes "h \<in> set (map (score_hypothesis flags) hypothesis_catalog)"
  shows "1/10 \<le> confidence h \<and> confidence h \<le> (if hypothesis_id h = ''misconfiguration'' then 87/100 else 82/100)"
proof -
  have b: "bounded_confidence (of_int 250 / 1000) (of_int 820 / 1000) (score_hypothesis flags (hypothesis_catalog ! 0))"
    "bounded_confidence (of_int 200 / 1000) (of_int 550 / 1000) (score_hypothesis flags (hypothesis_catalog ! 1))"
    "bounded_confidence (of_int 300 / 1000) (of_int 870 / 1000) (score_hypothesis flags (hypothesis_catalog ! 2))"
    "bounded_confidence (of_int 100 / 1000) (of_int 800 / 1000) (score_hypothesis flags (hypothesis_catalog ! 3))"
    by (rule score_bounds; simp add: hypothesis_catalog_def)+
  then show ?thesis using assms catalog_cases(2-)
    by (auto simp: bounded_confidence_def score_id catalog_cases(1) simp del: One_nat_def)
qed

definition stale_proxy_flags :: "string set" where
  "stale_proxy_flags = {''browser_https_failed'', ''wininet_proxy_enabled'', ''no_listener'', ''proxy_bypass_succeeded''}"

lemma misconfiguration_score:
  "85/100 \<le> confidence (score_hypothesis flags (hypothesis_catalog ! 2)) \<longleftrightarrow> stale_proxy_flags \<subseteq> flags"
proof -
  define a b c d where "a = (''browser_https_failed'' \<in> flags)" and "b = (''wininet_proxy_enabled'' \<in> flags)"
    and "c = (''no_listener'' \<in> flags)" and "d = (''proxy_bypass_succeeded'' \<in> flags)"
  have "confidence (score_hypothesis flags (hypothesis_catalog ! 2)) =
      round_thousandth (min (max (30/100 + ((if a then 15/100 else 0) + (if b then 10/100 else 0) + (if c then 20/100 else 0) +
        (if d then 12/100 else 0))) 0) (98/100))"
    by (simp add: score_hypothesis_def hypothesis_catalog_def Let_def a_def b_def c_def d_def)
  also have "85/100 \<le> \<dots> \<longleftrightarrow> a \<and> b \<and> c \<and> d"
    by (cases a; cases b; cases c; cases d; simp add: round_thousandth_def round_half_even_def)
  also have "\<dots> \<longleftrightarrow> stale_proxy_flags \<subseteq> flags" by (simp add: stale_proxy_flags_def a_def b_def c_def d_def)
  finally show ?thesis .
qed

lemma adjust_confidence: "hypothesis_id (adjust_hypothesis flags h) = hypothesis_id h" "category (adjust_hypothesis flags h) = category h"
  "confidence (adjust_hypothesis flags h) = (if category h = ''potential_malware'' \<and> ''proof_confirmed'' \<notin> flags then min (confidence h) (35/100) else confidence h)"
  by (auto simp: adjust_hypothesis_def)

lemma rank_mset:
  "mset (rank_hypotheses events ctx) =
     mset (map (adjust_hypothesis (derive_signal_flags events ctx)) (map (score_hypothesis (derive_signal_flags events ctx)) hypothesis_catalog))"
  by (simp add: rank_hypotheses_def Let_def multiset.map_comp)

lemma rank_set:
  "set (rank_hypotheses events ctx) =
     adjust_hypothesis (derive_signal_flags events ctx) ` set (map (score_hypothesis (derive_signal_flags events ctx)) hypothesis_catalog)"
  using arg_cong [OF rank_mset, of set_mset events ctx] by (simp add: image_image)

text \<open>The accepted hypothesis reaches the threshold of the allowing rule only on the four signs of a stale proxy.\<close>

lemma top_confidence:
  "85/100 \<le> confidence (hd (rank_hypotheses events ctx)) \<longleftrightarrow> stale_proxy_flags \<subseteq> derive_signal_flags events ctx"
proof -
  let ?flags = "derive_signal_flags events ctx" and ?r = "rank_hypotheses events ctx"
  let ?m = "score_hypothesis ?flags (hypothesis_catalog ! 2)"
  have ne: "?r \<noteq> []" using rank_set [of events ctx] by (auto simp: hypothesis_catalog_def)
  have top: "hd ?r \<in> set ?r" "\<forall>h\<in>set ?r. confidence h \<le> confidence (hd ?r)"
  proof -
    have "\<exists>xs. ?r = sort_key (\<lambda>h. - confidence h) xs" by (auto simp: rank_hypotheses_def Let_def)
    then obtain xs where xs: "?r = sort_key (\<lambda>h. - confidence h) xs" by blast
    then have "xs \<noteq> []" using ne by auto
    then show "hd ?r \<in> set ?r" "\<forall>h\<in>set ?r. confidence h \<le> confidence (hd ?r)"
      using hd_sort_key [of xs "\<lambda>h. - confidence h"] xs by auto
  qed
  have m: "adjust_hypothesis ?flags ?m = ?m" "?m \<in> set (map (score_hypothesis ?flags) hypothesis_catalog)"
    by (auto simp: adjust_hypothesis_def score_hypothesis_def hypothesis_catalog_def Let_def)
  obtain h where h: "h \<in> set (map (score_hypothesis ?flags) hypothesis_catalog)" "hd ?r = adjust_hypothesis ?flags h"
    using top(1) unfolding rank_set by blast
  show ?thesis
  proof
    assume a: "85/100 \<le> confidence (hd ?r)"
    then have "85/100 \<le> confidence h" using h(2) adjust_confidence(3) [of ?flags h] by (auto simp: min_def split: if_splits)
    then have "hypothesis_id h = ''misconfiguration''" using catalog_bounds [OF h(1)] by (auto split: if_splits)
    then have "h = ?m" by (rule misconfiguration_unique [OF h(1)])
    then show "stale_proxy_flags \<subseteq> ?flags" using \<open>85/100 \<le> confidence h\<close> misconfiguration_score by blast
  next
    assume "stale_proxy_flags \<subseteq> ?flags"
    then have "85/100 \<le> confidence ?m" by (simp only: misconfiguration_score)
    moreover have "?m \<in> set ?r" unfolding rank_set using m by (metis imageI)
    ultimately show "85/100 \<le> confidence (hd ?r)" using top(2) by force
  qed
qed

section \<open>The composed decision\<close>

definition manual_only_actions :: "string set" where
  "manual_only_actions = {''firewall_reset'', ''adapter_disable'', ''process_kill_arbitrary''}"

lemma policy_production:
  "fst (evaluate_platform_policy (Some h) production_defaults act proof confirmed) =
     (if \<exists>a\<in>manual_only_actions. act = Some a then BLOCK
      else if proof \<and> confirmed \<and> 85/100 \<le> confidence h then ALLOW else PREVIEW)"
proof -
  have f: "(case act of Some (c # a) \<Rightarrow> find (\<lambda>r. c # a \<in> set (blocked_actions r)) (rules production_defaults) | _ \<Rightarrow> None) =
      (if \<exists>a\<in>manual_only_actions. act = Some a then Some (hd (rules production_defaults)) else None)"
    by (auto simp: production_defaults_def manual_only_actions_def split: option.split list.split)
  show ?thesis unfolding evaluate_platform_policy_def f by (auto simp: production_defaults_def Let_def)
qed

lemma policy_unconfirmed:
  "fst (evaluate_platform_policy hyp production_defaults None proof False) = PREVIEW"
  by (auto simp: evaluate_platform_policy_def production_defaults_def Let_def)

lemma signature_dump: "signature_of (decision_dump d) = (case audit_signature d of Some (c # s) \<Rightarrow> Some (c # s) | _ \<Rightarrow> None)"
  by (auto simp: signature_of_def decision_dump_def dict_get_def split: option.split list.split)

lemma signed_record_verifies:
  "verify_decision_record api_key secret (decision_dump (sign_record api_key secret d)) = Inr (True, ''ok'')"
proof -
  let ?h = "hmac_sha256_hexdigest (signing_key secret api_key) (canonical_payload (decision_dump d))"
  have "canonical_payload (decision_dump (sign_record api_key secret d)) = canonical_payload (decision_dump d)"
    by (simp add: canonical_payload_def decision_dump_def sign_record_def)
  moreover have "signature_of (sign_decision_record api_key secret (decision_dump d)) = Some ?h"
    using digest_ne [of "signing_key secret api_key"] by (auto simp: sign_decision_record_def signature_of_def split: list.splits)
  ultimately show ?thesis
    using digest_ne [of "signing_key secret api_key" "canonical_payload (decision_dump d)"]
    by (auto simp: verify_ok_iff signature_dump sign_record_def split: list.splits)
qed

lemma run_platform_decision_Inr:
  assumes "run_platform_decision new_id now q observations = Inr d"
  obtains events where "normalize_all new_id now 0 (dq_endpoint q) observations = Inr events"
    and "state_path d = map platform_state_value (snd (transition_platform_state events NORMAL))"
    and "policy_outcome d = fst (evaluate_platform_policy (Some (hd (rank_hypotheses events (dq_context q)))) (dq_policy q) (dq_action q)
           (has_proof events) (dq_confirmed q))"
    and "event_ids d = map event_id events" and "decision_limitations d = decision_limits (has_proof events)"
    and "decision_endpoint d = dq_endpoint q"
    and "\<exists>snapshot. evidence_graph_summary d =
           graph_to_jsonable (build_evidence_graph new_id now events (fst (transition_platform_state events NORMAL)) snapshot)"
    and "verify_decision_record (dq_api_key q) (dq_secret q) (decision_dump d) = Inr (True, ''ok'')"
proof -
  obtain events snapshot where e: "normalize_all new_id now 0 (dq_endpoint q) observations = Inr events"
    "process_snapshot (dq_context q) = Inr snapshot"
    using assms by (auto simp: run_platform_decision_def bind_r_Inr)
  have "rank_hypotheses events (dq_context q) \<noteq> []" using rank_set [of events "dq_context q"] by (auto simp: catalog_cases(1))
  then obtain h hs where "rank_hypotheses events (dq_context q) = h # hs" by (cases "rank_hypotheses events (dq_context q)") auto
  then show ?thesis using that [OF e(1)] assms e
    using signed_record_verifies
    by (auto simp: run_platform_decision_def Let_def case_prod_beta) (auto simp: sign_record_def)
qed

lemma stored_observations_persist:
  assumes "\<forall>row\<in>set (platform_events f). dict_get row ''event_id'' \<notin> PyStr ` set (event_ids rec)"
    and "map event_id events = event_ids rec"
  shows "stored_observations rec (persist_decision rec events f) = map event_dump events"
proof -
  have "dict_get (event_dump e) ''event_id'' \<in> PyStr ` set (event_ids rec)" if "e \<in> set events" for e
    using that unfolding assms(2) [symmetric] by (simp add: event_dump_def dict_get_def)
  then show ?thesis using assms(1) by (simp add: stored_observations_def persist_decision_def filter_id_conv)
qed

lemma find_persist:
  assumes "\<forall>row\<in>set (platform_decisions f). py_str (py_or (dict_get row ''run_id'') (PyStr [])) \<noteq> run_id rec"
  shows "find (\<lambda>row. py_str (py_or (dict_get row ''run_id'') (PyStr [])) = run_id rec) (platform_decisions (persist_decision rec events f)) =
     Some (decision_dump rec)"
proof -
  have "py_str (py_or (dict_get (decision_dump rec) ''run_id'') (PyStr [])) = run_id rec"
    by (auto simp: decision_dump_def dict_get_def py_or_def)
  moreover have "find P xs = None \<Longrightarrow> P x \<Longrightarrow> find P (xs @ [x]) = Some x" for P :: "pydict \<Rightarrow> bool" and xs x
    by (induction xs) (auto split: if_splits)
  ultimately show ?thesis using assms by (auto simp: persist_decision_def find_None_iff)
qed

text \<open>The stored events replay to the path and the proof flag of the events they came from.\<close>

lemma replay_stored:
  assumes "\<forall>e\<in>set es. wf_event e \<and> signal_name e \<noteq> []"
  obtains rep where "run_platform_decision new_id now (replay_request api_key ep run) (map event_dump es) = Inr rep"
    and "state_path rep = map platform_state_value (snd (transition_platform_state es NORMAL))"
    and "decision_limitations rep = decision_limits (has_proof es)" and "policy_outcome rep = PREVIEW"
proof -
  obtain es' where es': "normalize_all new_id now 0 ep (map event_dump es) = Inr es'"
    "map event_signals es' = map event_signals es" "map evidence_tier es' = map evidence_tier es"
    using normalize_all_dump [OF assms] by blast
  let ?q = "replay_request api_key ep run"
  have "normalize_all new_id now 0 (dq_endpoint ?q) (map event_dump es) = Inr es'" "process_snapshot (dq_context ?q) = Inr []"
    using es'(1) by (auto simp: replay_request_def process_snapshot_def dict_get_def)
  then obtain rep where rep: "run_platform_decision new_id now ?q (map event_dump es) = Inr rep"
    by (auto simp: run_platform_decision_def Let_def case_prod_beta)
  have "snd (transition_platform_state es' NORMAL) = snd (transition_platform_state es NORMAL)"
    using transition_path_signals [OF signal_set_cong [OF es'(2)]] by (simp add: transition_platform_state_def case_prod_beta)
  moreover have "has_proof es' = has_proof es" by (simp only: has_proof_tiers es'(3))
  ultimately show ?thesis
    using es'(1) that [OF rep] by (rule_tac run_platform_decision_Inr [OF rep]) (auto simp: replay_request_def policy_unconfirmed)
qed

section \<open>Properties\<close>

text \<open>
  C16. When a decision allows an action. Under the default policy a decision blocks exactly the destructive actions; it
  allows any other request exactly when some event carries causal proof, the operator confirmed, and all
  four signs of a stale proxy were observed (no other combination of signals lifts the accepted
  hypothesis to the threshold); everything else is a preview. The record it returns passes signature verification.
\<close>

theorem decision_allow_iff:
  assumes "run_platform_decision new_id now q observations = Inr d"
    and "normalize_all new_id now 0 (dq_endpoint q) observations = Inr events"
    and "dq_policy q = production_defaults"
  shows "policy_outcome d =
      (if \<exists>a\<in>manual_only_actions. dq_action q = Some a then BLOCK
       else if has_proof events \<and> dq_confirmed q \<and> stale_proxy_flags \<subseteq> derive_signal_flags events (dq_context q) then ALLOW
       else PREVIEW) \<and>
     verify_decision_record (dq_api_key q) (dq_secret q) (decision_dump d) = Inr (True, ''ok'')"
proof -
  have "verify_decision_record (dq_api_key q) (dq_secret q) (decision_dump d) = Inr (True, ''ok'')"
    and "policy_outcome d = fst (evaluate_platform_policy (Some (hd (rank_hypotheses events (dq_context q)))) production_defaults
      (dq_action q) (has_proof events) (dq_confirmed q))"
    by (rule run_platform_decision_Inr [OF assms(1)]; use assms(2,3) in simp)+
  then show ?thesis by (simp only: policy_production top_confidence simp_thms)
qed

definition sample_request :: decision_request where
  "sample_request =
     \<lparr>dq_endpoint = ''local'', dq_action = Some ''disable_wininet_proxy'', dq_confirmed = True, dq_context = [(''no_listener'', PyBool True)],
      dq_policy = production_defaults, dq_run_id = ''run-1'', dq_api_key = None, dq_secret = None\<rparr>"

definition sample_observations :: "pydict list" where
  "sample_observations =
     [[(''signal_name'', PyStr ''wininet_proxy_enabled''), (''value'', PyInt 1), (''strength'', PyStr ''proof'')],
      [(''signal_name'', PyStr ''browser_https_failed'')], [(''signal_name'', PyStr ''proxy_bypass_succeeded'')]]"

lemma sample_normalised:
  "\<exists>es. normalize_all (\<lambda>k n. k) (\<lambda>k n. k) 0 ''local'' sample_observations = Inr es \<and> has_proof es \<and>
     stale_proxy_flags \<subseteq> derive_signal_flags es [(''no_listener'', PyBool True)]"
  by (simp add: sample_observations_def normalize_raw_observation_def infer_source_kind_def dict_get_def py_or_def py_eval has_key_def
      literal_field_def raw_tier_def raw_signal_def severities_def event_tiers_def has_proof_def stale_proxy_flags_def
      derive_signal_flags_def event_flags_def context_flags_def)

lemma sample_run_any: "\<exists>d. run_platform_decision new_id now (sample_request\<lparr>dq_endpoint := ep\<rparr>) sample_observations = Inr d"
proof -
  obtain es where "normalize_all new_id now 0 ep sample_observations = Inr es"
    using sample_normalised normalize_all_again [of "\<lambda>k n. k" "\<lambda>k n. k" 0 "''local''" sample_observations] by blast
  then show ?thesis by (simp add: run_platform_decision_def sample_request_def process_snapshot_def dict_get_def Let_def case_prod_beta)
qed

lemma sample_run: "\<exists>d. run_platform_decision (\<lambda>k n. k) (\<lambda>k n. k) sample_request sample_observations = Inr d"
  using sample_run_any [of "\<lambda>k n. k" "\<lambda>k n. k" "''local''"] by (simp add: sample_request_def)

theorem decision_allow_iff_witness:
  "\<exists>d. run_platform_decision (\<lambda>k n. k) (\<lambda>k n. k) sample_request sample_observations = Inr d \<and> policy_outcome d = ALLOW"
proof -
  obtain es where es: "normalize_all (\<lambda>k n. k) (\<lambda>k n. k) 0 (dq_endpoint sample_request) sample_observations = Inr es" "has_proof es"
    "stale_proxy_flags \<subseteq> derive_signal_flags es (dq_context sample_request)"
    using sample_normalised by (auto simp: sample_request_def)
  obtain d where d: "run_platform_decision (\<lambda>k n. k) (\<lambda>k n. k) sample_request sample_observations = Inr d" using sample_run by blast
  have "policy_outcome d = ALLOW"
    using decision_allow_iff [OF d es(1)] es(2,3) by (simp add: sample_request_def manual_only_actions_def)
  with d show ?thesis by blast
qed

text \<open>
  The ranking is a permutation of the catalogue in descending order of confidence, every confidence lies between 0.1
  and 0.87 (below the cap of 0.98), and without the proof flag the malware hypothesis never exceeds 0.35.
\<close>

theorem ranking_bounds:
  "sorted_wrt (\<ge>) (map confidence (rank_hypotheses events ctx)) \<and>
   mset (map hypothesis_id (rank_hypotheses events ctx)) = mset (map spec_id hypothesis_catalog) \<and>
   (\<forall>h\<in>set (rank_hypotheses events ctx). 1/10 \<le> confidence h \<and> confidence h \<le> 87/100 \<and>
      (category h = ''potential_malware'' \<and> ''proof_confirmed'' \<notin> derive_signal_flags events ctx \<longrightarrow> confidence h \<le> 35/100))"
proof (intro conjI)
  have "\<exists>xs. rank_hypotheses events ctx = sort_key (\<lambda>h. - confidence h) xs" by (auto simp: rank_hypotheses_def Let_def)
  then obtain xs where "rank_hypotheses events ctx = sort_key (\<lambda>h. - confidence h) xs" by blast
  then have "sorted (map (\<lambda>h. - confidence h) (rank_hypotheses events ctx))" by simp
  then show "sorted_wrt (\<ge>) (map confidence (rank_hypotheses events ctx))" by (simp add: sorted_wrt_map)
  have "mset (map hypothesis_id (rank_hypotheses events ctx)) = image_mset hypothesis_id (mset (rank_hypotheses events ctx))" by simp
  also have "\<dots> = mset (map spec_id hypothesis_catalog)"
    unfolding rank_mset by (simp add: multiset.map_comp comp_def adjust_confidence(1) score_id)
  finally show "mset (map hypothesis_id (rank_hypotheses events ctx)) = mset (map spec_id hypothesis_catalog)" .
  show "\<forall>h\<in>set (rank_hypotheses events ctx). 1/10 \<le> confidence h \<and> confidence h \<le> 87/100 \<and>
      (category h = ''potential_malware'' \<and> ''proof_confirmed'' \<notin> derive_signal_flags events ctx \<longrightarrow> confidence h \<le> 35/100)"
  proof
    fix h assume "h \<in> set (rank_hypotheses events ctx)"
    then obtain h0 where h0: "h = adjust_hypothesis (derive_signal_flags events ctx) h0"
      "h0 \<in> set (map (score_hypothesis (derive_signal_flags events ctx)) hypothesis_catalog)" unfolding rank_set by blast
    show "1/10 \<le> confidence h \<and> confidence h \<le> 87/100 \<and>
      (category h = ''potential_malware'' \<and> ''proof_confirmed'' \<notin> derive_signal_flags events ctx \<longrightarrow> confidence h \<le> 35/100)"
      using catalog_bounds [OF h0(2)] unfolding h0(1) adjust_confidence by (auto split: if_splits)
  qed
qed

theorem ranking_bounds_witness:
  "\<exists>h\<in>set (rank_hypotheses [] []). category h = ''potential_malware'' \<and> confidence h \<le> 35/100"
proof -
  let ?h = "adjust_hypothesis (derive_signal_flags [] []) (score_hypothesis (derive_signal_flags [] []) (hypothesis_catalog ! 3))"
  have "?h \<in> set (rank_hypotheses [] [])" unfolding rank_set set_map catalog_cases(1) by blast
  moreover have "category ?h = ''potential_malware''" "''proof_confirmed'' \<notin> derive_signal_flags [] []"
    by (simp_all add: adjust_hypothesis_def score_hypothesis_def hypothesis_catalog_def Let_def derive_signal_flags_def context_flags_def dict_get_def)
  ultimately show ?thesis using ranking_bounds [of "[]" "[]"] by blast
qed

text \<open>
  C17. Every edge of the evidence graph joins two nodes of the graph and has a weight in (0, 1], nodes are filed under their own
  identifiers and identifiers are not repeated, whatever identifiers are drawn.
\<close>

theorem evidence_graph_closed:
  "closed_graph (build_evidence_graph new_id now events (fst (transition_platform_state events c)) snapshot)"
proof -
  let ?st = "graph_events new_id 0 events (\<lparr>nodes = [], edges = []\<rparr>, [])"
  have st: "closed_graph (fst ?st)" "\<forall>p\<in>set (snd ?st). snd p \<in> node_ids (fst ?st)"
    using graph_events_closed [of "(\<lparr>nodes = [], edges = []\<rparr>, [])" new_id 0 events] by (auto simp: closed_graph_def)
  note g = graph_process_closed [OF st, of new_id "now ''node'' (length events)" "new_id ''node'' (length events)" snapshot]
  show ?thesis unfolding build_evidence_graph_def Let_def
    by (rule graph_transitions_closed) (use g st(2) platform_confidences in auto)
qed

text \<open>
  Replay. A persisted decision whose run and event identifiers are new to the store is found again and replays from the stored
  events: the path of states and the proof limitation come out as recorded, so the state parity always holds. The replayed outcome is always
  a preview (neither the action nor the confirmation is stored), so the policy parity holds exactly for recorded previews.
\<close>

theorem replay_parity:
  assumes run: "run_decision new_id new_id' now q observations f = Inr (rec, f')"
    and names: "\<forall>r\<in>set observations. raw_signal r \<noteq> []"
    and new_run: "\<forall>row\<in>set (platform_decisions f). py_str (py_or (dict_get row ''run_id'') (PyStr [])) \<noteq> run_id rec"
    and new_events: "\<forall>row\<in>set (platform_events f). dict_get row ''event_id'' \<notin> PyStr ` set (event_ids rec)"
    and model: "validate (decision_dump rec) = Inr rec"
  shows "\<exists>r. load_and_replay validate ids2 now2 api_key (run_id rec) f' = Inr r \<and> original r = rec \<and> parity_state_path r \<and>
     decision_limitations (replayed r) = decision_limitations rec \<and> (parity_policy_outcome r \<longleftrightarrow> policy_outcome rec = PREVIEW)"
proof -
  obtain again where rec: "run_platform_decision new_id now q observations = Inr rec"
    and again: "normalize_all new_id' now 0 (dq_endpoint q) observations = Inr again"
    and f': "f' = persist_decision rec (map (\<lambda>(e, eid). e\<lparr>event_id := eid\<rparr>) (zip again (event_ids rec))) f"
    using run by (auto simp: run_decision_def bind_r_Inr Let_def)
  obtain events where ev: "normalize_all new_id now 0 (dq_endpoint q) observations = Inr events"
    and path: "state_path rec = map platform_state_value (snd (transition_platform_state events NORMAL))"
    and ids: "event_ids rec = map event_id events" and lims: "decision_limitations rec = decision_limits (has_proof events)"
    and ep: "decision_endpoint rec = dq_endpoint q"
    using run_platform_decision_Inr [OF rec] by metis
  define stored where "stored = map (\<lambda>(e, eid). e\<lparr>event_id := eid\<rparr>) (zip again (event_ids rec))"
  have a: "map event_signals again = map event_signals events" "map evidence_tier again = map evidence_tier events"
    "\<forall>e\<in>set again. wf_event e" "map signal_name again = map raw_signal observations" "length again = length events"
    using normalize_all_again [OF ev, of new_id' now "dq_endpoint q"] again normalize_all_typed [OF ev] normalize_all_typed [OF again] by auto
  have st: "map event_signals stored = map event_signals again" "map evidence_tier stored = map evidence_tier again"
    "map event_id stored = event_ids rec" "map wf_event stored = map wf_event again" "map signal_name stored = map signal_name again"
    using a(5) by (auto simp: stored_def ids event_signals_def wf_event_def intro!: nth_equalityI)
  have ok: "\<forall>e\<in>set stored. wf_event e \<and> signal_name e \<noteq> []"
    using a(3,4) st(4,5) names by (metis (mono_tags, lifting) image_iff list.set_map)
  have "map platform_state_value (snd (transition_platform_state stored NORMAL)) = state_path rec"
    "decision_limits (has_proof stored) = decision_limitations rec"
    using transition_path_signals [OF signal_set_cong [of stored events]] st(1,2) a(1,2) path lims
    by (simp_all add: transition_platform_state_def case_prod_beta has_proof_tiers del: set_map)
  moreover have "stored_observations rec f' = map event_dump stored"
    unfolding f' stored_def [symmetric] by (rule stored_observations_persist [OF new_events st(3)])
  ultimately show ?thesis
    using find_persist [OF new_run] model replay_stored [OF ok, of ids2 now2 api_key "decision_endpoint rec" "run_id rec"]
    by (fastforce simp: load_and_replay_def f')
qed

theorem replay_parity_witness:
  "\<exists>rec f' r. run_decision (\<lambda>k n. k) (\<lambda>k n. k) (\<lambda>k n. k) sample_request sample_observations \<lparr>platform_events = [], platform_decisions = []\<rparr> =
       Inr (rec, f') \<and>
     load_and_replay (\<lambda>row. Inr rec) (\<lambda>k n. k) (\<lambda>k n. k) None (run_id rec) f' = Inr r \<and> parity_state_path r"
proof -
  obtain rec f' where run: "run_decision (\<lambda>k n. k) (\<lambda>k n. k) (\<lambda>k n. k) sample_request sample_observations
      \<lparr>platform_events = [], platform_decisions = []\<rparr> = Inr (rec, f')"
    using sample_run sample_normalised by (auto simp: run_decision_def Let_def sample_request_def)
  have "\<forall>r\<in>set sample_observations. raw_signal r \<noteq> []" by (simp add: sample_observations_def raw_signal_def dict_get_def py_or_def)
  from replay_parity [OF run this, of "\<lambda>row. Inr rec" "\<lambda>k n. k" "\<lambda>k n. k" None] run show ?thesis by fastforce
qed

end
