(* ===== verification/Incident_Store.thy ===== *)
theory Incident_Store
  imports Py_Values "HOL-Library.Product_Lexorder"
begin

text \<open>
  The event-sourced incident store, \<open>platform_core/sre\<close>: the append-only log with per-aggregate sequence numbers
  (\<open>event_store.py\<close>), the projection rebuilt from it (\<open>projector.py\<close>), the lifecycle commands
  (\<open>incident_aggregate.py\<close>), the timeline (\<open>timeline.py\<close>) and the recovery metrics (\<open>mttr.py\<close>).

  The log file is shared by every store object, so it is passed separately from the store, whose only field is the cache of
  sequence numbers. A line of the log is the event it denotes. Identifiers and times that the data model draws are arguments.

  The contract of a store is the locale \<open>sequenced_log\<close>; the lemmas show that a store whose cache agrees with the log keeps
  the sequence numbers of every aggregate consecutive, that rebuilding is a fold in append order, and what the lifecycle
  guards guarantee.
\<close>

section \<open>Domain events\<close>

datatype domain_event_type =
    Incident_detected | Incident_acknowledged | Incident_investigation_started | Incident_hypothesis_ranked
  | Incident_root_cause_identified | Incident_mitigation_attempted | Incident_resolved | Incident_false_positive
  | Telemetry_normalized | State_transitioned | Decision_recorded | Audit_signed
  | Domain_circuit_opened | Domain_circuit_closed | Postmortem_generated

fun event_type_value :: "domain_event_type \<Rightarrow> string" where
  "event_type_value Incident_detected = ''incident.detected''"
| "event_type_value Incident_acknowledged = ''incident.acknowledged''"
| "event_type_value Incident_investigation_started = ''incident.investigation_started''"
| "event_type_value Incident_hypothesis_ranked = ''incident.hypothesis_ranked''"
| "event_type_value Incident_root_cause_identified = ''incident.root_cause_identified''"
| "event_type_value Incident_mitigation_attempted = ''incident.mitigation_attempted''"
| "event_type_value Incident_resolved = ''incident.resolved''"
| "event_type_value Incident_false_positive = ''incident.false_positive''"
| "event_type_value Telemetry_normalized = ''telemetry.normalized''"
| "event_type_value State_transitioned = ''state.transitioned''"
| "event_type_value Decision_recorded = ''decision.recorded''"
| "event_type_value Audit_signed = ''audit.signed''"
| "event_type_value Domain_circuit_opened = ''domain.circuit_opened''"
| "event_type_value Domain_circuit_closed = ''domain.circuit_closed''"
| "event_type_value Postmortem_generated = ''postmortem.generated''"

record domain_event =
  de_event_id :: string
  de_sequence :: nat
  de_aggregate_id :: string
  de_aggregate_type :: string
  de_event_type :: domain_event_type
  de_timestamp :: string
  de_correlation_id :: string
  de_causation_id :: "string option"
  de_failure_domain :: "string option"
  de_actor :: string
  de_payload :: pydict

type_synonym event_log = "domain_event list"

section \<open>The store\<close>

record event_store =
  sequence_cache :: "(string \<rightharpoonup> nat) option"

definition new_store :: event_store where
  "new_store = \<lparr>sequence_cache = None\<rparr>"

definition seq_get :: "(string \<rightharpoonup> nat) \<Rightarrow> string \<Rightarrow> nat" where
  "seq_get seq agg = (case seq agg of None \<Rightarrow> 0 | Some n \<Rightarrow> n)"

definition note_sequence :: "(string \<rightharpoonup> nat) \<Rightarrow> domain_event \<Rightarrow> (string \<rightharpoonup> nat)" where
  "note_sequence seq e =
     (if de_aggregate_id e = [] then seq
      else seq(de_aggregate_id e \<mapsto> max (seq_get seq (de_aggregate_id e)) (de_sequence e)))"

definition log_sequences :: "event_log \<Rightarrow> (string \<rightharpoonup> nat)" where
  "log_sequences rows = foldl note_sequence Map.empty rows"

definition load_sequences :: "event_store \<Rightarrow> event_log \<Rightarrow> (string \<rightharpoonup> nat) \<times> event_store" where
  "load_sequences st rows =
     (case sequence_cache st of
        Some seq \<Rightarrow> (seq, st)
      | None \<Rightarrow> (log_sequences rows, st\<lparr>sequence_cache := Some (log_sequences rows)\<rparr>))"

definition next_sequence :: "string \<Rightarrow> event_store \<Rightarrow> event_log \<Rightarrow> nat \<times> event_store" where
  "next_sequence agg st rows = (let (seq, st') = load_sequences st rows in (seq_get seq agg + 1, st'))"

definition event_exists :: "string \<Rightarrow> event_log \<Rightarrow> bool" where
  "event_exists eid rows = list_ex (\<lambda>e. de_event_id e = eid) rows"

definition cache_append :: "domain_event \<Rightarrow> event_store \<Rightarrow> event_store" where
  "cache_append e st =
     (case sequence_cache st of
        None \<Rightarrow> st
      | Some seq \<Rightarrow> st\<lparr>sequence_cache := Some (seq(de_aggregate_id e \<mapsto> de_sequence e))\<rparr>)"

definition append_event :: "bool \<Rightarrow> domain_event \<Rightarrow> event_store \<times> event_log \<Rightarrow> domain_event py_result \<times> event_store \<times> event_log" where
  "append_event strict e sl =
     (let (st, rows) = sl
      in if event_exists (de_event_id e) rows then (Inl (ValueError (''duplicate event_id: '' @ de_event_id e)), st, rows)
         else if strict
         then (let (expected, st') = next_sequence (de_aggregate_id e) st rows
               in if de_sequence e \<noteq> expected
                  then (Inl (ValueError (''sequence mismatch for '' @ de_aggregate_id e @ '': expected '' @ nat_str expected @
                                         '', got '' @ nat_str (de_sequence e))), st', rows)
                  else (Inr e, cache_append e st', rows @ [e]))
         else (Inr e, cache_append e st, rows @ [e]))"

definition opt_filter :: "string option \<Rightarrow> string \<Rightarrow> bool" where
  "opt_filter f v = (case f of Some (c # s) \<Rightarrow> v = c # s | _ \<Rightarrow> True)"

text \<open>The counter is tested after the row is yielded, so a limit of zero still yields one event.\<close>

definition iter_events :: "string option \<Rightarrow> string option \<Rightarrow> nat \<Rightarrow> event_log \<Rightarrow> domain_event list" where
  "iter_events agg corr limit rows =
     take (max 1 limit) (filter (\<lambda>e. opt_filter agg (de_aggregate_id e) \<and> opt_filter corr (de_correlation_id e)) rows)"

definition load_aggregate_events :: "string \<Rightarrow> event_log \<Rightarrow> domain_event list" where
  "load_aggregate_events agg rows = sort_key de_sequence (iter_events (Some agg) None 100000 rows)"

definition invalidate_cache :: "event_store \<Rightarrow> event_store" where
  "invalidate_cache st = st\<lparr>sequence_cache := None\<rparr>"

record new_event =
  ne_aggregate_id :: string
  ne_aggregate_type :: string
  ne_event_type :: domain_event_type
  ne_correlation_id :: string
  ne_payload :: pydict
  ne_causation_id :: "string option"
  ne_failure_domain :: "string option"
  ne_actor :: string

definition make_event :: "string \<Rightarrow> string \<Rightarrow> nat \<Rightarrow> new_event \<Rightarrow> domain_event" where
  "make_event eid now seq n =
     \<lparr>de_event_id = eid, de_sequence = seq, de_aggregate_id = ne_aggregate_id n, de_aggregate_type = ne_aggregate_type n,
      de_event_type = ne_event_type n, de_timestamp = now, de_correlation_id = ne_correlation_id n, de_causation_id = ne_causation_id n,
      de_failure_domain = ne_failure_domain n, de_actor = ne_actor n, de_payload = ne_payload n\<rparr>"

definition append_domain_event ::
  "string \<Rightarrow> string \<Rightarrow> new_event \<Rightarrow> event_store \<times> event_log \<Rightarrow> domain_event py_result \<times> event_store \<times> event_log" where
  "append_domain_event eid now n sl =
     (let (seq, st') = next_sequence (ne_aggregate_id n) (fst sl) (snd sl)
      in append_event True (make_event eid now seq n) (st', snd sl))"

section \<open>The projection\<close>

datatype incident_phase = DETECTED | ACKNOWLEDGED | INVESTIGATING | ROOT_CAUSE_IDENTIFIED | MITIGATING | RESOLVED | FALSE_POSITIVE

fun phase_text :: "incident_phase \<Rightarrow> string" where
  "phase_text DETECTED = ''IncidentPhase.DETECTED''"
| "phase_text ACKNOWLEDGED = ''IncidentPhase.ACKNOWLEDGED''"
| "phase_text INVESTIGATING = ''IncidentPhase.INVESTIGATING''"
| "phase_text ROOT_CAUSE_IDENTIFIED = ''IncidentPhase.ROOT_CAUSE_IDENTIFIED''"
| "phase_text MITIGATING = ''IncidentPhase.MITIGATING''"
| "phase_text RESOLVED = ''IncidentPhase.RESOLVED''"
| "phase_text FALSE_POSITIVE = ''IncidentPhase.FALSE_POSITIVE''"

record incident_projection =
  ip_incident_id :: string
  ip_endpoint_id :: string
  ip_phase :: incident_phase
  ip_title :: string
  ip_severity :: pyval
  ip_detected_at :: string
  ip_acknowledged_at :: "string option"
  ip_investigation_started_at :: "string option"
  ip_root_cause_identified_at :: "string option"
  ip_resolved_at :: "string option"
  ip_accepted_hypothesis :: "string option"
  ip_root_cause_summary :: "string option"
  ip_evidence_event_ids :: "string list"
  ip_decision_run_ids :: "string list"
  ip_state_path :: "pyval list"
  ip_limitations :: "pyval list"
  ip_event_count :: nat
  ip_last_sequence :: nat

definition new_projection :: "string \<Rightarrow> string \<Rightarrow> incident_projection" where
  "new_projection iid ep =
     \<lparr>ip_incident_id = iid, ip_endpoint_id = ep, ip_phase = DETECTED, ip_title = [], ip_severity = PyStr ''medium'', ip_detected_at = [],
      ip_acknowledged_at = None, ip_investigation_started_at = None, ip_root_cause_identified_at = None, ip_resolved_at = None,
      ip_accepted_hypothesis = None, ip_root_cause_summary = None, ip_evidence_event_ids = [], ip_decision_run_ids = [],
      ip_state_path = [], ip_limitations = [], ip_event_count = 0, ip_last_sequence = 0\<rparr>"

text \<open>\<open>if v not in xs: xs.append(str(v))\<close> on a list of strings.\<close>

definition append_absent :: "string list \<Rightarrow> pyval \<Rightarrow> string list" where
  "append_absent xs v = (if v \<in> PyStr ` set xs then xs else xs @ [py_str v])"

definition optional_str :: "string option \<Rightarrow> pyval" where
  "optional_str x = (case x of None \<Rightarrow> PyNone | Some s \<Rightarrow> PyStr s)"

definition add_run_id :: "pydict \<Rightarrow> incident_projection \<Rightarrow> incident_projection" where
  "add_run_id p s =
     (if truthy (dict_get p ''run_id'') then s\<lparr>ip_decision_run_ids := append_absent (ip_decision_run_ids s) (dict_get p ''run_id'')\<rparr> else s)"

definition str_or_previous :: "pydict \<Rightarrow> string \<Rightarrow> string option \<Rightarrow> string" where
  "str_or_previous p k old = py_str (py_or (py_or (dict_get p k) (optional_str old)) (PyStr []))"

definition false_positive_note :: pyval where
  "false_positive_note = PyStr (''Classified false positive '' @ em_dash @ '' root cause not established.'')"

definition project_event :: "domain_event \<Rightarrow> incident_projection \<Rightarrow> incident_projection py_result" where
  "project_event e s0 =
     (let p = de_payload e; s = s0\<lparr>ip_event_count := ip_event_count s0 + 1, ip_last_sequence := de_sequence e\<rparr>
      in case de_event_type e of
           Incident_detected \<Rightarrow>
             bind_r (list_of_value (py_or (dict_get p ''limitations'') (PyList (ip_limitations s)))) (\<lambda>lims.
               Inr (s\<lparr>ip_phase := DETECTED, ip_detected_at := de_timestamp e,
                      ip_title := py_str (py_or (py_or (dict_get p ''title'') (PyStr (ip_title s))) (PyStr ''Endpoint incident'')),
                      ip_severity := py_or (dict_get p ''severity'') (ip_severity s),
                      ip_endpoint_id := py_str (py_or (dict_get p ''endpoint_id'') (PyStr (ip_endpoint_id s))),
                      ip_limitations := lims\<rparr>))
         | Incident_acknowledged \<Rightarrow> Inr (s\<lparr>ip_phase := ACKNOWLEDGED, ip_acknowledged_at := Some (de_timestamp e)\<rparr>)
         | Incident_investigation_started \<Rightarrow> Inr (s\<lparr>ip_phase := INVESTIGATING, ip_investigation_started_at := Some (de_timestamp e)\<rparr>)
         | Incident_hypothesis_ranked \<Rightarrow>
             (let s1 = add_run_id p (s\<lparr>ip_accepted_hypothesis := Some (str_or_previous p ''accepted_hypothesis'' (ip_accepted_hypothesis s))\<rparr>)
              in bind_r (list_of_value (py_or (dict_get p ''state_path'') (PyList (ip_state_path s)))) (\<lambda>path.
                 bind_r (list_of_value (py_or (dict_get p ''event_ids'') (PyList []))) (\<lambda>ids.
                   Inr (s1\<lparr>ip_state_path := path, ip_evidence_event_ids := foldl append_absent (ip_evidence_event_ids s) ids\<rparr>))))
         | Incident_root_cause_identified \<Rightarrow>
             Inr (s\<lparr>ip_phase := ROOT_CAUSE_IDENTIFIED, ip_root_cause_identified_at := Some (de_timestamp e),
                    ip_root_cause_summary := Some (str_or_previous p ''root_cause_summary'' (ip_root_cause_summary s)),
                    ip_accepted_hypothesis := Some (str_or_previous p ''accepted_hypothesis'' (ip_accepted_hypothesis s))\<rparr>)
         | Incident_mitigation_attempted \<Rightarrow> Inr (s\<lparr>ip_phase := MITIGATING\<rparr>)
         | Incident_resolved \<Rightarrow> Inr (s\<lparr>ip_phase := RESOLVED, ip_resolved_at := Some (de_timestamp e)\<rparr>)
         | Incident_false_positive \<Rightarrow>
             Inr (s\<lparr>ip_phase := FALSE_POSITIVE, ip_resolved_at := Some (de_timestamp e), ip_limitations := ip_limitations s @ [false_positive_note]\<rparr>)
         | Decision_recorded \<Rightarrow> Inr (add_run_id p s)
         | _ \<Rightarrow> Inr s)"

fun fold_projection :: "domain_event list \<Rightarrow> incident_projection \<Rightarrow> incident_projection py_result" where
  "fold_projection [] s = Inr s"
| "fold_projection (e # es) s = bind_r (project_event e s) (fold_projection es)"

definition projector_fold :: "domain_event list \<Rightarrow> string \<Rightarrow> string \<Rightarrow> incident_projection py_result" where
  "projector_fold events iid ep = fold_projection (sort_key de_sequence events) (new_projection iid ep)"

definition rebuild_incident :: "string \<Rightarrow> event_log \<Rightarrow> incident_projection py_result" where
  "rebuild_incident iid rows =
     (case load_aggregate_events iid rows of
        [] \<Rightarrow> Inr (new_projection iid [])
      | e # es \<Rightarrow> projector_fold (e # es) iid (py_str (py_or (dict_get (de_payload e) ''endpoint_id'') (PyStr []))))"

definition list_incident_ids :: "event_log \<Rightarrow> string list" where
  "list_incident_ids rows =
     sort (remdups (map de_aggregate_id (filter (\<lambda>e. de_aggregate_type e = ''incident'') (iter_events None None 100000 rows))))"

section \<open>Lifecycle commands\<close>

type_synonym stored = "event_store \<times> event_log"

definition agg_append ::
  "string \<Rightarrow> string \<Rightarrow> string \<Rightarrow> domain_event_type \<Rightarrow> pydict \<Rightarrow> string option \<Rightarrow> string \<Rightarrow> string option \<Rightarrow> stored \<Rightarrow> domain_event py_result \<times> stored" where
  "agg_append eid now iid etype p causation actor domain sl =
     append_domain_event eid now
       \<lparr>ne_aggregate_id = iid, ne_aggregate_type = ''incident'', ne_event_type = etype, ne_correlation_id = iid, ne_payload = p,
        ne_causation_id = causation, ne_failure_domain = domain, ne_actor = actor\<rparr> sl"

text \<open>A command that reads the projection first.\<close>

definition guarded ::
  "string \<Rightarrow> (incident_projection \<Rightarrow> string option) \<Rightarrow> (stored \<Rightarrow> domain_event py_result \<times> stored) \<Rightarrow> stored \<Rightarrow> domain_event py_result \<times> stored" where
  "guarded iid refuse act sl =
     (case rebuild_incident iid (snd sl) of
        Inl e \<Rightarrow> (Inl e, sl)
      | Inr proj \<Rightarrow> (case refuse proj of Some msg \<Rightarrow> (Inl (ValueError msg), sl) | None \<Rightarrow> act sl))"

definition string_list :: "string list \<Rightarrow> pyval" where
  "string_list xs = PyList (map PyStr xs)"

definition open_incident ::
  "string \<Rightarrow> string \<Rightarrow> string \<Rightarrow> string \<Rightarrow> string \<Rightarrow> string \<Rightarrow> string list \<Rightarrow> string list \<Rightarrow> stored \<Rightarrow> domain_event py_result \<times> stored" where
  "open_incident eid now iid endpoint title severity triggers lims sl =
     agg_append eid now iid Incident_detected
       [(''endpoint_id'', PyStr endpoint), (''title'', PyStr title), (''severity'', PyStr severity), (''trigger_event_ids'', string_list triggers),
        (''limitations'', string_list (if lims = [] then [''Observation != Proof; incident opened on correlated signals only.''] else lims))]
       None ''system'' (Some ''telemetry_ingest'') sl"

definition acknowledge :: "string \<Rightarrow> string \<Rightarrow> string \<Rightarrow> string \<Rightarrow> stored \<Rightarrow> domain_event py_result \<times> stored" where
  "acknowledge eid now iid actor =
     guarded iid (\<lambda>p. if ip_phase p \<noteq> DETECTED then Some (''cannot acknowledge from phase '' @ phase_text (ip_phase p)) else None)
       (agg_append eid now iid Incident_acknowledged [(''actor'', PyStr actor)] None actor None)"

definition start_investigation :: "string \<Rightarrow> string \<Rightarrow> string \<Rightarrow> string \<Rightarrow> stored \<Rightarrow> domain_event py_result \<times> stored" where
  "start_investigation eid now iid actor =
     guarded iid (\<lambda>p. if ip_phase p \<notin> {DETECTED, ACKNOWLEDGED}
                      then Some (''cannot start investigation from phase '' @ phase_text (ip_phase p)) else None)
       (agg_append eid now iid Incident_investigation_started [(''actor'', PyStr actor)] None actor (Some ''investigation''))"

definition record_hypothesis_ranking ::
  "string \<Rightarrow> string \<Rightarrow> string \<Rightarrow> string \<Rightarrow> string \<Rightarrow> string list \<Rightarrow> string list \<Rightarrow> string \<Rightarrow> string option \<Rightarrow> stored \<Rightarrow> domain_event py_result \<times> stored" where
  "record_hypothesis_ranking eid now iid run accepted path ids outcome causation =
     agg_append eid now iid Incident_hypothesis_ranked
       [(''run_id'', PyStr run), (''accepted_hypothesis'', PyStr accepted), (''state_path'', string_list path), (''event_ids'', string_list ids),
        (''policy_outcome'', PyStr outcome)] causation ''system'' (Some ''hypothesis_engine'')"

definition identify_root_cause ::
  "string \<Rightarrow> string \<Rightarrow> string \<Rightarrow> string \<Rightarrow> string \<Rightarrow> string \<Rightarrow> string list \<Rightarrow> pyval list \<Rightarrow> string \<Rightarrow> stored \<Rightarrow> domain_event py_result \<times> stored" where
  "identify_root_cause eid now iid summary accepted tier ids lims actor =
     guarded iid (\<lambda>p. if ip_phase p \<notin> {INVESTIGATING, ROOT_CAUSE_IDENTIFIED}
                      then Some (''cannot identify root cause from phase '' @ phase_text (ip_phase p)) else None)
       (agg_append eid now iid Incident_root_cause_identified
          [(''root_cause_summary'', PyStr summary), (''accepted_hypothesis'', PyStr accepted), (''confidence_tier'', PyStr tier),
           (''evidence_event_ids'', string_list ids),
           (''limitations'', PyList (if tier \<notin> {''proven'', ''contrast_tested''} \<and> py_in ''malware'' (py_lower accepted)
              then lims @ [PyStr (''Malware-class hypothesis without proof tier '' @ em_dash @ '' statement is investigative, not conviction.'')]
              else lims))]
          None actor (Some ''investigation''))"

definition attempt_mitigation ::
  "string \<Rightarrow> string \<Rightarrow> string \<Rightarrow> string \<Rightarrow> string \<Rightarrow> string \<Rightarrow> stored \<Rightarrow> domain_event py_result \<times> stored" where
  "attempt_mitigation eid now iid action outcome actor =
     agg_append eid now iid Incident_mitigation_attempted
       [(''action'', PyStr action), (''outcome'', PyStr outcome), (''actor'', PyStr actor)] None actor (Some ''remediation'')"

definition resolve :: "string \<Rightarrow> string \<Rightarrow> string \<Rightarrow> string \<Rightarrow> string \<Rightarrow> stored \<Rightarrow> domain_event py_result \<times> stored" where
  "resolve eid now iid resolution actor =
     guarded iid (\<lambda>p. if ip_phase p = RESOLVED then Some ''incident already resolved'' else None)
       (agg_append eid now iid Incident_resolved [(''resolution'', PyStr resolution), (''actor'', PyStr actor)] None actor None)"

definition mark_false_positive :: "string \<Rightarrow> string \<Rightarrow> string \<Rightarrow> string \<Rightarrow> string \<Rightarrow> stored \<Rightarrow> domain_event py_result \<times> stored" where
  "mark_false_positive eid now iid reason actor =
     agg_append eid now iid Incident_false_positive [(''reason'', PyStr reason), (''actor'', PyStr actor)] None actor None"

text \<open>A call of one of the commands of the aggregate.\<close>

datatype command =
    Open string string string "string list" "string list"
  | Acknowledge string
  | Start_investigation string
  | Record_hypothesis_ranking string string "string list" "string list" string "string option"
  | Identify_root_cause string string string "string list" "pyval list" string
  | Attempt_mitigation string string string
  | Resolve string string
  | Mark_false_positive string string

fun exec_command :: "string \<Rightarrow> string \<Rightarrow> string \<Rightarrow> command \<Rightarrow> stored \<Rightarrow> domain_event py_result \<times> stored" where
  "exec_command eid now iid (Open endpoint title severity triggers lims) sl = open_incident eid now iid endpoint title severity triggers lims sl"
| "exec_command eid now iid (Acknowledge actor) sl = acknowledge eid now iid actor sl"
| "exec_command eid now iid (Start_investigation actor) sl = start_investigation eid now iid actor sl"
| "exec_command eid now iid (Record_hypothesis_ranking run accepted path ids outcome causation) sl =
     record_hypothesis_ranking eid now iid run accepted path ids outcome causation sl"
| "exec_command eid now iid (Identify_root_cause summary accepted tier ids lims actor) sl =
     identify_root_cause eid now iid summary accepted tier ids lims actor sl"
| "exec_command eid now iid (Attempt_mitigation action outcome actor) sl = attempt_mitigation eid now iid action outcome actor sl"
| "exec_command eid now iid (Resolve resolution actor) sl = resolve eid now iid resolution actor sl"
| "exec_command eid now iid (Mark_false_positive reason actor) sl = mark_false_positive eid now iid reason actor sl"

section \<open>The timeline\<close>

record timeline_entry =
  te_sequence :: nat
  te_timestamp :: string
  te_event_type :: domain_event_type
  te_event_id :: string
  te_summary :: string
  te_failure_domain :: "string option"
  te_causation_id :: "string option"
  te_excerpt :: pydict

fun event_summary :: "domain_event_type \<Rightarrow> string" where
  "event_summary Incident_detected = ''Incident detected''"
| "event_summary Incident_acknowledged = ''Incident acknowledged by operator''"
| "event_summary Incident_investigation_started = ''Investigation started''"
| "event_summary Incident_hypothesis_ranked = ''Hypothesis ranked (evidence-driven)''"
| "event_summary Incident_root_cause_identified = ''Root cause identified (see limitations)''"
| "event_summary Incident_mitigation_attempted = ''Mitigation attempted''"
| "event_summary Incident_resolved = ''Incident resolved''"
| "event_summary Incident_false_positive = ''Marked false positive''"
| "event_summary Telemetry_normalized = ''Telemetry normalized''"
| "event_summary State_transitioned = ''State transition applied''"
| "event_summary Decision_recorded = ''Decision recorded''"
| "event_summary Audit_signed = ''Audit entry signed''"
| "event_summary Domain_circuit_opened = ''Failure domain circuit OPENED''"
| "event_summary Domain_circuit_closed = ''Failure domain circuit closed''"
| "event_summary Postmortem_generated = ''Postmortem generated''"

text \<open>\<open>v[:n]\<close>.\<close>

fun slice_to :: "nat \<Rightarrow> pyval \<Rightarrow> pyval py_result" where
  "slice_to n (PyStr t) = Inr (PyStr (take n t))"
| "slice_to n (PyList xs) = Inr (PyList (take n xs))"
| "slice_to n (PyDict d) = Inl (TypeError ''unhashable type: slice'')"
| "slice_to n v = Inl (TypeError (py_type_name v @ '' object is not subscriptable''))"

definition summarize :: "domain_event_type \<Rightarrow> pydict \<Rightarrow> string py_result" where
  "summarize t p =
     (case t of
        Incident_hypothesis_ranked \<Rightarrow>
          Inr (event_summary t @ '': '' @ py_str (py_or (dict_get p ''accepted_hypothesis'') (PyStr ''unknown'')))
      | Incident_root_cause_identified \<Rightarrow>
          bind_r (slice_to 120 (dict_get_or p ''root_cause_summary'' (PyStr []))) (\<lambda>v. Inr (event_summary t @ '': '' @ py_str v))
      | Incident_mitigation_attempted \<Rightarrow>
          Inr (event_summary t @ '': '' @ py_str (dict_get p ''action'') @ '' '' @ [CHR 0xE2, CHR 0x86, CHR 0x92] @ '' '' @
               py_str (dict_get p ''outcome''))
      | Incident_resolved \<Rightarrow>
          bind_r (slice_to 80 (dict_get_or p ''resolution'' (PyStr []))) (\<lambda>v. Inr (event_summary t @ '': '' @ py_str v))
      | Domain_circuit_opened \<Rightarrow> Inr (event_summary t @ '' ('' @ py_str (dict_get p ''domain'') @ '')'')
      | _ \<Rightarrow> Inr (event_summary t))"

definition excerpt_keys :: "string list" where
  "excerpt_keys = [''run_id'', ''action'', ''outcome'', ''severity'', ''policy_outcome'', ''domain'']"

definition to_entry :: "domain_event \<Rightarrow> timeline_entry py_result" where
  "to_entry e =
     bind_r (summarize (de_event_type e) (de_payload e)) (\<lambda>txt.
       Inr \<lparr>te_sequence = de_sequence e, te_timestamp = de_timestamp e, te_event_type = de_event_type e, te_event_id = de_event_id e,
            te_summary = txt, te_failure_domain = de_failure_domain e, te_causation_id = de_causation_id e,
            te_excerpt = filter (\<lambda>(k, v). k \<in> set excerpt_keys) (take 6 (de_payload e))\<rparr>)"

definition timeline_events :: "string \<Rightarrow> bool \<Rightarrow> event_log \<Rightarrow> domain_event list" where
  "timeline_events iid include_correlated rows =
     iter_events (Some iid) None 50000 rows @
     (if include_correlated then filter (\<lambda>e. de_aggregate_id e \<noteq> iid) (iter_events None (Some iid) 50000 rows) else [])"

definition reconstruct_timeline :: "string \<Rightarrow> bool \<Rightarrow> event_log \<Rightarrow> timeline_entry list py_result" where
  "reconstruct_timeline iid include_correlated rows =
     bind_r (map_r to_entry (timeline_events iid include_correlated rows)) (\<lambda>es. Inr (sort_key (\<lambda>t. (te_timestamp t, te_sequence t)) es))"

section \<open>Recovery metrics\<close>

text \<open>\<open>fromiso\<close>: the instant of an ISO text in seconds, a time without zone taken as UTC; \<open>None\<close> for a \<open>ValueError\<close>.\<close>

definition parse_iso :: "(string \<Rightarrow> rat option) \<Rightarrow> string option \<Rightarrow> rat option" where
  "parse_iso fromiso ts =
     (case ts of
        Some (c # t) \<Rightarrow> fromiso (if py_endswith (c # t) ''Z'' then py_replace_str (CHR ''Z'') ''+00:00'' (c # t) else c # t)
      | _ \<Rightarrow> None)"

definition delta_seconds :: "(string \<Rightarrow> rat option) \<Rightarrow> string option \<Rightarrow> string option \<Rightarrow> rat option" where
  "delta_seconds fromiso a b =
     (case (parse_iso fromiso a, parse_iso fromiso b) of (Some x, Some y) \<Rightarrow> Some (max 0 (y - x)) | _ \<Rightarrow> None)"

definition round_digits :: "nat \<Rightarrow> rat \<Rightarrow> rat" where
  "round_digits d x = of_int (round_half_even (10 ^ d * x)) / 10 ^ d"

definition percentile :: "rat list \<Rightarrow> rat \<Rightarrow> rat option" where
  "percentile values p =
     (if values = [] then None
      else Some (round_digits 2 (sort values ! nat (round_half_even (p / 100 * of_nat (length values - 1))))))"

record mttr_metrics =
  incident_count :: nat
  resolved_count :: nat
  mean_time_to_detect :: "rat option"
  mean_time_to_identify :: "rat option"
  mean_time_to_recover :: "rat option"
  p50_mttr :: "rat option"
  p95_mttr :: "rat option"
  false_positive_rate :: "rat option"
  investigation_count :: nat

definition mean2 :: "rat list \<Rightarrow> rat option" where
  "mean2 xs = (if xs = [] then None else Some (round_digits 2 (sum_list xs / of_nat (length xs))))"

definition opt_list :: "'a option \<Rightarrow> 'a list" where
  "opt_list x = (case x of None \<Rightarrow> [] | Some v \<Rightarrow> [v])"

definition or_else :: "string option \<Rightarrow> string option \<Rightarrow> string option" where
  "or_else a b = (case a of Some (c # t) \<Rightarrow> a | _ \<Rightarrow> b)"

definition some_text :: "string option \<Rightarrow> bool" where
  "some_text x = (case x of Some (c # t) \<Rightarrow> True | _ \<Rightarrow> False)"

definition incident_mttr :: "(string \<Rightarrow> rat option) \<Rightarrow> incident_projection \<Rightarrow> rat option" where
  "incident_mttr fromiso s =
     (if ip_phase s = RESOLVED \<and> some_text (ip_resolved_at s) then delta_seconds fromiso (Some (ip_detected_at s)) (ip_resolved_at s) else None)"

definition compute_incident_mttr_metrics :: "(string \<Rightarrow> rat option) \<Rightarrow> event_log \<Rightarrow> mttr_metrics py_result" where
  "compute_incident_mttr_metrics fromiso rows =
     bind_r (map_r (\<lambda>iid. rebuild_incident iid rows) (list_incident_ids rows)) (\<lambda>projs.
       let real = filter (\<lambda>s. ip_phase s \<noteq> FALSE_POSITIVE) projs;
           mttd = concat (map (\<lambda>s. opt_list (delta_seconds fromiso (Some (ip_detected_at s))
                    (or_else (ip_acknowledged_at s) (ip_investigation_started_at s)))) real);
           mtti = concat (map (\<lambda>s. opt_list (delta_seconds fromiso (Some (ip_detected_at s)) (ip_root_cause_identified_at s))) real);
           mttr = concat (map (\<lambda>s. opt_list (incident_mttr fromiso s)) real);
           total = length (list_incident_ids rows)
       in Inr \<lparr>incident_count = total, resolved_count = length mttr, mean_time_to_detect = mean2 mttd, mean_time_to_identify = mean2 mtti,
               mean_time_to_recover = mean2 mttr, p50_mttr = percentile mttr 50, p95_mttr = percentile mttr 95,
               false_positive_rate = (if total = 0 then None else Some (round_digits 4 (of_nat (length projs - length real) / of_nat total))),
               investigation_count = length (filter (\<lambda>s. some_text (ip_investigation_started_at s)) real)\<rparr>)"

section \<open>The contract of a store\<close>

locale sequenced_log =
  fixes add :: "'e \<Rightarrow> 's \<Rightarrow> ('x + 'e) \<times> 's" and contents :: "'s \<Rightarrow> 'e list" and agrees :: "'s \<Rightarrow> bool"
    and key :: "'e \<Rightarrow> 'k" and ident :: "'e \<Rightarrow> 'i" and seqno :: "'e \<Rightarrow> nat" and counted :: "'k \<Rightarrow> bool"
  assumes rejected: "add e s = (Inl x, s') \<Longrightarrow> contents s' = contents s"
    and accepted: "add e s = (Inr e', s') \<Longrightarrow> contents s' = contents s @ [e] \<and> ident e \<notin> ident ` set (contents s)"
    and accepted_seqno: "add e s = (Inr e', s') \<Longrightarrow> agrees s \<Longrightarrow> counted (key e) \<Longrightarrow>
      seqno e = Suc (foldl max 0 (map seqno (filter (\<lambda>d. key d = key e) (contents s))))"
    and agrees_kept: "agrees s \<Longrightarrow> counted (key e) \<Longrightarrow> agrees (snd (add e s))"
begin

definition consecutive :: "'e list \<Rightarrow> bool" where
  "consecutive xs \<longleftrightarrow> distinct (map ident xs) \<and>
     (\<forall>k. counted k \<longrightarrow> map seqno (filter (\<lambda>d. key d = k) xs) = [1..<Suc (length (filter (\<lambda>d. key d = k) xs))])"

lemma foldl_max_upt: "foldl max 0 [1..<Suc n] = n"
  by (induction n) auto

lemma highest_consecutive:
  assumes "consecutive xs" and "counted k"
  shows "foldl max 0 (map seqno (filter (\<lambda>d. key d = k) xs)) = length (filter (\<lambda>d. key d = k) xs)"
proof -
  have "map seqno (filter (\<lambda>d. key d = k) xs) = [1..<Suc (length (filter (\<lambda>d. key d = k) xs))]"
    using assms by (simp add: consecutive_def)
  then show ?thesis by (simp only: foldl_max_upt)
qed

lemma add_consecutive:
  assumes "agrees s" and "consecutive (contents s)" and "counted (key e)"
  shows "consecutive (contents (snd (add e s)))"
proof (cases "add e s")
  case (Pair r s')
  show ?thesis
  proof (cases r)
    case (Inl x)
    with Pair show ?thesis using rejected [of e s x s'] assms(2) by simp
  next
    case (Inr e')
    with Pair have c: "contents s' = contents s @ [e]" "ident e \<notin> ident ` set (contents s)"
      and n: "seqno e = Suc (length (filter (\<lambda>d. key d = key e) (contents s)))"
      using accepted [of e s e' s'] accepted_seqno [of e s e' s'] assms(1,3) highest_consecutive [OF assms(2,3)] by auto
    then show ?thesis using assms(2) Pair unfolding consecutive_def by auto
  qed
qed

text \<open>Whatever is offered to the log, in any order.\<close>

lemma add_all_consecutive:
  assumes "agrees s" and "consecutive (contents s)" and "\<forall>e\<in>set es. counted (key e)"
  shows "consecutive (contents (foldl (\<lambda>s e. snd (add e s)) s es)) \<and> agrees (foldl (\<lambda>s e. snd (add e s)) s es)"
  using assms by (induction es arbitrary: s) (auto intro: add_consecutive agrees_kept)

lemma consecutive_sorted: "consecutive xs \<Longrightarrow> counted k \<Longrightarrow> sorted (map seqno (filter (\<lambda>d. key d = k) xs))"
  by (simp add: consecutive_def del: upt_Suc)

end

section \<open>The store keeps the contract\<close>

text \<open>The cache agrees with the log: always after \<open>invalidate_cache\<close>, and as long as no other store object appends.\<close>

definition cache_agrees :: "stored \<Rightarrow> bool" where
  "cache_agrees sl \<longleftrightarrow>
     (case sequence_cache (fst sl) of
        None \<Rightarrow> True
      | Some seq \<Rightarrow> \<forall>agg. agg \<noteq> [] \<longrightarrow> seq_get seq agg = seq_get (log_sequences (snd sl)) agg)"

lemma seq_get_note:
  "seq_get (note_sequence seq e) agg =
     (if agg \<noteq> [] \<and> de_aggregate_id e = agg then max (seq_get seq agg) (de_sequence e) else seq_get seq agg)"
  by (auto simp: note_sequence_def seq_get_def)

lemma log_sequences_snoc: "log_sequences (rows @ [e]) = note_sequence (log_sequences rows) e"
  by (simp add: log_sequences_def)

lemma log_sequences_max:
  "agg \<noteq> [] \<Longrightarrow> seq_get (log_sequences rows) agg = foldl max 0 (map de_sequence (filter (\<lambda>d. de_aggregate_id d = agg) rows))"
proof (induction rows rule: rev_induct)
  case Nil
  then show ?case by (simp add: log_sequences_def seq_get_def)
next
  case (snoc e rows)
  then show ?case by (simp add: log_sequences_snoc seq_get_note)
qed

lemma next_sequence_agrees:
  assumes "cache_agrees (st, rows)" and "next_sequence agg st rows = (n, st')"
  shows "cache_agrees (st', rows) \<and> (agg \<noteq> [] \<longrightarrow> n = Suc (seq_get (log_sequences rows) agg)) \<and> sequence_cache st' \<noteq> None"
  using assms by (auto simp: next_sequence_def load_sequences_def cache_agrees_def Let_def split: option.splits)

lemma event_exists_iff: "event_exists eid rows \<longleftrightarrow> eid \<in> de_event_id ` set rows"
  by (auto simp: event_exists_def list_ex_iff image_iff)

lemma cache_append_agrees:
  assumes "cache_agrees (st, rows)" and "agg \<noteq> []" and "de_aggregate_id e = agg" and "de_sequence e = Suc (seq_get (log_sequences rows) agg)"
  shows "cache_agrees (cache_append e st, rows @ [e])"
proof (cases "sequence_cache st")
  case (Some seq)
  then have "\<forall>a. a \<noteq> [] \<longrightarrow> seq_get seq a = seq_get (log_sequences rows) a" using assms(1) by (simp add: cache_agrees_def)
  moreover have "seq_get (seq(agg \<mapsto> de_sequence e)) a = (if a = agg then de_sequence e else seq_get seq a)" for a
    by (simp add: seq_get_def)
  ultimately show ?thesis using Some assms(2-) by (auto simp: cache_agrees_def cache_append_def log_sequences_snoc seq_get_note)
qed (simp add: cache_agrees_def cache_append_def)

interpretation store_log: sequenced_log "append_event True" "\<lambda>sl. snd sl" cache_agrees de_aggregate_id de_event_id de_sequence "\<lambda>agg. agg \<noteq> []"
proof
  fix e :: domain_event and s s' :: stored and x e'
  obtain st rows where s: "s = (st, rows)" by (cases s)
  obtain n st' where n: "next_sequence (de_aggregate_id e) st rows = (n, st')" by (cases "next_sequence (de_aggregate_id e) st rows")
  show "append_event True e s = (Inl x, s') \<Longrightarrow> snd s' = snd s"
    by (auto simp: append_event_def s n Let_def split: if_splits)
  show "append_event True e s = (Inr e', s') \<Longrightarrow> snd s' = snd s @ [e] \<and> de_event_id e \<notin> de_event_id ` set (snd s)"
    by (auto simp: append_event_def s n Let_def event_exists_iff split: if_splits)
  show "append_event True e s = (Inr e', s') \<Longrightarrow> cache_agrees s \<Longrightarrow> de_aggregate_id e \<noteq> [] \<Longrightarrow>
      de_sequence e = Suc (foldl max 0 (map de_sequence (filter (\<lambda>d. de_aggregate_id d = de_aggregate_id e) (snd s))))"
    using next_sequence_agrees [OF _ n] log_sequences_max [of "de_aggregate_id e" rows]
    by (auto simp: append_event_def s n Let_def split: if_splits)
  show "cache_agrees s \<Longrightarrow> de_aggregate_id e \<noteq> [] \<Longrightarrow> cache_agrees (snd (append_event True e s))"
    using next_sequence_agrees [OF _ n] cache_append_agrees [of st' rows "de_aggregate_id e" e]
    by (auto simp: append_event_def s n Let_def)
qed

section \<open>Appending through the helper\<close>

definition rows_of :: "string \<Rightarrow> event_log \<Rightarrow> domain_event list" where
  "rows_of agg rows = filter (\<lambda>e. de_aggregate_id e = agg) rows"

text \<open>With an agreeing cache the helper appends one event with the next number, unless the identifier is taken.\<close>

lemma append_domain_event_spec:
  assumes "cache_agrees (st, rows)" and "ne_aggregate_id n \<noteq> []"
  obtains st' where "cache_agrees (st', rows)" and "sequence_cache st' \<noteq> None"
    and "append_domain_event eid now n (st, rows) =
      (if event_exists eid rows then (Inl (ValueError (''duplicate event_id: '' @ eid)), st', rows)
       else (let e = make_event eid now (Suc (seq_get (log_sequences rows) (ne_aggregate_id n))) n in (Inr e, cache_append e st', rows @ [e])))"
proof -
  obtain k st' where k: "next_sequence (ne_aggregate_id n) st rows = (k, st')" by (cases "next_sequence (ne_aggregate_id n) st rows")
  from next_sequence_agrees [OF assms(1) k] assms(2)
  have ok: "cache_agrees (st', rows)" and kk: "k = Suc (seq_get (log_sequences rows) (ne_aggregate_id n))" and loaded: "sequence_cache st' \<noteq> None" by auto
  then obtain seq where seq: "sequence_cache st' = Some seq" by auto
  then have "next_sequence (ne_aggregate_id n) st' rows = (k, st')"
    using ok kk assms(2) by (simp add: next_sequence_def load_sequences_def cache_agrees_def)
  then have "append_domain_event eid now n (st, rows) =
      (if event_exists eid rows then (Inl (ValueError (''duplicate event_id: '' @ eid)), st', rows)
       else (let e = make_event eid now (Suc (seq_get (log_sequences rows) (ne_aggregate_id n))) n in (Inr e, cache_append e st', rows @ [e])))"
    using k kk by (simp add: append_domain_event_def append_event_def make_event_def Let_def)
  with ok loaded show ?thesis by (rule that)
qed

lemma cache_append_loaded: "sequence_cache st \<noteq> None \<Longrightarrow> sequence_cache (cache_append e st) \<noteq> None"
  by (auto simp: cache_append_def)

lemma append_domain_event_agrees:
  assumes "cache_agrees (st, rows)" and "ne_aggregate_id n \<noteq> []"
  shows "cache_agrees (snd (append_domain_event eid now n (st, rows)))"
proof (rule append_domain_event_spec [OF assms, of eid now])
  fix st' assume st': "cache_agrees (st', rows)" and a: "append_domain_event eid now n (st, rows) =
      (if event_exists eid rows then (Inl (ValueError (''duplicate event_id: '' @ eid)), st', rows)
       else (let e = make_event eid now (Suc (seq_get (log_sequences rows) (ne_aggregate_id n))) n in (Inr e, cache_append e st', rows @ [e])))"
  show ?thesis unfolding a using st' cache_append_agrees [OF st' assms(2)] by (simp add: Let_def make_event_def)
qed

section \<open>Rebuilding\<close>

abbreviation well_sequenced :: "event_log \<Rightarrow> bool" where
  "well_sequenced \<equiv> store_log.consecutive"

lemma load_aggregate_sequenced:
  assumes "well_sequenced rows" and "agg \<noteq> []" and "length rows \<le> 100000"
  shows "load_aggregate_events agg rows = rows_of agg rows"
proof -
  have "length (rows_of agg rows) \<le> 100000" unfolding rows_of_def by (rule le_trans [OF length_filter_le assms(3)])
  moreover have "opt_filter (Some agg) v \<longleftrightarrow> v = agg" for v using assms(2) by (auto simp: opt_filter_def split: list.split)
  ultimately have "iter_events (Some agg) None 100000 rows = rows_of agg rows"
    by (simp add: iter_events_def rows_of_def opt_filter_def)
  then show ?thesis using store_log.consecutive_sorted [OF assms(1,2)] by (simp add: load_aggregate_events_def rows_of_def sort_key_id_if_sorted)
qed

lemma rebuild_is_fold:
  assumes "well_sequenced rows" and "iid \<noteq> []" and "length rows \<le> 100000"
  shows "\<exists>ep. rebuild_incident iid rows = fold_projection (rows_of iid rows) (new_projection iid ep) \<and>
     (rows_of iid rows = [] \<longrightarrow> ep = []) \<and>
     (rows_of iid rows \<noteq> [] \<longrightarrow> ep = py_str (py_or (dict_get (de_payload (hd (rows_of iid rows))) ''endpoint_id'') (PyStr [])))"
proof (cases "rows_of iid rows")
  case (Cons e es)
  then have "sort_key de_sequence (e # es) = e # es"
    using store_log.consecutive_sorted [OF assms(1,2)] by (metis rows_of_def sort_key_id_if_sorted)
  with Cons show ?thesis by (simp add: rebuild_incident_def load_aggregate_sequenced [OF assms] projector_fold_def del: sort_key_simps)
qed (simp add: rebuild_incident_def load_aggregate_sequenced [OF assms])

lemma fold_projection_snoc: "fold_projection (es @ [e]) s = bind_r (fold_projection es s) (project_event e)"
proof (induction es arbitrary: s)
  case Nil
  then show ?case by (cases "project_event e s") auto
next
  case (Cons d es)
  then show ?case by (cases "project_event d s") auto
qed

text \<open>One more event is one more step; only the initial endpoint of an empty history may differ.\<close>

lemma rebuild_snoc:
  assumes "well_sequenced (rows @ [e])" and "well_sequenced rows" and "iid \<noteq> []" and "length rows < 100000" and "rebuild_incident iid rows = Inr s"
  shows "if de_aggregate_id e = iid then \<exists>ep. rebuild_incident iid (rows @ [e]) = project_event e (s\<lparr>ip_endpoint_id := ep\<rparr>)
     else rebuild_incident iid (rows @ [e]) = Inr s"
proof -
  obtain ep where ep: "rebuild_incident iid rows = fold_projection (rows_of iid rows) (new_projection iid ep)"
    "rows_of iid rows = [] \<longrightarrow> ep = []"
    "rows_of iid rows \<noteq> [] \<longrightarrow> ep = py_str (py_or (dict_get (de_payload (hd (rows_of iid rows))) ''endpoint_id'') (PyStr []))"
    using rebuild_is_fold [OF assms(2,3)] assms(4) by auto
  obtain ep' where ep': "rebuild_incident iid (rows @ [e]) = fold_projection (rows_of iid (rows @ [e])) (new_projection iid ep')"
    "rows_of iid (rows @ [e]) = [] \<longrightarrow> ep' = []"
    "rows_of iid (rows @ [e]) \<noteq> [] \<longrightarrow> ep' = py_str (py_or (dict_get (de_payload (hd (rows_of iid (rows @ [e])))) ''endpoint_id'') (PyStr []))"
    using rebuild_is_fold [OF assms(1,3)] assms(4) by auto
  have r: "rows_of iid (rows @ [e]) = rows_of iid rows @ (if de_aggregate_id e = iid then [e] else [])" by (simp add: rows_of_def)
  show ?thesis
  proof (cases "rows_of iid rows")
    case Nil
    then have "s = new_projection iid []" using ep assms(5) by simp
    then show ?thesis using Nil r ep' by (cases "project_event e (new_projection iid ep')") (auto simp: new_projection_def intro!: exI [of _ ep'])
  next
    case (Cons d ds)
    then have "ep' = ep" using ep(3) ep'(3) r by simp
    moreover have "fold_projection (rows_of iid rows) (new_projection iid ep) = Inr s" using ep(1) assms(5) by simp
    ultimately have "rebuild_incident iid (rows @ [e]) = (if de_aggregate_id e = iid then project_event e s else Inr s)"
      unfolding ep'(1) r by (simp add: fold_projection_snoc)
    then show ?thesis by (auto intro: exI [of _ "ip_endpoint_id s"])
  qed
qed

section \<open>The lifecycle\<close>

fun allowed_phases :: "command \<Rightarrow> incident_phase set" where
  "allowed_phases (Acknowledge actor) = {DETECTED}"
| "allowed_phases (Start_investigation actor) = {DETECTED, ACKNOWLEDGED}"
| "allowed_phases (Identify_root_cause summary accepted tier ids lims actor) = {INVESTIGATING, ROOT_CAUSE_IDENTIFIED}"
| "allowed_phases (Resolve resolution actor) = - {RESOLVED}"
| "allowed_phases _ = UNIV"

fun command_event :: "command \<Rightarrow> domain_event_type" where
  "command_event (Open endpoint title severity triggers lims) = Incident_detected"
| "command_event (Acknowledge actor) = Incident_acknowledged"
| "command_event (Start_investigation actor) = Incident_investigation_started"
| "command_event (Record_hypothesis_ranking run accepted path ids outcome causation) = Incident_hypothesis_ranked"
| "command_event (Identify_root_cause summary accepted tier ids lims actor) = Incident_root_cause_identified"
| "command_event (Attempt_mitigation action outcome actor) = Incident_mitigation_attempted"
| "command_event (Resolve resolution actor) = Incident_resolved"
| "command_event (Mark_false_positive reason actor) = Incident_false_positive"

definition lists_ok :: "pydict \<Rightarrow> bool" where
  "lists_ok p \<longleftrightarrow> (\<forall>k\<in>{''limitations'', ''state_path'', ''event_ids''}. dict_get p k = PyNone \<or> is_list (dict_get p k))"

text \<open>Every command is the guard of its phases before one append of its event.\<close>

definition guards_append :: "string \<Rightarrow> string \<Rightarrow> string \<Rightarrow> command \<Rightarrow> incident_projection \<Rightarrow> stored \<Rightarrow> domain_event py_result \<times> stored \<Rightarrow> bool" where
  "guards_append eid now iid cmd s sl r \<longleftrightarrow>
     (\<exists>msg p causation actor domain. lists_ok p \<and>
        r = (if ip_phase s \<in> allowed_phases cmd then agg_append eid now iid (command_event cmd) p causation actor domain sl
             else (Inl (ValueError msg), sl)))"

lemma guards_append_refuse:
  "ip_phase s \<notin> allowed_phases cmd \<Longrightarrow> guards_append eid now iid cmd s sl (Inl (ValueError msg), sl)"
  unfolding guards_append_def by (intro exI [of _ msg] exI [of _ "[]"]) (simp add: lists_ok_def dict_get_def)

lemma guards_append_allow:
  "ip_phase s \<in> allowed_phases cmd \<Longrightarrow> command_event cmd = t \<Longrightarrow> lists_ok p \<Longrightarrow>
     guards_append eid now iid cmd s sl (agg_append eid now iid t p causation actor domain sl)"
  unfolding guards_append_def by auto

lemma exec_command_spec:
  assumes "rebuild_incident iid (snd sl) = Inr s"
  shows "guards_append eid now iid cmd s sl (exec_command eid now iid cmd sl)"
  by (cases cmd)
    (auto simp: open_incident_def acknowledge_def start_investigation_def record_hypothesis_ranking_def identify_root_cause_def
      attempt_mitigation_def resolve_def mark_false_positive_def guarded_def assms lists_ok_def dict_get_def string_list_def
      intro!: guards_append_refuse guards_append_allow)

lemma exec_command_cases:
  "(\<exists>x. exec_command eid now iid cmd sl = (Inl x, sl)) \<or>
   (\<exists>p causation actor domain. exec_command eid now iid cmd sl = agg_append eid now iid (command_event cmd) p causation actor domain sl)"
proof (cases "rebuild_incident iid (snd sl)")
  case (Inl x)
  then show ?thesis
    by (cases cmd; simp add: open_incident_def acknowledge_def start_investigation_def record_hypothesis_ranking_def identify_root_cause_def
      attempt_mitigation_def resolve_def mark_false_positive_def guarded_def; blast)
next
  case (Inr s)
  then obtain msg p causation actor domain where "exec_command eid now iid cmd sl =
      (if ip_phase s \<in> allowed_phases cmd then agg_append eid now iid (command_event cmd) p causation actor domain sl else (Inl (ValueError msg), sl))"
    using exec_command_spec [OF Inr, of eid now cmd] unfolding guards_append_def by blast
  then show ?thesis by (cases "ip_phase s \<in> allowed_phases cmd") (simp; blast)+
qed

lemma agg_append_cases:
  assumes "cache_agrees (st, rows)" and "iid \<noteq> []"
  shows "if event_exists eid rows then \<exists>st'. agg_append eid now iid t p causation actor domain (st, rows) =
         (Inl (ValueError (''duplicate event_id: '' @ eid)), st', rows) \<and> cache_agrees (st', rows)
     else \<exists>e st'. agg_append eid now iid t p causation actor domain (st, rows) = (Inr e, st', rows @ [e]) \<and> cache_agrees (st', rows @ [e]) \<and>
       sequence_cache st' \<noteq> None \<and> de_event_id e = eid \<and> de_event_type e = t \<and> de_aggregate_id e = iid \<and> de_payload e = p \<and>
       de_sequence e = Suc (seq_get (log_sequences rows) iid)"
proof -
  let ?n = "\<lparr>ne_aggregate_id = iid, ne_aggregate_type = ''incident'', ne_event_type = t, ne_correlation_id = iid, ne_payload = p,
        ne_causation_id = causation, ne_failure_domain = domain, ne_actor = actor\<rparr>"
  have n: "ne_aggregate_id ?n \<noteq> []" using assms(2) by simp
  show ?thesis
    by (rule append_domain_event_spec [OF assms(1) n, of eid now])
      (use append_domain_event_agrees [OF assms(1) n, of eid now] in
        \<open>simp add: agg_append_def Let_def make_event_def cache_append_loaded del: not_None_eq split: if_splits\<close>)
qed

lemma append_domain_event_sequenced:
  assumes "cache_agrees (st, rows)" and "ne_aggregate_id n \<noteq> []" and "well_sequenced rows"
  shows "cache_agrees (snd (append_domain_event eid now n (st, rows))) \<and>
     well_sequenced (snd (snd (append_domain_event eid now n (st, rows))))"
proof -
  let ?e = "make_event eid now (fst (next_sequence (ne_aggregate_id n) st rows)) n"
  have "snd (append_domain_event eid now n (st, rows)) = snd (append_event True ?e (snd (next_sequence (ne_aggregate_id n) st rows), rows))"
    by (simp add: append_domain_event_def case_prod_beta)
  moreover have "cache_agrees (snd (next_sequence (ne_aggregate_id n) st rows), rows)"
    using next_sequence_agrees [OF assms(1), of "ne_aggregate_id n"] by (cases "next_sequence (ne_aggregate_id n) st rows") auto
  moreover have "de_aggregate_id ?e \<noteq> []" using assms(2) by (simp add: make_event_def)
  ultimately show ?thesis using store_log.add_consecutive store_log.agrees_kept assms(3) by (metis snd_conv)
qed

lemma agg_append_sequenced:
  assumes "cache_agrees (st, rows)" and "iid \<noteq> []" and "well_sequenced rows"
  shows "cache_agrees (snd (agg_append eid now iid t p causation actor domain (st, rows))) \<and>
     well_sequenced (snd (snd (agg_append eid now iid t p causation actor domain (st, rows))))"
  unfolding agg_append_def using assms by (intro append_domain_event_sequenced) simp_all

subsection \<open>Reachable stores\<close>

text \<open>Commands on any incident, and new store objects over the same log, one at a time.\<close>

inductive store_reach :: "stored \<Rightarrow> bool" where
  initial: "store_reach (new_store, [])"
| command: "store_reach sl \<Longrightarrow> iid \<noteq> [] \<Longrightarrow> store_reach (snd (exec_command eid now iid cmd sl))"
| reload: "store_reach (st, rows) \<Longrightarrow> store_reach (new_store, rows)"

definition life_ok :: "incident_projection \<Rightarrow> bool" where
  "life_ok s \<longleftrightarrow>
     (ip_phase s = ACKNOWLEDGED \<longrightarrow> ip_acknowledged_at s \<noteq> None) \<and>
     (ip_phase s = INVESTIGATING \<longrightarrow> ip_investigation_started_at s \<noteq> None) \<and>
     (ip_phase s = ROOT_CAUSE_IDENTIFIED \<longrightarrow> ip_root_cause_identified_at s \<noteq> None) \<and>
     (ip_root_cause_identified_at s \<noteq> None \<longrightarrow> ip_investigation_started_at s \<noteq> None) \<and>
     (ip_phase s \<in> {RESOLVED, FALSE_POSITIVE} \<longrightarrow> ip_resolved_at s \<noteq> None)"

lemma list_of_lists_ok:
  "lists_ok p \<Longrightarrow> k \<in> {''limitations'', ''state_path'', ''event_ids''} \<Longrightarrow> \<exists>xs. list_of_value (py_or (dict_get p k) (PyList ys)) = Inr xs"
  unfolding lists_ok_def by (cases "dict_get p k") (force simp: py_or_def)+

lemma project_event_total:
  assumes "lists_ok (de_payload e)"
  shows "\<exists>s'. project_event e s = Inr s'"
  using list_of_lists_ok [OF assms, of "''limitations''" "ip_limitations s"] list_of_lists_ok [OF assms, of "''state_path''" "ip_state_path s"]
    list_of_lists_ok [OF assms, of "''event_ids''" "[]"]
  by (cases "de_event_type e") (auto simp: project_event_def Let_def)

lemma add_run_id_simps [simp]:
  "ip_phase (add_run_id p s) = ip_phase s" "ip_acknowledged_at (add_run_id p s) = ip_acknowledged_at s"
  "ip_investigation_started_at (add_run_id p s) = ip_investigation_started_at s"
  "ip_root_cause_identified_at (add_run_id p s) = ip_root_cause_identified_at s" "ip_resolved_at (add_run_id p s) = ip_resolved_at s"
  "ip_event_count (add_run_id p s) = ip_event_count s" "ip_last_sequence (add_run_id p s) = ip_last_sequence s"
  by (simp_all add: add_run_id_def)

fun event_phase :: "domain_event_type \<Rightarrow> incident_phase \<Rightarrow> incident_phase" where
  "event_phase Incident_detected ph = DETECTED"
| "event_phase Incident_acknowledged ph = ACKNOWLEDGED"
| "event_phase Incident_investigation_started ph = INVESTIGATING"
| "event_phase Incident_root_cause_identified ph = ROOT_CAUSE_IDENTIFIED"
| "event_phase Incident_mitigation_attempted ph = MITIGATING"
| "event_phase Incident_resolved ph = RESOLVED"
| "event_phase Incident_false_positive ph = FALSE_POSITIVE"
| "event_phase _ ph = ph"

lemma project_event_fields:
  assumes "project_event e s = Inr s'"
  shows "ip_phase s' = event_phase (de_event_type e) (ip_phase s)"
    "ip_acknowledged_at s' = (if de_event_type e = Incident_acknowledged then Some (de_timestamp e) else ip_acknowledged_at s)"
    "ip_investigation_started_at s' =
       (if de_event_type e = Incident_investigation_started then Some (de_timestamp e) else ip_investigation_started_at s)"
    "ip_root_cause_identified_at s' =
       (if de_event_type e = Incident_root_cause_identified then Some (de_timestamp e) else ip_root_cause_identified_at s)"
    "ip_resolved_at s' = (if de_event_type e \<in> {Incident_resolved, Incident_false_positive} then Some (de_timestamp e) else ip_resolved_at s)"
    "ip_event_count s' = Suc (ip_event_count s)" "ip_last_sequence s' = de_sequence e"
  using assms by (cases "de_event_type e"; clarsimp simp: project_event_def Let_def bind_r_Inr)+

lemma project_event_life:
  assumes "project_event e s = Inr s'" and "life_ok s" and "ip_phase s \<in> allowed_phases cmd" and "de_event_type e = command_event cmd"
  shows "life_ok s' \<and> ip_event_count s' = Suc (ip_event_count s) \<and> ip_last_sequence s' = de_sequence e"
  using assms(2-4) unfolding life_ok_def project_event_fields [OF assms(1)] by (cases cmd) auto

lemma reach_sequenced:
  "store_reach sl \<Longrightarrow> cache_agrees sl \<and> well_sequenced (snd sl)"
proof (induction rule: store_reach.induct)
  case initial
  then show ?case by (simp add: cache_agrees_def new_store_def store_log.consecutive_def)
next
  case (command sl iid eid now cmd)
  obtain st rows where sl: "sl = (st, rows)" by (cases sl)
  note ok = agg_append_sequenced [of st rows iid]
  show ?case using exec_command_cases [of eid now iid cmd sl]
  proof (elim disjE exE)
    fix x assume "exec_command eid now iid cmd sl = (Inl x, sl)"
    then show ?thesis using command by simp
  next
    fix p causation actor domain
    assume "exec_command eid now iid cmd sl = agg_append eid now iid (command_event cmd) p causation actor domain sl"
    then show ?thesis using ok command by (simp add: sl)
  qed
next
  case (reload st rows)
  then show ?case by (simp add: cache_agrees_def new_store_def)
qed

definition projects :: "event_log \<Rightarrow> string \<Rightarrow> incident_projection \<Rightarrow> bool" where
  "projects rows iid s \<longleftrightarrow> rebuild_incident iid rows = Inr s \<and> life_ok s \<and>
     ip_event_count s = length (rows_of iid rows) \<and> ip_last_sequence s = length (rows_of iid rows)"

lemma projects_snoc:
  assumes "well_sequenced (rows @ [e])" and "well_sequenced rows" and "iid \<noteq> []" and "length rows < 100000" and "projects rows iid s"
    and "lists_ok (de_payload e)"
    and "de_aggregate_id e = iid \<Longrightarrow> ip_phase s \<in> allowed_phases cmd \<and> de_event_type e = command_event cmd"
  shows "\<exists>s'. projects (rows @ [e]) iid s'"
proof (cases "de_aggregate_id e = iid")
  case True
  obtain ep where ep: "rebuild_incident iid (rows @ [e]) = project_event e (s\<lparr>ip_endpoint_id := ep\<rparr>)"
    using rebuild_snoc [OF assms(1-4)] assms(5) True by (auto simp: projects_def)
  obtain s' where s': "project_event e (s\<lparr>ip_endpoint_id := ep\<rparr>) = Inr s'" using project_event_total [OF assms(6)] by blast
  have "life_ok (s\<lparr>ip_endpoint_id := ep\<rparr>)" using assms(5) by (simp add: projects_def life_ok_def)
  from project_event_life [OF s' this, of cmd] assms(5,7) True
  have "life_ok s'" "ip_event_count s' = Suc (length (rows_of iid rows))" "ip_last_sequence s' = de_sequence e" by (auto simp: projects_def)
  moreover have "de_sequence e = Suc (length (rows_of iid rows))"
  proof -
    have "map de_sequence (rows_of iid (rows @ [e])) = [1..<Suc (length (rows_of iid (rows @ [e])))]"
      using assms(1,3) unfolding store_log.consecutive_def rows_of_def by blast
    then show ?thesis using True by (simp add: rows_of_def)
  qed
  ultimately show ?thesis using ep s' True by (auto simp: projects_def rows_of_def)
next
  case False
  then show ?thesis using rebuild_snoc [OF assms(1-4)] assms(5) by (auto simp: projects_def rows_of_def intro!: exI [of _ s])
qed

lemma new_projection_projects: "projects [] iid (new_projection iid [])"
  by (simp add: projects_def rebuild_incident_def load_aggregate_events_def iter_events_def life_ok_def new_projection_def rows_of_def)


lemma reach_projects:
  "store_reach sl \<Longrightarrow> length (snd sl) \<le> 100000 \<Longrightarrow> iid \<noteq> [] \<Longrightarrow> \<exists>s. projects (snd sl) iid s"
proof (induction arbitrary: iid rule: store_reach.induct)
  case initial
  then show ?case using new_projection_projects by auto
next
  case (command sl iid' eid now cmd)
  obtain st rows where sl: "sl = (st, rows)" by (cases sl)
  have ok: "cache_agrees (st, rows)" "well_sequenced rows" using reach_sequenced [OF command(1)] by (simp_all add: sl)
  have ok': "well_sequenced (snd (snd (exec_command eid now iid' cmd sl)))"
    using reach_sequenced [OF store_reach.command [OF command(1,2)]] by simp
  show ?case using exec_command_cases [of eid now iid' cmd sl]
  proof (elim disjE exE)
    fix x assume "exec_command eid now iid' cmd sl = (Inl x, sl)"
    then show ?thesis using command by simp
  next
    fix p0 causation0 actor0 domain0
    assume a0: "exec_command eid now iid' cmd sl = agg_append eid now iid' (command_event cmd) p0 causation0 actor0 domain0 sl"
    have le: "length rows \<le> length (snd (snd (exec_command eid now iid' cmd sl)))"
      using agg_append_cases [OF ok(1) command(2), of eid now "command_event cmd" p0 causation0 actor0 domain0] a0 by (auto simp: sl split: if_splits)
    then have small: "length rows \<le> 100000" using command.prems(1) by simp
    obtain s where s: "projects rows iid' s" using command.IH [OF _ command(2)] small by (auto simp: sl)
    then obtain msg p causation actor domain where p: "lists_ok p" and a: "exec_command eid now iid' cmd sl =
        (if ip_phase s \<in> allowed_phases cmd then agg_append eid now iid' (command_event cmd) p causation actor domain sl else (Inl (ValueError msg), sl))"
      using exec_command_spec [of iid' sl s eid now cmd] unfolding guards_append_def projects_def sl by auto
    obtain s1 where s1: "projects rows iid s1" using command.IH [OF _ command.prems(2)] small by (auto simp: sl)
    show ?thesis
    proof (cases "ip_phase s \<in> allowed_phases cmd \<and> \<not> event_exists eid rows")
      case False
      then have "snd (snd (exec_command eid now iid' cmd sl)) = rows"
        using a agg_append_cases [OF ok(1) command(2), of eid now "command_event cmd" p causation actor domain] by (auto simp: sl)
      then show ?thesis using s1 by auto
    next
      case True
      then obtain e where e: "snd (snd (exec_command eid now iid' cmd sl)) = rows @ [e]" "de_event_type e = command_event cmd"
        "de_aggregate_id e = iid'" "de_payload e = p"
        using a agg_append_cases [OF ok(1) command(2), of eid now "command_event cmd" p causation actor domain] by (auto simp: sl)
      have "length rows < 100000" using e(1) command.prems(1) by simp
      moreover have "de_aggregate_id e = iid \<Longrightarrow> ip_phase s1 \<in> allowed_phases cmd \<and> de_event_type e = command_event cmd"
        using True e s s1 by (auto simp: projects_def)
      ultimately show ?thesis
        using projects_snoc [of rows e iid s1 cmd] ok' ok(2) command.prems(2) s1 e p by simp
    qed
  qed
next
  case (reload st rows)
  then show ?case by auto
qed

subsection \<open>One command\<close>

lemma command_succeeds:
  assumes "cache_agrees (st, rows)" and "well_sequenced rows" and "iid \<noteq> []" and "rebuild_incident iid rows = Inr s" and "length rows < 100000"
    and "ip_phase s \<in> allowed_phases cmd" and "\<not> event_exists eid rows"
  shows "\<exists>e s' st'. exec_command eid now iid cmd (st, rows) = (Inr e, st', rows @ [e]) \<and> cache_agrees (st', rows @ [e]) \<and>
     sequence_cache st' \<noteq> None \<and> well_sequenced (rows @ [e]) \<and> rebuild_incident iid (rows @ [e]) = Inr s' \<and>
     ip_phase s' = event_phase (command_event cmd) (ip_phase s) \<and> de_event_id e = eid"
proof -
  obtain p causation actor domain where p: "lists_ok p"
    and a: "exec_command eid now iid cmd (st, rows) = agg_append eid now iid (command_event cmd) p causation actor domain (st, rows)"
    using exec_command_spec [of iid "(st, rows)" s eid now cmd] assms(4,6) unfolding guards_append_def by auto
  obtain e st' where e: "exec_command eid now iid cmd (st, rows) = (Inr e, st', rows @ [e])" "cache_agrees (st', rows @ [e])"
    "sequence_cache st' \<noteq> None" "de_event_id e = eid" "de_event_type e = command_event cmd" "de_aggregate_id e = iid" "de_payload e = p"
    using agg_append_cases [OF assms(1,3), of eid now "command_event cmd" p causation actor domain] a assms(7) by auto
  have w: "well_sequenced (rows @ [e])"
    using agg_append_sequenced [OF assms(1,3,2), of eid now "command_event cmd" p causation actor domain] e(1) a by simp
  obtain ep where ep: "rebuild_incident iid (rows @ [e]) = project_event e (s\<lparr>ip_endpoint_id := ep\<rparr>)"
    using rebuild_snoc [OF w assms(2,3,5,4)] e(6) by auto
  obtain s' where s': "project_event e (s\<lparr>ip_endpoint_id := ep\<rparr>) = Inr s'" using project_event_total [of e] p e(7) by blast
  show ?thesis using e w ep s' project_event_fields(1) [OF s'] by auto
qed

lemma command_refused:
  assumes "cache_agrees (st, rows)" and "well_sequenced rows" and "iid \<noteq> []" and "rebuild_incident iid rows = Inr s"
    and "\<not> (ip_phase s \<in> allowed_phases cmd \<and> \<not> event_exists eid rows)"
  shows "\<exists>msg st'. exec_command eid now iid cmd (st, rows) = (Inl (ValueError msg), st', rows)"
proof -
  obtain msg p causation actor domain where "exec_command eid now iid cmd (st, rows) =
      (if ip_phase s \<in> allowed_phases cmd then agg_append eid now iid (command_event cmd) p causation actor domain (st, rows)
       else (Inl (ValueError msg), st, rows))"
    using exec_command_spec [of iid "(st, rows)" s eid now cmd] assms(4) unfolding guards_append_def by auto
  then show ?thesis using assms(5) agg_append_cases [OF assms(1,3), of eid now "command_event cmd" p causation actor domain]
    by (auto split: if_splits)
qed

text \<open>A second store object over the same log: its cache does not see what the first one appends, so it hands out the same number.\<close>

lemma second_store_duplicates:
  assumes "cache_agrees (st, rows)" and "sequence_cache st \<noteq> None" and "ne_aggregate_id n \<noteq> []" and "ne_aggregate_id n' = ne_aggregate_id n"
    and "\<not> event_exists eid rows" and "eid' \<noteq> eid" and "\<not> event_exists eid' rows"
  shows "\<exists>e st1. append_domain_event eid now n (new_store, rows) = (Inr e, st1, rows @ [e]) \<and> de_event_id e = eid \<and> de_aggregate_id e = ne_aggregate_id n \<and>
     (\<exists>e' st2. append_domain_event eid' now' n' (st, rows @ [e]) = (Inr e', st2, rows @ [e, e']) \<and> de_event_id e' = eid' \<and>
        de_aggregate_id e' = de_aggregate_id e \<and> de_sequence e' = de_sequence e \<and> de_event_type e' = ne_event_type n' \<and> de_payload e' = ne_payload n')"
proof -
  have new: "cache_agrees (new_store, rows)" by (simp add: cache_agrees_def new_store_def)
  obtain st0 where a: "append_domain_event eid now n (new_store, rows) =
      (let e = make_event eid now (Suc (seq_get (log_sequences rows) (ne_aggregate_id n))) n in (Inr e, cache_append e st0, rows @ [e]))"
    using append_domain_event_spec [OF new assms(3), of eid now] assms(5) by metis
  obtain seq where seq: "sequence_cache st = Some seq" using assms(2) by auto
  then have "seq_get seq (ne_aggregate_id n) = seq_get (log_sequences rows) (ne_aggregate_id n)" using assms(1,3) by (simp add: cache_agrees_def)
  then show ?thesis using a seq assms(4-)
    by (simp add: append_domain_event_def append_event_def next_sequence_def load_sequences_def make_event_def Let_def event_exists_def)
qed

section \<open>Several stores over one log\<close>

text \<open>
  Several store objects share the log file, as when a command helper creates a store of its own beside the caller's. The stores in use are numbered by
  \<open>U\<close>; each step is a lifecycle command, a direct append, or the creation of a store object, through any of them.
\<close>

type_synonym shared = "(nat \<Rightarrow> event_store) \<times> event_log"

definition through :: "nat \<Rightarrow> (stored \<Rightarrow> domain_event py_result \<times> stored) \<Rightarrow> shared \<Rightarrow> shared" where
  "through k op sh = (let (st, rows) = snd (op (fst sh k, snd sh)) in ((fst sh)(k := st), rows))"

inductive shared_reach :: "nat set \<Rightarrow> shared \<Rightarrow> bool" for U where
  shared_initial: "shared_reach U (\<lambda>_. new_store, [])"
| shared_command: "shared_reach U sh \<Longrightarrow> k \<in> U \<Longrightarrow> iid \<noteq> [] \<Longrightarrow> shared_reach U (through k (exec_command eid now iid cmd) sh)"
| shared_append: "shared_reach U sh \<Longrightarrow> k \<in> U \<Longrightarrow> ne_aggregate_id n \<noteq> [] \<Longrightarrow> shared_reach U (through k (append_domain_event eid now n) sh)"
| shared_reload: "shared_reach U (sts, rows) \<Longrightarrow> shared_reach U (sts(k := new_store), rows)"

text \<open>A cache may lag behind the log, never run ahead of it.\<close>

definition cache_below :: "event_store \<Rightarrow> event_log \<Rightarrow> bool" where
  "cache_below st rows \<longleftrightarrow>
     (case sequence_cache st of
        None \<Rightarrow> True
      | Some seq \<Rightarrow> \<forall>agg. agg \<noteq> [] \<longrightarrow> seq_get seq agg \<le> seq_get (log_sequences rows) agg)"

text \<open>Numbers without a gap: each is at least one and at most one above all that came before it.\<close>

definition gapless :: "nat list \<Rightarrow> bool" where
  "gapless xs \<longleftrightarrow> (\<forall>i < length xs. 1 \<le> xs ! i \<and> xs ! i \<le> Suc (foldl max 0 (take i xs)))"

lemma gapless_Nil [simp]: "gapless []"
  by (simp add: gapless_def)

lemma gapless_snoc: "gapless (xs @ [x]) \<longleftrightarrow> gapless xs \<and> 1 \<le> x \<and> x \<le> Suc (foldl max 0 xs)"
  by (auto simp: gapless_def nth_append less_Suc_eq)

lemma gapless_set: "gapless xs \<Longrightarrow> set xs = {1..foldl max 0 xs}"
proof (induction xs rule: rev_induct)
  case (snoc x xs)
  have "insert x {1..m} = {1..max m x}" if "1 \<le> x" "x \<le> Suc m" for m :: nat using that by auto
  then show ?case using snoc by (simp add: gapless_snoc)
qed simp

lemma gapless_distinct: "gapless xs \<Longrightarrow> distinct xs \<Longrightarrow> xs = [1..<Suc (length xs)]"
proof (induction xs rule: rev_induct)
  case (snoc x xs)
  define n where "n = length xs"
  have xs: "xs = [1..<Suc n]" using snoc unfolding n_def by (simp only: gapless_snoc distinct_append)
  have "x \<notin> set xs" "gapless xs" "1 \<le> x" "x \<le> Suc (foldl max 0 xs)" using snoc(2,3) by (auto simp: gapless_snoc)
  then have "x \<notin> {1..n}" "x \<le> Suc n" "1 \<le> x" unfolding xs store_log.foldl_max_upt by auto
  then show ?case unfolding xs by simp
qed simp

text \<open>The log on its own: unique identifiers and gapless numbers.\<close>

definition log_gapless :: "event_log \<Rightarrow> bool" where
  "log_gapless rows \<longleftrightarrow> distinct (map de_event_id rows) \<and> (\<forall>iid. iid \<noteq> [] \<longrightarrow> gapless (map de_sequence (rows_of iid rows)))"

text \<open>An append through any store: at most one row, numbered one above what the store last knew.\<close>

lemma append_domain_event_any:
  "\<exists>seq st'. sequence_cache st' = Some seq \<and> (case sequence_cache st of None \<Rightarrow> seq = log_sequences rows | Some q \<Rightarrow> seq = q) \<and>
     append_domain_event eid now n (st, rows) =
       (if event_exists eid rows then (Inl (ValueError (''duplicate event_id: '' @ eid)), st', rows)
        else (let e = make_event eid now (Suc (seq_get seq (ne_aggregate_id n))) n in (Inr e, cache_append e st', rows @ [e])))"
  by (rule exI [of _ "fst (load_sequences st rows)"], rule exI [of _ "snd (load_sequences st rows)"], cases "sequence_cache st")
    (auto simp: append_domain_event_def append_event_def next_sequence_def load_sequences_def make_event_def Let_def)

lemma seq_get_upd: "seq_get (seq(a \<mapsto> m)) b = (if b = a then m else seq_get seq b)"
  by (simp add: seq_get_def)

lemma cache_below_snoc: "cache_below st rows \<Longrightarrow> cache_below st (rows @ [e])"
  by (auto simp: cache_below_def log_sequences_snoc seq_get_note split: option.splits intro: le_max_iff_disj [THEN iffD2])

lemma shared_append_step:
  assumes below: "cache_below st rows" and log: "log_gapless rows" and agg: "ne_aggregate_id n \<noteq> []"
  obtains es where "snd (snd (append_domain_event eid now n (st, rows))) = rows @ es"
    and "log_gapless (rows @ es)" and "cache_below (fst (snd (append_domain_event eid now n (st, rows)))) (rows @ es)"
    and "\<And>st2. cache_below st2 rows \<Longrightarrow> cache_below st2 (rows @ es)"
proof -
  obtain seq st' where st': "sequence_cache st' = Some seq"
    and seq: "case sequence_cache st of None \<Rightarrow> seq = log_sequences rows | Some q \<Rightarrow> seq = q"
    and a: "append_domain_event eid now n (st, rows) =
       (if event_exists eid rows then (Inl (ValueError (''duplicate event_id: '' @ eid)), st', rows)
        else (let e = make_event eid now (Suc (seq_get seq (ne_aggregate_id n))) n in (Inr e, cache_append e st', rows @ [e])))"
    using append_domain_event_any [where st = st and rows = rows and eid = eid and now = now and n = n] by blast
  have le: "seq_get seq agg \<le> seq_get (log_sequences rows) agg" if "agg \<noteq> []" for agg
    using below seq that by (auto simp: cache_below_def split: option.splits)
  show ?thesis
  proof (cases "event_exists eid rows")
    case True
    then show ?thesis using a st' le log by (intro that [of "[]"]) (auto simp: cache_below_def)
  next
    case False
    let ?e = "make_event eid now (Suc (seq_get seq (ne_aggregate_id n))) n"
    have "gapless (map de_sequence (rows_of iid (rows @ [?e])))" if "iid \<noteq> []" for iid
      using log that le [OF that] log_sequences_max [OF that, of rows]
      by (auto simp: log_gapless_def rows_of_def gapless_snoc make_event_def)
    moreover have "distinct (map de_event_id (rows @ [?e]))"
      using log False by (auto simp: log_gapless_def event_exists_iff make_event_def)
    moreover have "cache_below (cache_append ?e st') (rows @ [?e])"
      using st' le agg
      by (auto simp: cache_below_def cache_append_def log_sequences_snoc seq_get_note make_event_def seq_get_upd intro: le_max_iff_disj [THEN iffD2])
    ultimately show ?thesis using a False
      by (intro that [of "[?e]"]) (auto simp: Let_def log_gapless_def intro: cache_below_snoc)
  qed
qed

text \<open>A command either leaves everything as it is or appends through the helper.\<close>

lemma through_command:
  obtains "through k (exec_command eid now iid cmd) sh = sh"
    | n where "ne_aggregate_id n = iid" and "through k (exec_command eid now iid cmd) sh = through k (append_domain_event eid now n) sh"
  using exec_command_cases [of eid now iid cmd "(fst sh k, snd sh)"]
proof (elim disjE exE)
  fix x assume "exec_command eid now iid cmd (fst sh k, snd sh) = (Inl x, fst sh k, snd sh)"
  then show thesis by (intro that(1)) (simp add: through_def)
next
  fix p causation actor domain
  assume "exec_command eid now iid cmd (fst sh k, snd sh) = agg_append eid now iid (command_event cmd) p causation actor domain (fst sh k, snd sh)"
  then show thesis by (intro that(2)) (auto simp: agg_append_def through_def)
qed

definition shared_ok :: "shared \<Rightarrow> bool" where
  "shared_ok sh \<longleftrightarrow> log_gapless (snd sh) \<and> (\<forall>k. cache_below (fst sh k) (snd sh))"

lemma shared_ok_append:
  assumes "shared_ok sh" and "ne_aggregate_id n \<noteq> []"
  shows "shared_ok (through k (append_domain_event eid now n) sh)"
proof -
  obtain sts rows where sh: "sh = (sts, rows)" by (cases sh)
  have b: "cache_below (sts k) rows" and l: "log_gapless rows" using assms(1) by (auto simp: shared_ok_def sh)
  show ?thesis
    by (rule shared_append_step [OF b l assms(2), of eid now])
      (use assms(1) in \<open>auto simp: shared_ok_def through_def sh Let_def split: prod.splits\<close>)
qed

lemma shared_reach_ok: "shared_reach U sh \<Longrightarrow> shared_ok sh"
proof (induction rule: shared_reach.induct)
  case shared_initial
  then show ?case by (simp add: shared_ok_def log_gapless_def rows_of_def cache_below_def new_store_def)
next
  case (shared_command sh k iid eid now cmd)
  show ?case
    by (rule through_command [of k eid now iid cmd sh]) (use shared_command shared_ok_append in auto)
next
  case (shared_append sh k n eid now)
  then show ?case by (intro shared_ok_append)
next
  case (shared_reload sts rows k)
  then show ?case by (simp add: shared_ok_def cache_below_def new_store_def)
qed

text \<open>With a single store in use its cache is exact, so the numbers are consecutive.\<close>

definition single_ok :: "nat \<Rightarrow> shared \<Rightarrow> bool" where
  "single_ok k sh \<longleftrightarrow> cache_agrees (fst sh k, snd sh) \<and> well_sequenced (snd sh)"

lemma single_ok_append:
  assumes "single_ok k sh" and "ne_aggregate_id n \<noteq> []"
  shows "single_ok k (through k (append_domain_event eid now n) sh)"
  using append_domain_event_sequenced [of "fst sh k" "snd sh" n eid now] assms
  by (auto simp: single_ok_def through_def Let_def split: prod.splits)

lemma single_reach_ok:
  "shared_reach U sh \<Longrightarrow> U = {k} \<Longrightarrow> single_ok k sh"
proof (induction rule: shared_reach.induct)
  case shared_initial
  then show ?case by (simp add: single_ok_def cache_agrees_def new_store_def store_log.consecutive_def)
next
  case (shared_command sh j iid eid now cmd)
  then have j: "j = k" by simp
  show ?case
    by (rule through_command [of k eid now iid cmd sh]) (use shared_command j single_ok_append in auto)
next
  case (shared_append sh j n eid now)
  then show ?case by (auto intro: single_ok_append)
next
  case (shared_reload sts rows j)
  then show ?case by (auto simp: single_ok_def cache_agrees_def new_store_def)
qed

section \<open>Bounds of the metrics\<close>

lemma round_digits_mono: "x \<le> y \<Longrightarrow> round_digits d x \<le> round_digits d y"
  using round_half_even_mono [of "10 ^ d * x" "10 ^ d * y"] by (simp add: round_digits_def divide_right_mono)

lemma round_digits_int [simp]: "round_digits d (of_int n) = of_int n"
proof -
  have "round_half_even (10 ^ d * of_int n) = 10 ^ d * n" using round_half_even_int [of "10 ^ d * n"] by simp
  then show ?thesis by (simp add: round_digits_def)
qed

lemma length_opt_list_concat: "length (concat (map (\<lambda>s. opt_list (f s)) xs)) \<le> length xs"
  by (induction xs) (auto simp: opt_list_def split: option.split)

lemma delta_seconds_nonneg: "delta_seconds fromiso a b = Some v \<Longrightarrow> 0 \<le> v"
  by (auto simp: delta_seconds_def split: option.splits)

lemma incident_mttr_nonneg: "v \<in> set (concat (map (\<lambda>s. opt_list (incident_mttr fromiso s)) xs)) \<Longrightarrow> 0 \<le> v"
  by (auto simp: opt_list_def incident_mttr_def split: option.splits if_splits dest: delta_seconds_nonneg [OF sym])

lemma round_digits_nonneg: "0 \<le> x \<Longrightarrow> 0 \<le> round_digits d x"
  using round_digits_mono [of 0 x d] round_digits_int [of d 0] by simp

lemma mean2_nonneg: "mean2 xs = Some v \<Longrightarrow> (\<And>x. x \<in> set xs \<Longrightarrow> 0 \<le> x) \<Longrightarrow> 0 \<le> v"
  by (auto simp: mean2_def split: if_splits intro!: round_digits_nonneg divide_nonneg_nonneg sum_list_nonneg)

lemma percentile_index:
  assumes "0 \<le> p" and "p \<le> 100" and "xs \<noteq> []"
  shows "nat (round_half_even (p / 100 * of_nat (length xs - 1))) < length xs"
proof -
  have "p / 100 * of_nat (length xs - 1) \<le> 1 * of_nat (length xs - 1)" using assms(2) by (intro mult_right_mono) auto
  then have "p / 100 * of_nat (length xs - 1) \<le> of_int (int (length xs - 1))" by (simp only: of_int_of_nat_eq mult_1)
  then have "round_half_even (p / 100 * of_nat (length xs - 1)) \<le> int (length xs - 1)"
    using round_half_even_mono round_half_even_int by metis
  then show ?thesis using assms(3) by (cases xs) auto
qed

lemma percentile_mono:
  assumes "0 \<le> p" and "p \<le> q" and "q \<le> 100" and "percentile xs p = Some a"
  shows "\<exists>b. percentile xs q = Some b \<and> a \<le> b"
proof -
  have ne: "xs \<noteq> []" and a: "a = round_digits 2 (sort xs ! nat (round_half_even (p / 100 * of_nat (length xs - 1))))"
    using assms(4) by (auto simp: percentile_def split: if_splits)
  have "round_half_even (p / 100 * of_nat (length xs - 1)) \<le> round_half_even (q / 100 * of_nat (length xs - 1))"
    using assms(2) by (intro round_half_even_mono mult_right_mono) auto
  then have "sort xs ! nat (round_half_even (p / 100 * of_nat (length xs - 1))) \<le> sort xs ! nat (round_half_even (q / 100 * of_nat (length xs - 1)))"
    using percentile_index [OF order_trans [OF assms(1,2)] assms(3) ne] by (intro sorted_nth_mono nat_mono) (simp_all only: sorted_sort length_sort)
  then show ?thesis using ne a by (auto simp: percentile_def intro: round_digits_mono)
qed

section \<open>Properties\<close>

text \<open>The smallest run in which a lagging store repeats a number.\<close>

lemma lagging_store_repeats:
  "\<exists>sh. shared_reach {0, 1} sh \<and> map de_sequence (rows_of ''inc'' (snd sh)) = [1, 2, 2]"
proof -
  let ?n = "\<lparr>ne_aggregate_id = ''inc'', ne_aggregate_type = ''incident'', ne_event_type = Decision_recorded, ne_correlation_id = ''inc'',
      ne_payload = [], ne_causation_id = None, ne_failure_domain = None, ne_actor = ''system''\<rparr>"
  let ?a = "through 0 (exec_command ''e1'' ''t'' ''inc'' (Open ''ep'' ''x'' ''high'' [] [])) (\<lambda>_. new_store, [])"
  let ?b = "through 1 (append_domain_event ''e2'' ''t'' ?n) ?a"
  let ?c = "through 0 (exec_command ''e3'' ''t'' ''inc'' (Attempt_mitigation ''a'' ''ok'' ''op'')) ?b"
  have "shared_reach {0, 1} ?c" by (intro shared_reach.intros) simp_all
  moreover have "map de_sequence (rows_of ''inc'' (snd ?c)) = [1, 2, 2]"
    by (simp add: through_def open_incident_def attempt_mitigation_def agg_append_def append_domain_event_def append_event_def
        next_sequence_def load_sequences_def new_store_def log_sequences_def note_sequence_def seq_get_def make_event_def event_exists_def
        cache_append_def rows_of_def)
  ultimately show ?thesis by (intro exI conjI)
qed

text \<open>
  C18. The log of the incident store. Whatever lifecycle commands and direct appends are issued, through any set \<open>U\<close> of store objects that share the log
  file and are created at any time, event identifiers stay unique and the sequence numbers of every incident have no gap: they are the numbers from 1 to
  some m, and where none is repeated they are 1, 2, ..., n in append order. They are never repeated when one store at a time is in use, but two stores do
  repeat them: a store whose cache lags behind hands out a number a second time, as the run 1, 2, 2 shows. In every state that lifecycle commands reach
  through stores created one after the other, moreover (up to the reader's limit of 100000 rows), every incident rebuilds to a projection whose counters
  are n and whose lifecycle is sound: a root cause implies that an investigation was started, and every phase that has a time stamp has it set.
\<close>

theorem incident_log_invariant:
  "(shared_reach U sh \<longrightarrow> distinct (map de_event_id (snd sh)) \<and>
      (iid \<noteq> [] \<longrightarrow> (\<exists>m. set (map de_sequence (rows_of iid (snd sh))) = {1..m}) \<and>
         (U = {k} \<or> distinct (map de_sequence (rows_of iid (snd sh))) \<longrightarrow>
            map de_sequence (rows_of iid (snd sh)) = [1..<Suc (length (rows_of iid (snd sh)))]))) \<and>
   (\<exists>sh. shared_reach {0, 1} sh \<and> map de_sequence (rows_of ''inc'' (snd sh)) = [1, 2, 2]) \<and>
   (store_reach sl \<longrightarrow> distinct (map de_event_id (snd sl)) \<and>
     (\<forall>iid. iid \<noteq> [] \<longrightarrow> map de_sequence (rows_of iid (snd sl)) = [1..<Suc (length (rows_of iid (snd sl)))]) \<and>
     (length (snd sl) \<le> 100000 \<longrightarrow>
       (\<forall>iid. iid \<noteq> [] \<longrightarrow> (\<exists>s. rebuild_incident iid (snd sl) = Inr s \<and> life_ok s \<and>
          ip_event_count s = length (rows_of iid (snd sl)) \<and> ip_last_sequence s = length (rows_of iid (snd sl))))))"
proof (intro conjI impI lagging_store_repeats)
  assume r: "shared_reach U sh"
  then have g: "log_gapless (snd sh)" using shared_reach_ok by (simp add: shared_ok_def)
  then show "distinct (map de_event_id (snd sh))" by (simp add: log_gapless_def)
  assume i: "iid \<noteq> []"
  then have "gapless (map de_sequence (rows_of iid (snd sh)))" using g by (simp add: log_gapless_def)
  note gs = gapless_set [OF this] gapless_distinct [OF this]
  show "\<exists>m. set (map de_sequence (rows_of iid (snd sh))) = {1..m}" using gs(1) by blast
  assume "U = {k} \<or> distinct (map de_sequence (rows_of iid (snd sh)))"
  then show "map de_sequence (rows_of iid (snd sh)) = [1..<Suc (length (rows_of iid (snd sh)))]"
    using gs(2) single_reach_ok [OF r] i unfolding single_ok_def store_log.consecutive_def rows_of_def by (metis length_map)
next
  assume r: "store_reach sl"
  note seq = reach_sequenced [OF r] and proj = reach_projects [OF r]
  show "distinct (map de_event_id (snd sl))"
    "\<forall>iid. iid \<noteq> [] \<longrightarrow> map de_sequence (rows_of iid (snd sl)) = [1..<Suc (length (rows_of iid (snd sl)))]"
    using seq unfolding store_log.consecutive_def rows_of_def by blast+
  assume "length (snd sl) \<le> 100000"
  then show "\<forall>iid. iid \<noteq> [] \<longrightarrow> (\<exists>s. rebuild_incident iid (snd sl) = Inr s \<and> life_ok s \<and>
          ip_event_count s = length (rows_of iid (snd sl)) \<and> ip_last_sequence s = length (rows_of iid (snd sl)))"
    using proj unfolding projects_def by blast
qed

lemma sample_store: "store_reach (snd (exec_command ''e1'' ''t'' ''inc'' (Open ''ep'' ''x'' ''high'' [] []) (new_store, [])))"
  by (rule store_reach.command [OF store_reach.initial]) simp

lemma sample_rows:
  "\<exists>e st. exec_command ''e1'' ''t'' ''inc'' (Open ''ep'' ''x'' ''high'' [] []) (new_store, []) = (Inr e, st, [e]) \<and>
     de_sequence e = 1 \<and> de_aggregate_id e = ''inc'' \<and> de_event_id e = ''e1'' \<and> de_event_type e = Incident_detected"
  by (simp add: open_incident_def agg_append_def append_domain_event_def append_event_def next_sequence_def load_sequences_def new_store_def
      log_sequences_def seq_get_def make_event_def event_exists_def)

theorem incident_log_invariant_witness:
  "let sl = snd (exec_command ''e1'' ''t'' ''inc'' (Open ''ep'' ''x'' ''high'' [] []) (new_store, []));
       sh = through 0 (exec_command ''e1'' ''t'' ''inc'' (Open ''ep'' ''x'' ''high'' [] [])) (\<lambda>_. new_store, [])
   in map de_sequence (rows_of ''inc'' (snd sh)) = [1] \<and> snd sh = snd sl \<and>
      map de_sequence (rows_of ''inc'' (snd sl)) = [1] \<and> (\<exists>s. rebuild_incident ''inc'' (snd sl) = Inr s \<and> ip_event_count s = 1)"
proof -
  obtain e st where e: "exec_command ''e1'' ''t'' ''inc'' (Open ''ep'' ''x'' ''high'' [] []) (new_store, []) = (Inr e, st, [e])"
    "de_sequence e = 1" "de_aggregate_id e = ''inc''" using sample_rows by blast
  let ?sh = "through 0 (exec_command ''e1'' ''t'' ''inc'' (Open ''ep'' ''x'' ''high'' [] [])) (\<lambda>_. new_store, [])"
  have sh: "snd ?sh = [e]" unfolding through_def fst_conv snd_conv e(1) by simp
  have reach: "shared_reach {0} ?sh" by (intro shared_reach.intros) simp_all
  have r: "rows_of ''inc'' [e] = [e]" by (simp add: rows_of_def e(3))
  have s: "store_reach (st, [e])" using sample_store by (simp only: e(1) snd_conv)
  note t = incident_log_invariant [where U = "{0}" and k = 0 and sh = ?sh and iid = "''inc''" and sl = "(st, [e])"]
  have "map de_sequence (rows_of ''inc'' (snd ?sh)) = [1]" using t reach unfolding sh r by simp
  moreover have "length (snd (st, [e])) \<le> 100000" by simp
  then have "\<exists>s. rebuild_incident ''inc'' [e] = Inr s \<and> ip_event_count s = length (rows_of ''inc'' [e])"
    using t s by (metis snd_conv list.distinct(1))
  ultimately show ?thesis unfolding Let_def e(1) snd_conv sh r by (simp add: e(2))
qed

text \<open>
  C19. Commands and their errors. On a reachable store a lifecycle command succeeds exactly when the phase of the incident allows it and the new event
  identifier is unused; then exactly one event is appended and the incident rebuilds to the phase of that event. Otherwise it raises a
  \<open>ValueError\<close> and the log is unchanged.
\<close>

theorem command_error_iff:
  assumes "store_reach (st, rows)" and "iid \<noteq> []" and "rebuild_incident iid rows = Inr s" and "length rows < 100000"
    and "exec_command eid now iid cmd (st, rows) = (r, st', rows')"
  shows "if ip_phase s \<in> allowed_phases cmd \<and> \<not> event_exists eid rows
     then \<exists>e s'. r = Inr e \<and> rows' = rows @ [e] \<and> rebuild_incident iid rows' = Inr s' \<and> ip_phase s' = event_phase (command_event cmd) (ip_phase s)
     else (\<exists>msg. r = Inl (ValueError msg)) \<and> rows' = rows"
proof -
  have "cache_agrees (st, rows)" "well_sequenced rows" using reach_sequenced [OF assms(1)] by simp_all
  from command_succeeds [OF this assms(2-4), of cmd eid now] command_refused [OF this assms(2,3), of cmd eid now] assms(5) show ?thesis
    by (cases "ip_phase s \<in> allowed_phases cmd \<and> \<not> event_exists eid rows") auto
qed

theorem command_error_iff_witness:
  "\<exists>st rows st' rows' msg. exec_command ''e1'' ''t'' ''inc'' (Open ''ep'' ''x'' ''high'' [] []) (new_store, []) = (Inr (hd rows), st, rows) \<and>
     exec_command ''e2'' ''t'' ''inc'' (Identify_root_cause ''s'' ''h'' ''proven'' [] [] ''a'') (st, rows) = (Inl (ValueError msg), st', rows') \<and> rows' = rows"
proof -
  obtain e st where e: "exec_command ''e1'' ''t'' ''inc'' (Open ''ep'' ''x'' ''high'' [] []) (new_store, []) = (Inr e, st, [e])"
    "de_aggregate_id e = ''inc''" "de_event_id e = ''e1''" "de_event_type e = Incident_detected" using sample_rows by blast
  have reach: "store_reach (st, [e])" using sample_store by (simp only: e(1) snd_conv)
  then obtain s where s: "rebuild_incident ''inc'' [e] = Inr s" using reach_projects [OF reach, of "''inc''"] by (auto simp: projects_def)
  have ph: "ip_phase s = DETECTED"
  proof -
    have "well_sequenced [e]" "well_sequenced []" using reach_sequenced [OF reach] by (simp_all add: store_log.consecutive_def)
    moreover have "rebuild_incident ''inc'' [] = Inr (new_projection ''inc'' [])" using new_projection_projects by (simp add: projects_def)
    ultimately obtain ep where "rebuild_incident ''inc'' [e] = project_event e ((new_projection ''inc'' [])\<lparr>ip_endpoint_id := ep\<rparr>)"
      using rebuild_snoc [of "[]" e "''inc''"] e(2) by auto
    then show ?thesis using s project_event_fields(1) [of e _ s] e(4) by simp
  qed
  obtain r st' rows' where x: "exec_command ''e2'' ''t'' ''inc'' (Identify_root_cause ''s'' ''h'' ''proven'' [] [] ''a'') (st, [e]) = (r, st', rows')"
    by (metis prod_cases3)
  have "(\<exists>msg. r = Inl (ValueError msg)) \<and> rows' = [e]" using command_error_iff [OF reach _ s _ x] ph by simp
  then show ?thesis using e(1) x by auto
qed

text \<open>
  The recovery metrics are within their bounds: resolved incidents and investigations never outnumber incidents, the false positive rate lies in
  [0, 1], the mean time to recover is not negative, and the 50th percentile is never above the 95th.
\<close>

theorem mttr_bounds:
  assumes "compute_incident_mttr_metrics fromiso rows = Inr m"
  shows "resolved_count m \<le> incident_count m \<and> investigation_count m \<le> incident_count m \<and>
     (\<forall>r. false_positive_rate m = Some r \<longrightarrow> 0 \<le> r \<and> r \<le> 1) \<and> (\<forall>v. mean_time_to_recover m = Some v \<longrightarrow> 0 \<le> v) \<and>
     (\<forall>a. p50_mttr m = Some a \<longrightarrow> (\<exists>b. p95_mttr m = Some b \<and> a \<le> b))"
proof -
  obtain projs where projs: "map_r (\<lambda>iid. rebuild_incident iid rows) (list_incident_ids rows) = Inr projs"
    using assms by (auto simp: compute_incident_mttr_metrics_def bind_r_Inr)
  let ?real = "filter (\<lambda>s. ip_phase s \<noteq> FALSE_POSITIVE) projs" and ?n = "length (list_incident_ids rows)"
  let ?mttr = "concat (map (\<lambda>s. opt_list (incident_mttr fromiso s)) ?real)"
  have n: "length projs = ?n" using map_r_length [OF projs] .
  have real: "length ?real \<le> ?n" using length_filter_le [of _ projs] n by metis
  have f: "resolved_count m = length ?mttr" "incident_count m = ?n"
    "investigation_count m = length (filter (\<lambda>s. some_text (ip_investigation_started_at s)) ?real)"
    "false_positive_rate m = (if ?n = 0 then None else Some (round_digits 4 (of_nat (length projs - length ?real) / of_nat ?n)))"
    "mean_time_to_recover m = mean2 ?mttr" "p50_mttr m = percentile ?mttr 50" "p95_mttr m = percentile ?mttr 95"
    using assms projs by (auto simp: compute_incident_mttr_metrics_def Let_def)
  have fp: "0 \<le> r \<and> r \<le> 1" if "false_positive_rate m = Some r" for r
  proof -
    have "0 < ?n" and r: "r = round_digits 4 (of_nat (length projs - length ?real) / of_nat ?n)" using that f(4) by (auto split: if_splits)
    then have "of_nat (length projs - length ?real) / of_nat ?n \<le> (of_int 1 :: rat)" by (simp add: n)
    then have "r \<le> of_int 1" unfolding r using round_digits_mono round_digits_int by metis
    then show ?thesis using r by (simp add: round_digits_nonneg)
  qed
  have "length ?mttr \<le> ?n" using length_opt_list_concat [of "incident_mttr fromiso" ?real] real by linarith
  moreover have "length (filter (\<lambda>s. some_text (ip_investigation_started_at s)) ?real) \<le> ?n"
    using length_filter_le [of _ ?real] real le_trans by blast
  moreover have "0 \<le> v" if "mean2 ?mttr = Some v" for v by (rule mean2_nonneg [OF that]) (rule incident_mttr_nonneg)
  moreover have "\<exists>b. percentile ?mttr 95 = Some b \<and> a \<le> b" if "percentile ?mttr 50 = Some a" for a
    by (rule percentile_mono [OF _ _ _ that]) simp_all
  ultimately show ?thesis using fp unfolding f(1-3,5-7) by blast
qed

theorem mttr_bounds_witness:
  "\<exists>m. compute_incident_mttr_metrics (\<lambda>t. None) [] = Inr m \<and> resolved_count m \<le> incident_count m"
proof -
  obtain m where m: "compute_incident_mttr_metrics (\<lambda>t. None) [] = Inr m"
    by (simp add: compute_incident_mttr_metrics_def list_incident_ids_def iter_events_def)
  then show ?thesis using mttr_bounds [OF m] by blast
qed

end
