(* ===== verification/Resilience.thy ===== *)
theory Resilience
  imports Incident_Store
begin

text \<open>
  Protection of the platform against failing parts: the circuit breaker, the bounded queue and the retry loop of
  \<open>platform_core/reliability/resilience.py\<close>, and the failure domains of \<open>platform_core/sre/failure_domains.py\<close>, which drive a breaker
  of their own per domain and write an audit event when it opens.

  A protected call is its outcome: an exception or a result. The monotonic clock is an argument.

  The lemmas show that the queue keeps exactly the newest items, that the retry loop returns after at most the given
  number of attempts with the first success or the last error, when a breaker opens and lets a probe through, and that a failure
  domain opens exactly after five consecutive failures and then refuses every call.
\<close>

section \<open>The circuit breaker\<close>

datatype breaker_state = Closed | Open_state | Half_open

record circuit_breaker =
  failure_threshold :: int
  recovery_timeout :: rat
  failures :: int
  opened_at :: "rat option"
  cb_state :: breaker_state

definition new_breaker :: "int \<Rightarrow> rat \<Rightarrow> circuit_breaker" where
  "new_breaker threshold timeout =
     \<lparr>failure_threshold = threshold, recovery_timeout = timeout, failures = 0, opened_at = None, cb_state = Closed\<rparr>"

text \<open>\<open>self._opened_at and now - self._opened_at > timeout\<close>: a time of zero counts as unset.\<close>

definition recovery_due :: "rat \<Rightarrow> circuit_breaker \<Rightarrow> bool" where
  "recovery_due now cb = (case opened_at cb of None \<Rightarrow> False | Some t \<Rightarrow> t \<noteq> 0 \<and> now - t > recovery_timeout cb)"

definition refuses :: "rat \<Rightarrow> circuit_breaker \<Rightarrow> bool" where
  "refuses now cb = (cb_state cb = Open_state \<and> \<not> recovery_due now cb)"

text \<open>The result, and whether the protected function was called. \<open>now\<close> is the clock at the test, \<open>later\<close> after a failure.\<close>

definition breaker_call ::
  "rat \<Rightarrow> rat \<Rightarrow> (py_error + 'a) \<Rightarrow> 'a option \<Rightarrow> circuit_breaker \<Rightarrow> 'a option \<times> bool \<times> circuit_breaker" where
  "breaker_call now later fn fallback cb =
     (if refuses now cb then (fallback, False, cb)
      else let cb1 = (if cb_state cb = Open_state then cb\<lparr>cb_state := Half_open\<rparr> else cb)
           in case fn of
                Inr x \<Rightarrow> (Some x, True, (if cb_state cb1 = Half_open then cb1\<lparr>cb_state := Closed, failures := 0\<rparr> else cb1))
              | Inl e \<Rightarrow>
                  (let cb2 = cb1\<lparr>failures := failures cb1 + 1\<rparr>
                   in (fallback, True, (if failures cb2 \<ge> failure_threshold cb2 then cb2\<lparr>cb_state := Open_state, opened_at := Some later\<rparr> else cb2))))"

section \<open>The bounded queue\<close>

record 'a bp_queue =
  max_size :: int
  dropped :: nat
  items :: "'a list"

definition push :: "'a \<Rightarrow> 'a bp_queue \<Rightarrow> 'a bp_queue py_result" where
  "push x q =
     (if int (length (items q)) \<ge> max_size q
      then (case items q of
              [] \<Rightarrow> Inl (IndexError ''pop from empty list'')
            | y # ys \<Rightarrow> Inr (q\<lparr>items := ys @ [x], dropped := dropped q + 1\<rparr>))
      else Inr (q\<lparr>items := items q @ [x]\<rparr>))"

fun push_all :: "'a list \<Rightarrow> 'a bp_queue \<Rightarrow> 'a bp_queue py_result" where
  "push_all [] q = Inr q"
| "push_all (x # xs) q = bind_r (push x q) (push_all xs)"

section \<open>Retries\<close>

text \<open>
  \<open>fn k\<close> is the outcome of attempt \<open>k\<close>; the loop collects the delays slept. It stops because the attempts left decrease.
\<close>

function retry_loop :: "(nat \<Rightarrow> py_error + 'a) \<Rightarrow> nat \<Rightarrow> rat \<Rightarrow> nat \<Rightarrow> py_error option \<Rightarrow> rat list \<Rightarrow> (py_error + 'a) \<times> rat list \<times> nat" where
  "retry_loop fn max_attempts base_delay attempt last_exc slept =
     (if max_attempts \<le> attempt
      then (case last_exc of None \<Rightarrow> Inl (AssertionError []) | Some e \<Rightarrow> Inl e, slept, attempt)
      else case fn attempt of
             Inr x \<Rightarrow> (Inr x, slept, Suc attempt)
           | Inl e \<Rightarrow> retry_loop fn max_attempts base_delay (Suc attempt) (Some e)
                        (if Suc attempt < max_attempts then slept @ [base_delay * 2 ^ attempt] else slept))"
  by pat_completeness auto
termination
  by (relation "measure (\<lambda>(fn, max_attempts, base_delay, attempt, last_exc, slept). max_attempts - attempt)") auto

declare retry_loop.simps [simp del]

definition retry_with_backoff :: "(nat \<Rightarrow> py_error + 'a) \<Rightarrow> int \<Rightarrow> rat \<Rightarrow> (py_error + 'a) \<times> rat list \<times> nat" where
  "retry_with_backoff fn max_attempts base_delay = retry_loop fn (nat max_attempts) base_delay 0 None []"

section \<open>Failure domains\<close>

datatype failure_domain = Telemetry_ingest | State_machine | Hypothesis_engine | Policy_engine | Remediation | Audit | Investigation

fun domain_value :: "failure_domain \<Rightarrow> string" where
  "domain_value Telemetry_ingest = ''telemetry_ingest''"
| "domain_value State_machine = ''state_machine''"
| "domain_value Hypothesis_engine = ''hypothesis_engine''"
| "domain_value Policy_engine = ''policy_engine''"
| "domain_value Remediation = ''remediation''"
| "domain_value Audit = ''audit''"
| "domain_value Investigation = ''investigation''"

record domain_health =
  dh_failure_count :: nat
  dh_last_failure_at :: "rat option"
  dh_degraded :: bool
  dh_message :: string

record domains =
  breakers :: "failure_domain \<Rightarrow> circuit_breaker"
  healths :: "failure_domain \<Rightarrow> domain_health"

definition initial_domains :: domains where
  "initial_domains =
     \<lparr>breakers = (\<lambda>d. new_breaker 5 60),
      healths = (\<lambda>d. \<lparr>dh_failure_count = 0, dh_last_failure_at = None, dh_degraded = False, dh_message = []\<rparr>)\<rparr>"

definition get_domain_health :: "domains \<Rightarrow> failure_domain \<Rightarrow> breaker_state \<times> domain_health" where
  "get_domain_health ds d =
     (cb_state (breakers ds d), (healths ds d)\<lparr>dh_degraded := (cb_state (breakers ds d) = Open_state)\<rparr>)"

text \<open>The audit event is written through a store of its own; its failure is swallowed.\<close>

definition audit_circuit_opened :: "string \<Rightarrow> string \<Rightarrow> failure_domain \<Rightarrow> string \<Rightarrow> string \<Rightarrow> event_log \<Rightarrow> event_log" where
  "audit_circuit_opened eid now d correlation reason rows =
     snd (snd (append_domain_event eid now
       \<lparr>ne_aggregate_id = ''domain:'' @ domain_value d, ne_aggregate_type = ''audit'', ne_event_type = Domain_circuit_opened,
        ne_correlation_id = correlation, ne_payload = [(''reason'', PyStr reason), (''domain'', PyStr (domain_value d))],
        ne_causation_id = None, ne_failure_domain = Some (domain_value d), ne_actor = ''system''\<rparr> (new_store, rows)))"

definition set_breaker :: "failure_domain \<Rightarrow> circuit_breaker \<Rightarrow> domains \<Rightarrow> domains" where
  "set_breaker d cb ds = ds\<lparr>breakers := (breakers ds)(d := cb)\<rparr>"

definition set_health :: "failure_domain \<Rightarrow> domain_health \<Rightarrow> domains \<Rightarrow> domains" where
  "set_health d h ds = ds\<lparr>healths := (healths ds)(d := h)\<rparr>"

definition fail_in_domain ::
  "string \<Rightarrow> string \<Rightarrow> rat \<Rightarrow> failure_domain \<Rightarrow> py_error \<Rightarrow> string \<Rightarrow> domains \<times> event_log \<Rightarrow> domains \<times> event_log" where
  "fail_in_domain eid now clock d exc correlation s =
     (let (ds, rows) = s; cb = (breakers ds d)\<lparr>failures := failures (breakers ds d) + 1\<rparr>;
          h = (healths ds d)\<lparr>dh_failure_count := dh_failure_count (healths ds d) + 1, dh_last_failure_at := Some clock\<rparr>
      in if failures cb \<ge> failure_threshold cb
         then (set_breaker d (cb\<lparr>cb_state := Open_state, opened_at := Some clock\<rparr>)
                 (set_health d (h\<lparr>dh_degraded := True, dh_message := take 200 (error_text exc)\<rparr>) ds),
               audit_circuit_opened eid now d correlation (take 200 (error_text exc)) rows)
         else (set_breaker d cb (set_health d h ds), rows))"

definition succeed_in_domain :: "failure_domain \<Rightarrow> domains \<Rightarrow> domains" where
  "succeed_in_domain d ds =
     (let cb = (breakers ds d)\<lparr>failures := 0\<rparr>
      in set_breaker d (if cb_state cb = Half_open then cb\<lparr>cb_state := Closed\<rparr> else cb)
           (set_health d ((healths ds d)\<lparr>dh_failure_count := 0, dh_degraded := False, dh_message := []\<rparr>) ds))"

text \<open>
  \<open>fn\<close> maps the log (which the protected function may extend) to its outcome and the log after it. \<open>fallback\<close> is the value
  returned when \<open>allow_degraded_return\<close> is set and the fallback is not \<open>None\<close>.
\<close>

definition execute_in_domain ::
  "string \<Rightarrow> string \<Rightarrow> rat \<Rightarrow> failure_domain \<Rightarrow> (event_log \<Rightarrow> (py_error + 'a) \<times> event_log) \<Rightarrow> string \<Rightarrow> 'a option \<Rightarrow>
     domains \<times> event_log \<Rightarrow> (py_error + 'a) \<times> domains \<times> event_log" where
  "execute_in_domain eid now clock d fn correlation fallback s =
     (let (ds, rows) = s
      in if cb_state (breakers ds d) = Open_state
         then (let msg = ''circuit open for '' @ domain_value d;
                   ds' = set_health d ((healths ds d)\<lparr>dh_degraded := True, dh_message := msg\<rparr>) ds
               in (case fallback of Some v \<Rightarrow> Inr v | None \<Rightarrow> Inl (DomainDegradedError msg), ds', rows))
         else case fn rows of
                (Inr x, rows') \<Rightarrow> (Inr x, succeed_in_domain d ds, rows')
              | (Inl (DomainDegradedError m), rows') \<Rightarrow> (Inl (DomainDegradedError m), ds, rows')
              | (Inl e, rows') \<Rightarrow>
                  (case fallback of Some v \<Rightarrow> Inr v | None \<Rightarrow> Inl e, fail_in_domain eid now clock d e correlation (ds, rows')))"

section \<open>The queue and the retry loop\<close>

lemma push_all_spec:
  assumes "1 \<le> m" and "length (items q) \<le> m" and "max_size q = int m"
  shows "push_all xs q = Inr (q\<lparr>items := drop (length (items q) + length xs - m) (items q @ xs),
     dropped := dropped q + (length (items q) + length xs - m)\<rparr>)"
  using assms
proof (induction xs arbitrary: q)
  case (Cons x xs)
  show ?case
  proof (cases "length (items q) < m")
    case True
    then have "push x q = Inr (q\<lparr>items := items q @ [x]\<rparr>)" using Cons.prems by (simp add: push_def)
    moreover have "push_all xs (q\<lparr>items := items q @ [x]\<rparr>) = Inr (q\<lparr>items := drop (length (items q) + length (x # xs) - m) (items q @ x # xs),
       dropped := dropped q + (length (items q) + length (x # xs) - m)\<rparr>)"
      using Cons.IH [of "q\<lparr>items := items q @ [x]\<rparr>"] Cons.prems True by simp
    ultimately show ?thesis by simp
  next
    case False
    then have m: "length (items q) = m" using Cons.prems by simp
    then obtain y ys where ys: "items q = y # ys" using Cons.prems(1) by (cases "items q") auto
    let ?q = "q\<lparr>items := ys @ [x], dropped := dropped q + 1\<rparr>"
    have "push x q = Inr ?q" using m ys Cons.prems(3) by (simp add: push_def)
    moreover have "push_all xs ?q = Inr (?q\<lparr>items := drop (length (items ?q) + length xs - m) (items ?q @ xs),
       dropped := dropped ?q + (length (items ?q) + length xs - m)\<rparr>)"
      using Cons.prems m ys by (intro Cons.IH) simp_all
    moreover have "m = Suc (length ys)" using m ys by simp
    ultimately show ?thesis by (simp add: ys)
  qed
qed (use assms in simp)

lemma retry_loop_success:
  assumes "attempt \<le> k" and "k < n" and "\<And>i. attempt \<le> i \<Longrightarrow> i < k \<Longrightarrow> \<exists>e. fn i = Inl e" and "fn k = Inr x"
  shows "retry_loop fn n b attempt l slept = (Inr x, slept @ map (\<lambda>i. b * 2 ^ i) [attempt..<k], Suc k)"
  using assms
proof (induction "k - attempt" arbitrary: attempt l slept)
  case 0
  then show ?case by (subst retry_loop.simps) simp
next
  case (Suc d)
  then obtain e where e: "fn attempt = Inl e" by (metis le_refl less_le zero_less_Suc zero_less_diff)
  have lt: "attempt < k" "Suc attempt < n" using Suc.hyps(2) Suc.prems(2) by simp_all
  have "retry_loop fn n b (Suc attempt) (Some e) (slept @ [b * 2 ^ attempt]) =
      (Inr x, (slept @ [b * 2 ^ attempt]) @ map (\<lambda>i. b * 2 ^ i) [Suc attempt..<k], Suc k)"
    using Suc.hyps(2) Suc.prems lt by (intro Suc.hyps(1)) auto
  then show ?case using e lt by (subst retry_loop.simps) (simp add: upt_conv_Cons)
qed

lemma retry_loop_exhausted:
  assumes "attempt < n" and "\<And>i. attempt \<le> i \<Longrightarrow> i < n \<Longrightarrow> fn i = Inl (err i)"
  shows "retry_loop fn n b attempt l slept = (Inl (err (n - 1)), slept @ map (\<lambda>i. b * 2 ^ i) [attempt..<n - 1], n)"
  using assms
proof (induction "n - 1 - attempt" arbitrary: attempt l slept)
  case 0
  then have "n = Suc attempt" by simp
  then show ?case using 0 by (subst retry_loop.simps, subst retry_loop.simps) simp
next
  case (Suc d)
  have "retry_loop fn n b (Suc attempt) (Some (err attempt)) (slept @ [b * 2 ^ attempt]) =
      (Inl (err (n - 1)), (slept @ [b * 2 ^ attempt]) @ map (\<lambda>i. b * 2 ^ i) [Suc attempt..<n - 1], n)"
    using Suc.hyps(2) Suc.prems by (intro Suc.hyps(1)) auto
  moreover have "fn attempt = Inl (err attempt)" "Suc attempt < n" "attempt < n - 1" using Suc.hyps(2) Suc.prems by auto
  ultimately show ?case by (subst retry_loop.simps) (simp add: upt_conv_Cons)
qed

section \<open>Failure domains\<close>

record 'a domain_call =
  dc_event_id :: string
  dc_now :: string
  dc_clock :: rat
  dc_outcome :: "py_error + 'a"
  dc_correlation :: string

fun run_domain_calls :: "failure_domain \<Rightarrow> 'a domain_call list \<Rightarrow> domains \<times> event_log \<Rightarrow> domains \<times> event_log" where
  "run_domain_calls d [] s = s"
| "run_domain_calls d (c # cs) s =
     run_domain_calls d cs (snd (execute_in_domain (dc_event_id c) (dc_now c) (dc_clock c) d (\<lambda>rows. (dc_outcome c, rows)) (dc_correlation c) None s))"

text \<open>Failures count, successes reset; a degraded domain further down does neither.\<close>

definition call_failure :: "'a domain_call \<Rightarrow> bool option" where
  "call_failure c = (case dc_outcome c of Inr x \<Rightarrow> Some False | Inl (DomainDegradedError m) \<Rightarrow> None | Inl e \<Rightarrow> Some True)"

fun streak_step :: "nat \<times> bool \<Rightarrow> bool \<Rightarrow> nat \<times> bool" where
  "streak_step (n, True) f = (n, True)"
| "streak_step (n, False) True = (Suc n, 5 \<le> Suc n)"
| "streak_step (n, False) False = (0, False)"

definition domain_tracks :: "domains \<Rightarrow> failure_domain \<Rightarrow> nat \<times> bool \<Rightarrow> bool" where
  "domain_tracks ds d t \<longleftrightarrow>
     failure_threshold (breakers ds d) = 5 \<and> failures (breakers ds d) = int (fst t) \<and>
     cb_state (breakers ds d) = (if snd t then Open_state else Closed)"

lemma execute_tracks:
  assumes "domain_tracks (fst s) d t"
  shows "domain_tracks (fst (snd (execute_in_domain (dc_event_id c) (dc_now c) (dc_clock c) d (\<lambda>rows. (dc_outcome c, rows)) (dc_correlation c) None s))) d
     (case call_failure c of None \<Rightarrow> t | Some f \<Rightarrow> streak_step t f)"
proof -
  obtain ds rows where s: "s = (ds, rows)" by (cases s)
  obtain n op where t: "t = (n, op)" by (cases t)
  show ?thesis
  proof (cases op)
    case True
    then show ?thesis using assms
      by (auto simp: s t domain_tracks_def execute_in_domain_def Let_def set_health_def split: option.split)
  next
    case False
    show ?thesis
    proof (cases "dc_outcome c")
      case (Inr x)
      then show ?thesis using assms False
        by (simp add: s t domain_tracks_def execute_in_domain_def call_failure_def succeed_in_domain_def set_breaker_def set_health_def Let_def)
    next
      case (Inl e)
      then show ?thesis using assms False
        by (cases e) (auto simp: s t domain_tracks_def execute_in_domain_def call_failure_def fail_in_domain_def set_breaker_def set_health_def Let_def)
    qed
  qed
qed

lemma run_tracks:
  "domain_tracks (fst s) d t \<Longrightarrow> domain_tracks (fst (run_domain_calls d cs s)) d (foldl streak_step t (List.map_filter call_failure cs))"
proof (induction cs arbitrary: s t)
  case (Cons c cs)
  show ?case using Cons.IH [OF execute_tracks [OF Cons.prems, of c]] by (cases "call_failure c") (simp_all add: List.map_filter_simps)
qed (simp add: List.map_filter_simps)

lemma execute_other_domain:
  "d' \<noteq> d \<Longrightarrow> breakers (fst (snd (execute_in_domain eid now clock d fn corr fb s))) d' = breakers (fst s) d'"
  by (auto simp: execute_in_domain_def fail_in_domain_def succeed_in_domain_def set_breaker_def set_health_def Let_def case_prod_beta
      split: sum.split py_error.split option.split)

lemma run_other_domain: "d' \<noteq> d \<Longrightarrow> breakers (fst (run_domain_calls d cs s)) d' = breakers (fst s) d'"
  by (induction cs arbitrary: s) (simp_all add: execute_other_domain)

text \<open>Five failures in a row, read off the outcomes.\<close>

lemma prefix_replicate: "prefix (replicate k True) ws \<longleftrightarrow> k \<le> length (takeWhile (\<lambda>b. b) ws)"
proof (induction ws arbitrary: k)
  case (Cons w ws)
  then show ?case by (cases k) auto
qed (cases k, auto)

lemma suffix_replicate: "suffix (replicate k True) zs \<longleftrightarrow> k \<le> length (takeWhile (\<lambda>b. b) (rev zs))"
  by (simp add: suffix_to_prefix prefix_replicate)

lemma streak_sublist:
  assumes "foldl streak_step (0, False) os = (n, op)"
  shows "(op \<longleftrightarrow> sublist (replicate 5 True) os) \<and> (\<not> op \<longrightarrow> n = length (takeWhile (\<lambda>b. b) (rev os)) \<and> n < 5)"
  using assms
proof (induction os arbitrary: n op rule: rev_induct)
  case (snoc f os)
  obtain n0 op0 where st: "foldl streak_step (0, False) os = (n0, op0)" by (cases "foldl streak_step (0, False) os")
  note ih = snoc.IH [OF st]
  have step: "streak_step (n0, op0) f = (n, op)" using snoc.prems st by simp
  have sub: "sublist (replicate 5 True) (os @ [f]) \<longleftrightarrow> 5 \<le> length (takeWhile (\<lambda>b. b) (rev (os @ [f]))) \<or> sublist (replicate 5 True) os"
    by (simp only: sublist_snoc suffix_replicate)
  show ?case unfolding sub using ih step by (cases op0; cases f) auto
qed simp

definition breaker_ok :: "circuit_breaker \<Rightarrow> bool" where
  "breaker_ok cb \<longleftrightarrow> 0 < failure_threshold cb \<and>
     (cb_state cb = Closed \<and> failures cb < failure_threshold cb \<or>
      cb_state cb = Open_state \<and> failure_threshold cb \<le> failures cb \<and> opened_at cb \<noteq> None)"

section \<open>Properties\<close>

text \<open>
  The bounded queue equals its reference: after any pushes on an empty queue of size \<open>m \<ge> 1\<close> it holds exactly the last \<open>m\<close> items in
  order, and the drop counter is the number of the others. A queue of size zero rejects its first item with an \<open>IndexError\<close>.
\<close>

theorem queue_keeps_newest:
  assumes "1 \<le> m"
  shows "push_all xs \<lparr>max_size = int m, dropped = 0, items = []\<rparr> =
      Inr \<lparr>max_size = int m, dropped = length xs - m, items = drop (length xs - m) xs\<rparr> \<and>
     push_all [x] \<lparr>max_size = 0, dropped = 0, items = []\<rparr> = Inl (IndexError ''pop from empty list'')"
  using push_all_spec [OF assms, of "\<lparr>max_size = int m, dropped = 0, items = []\<rparr>" xs] by (simp add: push_def)

theorem queue_keeps_newest_witness:
  "push_all [1::nat, 2, 3] \<lparr>max_size = int 2, dropped = 0, items = []\<rparr> = Inr \<lparr>max_size = int 2, dropped = 1, items = [2, 3]\<rparr>"
proof -
  have "push_all [1::nat, 2, 3] \<lparr>max_size = int 2, dropped = 0, items = []\<rparr> =
      Inr \<lparr>max_size = int 2, dropped = length [1::nat, 2, 3] - 2, items = drop (length [1::nat, 2, 3] - 2) [1, 2, 3]\<rparr>"
    by (rule conjunct1 [OF queue_keeps_newest]) simp
  also have "\<dots> = Inr \<lparr>max_size = int 2, dropped = 1, items = [2, 3]\<rparr>" by simp
  finally show ?thesis .
qed

text \<open>
  C20. The retry loop always ends. With \<open>n \<ge> 1\<close> attempts it returns the first success after sleeping the doubled delays before it, or, when every
  attempt fails, the error of the last one after \<open>n - 1\<close> sleeps; it makes at most \<open>n\<close> calls. With no attempts it fails its assertion.
\<close>

theorem retry_terminates:
  "(\<forall>k<n. (\<forall>i<k. \<exists>e. fn i = Inl e) \<and> fn k = Inr x \<longrightarrow>
      retry_with_backoff fn (int n) b = (Inr x, map (\<lambda>i. b * 2 ^ i) [0..<k], Suc k)) \<and>
   (0 < n \<and> (\<forall>i<n. fn i = Inl (err i)) \<longrightarrow>
      retry_with_backoff fn (int n) b = (Inl (err (n - 1)), map (\<lambda>i. b * 2 ^ i) [0..<n - 1], n)) \<and>
   (m \<le> 0 \<longrightarrow> retry_with_backoff fn m b = (Inl (AssertionError []), [], 0))"
proof -
  have a: "retry_with_backoff fn (int n) b = (Inr x, map (\<lambda>i. b * 2 ^ i) [0..<k], Suc k)"
    if "k < n" "\<forall>i<k. \<exists>e. fn i = Inl e" "fn k = Inr x" for k
    unfolding retry_with_backoff_def nat_int by (subst retry_loop_success [of 0 k]) (use that in simp_all)
  have b: "retry_with_backoff fn (int n) b = (Inl (err (n - 1)), map (\<lambda>i. b * 2 ^ i) [0..<n - 1], n)" if "0 < n" "\<forall>i<n. fn i = Inl (err i)"
    unfolding retry_with_backoff_def nat_int by (subst retry_loop_exhausted) (use that in simp_all)
  have c: "retry_with_backoff fn m b = (Inl (AssertionError []), [], 0)" if "m \<le> 0"
    using that by (simp add: retry_with_backoff_def retry_loop.simps)
  show ?thesis using a b c by blast
qed

theorem retry_terminates_witness:
  "retry_with_backoff (\<lambda>i. if i < 2 then Inl (ValueError ''x'') else Inr (7::nat)) (int 3) (1/4) = (Inr 7, [1/4, 1/2], 3)"
proof -
  let ?fn = "\<lambda>i::nat. if i < 2 then Inl (ValueError ''x'') else Inr (7::nat)"
  have "retry_with_backoff ?fn (int 3) (1/4) = (Inr 7, map (\<lambda>i. 1/4 * 2 ^ i) [0..<2], Suc 2)"
    by (rule retry_terminates [THEN conjunct1, rule_format]) auto
  then show ?thesis by (simp add: upt_rec)
qed

text \<open>
  The circuit breaker. From a sound breaker (positive threshold; closed below it; open only at or above it and with its opening time) every call leaves a
  sound breaker that is closed or open, and the protected function runs unless the breaker is open and the recovery time has not passed. A probe
  of an open breaker that succeeds closes it and clears the failures; one that fails keeps it open from then on.
\<close>

theorem breaker_call_sound:
  assumes "breaker_ok cb" and "breaker_call now later fn fallback cb = (r, called, cb')"
  shows "breaker_ok cb' \<and> (called \<longleftrightarrow> \<not> refuses now cb) \<and> (\<not> called \<longrightarrow> r = fallback \<and> cb' = cb) \<and>
     (called \<and> cb_state cb = Open_state \<longrightarrow>
        (case fn of Inr x \<Rightarrow> r = Some x \<and> cb_state cb' = Closed \<and> failures cb' = 0
                  | Inl e \<Rightarrow> r = fallback \<and> cb_state cb' = Open_state \<and> opened_at cb' = Some later))"
proof (cases "refuses now cb")
  case True
  then show ?thesis using assms by (auto simp: breaker_call_def)
next
  case False
  then show ?thesis using assms by (auto simp: breaker_call_def breaker_ok_def Let_def split: sum.splits if_splits)
qed

theorem breaker_call_sound_witness:
  "let cb = \<lparr>failure_threshold = 1, recovery_timeout = 30, failures = 1, opened_at = Some 5, cb_state = Open_state\<rparr>;
       (r, called, cb') = breaker_call 40 41 (Inr (3::nat)) None cb
   in breaker_ok cb' \<and> called \<and> cb_state cb' = Closed"
proof -
  let ?cb = "\<lparr>failure_threshold = 1, recovery_timeout = 30, failures = 1, opened_at = Some 5, cb_state = Open_state\<rparr>"
  obtain r called cb' where c: "breaker_call 40 41 (Inr (3::nat)) None ?cb = (r, called, cb')" by (metis prod_cases3)
  have "breaker_ok ?cb" "\<not> refuses 40 ?cb" by (simp_all add: breaker_ok_def refuses_def recovery_due_def)
  with breaker_call_sound [OF _ c] show ?thesis by (simp add: c)
qed

text \<open>
  C21. A failure domain opens exactly when five calls in a row fail (a success in between starts the count again; a degraded inner domain does not count),
  other domains are untouched, and once it is open it refuses every further call without running it, at whatever time: the recovery
  timeout of its breaker is never consulted.
\<close>

theorem domain_opens_iff:
  fixes calls :: "'a domain_call list" and fn :: "event_log \<Rightarrow> (py_error + 'a) \<times> event_log"
  assumes s_def: "s = run_domain_calls d calls (initial_domains, rows)"
  shows "cb_state (breakers (fst s) d) =
      (if sublist (replicate 5 True) (List.map_filter call_failure calls) then Open_state else Closed) \<and>
     (\<forall>d'. d' \<noteq> d \<longrightarrow> breakers (fst s) d' = new_breaker 5 60) \<and>
     (sublist (replicate 5 True) (List.map_filter call_failure calls) \<longrightarrow>
        fst (execute_in_domain eid now clock d fn corr None s) = Inl (DomainDegradedError (''circuit open for '' @ domain_value d)) \<and>
        snd (snd (execute_in_domain eid now clock d fn corr None s)) = snd s)"
proof -
  let ?os = "List.map_filter call_failure calls"
  obtain n op where t: "foldl streak_step (0, False) ?os = (n, op)" by (cases "foldl streak_step (0, False) ?os")
  have "domain_tracks initial_domains d (0, False)" by (simp add: domain_tracks_def initial_domains_def new_breaker_def)
  from run_tracks [of "(initial_domains, rows)" d "(0, False)" calls] this
  have "cb_state (breakers (fst s) d) = (if op then Open_state else Closed)" by (simp add: s_def t domain_tracks_def)
  then have st: "cb_state (breakers (fst s) d) = (if sublist (replicate 5 True) ?os then Open_state else Closed)"
    using streak_sublist [OF t] by simp
  moreover have "\<forall>d'. d' \<noteq> d \<longrightarrow> breakers (fst s) d' = new_breaker 5 60"
    unfolding s_def by (simp add: run_other_domain initial_domains_def)
  moreover have "cb_state (breakers (fst s) d) = Open_state \<Longrightarrow>
      fst (execute_in_domain eid now clock d fn corr None s) = Inl (DomainDegradedError (''circuit open for '' @ domain_value d)) \<and>
      snd (snd (execute_in_domain eid now clock d fn corr None s)) = snd s"
    by (simp add: execute_in_domain_def Let_def case_prod_beta)
  ultimately show ?thesis by simp
qed

theorem domain_opens_iff_witness:
  "fst (execute_in_domain ''e'' ''t'' 1000 Audit (\<lambda>rows. (Inr (1::nat), rows)) ''c'' None
     (run_domain_calls Audit (replicate 5 \<lparr>dc_event_id = ''e'', dc_now = ''t'', dc_clock = 1, dc_outcome = Inl (ValueError ''x'') :: py_error + nat,
        dc_correlation = ''c''\<rparr>) (initial_domains, []))) = Inl (DomainDegradedError ''circuit open for audit'')"
proof -
  let ?c = "\<lparr>dc_event_id = ''e'', dc_now = ''t'', dc_clock = 1, dc_outcome = Inl (ValueError ''x'') :: py_error + nat, dc_correlation = ''c''\<rparr>"
  have "List.map_filter call_failure (replicate 5 ?c) = replicate 5 True"
    by (simp add: numeral_eq_Suc call_failure_def List.map_filter_simps)
  with domain_opens_iff [OF refl, of Audit "replicate 5 ?c" "[]" "''e''" "''t''" 1000 "\<lambda>rows. (Inr (1::nat), rows)" "''c''"] show ?thesis by simp
qed

end
