(* ===== verification/Incident_Investigation.thy ===== *)
theory Incident_Investigation
  imports Platform_Decision Resilience
begin

text \<open>
  The composition of the decision pipeline, the failure domains and the incident store: root cause reports
  (\<open>platform_core/sre/rca.py\<close>) and the investigation of an incident (\<open>platform_core/sre/investigation.py\<close>).

  The lemmas show that a report claims proof exactly when an event carried it, that the orchestrator's own proof test
  is always true, and that an investigation leaves two events of the incident with the same sequence number, because
  it appends through two store objects.
\<close>

section \<open>Root cause reports\<close>

record rca_report =
  root_cause_statement :: string
  confidence_tier :: string
  rca_accepted :: "string option"
  supporting_evidence :: "pydict list"
  rejected_hypotheses :: "pydict list"
  causal_chain :: "string list"
  rca_limitations :: "pyval list"
  recommended_actions :: "string list"

definition joined_limits :: "string list \<Rightarrow> string" where
  "joined_limits lims = py_lower (join_with '' '' lims)"

definition proof_node :: "pyval \<Rightarrow> bool" where
  "proof_node v = (is_dict v \<and> dict_get (as_dict v) ''strength'' = PyStr ''proof'')"

definition graph_nodes :: "platform_decision \<Rightarrow> pyval list" where
  "graph_nodes rec = as_list (dict_get (evidence_graph_summary rec) ''nodes'')"

definition tier_from_decision :: "platform_decision option \<Rightarrow> string" where
  "tier_from_decision d =
     (case d of
        None \<Rightarrow> ''observation''
      | Some rec \<Rightarrow>
          (if py_in ''proof'' (joined_limits (decision_limitations rec)) \<and> \<not> py_in ''no proof'' (joined_limits (decision_limitations rec))
           then ''proven''
           else if list_ex proof_node (graph_nodes rec) then ''proven''
           else if ''ROOT_CAUSE_IDENTIFIED'' \<in> set (state_path rec) then ''contrast_tested''
           else ''correlated''))"

definition top_support :: "pydict \<Rightarrow> pydict" where
  "top_support best =
     [(''hypothesis'', dict_get best ''label''), (''confidence'', dict_get best ''confidence''), (''signals'', dict_get best ''supporting_signals'')]"

definition rejected_entry :: "pydict \<Rightarrow> pydict" where
  "rejected_entry alt =
     [(''hypothesis'', dict_get alt ''label''), (''confidence'', dict_get alt ''confidence''),
      (''reason'', py_or (dict_get alt ''rejected_reason'') (PyStr ''lower ordinal rank''))]"

definition node_support :: "pyval \<Rightarrow> pydict list" where
  "node_support v =
     (case v of PyDict n \<Rightarrow> [[(''kind'', dict_get n ''kind''), (''label'', dict_get n ''label''), (''strength'', dict_get n ''strength'')]] | _ \<Rightarrow> [])"

definition rca_accepts :: "platform_decision option \<Rightarrow> incident_projection \<Rightarrow> string option" where
  "rca_accepts d proj =
     (case ip_accepted_hypothesis proj of Some (c # h) \<Rightarrow> Some (c # h) | _ \<Rightarrow> map_option accepted_hypothesis d)"

definition recommend :: "string \<Rightarrow> platform_decision option \<Rightarrow> incident_projection \<Rightarrow> string list" where
  "recommend tier d proj =
     (let acts =
        (if tier \<in> {''observation'', ''correlated''}
         then [''Collect proof-tier telemetry (Sysmon registry writer, Procmon) before remediation.''] else []) @
        (if PyStr ''LOCAL_PROXY_ENABLED'' \<in> set (ip_state_path proj)
         then [''Identify listener process and parent chain; verify against allowlist.''] else []) @
        (if map_option policy_outcome d = Some PREVIEW
         then [''Policy PREVIEW '' @ em_dash @ '' no automated remediation; human confirmation required.''] else [])
      in if acts = [] then [''Document resolution steps in incident.resolve() event for MTTR accounting.''] else acts)"

definition build_rca_report :: "platform_decision option \<Rightarrow> incident_projection \<Rightarrow> rca_report" where
  "build_rca_report d proj =
     (let accepted = rca_accepts d proj; tier = tier_from_decision d;
          ranking = (case d of None \<Rightarrow> [] | Some rec \<Rightarrow> hypothesis_ranking rec)
      in \<lparr>root_cause_statement =
            (case ip_root_cause_summary proj of
               Some (c # t) \<Rightarrow> c # t
             | _ \<Rightarrow> (case accepted of
                       Some (c # h) \<Rightarrow> ''Leading hypothesis: '' @ (c # h) @ '' (tier='' @ tier @ '')''
                     | _ \<Rightarrow> ''Root cause not established '' @ em_dash @ '' insufficient proof-tier evidence.'')),
          confidence_tier = tier, rca_accepted = accepted,
          supporting_evidence = (case ranking of [] \<Rightarrow> [] | best # alts \<Rightarrow> [top_support best]) @
            (case d of None \<Rightarrow> [] | Some rec \<Rightarrow> concat (map node_support (take 8 (graph_nodes rec)))),
          rejected_hypotheses = map rejected_entry (take 3 (tl ranking)),
          causal_chain = (case d of None \<Rightarrow> [] | Some rec \<Rightarrow> map (\<lambda>st. ''Platform state: '' @ st) (state_path rec)),
          rca_limitations = ip_limitations proj @
            [PyStr ''RCA output is an investigative artifact, not a legal or security conviction.'',
             PyStr ''Observation != Proof; supporting edges in the evidence graph are weighted, not causal certainty.''],
          recommended_actions = recommend tier d proj\<rparr>)"

section \<open>The investigation\<close>

text \<open>\<open>str(line).lower().find("no proof") < 0 and "proof" in str(line).lower()\<close> for some line, or the path reached the root cause.\<close>

definition claims_proof :: "platform_decision \<Rightarrow> bool" where
  "claims_proof rec =
     (list_ex (\<lambda>line. \<not> py_in ''no proof'' (py_lower line) \<and> py_in ''proof'' (py_lower line)) (decision_limitations rec) \<or>
      ''ROOT_CAUSE_IDENTIFIED'' \<in> set (state_path rec))"

record investigation_input =
  ii_incident :: string
  ii_request :: decision_request
  ii_endpoint :: string
  ii_observations :: "pydict list"
  ii_clock :: rat

text \<open>A step of the aggregate whose result is not used.\<close>

definition unit_result :: "domain_event py_result \<times> stored \<Rightarrow> unit py_result \<times> stored" where
  "unit_result r = (case fst r of Inl e \<Rightarrow> Inl e | Inr x \<Rightarrow> Inr (), snd r)"

text \<open>The events the aggregate appends through its own store before the decision is run. The phase is read once.\<close>

definition begin_investigation :: "id_source \<Rightarrow> id_source \<Rightarrow> string \<Rightarrow> incident_phase \<Rightarrow> stored \<Rightarrow> unit py_result \<times> stored" where
  "begin_investigation new_id now iid phase sl =
     (case (if phase = incident_phase.DETECTED
            then unit_result (acknowledge (new_id ''devt'' 0) (now ''devt'' 0) iid ''investigation'' sl) else (Inr (), sl)) of
        (Inl e, sl1) \<Rightarrow> (Inl e, sl1)
      | (Inr u, sl1) \<Rightarrow>
          (if phase \<in> {incident_phase.DETECTED, incident_phase.ACKNOWLEDGED}
           then unit_result (start_investigation (new_id ''devt'' 1) (now ''devt'' 1) iid ''investigation'' sl1) else (Inr (), sl1)))"

text \<open>The decision is recorded through a store of its own.\<close>

definition record_decision :: "id_source \<Rightarrow> id_source \<Rightarrow> string \<Rightarrow> platform_decision \<Rightarrow> event_log \<Rightarrow> domain_event py_result \<times> event_log" where
  "record_decision new_id now iid rec rows =
     (let r = append_domain_event (new_id ''devt'' 2) (now ''devt'' 2)
                \<lparr>ne_aggregate_id = iid, ne_aggregate_type = ''incident'', ne_event_type = Decision_recorded, ne_correlation_id = iid,
                 ne_payload = decision_dump rec, ne_causation_id = None, ne_failure_domain = Some ''audit'', ne_actor = ''system''\<rparr>
                (new_store, rows)
      in (fst r, snd (snd r)))"

definition conclude_investigation ::
  "id_source \<Rightarrow> id_source \<Rightarrow> string \<Rightarrow> platform_decision \<Rightarrow> stored \<Rightarrow> rca_report py_result \<times> stored" where
  "conclude_investigation new_id now iid rec sl =
     (case record_hypothesis_ranking (new_id ''devt'' 3) (now ''devt'' 3) iid (run_id rec) (accepted_hypothesis rec) (state_path rec)
             (event_ids rec) (outcome_value (policy_outcome rec)) None sl of
        (Inl e, sl1) \<Rightarrow> (Inl e, sl1)
      | (Inr hyp_event, sl1) \<Rightarrow>
          (case rebuild_incident iid (snd sl1) of
             Inl e \<Rightarrow> (Inl e, sl1)
           | Inr proj \<Rightarrow>
               (let rca = build_rca_report (Some rec) proj
                in if claims_proof rec \<or> accepted_hypothesis rec \<noteq> []
                   then (case identify_root_cause (new_id ''devt'' 4) (now ''devt'' 4) iid (root_cause_statement rca) (accepted_hypothesis rec)
                                (confidence_tier rca) (event_ids rec) (rca_limitations rca) ''investigation'' sl1 of
                           (Inl e, sl2) \<Rightarrow> (Inl e, sl2)
                         | (Inr x, sl2) \<Rightarrow> (Inr rca, sl2))
                   else (Inr rca, sl1))))"

datatype investigation_result = Degraded string | Concluded platform_decision rca_report

record investigation_state =
  is_domains :: domains
  is_rows :: event_log
  is_files :: platform_files

text \<open>
  Errors other than the degraded investigation domain propagate. The identifiers \<open>devt 0 ... 4\<close> are those of the events the run itself appends,
  \<open>devt 5\<close> and \<open>devt 6\<close> those of audit events of domains that open. The files are written inside the audit domain, hence
  not at all when it is open.
\<close>

definition run_investigation ::
  "id_source \<Rightarrow> id_source \<Rightarrow> id_source \<Rightarrow> investigation_input \<Rightarrow> investigation_state \<Rightarrow> investigation_result py_result \<times> investigation_state" where
  "run_investigation new_id new_id' now inp st =
     (let iid = ii_incident inp
      in case rebuild_incident iid (is_rows st) of
        Inl e \<Rightarrow> (Inl e, st)
      | Inr proj \<Rightarrow>
         (let ep = (if ii_endpoint inp \<noteq> [] then ii_endpoint inp else if ip_endpoint_id proj \<noteq> [] then ip_endpoint_id proj else ''local'');
              q = (ii_request inp)\<lparr>dq_endpoint := ep\<rparr>
          in case begin_investigation new_id now iid (ip_phase proj) (new_store, is_rows st) of
            (Inl e, sl) \<Rightarrow> (Inl e, st\<lparr>is_rows := snd sl\<rparr>)
          | (Inr u, sl) \<Rightarrow>
             (case execute_in_domain (new_id ''devt'' 5) (now ''devt'' 5) (ii_clock inp) Investigation
                     (\<lambda>rows. (run_platform_decision new_id now q (ii_observations inp), rows)) iid None (is_domains st, snd sl) of
                (Inl (DomainDegradedError m), ds1, rows1) \<Rightarrow> (Inr (Degraded m), st\<lparr>is_domains := ds1, is_rows := rows1\<rparr>)
              | (Inl e, ds1, rows1) \<Rightarrow> (Inl e, st\<lparr>is_domains := ds1, is_rows := rows1\<rparr>)
              | (Inr rec, ds1, rows1) \<Rightarrow>
                 (case normalize_all new_id' now 0 ep (ii_observations inp) of
                    Inl e \<Rightarrow> (Inl e, st\<lparr>is_domains := ds1, is_rows := rows1\<rparr>)
                  | Inr again \<Rightarrow>
                     (let events = map (\<lambda>(e, eid). e\<lparr>event_id := eid\<rparr>) (zip again (event_ids rec));
                          files1 = (if cb_state (breakers ds1 Audit) = Open_state then is_files st else persist_decision rec events (is_files st))
                      in case execute_in_domain (new_id ''devt'' 6) (now ''devt'' 6) (ii_clock inp) Audit (record_decision new_id now iid rec) iid None
                              (ds1, rows1) of
                        (Inl e, ds2, rows2) \<Rightarrow> (Inl e, \<lparr>is_domains = ds2, is_rows = rows2, is_files = files1\<rparr>)
                      | (Inr x, ds2, rows2) \<Rightarrow>
                         (case conclude_investigation new_id now iid rec (fst sl, rows2) of
                            (Inl e, sl3) \<Rightarrow> (Inl e, \<lparr>is_domains = ds2, is_rows = snd sl3, is_files = files1\<rparr>)
                          | (Inr rca, sl3) \<Rightarrow> (Inr (Concluded rec rca), \<lparr>is_domains = ds2, is_rows = snd sl3, is_files = files1\<rparr>)))))))"

section \<open>Proof in reports\<close>

definition proof_free :: "evidence_graph \<Rightarrow> bool" where
  "proof_free g \<longleftrightarrow> (\<forall>p\<in>set (nodes g). strength (snd p) \<noteq> ''proof'')"

lemma add_node_proof_free: "proof_free g \<Longrightarrow> strength n \<noteq> ''proof'' \<Longrightarrow> proof_free (add_node n g)"
  using set_dict_set [of "nodes g" "node_id n" n] by (auto simp: proof_free_def add_node_def)

lemma link_proof_free [simp]: "proof_free (link_nodes new_id a b rel wt g) = proof_free g"
  by (simp add: proof_free_def link_nodes_def)

lemma graph_events_proof_free:
  "proof_free (fst st) \<Longrightarrow> \<not> has_proof es \<Longrightarrow> proof_free (fst (graph_events new_id k es st))"
proof (induction es arbitrary: k st)
  case (Cons e es)
  then have "strength (event_node (new_id ''node'' k) e) \<noteq> ''proof''" by (auto simp: event_node_def has_proof_def)
  with Cons show ?case by (auto simp: add_node_proof_free has_proof_def)
qed simp

lemma graph_process_proof_free: "proof_free (fst st) \<Longrightarrow> proof_free (graph_process new_id ts nid snapshot st)"
  by (cases "snd st") (auto simp: graph_process_def Let_def case_prod_beta add_node_proof_free)

lemma link_support_proof_free: "proof_free g \<Longrightarrow> proof_free (foldl (link_support new_id obs nid) g es)"
  by (rule foldl_invariant) (auto simp: link_support_def split: option.split)

lemma graph_transitions_proof_free: "proof_free g \<Longrightarrow> proof_free (graph_transitions new_id now k obs prev ts g)"
  by (induction ts arbitrary: k prev g)
    (auto simp: Let_def add_node_proof_free transition_node_def link_support_proof_free split: option.split)

lemma build_graph_proof_free: "\<not> has_proof events \<Longrightarrow> proof_free (build_evidence_graph new_id now events ts snapshot)"
  unfolding build_evidence_graph_def Let_def
  by (intro graph_transitions_proof_free graph_process_proof_free graph_events_proof_free) (simp_all add: proof_free_def)

lemma proof_node_dump: "proof_node (PyDict (node_dump n)) \<longleftrightarrow> strength n = ''proof''"
  by (simp add: proof_node_def node_dump_def dict_get_def)

lemma graph_nodes_proof: "proof_free g \<Longrightarrow> evidence_graph_summary d = graph_to_jsonable g \<Longrightarrow> \<not> list_ex proof_node (graph_nodes d)"
  by (auto simp: graph_nodes_def graph_to_jsonable_def dict_get_def list_ex_iff proof_node_dump proof_free_def case_prod_beta)

lemma limits_mention_proof:
  "py_in ''proof'' (joined_limits (decision_limits b))" "py_in ''no proof'' (joined_limits (decision_limits b)) \<longleftrightarrow> \<not> b"
  by (cases b; simp add: joined_limits_def decision_limits_def join_with_def; code_simp)+

lemma first_limit_proof:
  "\<not> py_in ''no proof'' (py_lower ''Observation != Proof; correlation != causation; confidence != certainty.'')"
  "py_in ''proof'' (py_lower ''Observation != Proof; correlation != causation; confidence != certainty.'')"
  by code_simp+

text \<open>The orchestrator's test holds for every decision: the standing disclaimer mentions proof.\<close>

lemma claims_proof_always:
  assumes "run_platform_decision new_id now q observations = Inr rec"
  shows "claims_proof rec"
  by (rule run_platform_decision_Inr [OF assms]) (simp add: claims_proof_def decision_limits_def first_limit_proof)

section \<open>Two stores in one investigation\<close>

lemma begin_investigation_spec:
  assumes "well_sequenced rows" and "iid \<noteq> []" and "Suc (length rows) < 100000" and "rebuild_incident iid rows = Inr s"
    and "ip_phase s \<in> {incident_phase.DETECTED, incident_phase.ACKNOWLEDGED}" and "new_id ''devt'' 0 \<noteq> new_id ''devt'' 1"
    and "\<not> event_exists (new_id ''devt'' 0) rows" and "\<not> event_exists (new_id ''devt'' 1) rows"
  obtains st es where "begin_investigation new_id now iid (ip_phase s) (new_store, rows) = (Inr (), st, rows @ es)"
    and "cache_agrees (st, rows @ es)" and "sequence_cache st \<noteq> None" and "de_event_id ` set es \<subseteq> {new_id ''devt'' 0, new_id ''devt'' 1}"
proof -
  let ?ack = "Acknowledge ''investigation''" and ?start = "Start_investigation ''investigation''"
  let ?a = "new_id ''devt'' 0" and ?b = "new_id ''devt'' 1"
  have new: "cache_agrees (new_store, rows)" by (simp add: cache_agrees_def new_store_def)
  show ?thesis
  proof (cases "ip_phase s = incident_phase.DETECTED")
    case True
    obtain e0 s0 st0 where e0: "acknowledge ?a (now ''devt'' 0) iid ''investigation'' (new_store, rows) = (Inr e0, st0, rows @ [e0])"
      "cache_agrees (st0, rows @ [e0])" "well_sequenced (rows @ [e0])" "rebuild_incident iid (rows @ [e0]) = Inr s0"
      "ip_phase s0 = incident_phase.ACKNOWLEDGED" "de_event_id e0 = ?a"
      using command_succeeds [OF new assms(1,2,4), of ?ack ?a "now ''devt'' 0"] assms(3,7) True by auto
    have "\<not> event_exists ?b (rows @ [e0])" using assms(6,8) e0(6) by (auto simp: event_exists_def)
    then obtain e1 st1 where e1: "start_investigation ?b (now ''devt'' 1) iid ''investigation'' (st0, rows @ [e0]) = (Inr e1, st1, (rows @ [e0]) @ [e1])"
      "cache_agrees (st1, (rows @ [e0]) @ [e1])" "sequence_cache st1 \<noteq> None" "de_event_id e1 = ?b"
      using command_succeeds [OF e0(2,3) assms(2) e0(4), of ?start ?b "now ''devt'' 1"] assms(3) e0(5) by auto
    show ?thesis by (rule that [of st1 "[e0, e1]"]) (use True e0 e1 in \<open>simp_all add: begin_investigation_def unit_result_def\<close>)
  next
    case False
    then obtain e1 st1 where e1: "start_investigation ?b (now ''devt'' 1) iid ''investigation'' (new_store, rows) = (Inr e1, st1, rows @ [e1])"
      "cache_agrees (st1, rows @ [e1])" "sequence_cache st1 \<noteq> None" "de_event_id e1 = ?b"
      using command_succeeds [OF new assms(1,2,4), of ?start ?b "now ''devt'' 1"] assms(3,5,8) by auto
    show ?thesis by (rule that [of st1 "[e1]"]) (use False assms(5) e1 in \<open>simp_all add: begin_investigation_def unit_result_def\<close>)
  qed
qed

lemma append_domain_event_extends: "\<exists>xs. snd (snd (append_domain_event eid now n sl)) = snd sl @ xs"
  by (cases sl) (auto simp: append_domain_event_def append_event_def Let_def case_prod_beta)

lemma identify_extends: "\<exists>xs. snd (snd (identify_root_cause eid now iid summary accepted tier ids lims actor sl)) = snd sl @ xs"
proof -
  let ?c = "Identify_root_cause summary accepted tier ids lims actor"
  show ?thesis using exec_command_cases [of eid now iid ?c sl] append_domain_event_extends [of eid now _ sl]
    by (auto simp: agg_append_def)
qed

lemma conclude_extends:
  assumes "record_hypothesis_ranking (new_id ''devt'' 3) (now ''devt'' 3) iid (run_id rec) (accepted_hypothesis rec) (state_path rec)
      (event_ids rec) (outcome_value (policy_outcome rec)) None sl = (Inr e, sl1)"
  shows "\<exists>xs. snd (snd (conclude_investigation new_id now iid rec sl)) = snd sl1 @ xs"
  using identify_extends [of "new_id ''devt'' 4" "now ''devt'' 4" iid _ "accepted_hypothesis rec" _ "event_ids rec" _ "''investigation''" sl1]
  by (simp add: conclude_investigation_def assms Let_def case_prod_beta split: sum.split)

lemma execute_closed:
  "cb_state (breakers ds d) = Closed \<Longrightarrow> fn rows = (Inr x, rows') \<Longrightarrow>
     execute_in_domain eid now clock d fn corr fb (ds, rows) = (Inr x, succeed_in_domain d ds, rows')"
  by (simp add: execute_in_domain_def)

lemma succeed_other: "d' \<noteq> d \<Longrightarrow> breakers (succeed_in_domain d ds) d' = breakers ds d'"
  by (simp add: succeed_in_domain_def set_breaker_def set_health_def Let_def)

text \<open>The record of the decision and the ranking get the same number.\<close>

lemma record_then_rank:
  assumes "cache_agrees (st, rows)" and "sequence_cache st \<noteq> None" and "iid \<noteq> []"
    and "\<not> event_exists (new_id ''devt'' 2) rows" and "\<not> event_exists (new_id ''devt'' 3) rows" and "new_id ''devt'' 3 \<noteq> new_id ''devt'' 2"
  obtains e e' xs where "record_decision new_id now iid rec rows = (Inr e, rows @ [e])"
    and "snd (snd (conclude_investigation new_id now iid rec (st, rows @ [e]))) = rows @ [e, e'] @ xs"
    and "de_event_id e \<noteq> de_event_id e'" and "de_aggregate_id e = iid" and "de_aggregate_id e' = iid" and "de_sequence e = de_sequence e'"
proof -
  let ?id = "new_id ''devt''"
  let ?n = "\<lparr>ne_aggregate_id = iid, ne_aggregate_type = ''incident'', ne_event_type = Decision_recorded, ne_correlation_id = iid,
      ne_payload = decision_dump rec, ne_causation_id = None, ne_failure_domain = Some ''audit'', ne_actor = ''system''\<rparr>"
  let ?n' = "\<lparr>ne_aggregate_id = iid, ne_aggregate_type = ''incident'', ne_event_type = Incident_hypothesis_ranked, ne_correlation_id = iid,
      ne_payload = [(''run_id'', PyStr (run_id rec)), (''accepted_hypothesis'', PyStr (accepted_hypothesis rec)), (''state_path'', string_list (state_path rec)),
        (''event_ids'', string_list (event_ids rec)), (''policy_outcome'', PyStr (outcome_value (policy_outcome rec)))],
      ne_causation_id = None, ne_failure_domain = Some ''hypothesis_engine'', ne_actor = ''system''\<rparr>"
  obtain e st1 e' st2 where e: "append_domain_event (?id 2) (now ''devt'' 2) ?n (new_store, rows) = (Inr e, st1, rows @ [e])"
    "de_event_id e = ?id 2" "de_aggregate_id e = iid"
    and e': "append_domain_event (?id 3) (now ''devt'' 3) ?n' (st, rows @ [e]) = (Inr e', st2, rows @ [e, e'])"
    "de_event_id e' = ?id 3" "de_aggregate_id e' = de_aggregate_id e" "de_sequence e' = de_sequence e"
    using second_store_duplicates [OF assms(1,2), of ?n ?n' "?id 2" "?id 3" "now ''devt'' 2" "now ''devt'' 3"] assms(3-) by auto
  have "record_hypothesis_ranking (?id 3) (now ''devt'' 3) iid (run_id rec) (accepted_hypothesis rec) (state_path rec) (event_ids rec)
      (outcome_value (policy_outcome rec)) None (st, rows @ [e]) = (Inr e', st2, rows @ [e, e'])"
    using e'(1) by (simp add: record_hypothesis_ranking_def agg_append_def)
  then obtain xs where "snd (snd (conclude_investigation new_id now iid rec (st, rows @ [e]))) = rows @ [e, e'] @ xs"
    using conclude_extends by fastforce
  moreover have "record_decision new_id now iid rec rows = (Inr e, rows @ [e])" using e(1) by (simp add: record_decision_def)
  ultimately show ?thesis using that e e' assms(6) by metis
qed

section \<open>Properties\<close>

text \<open>
  The tier of a root cause report. For a decision of the pipeline it is \<open>proven\<close> exactly when some
  normalised event carried causal proof, \<open>contrast_tested\<close> when none did but the path reached the root cause, and \<open>correlated\<close> otherwise.
\<close>

theorem rca_tier_iff:
  assumes "run_platform_decision new_id now q observations = Inr rec"
    and "normalize_all new_id now 0 (dq_endpoint q) observations = Inr events"
  shows "confidence_tier (build_rca_report (Some rec) proj) =
     (if has_proof events then ''proven''
      else if ''ROOT_CAUSE_IDENTIFIED'' \<in> set (state_path rec) then ''contrast_tested'' else ''correlated'')"
proof (rule run_platform_decision_Inr [OF assms(1)])
  fix es assume es: "normalize_all new_id now 0 (dq_endpoint q) observations = Inr es" and
    lims: "decision_limitations rec = decision_limits (has_proof es)" and
    sum: "\<exists>snapshot. evidence_graph_summary rec =
      graph_to_jsonable (build_evidence_graph new_id now es (fst (transition_platform_state es NORMAL)) snapshot)"
  have "es = events" using es assms(2) by simp
  moreover have "\<not> has_proof es \<Longrightarrow> \<not> list_ex proof_node (graph_nodes rec)"
    using sum build_graph_proof_free graph_nodes_proof by blast
  ultimately show ?thesis using lims by (simp add: build_rca_report_def Let_def tier_from_decision_def limits_mention_proof)
qed

theorem rca_tier_iff_witness:
  "\<exists>rec. run_platform_decision (\<lambda>k n. k) (\<lambda>k n. k) sample_request sample_observations = Inr rec \<and>
     confidence_tier (build_rca_report (Some rec) (new_projection ''inc'' [])) = ''proven''"
proof -
  obtain es where es: "normalize_all (\<lambda>k n. k) (\<lambda>k n. k) 0 (dq_endpoint sample_request) sample_observations = Inr es" "has_proof es"
    using sample_normalised by (auto simp: sample_request_def)
  obtain rec where rec: "run_platform_decision (\<lambda>k n. k) (\<lambda>k n. k) sample_request sample_observations = Inr rec" using sample_run by blast
  show ?thesis using rca_tier_iff [OF rec es(1)] es(2) rec by auto
qed

text \<open>
  An investigation breaks the numbering of its incident. Started on a detected or acknowledged incident of a well sequenced log, with both domains closed and an accepted
  input, it appends the record of the decision through a second store, while the aggregate's own store still holds the old number in its cache: the log
  ends with two different events of the incident that carry the same sequence number.
\<close>

theorem investigation_duplicates_sequence:
  assumes "well_sequenced (is_rows st)" and "ii_incident inp \<noteq> []" and "Suc (length (is_rows st)) < 100000"
    and reb: "rebuild_incident (ii_incident inp) (is_rows st) = Inr s"
    and ph: "ip_phase s \<in> {incident_phase.DETECTED, incident_phase.ACKNOWLEDGED}"
    and ids: "distinct [new_id ''devt'' 0, new_id ''devt'' 1, new_id ''devt'' 2, new_id ''devt'' 3]"
      "\<forall>k<4. \<not> event_exists (new_id ''devt'' k) (is_rows st)"
    and shut: "cb_state (breakers (is_domains st) Investigation) = Closed" "cb_state (breakers (is_domains st) Audit) = Closed"
    and run: "\<And>ep. \<exists>rec. run_platform_decision new_id now ((ii_request inp)\<lparr>dq_endpoint := ep\<rparr>) (ii_observations inp) = Inr rec"
  shows "\<exists>e e'. {e, e'} \<subseteq> set (is_rows (snd (run_investigation new_id new_id' now inp st))) \<and>
     de_event_id e \<noteq> de_event_id e' \<and> de_aggregate_id e = ii_incident inp \<and> de_aggregate_id e' = ii_incident inp \<and> de_sequence e = de_sequence e'"
proof -
  let ?iid = "ii_incident inp" and ?id = "new_id ''devt''"
  obtain st0 es where b: "begin_investigation new_id now ?iid (ip_phase s) (new_store, is_rows st) = (Inr (), st0, is_rows st @ es)"
    "cache_agrees (st0, is_rows st @ es)" "sequence_cache st0 \<noteq> None" "de_event_id ` set es \<subseteq> {?id 0, ?id 1}"
    using begin_investigation_spec [OF assms(1-3) reb ph, of new_id now] ids by auto
  define ep where "ep = (if ii_endpoint inp \<noteq> [] then ii_endpoint inp else if ip_endpoint_id s \<noteq> [] then ip_endpoint_id s else ''local'')"
  obtain rec where rec: "run_platform_decision new_id now ((ii_request inp)\<lparr>dq_endpoint := ep\<rparr>) (ii_observations inp) = Inr rec" using run by blast
  then obtain events where "normalize_all new_id now 0 ep (ii_observations inp) = Inr events"
    by (rule run_platform_decision_Inr) simp
  then obtain again where again: "normalize_all new_id' now 0 ep (ii_observations inp) = Inr again"
    using normalize_all_again [of new_id now 0 ep "ii_observations inp" events new_id' now ep] by blast
  have fresh: "\<not> event_exists (?id 2) (is_rows st @ es)" "\<not> event_exists (?id 3) (is_rows st @ es)" "?id 3 \<noteq> ?id 2"
  proof -
    have "\<not> event_exists (?id 2) (is_rows st)" "\<not> event_exists (?id 3) (is_rows st)" using ids(2) by simp_all
    then show "\<not> event_exists (?id 2) (is_rows st @ es)" "\<not> event_exists (?id 3) (is_rows st @ es)" "?id 3 \<noteq> ?id 2"
      using ids(1) b(4) unfolding event_exists_iff by auto
  qed
  obtain e e' xs where e: "record_decision new_id now ?iid rec (is_rows st @ es) = (Inr e, (is_rows st @ es) @ [e])"
    "snd (snd (conclude_investigation new_id now ?iid rec (st0, (is_rows st @ es) @ [e]))) = (is_rows st @ es) @ [e, e'] @ xs"
    "de_event_id e \<noteq> de_event_id e'" "de_aggregate_id e = ?iid" "de_aggregate_id e' = ?iid" "de_sequence e = de_sequence e'"
    by (rule record_then_rank [where new_id = new_id and now = now and rec = rec, OF b(2,3) assms(2) fresh]) blast
  have "is_rows (snd (run_investigation new_id new_id' now inp st)) = (is_rows st @ es) @ [e, e'] @ xs"
  proof -
    obtain r st3 rows3 where c: "conclude_investigation new_id now ?iid rec (st0, (is_rows st @ es) @ [e]) = (r, st3, rows3)" by (metis prod_cases3)
    let ?ds = "succeed_in_domain Investigation (is_domains st)"
    have x1: "execute_in_domain (?id 5) (now ''devt'' 5) (ii_clock inp) Investigation
        (\<lambda>rows. (run_platform_decision new_id now ((ii_request inp)\<lparr>dq_endpoint := ep\<rparr>) (ii_observations inp), rows)) ?iid None
        (is_domains st, is_rows st @ es) = (Inr rec, ?ds, is_rows st @ es)"
      by (rule execute_closed [OF shut(1)]) (simp add: rec)
    have x2: "execute_in_domain (?id 6) (now ''devt'' 6) (ii_clock inp) Audit (record_decision new_id now ?iid rec) ?iid None (?ds, is_rows st @ es) =
        (Inr e, succeed_in_domain Audit ?ds, (is_rows st @ es) @ [e])"
      by (rule execute_closed) (simp_all add: shut(2) succeed_other e(1) del: append_assoc)
    have "rows3 = (is_rows st @ es) @ [e, e'] @ xs" using e(2) c by simp
    then show ?thesis unfolding run_investigation_def Let_def reb sum.case ep_def [symmetric] b(1) prod.case snd_conv fst_conv x1 again x2 c
      by (cases r) simp_all
  qed
  then show ?thesis using e(3-) by (intro exI [of _ e] exI [of _ e']) simp
qed

theorem investigation_duplicates_sequence_witness:
  "\<exists>e e'. {e, e'} \<subseteq> set (is_rows (snd (run_investigation (\<lambda>k n. replicate n CHR ''x'') (\<lambda>k n. k) (\<lambda>k n. k)
       \<lparr>ii_incident = ''inc'', ii_request = sample_request, ii_endpoint = [], ii_observations = sample_observations, ii_clock = 0\<rparr>
       \<lparr>is_domains = initial_domains, is_rows = [], is_files = \<lparr>platform_events = [], platform_decisions = []\<rparr>\<rparr>))) \<and>
     de_event_id e \<noteq> de_event_id e' \<and> de_sequence e = de_sequence e'"
proof -
  let ?new = "\<lambda>(k::string) n. replicate n CHR ''x''"
  let ?inp = "\<lparr>ii_incident = ''inc'', ii_request = sample_request, ii_endpoint = [], ii_observations = sample_observations, ii_clock = 0\<rparr>"
  let ?st = "\<lparr>is_domains = initial_domains, is_rows = [], is_files = \<lparr>platform_events = [], platform_decisions = []\<rparr>\<rparr>"
  have "rebuild_incident ''inc'' [] = Inr (new_projection ''inc'' [])" using new_projection_projects by (simp add: projects_def)
  moreover have "\<exists>rec. run_platform_decision ?new (\<lambda>k n. k) ((ii_request ?inp)\<lparr>dq_endpoint := ep\<rparr>) (ii_observations ?inp) = Inr rec" for ep
    using sample_run_any by simp
  ultimately have "\<exists>e e'. {e, e'} \<subseteq> set (is_rows (snd (run_investigation ?new (\<lambda>k n. k) (\<lambda>k n. k) ?inp ?st))) \<and>
      de_event_id e \<noteq> de_event_id e' \<and> de_aggregate_id e = ii_incident ?inp \<and> de_aggregate_id e' = ii_incident ?inp \<and> de_sequence e = de_sequence e'"
    by (intro investigation_duplicates_sequence [where s = "new_projection ''inc'' []"])
      (simp_all add: store_log.consecutive_def new_projection_def event_exists_def initial_domains_def new_breaker_def numeral_2_eq_2 numeral_3_eq_3)
  then show ?thesis by blast
qed

end
