(* ===== verification/Guard_Policy.thy ===== *)
theory Guard_Policy
  imports Py_Values
begin

text \<open>
  The guards of the proxy-guard service: the allowlist policy (\<open>src/proxy_guard/policy.py\<close>), the rollback rate
  limiter (\<open>rollback_limits.py\<close>, settings in \<open>config.py\<close>), the flip-flop detector (\<open>flip_flop.py\<close>) and the
  parser of look-back durations (\<open>proxy_transitions.py\<close>).

  Parameters: the monotonic clock's reading is an argument of the limiter's operations; \<open>utc_of\<close> stands for
  the time-stamp parser of the standard library (seconds of an ISO text, a missing zone read as UTC) and
  \<open>iso_of\<close> for its printer. Time values are rationals.

  The lemmas show what an allow decision rests on, and that a limiter driven by any non-decreasing clock
  spaces and bounds the rollbacks it lets through.
\<close>

section \<open>The allowlist\<close>

record policy_decision =
  allowed :: bool
  reason :: string
  matched_rule :: "string option"
  primary_process_name :: "string option"

record guard_policy =
  source_path :: string
  allowed_process_name_substrings :: "string list"
  allowed_process_names_exact :: "string list"
  allow_when_attribution_empty :: bool
  trusted_exe_paths :: "string list"
  allowed_autoconfig_url_substrings :: "string list"
  observe_only_when_unknown_attribution :: bool

text \<open>\<open>primary_s or lowered\<close>.\<close>

definition name_or :: "string option \<Rightarrow> string \<Rightarrow> string option" where
  "name_or primary lowered = (case primary of Some (c # s) \<Rightarrow> Some (c # s) | _ \<Rightarrow> Some lowered)"

fun evaluate_rows :: "guard_policy \<Rightarrow> string option \<Rightarrow> pydict list \<Rightarrow> policy_decision" where
  "evaluate_rows pol primary_s [] =
     \<lparr>allowed = False, reason = ''no_whitelist_match_default_deny'', matched_rule = None, primary_process_name = primary_s\<rparr>"
| "evaluate_rows pol primary_s (row # rows) =
     (case dict_get row ''process_name'' of
        PyStr name \<Rightarrow>
          (if py_strip name = [] then evaluate_rows pol primary_s rows
           else let lowered = py_lower name
                in case find (\<lambda>exact. lowered = py_lower exact) (allowed_process_names_exact pol) of
                     Some exact \<Rightarrow> \<lparr>allowed = True, reason = ''exact_process_name_match'',
                       matched_rule = Some (''exact:'' @ exact), primary_process_name = name_or primary_s lowered\<rparr>
                   | None \<Rightarrow>
                       (case find (\<lambda>sub. py_in (py_lower sub) lowered) (allowed_process_name_substrings pol) of
                          Some sub \<Rightarrow> \<lparr>allowed = True, reason = ''substring_process_name_match'',
                            matched_rule = Some (''substring:'' @ sub), primary_process_name = name_or primary_s lowered\<rparr>
                        | None \<Rightarrow> evaluate_rows pol primary_s rows))
      | _ \<Rightarrow> evaluate_rows pol primary_s rows)"

definition evaluate :: "guard_policy \<Rightarrow> pydict list \<Rightarrow> policy_decision" where
  "evaluate pol owner_rows =
     (case owner_rows of
        [] \<Rightarrow>
          (if allow_when_attribution_empty pol
           then \<lparr>allowed = True, reason = ''no_attribution_allowed_by_policy_flag'',
                 matched_rule = Some ''allow_when_attribution_empty'', primary_process_name = None\<rparr>
           else \<lparr>allowed = False, reason = ''no_attribution_default_deny'', matched_rule = None,
                 primary_process_name = None\<rparr>)
      | first # _ \<Rightarrow>
          (let primary_s = (case dict_get first ''process_name'' of PyStr s \<Rightarrow> Some (py_lower s) | _ \<Rightarrow> None)
           in evaluate_rows pol primary_s owner_rows))"

fun str_list :: "string \<Rightarrow> pyval list \<Rightarrow> string list py_result" where
  "str_list field [] = Inr []"
| "str_list field (PyStr s # xs) = bind_r (str_list field xs) (\<lambda>ys. Inr (s # ys))"
| "str_list field (v # xs) = Inl (ValueError (field @ '' entries must be strings''))"

fun list_field :: "string \<Rightarrow> pyval \<Rightarrow> pyval list py_result" where
  "list_field field (PyList xs) = Inr xs"
| "list_field field v = Inl (ValueError (field @ '' must be a list''))"

text \<open>
  \<open>load_proxy_guard_policy\<close>: \<open>parsed\<close> is the value of the file's JSON text, on the left the decoder's message, and
  \<open>resolved\<close> the canonical path. The
  two process lists are checked before the two others, types before entries, as in the source.
\<close>

definition load_proxy_guard_policy :: "string \<Rightarrow> string \<Rightarrow> string + pyval \<Rightarrow> guard_policy py_result" where
  "load_proxy_guard_policy path resolved parsed =
     (case parsed of
        Inl msg \<Rightarrow> Inl (ValueError (''invalid JSON in policy file '' @ path @ '': '' @ msg))
      | Inr (PyDict blob) \<Rightarrow>
          (let field = (\<lambda>k. py_or (dict_get blob k) (PyList []))
           in bind_r (list_field ''allowed_process_name_substrings'' (field ''allowed_process_name_substrings'')) (\<lambda>subs0.
              bind_r (list_field ''allowed_process_names_exact'' (field ''allowed_process_names_exact'')) (\<lambda>exact0.
              bind_r (str_list ''allowed_process_name_substrings'' subs0) (\<lambda>subs.
              bind_r (str_list ''allowed_process_names_exact'' exact0) (\<lambda>exact.
              bind_r (list_field ''trusted_exe_paths'' (field ''trusted_exe_paths'')) (\<lambda>trusted0.
              bind_r (list_field ''allowed_autoconfig_url_substrings'' (field ''allowed_autoconfig_url_substrings'')) (\<lambda>ac0.
              bind_r (str_list ''trusted_exe_paths'' trusted0) (\<lambda>trusted.
              bind_r (str_list ''allowed_autoconfig_url_substrings'' ac0) (\<lambda>ac_subs.
                Inr \<lparr>source_path = resolved, allowed_process_name_substrings = subs, allowed_process_names_exact = exact,
                     allow_when_attribution_empty = truthy (dict_get blob ''allow_when_attribution_empty''),
                     trusted_exe_paths = trusted, allowed_autoconfig_url_substrings = ac_subs,
                     observe_only_when_unknown_attribution = truthy (dict_get blob ''observe_only_when_unknown_attribution'')\<rparr>)))))))))
      | Inr _ \<Rightarrow> Inl (ValueError (''policy root must be an object: '' @ path)))"

section \<open>The rollback limiter\<close>

record limit_settings =
  cooldown_seconds :: rat
  window_seconds :: rat
  max_rollbacks_per_window :: int

record limiter =
  settings :: limit_settings
  rollback_times :: "rat list"
  cooldown_until :: "rat option"

text \<open>\<open>f"{x:.1f}"\<close> on a positive number.\<close>

definition fixed1 :: "rat \<Rightarrow> string" where
  "fixed1 x = (let n = nat (round_half_even (10 * x)) in nat_str (n div 10) @ ''.'' @ nat_str (n mod 10))"

definition limiter_window :: "limiter \<Rightarrow> rat" where
  "limiter_window l = max 1 (window_seconds (settings l))"

definition limiter_evaluate :: "rat \<Rightarrow> limiter \<Rightarrow> (bool \<times> string) \<times> limiter" where
  "limiter_evaluate now l =
     (case cooldown_until l of
        Some u \<Rightarrow>
          (if now < u then ((False, ''rollback_cooldown_active:'' @ fixed1 (u - now) @ ''s''), l)
           else (let l1 = l\<lparr>rollback_times := filter (\<lambda>t. t \<ge> now - limiter_window l) (rollback_times l)\<rparr>
                 in if int (length (rollback_times l1)) \<ge> max_rollbacks_per_window (settings l)
                    then ((False, ''rollback_rate_limited_in_window''), l1) else ((True, ''ok''), l1)))
      | None \<Rightarrow>
          (let l1 = l\<lparr>rollback_times := filter (\<lambda>t. t \<ge> now - limiter_window l) (rollback_times l)\<rparr>
           in if int (length (rollback_times l1)) \<ge> max_rollbacks_per_window (settings l)
              then ((False, ''rollback_rate_limited_in_window''), l1) else ((True, ''ok''), l1)))"

definition record_rollback :: "rat \<Rightarrow> limiter \<Rightarrow> limiter" where
  "record_rollback now l =
     l\<lparr>rollback_times := rollback_times l @ [now],
       cooldown_until := Some (now + max 0 (cooldown_seconds (settings l)))\<rparr>"

section \<open>Flip-flop detection\<close>

definition flip_parse_ts :: "(string \<Rightarrow> rat option) \<Rightarrow> pyval \<Rightarrow> rat option" where
  "flip_parse_ts utc_of v =
     (if v = PyNone then None
      else let text = py_strip (py_str v)
           in if text = [] then None
              else utc_of (if py_endswith text ''Z'' then butlast text @ ''+00:00'' else text))"

definition normalize_watch_record :: "pydict \<Rightarrow> pydict" where
  "normalize_watch_record raw =
     (if dict_get raw ''event'' = PyStr ''proxy_state_change'' \<or> dict_get raw ''schema_version'' \<in> {PyInt 1, PyBool True}
           \<or> (case dict_get raw ''schema_version'' of PyFloat v _ \<Rightarrow> v = 1 | _ \<Rightarrow> False)
      then dict_update raw
        [(''schema_version'', dict_get_or raw ''schema_version'' (PyInt 1)),
         (''event'', dict_get_or raw ''event'' (PyStr ''proxy_state_change'')),
         (''timestamp'', py_or (dict_get raw ''timestamp_utc'') (dict_get raw ''timestamp'')),
         (''before_snapshot'', PyDict [(''proxy_enable'', dict_get raw ''old_enable''), (''proxy_server'', dict_get raw ''old_server_masked'')]),
         (''after_snapshot'', PyDict [(''proxy_enable'', dict_get raw ''new_enable''), (''proxy_server'', dict_get raw ''new_server_masked'')])]
      else raw)"

text \<open>The transition a row shows, if it shows one; a snapshot that is not a dictionary raises.\<close>

fun snapshot_dict :: "pyval \<Rightarrow> pydict py_result" where
  "snapshot_dict (PyDict d) = Inr d"
| "snapshot_dict v = Inl (no_attribute v ''get'')"

definition row_transition :: "(string \<Rightarrow> rat option) \<Rightarrow> pydict \<Rightarrow> (rat \<times> int \<times> int) option py_result" where
  "row_transition utc_of raw =
     (let rec = normalize_watch_record raw
      in case flip_parse_ts utc_of (py_or (dict_get rec ''timestamp'') (dict_get rec ''timestamp_utc'')) of
           None \<Rightarrow> Inr None
         | Some ts \<Rightarrow>
             (case snapshot_dict (py_or (dict_get rec ''before_snapshot'') (PyDict [])) of
                Inl e \<Rightarrow> Inl e
              | Inr old \<Rightarrow>
                  (case py_int (dict_get old ''proxy_enable'') of
                     None \<Rightarrow> Inr None
                   | Some old_en \<Rightarrow>
                       bind_r (snapshot_dict (py_or (dict_get rec ''after_snapshot'') (PyDict []))) (\<lambda>new.
                         Inr (case py_int (dict_get new ''proxy_enable'') of
                                None \<Rightarrow> None
                              | Some new_en \<Rightarrow> (if old_en \<noteq> new_en then Some (ts, old_en, new_en) else None))))))"

definition iter_enable_transitions :: "(string \<Rightarrow> rat option) \<Rightarrow> pydict list \<Rightarrow> (rat \<times> int \<times> int) list py_result" where
  "iter_enable_transitions utc_of records =
     bind_r (map_r (row_transition utc_of) records) (\<lambda>xs. Inr (List.map_filter (\<lambda>x. x) xs))"

record active_reverter =
  incident_class :: string
  toggle_count :: int
  window_minutes :: int
  first_seen_utc :: string
  last_seen_utc :: string

definition detect_active_reverter ::
  "(string \<Rightarrow> rat option) \<Rightarrow> (rat \<Rightarrow> string) \<Rightarrow> rat \<Rightarrow> pydict list \<Rightarrow> int \<Rightarrow> int \<Rightarrow> rat option \<Rightarrow> active_reverter option py_result" where
  "detect_active_reverter utc_of iso_of now records minutes min_toggles reference_utc =
     bind_r (iter_enable_transitions utc_of records) (\<lambda>transitions.
       if int (length transitions) < min_toggles then Inr None
       else let ref = (case reference_utc of
                         Some r \<Rightarrow> r
                       | None \<Rightarrow> (if transitions \<noteq> [] then fst (last transitions) else now));
                in_window = filter (\<lambda>t. fst t \<ge> ref - of_int (60 * minutes)) transitions
            in if int (length in_window) < min_toggles then Inr None
               else if in_window = [] then Inl (IndexError ''list index out of range'')
               else Inr (Some \<lparr>incident_class = ''ACTIVE_REVERTER'', toggle_count = int (length in_window),
                      window_minutes = minutes, first_seen_utc = iso_of (fst (hd in_window)),
                      last_seen_utc = iso_of (fst (last in_window))\<rparr>))"

section \<open>Look-back durations\<close>

datatype since_value = SinceNone | SinceInt int | SinceText string

definition unit_seconds :: "char \<Rightarrow> int option" where
  "unit_seconds c =
     (if c = CHR ''s'' then Some 1 else if c = CHR ''m'' then Some 60
      else if c = CHR ''h'' then Some 3600 else if c = CHR ''d'' then Some 86400 else None)"

fun parse_since_duration :: "since_value \<Rightarrow> int" where
  "parse_since_duration SinceNone = 1800"
| "parse_since_duration (SinceInt n) = max 1 n"
| "parse_since_duration (SinceText s) =
     (let text = py_lower (py_strip s)
      in if text \<noteq> [] \<and> list_all is_digit text then max 1 (int (digits_val text))
         else if length text < 2 \<or> \<not> list_all is_digit (butlast text) then 1800
         else case unit_seconds (last text) of
                None \<Rightarrow> 1800
              | Some mult \<Rightarrow> max 1 (int (digits_val (butlast text)) * mult))"

section \<open>What an allow decision rests on\<close>

definition row_matches :: "guard_policy \<Rightarrow> pydict \<Rightarrow> bool" where
  "row_matches pol row \<longleftrightarrow>
     (\<exists>name. dict_get row ''process_name'' = PyStr name \<and> py_strip name \<noteq> [] \<and>
        ((\<exists>e\<in>set (allowed_process_names_exact pol). py_lower name = py_lower e) \<or>
         (\<exists>u\<in>set (allowed_process_name_substrings pol). py_in (py_lower u) (py_lower name))))"

lemma evaluate_rows_allowed: "allowed (evaluate_rows pol p rows) \<longleftrightarrow> (\<exists>row\<in>set rows. row_matches pol row)"
proof (induction rows)
  case (Cons row rows)
  show ?case
  proof (cases "dict_get row ''process_name''")
    case (PyStr name)
    then show ?thesis using Cons
      by (auto simp: row_matches_def Let_def find_None_iff find_Some_iff split: option.splits)
  qed (use Cons in \<open>simp_all add: row_matches_def\<close>)
qed simp

lemma evaluate_rows_fields:
  "matched_rule (evaluate_rows pol p rows) \<noteq> None \<longleftrightarrow> allowed (evaluate_rows pol p rows)"
  "\<not> allowed (evaluate_rows pol p rows) \<Longrightarrow> reason (evaluate_rows pol p rows) = ''no_whitelist_match_default_deny''"
  by (induction pol p rows rule: evaluate_rows.induct) (auto simp: Let_def split: pyval.splits option.splits if_splits)

section \<open>The limiter under a clock\<close>

text \<open>
  One guarded rollback of the polling loop (\<open>run_proxy_guard_guard_loop\<close>): the limiter is asked at
  \<open>asked\<close>; when it agrees and the restore really applied (the live gate is open and the executor did not skip), it is
  recorded at \<open>recorded\<close>, a second reading of the clock. The list collects the recorded instants.
\<close>

definition attempt_rollback :: "rat \<times> rat \<times> bool \<Rightarrow> limiter \<times> rat list \<Rightarrow> limiter \<times> rat list" where
  "attempt_rollback attempt s =
     (let (asked, recorded, applied) = attempt; ((ok, why), l1) = limiter_evaluate asked (fst s)
      in if ok \<and> applied then (record_rollback recorded l1, snd s @ [recorded]) else (l1, snd s))"

definition new_limiter :: "limit_settings \<Rightarrow> limiter" where
  "new_limiter st = \<lparr>settings = st, rollback_times = [], cooldown_until = None\<rparr>"

fun spaced :: "rat \<Rightarrow> rat list \<Rightarrow> bool" where
  "spaced c (x # y # ys) \<longleftrightarrow> x + c \<le> y \<and> spaced c (y # ys)"
| "spaced c _ \<longleftrightarrow> True"

lemma spaced_snoc: "spaced c (xs @ [x]) \<longleftrightarrow> spaced c xs \<and> (xs \<noteq> [] \<longrightarrow> last xs + c \<le> x)"
  by (induction c xs rule: spaced.induct) auto

text \<open>Number of instants of a list between two bounds, both included.\<close>

definition window_count :: "rat \<Rightarrow> rat \<Rightarrow> rat list \<Rightarrow> nat" where
  "window_count a b xs = length (filter (\<lambda>t. a \<le> t \<and> t \<le> b) xs)"

text \<open>
  The invariant after attempts up to \<open>now\<close>: the times kept are the recorded ones from some instant on that is
  no later than the horizon, recorded rollbacks are spaced by the cooldown, and a window that ends at a
  recorded rollback holds at most the maximum.
\<close>

definition limiter_inv :: "limit_settings \<Rightarrow> rat \<Rightarrow> limiter \<times> rat list \<Rightarrow> bool" where
  "limiter_inv st now s \<longleftrightarrow>
     settings (fst s) = st \<and>
     (\<exists>h. h \<le> now - max 1 (window_seconds st) \<and> rollback_times (fst s) = filter (\<lambda>t. h \<le> t) (snd s)) \<and>
     (\<forall>t\<in>set (snd s). t \<le> now) \<and>
     cooldown_until (fst s) = (if snd s = [] then None else Some (last (snd s) + max 0 (cooldown_seconds st))) \<and>
     spaced (max 0 (cooldown_seconds st)) (snd s) \<and>
     (\<forall>t\<in>set (snd s). int (window_count (t - max 1 (window_seconds st)) t (snd s)) \<le> max_rollbacks_per_window st)"

definition pruned :: "rat \<Rightarrow> limiter \<Rightarrow> limiter" where
  "pruned now l = l\<lparr>rollback_times := filter (\<lambda>t. now - limiter_window l \<le> t) (rollback_times l)\<rparr>"

lemma limiter_evaluate_eq:
  "limiter_evaluate now l =
     (if \<exists>u. cooldown_until l = Some u \<and> now < u
      then ((False, ''rollback_cooldown_active:'' @ fixed1 (the (cooldown_until l) - now) @ ''s''), l)
      else if int (length (rollback_times (pruned now l))) \<ge> max_rollbacks_per_window (settings l)
      then ((False, ''rollback_rate_limited_in_window''), pruned now l) else ((True, ''ok''), pruned now l))"
  by (cases "cooldown_until l") (simp_all add: limiter_evaluate_def pruned_def Let_def)

lemma limiter_evaluate_cases:
  obtains (cooldown) u where "cooldown_until l = Some u" "now < u" "\<not> fst (fst (limiter_evaluate now l))"
      "snd (limiter_evaluate now l) = l"
  | (limited) "\<not> fst (fst (limiter_evaluate now l))" "snd (limiter_evaluate now l) = pruned now l"
  | (ok) "fst (fst (limiter_evaluate now l))" "snd (limiter_evaluate now l) = pruned now l"
      "\<And>u. cooldown_until l = Some u \<Longrightarrow> u \<le> now"
      "int (length (rollback_times (pruned now l))) < max_rollbacks_per_window (settings l)"
proof (cases "\<exists>u. cooldown_until l = Some u \<and> now < u")
  case True
  then show ?thesis using that(1) by (auto simp: limiter_evaluate_eq)
next
  case False
  show ?thesis
  proof (cases "int (length (rollback_times (pruned now l))) \<ge> max_rollbacks_per_window (settings l)")
    case True
    then have "limiter_evaluate now l = ((False, ''rollback_rate_limited_in_window''), pruned now l)"
      by (simp only: limiter_evaluate_eq False if_True if_False)
    then show ?thesis using that(2) by simp
  next
    case room: False
    then have "limiter_evaluate now l = ((True, ''ok''), pruned now l)"
      by (simp only: limiter_evaluate_eq False if_False)
    then show ?thesis using that(3) room False by (auto simp: not_less)
  qed
qed

lemma pruned_inv:
  assumes inv: "limiter_inv st now (l, xs)" and "now \<le> asked"
  shows "limiter_inv st asked (pruned asked l, xs)"
proof -
  obtain h where h: "h \<le> now - max 1 (window_seconds st)" "rollback_times l = filter (\<lambda>t. h \<le> t) xs"
    using inv by (auto simp: limiter_inv_def)
  let ?k = "asked - max 1 (window_seconds st)"
  have "rollback_times (pruned asked l) = filter (\<lambda>t. ?k \<le> t) xs"
    using inv h assms(2) by (auto simp: pruned_def limiter_window_def limiter_inv_def intro!: filter_cong)
  then show ?thesis using inv assms(2) by (fastforce simp: limiter_inv_def pruned_def)
qed

lemma later_inv: "limiter_inv st now (l, xs) \<Longrightarrow> now \<le> asked \<Longrightarrow> limiter_inv st asked (l, xs)"
  unfolding limiter_inv_def by (elim conjE exE, intro conjI exI) (auto intro: order_trans)

lemma record_inv:
  assumes inv: "limiter_inv st asked (pruned asked l, xs)" and "asked \<le> recorded"
    and free: "\<And>u. cooldown_until l = Some u \<Longrightarrow> u \<le> asked"
    and room: "int (length (rollback_times (pruned asked l))) < max_rollbacks_per_window (settings l)"
  shows "limiter_inv st recorded (record_rollback recorded (pruned asked l), xs @ [recorded])"
proof -
  let ?W = "max 1 (window_seconds st)" and ?c = "max 0 (cooldown_seconds st)"
  have st: "settings l = st" using inv by (simp add: limiter_inv_def pruned_def)
  obtain h where h: "h \<le> asked - ?W" "rollback_times (pruned asked l) = filter (\<lambda>t. h \<le> t) xs"
    using inv by (auto simp: limiter_inv_def)
  have le: "t \<le> asked" if "t \<in> set xs" for t using inv that by (simp add: limiter_inv_def)
  then have later: "t \<le> recorded" if "t \<in> set xs" for t using that assms(2) order_trans by blast
  have gap: "last xs + ?c \<le> recorded" if "xs \<noteq> []"
    using inv free assms(2) that by (fastforce simp: limiter_inv_def pruned_def)
  have "window_count (recorded - ?W) recorded xs \<le> length (filter (\<lambda>t. h \<le> t) xs)"
    unfolding window_count_def using h(1) assms(2)
    by (induction xs) (auto intro: order_trans)
  then have "int (window_count (recorded - ?W) recorded (xs @ [recorded])) \<le> max_rollbacks_per_window st"
    using room h(2) st by (simp add: window_count_def le_max_iff_disj)
  moreover have "int (window_count (t - ?W) t (xs @ [recorded])) \<le> max_rollbacks_per_window st" if "t \<in> set xs" for t
  proof (cases "t = recorded")
    case False
    then have "window_count (t - ?W) t (xs @ [recorded]) = window_count (t - ?W) t xs"
      using le[OF that] assms(2) by (auto simp: window_count_def)
    then show ?thesis using inv that by (simp add: limiter_inv_def)
  qed (use calculation in simp)
  ultimately show ?thesis
    using inv h gap later assms(2)
    by (auto simp: limiter_inv_def record_rollback_def spaced_snoc intro!: exI[of _ h])
qed

lemma attempt_inv:
  assumes "limiter_inv st now s" "now \<le> asked" "asked \<le> recorded"
  shows "limiter_inv st recorded (attempt_rollback (asked, recorded, applied) s)"
proof (cases rule: limiter_evaluate_cases[of "fst s" asked])
  case cooldown
  then show ?thesis using assms later_inv[of st now "fst s" "snd s" recorded]
    by (simp add: attempt_rollback_def split_beta)
next
  case limited
  then show ?thesis using assms later_inv[OF pruned_inv[of st now "fst s" "snd s" asked], of recorded]
    by (simp add: attempt_rollback_def split_beta)
next
  case ok
  show ?thesis
    using ok(1,2) assms(3) pruned_inv[of st now "fst s" "snd s" asked] assms(1,2)
      later_inv[OF pruned_inv[of st now "fst s" "snd s" asked], of recorded]
      record_inv[OF _ assms(3) ok(3,4)]
    by (simp add: attempt_rollback_def split_beta)
qed

lemma new_limiter_inv: "limiter_inv st now (new_limiter st, [])"
  by (auto simp: limiter_inv_def new_limiter_def)

text \<open>
  (allowlist, default deny). Without owner rows the policy's flag decides. With rows, a proxy change is
  allowed exactly when some row has a non-blank process name that equals an exact entry or contains a
  substring entry, case-insensitively; otherwise the answer is the default denial. A permission always names its rule.
\<close>

theorem evaluate_decision:
  "allowed (evaluate pol rows) =
     (if rows = [] then allow_when_attribution_empty pol else \<exists>row\<in>set rows. row_matches pol row) \<and>
   (allowed (evaluate pol rows) \<longleftrightarrow> matched_rule (evaluate pol rows) \<noteq> None) \<and>
   (\<not> allowed (evaluate pol rows) \<longrightarrow>
      reason (evaluate pol rows) = (if rows = [] then ''no_attribution_default_deny'' else ''no_whitelist_match_default_deny''))"
proof (cases rows)
  case (Cons first rest)
  then show ?thesis
    using evaluate_rows_fields[of pol _ rows] evaluate_rows_allowed[of pol _ rows]
    by (simp only: evaluate_def list.case Let_def) auto
qed (simp add: evaluate_def)

theorem evaluate_decision_witness:
  "let pol = \<lparr>source_path = ''p.json'', allowed_process_name_substrings = [''fiddler''], allowed_process_names_exact = [''Charles.exe''],
               allow_when_attribution_empty = False, trusted_exe_paths = [], allowed_autoconfig_url_substrings = [],
               observe_only_when_unknown_attribution = False\<rparr>;
       rows = [[(''process_name'', PyStr ''node.exe'')]]
   in \<not> allowed (evaluate pol rows) \<and> reason (evaluate pol rows) = ''no_whitelist_match_default_deny''"
proof -
  let ?pol = "\<lparr>source_path = ''p.json'', allowed_process_name_substrings = [''fiddler''], allowed_process_names_exact = [''Charles.exe''],
               allow_when_attribution_empty = False, trusted_exe_paths = [], allowed_autoconfig_url_substrings = [],
               observe_only_when_unknown_attribution = False\<rparr>"
  let ?rows = "[[(''process_name'', PyStr ''node.exe'')]]"
  have "\<not> allowed (evaluate ?pol ?rows)" by code_simp
  then show ?thesis using evaluate_decision[of ?pol ?rows] by (simp add: Let_def)
qed

end
