(* ===== verification/Guard_Transition.thy ===== *)
theory Guard_Transition
  imports Guard_Policy Proxy_Parser
begin

text \<open>
  How the guard service judges a change of the proxy settings: the snapshot and attribution records
  (\<open>src/proxy_guard/models.py\<close>), the operational assessment of the proxy path (\<open>proxy_path_operational.py\<close>), the
  transition policy (\<open>guard_evaluation.py\<close>, \<open>pipeline.py\<close>), the connectivity comparison (\<open>connectivity.py\<close>)
  and the final decision (\<open>decision.py\<close>). The outcomes of the \<open>curl\<close>, listener and connectivity probes are
  arguments.
\<close>

section \<open>Data\<close>

datatype attribution_mode = Verified_eventlog | Best_effort_process_snapshot | Unknown_mode

record process_identity =
  pid :: "int option"
  ppid :: "int option"
  exe :: "string option"
  proc_name :: "string option"
  cmdline :: "string option"
  create_time_utc :: "string option"
  proc_user :: "string option"
  identity_source :: string

record attribution_result =
  mode :: attribution_mode
  attribution_confidence :: string
  process :: "process_identity option"
  attribution_evidence :: "string list"
  limitations :: "string list"

record proxy_snapshot =
  proxy_enable :: "int option"
  proxy_server :: "string option"
  proxy_override :: "string option"
  auto_config_url :: "string option"
  auto_detect :: "int option"
  winhttp_proxy :: string
  winhttp_direct_access :: bool
  winhttp_proxy_server_literal :: "string option"
  git_http_proxy :: "string option"
  git_https_proxy :: "string option"
  npm_proxy :: "string option"
  npm_https_proxy :: "string option"
  user_http_proxy :: "string option"
  user_https_proxy :: "string option"
  user_all_proxy :: "string option"
  user_no_proxy :: "string option"
  captured_at :: string

datatype guard_decision_kind = Allowed | Blocked | Observe

record guard_decision =
  decision :: guard_decision_kind
  gd_reason :: string
  gd_matched_rule :: "string option"
  rollback_allowed :: bool
  rollback_required :: bool

abbreviation guard_verdict :: "guard_decision_kind \<Rightarrow> string \<Rightarrow> string option \<Rightarrow> bool \<Rightarrow> guard_decision" where
  "guard_verdict d why rule rb \<equiv>
     \<lparr>decision = d, gd_reason = why, gd_matched_rule = rule, rollback_allowed = rb, rollback_required = False\<rparr>"

section \<open>Operational state of the proxy path\<close>

datatype composite = DIRECT | LATENT_MISCONFIG | LOOPBACK_OPERATIONAL | LOOPBACK_BROKEN | ENTERPRISE_PAC

datatype path_recommendation = Observe_no_rollback | Remediation_preview

datatype path_tier = TIER_0_RAW_OBSERVATION | TIER_1_CORRELATED_SIGNAL | TIER_2_CONTRAST_TESTED

record path_assessment =
  composite_state :: composite
  listener_up :: "bool option"
  proxied_https_ok :: "bool option"
  bypass_https_ok :: "bool option"
  path_healthy :: "bool option"
  path_evidence_tier :: path_tier
  policy_recommendation :: path_recommendation

definition norm_str :: "string option \<Rightarrow> string" where
  "norm_str v = py_strip (case v of None \<Rightarrow> [] | Some s \<Rightarrow> s)"

definition int_or :: "int option \<Rightarrow> int option \<Rightarrow> int option" where
  "int_or a b = (case a of Some n \<Rightarrow> (if n \<noteq> 0 then Some n else b) | None \<Rightarrow> b)"

definition curl_proxy_url :: "parsed_proxy \<Rightarrow> string option \<times> string" where
  "curl_proxy_url p =
     (if \<not> is_localhost_proxy p then (None, ''no_loopback_segment'')
      else if parsed_mode p = Socks_localhost \<and> int_or (socks_port p) None \<noteq> None
      then (Some (''socks5h://127.0.0.1:'' @ int_str (the (socks_port p))), ''socks5h'')
      else case int_or (https_localhost_port p) (int_or (http_localhost_port p) (localhost_port p)) of
             None \<Rightarrow> (None, ''no_port_for_http_connect'')
           | Some n \<Rightarrow> (Some (''http://127.0.0.1:'' @ int_str n), ''http_connect''))"

definition interpret_curl_https_ok :: "int \<Rightarrow> string \<Rightarrow> bool" where
  "interpret_curl_https_ok returncode written =
     (if returncode \<noteq> 0 then False
      else let s = py_strip written
           in if s = [] \<or> \<not> list_all is_digit s then False
              else int (digits_val s) > 0 \<and> int (digits_val s) < 600)"

text \<open>The outcome of \<open>_curl_https_probe\<close> (return code, written field) is a function of the proxy used.\<close>

definition run_https_contrast ::
  "(string option \<Rightarrow> int \<times> string) \<Rightarrow> parsed_proxy \<Rightarrow> int option \<Rightarrow> bool option \<times> bool option" where
  "run_https_contrast curl p enable =
     (let ok = (\<lambda>u. interpret_curl_https_ok (fst (curl u)) (snd (curl u)))
      in if enable \<noteq> Some 1 \<or> \<not> is_localhost_proxy p then (None, Some (ok None))
         else case fst (curl_proxy_url p) of
                None \<Rightarrow> (None, Some (ok None))
              | Some u \<Rightarrow> (Some (ok (Some u)), Some (ok None)))"

definition classify_composite_state ::
  "int option \<Rightarrow> string option \<Rightarrow> string option \<Rightarrow> parsed_proxy \<Rightarrow> bool option \<Rightarrow> bool option \<Rightarrow> bool option \<Rightarrow> composite" where
  "classify_composite_state enable server auto_url p listener proxied bypass =
     (if norm_str auto_url \<noteq> [] then ENTERPRISE_PAC
      else let enabled = (enable = Some 1); server_set = (norm_str server \<noteq> [])
           in if \<not> enabled \<and> \<not> server_set then DIRECT
              else if \<not> enabled \<and> server_set \<and> is_localhost_proxy p then LATENT_MISCONFIG
              else if \<not> enabled \<and> server_set then LATENT_MISCONFIG
              else if enabled \<and> is_localhost_proxy p then
                (if proxied = Some False \<and> bypass = Some True then LOOPBACK_BROKEN
                 else if listener = Some False then LOOPBACK_BROKEN
                 else if proxied = Some True then LOOPBACK_OPERATIONAL
                 else if listener = Some True \<and> proxied = None then LOOPBACK_OPERATIONAL
                 else if proxied = Some False then LOOPBACK_BROKEN
                 else LOOPBACK_BROKEN)
              else DIRECT)"

definition policy_for_composite :: "composite \<Rightarrow> path_recommendation" where
  "policy_for_composite c = (if c = LOOPBACK_BROKEN then Remediation_preview else Observe_no_rollback)"

definition evidence_tier_for :: "composite \<Rightarrow> bool option \<Rightarrow> bool option \<Rightarrow> bool option \<Rightarrow> path_tier" where
  "evidence_tier_for c proxied bypass listener =
     (if proxied \<noteq> None \<and> bypass \<noteq> None then TIER_2_CONTRAST_TESTED
      else if listener \<noteq> None \<or> c \<in> {LOOPBACK_OPERATIONAL, LOOPBACK_BROKEN} then TIER_1_CORRELATED_SIGNAL
      else TIER_0_RAW_OBSERVATION)"

fun browser_path_healthy :: "composite \<Rightarrow> bool option \<Rightarrow> bool option \<Rightarrow> bool option" where
  "browser_path_healthy LOOPBACK_OPERATIONAL proxied bypass = (if proxied \<noteq> Some False then Some True else proxied)"
| "browser_path_healthy LOOPBACK_BROKEN proxied bypass = Some False"
| "browser_path_healthy DIRECT proxied bypass =
     (if bypass = Some True then Some True else if bypass = None then Some True else bypass)"
| "browser_path_healthy LATENT_MISCONFIG proxied bypass = (if bypass \<noteq> Some False then Some True else bypass)"
| "browser_path_healthy ENTERPRISE_PAC proxied bypass = None"

definition assess_proxy_path_operational ::
  "(string option \<Rightarrow> int \<times> string) \<Rightarrow> bool \<Rightarrow> int option \<Rightarrow> string option \<Rightarrow> string option \<Rightarrow> parsed_proxy \<Rightarrow> bool option \<Rightarrow> path_assessment" where
  "assess_proxy_path_operational curl include_https_contrast enable server auto_url p port_listen =
     (let (proxied, bypass) =
            (if include_https_contrast then run_https_contrast curl p enable
             else (None, Some (interpret_curl_https_ok (fst (curl None)) (snd (curl None)))));
          c = classify_composite_state enable server auto_url p port_listen proxied bypass
      in \<lparr>composite_state = c, listener_up = port_listen, proxied_https_ok = proxied, bypass_https_ok = bypass,
          path_healthy = browser_path_healthy c proxied bypass,
          path_evidence_tier = evidence_tier_for c proxied bypass port_listen,
          policy_recommendation = policy_for_composite c\<rparr>)"

section \<open>The transition policy\<close>

definition hkcu_proxy_core_tuple ::
  "proxy_snapshot \<Rightarrow> int option \<times> string option \<times> string option \<times> string option \<times> int option" where
  "hkcu_proxy_core_tuple s = (proxy_enable s, proxy_server s, proxy_override s, auto_config_url s, auto_detect s)"

text \<open>\<open>PureWindowsPath(p).name\<close>: the last component after the drive, empty ones and dots left out.\<close>

fun split_at :: "char \<Rightarrow> string \<Rightarrow> string list" where
  "split_at c [] = [[]]"
| "split_at c (x # xs) = (if x = c then [] # split_at c xs else (case split_at c xs of y # ys \<Rightarrow> (x # y) # ys | [] \<Rightarrow> [[x]]))"

definition after_char :: "char \<Rightarrow> string \<Rightarrow> string option" where
  "after_char c s = (case dropWhile (\<lambda>x. x \<noteq> c) s of [] \<Rightarrow> None | _ # r \<Rightarrow> Some r)"

definition backslash :: char where
  "backslash = CHR 0x5C"

definition win_relative :: "string \<Rightarrow> string" where
  "win_relative p =
     (case p of
        a # b # r \<Rightarrow>
          (if a = backslash \<and> b = backslash then
             (let start = (if py_upper (take 8 p) = [backslash, backslash, CHR ''?'', backslash] @ ''UNC'' @ [backslash] then 8 else 2)
              in case after_char backslash (drop start p) of
                   None \<Rightarrow> []
                 | Some share \<Rightarrow> (case after_char backslash share of None \<Rightarrow> [] | Some rel \<Rightarrow> rel))
           else if a = backslash then b # r
           else if b = CHR '':'' then (case r of c # r' \<Rightarrow> (if c = backslash then r' else r) | [] \<Rightarrow> [])
           else p)
      | [a] \<Rightarrow> (if a = backslash then [] else [a])
      | [] \<Rightarrow> [])"

definition win_name :: "string \<Rightarrow> string" where
  "win_name p =
     (case filter (\<lambda>x. x \<noteq> [] \<and> x \<noteq> ''.'') (split_at backslash (win_relative (py_replace_char CHR ''/'' backslash p))) of
        [] \<Rightarrow> [] | parts \<Rightarrow> last parts)"

definition unquote :: "string \<Rightarrow> string" where
  "unquote s = py_strip_chars [CHR 0x22] (py_strip s)"

fun exe_basename_candidate :: "string option \<Rightarrow> string option \<Rightarrow> string option" where
  "exe_basename_candidate (Some (c # s)) name = Some (py_lower (win_name (unquote (c # s))))"
| "exe_basename_candidate e (Some (c # s)) = Some (py_lower (c # s))"
| "exe_basename_candidate e n = None"

definition norm_path :: "string \<Rightarrow> string" where
  "norm_path s = py_replace_char CHR ''/'' backslash (py_lower (unquote s))"

definition trust_root :: "string \<Rightarrow> string" where
  "trust_root pref = rev (dropWhile (\<lambda>c. c = backslash) (rev (norm_path pref)))"

definition exe_path_trusted :: "string option \<Rightarrow> string list \<Rightarrow> bool" where
  "exe_path_trusted candidate roots =
     (case candidate of
        None \<Rightarrow> False
      | Some path \<Rightarrow>
          (if path = [] \<or> roots = [] then False
           else list_ex (\<lambda>pref. trust_root pref \<noteq> [] \<and> py_startswith (norm_path path) (trust_root pref)) roots))"

definition attribution_to_owner_rows :: "attribution_result \<Rightarrow> pydict list" where
  "attribution_to_owner_rows att =
     (case process att of
        None \<Rightarrow> []
      | Some proc \<Rightarrow>
          (case exe_basename_candidate (exe proc) (proc_name proc) of
             Some (c # s) \<Rightarrow>
               [[(''process_name'', PyStr (c # s)), (''pid'', case pid proc of None \<Rightarrow> PyNone | Some n \<Rightarrow> PyInt n)]]
           | _ \<Rightarrow> []))"

definition disabling_transition_allowed :: "proxy_snapshot \<Rightarrow> proxy_snapshot \<Rightarrow> bool" where
  "disabling_transition_allowed prior current =
     ((case proxy_enable prior of None \<Rightarrow> 0 | Some n \<Rightarrow> n) = 1 \<and> (case proxy_enable current of None \<Rightarrow> 0 | Some n \<Rightarrow> n) = 0)"

text \<open>The early verdict on the localhost branch, when it gives one.\<close>

definition localhost_verdict ::
  "attribution_result \<Rightarrow> guard_policy \<Rightarrow> bool option \<Rightarrow> path_assessment option \<Rightarrow> guard_decision option" where
  "localhost_verdict att pol port_listen path =
     (if map_option composite_state path = Some LOOPBACK_BROKEN
      then Some (guard_verdict Blocked ''loopback_proxy_path_non_operational'' (Some ''proxy_path_operational'') True)
      else if map_option composite_state path = Some LOOPBACK_OPERATIONAL
      then Some (guard_verdict Allowed ''loopback_path_operational_observe'' (Some ''proxy_path_operational'') False)
      else let pd_name = evaluate pol (attribution_to_owner_rows att);
               trusted_path = (case process att of None \<Rightarrow> False | Some proc \<Rightarrow> exe_path_trusted (exe proc) (trusted_exe_paths pol));
               verified_event = (mode att = Verified_eventlog);
               listener_ok = (port_listen = Some True)
           in if listener_ok \<or> trusted_path \<or> verified_event \<or> allowed pd_name
              then Some (guard_verdict Allowed ''localhost_loopback_policy_allow''
                     (Some (case matched_rule pd_name of
                              Some (c # s) \<Rightarrow> c # s
                            | _ \<Rightarrow> (if listener_ok then ''localhost_listener_present'' else ''trusted_override''))) False)
              else if port_listen = Some False
              then Some (guard_verdict Blocked ''loopback_proxy_without_listener_and_untrusted'' None True)
              else None)"

definition pac_not_allowlisted :: "proxy_snapshot \<Rightarrow> proxy_snapshot \<Rightarrow> guard_policy \<Rightarrow> bool" where
  "pac_not_allowlisted prior current pol =
     (norm_str (auto_config_url prior) \<noteq> norm_str (auto_config_url current) \<and> norm_str (auto_config_url current) \<noteq> [] \<and>
      \<not> list_ex (\<lambda>s. py_in (py_lower s) (py_lower (norm_str (auto_config_url current)))) (allowed_autoconfig_url_substrings pol))"

definition evaluate_proxy_transition ::
  "proxy_snapshot \<Rightarrow> proxy_snapshot \<Rightarrow> parsed_proxy \<Rightarrow> attribution_result \<Rightarrow> guard_policy \<Rightarrow> bool option \<Rightarrow> path_assessment option \<Rightarrow> guard_decision" where
  "evaluate_proxy_transition prior current parsed_after att pol port_listen path =
     (if hkcu_proxy_core_tuple prior = hkcu_proxy_core_tuple current
      then guard_verdict Observe ''no_op_registry_core'' None False
      else if disabling_transition_allowed prior current
      then guard_verdict Allowed ''proxy_disable_transition_allowed_default'' None False
      else if pac_not_allowlisted prior current pol
      then guard_verdict Blocked ''autoconfig_url_change_not_allowlisted'' None True
      else if mode att = Verified_eventlog \<and>
              (case process att of None \<Rightarrow> False | Some proc \<Rightarrow> exe_path_trusted (exe proc) (trusted_exe_paths pol))
      then guard_verdict Allowed ''trusted_exe_path_verified_eventlog'' (Some ''trusted_exe_paths'') False
      else case (if is_localhost_proxy parsed_after then localhost_verdict att pol port_listen path else None) of
             Some v \<Rightarrow> v
           | None \<Rightarrow>
               (let pd = evaluate pol (attribution_to_owner_rows att)
                in if allowed pd then guard_verdict Allowed (reason pd) (matched_rule pd) False
                   else if observe_only_when_unknown_attribution pol \<and> (mode att = Unknown_mode \<or> process att = None)
                   then guard_verdict Observe ''observe_only_unknown_attribution_user_manual_mode'' None False
                   else guard_verdict Blocked (reason pd) None True))"

section \<open>Risk, connectivity and the final decision\<close>

definition public_decision_label :: "guard_decision_kind \<Rightarrow> string" where
  "public_decision_label d = (case d of Observe \<Rightarrow> ''observe_only'' | Allowed \<Rightarrow> ''allowed'' | Blocked \<Rightarrow> ''blocked'')"

definition infer_risk_level :: "guard_decision \<Rightarrow> proxy_snapshot \<Rightarrow> parsed_proxy \<Rightarrow> string" where
  "infer_risk_level gd current p =
     (if decision gd = Allowed then ''low'' else if decision gd = Observe then ''low''
      else if is_localhost_proxy p then ''high''
      else if proxy_enable current = Some 1 \<and> norm_str (proxy_server current) \<noteq> [] then ''high'' else ''medium'')"

definition infer_recommended_action :: "guard_decision \<Rightarrow> string" where
  "infer_recommended_action gd =
     (if decision gd = Blocked \<and> rollback_allowed gd then ''rollback''
      else if decision gd = Blocked \<and> \<not> rollback_allowed gd then ''prompt_user''
      else if decision gd = Observe \<and> py_in ''unknown_attribution'' (gd_reason gd) then ''prompt_user''
      else ''none'')"

record connectivity_snapshot =
  tcp_443_google :: bool
  https_google :: bool
  https_microsoft :: bool
  dns_google :: bool

record connectivity_validation =
  regression_detected :: bool
  regression_type :: string

definition compare_connectivity ::
  "connectivity_snapshot option \<Rightarrow> connectivity_snapshot \<Rightarrow> connectivity_validation" where
  "compare_connectivity pre_change post =
     (case pre_change of
        None \<Rightarrow> \<lparr>regression_detected = False, regression_type = ''insufficient_pre_change_baseline''\<rparr>
      | Some pre \<Rightarrow>
          (let regressions =
                 (if https_google pre \<and> \<not> https_google post then [''https_google_regressed''] else []) @
                 (if https_microsoft pre \<and> \<not> https_microsoft post then [''https_microsoft_regressed''] else []) @
                 (if tcp_443_google pre \<and> \<not> tcp_443_google post then [''tcp_443_regressed''] else []) @
                 (if dns_google pre \<and> \<not> dns_google post then [''dns_regressed''] else [])
           in if regressions \<noteq> [] then
                \<lparr>regression_detected = True,
                 regression_type =
                   (if tcp_443_google post \<and> \<not> https_google post \<and> dns_google post
                    then ''https_path_regression_tcp_ok_dns_ok'' else ''connectivity_regression'')\<rparr>
              else \<lparr>regression_detected = False, regression_type = ''none''\<rparr>))"

record final_decision =
  fd_decision :: string
  fd_reason :: string
  fd_matched_policy :: "string option"
  fd_risk_level :: string
  fd_recommended_action :: string
  fd_confidence :: string
  fd_notes :: "string list"

definition finalize_decision ::
  "guard_decision \<Rightarrow> connectivity_validation \<Rightarrow> attribution_result \<Rightarrow> bool \<Rightarrow> final_decision" where
  "finalize_decision gd cv att parsed_is_localhost =
     (let (d, risk, action, why) =
            (if decision gd = Blocked
             then (''blocked_high_risk'', ''high'', if rollback_allowed gd then ''rollback_recommended'' else ''prompt_user'', gd_reason gd)
             else if regression_detected cv
             then (''allowed_but_connectivity_regressed'', ''medium'', ''restore_previous_proxy_or_prompt_user'',
                   gd_reason gd @ ''|'' @ regression_type cv)
             else if decision gd = Allowed then (''allowed_no_regression'', ''low'', ''none'', gd_reason gd)
             else (''insufficient_evidence'', ''low'', ''prompt_user'', gd_reason gd))
      in \<lparr>fd_decision = d, fd_reason = why, fd_matched_policy = gd_matched_rule gd, fd_risk_level = risk,
          fd_recommended_action = action,
          fd_confidence = (if mode att = Verified_eventlog then ''high'' else if process att \<noteq> None then ''medium'' else ''low''),
          fd_notes = limitations att @
            (if parsed_is_localhost then [''Listener attribution identifies process listening on localhost proxy port; it does not prove registry writer.''] else []) @
            (if mode att \<noteq> Verified_eventlog then [''No direct Sysmon/EventLog registry-write proof; candidate actor remains heuristic.''] else [])\<rparr>)"

definition listen_port_for_attribution :: "parsed_proxy \<Rightarrow> int option" where
  "listen_port_for_attribution p =
     (if localhost_port p \<noteq> None then localhost_port p
      else if http_localhost_port p \<noteq> None then http_localhost_port p
      else if https_localhost_port p \<noteq> None then https_localhost_port p
      else socks_port p)"

section \<open>Properties of the verdict\<close>

text \<open>What lets a change of the settings through, other than switching the proxy off.\<close>

definition trusted_process :: "attribution_result \<Rightarrow> guard_policy \<Rightarrow> bool" where
  "trusted_process att pol = (case process att of None \<Rightarrow> False | Some proc \<Rightarrow> exe_path_trusted (exe proc) (trusted_exe_paths pol))"

definition grounds_to_allow ::
  "parsed_proxy \<Rightarrow> attribution_result \<Rightarrow> guard_policy \<Rightarrow> bool option \<Rightarrow> path_assessment option \<Rightarrow> bool" where
  "grounds_to_allow p att pol port_listen path \<longleftrightarrow>
     (let listed = allowed (evaluate pol (attribution_to_owner_rows att));
          verified = (mode att = Verified_eventlog);
          state = map_option composite_state path
      in verified \<and> trusted_process att pol \<or>
         (if \<not> is_localhost_proxy p then listed
          else state \<noteq> Some LOOPBACK_BROKEN \<and>
               (state = Some LOOPBACK_OPERATIONAL \<or> port_listen = Some True \<or> trusted_process att pol \<or> verified \<or> listed)))"

lemma localhost_verdict_allowed:
  "localhost_verdict att pol l path = Some v \<Longrightarrow> decision v \<noteq> Observe \<and> rollback_allowed v = (decision v = Blocked) \<and> \<not> rollback_required v"
  by (auto simp: localhost_verdict_def Let_def split: if_splits)

lemma verdict_rollback:
  "rollback_allowed (evaluate_proxy_transition prior current p att pol l path) =
     (decision (evaluate_proxy_transition prior current p att pol l path) = Blocked)"
  "\<not> rollback_required (evaluate_proxy_transition prior current p att pol l path)"
  by (auto simp: evaluate_proxy_transition_def Let_def split: option.splits dest: localhost_verdict_allowed)

lemma localhost_verdict_decision:
  "map_option decision (localhost_verdict att pol l path) =
     (if map_option composite_state path = Some LOOPBACK_BROKEN then Some Blocked
      else if map_option composite_state path = Some LOOPBACK_OPERATIONAL \<or> l = Some True \<or> trusted_process att pol
              \<or> mode att = Verified_eventlog \<or> allowed (evaluate pol (attribution_to_owner_rows att)) then Some Allowed
      else if l = Some False then Some Blocked else None)"
  unfolding localhost_verdict_def trusted_process_def Let_def by simp

lemma transition_decision:
  "decision (evaluate_proxy_transition prior current p att pol l path) =
     (if hkcu_proxy_core_tuple prior = hkcu_proxy_core_tuple current then Observe
      else if disabling_transition_allowed prior current then Allowed
      else if pac_not_allowlisted prior current pol then Blocked
      else if mode att = Verified_eventlog \<and> trusted_process att pol then Allowed
      else case (if is_localhost_proxy p then map_option decision (localhost_verdict att pol l path) else None) of
             Some d \<Rightarrow> d
           | None \<Rightarrow>
               (if allowed (evaluate pol (attribution_to_owner_rows att)) then Allowed
                else if observe_only_when_unknown_attribution pol \<and> (mode att = Unknown_mode \<or> process att = None) then Observe
                else Blocked))"
  unfolding evaluate_proxy_transition_def trusted_process_def[symmetric] Let_def
  by (cases "localhost_verdict att pol l path"; cases "is_localhost_proxy p")
     (simp_all only: if_distrib[of decision] guard_decision.select_convs option.map option.case if_True if_False)

lemma verdict_shape:
  "(if vt then Allowed
    else case (if lo then (if broken then Some Blocked else if works \<or> up \<or> t \<or> v \<or> listed then Some Allowed
                           else if down then Some Blocked else None) else None) of
           Some d \<Rightarrow> d | None \<Rightarrow> (if listed then Allowed else if unknown then Observe else Blocked)) =
   (if vt \<or> (if \<not> lo then listed else \<not> broken \<and> (works \<or> up \<or> t \<or> v \<or> listed)) then Allowed
    else if unknown \<and> \<not> (lo \<and> (broken \<or> down)) then Observe else Blocked)"
  by (cases lo; cases broken; cases "works \<or> up \<or> t \<or> v \<or> listed"; cases down) auto

text \<open>
  (the verdict on a change). A rollback is offered exactly on a blocked verdict and is never required. A change that
  leaves the five HKCU values alone is only observed; a change that switches the proxy off is allowed; a new automatic
  configuration URL outside the allowlist is blocked whoever made it. Every other change is allowed exactly on the listed grounds
  (on the loopback a broken path overrides them all except a trusted verified writer), and otherwise blocked,
  unless the policy only observes changes whose writer is unknown.
\<close>

theorem transition_verdict:
  "let v = evaluate_proxy_transition prior current p att pol l path
   in rollback_allowed v = (decision v = Blocked) \<and> \<not> rollback_required v \<and>
    decision v =
      (if hkcu_proxy_core_tuple prior = hkcu_proxy_core_tuple current then Observe
       else if disabling_transition_allowed prior current then Allowed
       else if pac_not_allowlisted prior current pol then Blocked
       else if grounds_to_allow p att pol l path then Allowed
       else if observe_only_when_unknown_attribution pol \<and> (mode att = Unknown_mode \<or> process att = None)
               \<and> \<not> (is_localhost_proxy p \<and> (map_option composite_state path = Some LOOPBACK_BROKEN \<or> l = Some False)) then Observe
       else Blocked)"
  unfolding Let_def transition_decision localhost_verdict_decision grounds_to_allow_def verdict_rollback(1) verdict_shape conj_assoc
  using verdict_rollback(2)[of prior current p att pol l path] by (intro conjI refl)

lemma assess_loopback_state:
  assumes "norm_str auto_url = []" and "is_localhost_proxy p"
  shows "composite_state (assess_proxy_path_operational curl True (Some 1) server auto_url p l) =
     (if l \<noteq> Some False \<and> (fst (run_https_contrast curl p (Some 1)) = Some True \<or>
            l = Some True \<and> fst (run_https_contrast curl p (Some 1)) = None)
      then LOOPBACK_OPERATIONAL else LOOPBACK_BROKEN)"
  using assms by (simp add: assess_proxy_path_operational_def classify_composite_state_def Let_def split_beta)

text \<open>
  (an enabled loopback proxy is judged by its path). When a change leaves a loopback proxy enabled without an automatic configuration
  URL, and is not a switch-off, the guard allows it exactly when the writer is verified and trusted, or no listener probe failed and the
  proxied fetch succeeded (or a listener is up and there was nothing to fetch through). The process allowlist plays no part.
\<close>

theorem loopback_judged_by_path:
  assumes "hkcu_proxy_core_tuple prior \<noteq> hkcu_proxy_core_tuple current" and "\<not> disabling_transition_allowed prior current"
    and "norm_str (auto_config_url current) = []" and "proxy_enable current = Some 1" and "is_localhost_proxy p"
    and "path = assess_proxy_path_operational curl True (proxy_enable current) (proxy_server current) (auto_config_url current) p l"
  shows "decision (evaluate_proxy_transition prior current p att pol l (Some path)) =
     (if mode att = Verified_eventlog \<and> trusted_process att pol \<or>
         l \<noteq> Some False \<and> (fst (run_https_contrast curl p (Some 1)) = Some True \<or>
                           l = Some True \<and> fst (run_https_contrast curl p (Some 1)) = None)
      then Allowed else Blocked)"
proof -
  have "\<not> pac_not_allowlisted prior current pol" using assms(3) by (simp add: pac_not_allowlisted_def)
  then show ?thesis
    unfolding transition_decision localhost_verdict_decision assms(6) using assms(1-5) by (simp add: assess_loopback_state)
qed

text \<open>A local debugging proxy nobody has listed, with a listener and a working path, is let through.\<close>

theorem loopback_judged_by_path_witness:
  "let p = parse_proxy_server (Some ''127.0.0.1:8888'');
       prior = \<lparr>proxy_enable = Some 0, proxy_server = None, proxy_override = None, auto_config_url = None, auto_detect = None,
         winhttp_proxy = [], winhttp_direct_access = True, winhttp_proxy_server_literal = None, git_http_proxy = None, git_https_proxy = None,
         npm_proxy = None, npm_https_proxy = None, user_http_proxy = None, user_https_proxy = None, user_all_proxy = None,
         user_no_proxy = None, captured_at = ''t''\<rparr>;
       current = prior\<lparr>proxy_enable := Some 1, proxy_server := Some ''127.0.0.1:8888''\<rparr>;
       path = assess_proxy_path_operational (\<lambda>_. (0, ''200'')) True (Some 1) (Some ''127.0.0.1:8888'') None p (Some True);
       att = \<lparr>mode = Unknown_mode, attribution_confidence = ''unknown'', process = None, attribution_evidence = [], limitations = []\<rparr>;
       pol = \<lparr>source_path = ''p.json'', allowed_process_name_substrings = [], allowed_process_names_exact = [],
         allow_when_attribution_empty = False, trusted_exe_paths = [], allowed_autoconfig_url_substrings = [],
         observe_only_when_unknown_attribution = False\<rparr>
   in \<not> allowed (evaluate pol (attribution_to_owner_rows att)) \<and>
      decision (evaluate_proxy_transition prior current p att pol (Some True) (Some path)) = Allowed"
proof -
  let ?p = "parse_proxy_server (Some ''127.0.0.1:8888'')"
  let ?prior = "\<lparr>proxy_enable = Some 0, proxy_server = None, proxy_override = None, auto_config_url = None, auto_detect = None,
         winhttp_proxy = [], winhttp_direct_access = True, winhttp_proxy_server_literal = None, git_http_proxy = None, git_https_proxy = None,
         npm_proxy = None, npm_https_proxy = None, user_http_proxy = None, user_https_proxy = None, user_all_proxy = None,
         user_no_proxy = None, captured_at = ''t''\<rparr>"
  let ?current = "?prior\<lparr>proxy_enable := Some 1, proxy_server := Some ''127.0.0.1:8888''\<rparr>"
  let ?pol = "\<lparr>source_path = ''p.json'', allowed_process_name_substrings = [], allowed_process_names_exact = [],
         allow_when_attribution_empty = False, trusted_exe_paths = [], allowed_autoconfig_url_substrings = [],
         observe_only_when_unknown_attribution = False\<rparr>"
  let ?att = "\<lparr>mode = Unknown_mode, attribution_confidence = ''unknown'', process = None, attribution_evidence = [], limitations = []\<rparr>"
  have "digit_char 8 = CHR ''8''" by code_simp
  then have "''127.0.0.1:8888'' = ''127.0.0.1'' @ CHR '':'' # nat_str 8888"
    by (simp add: nat_str.simps)
  then have p: "parsed_mode ?p = Manual_localhost" "https_localhost_port ?p = None" "http_localhost_port ?p = None"
    "localhost_port ?p = Some 8888" and lo: "is_localhost_proxy ?p"
    using parse_loopback[of 8888] by simp_all
  from p have "fst (curl_proxy_url ?p) = Some (''http://127.0.0.1:'' @ int_str 8888)" using lo by (simp add: curl_proxy_url_def int_or_def)
  moreover have "interpret_curl_https_ok 0 ''200''" by code_simp
  ultimately have px: "fst (run_https_contrast (\<lambda>_. (0, ''200'')) ?p (Some 1)) = Some True"
    using lo by (simp add: run_https_contrast_def)
  have h: "hkcu_proxy_core_tuple ?prior \<noteq> hkcu_proxy_core_tuple ?current" "\<not> disabling_transition_allowed ?prior ?current"
    "norm_str (auto_config_url ?current) = []" "proxy_enable ?current = Some 1"
    by (simp_all add: hkcu_proxy_core_tuple_def disabling_transition_allowed_def norm_str_def py_strip_def strip_by_def)
  have "decision (evaluate_proxy_transition ?prior ?current ?p ?att ?pol (Some True)
      (Some (assess_proxy_path_operational (\<lambda>_. (0, ''200'')) True (proxy_enable ?current) (proxy_server ?current) (auto_config_url ?current) ?p (Some True)))) = Allowed"
    unfolding loopback_judged_by_path[OF h lo refl] px by simp
  moreover have "\<not> allowed (evaluate ?pol (attribution_to_owner_rows ?att))" by (simp add: evaluate_def attribution_to_owner_rows_def)
  ultimately show ?thesis unfolding Let_def by simp
qed

end
