(* ===== verification/Guard_Restore.thy ===== *)
theory Guard_Restore
  imports Guard_Transition
begin

text \<open>
  What the guard service does to the machine: the runner of external commands (\<open>src/repair/executor.py\<close>), the restore of
  a proxy snapshot (\<open>src/proxy_guard/rollback.py\<close>), its verification (\<open>diff.py\<close>, \<open>verification.py\<close>), the catalogue of remediation actions
  (\<open>remediation.py\<close>), the rollback plan (\<open>audit.py\<close>) and one turn of the polling loop (\<open>guard.py\<close>).

  The machine is a parameter: \<open>run\<close> executes an argument vector on a world, with the process outcome or the text of the
  exception that \<open>subprocess.run\<close> raised. \<open>read_reg\<close> is the registry probe and \<open>capture_probes\<close> holds the other readings of a snapshot. Logging and printing are left out.
\<close>

section \<open>External commands\<close>

type_synonym argv = "string list"

datatype run_outcome = Raised string | Finished int string string

type_synonym 'w runner = "argv \<Rightarrow> 'w \<Rightarrow> run_outcome \<times> 'w"

record command_row =
  row_argv :: argv
  returncode :: int
  stdout :: string
  stderr :: string

definition run_external_argv :: "string \<Rightarrow> 'w runner \<Rightarrow> bool \<Rightarrow> argv \<Rightarrow> 'w \<Rightarrow> command_row \<times> 'w" where
  "run_external_argv dry_text run dry_run a w =
     (if dry_run then (\<lparr>row_argv = a, returncode = 0, stdout = dry_text, stderr = []\<rparr>, w)
      else case run a w of
             (Raised e, w') \<Rightarrow> (\<lparr>row_argv = a, returncode = -1, stdout = [], stderr = e\<rparr>, w')
           | (Finished rc out err, w') \<Rightarrow> (\<lparr>row_argv = a, returncode = rc, stdout = out, stderr = err\<rparr>, w'))"

fun apply_reg_argv_sequences :: "'w runner \<Rightarrow> bool \<Rightarrow> argv list \<Rightarrow> 'w \<Rightarrow> command_row list \<times> 'w" where
  "apply_reg_argv_sequences run dry_run [] w = ([], w)"
| "apply_reg_argv_sequences run dry_run (a # rest) w =
     (let (row, w1) = run_external_argv ''[dry-run] not executed'' run dry_run a w;
          (rows, w2) = apply_reg_argv_sequences run dry_run rest w1
      in (row # rows, w2))"

definition run_netsh_winhttp_set_proxy :: "'w runner \<Rightarrow> bool \<Rightarrow> string \<Rightarrow> 'w \<Rightarrow> command_row \<times> 'w" where
  "run_netsh_winhttp_set_proxy run dry_run literal w =
     run_external_argv ''[dry-run] netsh winhttp set proxy not executed'' run dry_run
       [''netsh'', ''winhttp'', ''set'', ''proxy'', ''proxy-server='' @ py_strip literal] w"

definition run_netsh_winhttp_reset_proxy :: "'w runner \<Rightarrow> bool \<Rightarrow> 'w \<Rightarrow> command_row \<times> 'w" where
  "run_netsh_winhttp_reset_proxy run dry_run w =
     run_external_argv ''[dry-run] netsh not executed'' run dry_run [''netsh'', ''winhttp'', ''reset'', ''proxy''] w"

section \<open>Restoring a snapshot\<close>

definition internet_settings_key :: string where
  "internet_settings_key =
     join_with [backslash] [''HKCU'', ''Software'', ''Microsoft'', ''Windows'', ''CurrentVersion'', ''Internet Settings'']"

definition reg_add :: "string \<Rightarrow> string \<Rightarrow> string \<Rightarrow> argv" where
  "reg_add name ty v = [''reg'', ''add'', internet_settings_key, ''/v'', name, ''/t'', ty, ''/d'', v, ''/f'']"

definition reg_delete :: "string \<Rightarrow> argv" where
  "reg_delete name = [''reg'', ''delete'', internet_settings_key, ''/v'', name, ''/f'']"

definition sz_or_delete :: "string option \<Rightarrow> string \<Rightarrow> argv" where
  "sz_or_delete v name = (if norm_str v = [] then reg_delete name else reg_add name ''REG_SZ'' (norm_str v))"

definition build_wininet_restore_argv_list :: "proxy_snapshot \<Rightarrow> argv list" where
  "build_wininet_restore_argv_list lkg =
     [sz_or_delete (proxy_server lkg) ''ProxyServer'', sz_or_delete (auto_config_url lkg) ''AutoConfigURL'',
      sz_or_delete (proxy_override lkg) ''ProxyOverride''] @
     (case proxy_enable lkg of None \<Rightarrow> [] | Some n \<Rightarrow> [reg_add ''ProxyEnable'' ''REG_DWORD'' (int_str n)])"

record restore_result =
  rollback_kind :: string
  skipped :: bool
  skip_reason :: "string option"
  success :: "bool option"
  wininet_reg :: "command_row list"
  winhttp_restore :: "command_row option"
  git_audits :: "command_row list"
  npm_audits :: "command_row list"
  user_env_audits :: "command_row list"

definition skipped_result :: "string \<Rightarrow> string \<Rightarrow> bool option \<Rightarrow> restore_result" where
  "skipped_result kind why ok =
     \<lparr>rollback_kind = kind, skipped = True, skip_reason = Some why, success = ok, wininet_reg = [], winhttp_restore = None,
      git_audits = [], npm_audits = [], user_env_audits = []\<rparr>"

definition restore_winhttp_row :: "'w runner \<Rightarrow> bool \<Rightarrow> bool \<Rightarrow> proxy_snapshot \<Rightarrow> 'w \<Rightarrow> command_row option \<times> 'w" where
  "restore_winhttp_row run dry_run restore_winhttp s w =
     (if \<not> restore_winhttp then (None, w)
      else if winhttp_direct_access s then (let (row, w') = run_netsh_winhttp_reset_proxy run dry_run w in (Some row, w'))
      else case winhttp_proxy_server_literal s of
             Some (c # lit) \<Rightarrow> (let (row, w') = run_netsh_winhttp_set_proxy run dry_run (c # lit) w in (Some row, w'))
           | _ \<Rightarrow> (None, w))"

definition row_fine :: "command_row option \<Rightarrow> bool" where
  "row_fine r = (case r of None \<Rightarrow> True | Some row \<Rightarrow> returncode row = 0)"

definition execute_lkg_snapshot_rollback ::
  "'w runner \<Rightarrow> proxy_snapshot option \<Rightarrow> bool \<Rightarrow> bool \<Rightarrow> bool \<Rightarrow> 'w \<Rightarrow> restore_result \<times> 'w" where
  "execute_lkg_snapshot_rollback run lkg dry_run restore_winhttp restore_git_npm_env w =
     (if restore_git_npm_env
      then (skipped_result ''lkg_denied_git_env_not_implemented_in_tooling'' ''restore_git_npm_env_requires_separate_confirmation'' None, w)
      else case lkg of
             None \<Rightarrow> (skipped_result ''lkg_restore'' ''skipped_no_lkg'' None, w)
           | Some s \<Rightarrow>
               (let (reg_rows, w1) = apply_reg_argv_sequences run dry_run (build_wininet_restore_argv_list s) w;
                    (winhttp_row, w2) = restore_winhttp_row run dry_run restore_winhttp s w1
                in (\<lparr>rollback_kind = ''lkg_restore'', skipped = False, skip_reason = None,
                     success = Some (list_all (\<lambda>r. returncode r = 0) reg_rows \<and> row_fine winhttp_row),
                     wininet_reg = reg_rows, winhttp_restore = winhttp_row, git_audits = [], npm_audits = [], user_env_audits = []\<rparr>, w2)))"

subsection \<open>The known-good restore\<close>

definition hkcu_environment_key :: string where
  "hkcu_environment_key = ''HKCU'' @ [backslash] @ ''Environment''"

definition git_restore_argv :: "string \<Rightarrow> string option \<Rightarrow> argv" where
  "git_restore_argv full_key v =
     (if norm_str v = [] then [''git'', ''config'', ''--global'', ''--unset-all'', full_key]
      else [''git'', ''config'', ''--global'', full_key, norm_str v])"

definition git_row_ok :: "command_row \<Rightarrow> bool" where
  "git_row_ok row =
     (if ''unset-all'' \<in> set (map py_lower (row_argv row)) \<and> returncode row \<in> {0, 5} then True else returncode row = 0)"

definition npm_restore_argv :: "string \<Rightarrow> string option \<Rightarrow> argv" where
  "npm_restore_argv key v =
     (if norm_str v = [] \<or> py_lower (norm_str v) \<in> {''null'', ''undefined''}
      then [''npm'', ''config'', ''delete'', key, ''--global'']
      else [''npm'', ''config'', ''set'', key, norm_str v, ''--global''])"

definition hkcu_env_restore_argv :: "string \<Rightarrow> string option \<Rightarrow> argv" where
  "hkcu_env_restore_argv name v =
     (if norm_str v = [] then [''reg'', ''delete'', hkcu_environment_key, ''/v'', name, ''/f'']
      else [''reg'', ''add'', hkcu_environment_key, ''/v'', name, ''/t'', ''REG_SZ'', ''/d'', norm_str v, ''/f''])"

definition env_reg_row_ok :: "command_row \<Rightarrow> bool" where
  "env_reg_row_ok row = (if ''delete'' \<in> set (row_argv row) then returncode row \<in> {0, 1} else returncode row = 0)"

definition execute_known_good_proxy_restore ::
  "'w runner \<Rightarrow> proxy_snapshot option \<Rightarrow> bool \<Rightarrow> bool \<Rightarrow> 'w \<Rightarrow> restore_result \<times> 'w" where
  "execute_known_good_proxy_restore run target dry_run restore_winhttp w =
     (case target of
        None \<Rightarrow> (skipped_result ''known_good_restore'' ''skipped_no_target_snapshot'' (Some False), w)
      | Some s \<Rightarrow>
          (let (reg_rows, w1) = apply_reg_argv_sequences run dry_run (build_wininet_restore_argv_list s) w;
               (winhttp_row, w2) = restore_winhttp_row run dry_run restore_winhttp s w1;
               (gits, w3) = apply_reg_argv_sequences run dry_run
                  [git_restore_argv ''http.proxy'' (git_http_proxy s), git_restore_argv ''https.proxy'' (git_https_proxy s)] w2;
               (npms, w4) = apply_reg_argv_sequences run dry_run
                  [npm_restore_argv ''proxy'' (npm_proxy s), npm_restore_argv ''https-proxy'' (npm_https_proxy s)] w3;
               (envs, w5) = apply_reg_argv_sequences run dry_run
                  [hkcu_env_restore_argv ''HTTP_PROXY'' (user_http_proxy s), hkcu_env_restore_argv ''HTTPS_PROXY'' (user_https_proxy s),
                   hkcu_env_restore_argv ''ALL_PROXY'' (user_all_proxy s), hkcu_env_restore_argv ''NO_PROXY'' (user_no_proxy s)] w4
           in (\<lparr>rollback_kind = ''known_good_restore'', skipped = False, skip_reason = None,
                success = Some (list_all (\<lambda>r. returncode r = 0) reg_rows \<and> row_fine winhttp_row \<and> list_all git_row_ok gits
                  \<and> list_all (\<lambda>r. returncode r = 0) npms \<and> list_all env_reg_row_ok envs),
                wininet_reg = reg_rows, winhttp_restore = winhttp_row, git_audits = gits, npm_audits = npms, user_env_audits = envs\<rparr>, w5)))"

section \<open>Capturing a snapshot\<close>

record registry_snapshot =
  rs_proxy_enable :: "int option"
  rs_proxy_server :: "string option"
  rs_auto_config_url :: "string option"
  rs_auto_detect :: "int option"
  rs_proxy_override :: "string option"

text \<open>\<open>str.splitlines\<close> on ASCII text: a carriage return followed by a line feed is one break.\<close>

definition is_line_break :: "char \<Rightarrow> bool" where
  "is_line_break c = (char_code c \<in> {10, 11, 12, 13, 28, 29, 30})"

fun py_splitlines :: "string \<Rightarrow> string \<Rightarrow> string list" where
  "py_splitlines acc [] = (if acc = [] then [] else [rev acc])"
| "py_splitlines acc (c # cs) =
     (if \<not> is_line_break c then py_splitlines (c # acc) cs
      else if char_code c = 13 \<and> cs \<noteq> [] \<and> char_code (hd cs) = 10 then rev acc # py_splitlines [] (tl cs)
      else rev acc # py_splitlines [] cs)"

fun winhttp_proxy_line :: "string list \<Rightarrow> string option" where
  "winhttp_proxy_line [] = None"
| "winhttp_proxy_line (line # rest) =
     (let ls = py_strip line; ll = py_lower ls;
          sep = (if CHR '':'' \<in> set ls then CHR '':'' else CHR ''='')
      in if \<not> py_in ''proxy server(s)'' ll \<and> \<not> py_in ''proxy-server'' ll then winhttp_proxy_line rest
         else case after_char sep ls of
                None \<Rightarrow> winhttp_proxy_line rest
              | Some r \<Rightarrow>
                  (let rhs = py_strip r
                   in if rhs = [] \<or> py_lower rhs \<in> {''not set'', ''(none)'', ''none''} then winhttp_proxy_line rest else Some rhs))"

definition parse_netsh_winhttp_show :: "string \<Rightarrow> bool \<times> string option" where
  "parse_netsh_winhttp_show text =
     (let lowered = py_lower text
      in if py_in ''direct access (no proxy server)'' lowered then (True, None)
         else case winhttp_proxy_line (py_splitlines [] text) of
                Some rhs \<Rightarrow> (False, Some rhs)
              | None \<Rightarrow> (if py_in ''direct access'' lowered then (True, None) else (False, None)))"

text \<open>The outside readings of a capture: the \<open>netsh\<close> text, command outputs, user environment values, and the time.\<close>

record 'w capture_probes =
  winhttp_text :: "'w \<Rightarrow> string"
  run_text :: "argv \<Rightarrow> 'w \<Rightarrow> string option"
  user_env :: "string \<Rightarrow> 'w \<Rightarrow> string option"
  now_iso :: "'w \<Rightarrow> string"

definition env_or :: "string option \<Rightarrow> string option \<Rightarrow> string option" where
  "env_or a b = (case a of Some (c # s) \<Rightarrow> Some (c # s) | _ \<Rightarrow> b)"

definition npm_value :: "string option \<Rightarrow> string option" where
  "npm_value v = (if v \<in> {None, Some ''null'', Some ''undefined''} then None else v)"

definition capture_proxy_snapshot :: "'w capture_probes \<Rightarrow> 'w \<Rightarrow> registry_snapshot \<Rightarrow> proxy_snapshot" where
  "capture_proxy_snapshot pr w reg =
     (let (direct, srv) = parse_netsh_winhttp_show (winhttp_text pr w);
          env = (\<lambda>u l. env_or (user_env pr u w) (user_env pr l w))
      in \<lparr>proxy_enable = rs_proxy_enable reg, proxy_server = rs_proxy_server reg, proxy_override = rs_proxy_override reg,
          auto_config_url = rs_auto_config_url reg, auto_detect = rs_auto_detect reg, winhttp_proxy = winhttp_text pr w,
          winhttp_direct_access = direct, winhttp_proxy_server_literal = srv,
          git_http_proxy = run_text pr [''git'', ''config'', ''--global'', ''--get'', ''http.proxy''] w,
          git_https_proxy = run_text pr [''git'', ''config'', ''--global'', ''--get'', ''https.proxy''] w,
          npm_proxy = npm_value (run_text pr [''npm'', ''config'', ''get'', ''proxy''] w),
          npm_https_proxy = npm_value (run_text pr [''npm'', ''config'', ''get'', ''https-proxy''] w),
          user_http_proxy = env ''HTTP_PROXY'' ''http_proxy'', user_https_proxy = env ''HTTPS_PROXY'' ''https_proxy'',
          user_all_proxy = env ''ALL_PROXY'' ''all_proxy'', user_no_proxy = env ''NO_PROXY'' ''no_proxy'', captured_at = now_iso pr w\<rparr>)"

lemma capture_core [simp]:
  "proxy_enable (capture_proxy_snapshot pr w reg) = rs_proxy_enable reg"
  "proxy_server (capture_proxy_snapshot pr w reg) = rs_proxy_server reg"
  "proxy_override (capture_proxy_snapshot pr w reg) = rs_proxy_override reg"
  "auto_config_url (capture_proxy_snapshot pr w reg) = rs_auto_config_url reg"
  "auto_detect (capture_proxy_snapshot pr w reg) = rs_auto_detect reg"
  by (simp_all add: capture_proxy_snapshot_def Let_def split_beta)

section \<open>Verification after a restore\<close>

definition hkcu_tuple_from_registry :: "registry_snapshot \<Rightarrow> int option \<times> string option \<times> string option \<times> int option" where
  "hkcu_tuple_from_registry r = (rs_proxy_enable r, rs_proxy_server r, rs_auto_config_url r, rs_auto_detect r)"

definition hkcu_tuple_expected_from_snapshot :: "proxy_snapshot \<Rightarrow> int option \<times> string option \<times> string option \<times> int option" where
  "hkcu_tuple_expected_from_snapshot s = (proxy_enable s, proxy_server s, auto_config_url s, auto_detect s)"

definition verify_hkcu_core_matches_prior :: "registry_snapshot \<Rightarrow> proxy_snapshot \<Rightarrow> bool" where
  "verify_hkcu_core_matches_prior observed target =
     (hkcu_tuple_from_registry observed = hkcu_tuple_expected_from_snapshot target)"

fun index_of :: "string \<Rightarrow> string list \<Rightarrow> nat option" where
  "index_of x [] = None"
| "index_of x (y # ys) = (if y = x then Some 0 else map_option Suc (index_of x ys))"

definition restored_name :: "argv \<Rightarrow> string option" where
  "restored_name a =
     (case (case index_of ''-v'' a of Some i \<Rightarrow> Some i | None \<Rightarrow> index_of ''/v'' a) of
        None \<Rightarrow> None
      | Some i \<Rightarrow> (if i + 1 < length a then Some (a ! (i + 1)) else None))"

definition wininet_argv_restored_fields :: "command_row list \<Rightarrow> string list" where
  "wininet_argv_restored_fields rows = dict_fromkeys (List.map_filter (\<lambda>r. restored_name (row_argv r)) rows)"

record disable_verification =
  dv_ok :: bool
  proxy_enable_observed :: "int option"
  dv_detail :: string
  expected_proxy_enable :: int

definition verify_proxy_disabled :: "registry_snapshot \<Rightarrow> int \<Rightarrow> disable_verification" where
  "verify_proxy_disabled s expected =
     (case rs_proxy_enable s of
        None \<Rightarrow> \<lparr>dv_ok = False, proxy_enable_observed = None,
          dv_detail = ''ProxyEnable could not be read after mutation (reg query failed).'', expected_proxy_enable = expected\<rparr>
      | Some obs \<Rightarrow>
          (if obs \<noteq> expected then \<lparr>dv_ok = False, proxy_enable_observed = Some obs,
             dv_detail = ''ProxyEnable remained '' @ int_str obs @ ''; expected '' @ int_str expected @ ''.'', expected_proxy_enable = expected\<rparr>
           else \<lparr>dv_ok = True, proxy_enable_observed = Some obs,
             dv_detail = ''ProxyEnable matches expected disabled value.'', expected_proxy_enable = expected\<rparr>))"

section \<open>The catalogue of remediation actions\<close>

record remediation_action =
  action_id :: string
  description :: string
  risk_level :: string
  required_confirmation :: string
  allowed_registry_fields :: "string list"
  reversible :: bool
  blocked_reason :: string

definition blocked_action :: "string \<Rightarrow> string \<Rightarrow> string \<Rightarrow> remediation_action" where
  "blocked_action i d why =
     \<lparr>action_id = i, description = d, risk_level = ''blocked'', required_confirmation = [], allowed_registry_fields = [],
      reversible = False, blocked_reason = why\<rparr>"

definition remediation_action_catalog :: "remediation_action list" where
  "remediation_action_catalog =
    [\<lparr>action_id = ''disable_wininet_proxy'',
      description = ''Disable the current user's WinINET proxy by setting HKCU ProxyEnable to 0.'', risk_level = ''medium'',
      required_confirmation = ''DISABLE_WININET_PROXY'',
      allowed_registry_fields = [''ProxyEnable'', ''ProxyServer'', ''AutoConfigURL''], reversible = True, blocked_reason = []\<rparr>,
     \<lparr>action_id = ''restore_wininet_proxy_from_lkg'',
      description = ''Restore targeted HKCU WinINET proxy fields from a last-known-good snapshot.'', risk_level = ''medium'',
      required_confirmation = ''RESTORE_WININET_PROXY_FROM_LKG'',
      allowed_registry_fields = [''ProxyEnable'', ''ProxyServer'', ''AutoConfigURL'', ''ProxyOverride'', ''AutoDetect''],
      reversible = True, blocked_reason = []\<rparr>,
     \<lparr>action_id = ''stop_proxy_listener'',
      description = ''Terminate the process tree listening on the attributed localhost WinINET proxy port (operator-confirmed; Administrator required).'',
      risk_level = ''high'', required_confirmation = ''STOP_PROXY_LISTENER'', allowed_registry_fields = [], reversible = False, blocked_reason = []\<rparr>,
     \<lparr>action_id = ''stop_proxy_reverter'',
      description = ''Terminate the attributed parent powershell.exe process tree that respawns the localhost proxy listener (operator-confirmed; Administrator required; manual only).'',
      risk_level = ''high'', required_confirmation = ''STOP_PROXY_REVERTER'', allowed_registry_fields = [], reversible = False, blocked_reason = []\<rparr>,
     blocked_action ''reset_firewall'' ''Firewall reset is not allowed from proxy remediation.'' ''firewall reset is blocked from automatic remediation'',
     blocked_action ''disable_adapter'' ''Adapter disable is not allowed from proxy remediation.'' ''adapter disable is blocked from automatic remediation'',
     blocked_action ''kill_process'' ''Process kill is not allowed from proxy remediation.'' ''process kill is blocked from automatic remediation'',
     blocked_action ''delete_certificate'' ''Certificate deletion is not allowed from proxy remediation.'' ''certificate deletion is blocked from automatic remediation'',
     blocked_action ''broad_registry_cleanup'' ''Broad registry cleanup is not allowed from proxy remediation.'' ''broad registry cleanup is blocked from automatic remediation'']"

definition get_remediation_action :: "string \<Rightarrow> remediation_action option" where
  "get_remediation_action i = find (\<lambda>a. action_id a = i) remediation_action_catalog"

datatype remediation_verdict = ALLOW | PREVIEW | BLOCK

text \<open>\<open>sorted(set(fields) - set(allowed))\<close> on strings.\<close>

fun str_le :: "string \<Rightarrow> string \<Rightarrow> bool" where
  "str_le [] ys = True"
| "str_le (x # xs) [] = False"
| "str_le (x # xs) (y # ys) = (char_code x < char_code y \<or> x = y \<and> str_le xs ys)"

fun insert_str :: "string \<Rightarrow> string list \<Rightarrow> string list" where
  "insert_str x [] = [x]"
| "insert_str x (y # ys) = (if x = y then y # ys else if str_le x y then x # y # ys else y # insert_str x ys)"

definition sorted_set :: "string list \<Rightarrow> string list" where
  "sorted_set xs = foldr insert_str xs []"

definition validate_action_confirmation ::
  "string \<Rightarrow> bool \<Rightarrow> string \<Rightarrow> string list \<Rightarrow> remediation_verdict \<times> string \<times> remediation_action option" where
  "validate_action_confirmation i dry_run confirmation requested =
     (case get_remediation_action i of
        None \<Rightarrow> (BLOCK, ''unknown_action'', None)
      | Some a \<Rightarrow>
          (if blocked_reason a \<noteq> [] then (BLOCK, blocked_reason a, Some a)
           else let not_allowed = sorted_set (filter (\<lambda>f. f \<notin> set (allowed_registry_fields a)) requested)
                in if not_allowed \<noteq> [] then (BLOCK, ''registry_fields_not_allowlisted:'' @ join_with '','' not_allowed, Some a)
                   else if dry_run then (PREVIEW, ''dry_run_preview_only'', Some a)
                   else if py_strip confirmation = [] then (BLOCK, ''missing_confirmation'', Some a)
                   else if py_strip confirmation \<noteq> required_confirmation a then (BLOCK, ''confirmation_mismatch'', Some a)
                   else (ALLOW, ''confirmed_allowlisted_action'', Some a)))"

record disable_mutation =
  m_argv :: argv
  human :: string

definition quoted_key :: string where
  "quoted_key = [CHR 0x22] @ internet_settings_key @ [CHR 0x22]"

definition build_user_proxy_disable_mutations :: "bool \<Rightarrow> bool \<Rightarrow> disable_mutation list \<times> string list" where
  "build_user_proxy_disable_mutations clear_proxy_server_value clear_autoconfig_url =
     (let ms =
        [\<lparr>m_argv = reg_add ''ProxyEnable'' ''REG_DWORD'' ''0'',
          human = ''reg add '' @ quoted_key @ '' /v ProxyEnable /t REG_DWORD /d 0 /f''\<rparr>] @
        (if clear_proxy_server_value
         then [\<lparr>m_argv = reg_delete ''ProxyServer'', human = ''reg delete '' @ quoted_key @ '' /v ProxyServer /f''\<rparr>] else []) @
        (if clear_autoconfig_url
         then [\<lparr>m_argv = reg_delete ''AutoConfigURL'', human = ''reg delete '' @ quoted_key @ '' /v AutoConfigURL /f''\<rparr>] else [])
      in (ms, map human ms @
            [''This modifies only HKCU WinINET proxy values; WinHTTP is unchanged.'',
             ''Software that reapplies proxy policy may restore these keys after logout or schedule.'']))"

definition apply_mutations :: "'w runner \<Rightarrow> bool \<Rightarrow> disable_mutation list \<Rightarrow> 'w \<Rightarrow> command_row list \<times> 'w" where
  "apply_mutations run dry_run ms w = apply_reg_argv_sequences run dry_run (map m_argv ms) w"

definition wininet_user_proxy_already_cleared :: "registry_snapshot \<Rightarrow> bool" where
  "wininet_user_proxy_already_cleared r = (rs_proxy_enable r = Some 0 \<and> norm_str (rs_proxy_server r) = [])"

definition execute_low_risk_proxy_rollback ::
  "'w runner \<Rightarrow> bool \<Rightarrow> bool \<Rightarrow> bool \<Rightarrow> registry_snapshot option \<Rightarrow> bool \<Rightarrow> 'w \<Rightarrow> (command_row list \<times> command_row option \<times> bool) \<times> 'w" where
  "execute_low_risk_proxy_rollback run dry_run clear_proxy_server_value reset_winhttp current_reg skip_if_cleared w =
     (let cleared = (skip_if_cleared \<and> (case current_reg of None \<Rightarrow> False | Some r \<Rightarrow> wininet_user_proxy_already_cleared r));
          (rows, w1) = (if cleared then ([], w)
                        else apply_mutations run dry_run (fst (build_user_proxy_disable_mutations clear_proxy_server_value True)) w);
          (winhttp, w2) = (if reset_winhttp then (let (row, w') = run_netsh_winhttp_reset_proxy run dry_run w1 in (Some row, w')) else (None, w1))
      in ((rows, winhttp, cleared), w2))"

section \<open>One turn of the polling loop\<close>

record rollback_plan =
  dry_run_requested :: bool
  restore_wininet :: bool
  restore_winhttp :: bool
  would_restore_git_or_env :: bool

definition build_rollback_plan :: "guard_decision_kind \<Rightarrow> bool \<Rightarrow> bool \<Rightarrow> bool \<Rightarrow> bool \<Rightarrow> bool \<Rightarrow> bool \<Rightarrow> rollback_plan" where
  "build_rollback_plan d rb_allowed lkg_present auto_rollback_enabled live_rollback_enabled explicit_winhttp_data restore_git_npm =
     (let wants = (d = Blocked \<and> rb_allowed \<and> auto_rollback_enabled \<and> lkg_present)
      in \<lparr>dry_run_requested = \<not> live_rollback_enabled, restore_wininet = wants,
          restore_winhttp = (wants \<and> explicit_winhttp_data), would_restore_git_or_env = restore_git_npm\<rparr>)"

definition winhttp_explicit :: "proxy_snapshot option \<Rightarrow> bool" where
  "winhttp_explicit lkg =
     (case lkg of
        None \<Rightarrow> False
      | Some s \<Rightarrow> (if norm_str (winhttp_proxy_server_literal s) \<noteq> [] then True
                  else if winhttp_direct_access s then True else py_strip (winhttp_proxy s) \<noteq> []))"

record guard_config =
  cfg_policy :: guard_policy
  auto_rollback :: bool
  cli_rollback :: bool
  dry_run_rollback :: bool
  rollback_confirm_phrase :: string
  restore_git_npm_env :: bool
  known_good_snapshot :: "proxy_snapshot option"
  trust_current_lkg :: bool

definition effective_rollback :: "guard_config \<Rightarrow> bool" where
  "effective_rollback cfg = (auto_rollback cfg \<or> cli_rollback cfg)"

definition live_rollback_gate :: "guard_config \<Rightarrow> bool" where
  "live_rollback_gate cfg =
     (let confirm_required = (cli_rollback cfg \<and> \<not> auto_rollback cfg);
          phrase_ok = (py_strip (rollback_confirm_phrase cfg) = ''RESTORE_PROXY'')
      in effective_rollback cfg \<and> \<not> dry_run_rollback cfg \<and> (\<not> confirm_required \<or> phrase_ok))"

record rollback_outcome =
  rb_action :: string
  suppressed_reason :: "string option"
  rb_exec :: "restore_result option"
  restored_field_names :: "string list"
  pipeline_rb_action :: string
  rollback_verification :: string
  rb_error :: "string option"

definition idle_outcome :: "string \<Rightarrow> rollback_outcome" where
  "idle_outcome pipeline_action =
     \<lparr>rb_action = ''none'', suppressed_reason = None, rb_exec = None, restored_field_names = [],
      pipeline_rb_action = pipeline_action, rollback_verification = ''not_run'', rb_error = None\<rparr>"

text \<open>
  A restore the limiter has agreed to: the outcome, the limiter (a live restore is recorded at the second clock
  reading), the registry read afterwards, and the world.
\<close>

definition run_restore :: "'w runner \<Rightarrow> guard_config \<Rightarrow> proxy_snapshot \<Rightarrow> rollback_plan \<Rightarrow> 'w \<Rightarrow> restore_result \<times> 'w" where
  "run_restore run cfg prev plan w =
     (case known_good_snapshot cfg of
        Some s \<Rightarrow> execute_known_good_proxy_restore run (Some s) (\<not> live_rollback_gate cfg) (restore_winhttp plan) w
      | None \<Rightarrow> execute_lkg_snapshot_rollback run (Some prev) (\<not> live_rollback_gate cfg) (restore_winhttp plan) (restore_git_npm_env cfg) w)"

definition restore_verdict :: "bool \<Rightarrow> restore_result \<Rightarrow> registry_snapshot \<Rightarrow> proxy_snapshot \<Rightarrow> string \<times> string \<times> string option" where
  "restore_verdict live res snap_after target =
     (if skipped res then (''rollback_skipped'', ''not_run'', None)
      else if \<not> live then (''rollback_preview'', ''not_run'', None)
      else if success res = Some False then (''rollback_failed'', ''failed'', Some ''registry_or_netsh_nonzero'')
      else if verify_hkcu_core_matches_prior snap_after target then (''rollback_applied'', ''passed'', None)
      else (''rollback_failed'', ''failed'', Some ''post_rollback_registry_mismatch''))"

definition attempt_restore ::
  "'w runner \<Rightarrow> ('w \<Rightarrow> registry_snapshot) \<Rightarrow> guard_config \<Rightarrow> proxy_snapshot \<Rightarrow> rollback_plan \<Rightarrow> rat
   \<Rightarrow> limiter \<Rightarrow> 'w \<Rightarrow> rollback_outcome \<times> limiter \<times> registry_snapshot option \<times> 'w" where
  "attempt_restore run read_reg cfg prev plan recorded lm w =
     (let (res, w1) = run_restore run cfg prev plan w;
          live = live_rollback_gate cfg;
          snap_after = read_reg w1;
          target = (case known_good_snapshot cfg of Some s \<Rightarrow> s | None \<Rightarrow> prev);
          (act, verif, err) = restore_verdict live res snap_after target
      in (\<lparr>rb_action = ''rollback'', suppressed_reason = None, rb_exec = Some res,
           restored_field_names = wininet_argv_restored_fields (wininet_reg res),
           pipeline_rb_action = act, rollback_verification = verif, rb_error = err\<rparr>,
          if live \<and> \<not> skipped res then record_rollback recorded lm else lm, Some snap_after, w1))"

text \<open>The rollback decision on one detected change; \<open>clocks\<close> are the two readings of the clock.\<close>

definition rollback_step ::
  "'w runner \<Rightarrow> ('w \<Rightarrow> registry_snapshot) \<Rightarrow> guard_config \<Rightarrow> guard_decision \<Rightarrow> proxy_snapshot \<Rightarrow> rollback_plan \<Rightarrow> rat \<times> rat
   \<Rightarrow> limiter \<Rightarrow> 'w \<Rightarrow> rollback_outcome \<times> limiter \<times> registry_snapshot option \<times> 'w" where
  "rollback_step run read_reg cfg gd prev plan clocks lm w =
     (if decision gd = Blocked \<and> rollback_allowed gd \<and> effective_rollback cfg then
        (let ((ok, why), lm1) = limiter_evaluate (fst clocks) lm
         in if \<not> ok
            then ((idle_outcome ''rollback_skipped'')\<lparr>rb_action := ''suppressed'', suppressed_reason := Some why, rb_error := Some why\<rparr>,
                  lm1, None, w)
            else attempt_restore run read_reg cfg prev plan (snd clocks) lm1 w)
      else (idle_outcome (if decision gd = Blocked \<and> rollback_allowed gd \<and> \<not> effective_rollback cfg
                          then ''rollback_preview'' else ''rollback_skipped''), lm, None, w))"

definition rollback_status :: "guard_config \<Rightarrow> guard_decision \<Rightarrow> rollback_outcome \<Rightarrow> string \<times> string" where
  "rollback_status cfg gd out =
     (case suppressed_reason out of
        Some why \<Rightarrow> (''skipped_suppressed'', why)
      | None \<Rightarrow>
          (if decision gd = Observe then (''skipped_observe'', ''no_registry_core_change_policy_branch'')
           else if decision gd \<noteq> Blocked then (''skipped_not_blocked'', gd_reason gd)
           else if \<not> rollback_allowed gd then (''skipped_roll_back_disallowed'', gd_reason gd)
           else if \<not> effective_rollback cfg then (''skipped_auto_rollback_disabled'', ''rollback_flags_disabled'')
           else case rb_exec out of
                  None \<Rightarrow> (''error'', ''rollback_executor_not_invoked_internal_error'')
                | Some res \<Rightarrow>
                    (if skipped res then
                       (let why = (case skip_reason res of None \<Rightarrow> [] | Some r \<Rightarrow> r)
                        in if why = ''skipped_no_lkg'' then (''skipped_no_lkg'', why)
                           else if py_in ''restore_git'' (py_lower why) then (''error'', why)
                           else (''error'', if why = [] then ''skipped'' else why))
                     else if \<not> live_rollback_gate cfg then (''skipped_dry_run'', ''dry_run_only'')
                     else (if success res = Some False then ''executed_partial'' else ''executed_ok'', ''prior_snapshot_restore''))))"

text \<open>
  The loop's variables: the last registry view (its parser output is a function of the server text), the last full snapshot,
  the snapshot file, the limiter and the number of changes seen. A poll brings the attribution, the listener
  probe, the \<open>curl\<close> probe and the clock readings.
\<close>

record guard_state =
  prior_view :: "registry_snapshot option"
  prior_full_snap :: "proxy_snapshot option"
  lkg_file :: "proxy_snapshot option"
  guard_limiter :: limiter
  registry_change_events :: nat

record poll_input =
  poll_attribution :: attribution_result
  poll_listen :: "bool option"
  poll_curl :: "string option \<Rightarrow> int \<times> string"
  poll_clocks :: "rat \<times> rat"

definition guard_poll ::
  "'w runner \<Rightarrow> ('w \<Rightarrow> registry_snapshot) \<Rightarrow> 'w capture_probes \<Rightarrow> guard_config \<Rightarrow> poll_input
   \<Rightarrow> guard_state \<Rightarrow> 'w \<Rightarrow> (guard_decision \<times> rollback_outcome) option \<times> guard_state \<times> 'w" where
  "guard_poll run read_reg pr cfg env st w =
     (let snap = read_reg w;
          full_curr = capture_proxy_snapshot pr w snap;
          st0 = (if trust_current_lkg cfg \<and> prior_view st = None then st\<lparr>lkg_file := Some full_curr\<rparr> else st)
      in case (prior_view st0, prior_full_snap st0) of
           (Some view, Some prev) \<Rightarrow>
             (if view = snap then (None, st0\<lparr>prior_full_snap := Some full_curr\<rparr>, w)
              else let parsed = parse_proxy_server (rs_proxy_server snap);
                       path = assess_proxy_path_operational (poll_curl env) True (proxy_enable full_curr) (proxy_server full_curr)
                                (auto_config_url full_curr) parsed (poll_listen env);
                       gd = evaluate_proxy_transition prev full_curr parsed (poll_attribution env) (cfg_policy cfg) (poll_listen env) (Some path);
                       basis = (case known_good_snapshot cfg of
                                  Some s \<Rightarrow> s
                                | None \<Rightarrow> (case lkg_file st0 of Some s \<Rightarrow> s | None \<Rightarrow> prev));
                       plan = build_rollback_plan (decision gd) (rollback_allowed gd) True (effective_rollback cfg)
                                (live_rollback_gate cfg) (winhttp_explicit (Some basis)) (restore_git_npm_env cfg);
                       (out, lim1, after, w1) = rollback_step run read_reg cfg gd prev plan (poll_clocks env) (guard_limiter st0) w
                   in (Some (gd, out),
                       st0\<lparr>prior_view := Some (case after of Some s \<Rightarrow> s | None \<Rightarrow> snap),
                           prior_full_snap := Some (case after of Some s \<Rightarrow> capture_proxy_snapshot pr w1 s | None \<Rightarrow> full_curr),
                           guard_limiter := lim1, registry_change_events := registry_change_events st0 + 1\<rparr>, w1))
         | _ \<Rightarrow> (None, st0\<lparr>prior_view := Some snap, prior_full_snap := Some full_curr\<rparr>, w))"

section \<open>A dry run never touches the machine\<close>

lemma run_external_dry [simp]: "snd (run_external_argv t run True a w) = w"
  by (simp add: run_external_argv_def)

lemma apply_reg_dry [simp]: "snd (apply_reg_argv_sequences run True argvs w) = w"
  by (induction argvs arbitrary: w) (simp_all add: split_beta)

lemma restore_winhttp_dry [simp]: "snd (restore_winhttp_row run True b s w) = w"
  by (simp add: restore_winhttp_row_def run_netsh_winhttp_reset_proxy_def run_netsh_winhttp_set_proxy_def split_beta
      split: option.split list.split)

lemma lkg_rollback_dry: "snd (execute_lkg_snapshot_rollback run lkg True b g w) = w"
  by (simp add: execute_lkg_snapshot_rollback_def split_beta split: option.split)

lemma lkg_rollback_skipped:
  "skipped (fst (execute_lkg_snapshot_rollback run (Some s) d b g w)) = g"
  "g \<Longrightarrow> snd (execute_lkg_snapshot_rollback run (Some s) d b g w) = w"
  by (simp_all add: execute_lkg_snapshot_rollback_def skipped_result_def split_beta)

lemma known_good_dry: "snd (execute_known_good_proxy_restore run lkg True b w) = w"
  by (simp add: execute_known_good_proxy_restore_def split_beta split: option.split)

lemma known_good_not_skipped: "\<not> skipped (fst (execute_known_good_proxy_restore run (Some s) d b w))"
  by (simp add: execute_known_good_proxy_restore_def split_beta)

text \<open>What a poll reports when a restore really ran.\<close>

definition poll_restored :: "guard_config \<Rightarrow> (guard_decision \<times> rollback_outcome) option \<Rightarrow> bool" where
  "poll_restored cfg r =
     (case r of
        None \<Rightarrow> False
      | Some (gd, out) \<Rightarrow> live_rollback_gate cfg \<and> (case rb_exec out of None \<Rightarrow> False | Some res \<Rightarrow> \<not> skipped res))"

definition will_restore :: "guard_config \<Rightarrow> bool" where
  "will_restore cfg = (live_rollback_gate cfg \<and> (known_good_snapshot cfg \<noteq> None \<or> \<not> restore_git_npm_env cfg))"

lemma run_restore_live:
  "live_rollback_gate cfg \<and> \<not> skipped (fst (run_restore run cfg prev plan w)) \<longleftrightarrow> will_restore cfg"
  by (cases "known_good_snapshot cfg") (simp_all add: run_restore_def will_restore_def known_good_not_skipped lkg_rollback_skipped(1))

lemma run_restore_world: "\<not> will_restore cfg \<Longrightarrow> snd (run_restore run cfg prev plan w) = w"
  by (cases "known_good_snapshot cfg")
     (auto simp: run_restore_def will_restore_def known_good_dry lkg_rollback_dry lkg_rollback_skipped(2))

lemma attempt_restore_fields:
  "fst (snd (attempt_restore run read_reg cfg prev plan t lm w)) = (if will_restore cfg then record_rollback t lm else lm)"
  "snd (snd (snd (attempt_restore run read_reg cfg prev plan t lm w))) = snd (run_restore run cfg prev plan w)"
  "rb_exec (fst (attempt_restore run read_reg cfg prev plan t lm w)) = Some (fst (run_restore run cfg prev plan w))"
  using run_restore_live[of cfg run prev plan w] by (auto simp: attempt_restore_def Let_def split_beta)

text \<open>
  The rollback step either leaves limiter and world alone, or asks the limiter: then it acts as one guarded
  attempt, and the world changes only if the limiter agreed and the restore is live.
\<close>

lemma rollback_step_cases:
  fixes run read_reg cfg gd prev plan clocks lm w
  defines "r \<equiv> rollback_step run read_reg cfg gd prev plan clocks lm w"
  defines "live \<equiv> live_rollback_gate cfg \<and> (\<exists>res. rb_exec (fst r) = Some res \<and> \<not> skipped res)"
  obtains (idle) "fst (snd r) = lm" "snd (snd (snd r)) = w" "\<not> live"
  | (asked) "decision gd = Blocked" "rollback_allowed gd" "effective_rollback cfg"
      "live \<longleftrightarrow> fst (fst (limiter_evaluate (fst clocks) lm)) \<and> will_restore cfg"
      "\<not> live \<Longrightarrow> snd (snd (snd r)) = w"
      "fst (snd r) = fst (attempt_rollback (fst clocks, snd clocks, will_restore cfg) (lm, xs))"
      "xs @ (if live then [snd clocks] else []) = snd (attempt_rollback (fst clocks, snd clocks, will_restore cfg) (lm, xs))"
proof (cases "decision gd = Blocked \<and> rollback_allowed gd \<and> effective_rollback cfg")
  case False
  then have "r = (idle_outcome (if decision gd = Blocked \<and> rollback_allowed gd \<and> \<not> effective_rollback cfg
      then ''rollback_preview'' else ''rollback_skipped''), lm, None, w)"
    unfolding r_def rollback_step_def by (simp only: if_False)
  then show ?thesis by (intro idle) (simp_all add: live_def idle_outcome_def)
next
  case True
  obtain ok why lm1 where ev: "limiter_evaluate (fst clocks) lm = ((ok, why), lm1)" by (metis surj_pair)
  show ?thesis
  proof (cases ok)
    case False
    then have "rb_exec (fst r) = None" "snd r = (lm1, None, w)"
      using True ev unfolding r_def rollback_step_def by (simp_all add: idle_outcome_def)
    then show ?thesis using True ev False by (intro asked) (simp_all add: live_def attempt_rollback_def)
  next
    case agreed: True
    then have r: "r = attempt_restore run read_reg cfg prev plan (snd clocks) lm1 w"
      using True ev unfolding r_def rollback_step_def by simp
    have "live = will_restore cfg"
      using run_restore_live[of cfg run prev plan w] by (simp add: live_def r attempt_restore_fields)
    then show ?thesis using True ev agreed run_restore_world[of cfg run prev plan w]
      by (intro asked) (simp_all add: r attempt_restore_fields attempt_rollback_def)
  qed
qed

section \<open>A poll of the guard\<close>

definition poll_verdict :: "('w \<Rightarrow> registry_snapshot) \<Rightarrow> 'w capture_probes \<Rightarrow> guard_config \<Rightarrow> poll_input
   \<Rightarrow> proxy_snapshot \<Rightarrow> 'w \<Rightarrow> guard_decision" where
  "poll_verdict read_reg pr cfg env prev w =
     (let cur = capture_proxy_snapshot pr w (read_reg w); parsed = parse_proxy_server (rs_proxy_server (read_reg w))
      in evaluate_proxy_transition prev cur parsed (poll_attribution env) (cfg_policy cfg) (poll_listen env)
           (Some (assess_proxy_path_operational (poll_curl env) True (proxy_enable cur) (proxy_server cur) (auto_config_url cur)
                    parsed (poll_listen env))))"

lemma guard_poll_change:
  assumes "prior_view st = Some view" "view \<noteq> read_reg w" "prior_full_snap st = Some prev"
  shows "\<exists>plan. let gd = poll_verdict read_reg pr cfg env prev w;
           r = rollback_step run read_reg cfg gd prev plan (poll_clocks env) (guard_limiter st) w
       in fst (guard_poll run read_reg pr cfg env st w) = Some (gd, fst r) \<and>
          guard_limiter (fst (snd (guard_poll run read_reg pr cfg env st w))) = fst (snd r) \<and>
          snd (snd (guard_poll run read_reg pr cfg env st w)) = snd (snd (snd r))"
  by (rule exI, use assms in \<open>simp add: guard_poll_def poll_verdict_def Let_def split_beta\<close>)

text \<open>
  A poll either acts on no change, and then leaves limiter and world alone, or runs the rollback step on the
  verdict about the last full snapshot.
\<close>

lemma guard_poll_cases:
  obtains (quiet) "fst (guard_poll run read_reg pr cfg env st w) = None"
      "guard_limiter (fst (snd (guard_poll run read_reg pr cfg env st w))) = guard_limiter st"
      "snd (snd (guard_poll run read_reg pr cfg env st w)) = w"
  | (change) view prev plan where "prior_view st = Some view" "view \<noteq> read_reg w" "prior_full_snap st = Some prev"
      "let gd = poll_verdict read_reg pr cfg env prev w;
           r = rollback_step run read_reg cfg gd prev plan (poll_clocks env) (guard_limiter st) w
       in fst (guard_poll run read_reg pr cfg env st w) = Some (gd, fst r) \<and>
          guard_limiter (fst (snd (guard_poll run read_reg pr cfg env st w))) = fst (snd r) \<and>
          snd (snd (guard_poll run read_reg pr cfg env st w)) = snd (snd (snd r))"
proof (cases "prior_view st")
  case None
  then show ?thesis by (intro quiet) (auto simp: guard_poll_def Let_def)
next
  case view: (Some view)
  show ?thesis
  proof (cases "prior_full_snap st")
    case None
    then show ?thesis using view by (intro quiet) (auto simp: guard_poll_def Let_def)
  next
    case (Some prev)
    show ?thesis
    proof (cases "view = read_reg w")
      case True
      then show ?thesis using view Some by (intro quiet) (auto simp: guard_poll_def Let_def)
    next
      case False
      from guard_poll_change[of st view read_reg w prev pr cfg env run, OF view False Some] show ?thesis using change[OF view False Some] by blast
    qed
  qed
qed

text \<open>
  A sequence of polls, each on the world other programs have left by then: the instants of the restores that ran, and the last state.
\<close>

fun guard_run ::
  "'w runner \<Rightarrow> ('w \<Rightarrow> registry_snapshot) \<Rightarrow> 'w capture_probes \<Rightarrow> guard_config
   \<Rightarrow> (poll_input \<times> 'w) list \<Rightarrow> guard_state \<Rightarrow> rat list \<times> guard_state" where
  "guard_run run read_reg pr cfg [] st = ([], st)"
| "guard_run run read_reg pr cfg ((env, w) # polls) st =
     (let (r, st1, w1) = guard_poll run read_reg pr cfg env st w;
          (ts, st2) = guard_run run read_reg pr cfg polls st1
      in ((if poll_restored cfg r then [snd (poll_clocks env)] else []) @ ts, st2))"

definition initial_guard_state :: "limit_settings \<Rightarrow> proxy_snapshot option \<Rightarrow> guard_state" where
  "initial_guard_state limits lkg =
     \<lparr>prior_view = None, prior_full_snap = None, lkg_file = lkg, guard_limiter = new_limiter limits, registry_change_events = 0\<rparr>"

text \<open>The readings of the clock over the polls never go back.\<close>

fun clock_ok :: "rat \<Rightarrow> (poll_input \<times> 'w) list \<Rightarrow> bool" where
  "clock_ok now [] \<longleftrightarrow> True"
| "clock_ok now ((env, w) # polls) \<longleftrightarrow>
     now \<le> fst (poll_clocks env) \<and> fst (poll_clocks env) \<le> snd (poll_clocks env) \<and> clock_ok (snd (poll_clocks env)) polls"

lemma guard_poll_inv:
  assumes inv: "limiter_inv limits now (guard_limiter st, xs)" and clocks: "now \<le> fst (poll_clocks env)" "fst (poll_clocks env) \<le> snd (poll_clocks env)"
    and poll: "guard_poll run read_reg pr cfg env st w = (r, st', w')"
  shows "limiter_inv limits (snd (poll_clocks env)) (guard_limiter st', xs @ (if poll_restored cfg r then [snd (poll_clocks env)] else []))"
proof (cases rule: guard_poll_cases[of run read_reg pr cfg env st w])
  case quiet
  then show ?thesis using poll later_inv[OF inv order_trans[OF clocks]] by (simp add: poll_restored_def)
next
  case (change view prev plan)
  let ?gd = "poll_verdict read_reg pr cfg env prev w"
  let ?r = "rollback_step run read_reg cfg ?gd prev plan (poll_clocks env) (guard_limiter st) w"
  have r: "r = Some (?gd, fst ?r)" "guard_limiter st' = fst (snd ?r)" using change(4) poll by (simp_all add: Let_def)
  have restored: "poll_restored cfg r \<longleftrightarrow> live_rollback_gate cfg \<and> (\<exists>res. rb_exec (fst ?r) = Some res \<and> \<not> skipped res)"
    by (auto simp: r poll_restored_def split: option.split)
  show ?thesis
  proof (cases rule: rollback_step_cases[where run=run and read_reg=read_reg and cfg=cfg and gd="?gd" and prev=prev and plan=plan
      and clocks="poll_clocks env" and lm="guard_limiter st" and w=w and xs=xs])
    case idle
    then have nr: "\<not> poll_restored cfg r" using restored by blast
    show ?thesis using later_inv[OF inv order_trans[OF clocks]] nr unfolding r(2) idle(1) by simp
  next
    case asked
    have "limiter_inv limits (snd (poll_clocks env))
       (attempt_rollback (fst (poll_clocks env), snd (poll_clocks env), will_restore cfg) (guard_limiter st, xs))"
      by (rule attempt_inv[OF inv clocks])
    then show ?thesis unfolding restored r(2) asked(6) asked(7) by simp
  qed
qed

lemma guard_run_inv:
  assumes "limiter_inv limits now (guard_limiter st, xs)" "clock_ok now polls"
  shows "\<exists>later. limiter_inv limits later (guard_limiter (snd (guard_run run read_reg pr cfg polls st)), xs @ fst (guard_run run read_reg pr cfg polls st))"
  using assms
proof (induction polls arbitrary: st xs now)
  case (Cons p polls)
  obtain env w where p: "p = (env, w)" by (cases p)
  obtain r st1 w1 where poll: "guard_poll run read_reg pr cfg env st w = (r, st1, w1)" by (metis surj_pair)
  have "limiter_inv limits (snd (poll_clocks env)) (guard_limiter st1, xs @ (if poll_restored cfg r then [snd (poll_clocks env)] else []))"
    using guard_poll_inv[OF Cons.prems(1) _ _ poll] Cons.prems(2) by (simp add: p)
  from Cons.IH[OF this] show ?case using Cons.prems(2) by (simp add: p poll split_beta)
qed auto

section \<open>The registry under the restore\<close>

text \<open>
  The documented behaviour of \<open>reg.exe\<close> on the values of the settings key, as \<open>val\<close> reads them: \<open>reg add\<close> sets the value and returns 0,
  \<open>reg delete\<close> removes it and returns 0, or 1 when there is none; \<open>netsh\<close> does not touch them.
\<close>

datatype reg_value = SZ string | DWORD int

definition reg_documented :: "'w runner \<Rightarrow> ('w \<Rightarrow> string \<Rightarrow> reg_value option) \<Rightarrow> bool" where
  "reg_documented run val \<longleftrightarrow>
     (\<forall>w name v. (\<exists>out err. fst (run (reg_add name ''REG_SZ'' v) w) = Finished 0 out err) \<and>
        val (snd (run (reg_add name ''REG_SZ'' v) w)) = (val w)(name \<mapsto> SZ v)) \<and>
     (\<forall>w name n. 0 \<le> n \<and> n < 2 ^ 32 \<longrightarrow> (\<exists>out err. fst (run (reg_add name ''REG_DWORD'' (int_str n)) w) = Finished 0 out err) \<and>
        val (snd (run (reg_add name ''REG_DWORD'' (int_str n)) w)) = (val w)(name \<mapsto> DWORD n)) \<and>
     (\<forall>w name. (\<exists>out err. fst (run (reg_delete name) w) = Finished (if val w name = None then 1 else 0) out err) \<and>
        val (snd (run (reg_delete name) w)) = (val w)(name := None)) \<and>
     (\<forall>w rest. val (snd (run (''netsh'' # rest) w)) = val w)"

definition sz_value :: "string option \<Rightarrow> reg_value option" where
  "sz_value v = (if norm_str v = [] then None else Some (SZ (norm_str v)))"

fun sz_of :: "reg_value option \<Rightarrow> string option" where
  "sz_of (Some (SZ s)) = Some s"
| "sz_of _ = None"

fun dword_of :: "reg_value option \<Rightarrow> int option" where
  "dword_of (Some (DWORD n)) = Some n"
| "dword_of _ = None"

text \<open>The snapshot a probe takes of those values.\<close>

definition observed :: "('w \<Rightarrow> string \<Rightarrow> reg_value option) \<Rightarrow> 'w \<Rightarrow> registry_snapshot" where
  "observed val w =
     \<lparr>rs_proxy_enable = dword_of (val w ''ProxyEnable''), rs_proxy_server = sz_of (val w ''ProxyServer''),
      rs_auto_config_url = sz_of (val w ''AutoConfigURL''), rs_auto_detect = dword_of (val w ''AutoDetect''),
      rs_proxy_override = sz_of (val w ''ProxyOverride'')\<rparr>"

definition text_normal :: "string option \<Rightarrow> bool" where
  "text_normal v = (case v of None \<Rightarrow> True | Some s \<Rightarrow> s \<noteq> [] \<and> py_strip s = s)"

lemma sz_value_normal: "text_normal v \<Longrightarrow> sz_of (sz_value v) = v"
  by (auto simp: text_normal_def sz_value_def norm_str_def split: option.splits)

lemma run_sz_or_delete:
  assumes "reg_documented run val"
  shows "val (snd (run_external_argv t run False (sz_or_delete v name) w)) = (val w)(name := sz_value v)"
    "returncode (fst (run_external_argv t run False (sz_or_delete v name) w)) = 0 \<longleftrightarrow> norm_str v \<noteq> [] \<or> val w name \<noteq> None"
proof -
  have "(\<exists>out err. fst (run (sz_or_delete v name) w) = Finished (if norm_str v \<noteq> [] \<or> val w name \<noteq> None then 0 else 1) out err) \<and>
        val (snd (run (sz_or_delete v name) w)) = (val w)(name := sz_value v)"
  proof (cases "norm_str v = []")
    case True
    have "(\<exists>out err. fst (run (reg_delete name) w) = Finished (if val w name = None then 1 else 0) out err) \<and>
        val (snd (run (reg_delete name) w)) = (val w)(name := None)"
      using assms unfolding reg_documented_def by blast
    then show ?thesis using True by (cases "val w name") (simp_all add: sz_or_delete_def sz_value_def)
  next
    case False
    have "(\<exists>out err. fst (run (reg_add name ''REG_SZ'' (norm_str v)) w) = Finished 0 out err) \<and>
        val (snd (run (reg_add name ''REG_SZ'' (norm_str v)) w)) = (val w)(name \<mapsto> SZ (norm_str v))"
      using assms unfolding reg_documented_def by blast
    then show ?thesis using False by (simp add: sz_or_delete_def sz_value_def)
  qed
  then obtain out err where "fst (run (sz_or_delete v name) w) = Finished (if norm_str v \<noteq> [] \<or> val w name \<noteq> None then 0 else 1) out err"
    "val (snd (run (sz_or_delete v name) w)) = (val w)(name := sz_value v)" by blast
  then show "val (snd (run_external_argv t run False (sz_or_delete v name) w)) = (val w)(name := sz_value v)"
    "returncode (fst (run_external_argv t run False (sz_or_delete v name) w)) = 0 \<longleftrightarrow> norm_str v \<noteq> [] \<or> val w name \<noteq> None"
    by (cases "run (sz_or_delete v name) w"; simp add: run_external_argv_def)+
qed

lemma run_dword:
  assumes "reg_documented run val" "0 \<le> n" "n < 2 ^ 32"
  shows "val (snd (run_external_argv t run False (reg_add name ''REG_DWORD'' (int_str n)) w)) = (val w)(name \<mapsto> DWORD n)"
    "returncode (fst (run_external_argv t run False (reg_add name ''REG_DWORD'' (int_str n)) w)) = 0"
proof -
  obtain out err where "fst (run (reg_add name ''REG_DWORD'' (int_str n)) w) = Finished 0 out err"
    "val (snd (run (reg_add name ''REG_DWORD'' (int_str n)) w)) = (val w)(name \<mapsto> DWORD n)"
    using assms unfolding reg_documented_def by blast
  then show "val (snd (run_external_argv t run False (reg_add name ''REG_DWORD'' (int_str n)) w)) = (val w)(name \<mapsto> DWORD n)"
    "returncode (fst (run_external_argv t run False (reg_add name ''REG_DWORD'' (int_str n)) w)) = 0"
    by (cases "run (reg_add name ''REG_DWORD'' (int_str n)) w"; simp add: run_external_argv_def)+
qed

lemma winhttp_keeps_registry:
  assumes "reg_documented run val"
  shows "val (snd (restore_winhttp_row run d b s w)) = val w"
proof -
  have net: "val (snd (run (''netsh'' # rest) w)) = val w" for rest using assms unfolding reg_documented_def by blast
  have "val (snd (run_external_argv t run d (''netsh'' # rest) w)) = val w" for t rest
    using net[of rest] by (auto simp: run_external_argv_def split: prod.split run_outcome.split)
  then show ?thesis
    by (simp add: restore_winhttp_row_def run_netsh_winhttp_reset_proxy_def run_netsh_winhttp_set_proxy_def split_beta
        split: option.split list.split)
qed

lemma restore_registry:
  assumes "reg_documented run val" "proxy_enable s = Some n" "0 \<le> n" "n < 2 ^ 32"
  shows "val (snd (apply_reg_argv_sequences run False (build_wininet_restore_argv_list s) w)) =
      (val w)(''ProxyServer'' := sz_value (proxy_server s), ''AutoConfigURL'' := sz_value (auto_config_url s),
              ''ProxyOverride'' := sz_value (proxy_override s), ''ProxyEnable'' \<mapsto> DWORD n)"
    "list_all (\<lambda>r. returncode r = 0) (fst (apply_reg_argv_sequences run False (build_wininet_restore_argv_list s) w)) \<longleftrightarrow>
      (norm_str (proxy_server s) \<noteq> [] \<or> val w ''ProxyServer'' \<noteq> None) \<and>
      (norm_str (auto_config_url s) \<noteq> [] \<or> val w ''AutoConfigURL'' \<noteq> None) \<and>
      (norm_str (proxy_override s) \<noteq> [] \<or> val w ''ProxyOverride'' \<noteq> None)"
  using assms
  by (auto simp: build_wininet_restore_argv_list_def split_beta run_sz_or_delete run_dword fun_upd_def)

section \<open>A concrete registry\<close>

text \<open>A machine whose world is the list of values of the settings key; it meets the documented behaviour.\<close>

definition reg_read :: "(string \<times> reg_value) list \<Rightarrow> string \<Rightarrow> reg_value option" where
  "reg_read w name = map_of w name"

fun reg_exe :: "(string \<times> reg_value) list runner" where
  "reg_exe a w =
     (if length a = 10 \<and> take 2 a = [''reg'', ''add''] then
        (Finished 0 ''The operation completed successfully.'' [],
         (a ! 4, if a ! 6 = ''REG_DWORD'' then DWORD (the (py_int_of_str (a ! 8))) else SZ (a ! 8)) # w)
      else if length a = 6 \<and> take 2 a = [''reg'', ''delete''] then
        (Finished (if map_of w (a ! 4) = None then 1 else 0) [] [], filter (\<lambda>p. fst p \<noteq> a ! 4) w)
      else (Finished 0 [] [], w))"

declare reg_exe.simps [simp del]

lemma reg_exe_add: "reg_exe (reg_add name ty v) w =
    (Finished 0 ''The operation completed successfully.'' [],
     (name, if ty = ''REG_DWORD'' then DWORD (the (py_int_of_str v)) else SZ v) # w)"
  by (simp add: reg_exe.simps reg_add_def)

lemma reg_exe_delete: "reg_exe (reg_delete name) w = (Finished (if map_of w name = None then 1 else 0) [] [], filter (\<lambda>p. fst p \<noteq> name) w)"
  by (simp add: reg_exe.simps reg_delete_def)

lemma reg_exe_netsh: "reg_exe (''netsh'' # rest) w = (Finished 0 [] [], w)"
  by (simp add: reg_exe.simps)

lemma map_of_filter_ne: "map_of (filter (\<lambda>p. fst p \<noteq> k) w) = (map_of w)(k := None)"
  by (induction w) auto

lemma reg_exe_documented: "reg_documented reg_exe reg_read"
  by (auto simp: reg_documented_def reg_exe_add reg_exe_delete reg_exe_netsh reg_read_def map_of_filter_ne py_int_of_int_str fun_eq_iff)

section \<open>Properties of the guard\<close>

text \<open>
  C12 (rollback rate). Over any sequence of polls from the start of the service, whatever other programs do to the machine between
  them, when the clock never goes back, the restores that run are at least the cooldown apart, and the window of
  \<open>max(1, window_seconds)\<close> that ends at a restore holds at most \<open>max_rollbacks_per_window\<close> of them.
\<close>

theorem guard_rollback_rate:
  assumes "clock_ok start polls" and "executed = fst (guard_run run read_reg pr cfg polls (initial_guard_state limits lkg))"
  shows "spaced (max 0 (cooldown_seconds limits)) executed \<and>
     (\<forall>t\<in>set executed. int (window_count (t - max 1 (window_seconds limits)) t executed) \<le> max_rollbacks_per_window limits)"
  using guard_run_inv[of limits start "initial_guard_state limits lkg" "[]" polls run read_reg pr cfg] new_limiter_inv[of limits start] assms
  by (auto simp: limiter_inv_def initial_guard_state_def)

lemma rollback_step_agreed:
  assumes "decision gd = Blocked" "rollback_allowed gd" "effective_rollback cfg" "fst (fst (limiter_evaluate (fst clocks) lm))"
  shows "rollback_step run read_reg cfg gd prev plan clocks lm w =
     attempt_restore run read_reg cfg prev plan (snd clocks) (snd (limiter_evaluate (fst clocks) lm)) w"
  using assms by (cases "limiter_evaluate (fst clocks) lm") (auto simp: rollback_step_def)

text \<open>
  C13 (when the guard writes). A poll that changes the machine has seen registry values that differ from the last view, judged the
  change as blocked, has the live gate open (automatic rollback, or rollback asked for with the phrase, and no dry run) and the
  limiter's consent.
\<close>

theorem guard_poll_safe:
  assumes "guard_poll run read_reg pr cfg env st w = (r, st', w')" and "w' \<noteq> w"
  shows "\<exists>view prev out.
     prior_view st = Some view \<and> view \<noteq> read_reg w \<and> prior_full_snap st = Some prev \<and>
     r = Some (poll_verdict read_reg pr cfg env prev w, out) \<and>
     decision (poll_verdict read_reg pr cfg env prev w) = Blocked \<and>
     \<not> dry_run_rollback cfg \<and>
     (auto_rollback cfg \<or> cli_rollback cfg \<and> py_strip (rollback_confirm_phrase cfg) = ''RESTORE_PROXY'') \<and>
     fst (fst (limiter_evaluate (fst (poll_clocks env)) (guard_limiter st)))"
proof (cases rule: guard_poll_cases[of run read_reg pr cfg env st w])
  case quiet
  then show ?thesis using assms by simp
next
  case (change view prev plan)
  let ?gd = "poll_verdict read_reg pr cfg env prev w"
  let ?r = "rollback_step run read_reg cfg ?gd prev plan (poll_clocks env) (guard_limiter st) w"
  have r: "r = Some (?gd, fst ?r)" "w' = snd (snd (snd ?r))" using change(4) assms(1) by (simp_all add: Let_def)
  show ?thesis
  proof (cases rule: rollback_step_cases[where run=run and read_reg=read_reg and cfg=cfg and gd="?gd" and prev=prev and plan=plan
      and clocks="poll_clocks env" and lm="guard_limiter st" and w=w and xs="[]"])
    case idle
    then show ?thesis using assms(2) r(2) by simp
  next
    case asked
    have "fst (fst (limiter_evaluate (fst (poll_clocks env)) (guard_limiter st))) \<and> will_restore cfg"
      using asked(4,5) assms(2) r(2) by blast
    then show ?thesis using change(1-3) r(1) asked(1)
      by (auto simp: will_restore_def live_rollback_gate_def effective_rollback_def Let_def)
  qed
qed

lemma lkg_restore_result:
  assumes "execute_lkg_snapshot_rollback run (Some s) False winhttp False w = (res, w')"
  shows "w' = snd (restore_winhttp_row run False winhttp s (snd (apply_reg_argv_sequences run False (build_wininet_restore_argv_list s) w)))"
    "\<not> skipped res"
    "success res = Some (list_all (\<lambda>r. returncode r = 0) (fst (apply_reg_argv_sequences run False (build_wininet_restore_argv_list s) w))
       \<and> row_fine (winhttp_restore res))"
  using assms by (auto simp: execute_lkg_snapshot_rollback_def split_beta)

lemma lkg_restore_values:
  assumes "reg_documented run val" "proxy_enable s = Some n" "0 \<le> n" "n < 2 ^ 32"
    and "execute_lkg_snapshot_rollback run (Some s) False winhttp False w = (res, w')"
  shows "val w' = (val w)(''ProxyServer'' := sz_value (proxy_server s), ''AutoConfigURL'' := sz_value (auto_config_url s),
              ''ProxyOverride'' := sz_value (proxy_override s), ''ProxyEnable'' \<mapsto> DWORD n)"
  unfolding lkg_restore_result(1)[OF assms(5)] winhttp_keeps_registry[OF assms(1)] by (rule restore_registry(1)[OF assms(1-4)])

text \<open>
  C14 (a restore puts the settings back). On a machine whose \<open>reg.exe\<close> behaves as documented, a live restore of a snapshot sets exactly the
  four values it manages to those of the snapshot (a blank text means the value is removed) and leaves every other
  value alone. It reports success exactly when every value it removes was there and the WinHTTP step succeeded. On a
  snapshot of trimmed texts the following verification passes exactly when \<open>AutoDetect\<close>, which no restore writes, already agrees.
\<close>

theorem restore_sets_snapshot:
  assumes "reg_documented run val" and "proxy_enable s = Some n" and "0 \<le> n" and "n < 2 ^ 32"
    and "execute_lkg_snapshot_rollback run (Some s) False winhttp False w = (res, w')"
  shows "val w' = (val w)(''ProxyServer'' := sz_value (proxy_server s), ''AutoConfigURL'' := sz_value (auto_config_url s),
              ''ProxyOverride'' := sz_value (proxy_override s), ''ProxyEnable'' \<mapsto> DWORD n) \<and>
     \<not> skipped res \<and>
     success res = Some
       ((norm_str (proxy_server s) \<noteq> [] \<or> val w ''ProxyServer'' \<noteq> None) \<and>
        (norm_str (auto_config_url s) \<noteq> [] \<or> val w ''AutoConfigURL'' \<noteq> None) \<and>
        (norm_str (proxy_override s) \<noteq> [] \<or> val w ''ProxyOverride'' \<noteq> None) \<and> row_fine (winhttp_restore res)) \<and>
     (text_normal (proxy_server s) \<and> text_normal (auto_config_url s) \<longrightarrow>
        verify_hkcu_core_matches_prior (observed val w') s = (dword_of (val w ''AutoDetect'') = auto_detect s))"
proof -
  note res = lkg_restore_result[OF assms(5)] and val = lkg_restore_values[OF assms]
  show ?thesis
  proof (intro conjI impI)
    show "success res = Some
       ((norm_str (proxy_server s) \<noteq> [] \<or> val w ''ProxyServer'' \<noteq> None) \<and>
        (norm_str (auto_config_url s) \<noteq> [] \<or> val w ''AutoConfigURL'' \<noteq> None) \<and>
        (norm_str (proxy_override s) \<noteq> [] \<or> val w ''ProxyOverride'' \<noteq> None) \<and> row_fine (winhttp_restore res))"
      unfolding res(3) restore_registry(2)[OF assms(1-4)] by simp
    show "verify_hkcu_core_matches_prior (observed val w') s = (dword_of (val w ''AutoDetect'') = auto_detect s)"
      if "text_normal (proxy_server s) \<and> text_normal (auto_config_url s)"
      using that assms(2) by (simp add: verify_hkcu_core_matches_prior_def hkcu_tuple_from_registry_def hkcu_tuple_expected_from_snapshot_def
          observed_def val sz_value_normal)
  qed (use val res(2) in simp_all)
qed

section \<open>Confirmation of remediation actions\<close>

lemma find_distinct: "distinct (map f xs) \<Longrightarrow> find (\<lambda>a. f a = i) xs = Some a \<longleftrightarrow> a \<in> set xs \<and> f a = i"
  by (induction xs) (auto simp: image_iff)

lemma catalog_ids_distinct: "distinct (map action_id remediation_action_catalog)"
  by (simp add: remediation_action_catalog_def blocked_action_def)

lemma catalog_phrases: "a \<in> set remediation_action_catalog \<Longrightarrow> blocked_reason a = [] \<Longrightarrow> required_confirmation a \<noteq> []"
  by (auto simp: remediation_action_catalog_def blocked_action_def)

lemma set_insert_str [simp]: "set (insert_str x ys) = insert x (set ys)"
  by (induction x ys rule: insert_str.induct) auto

lemma sorted_set_Nil: "sorted_set xs = [] \<longleftrightarrow> xs = []"
proof -
  have "set (sorted_set xs) = set xs" by (induction xs) (simp_all add: sorted_set_def)
  then show ?thesis by (metis set_empty)
qed

text \<open>The value name of a \<open>reg\<close> command is its fifth word.\<close>

definition value_name :: "argv \<Rightarrow> string" where
  "value_name a = a ! 4"

lemma value_name_simps [simp]: "value_name (reg_add n t v) = n" "value_name (reg_delete n) = n" "value_name (sz_or_delete u n) = n"
  by (simp_all add: value_name_def reg_add_def reg_delete_def sz_or_delete_def)

lemma touched_fields:
  "set (map value_name (map m_argv (fst (build_user_proxy_disable_mutations a b)))) \<subseteq> {''ProxyEnable'', ''ProxyServer'', ''AutoConfigURL''}"
  "set (map value_name (build_wininet_restore_argv_list s)) \<subseteq> {''ProxyServer'', ''AutoConfigURL'', ''ProxyOverride'', ''ProxyEnable''}"
  by (auto simp: build_user_proxy_disable_mutations_def build_wininet_restore_argv_list_def Let_def split: if_splits option.splits)

text \<open>
  (remediation actions). Live execution is allowed exactly for an action of the catalogue that is not blocked, on registry
  fields its row lists, with its typed phrase and no dry run; a dry run of such an action is a preview, and everything else is blocked. The
  value names the disable and the restore commands write are listed in the rows of their actions.
\<close>

theorem action_confirmation:
  "(fst (validate_action_confirmation i dry conf req) = ALLOW \<longleftrightarrow>
      (\<exists>a. a \<in> set remediation_action_catalog \<and> action_id a = i \<and> blocked_reason a = [] \<and>
           set req \<subseteq> set (allowed_registry_fields a) \<and> \<not> dry \<and> py_strip conf = required_confirmation a)) \<and>
   (fst (validate_action_confirmation i dry conf req) = PREVIEW \<longleftrightarrow>
      (\<exists>a. a \<in> set remediation_action_catalog \<and> action_id a = i \<and> blocked_reason a = [] \<and>
           set req \<subseteq> set (allowed_registry_fields a) \<and> dry)) \<and>
   (\<exists>a. get_remediation_action ''disable_wininet_proxy'' = Some a \<and>
      set (map value_name (map m_argv (fst (build_user_proxy_disable_mutations x y)))) \<subseteq> set (allowed_registry_fields a)) \<and>
   (\<exists>a. get_remediation_action ''restore_wininet_proxy_from_lkg'' = Some a \<and>
      set (map value_name (build_wininet_restore_argv_list s)) \<subseteq> set (allowed_registry_fields a))"
proof (intro conjI)
  have found: "get_remediation_action i = Some a \<longleftrightarrow> a \<in> set remediation_action_catalog \<and> action_id a = i" for i a
    unfolding get_remediation_action_def by (rule find_distinct[OF catalog_ids_distinct])
  have named: "(\<exists>a. a \<in> set remediation_action_catalog \<and> action_id a = i \<and> P a) \<longleftrightarrow> (\<exists>a. get_remediation_action i = Some a \<and> P a)" for P
    by (auto simp: found)
  have empty: "sorted_set (filter (\<lambda>f. f \<notin> set (allowed_registry_fields a)) req) = [] \<longleftrightarrow> set req \<subseteq> set (allowed_registry_fields a)" for a
    by (auto simp: sorted_set_Nil filter_empty_conv)
  show "fst (validate_action_confirmation i dry conf req) = ALLOW \<longleftrightarrow>
      (\<exists>a. a \<in> set remediation_action_catalog \<and> action_id a = i \<and> blocked_reason a = [] \<and>
           set req \<subseteq> set (allowed_registry_fields a) \<and> \<not> dry \<and> py_strip conf = required_confirmation a)"
    unfolding named using catalog_phrases[of "the (get_remediation_action i)"] found[of i "the (get_remediation_action i)"]
    by (cases "get_remediation_action i") (auto simp: validate_action_confirmation_def Let_def empty)
  show "fst (validate_action_confirmation i dry conf req) = PREVIEW \<longleftrightarrow>
      (\<exists>a. a \<in> set remediation_action_catalog \<and> action_id a = i \<and> blocked_reason a = [] \<and>
           set req \<subseteq> set (allowed_registry_fields a) \<and> dry)"
    unfolding named by (cases "get_remediation_action i") (auto simp: validate_action_confirmation_def Let_def empty)
  show "\<exists>a. get_remediation_action ''disable_wininet_proxy'' = Some a \<and>
      set (map value_name (map m_argv (fst (build_user_proxy_disable_mutations x y)))) \<subseteq> set (allowed_registry_fields a)"
    using touched_fields(1)[of x y] by (simp add: get_remediation_action_def remediation_action_catalog_def)
  show "\<exists>a. get_remediation_action ''restore_wininet_proxy_from_lkg'' = Some a \<and>
      set (map value_name (build_wininet_restore_argv_list s)) \<subseteq> set (allowed_registry_fields a)"
    using touched_fields(2)[of s] by (simp add: get_remediation_action_def remediation_action_catalog_def) blast
qed

section \<open>A guarded session\<close>

text \<open>A concrete service: automatic live rollback, nobody allowlisted, and an unknown process that twice switches a remote proxy on.\<close>

definition sample_probes :: "(string \<times> reg_value) list capture_probes" where
  "sample_probes = \<lparr>winhttp_text = (\<lambda>_. []), run_text = (\<lambda>_ _. None), user_env = (\<lambda>_ _. None), now_iso = (\<lambda>_. ''t'')\<rparr>"

definition sample_policy :: guard_policy where
  "sample_policy = \<lparr>source_path = ''p.json'', allowed_process_name_substrings = [], allowed_process_names_exact = [],
     allow_when_attribution_empty = False, trusted_exe_paths = [], allowed_autoconfig_url_substrings = [],
     observe_only_when_unknown_attribution = False\<rparr>"

definition sample_config :: guard_config where
  "sample_config = \<lparr>cfg_policy = sample_policy, auto_rollback = True, cli_rollback = False, dry_run_rollback = False,
     rollback_confirm_phrase = [], restore_git_npm_env = False, known_good_snapshot = None, trust_current_lkg = False\<rparr>"

definition sample_poll :: "rat \<Rightarrow> poll_input" where
  "sample_poll t = \<lparr>poll_attribution = \<lparr>mode = Unknown_mode, attribution_confidence = ''unknown'', process = None,
       attribution_evidence = [], limitations = []\<rparr>,
     poll_listen = None, poll_curl = (\<lambda>_. (0, ''200'')), poll_clocks = (t, t + 1)\<rparr>"

definition sample_limits :: limit_settings where
  "sample_limits = \<lparr>cooldown_seconds = 60, window_seconds = 300, max_rollbacks_per_window = 5\<rparr>"

definition proxy_off :: "(string \<times> reg_value) list" where
  "proxy_off = [(''ProxyEnable'', DWORD 0)]"

definition proxy_on :: "(string \<times> reg_value) list" where
  "proxy_on = [(''ProxyServer'', SZ ''10.0.0.9:3128''), (''ProxyEnable'', DWORD 1)]"

theorem guard_rollback_rate_witness:
  "let executed = fst (guard_run reg_exe (observed reg_read) sample_probes sample_config
         [(sample_poll 0, proxy_off), (sample_poll 10, proxy_on), (sample_poll 20, proxy_on), (sample_poll 30, proxy_off), (sample_poll 100, proxy_on)]
         (initial_guard_state sample_limits None))
   in executed = [11, 101] \<and> spaced 60 executed"
proof -
  let ?polls = "[(sample_poll 0, proxy_off), (sample_poll 10, proxy_on), (sample_poll 20, proxy_on), (sample_poll 30, proxy_off), (sample_poll 100, proxy_on)]"
  have ex: "fst (guard_run reg_exe (observed reg_read) sample_probes sample_config ?polls (initial_guard_state sample_limits None)) = [11, 101]"
    by code_simp
  have "clock_ok 0 ?polls" by (simp add: sample_poll_def)
  from guard_rollback_rate[OF this ex[symmetric]] show ?thesis unfolding ex by (simp add: sample_limits_def)
qed

theorem guard_poll_safe_witness:
  "let st = \<lparr>prior_view = Some (observed reg_read proxy_off), prior_full_snap = Some (capture_proxy_snapshot sample_probes proxy_off (observed reg_read proxy_off)),
             lkg_file = None, guard_limiter = new_limiter sample_limits, registry_change_events = 0\<rparr>;
       (r, st', w') = guard_poll reg_exe (observed reg_read) sample_probes sample_config (sample_poll 10) st proxy_on
   in w' \<noteq> proxy_on \<and> (\<exists>prev out. r = Some (poll_verdict (observed reg_read) sample_probes sample_config (sample_poll 10) prev proxy_on, out))"
proof -
  let ?st = "\<lparr>prior_view = Some (observed reg_read proxy_off), prior_full_snap = Some (capture_proxy_snapshot sample_probes proxy_off (observed reg_read proxy_off)),
             lkg_file = None, guard_limiter = new_limiter sample_limits, registry_change_events = 0\<rparr>"
  let ?p = "guard_poll reg_exe (observed reg_read) sample_probes sample_config (sample_poll 10) ?st proxy_on"
  have ne: "snd (snd ?p) \<noteq> proxy_on" by code_simp
  show ?thesis
    using guard_poll_safe[of reg_exe "observed reg_read" sample_probes sample_config "sample_poll 10" ?st proxy_on "fst ?p" "fst (snd ?p)" "snd (snd ?p)"] ne
    by (auto simp: Let_def split_beta)
qed

text \<open>Here \<open>ProxyOverride\<close> is absent from snapshot and registry, so its removal returns 1: the values are restored and verify, yet success is denied.\<close>

theorem restore_sets_snapshot_witness:
  "let s = capture_proxy_snapshot sample_probes proxy_off (observed reg_read proxy_off);
       (res, w') = execute_lkg_snapshot_rollback reg_exe (Some s) False False False proxy_on
   in reg_read w' ''ProxyServer'' = None \<and> reg_read w' ''ProxyEnable'' = Some (DWORD 0) \<and> success res = Some False \<and>
      verify_hkcu_core_matches_prior (observed reg_read w') s"
proof -
  let ?s = "capture_proxy_snapshot sample_probes proxy_off (observed reg_read proxy_off)"
  obtain res w' where ex: "execute_lkg_snapshot_rollback reg_exe (Some ?s) False False False proxy_on = (res, w')" by fastforce
  have en: "proxy_enable ?s = Some 0" and tx: "proxy_server ?s = None" "auto_config_url ?s = None" "proxy_override ?s = None" "auto_detect ?s = None"
    and on: "reg_read proxy_on ''AutoDetect'' = None" "reg_read proxy_on ''ProxyOverride'' = None"
    by (simp_all add: observed_def reg_read_def proxy_off_def proxy_on_def)
  show ?thesis using restore_sets_snapshot[OF reg_exe_documented en _ _ ex] tx on
    by (simp add: ex Let_def sz_value_def norm_str_def text_normal_def py_strip_def strip_by_def)
qed

end
