(* ===== verification/Governance.thy ===== *)
theory Governance
  imports Py_Values
begin

text \<open>
  Governance of claims: the proof tiers of \<open>src/platform_core/governance/proof_tier.py\<close>, the governance envelope and the
  language check of \<open>evidence_to_action.py\<close>, the human review queue of \<open>human_review.py\<close> and the evidence-to-decision
  lifecycle of \<open>evidence_decision_lifecycle.py\<close>.

  Fixtures and payloads are dictionaries read from JSON, so their entries have any type: each access that Python can refuse
  (\<open>.get\<close> of a value that is no dictionary, iteration over a number, \<open>in\<close> on a number, hashing a list) is an error of the
  model. The lemmas characterise every tier by the evidence it needs, show what a tier allows to be said, that the envelope
  is stable when it is attached again, and what the review gate refuses.
\<close>

section \<open>Proof tiers\<close>

datatype proof_tier = T0_OBSERVATION_ONLY | T1_LOCAL_CONFIG_EVIDENCE | T2_RUNTIME_CORROBORATION | T3_BEHAVIORAL_REPRODUCTION
  | T4_OPERATOR_CONFIRMED | T5_GOVERNANCE_PROOF | T6_CONTROLLED_VALIDATION | T7_INDEPENDENT_VERIFICATION

definition tier_order :: "proof_tier list" where
  "tier_order = [T0_OBSERVATION_ONLY, T1_LOCAL_CONFIG_EVIDENCE, T2_RUNTIME_CORROBORATION, T3_BEHAVIORAL_REPRODUCTION,
     T4_OPERATOR_CONFIRMED, T5_GOVERNANCE_PROOF, T6_CONTROLLED_VALIDATION, T7_INDEPENDENT_VERIFICATION]"

fun proof_tier_value :: "proof_tier \<Rightarrow> string" where
  "proof_tier_value T0_OBSERVATION_ONLY = ''T0_OBSERVATION_ONLY''"
| "proof_tier_value T1_LOCAL_CONFIG_EVIDENCE = ''T1_LOCAL_CONFIG_EVIDENCE''"
| "proof_tier_value T2_RUNTIME_CORROBORATION = ''T2_RUNTIME_CORROBORATION''"
| "proof_tier_value T3_BEHAVIORAL_REPRODUCTION = ''T3_BEHAVIORAL_REPRODUCTION''"
| "proof_tier_value T4_OPERATOR_CONFIRMED = ''T4_OPERATOR_CONFIRMED''"
| "proof_tier_value T5_GOVERNANCE_PROOF = ''T5_GOVERNANCE_PROOF''"
| "proof_tier_value T6_CONTROLLED_VALIDATION = ''T6_CONTROLLED_VALIDATION''"
| "proof_tier_value T7_INDEPENDENT_VERIFICATION = ''T7_INDEPENDENT_VERIFICATION''"

fun tier_index :: "proof_tier \<Rightarrow> nat" where
  "tier_index T0_OBSERVATION_ONLY = 0"
| "tier_index T1_LOCAL_CONFIG_EVIDENCE = 1"
| "tier_index T2_RUNTIME_CORROBORATION = 2"
| "tier_index T3_BEHAVIORAL_REPRODUCTION = 3"
| "tier_index T4_OPERATOR_CONFIRMED = 4"
| "tier_index T5_GOVERNANCE_PROOF = 5"
| "tier_index T6_CONTROLLED_VALIDATION = 6"
| "tier_index T7_INDEPENDENT_VERIFICATION = 7"

lemma tier_order_index: "tier_order ! tier_index t = t"
  by (cases t) (simp_all add: tier_order_def)

lemma tier_index_inj: "tier_index s = tier_index t \<longleftrightarrow> s = t"
  by (metis tier_order_index)

instantiation proof_tier :: linorder
begin

definition less_eq_proof_tier :: "proof_tier \<Rightarrow> proof_tier \<Rightarrow> bool" where
  "less_eq_proof_tier s t = (tier_index s \<le> tier_index t)"

definition less_proof_tier :: "proof_tier \<Rightarrow> proof_tier \<Rightarrow> bool" where
  "less_proof_tier s t = (tier_index s < tier_index t)"

instance
  by standard (auto simp: less_eq_proof_tier_def less_proof_tier_def tier_index_inj)

end

lemmas tier_le = less_eq_proof_tier_def less_proof_tier_def

definition default_limitations :: "string list" where
  "default_limitations = [
     ''Proof tiers describe evidence strength '' @ em_dash @ '' not malware, compromise, or MITM confirmation.'',
     ''Observation is not proof; correlation is not causation.'',
     ''Proof tier does not grant execution authority; policy and human approval remain separate.'']"

record proof_tier_result =
  ptr_tier :: proof_tier
  ptr_label :: string
  ptr_confidence_cap :: string
  ptr_limitations :: "string list"
  ptr_rationale :: string

subsection \<open>What a fixture shows\<close>

definition fixture_classification :: "pydict \<Rightarrow> string py_result" where
  "fixture_classification fx =
     bind_r (value_get (or_dict (dict_get fx ''classification'')) ''primary_classification'') (\<lambda>p.
       Inr (py_upper (py_str (py_or (py_or p (dict_get fx ''classification'')) (PyStr [])))))"

definition listener_found :: "pydict \<Rightarrow> bool option py_result" where
  "listener_found fx =
     (let owner = or_dict (py_or (dict_get fx ''proxy_owner'') (dict_get fx ''listener_info''))
      in bind_r (value_contains ''listener_found'' owner) (\<lambda>known.
           if known then bind_r (value_get owner ''listener_found'') (\<lambda>v. Inr (Some (truthy v)))
           else bind_r (value_get (or_dict (py_or (dict_get fx ''proxy_state'') (dict_get fx ''proxy_status''))) ''localhost_port'') (\<lambda>port.
             if port = PyNone then Inr None
             else bind_r (value_get owner ''process'') (\<lambda>p. Inr (if truthy p then Some True else None)))))"

definition status_supported :: "pyval \<Rightarrow> bool py_result" where
  "status_supported attempt = bind_r (value_get attempt ''status'') (\<lambda>v. Inr (v = PyStr ''supported''))"

definition proof_attempts :: "pyval \<Rightarrow> pyval list py_result" where
  "proof_attempts prf_block = bind_r (value_get prf_block ''proof_attempts'') iter_or_empty"

definition proof_supported :: "pydict \<Rightarrow> bool py_result" where
  "proof_supported fx =
     (let block = or_dict (dict_get fx ''proof'')
      in bind_r (value_get block ''conclusion'') (\<lambda>c.
           bind_r (status_supported (or_dict c)) (\<lambda>ok.
             if ok then Inr True else bind_r (proof_attempts block) (any_r status_supported))))"

definition runtime_checks :: "string list" where
  "runtime_checks = [''localhost_listener_check'', ''wininet_winhttp_comparison'', ''direct_https_probe'', ''proxied_https_probe'']"

definition runtime_attempt :: "pyval \<Rightarrow> bool py_result" where
  "runtime_attempt attempt =
     bind_r (value_get_or attempt ''name'' (PyStr [])) (\<lambda>nm.
       if py_lower (py_str nm) \<in> set runtime_checks
       then bind_r (value_get attempt ''status'') (\<lambda>v. Inr (v \<in> {PyStr ''supported'', PyStr ''failed''}))
       else Inr False)"

definition runtime_corroboration :: "pydict \<Rightarrow> bool py_result" where
  "runtime_corroboration fx =
     bind_r (proof_attempts (or_dict (dict_get fx ''proof''))) (\<lambda>as.
       bind_r (any_r runtime_attempt as) (\<lambda>b. if b then Inr True else proof_supported fx))"

text \<open>\<open>row.get(a) or row.get(b)\<close> as a condition.\<close>

definition row_flag :: "string \<Rightarrow> string \<Rightarrow> pyval \<Rightarrow> bool py_result" where
  "row_flag a b row = bind_r (value_get row a) (\<lambda>x. if truthy x then Inr True else bind_r (value_get row b) (\<lambda>y. Inr (truthy y)))"

definition operator_confirmed :: "pydict \<Rightarrow> bool py_result" where
  "operator_confirmed fx =
     (let policy = or_dict (dict_get fx ''policy_decision'')
      in bind_r (value_get policy ''executed'') (\<lambda>ex.
         bind_r (value_get_or policy ''dry_run'' (PyBool True)) (\<lambda>dry.
         bind_r (value_get policy ''confirmation_token_used'') (\<lambda>tok.
           if truthy ex \<and> \<not> truthy dry then Inr True
           else if py_strip (py_str (py_or tok (PyStr []))) \<noteq> [] then Inr True
           else bind_r (iter_or_empty (dict_get fx ''audit_log_entries'')) (any_r (row_flag ''confirmation_used'' ''executed''))))))"

definition governance_proof :: "pydict \<Rightarrow> bool py_result" where
  "governance_proof fx =
     bind_r (operator_confirmed fx) (\<lambda>op.
       if \<not> op then Inr False
       else bind_r (value_get (or_dict (dict_get fx ''audit_chain_verification'')) ''verified'') (\<lambda>v.
         if v = PyBool True then Inr True
         else bind_r (iter_or_empty (dict_get fx ''audit_log_entries'')) (\<lambda>rows.
           bind_r (any_r (row_flag ''replay_certified'' ''chain_verified'') rows) (\<lambda>b.
             Inr (b \<or> truthy (dict_get fx ''governance_proof''))))))"

text \<open>\<open>required = (v.get(k1) is True, ...)\<close> followed by \<open>all(required)\<close>.\<close>

fun all_true :: "pyval \<Rightarrow> string list \<Rightarrow> bool py_result" where
  "all_true v [] = Inr True"
| "all_true v (k # ks) = bind_r (value_get v k) (\<lambda>x. bind_r (all_true v ks) (\<lambda>b. Inr (x = PyBool True \<and> b)))"

definition validation_keys :: "string list" where
  "validation_keys = [''isolated_or_fixture_based'', ''change_applied'', ''failure_reproduced'', ''rollback_applied'',
     ''recovery_verified'', ''repeatable'']"

definition controlled_validation :: "pydict \<Rightarrow> bool py_result" where
  "controlled_validation fx =
     bind_r (all_true (or_dict (dict_get fx ''controlled_validation'')) validation_keys) (\<lambda>req.
       bind_r (governance_proof fx) (\<lambda>g. Inr (g \<and> req)))"

definition verification_keys :: "string list" where
  "verification_keys = [''independent_verifier'', ''evidence_bundle_verified'', ''hash_chain_verified'',
     ''deterministic_replay_verified'', ''classification_reproduced'']"

definition independent_verification :: "pydict \<Rightarrow> bool py_result" where
  "independent_verification fx =
     bind_r (all_true (or_dict (dict_get fx ''independent_verification'')) verification_keys) (\<lambda>req.
       bind_r (controlled_validation fx) (\<lambda>c. Inr (c \<and> req)))"

subsection \<open>The tier of a fixture\<close>

definition en_dash :: string where
  "en_dash = [CHR 0xE2, CHR 0x80, CHR 0x93]"

definition triage_labels :: "string list" where
  "triage_labels = [''POSSIBLE_MITM_RISK'', ''SUSPICIOUS_PROXY'']"

text \<open>The results of the five early returns.\<close>

definition assured :: "proof_tier \<Rightarrow> string \<Rightarrow> string \<Rightarrow> string \<Rightarrow> proof_tier_result" where
  "assured tier label why limitation =
     \<lparr>ptr_tier = tier, ptr_label = label, ptr_confidence_cap = ''ordinal_not_probability'',
      ptr_limitations = default_limitations @ [limitation], ptr_rationale = why\<rparr>"

definition triage_result :: proof_tier_result where
  "triage_result = assured T2_RUNTIME_CORROBORATION ''Runtime Corroboration''
     ''Suspicious/MITM classifications remain triage-only regardless of governance metadata.''
     (''MITM or suspicious labels remain triage '' @ em_dash @ '' not confirmed interception.'')"

definition independent_result :: proof_tier_result where
  "independent_result = assured T7_INDEPENDENT_VERIFICATION ''Independent verification''
     ''Independent verifier validated evidence integrity and deterministically reproduced the classification after controlled validation.''
     ''Independent verification increases assurance; it does not establish intent or remove human authorization requirements.''"

definition controlled_result :: proof_tier_result where
  "controlled_result = assured T6_CONTROLLED_VALIDATION ''Controlled causal validation''
     ''Controlled change reproduced the failure and rollback restored service repeatedly with governance evidence preserved.''
     ''Controlled validation supports a bounded causal mechanism, not universal causation.''"

definition governance_result :: proof_tier_result where
  "governance_result = assured T5_GOVERNANCE_PROOF ''Governance-confirmed reproducible evidence chain''
     ''Human-confirmed action with audit chain verification.''
     (''Governance proof supports committee reporting '' @ em_dash @ '' not formal audit opinion.'')"

definition operator_result :: proof_tier_result where
  "operator_result = assured T4_OPERATOR_CONFIRMED ''Operator-confirmed action recorded''
     ''Human confirmation or executed remediation with audit evidence.''
     ''Operator confirmation does not prove absence of compromise.''"

text \<open>The observational tail of the function: tiers T0 to T3, for the label, the listener and the two runtime findings.\<close>

definition config_present :: "pydict \<Rightarrow> string \<Rightarrow> bool" where
  "config_present fx primary = (primary \<noteq> [] \<or> truthy (dict_get fx ''proxy_state'') \<or> truthy (dict_get fx ''proxy_status''))"

definition observed_tier :: "pydict \<Rightarrow> string \<Rightarrow> bool option \<Rightarrow> bool \<Rightarrow> bool \<Rightarrow> proof_tier" where
  "observed_tier fx primary listener runtime supported =
     (let t1 = (if config_present fx primary then T1_LOCAL_CONFIG_EVIDENCE else T0_OBSERVATION_ONLY);
          t2 = (if runtime then T2_RUNTIME_CORROBORATION else t1);
          t3 = (if primary = ''DEAD_PROXY_CONFIG'' \<and> listener = Some False
                then (if runtime then T2_RUNTIME_CORROBORATION else T1_LOCAL_CONFIG_EVIDENCE) else t2)
      in if supported \<and> t3 = T2_RUNTIME_CORROBORATION \<and> primary \<noteq> ''DEAD_PROXY_CONFIG'' then T3_BEHAVIORAL_REPRODUCTION else t3)"

definition observed_rationale :: "pydict \<Rightarrow> string \<Rightarrow> bool option \<Rightarrow> bool \<Rightarrow> bool \<Rightarrow> string list" where
  "observed_rationale fx primary listener runtime supported =
     [''Baseline observation from available signals.''] @
     (if config_present fx primary then [''Local WinINET/WinHTTP configuration evidence present.''] else []) @
     (if runtime then [''Runtime path or stack contrast corroborates configuration hypothesis.''] else []) @
     (if primary = ''DEAD_PROXY_CONFIG'' \<and> listener = Some False \<and> \<not> runtime
      then [''Dead proxy without listener capped at T1'' @ en_dash @ ''T2; no behavioral reproduction claimed.''] else []) @
     (if observed_tier fx primary listener runtime supported = T3_BEHAVIORAL_REPRODUCTION
      then [''Structured proof checks support reproducible failure pattern.''] else [])"

definition observed_result :: "pydict \<Rightarrow> string \<Rightarrow> bool option \<Rightarrow> bool \<Rightarrow> bool \<Rightarrow> proof_tier_result" where
  "observed_result fx primary listener runtime supported =
     (let tier = observed_tier fx primary listener runtime supported
      in \<lparr>ptr_tier = tier, ptr_label = py_title (py_replace_char (CHR ''_'') (CHR '' '') (proof_tier_value tier)),
          ptr_confidence_cap = ''ordinal_not_probability'',
          ptr_limitations = default_limitations @
            (if primary = ''DEAD_PROXY_CONFIG'' \<and> listener = Some False then [''Dead localhost proxy config does not imply malware or MITM.''] else []),
          ptr_rationale = join_with '' '' (observed_rationale fx primary listener runtime supported)\<rparr>)"

definition resolve_proof_tier :: "pydict \<Rightarrow> proof_tier_result py_result" where
  "resolve_proof_tier fx =
     bind_r (fixture_classification fx) (\<lambda>primary.
     bind_r (listener_found fx) (\<lambda>listener.
       if primary \<in> set triage_labels then Inr triage_result
       else bind_r (independent_verification fx) (\<lambda>iv. if iv then Inr independent_result
       else bind_r (controlled_validation fx) (\<lambda>cv. if cv then Inr controlled_result
       else bind_r (governance_proof fx) (\<lambda>gp. if gp then Inr governance_result
       else bind_r (operator_confirmed fx) (\<lambda>op. if op then Inr operator_result
       else bind_r (runtime_corroboration fx) (\<lambda>rt.
            bind_r (proof_supported fx) (\<lambda>ps. Inr (observed_result fx primary listener rt ps)))))))))"


section \<open>The evidence-to-action envelope\<close>

definition accusatory_classifications :: "string list" where
  "accusatory_classifications = [''SUSPICIOUS_PROXY'', ''POSSIBLE_MITM_RISK'', ''UNKNOWN_LOCAL_PROXY'', ''REVERTER_SUSPECTED'']"

definition causal_language_tiers :: "string list" where
  "causal_language_tiers = [''attribution'', ''final_causation'']"

definition prohibited_causal_phrases :: "string list" where
  "prohibited_causal_phrases = [''caused by'', ''prove malware'', ''proved malware'', ''proves malware'', ''confirmed mitm'', ''confirms mitm'',
     ''prove mitm'', ''attacker'', ''compromised'', ''safe to execute automatically'']"

definition normal_strength :: "string \<Rightarrow> string" where
  "normal_strength t = replace_sub ''observed_only'' ''observation'' (py_lower t)"

definition resolve_claim_strength :: "pyval \<Rightarrow> pyval \<Rightarrow> string py_result" where
  "resolve_claim_strength evidence_tier proof_conclusion =
     (if truthy evidence_tier
      then (case evidence_tier of PyStr t \<Rightarrow> Inr (normal_strength t) | v \<Rightarrow> Inl (no_attribute v ''lower''))
      else if proof_conclusion = PyStr ''supported'' then Inr ''proof''
      else if proof_conclusion \<in> {PyStr ''weakened'', PyStr ''inconclusive''} then Inr ''correlation''
      else Inr ''observation'')"

definition causal_language_allowed :: "string \<Rightarrow> bool" where
  "causal_language_allowed claim_strength = (py_lower claim_strength \<in> set causal_language_tiers)"

definition classification_is_accusation :: "pyval \<Rightarrow> bool" where
  "classification_is_accusation primary = False"

definition resolve_execution_authority :: "pyval \<Rightarrow> bool \<Rightarrow> bool \<Rightarrow> bool \<Rightarrow> string py_result" where
  "resolve_execution_authority policy_outcome dry requires_confirmation executed =
     (case py_or policy_outcome (PyStr []) of
        PyStr t \<Rightarrow>
          (let outcome = py_upper t
           in Inr (if outcome = ''BLOCK'' \<or> outcome = ''DENY'' then ''blocked''
                   else if executed \<and> \<not> dry \<and> \<not> requires_confirmation then ''automated_forbidden''
                   else if dry \<or> outcome \<in> {''PREVIEW_ONLY'', ''PREVIEW''} then ''preview_only''
                   else if outcome = ''REQUIRE_TYPED_CONFIRMATION'' then ''human_required''
                   else ''human_required''))
      | v \<Rightarrow> Inl (no_attribute v ''upper''))"

text \<open>\<open>v in frozenset(...)\<close>: a list or a dictionary cannot be hashed.\<close>

fun in_frozenset :: "pyval \<Rightarrow> string list \<Rightarrow> bool py_result" where
  "in_frozenset (PyStr s) xs = Inr (s \<in> set xs)"
| "in_frozenset (PyList v) xs = Inl (TypeError (''unhashable type: '' @ [CHR 0x27] @ ''list'' @ [CHR 0x27]))"
| "in_frozenset (PyDict v) xs = Inl (TypeError (''unhashable type: '' @ [CHR 0x27] @ ''dict'' @ [CHR 0x27]))"
| "in_frozenset v xs = Inr False"

definition base_limitations :: "string list" where
  "base_limitations = [''Observation is not proof; correlation is not causation.'',
     ''Confidence is ordinal, not a statistical probability.'', ''Classification is not accusation.'',
     ''Policy permission is not a safety guarantee.'', ''Recommendation is not execution authority.'']"

definition build_governance_envelope ::
    "pyval \<Rightarrow> pyval \<Rightarrow> pyval \<Rightarrow> pyval \<Rightarrow> bool \<Rightarrow> bool \<Rightarrow> bool \<Rightarrow> pyval list \<Rightarrow> pydict py_result" where
  "build_governance_envelope primary evidence_tier proof_conclusion policy_outcome dry requires_confirmation executed limitations =
     bind_r (resolve_claim_strength evidence_tier proof_conclusion) (\<lambda>strength.
     bind_r (in_frozenset primary accusatory_classifications) (\<lambda>accusatory.
     bind_r (resolve_execution_authority policy_outcome dry requires_confirmation executed) (\<lambda>authority.
       Inr [(''governance_model'', PyStr ''evidence_to_action.v1''), (''claim_strength'', PyStr strength),
         (''confidence_type'', PyStr ''ordinal_not_probability''), (''causal_language_allowed'', PyBool (causal_language_allowed strength)),
         (''classification_is_accusation'', PyBool (classification_is_accusation primary)), (''execution_authority'', PyStr authority),
         (''limitations'', PyList (map PyStr base_limitations @ limitations @
            (if accusatory then [PyStr (py_str primary @ '' is an investigative label '' @ em_dash @ '' not a confirmed threat verdict.'')] else [])))])))"

subsection \<open>Reading the context from a payload\<close>

definition extract_classification :: "pydict \<Rightarrow> pyval py_result" where
  "extract_classification payload =
     (case dict_get payload ''classification'' of
        PyStr s \<Rightarrow> Inr (PyStr s)
      | PyDict cls \<Rightarrow> Inr (dict_get cls ''primary_classification'')
      | _ \<Rightarrow> (case dict_get payload ''classification_result'' of
          PyDict cr \<Rightarrow> Inr (dict_get cr ''primary_classification'')
        | _ \<Rightarrow> (case dict_get payload ''findings'' of
            PyList (f # fs) \<Rightarrow> value_get f ''classification''
          | _ \<Rightarrow> Inr PyNone)))"

definition extract_evidence_tier :: "pydict \<Rightarrow> pyval" where
  "extract_evidence_tier payload =
     (case List.find (\<lambda>k. truthy (dict_get payload k)) [''evidence_tier'', ''evidence_level'', ''claim_strength''] of
        Some k \<Rightarrow> PyStr (py_str (dict_get payload k))
      | None \<Rightarrow> (case dict_get payload ''governance'' of
          PyDict gov \<Rightarrow> if truthy (dict_get gov ''claim_strength'') then PyStr (py_str (dict_get gov ''claim_strength'')) else PyNone
        | _ \<Rightarrow> PyNone))"

definition extract_proof_conclusion :: "pydict \<Rightarrow> pyval" where
  "extract_proof_conclusion payload =
     (case dict_get payload ''conclusion'' of
        PyDict c \<Rightarrow> dict_get c ''status''
      | _ \<Rightarrow> (case py_or (dict_get payload ''proof'') (dict_get payload ''proof_status'') of
          PyDict p \<Rightarrow> (case dict_get p ''conclusion'' of PyDict c \<Rightarrow> dict_get c ''status'' | _ \<Rightarrow> dict_get p ''conclusion_status'')
        | _ \<Rightarrow> dict_get payload ''conclusion_status''))"

definition payload_policy :: "pydict \<Rightarrow> pyval" where
  "payload_policy payload = or_dict (py_or (dict_get payload ''policy_decision'') (dict_get payload ''policy''))"

definition extract_policy_outcome :: "pydict \<Rightarrow> pyval" where
  "extract_policy_outcome payload =
     (case payload_policy payload of PyDict p \<Rightarrow> py_or (dict_get p ''outcome'') (dict_get p ''decision'') | _ \<Rightarrow> PyNone)"

definition extract_dry_run :: "pydict \<Rightarrow> bool \<Rightarrow> bool" where
  "extract_dry_run payload d =
     (if has_key payload ''dry_run'' then truthy (dict_get payload ''dry_run'')
      else case payload_policy payload of
             PyDict p \<Rightarrow> if has_key p ''dry_run'' then truthy (dict_get p ''dry_run'') else d
           | _ \<Rightarrow> d)"

definition extract_requires_confirmation :: "pydict \<Rightarrow> bool \<Rightarrow> bool" where
  "extract_requires_confirmation payload d =
     (case payload_policy payload of
        PyDict p \<Rightarrow> if has_key p ''requires_confirmation'' then truthy (dict_get p ''requires_confirmation'') else d
      | _ \<Rightarrow> d)"

definition attach_governance_envelope :: "pydict \<Rightarrow> pydict \<Rightarrow> pydict py_result" where
  "attach_governance_envelope payload ctx =
     bind_r (if truthy (dict_get ctx ''primary_classification'') then Inr (dict_get ctx ''primary_classification'')
             else extract_classification payload) (\<lambda>primary.
     bind_r (iter_or_empty (py_or (dict_get ctx ''limitations'') (dict_get payload ''limitations''))) (\<lambda>limitations.
     bind_r (build_governance_envelope primary
        (py_or (dict_get ctx ''evidence_tier'') (extract_evidence_tier payload))
        (py_or (dict_get ctx ''proof_conclusion'') (extract_proof_conclusion payload))
        (py_or (dict_get ctx ''policy_outcome'') (extract_policy_outcome payload))
        (truthy (dict_get_or ctx ''dry_run'' (PyBool (extract_dry_run payload True))))
        (truthy (dict_get_or ctx ''requires_confirmation'' (PyBool (extract_requires_confirmation payload True))))
        (truthy (dict_get_or ctx ''executed'' (PyBool False)))
        limitations) (\<lambda>envelope.
       Inr (dict_set payload ''governance'' (PyDict envelope)))))"

subsection \<open>The language check of narratives\<close>

definition negations :: "string list" where
  "negations = [''does not '', ''do not '', ''not '', ''never '', ''without '']"

definition negated :: "string \<Rightarrow> string \<Rightarrow> bool" where
  "negated s phrase =
     (case find_sub phrase s of
        None \<Rightarrow> False
      | Some i \<Rightarrow> \<exists>neg \<in> set negations. py_in neg (drop (i - 24) (take i s)))"

definition narrative_passes_governance_language :: "string \<Rightarrow> string \<Rightarrow> string option \<Rightarrow> bool" where
  "narrative_passes_governance_language s claim_strength primary =
     (let low = py_lower s
      in if \<not> causal_language_allowed claim_strength \<and> (\<exists>p \<in> set prohibited_causal_phrases. py_in p low \<and> \<not> negated low p) then False
         else if primary = Some ''SUSPICIOUS_PROXY'' \<and> (\<exists>p \<in> set [''prove malware'', ''proved malware'', ''malware confirmed'']. py_in p low) then False
         else if primary = Some ''POSSIBLE_MITM_RISK'' \<and>
           (\<exists>p \<in> set [''confirmed mitm'', ''confirms mitm'', ''prove mitm'', ''proven mitm'']. py_in p low) then False
         else True)"

section \<open>Human review\<close>

definition review_classes :: "string list" where
  "review_classes = [''UNKNOWN_LOCAL_PROXY'', ''SUSPICIOUS_PROXY'', ''SUSPICIOUS_LOCAL_PROXY'', ''POSSIBLE_MITM_RISK'', ''REVERTER_SUSPECTED'']"

datatype human_review_status = PENDING_REVIEW | ACCEPTED | OVERRIDDEN | NEEDS_MORE_EVIDENCE | REJECTED | CLOSED

datatype review_action = ACCEPT_CLASSIFICATION | OVERRIDE_CLASSIFICATION | REQUEST_MORE_EVIDENCE | APPROVE_REMEDIATION_PREVIEW
  | REJECT_REMEDIATION | MARK_FALSE_POSITIVE | CLOSE_NO_ACTION

fun review_action_value :: "review_action \<Rightarrow> string" where
  "review_action_value ACCEPT_CLASSIFICATION = ''accept_classification''"
| "review_action_value OVERRIDE_CLASSIFICATION = ''override_classification''"
| "review_action_value REQUEST_MORE_EVIDENCE = ''request_more_evidence''"
| "review_action_value APPROVE_REMEDIATION_PREVIEW = ''approve_remediation_preview''"
| "review_action_value REJECT_REMEDIATION = ''reject_remediation''"
| "review_action_value MARK_FALSE_POSITIVE = ''mark_false_positive''"
| "review_action_value CLOSE_NO_ACTION = ''close_no_action''"

definition risky_approve_actions :: "string list" where
  "risky_approve_actions = [''approve_remediation_preview'', ''override_classification'']"

definition ai_actor_prefixes :: "string list" where
  "ai_actor_prefixes = [''ai_'', ''gpt'', ''claude'', ''copilot'', ''assistant'', ''model'']"

record human_review_item =
  hri_review_id :: string
  hri_incident_id :: string
  hri_evidence_id :: string
  hri_classification :: string
  hri_policy_decision_id :: string
  hri_status :: human_review_status
  hri_created_at :: string
  hri_assigned_to :: "string option"
  hri_reason :: string

record human_review_decision =
  hrd_review_id :: string
  hrd_action :: review_action
  hrd_reason :: string
  hrd_actor :: string
  hrd_timestamp :: string
  hrd_evidence_id :: string
  hrd_policy_decision_id :: string
  hrd_override :: "string option"

text \<open>The validator of the model class: constructing a decision without a reason raises.\<close>

definition require_reason :: "human_review_decision \<Rightarrow> human_review_decision py_result" where
  "require_reason d = (if py_strip (hrd_reason d) = [] then Inl (ValueError ''reason is required for human review decisions'') else Inr d)"

definition classification_needs_review :: "string \<Rightarrow> bool" where
  "classification_needs_review c = (py_upper c \<in> set review_classes)"

text \<open>The random identifier and the clock are arguments.\<close>

definition enqueue_from_incident ::
    "string \<Rightarrow> string \<Rightarrow> string \<Rightarrow> string \<Rightarrow> string \<Rightarrow> string \<Rightarrow> string option \<Rightarrow> human_review_item option" where
  "enqueue_from_incident uid now incident_id classification evidence_id policy_decision_id assigned_to =
     (if \<not> classification_needs_review classification then None
      else Some \<lparr>hri_review_id = ''HR-'' @ take 12 uid, hri_incident_id = incident_id, hri_evidence_id = evidence_id,
        hri_classification = py_upper classification, hri_policy_decision_id = policy_decision_id, hri_status = PENDING_REVIEW,
        hri_created_at = now, hri_assigned_to = assigned_to,
        hri_reason = ''Accusatory-adjacent classification requires human review.''\<rparr>)"

definition validate_decision_actor :: "human_review_decision \<Rightarrow> unit py_result" where
  "validate_decision_actor d =
     (let risky = (review_action_value (hrd_action d) \<in> set risky_approve_actions)
      in if (\<exists>p \<in> set ai_actor_prefixes. py_startswith (py_lower (hrd_actor d)) p) \<and> risky
         then Inl (ValueError ''AI actors cannot approve remediation or override classifications'')
         else if risky \<and> py_strip (hrd_evidence_id d) = [] then Inl (ValueError ''evidence_id required for risky review actions'')
         else if risky \<and> py_strip (hrd_policy_decision_id d) = [] then Inl (ValueError ''policy_decision_id required for risky review actions'')
         else Inr ())"

text \<open>The two files of the audit directory that the review workflow appends to.\<close>

record review_files =
  review_rows :: "pydict list"
  audit_rows :: "pydict list"

definition decision_row :: "human_review_decision \<Rightarrow> pydict" where
  "decision_row d = [(''review_id'', PyStr (hrd_review_id d)), (''action'', PyStr (review_action_value (hrd_action d))),
     (''reason'', PyStr (hrd_reason d)), (''actor'', PyStr (hrd_actor d)), (''timestamp'', PyStr (hrd_timestamp d)),
     (''evidence_id'', PyStr (hrd_evidence_id d)), (''policy_decision_id'', PyStr (hrd_policy_decision_id d)),
     (''override_classification'', optional_text (hrd_override d)), (''event'', PyStr ''human_review_decision'')]"

definition mirror_row :: "human_review_decision \<Rightarrow> pydict" where
  "mirror_row d = [(''timestamp'', PyStr (hrd_timestamp d)), (''incident_id'', PyStr (hrd_review_id d)),
     (''action'', PyStr (review_action_value (hrd_action d))), (''actor'', PyStr (hrd_actor d)), (''reason'', PyStr (hrd_reason d)),
     (''evidence_id'', PyStr (hrd_evidence_id d)), (''policy_decision_id'', PyStr (hrd_policy_decision_id d)),
     (''dry_run'', PyBool True), (''limitations'', PyList [PyStr (''Human review decision '' @ em_dash @ '' not autonomous remediation.'')])]"

definition record_review_decision :: "string \<Rightarrow> human_review_decision \<Rightarrow> review_files \<Rightarrow> pydict py_result \<times> review_files" where
  "record_review_decision now d files =
     (case validate_decision_actor d of
        Inl e \<Rightarrow> (Inl e, files)
      | Inr _ \<Rightarrow> (let d' = (if hrd_timestamp d = [] then d\<lparr>hrd_timestamp := now\<rparr> else d)
                 in (Inr (decision_row d'), \<lparr>review_rows = review_rows files @ [decision_row d'], audit_rows = audit_rows files @ [mirror_row d']\<rparr>)))"

section \<open>From a risk decision to the evidence lifecycle\<close>

datatype claim_status = PROPOSED | SUPPORTED | PARTIALLY_SUPPORTED | NOT_SUPPORTED | CLAIM_INCONCLUSIVE

datatype verification_status = VERIFIED | PARTIALLY_VERIFIED | NOT_VERIFIED | INCONCLUSIVE

text \<open>The fields of a \<open>RiskDecisionRecord\<close> that the adapter reads.\<close>

record risk_decision =
  rdr_incident_id :: string
  rdr_evidence_id :: string
  rdr_decision_key :: string
  rdr_classification :: string
  rdr_secondary_signals :: "string list"
  rdr_proof_tier :: proof_tier
  rdr_confidence_score :: rat
  rdr_confidence_label :: string
  rdr_limitations :: "string list"
  rdr_audit_id :: string

record claim =
  clm_claim_id :: string
  clm_incident_id :: string
  clm_statement :: string
  clm_source_observations :: "string list"
  clm_evidence_ids :: "string list"
  clm_status :: claim_status
  clm_created_at :: string

record verification_result =
  vr_claim_id :: string
  vr_status :: verification_status
  vr_checks_run :: "string list"
  vr_supporting_evidence :: "string list"
  vr_contradicting_evidence :: "string list"
  vr_limitations :: "string list"
  vr_reproducible :: bool
  vr_verified_at :: string

record uncertainty_assessment =
  ua_claim_id :: string
  ua_confidence_ordinal :: string
  ua_confidence_score :: rat
  ua_probability_calibrated :: bool
  ua_uncertainty_sources :: "string list"
  ua_missing_evidence :: "string list"

record knowledge_record =
  kr_knowledge_id :: string
  kr_incident_id :: string
  kr_claim_id :: string
  kr_statement :: string
  kr_verification_status :: verification_status
  kr_uncertainty :: uncertainty_assessment
  kr_evidence_ids :: "string list"
  kr_limitations :: "string list"
  kr_valid_for_decision :: bool
  kr_derived_at :: string

record evidence_lifecycle =
  elc_incident_id :: string
  elc_claim :: claim
  elc_verification :: verification_result
  elc_uncertainty :: uncertainty_assessment
  elc_knowledge :: knowledge_record
  elc_decision_id :: string

text \<open>\<open>int(str(proof_tier).split("_")[0].replace("T", ""))\<close>, with 0 for a text that is no number.\<close>

definition proof_rank :: "string \<Rightarrow> int" where
  "proof_rank tier = (case py_int_of_str (filter (\<lambda>c. c \<noteq> CHR ''T'') (takeWhile (\<lambda>c. c \<noteq> CHR ''_'') tier)) of Some n \<Rightarrow> n | None \<Rightarrow> 0)"

definition rank_status :: "int \<Rightarrow> verification_status \<times> claim_status" where
  "rank_status r = (if r \<ge> 3 then (VERIFIED, SUPPORTED) else if r \<ge> 2 then (PARTIALLY_VERIFIED, PARTIALLY_SUPPORTED) else (INCONCLUSIVE, CLAIM_INCONCLUSIVE))"

definition text_or :: "string \<Rightarrow> string \<Rightarrow> string" where
  "text_or a b = (if a = [] then b else a)"

definition assess_uncertainty :: "risk_decision \<Rightarrow> verification_status \<Rightarrow> uncertainty_assessment py_result" where
  "assess_uncertainty r status =
     (if rdr_confidence_score r < 0 then Inl (ValueError ''Input should be greater than or equal to 0'')
      else if rdr_confidence_score r > 1 then Inl (ValueError ''Input should be less than or equal to 1'')
      else Inr \<lparr>ua_claim_id = ''claim-'' @ rdr_incident_id r, ua_confidence_ordinal = rdr_confidence_label r,
        ua_confidence_score = rdr_confidence_score r, ua_probability_calibrated = False, ua_uncertainty_sources = rdr_limitations r,
        ua_missing_evidence = (if status = VERIFIED then []
          else [''Higher proof-tier corroboration may be required before stronger causal claims.''])\<rparr>)"

definition lifecycle_from_risk_decision :: "string \<Rightarrow> string \<Rightarrow> string \<Rightarrow> risk_decision \<Rightarrow> evidence_lifecycle py_result" where
  "lifecycle_from_risk_decision now1 now2 now3 r =
     (let inc = rdr_incident_id r; claim_id = ''claim-'' @ inc; classification = text_or (rdr_classification r) ''UNCLASSIFIED'';
          evidence_id = text_or (rdr_evidence_id r) (''ev-'' @ inc); rank = proof_rank (proof_tier_value (rdr_proof_tier r));
          (vstatus, cstatus) = rank_status rank
      in bind_r (assess_uncertainty r vstatus) (\<lambda>ua. Inr
        \<lparr>elc_incident_id = inc,
         elc_claim = \<lparr>clm_claim_id = claim_id, clm_incident_id = inc,
           clm_statement = ''Endpoint evidence is consistent with classification '' @ classification @ ''.'',
           clm_source_observations = rdr_secondary_signals r, clm_evidence_ids = [evidence_id], clm_status = cstatus, clm_created_at = now1\<rparr>,
         elc_verification = \<lparr>vr_claim_id = claim_id, vr_status = vstatus,
           vr_checks_run = [''proof_tier_resolution'', ''control_testing'', ''deterministic_classification''],
           vr_supporting_evidence = [evidence_id], vr_contradicting_evidence = [], vr_limitations = rdr_limitations r,
           vr_reproducible = (rank \<ge> 2), vr_verified_at = now2\<rparr>,
         elc_uncertainty = ua,
         elc_knowledge = \<lparr>kr_knowledge_id = ''knowledge-'' @ inc, kr_incident_id = inc, kr_claim_id = claim_id,
           kr_statement = (if vstatus = VERIFIED then ''Verified evidence supports '' @ classification @ ''.''
             else ''Available evidence is consistent with '' @ classification @ '', subject to stated limitations.''),
           kr_verification_status = vstatus, kr_uncertainty = ua, kr_evidence_ids = [evidence_id], kr_limitations = rdr_limitations r,
           kr_valid_for_decision = (vstatus \<in> {VERIFIED, PARTIALLY_VERIFIED}), kr_derived_at = now3\<rparr>,
         elc_decision_id = text_or (rdr_decision_key r) (rdr_audit_id r)\<rparr>))"

section \<open>Facts about proof tiers\<close>

lemma governance_needs_operator: "governance_proof fx = Inr True \<Longrightarrow> operator_confirmed fx = Inr True"
  by (auto simp: governance_proof_def bind_r_Inr split: if_splits)

lemma controlled_needs_governance: "controlled_validation fx = Inr True \<Longrightarrow> governance_proof fx = Inr True"
  by (auto simp: controlled_validation_def bind_r_Inr)

lemma independent_needs_controlled: "independent_verification fx = Inr True \<Longrightarrow> controlled_validation fx = Inr True"
  by (auto simp: independent_verification_def bind_r_Inr)

lemma all_true_iff: "all_true v ks = Inr b \<Longrightarrow> b \<longleftrightarrow> (\<forall>k \<in> set ks. value_get v k = Inr (PyBool True))"
  by (induction ks arbitrary: b) (auto simp: bind_r_Inr)

lemma supported_corroborates: "proof_supported fx = Inr True \<Longrightarrow> runtime_corroboration fx = Inr b \<Longrightarrow> b"
  by (auto simp: runtime_corroboration_def bind_r_Inr split: if_splits)

lemma tier_le_iff:
  "T4_OPERATOR_CONFIRMED \<le> t \<longleftrightarrow> t \<in> {T4_OPERATOR_CONFIRMED, T5_GOVERNANCE_PROOF, T6_CONTROLLED_VALIDATION, T7_INDEPENDENT_VERIFICATION}"
  "T5_GOVERNANCE_PROOF \<le> t \<longleftrightarrow> t \<in> {T5_GOVERNANCE_PROOF, T6_CONTROLLED_VALIDATION, T7_INDEPENDENT_VERIFICATION}"
  "T6_CONTROLLED_VALIDATION \<le> t \<longleftrightarrow> t \<in> {T6_CONTROLLED_VALIDATION, T7_INDEPENDENT_VERIFICATION}"
  "T7_INDEPENDENT_VERIFICATION \<le> t \<longleftrightarrow> t = T7_INDEPENDENT_VERIFICATION"
  by (cases t; simp add: tier_le)+

text \<open>The outcome of a fixture as one case distinction.\<close>

lemma resolve_cases:
  assumes "resolve_proof_tier fx = Inr r" and "fixture_classification fx = Inr primary"
  shows "if primary \<in> set triage_labels then r = triage_result
    else if independent_verification fx = Inr True then r = independent_result
    else if controlled_validation fx = Inr True then r = controlled_result
    else if governance_proof fx = Inr True then r = governance_result
    else if operator_confirmed fx = Inr True then r = operator_result
    else operator_confirmed fx = Inr False \<and>
      (\<exists>l rt ps. listener_found fx = Inr l \<and> runtime_corroboration fx = Inr rt \<and> proof_supported fx = Inr ps \<and> r = observed_result fx primary l rt ps)"
  using assms unfolding resolve_proof_tier_def by (auto simp: bind_r_Inr split: if_splits)

lemma observed_tier_iff:
  "observed_tier fx primary l rt ps \<le> T3_BEHAVIORAL_REPRODUCTION"
  "T2_RUNTIME_CORROBORATION \<le> observed_tier fx primary l rt ps \<longleftrightarrow> rt"
  "(ps \<longrightarrow> rt) \<Longrightarrow> observed_tier fx primary l rt ps = T3_BEHAVIORAL_REPRODUCTION \<longleftrightarrow> ps \<and> primary \<noteq> ''DEAD_PROXY_CONFIG''"
  "T1_LOCAL_CONFIG_EVIDENCE \<le> observed_tier fx primary l rt ps \<longleftrightarrow> rt \<or> config_present fx primary"
proof -
  define dead cfg where "dead \<longleftrightarrow> primary = ''DEAD_PROXY_CONFIG''" and "cfg \<longleftrightarrow> config_present fx primary"
  have dead: "dead \<Longrightarrow> cfg" by (simp add: dead_def cfg_def config_present_def)
  note t = observed_tier_def[of fx primary l rt ps, folded dead_def cfg_def, unfolded Let_def]
  show "observed_tier fx primary l rt ps \<le> T3_BEHAVIORAL_REPRODUCTION"
    "T2_RUNTIME_CORROBORATION \<le> observed_tier fx primary l rt ps \<longleftrightarrow> rt"
    unfolding t by (cases dead; cases cfg; cases rt; cases ps; simp add: tier_le)+
  show "observed_tier fx primary l rt ps = T3_BEHAVIORAL_REPRODUCTION \<longleftrightarrow> ps \<and> primary \<noteq> ''DEAD_PROXY_CONFIG''" if "ps \<longrightarrow> rt"
    unfolding t dead_def[symmetric] using that by (cases dead; cases cfg; cases rt; cases ps; simp)
  show "T1_LOCAL_CONFIG_EVIDENCE \<le> observed_tier fx primary l rt ps \<longleftrightarrow> rt \<or> config_present fx primary"
    unfolding t cfg_def[symmetric] using dead by (cases dead; cases cfg; cases rt; cases ps; simp add: tier_le)
qed

lemma result_tier [simp]:
  "ptr_tier triage_result = T2_RUNTIME_CORROBORATION" "ptr_tier independent_result = T7_INDEPENDENT_VERIFICATION"
  "ptr_tier controlled_result = T6_CONTROLLED_VALIDATION" "ptr_tier governance_result = T5_GOVERNANCE_PROOF"
  "ptr_tier operator_result = T4_OPERATOR_CONFIRMED"
  "ptr_tier (observed_result fx primary l rt ps) = observed_tier fx primary l rt ps"
  by (simp_all add: triage_result_def independent_result_def controlled_result_def governance_result_def operator_result_def
      observed_result_def assured_def Let_def)

lemma observed_tier_low: "observed_tier fx primary l rt ps \<notin>
    {T4_OPERATOR_CONFIRMED, T5_GOVERNANCE_PROOF, T6_CONTROLLED_VALIDATION, T7_INDEPENDENT_VERIFICATION}"
  using observed_tier_iff(1)[of fx primary l rt ps] by (auto simp: tier_le)

lemma tier_two_iff:
  assumes "resolve_proof_tier fx = Inr r" and "fixture_classification fx = Inr primary"
  shows "T2_RUNTIME_CORROBORATION \<le> ptr_tier r \<longleftrightarrow>
     primary \<in> set triage_labels \<or> operator_confirmed fx = Inr True \<or> runtime_corroboration fx = Inr True"
    and "primary \<in> set triage_labels \<Longrightarrow> ptr_tier r = T2_RUNTIME_CORROBORATION"
proof -
  note c = resolve_cases[OF assms]
  show t: "ptr_tier r = T2_RUNTIME_CORROBORATION" if "primary \<in> set triage_labels" using c that by simp
  show "T2_RUNTIME_CORROBORATION \<le> ptr_tier r \<longleftrightarrow>
     primary \<in> set triage_labels \<or> operator_confirmed fx = Inr True \<or> runtime_corroboration fx = Inr True"
  proof (cases "primary \<in> set triage_labels \<or> operator_confirmed fx = Inr True")
    case True
    then show ?thesis using c t by (auto simp: tier_le split: if_splits)
  next
    case False
    then show ?thesis using c governance_needs_operator controlled_needs_governance independent_needs_controlled
      by (auto simp: observed_tier_iff(2) split: if_splits)
  qed
qed

text \<open>
  C22 (a proof tier is exactly its evidence). A fixture whose label is no triage label reaches T7, T6, T5 and T4 exactly when
  independent verification, controlled validation, governance proof and operator confirmation hold; T3 exactly when, without an
  operator, a structured proof is supported and the label is not a dead proxy; T2 or more exactly with an operator or runtime
  corroboration. A triage label has T2 whatever else the fixture shows.
\<close>

theorem proof_tier_evidence:
  assumes "resolve_proof_tier fx = Inr r" and "fixture_classification fx = Inr primary"
  shows "if primary \<in> {''POSSIBLE_MITM_RISK'', ''SUSPICIOUS_PROXY''} then ptr_tier r = T2_RUNTIME_CORROBORATION
    else (ptr_tier r = T7_INDEPENDENT_VERIFICATION \<longleftrightarrow> independent_verification fx = Inr True) \<and>
      (T6_CONTROLLED_VALIDATION \<le> ptr_tier r \<longleftrightarrow> controlled_validation fx = Inr True) \<and>
      (T5_GOVERNANCE_PROOF \<le> ptr_tier r \<longleftrightarrow> governance_proof fx = Inr True) \<and>
      (T4_OPERATOR_CONFIRMED \<le> ptr_tier r \<longleftrightarrow> operator_confirmed fx = Inr True) \<and>
      (ptr_tier r = T3_BEHAVIORAL_REPRODUCTION \<longleftrightarrow>
         operator_confirmed fx \<noteq> Inr True \<and> proof_supported fx = Inr True \<and> primary \<noteq> ''DEAD_PROXY_CONFIG'') \<and>
      (T2_RUNTIME_CORROBORATION \<le> ptr_tier r \<longleftrightarrow> operator_confirmed fx = Inr True \<or> runtime_corroboration fx = Inr True)"
proof -
  note c = resolve_cases[OF assms]
  note up = governance_needs_operator controlled_needs_governance independent_needs_controlled
  show ?thesis
  proof (cases "primary \<in> set triage_labels \<or> operator_confirmed fx = Inr True")
    case True
    then show ?thesis using c up by (auto simp: triage_labels_def tier_le split: if_splits)
  next
    case False
    then obtain l rt ps where o: "listener_found fx = Inr l" "runtime_corroboration fx = Inr rt" "proof_supported fx = Inr ps"
      "r = observed_result fx primary l rt ps" using c up by (auto split: if_splits)
    have "ps \<longrightarrow> rt" using supported_corroborates[of fx rt] o by auto
    note t = observed_tier_iff(2) observed_tier_iff(3)[OF this, of fx primary l] observed_tier_low[of fx primary l rt ps]
    have no: "governance_proof fx \<noteq> Inr True" "controlled_validation fx \<noteq> Inr True" "independent_verification fx \<noteq> Inr True"
      using False up by blast+
    have "primary \<notin> {''POSSIBLE_MITM_RISK'', ''SUSPICIOUS_PROXY''}" using False by (simp add: triage_labels_def)
    moreover have "operator_confirmed fx \<noteq> Inr True" using False by blast
    ultimately show ?thesis using no t o by (simp add: tier_le_iff)
  qed
qed

definition sample_fixture :: pydict where
  "sample_fixture = [(''classification'', PyDict [(''primary_classification'', PyStr ''LOCAL_PROXY_ACTIVE'')]),
     (''proof'', PyDict [(''proof_attempts'', PyList [PyDict [(''name'', PyStr ''direct_https_probe''), (''status'', PyStr ''supported'')]])])]"

lemma sample_resolves: "\<exists>r. resolve_proof_tier sample_fixture = Inr r"
  "fixture_classification sample_fixture = Inr ''LOCAL_PROXY_ACTIVE''" "operator_confirmed sample_fixture = Inr False"
  "proof_supported sample_fixture = Inr True" "runtime_corroboration sample_fixture = Inr True"
proof -
  show c: "fixture_classification sample_fixture = Inr ''LOCAL_PROXY_ACTIVE''" by code_simp
  show op: "operator_confirmed sample_fixture = Inr False" by code_simp
  show ps: "proof_supported sample_fixture = Inr True" by code_simp
  show rt: "runtime_corroboration sample_fixture = Inr True" by code_simp
  have "listener_found sample_fixture = Inr None" "independent_verification sample_fixture = Inr False"
    "controlled_validation sample_fixture = Inr False" "governance_proof sample_fixture = Inr False" by code_simp+
  then show "\<exists>r. resolve_proof_tier sample_fixture = Inr r"
    by (simp add: resolve_proof_tier_def c op ps rt triage_labels_def)
qed

text \<open>A local proxy whose failure a structured probe reproduced has tier T3.\<close>

theorem proof_tier_evidence_witness: "\<exists>r. resolve_proof_tier sample_fixture = Inr r \<and> ptr_tier r = T3_BEHAVIORAL_REPRODUCTION"
proof -
  obtain r where r: "resolve_proof_tier sample_fixture = Inr r" using sample_resolves(1) by blast
  have "ptr_tier r = T3_BEHAVIORAL_REPRODUCTION"
    using proof_tier_evidence[OF r sample_resolves(2)] by (simp add: sample_resolves)
  with r show ?thesis by blast
qed

section \<open>Facts about the lifecycle\<close>

lemma rank_text: "filter (\<lambda>c. c \<noteq> CHR ''T'') (takeWhile (\<lambda>c. c \<noteq> CHR ''_'') (proof_tier_value t)) = nat_str (tier_index t)"
proof -
  have "digit_char 0 = CHR ''0''" "digit_char (Suc 0) = CHR ''1''" "digit_char 2 = CHR ''2''" "digit_char 3 = CHR ''3''"
    "digit_char 4 = CHR ''4''" "digit_char 5 = CHR ''5''" "digit_char 6 = CHR ''6''" "digit_char 7 = CHR ''7''" by code_simp+
  then show ?thesis by (cases t) (simp_all add: nat_str.simps)
qed

lemma proof_rank_index: "proof_rank (proof_tier_value t) = int (tier_index t)"
  by (simp add: proof_rank_def rank_text)

lemma assess_fields:
  "assess_uncertainty rd st = Inr ua \<Longrightarrow> \<not> ua_probability_calibrated ua \<and> 0 \<le> ua_confidence_score ua \<and> ua_confidence_score ua \<le> 1"
  by (auto simp: assess_uncertainty_def split: if_splits)

lemma lifecycle_fields:
  assumes "lifecycle_from_risk_decision n1 n2 n3 rd = Inr lc"
  shows "kr_valid_for_decision (elc_knowledge lc) \<longleftrightarrow> T2_RUNTIME_CORROBORATION \<le> rdr_proof_tier rd"
    and "vr_status (elc_verification lc) = VERIFIED \<longleftrightarrow> T3_BEHAVIORAL_REPRODUCTION \<le> rdr_proof_tier rd"
    and "vr_status (elc_verification lc) = PARTIALLY_VERIFIED \<longleftrightarrow> rdr_proof_tier rd = T2_RUNTIME_CORROBORATION"
    and "kr_verification_status (elc_knowledge lc) = vr_status (elc_verification lc)"
    and "elc_uncertainty lc = kr_uncertainty (elc_knowledge lc)"
    and "kr_limitations (elc_knowledge lc) = rdr_limitations rd"
    and "\<not> ua_probability_calibrated (elc_uncertainty lc)" and "0 \<le> ua_confidence_score (elc_uncertainty lc)"
    and "ua_confidence_score (elc_uncertainty lc) \<le> 1"
proof -
  have l: "elc_uncertainty lc = kr_uncertainty (elc_knowledge lc)"
    "(vr_status (elc_verification lc), clm_status (elc_claim lc)) = rank_status (int (tier_index (rdr_proof_tier rd)))"
    "kr_valid_for_decision (elc_knowledge lc) \<longleftrightarrow> vr_status (elc_verification lc) \<in> {VERIFIED, PARTIALLY_VERIFIED}"
    "kr_verification_status (elc_knowledge lc) = vr_status (elc_verification lc)" "kr_limitations (elc_knowledge lc) = rdr_limitations rd"
    "assess_uncertainty rd (vr_status (elc_verification lc)) = Inr (elc_uncertainty lc)"
    using assms by (auto simp: lifecycle_from_risk_decision_def Let_def bind_r_Inr proof_rank_index split: prod.splits)
  then show "kr_verification_status (elc_knowledge lc) = vr_status (elc_verification lc)" "elc_uncertainty lc = kr_uncertainty (elc_knowledge lc)"
    "kr_limitations (elc_knowledge lc) = rdr_limitations rd" by simp_all
  show "kr_valid_for_decision (elc_knowledge lc) \<longleftrightarrow> T2_RUNTIME_CORROBORATION \<le> rdr_proof_tier rd"
    "vr_status (elc_verification lc) = VERIFIED \<longleftrightarrow> T3_BEHAVIORAL_REPRODUCTION \<le> rdr_proof_tier rd"
    "vr_status (elc_verification lc) = PARTIALLY_VERIFIED \<longleftrightarrow> rdr_proof_tier rd = T2_RUNTIME_CORROBORATION"
    using l(2,3) by (cases "rdr_proof_tier rd"; simp add: rank_status_def tier_le)+
  show "\<not> ua_probability_calibrated (elc_uncertainty lc)" "0 \<le> ua_confidence_score (elc_uncertainty lc)"
    "ua_confidence_score (elc_uncertainty lc) \<le> 1"
    using assess_fields[OF l(6)] by simp_all
qed

text \<open>
  (what a decision may rest on). The proof tier of a fixture carried through the risk decision into the lifecycle: the
  knowledge record is valid for decisions exactly when an operator confirmed an action, runtime evidence corroborates the label, or
  the label is one of the two triage labels; it counts as verified only from tier T3 on, so never for a triage label; it keeps the
  limitations of the decision, never calls its confidence a probability and keeps it in [0, 1].
\<close>

theorem knowledge_valid_iff:
  assumes "resolve_proof_tier fx = Inr r" and "fixture_classification fx = Inr primary"
    and "rdr_proof_tier rd = ptr_tier r" and "lifecycle_from_risk_decision n1 n2 n3 rd = Inr lc"
  shows "(kr_valid_for_decision (elc_knowledge lc) \<longleftrightarrow>
       primary \<in> {''POSSIBLE_MITM_RISK'', ''SUSPICIOUS_PROXY''} \<or> operator_confirmed fx = Inr True \<or> runtime_corroboration fx = Inr True) \<and>
     (primary \<in> {''POSSIBLE_MITM_RISK'', ''SUSPICIOUS_PROXY''} \<longrightarrow> vr_status (elc_verification lc) = PARTIALLY_VERIFIED) \<and>
     kr_limitations (elc_knowledge lc) = rdr_limitations rd \<and> \<not> ua_probability_calibrated (kr_uncertainty (elc_knowledge lc)) \<and>
     0 \<le> ua_confidence_score (kr_uncertainty (elc_knowledge lc)) \<and> ua_confidence_score (kr_uncertainty (elc_knowledge lc)) \<le> 1"
proof -
  note f = lifecycle_fields[OF assms(4), unfolded assms(3)] and t = tier_two_iff[OF assms(1,2), unfolded triage_labels_def]
  show ?thesis using f t by (simp only: list.set simp_thms) simp
qed

text \<open>A local proxy whose failure a probe reproduced, with a confidence of three quarters.\<close>

theorem knowledge_valid_iff_witness:
  "\<exists>r lc. resolve_proof_tier sample_fixture = Inr r \<and>
     lifecycle_from_risk_decision ''t1'' ''t2'' ''t3'' \<lparr>rdr_incident_id = ''INC-1'', rdr_evidence_id = [], rdr_decision_key = ''k'',
       rdr_classification = ''LOCAL_PROXY_ACTIVE'', rdr_secondary_signals = [], rdr_proof_tier = ptr_tier r, rdr_confidence_score = 3/4,
       rdr_confidence_label = ''medium'', rdr_limitations = [''one host''], rdr_audit_id = ''a''\<rparr> = Inr lc \<and>
     kr_valid_for_decision (elc_knowledge lc) \<and> kr_limitations (elc_knowledge lc) = [''one host'']"
proof -
  obtain r where r: "resolve_proof_tier sample_fixture = Inr r" using sample_resolves(1) by blast
  let ?rd = "\<lparr>rdr_incident_id = ''INC-1'', rdr_evidence_id = [], rdr_decision_key = ''k'',
       rdr_classification = ''LOCAL_PROXY_ACTIVE'', rdr_secondary_signals = [], rdr_proof_tier = ptr_tier r, rdr_confidence_score = 3/4,
       rdr_confidence_label = ''medium'', rdr_limitations = [''one host''], rdr_audit_id = ''a''\<rparr>"
  obtain lc where lc: "lifecycle_from_risk_decision ''t1'' ''t2'' ''t3'' ?rd = Inr lc"
    by (simp add: lifecycle_from_risk_decision_def assess_uncertainty_def Let_def split_beta)
  have "rdr_proof_tier ?rd = ptr_tier r" by simp
  from knowledge_valid_iff[OF r sample_resolves(2) this lc] r lc sample_resolves show ?thesis by auto
qed

section \<open>Facts about the language check\<close>









text \<open>Only the first occurrence counts: an accusation after a denial of the same words passes.\<close>

lemma accusation_after_denial_passes:
  "narrative_passes_governance_language ''It does not prove malware. Later logs prove malware.'' (normal_strength (proof_tier_value t)) None"
proof -
  have "\<forall>p \<in> set prohibited_causal_phrases. py_in p (py_lower ''It does not prove malware. Later logs prove malware.'') \<longrightarrow>
      negated (py_lower ''It does not prove malware. Later logs prove malware.'') p" by code_simp
  then show ?thesis by (auto simp: narrative_passes_governance_language_def Let_def)
qed

text \<open>The two labels that the resolver caps at tier T2 get that tier without any evidence.\<close>

lemma triage_label_without_evidence:
  "\<exists>r. resolve_proof_tier [(''classification'', PyDict [(''primary_classification'', PyStr ''SUSPICIOUS_PROXY'')])] = Inr r \<and>
     ptr_tier r = T2_RUNTIME_CORROBORATION \<and>
     runtime_corroboration [(''classification'', PyDict [(''primary_classification'', PyStr ''SUSPICIOUS_PROXY'')])] = Inr False"
proof -
  let ?fx = "[(''classification'', PyDict [(''primary_classification'', PyStr ''SUSPICIOUS_PROXY'')])]"
  have "fixture_classification ?fx = Inr ''SUSPICIOUS_PROXY''" "listener_found ?fx = Inr None" "runtime_corroboration ?fx = Inr False"
    by code_simp+
  then show ?thesis by (simp add: resolve_proof_tier_def triage_labels_def)
qed

text \<open>A label given as a string, which the second alternative of the reader is written for, raises.\<close>

lemma string_label_raises:
  "l \<noteq> [] \<Longrightarrow> dict_get fx ''classification'' = PyStr l \<Longrightarrow> resolve_proof_tier fx = Inl (no_attribute (PyStr l) ''get'')"
  by (simp add: resolve_proof_tier_def fixture_classification_def or_dict_def py_or_def)

section \<open>Facts about the envelope\<close>

lemma lower_normal [simp]: "py_lower (normal_strength t) = normal_strength t"
proof -
  have fix1: "\<forall>c \<in> set ''observation''. lower_char c = c" by code_simp
  have "lower_char c = c" if "c \<in> set (normal_strength t)" for c
    using that set_replace_sub[of "''observed_only''" "''observation''" "py_lower t"] fix1
    by (auto simp: normal_strength_def py_lower_def)
  then show ?thesis unfolding py_lower_def by (simp add: map_idI)
qed

text \<open>Replacing creates no new occurrence: a tail of the pattern that starts the result already starts the text.\<close>

lemma prefix_replace_tail:
  "suffix p ''observed_only'' \<Longrightarrow> prefix p (replace_sub ''observed_only'' ''observation'' s) \<Longrightarrow> prefix p s"
proof (induction p arbitrary: s)
  case (Cons a p)
  have "\<forall>q \<in> set (suffixes ''observed_only''). q \<noteq> [] \<longrightarrow> \<not> prefix q ''observation'' \<and> \<not> prefix ''observation'' q" by code_simp
  moreover have "a # p \<in> set (suffixes ''observed_only'')" using Cons.prems(1) by (simp only: in_set_suffixes)
  ultimately have "\<not> prefix (a # p) ''observation'' \<and> \<not> prefix ''observation'' (a # p)" by blast
  then have new: "\<not> prefix (a # p) (''observation'' @ r)" for r
    using prefix_same_cases[of "a # p" "''observation'' @ r" "''observation''"] prefixI[of "''observation'' @ r" "''observation''" r] by blast
  show ?case
  proof (cases s)
    case Nil
    then show ?thesis using Cons.prems(2) by simp
  next
    case s: (Cons c t)
    have no: "\<not> prefix ''observed_only'' s" using Cons.prems(2) new unfolding s by (auto simp del: append.simps)
    then have "prefix (a # p) (c # replace_sub ''observed_only'' ''observation'' t)"
      using Cons.prems(2) unfolding s by (simp only: replace_sub_other simp_thms)
    moreover have "suffix p ''observed_only''" using Cons.prems(1) by (rule suffix_ConsD)
    ultimately show ?thesis using Cons.IH[of t] unfolding s by (simp only: Cons_prefix_Cons simp_thms)
  qed
qed simp

lemma replace_new: "replace_sub ''observed_only'' ''observation'' (''observation'' @ r) = ''observation'' @ replace_sub ''observed_only'' ''observation'' r"
  by simp

lemma replace_idem: "replace_sub ''observed_only'' ''observation'' (replace_sub ''observed_only'' ''observation'' s) = replace_sub ''observed_only'' ''observation'' s"
proof (induction "''observed_only''" "''observation''" s rule: replace_sub.induct)
  case (2 c s)
  let ?R = "replace_sub ''observed_only'' ''observation''"
  show ?case
  proof (cases "prefix ''observed_only'' (c # s)")
    case True
    then have t: "''observed_only'' \<noteq> [] \<and> prefix ''observed_only'' (c # s)" by (simp only: list.distinct simp_thms)
    then have "?R (c # s) = ''observation'' @ ?R (drop (length ''observed_only'' - 1) s)" by (simp only: replace_sub.simps(2) if_True simp_thms)
    then show ?thesis by (simp only: replace_new 2(1)[OF t])
  next
    case False
    have "\<not> prefix ''observed_only'' (c # ?R s)"
    proof
      assume "prefix ''observed_only'' (c # ?R s)"
      then have "c = CHR ''o''" "prefix ''bserved_only'' (?R s)" by auto
      then show False using prefix_replace_tail[of "''bserved_only''" s] False by (auto simp: suffix_def)
    qed
    moreover have "?R (?R s) = ?R s" using 2(2) False by blast
    ultimately show ?thesis using False by (simp only: replace_sub_other simp_thms)
  qed
qed simp

lemma normal_strength_idem [simp]: "normal_strength (normal_strength t) = normal_strength t"
  unfolding normal_strength_def[of "normal_strength t"] lower_normal by (simp add: normal_strength_def replace_idem)

lemma normal_strength_Nil: "normal_strength t = [] \<longleftrightarrow> t = []"
  by (cases t) (simp_all add: normal_strength_def py_lower_def)

lemma dict_set_again: "dict_set (dict_set d k v) k v = dict_set d k v"
  by (induction d k v rule: dict_set.induct) auto

lemma claim_strength_stable:
  assumes "resolve_claim_strength et pc = Inr st"
  shows "st \<noteq> [] \<and> normal_strength st = st"
proof -
  have "st \<in> {''proof'', ''correlation'', ''observation''} \<or> (\<exists>t. t \<noteq> [] \<and> st = normal_strength t)"
    using assms by (auto simp: resolve_claim_strength_def split: if_splits pyval.splits)
  moreover have "normal_strength ''proof'' = ''proof''" "normal_strength ''correlation'' = ''correlation''"
    "normal_strength ''observation'' = ''observation''" by code_simp+
  ultimately show ?thesis by (auto simp: normal_strength_Nil)
qed

lemma extract_after_set:
  "extract_classification (dict_set payload ''governance'' g) = extract_classification payload"
  "extract_proof_conclusion (dict_set payload ''governance'' g) = extract_proof_conclusion payload"
  "extract_policy_outcome (dict_set payload ''governance'' g) = extract_policy_outcome payload"
  "extract_dry_run (dict_set payload ''governance'' g) d = extract_dry_run payload d"
  "extract_requires_confirmation (dict_set payload ''governance'' g) d = extract_requires_confirmation payload d"
  by (simp_all add: extract_classification_def extract_proof_conclusion_def extract_policy_outcome_def extract_dry_run_def
      extract_requires_confirmation_def payload_policy_def cong: pyval.case_cong)

lemma strength_again:
  assumes "resolve_claim_strength (extract_evidence_tier payload) pc = Inr st" and "dict_get env ''claim_strength'' = PyStr st"
  shows "resolve_claim_strength (extract_evidence_tier (dict_set payload ''governance'' (PyDict env))) pc = Inr st"
proof -
  let ?keys = "[''evidence_tier'', ''evidence_level'', ''claim_strength'']"
  have same: "List.find (\<lambda>k. truthy (dict_get (dict_set payload ''governance'' (PyDict env)) k)) ?keys = List.find (\<lambda>k. truthy (dict_get payload k)) ?keys"
    by simp
  note st = claim_strength_stable[OF assms(1)]
  show ?thesis
  proof (cases "List.find (\<lambda>k. truthy (dict_get payload k)) ?keys")
    case None
    then have "extract_evidence_tier (dict_set payload ''governance'' (PyDict env)) = PyStr st"
      unfolding extract_evidence_tier_def same using assms(2) st by simp
    then show ?thesis using st by (simp add: resolve_claim_strength_def)
  next
    case (Some k)
    then have "k \<noteq> ''governance''" by (auto split: if_splits)
    then have "extract_evidence_tier (dict_set payload ''governance'' (PyDict env)) = extract_evidence_tier payload"
      unfolding extract_evidence_tier_def same using Some by simp
    then show ?thesis using assms(1) by simp
  qed
qed

lemma build_envelope_fields:
  assumes "build_governance_envelope primary et pc po dry rc ex lims = Inr env"
  obtains st auth where "resolve_claim_strength et pc = Inr st" "dict_get env ''claim_strength'' = PyStr st"
    "resolve_execution_authority po dry rc ex = Inr auth" "dict_get env ''execution_authority'' = PyStr auth"
  using assms by (auto simp: build_governance_envelope_def bind_r_Inr dict_get_def)

text \<open>
  (the envelope is stable). Attaching the governance envelope changes no entry of a payload but \<open>governance\<close>; attaching it to a payload
  that already carries it gives the same payload again, although the second run reads its claim strength from the first envelope; and
  a payload that names no policy and no dry-run flag has preview authority only.
\<close>

theorem attach_governance_stable:
  assumes "attach_governance_envelope payload [] = Inr out"
  shows "attach_governance_envelope out [] = Inr out \<and>
    (\<forall>k. k \<noteq> ''governance'' \<longrightarrow> dict_get out k = dict_get payload k) \<and>
    (\<not> has_key payload ''dry_run'' \<and> \<not> has_key payload ''policy_decision'' \<and> \<not> has_key payload ''policy'' \<longrightarrow>
       dict_get (as_dict (dict_get out ''governance'')) ''execution_authority'' = PyStr ''preview_only'')"
proof -
  obtain primary lims env where p: "extract_classification payload = Inr primary" "iter_or_empty (dict_get payload ''limitations'') = Inr lims"
    and b: "build_governance_envelope primary (extract_evidence_tier payload) (extract_proof_conclusion payload) (extract_policy_outcome payload)
        (extract_dry_run payload True) (extract_requires_confirmation payload True) False lims = Inr env"
    and out: "out = dict_set payload ''governance'' (PyDict env)"
    using assms by (auto simp: attach_governance_envelope_def bind_r_Inr dict_get_def[of "[]"] dict_get_or_def[of "[]"] py_or_def)
  obtain st auth where f: "resolve_claim_strength (extract_evidence_tier payload) (extract_proof_conclusion payload) = Inr st"
    "dict_get env ''claim_strength'' = PyStr st"
    "resolve_execution_authority (extract_policy_outcome payload) (extract_dry_run payload True) (extract_requires_confirmation payload True) False = Inr auth"
    "dict_get env ''execution_authority'' = PyStr auth"
    using build_envelope_fields[OF b] by blast
  have "attach_governance_envelope out [] = Inr out"
    using b strength_again[OF f(1,2)] f(1)
    by (simp add: attach_governance_envelope_def dict_get_def[of "[]"] dict_get_or_def[of "[]"] py_or_def out extract_after_set p dict_set_again
        build_governance_envelope_def)
  moreover have "auth = ''preview_only''"
    if "\<not> has_key payload ''dry_run'' \<and> \<not> has_key payload ''policy_decision'' \<and> \<not> has_key payload ''policy''"
  proof -
    have "payload_policy payload = PyDict []" using that by (simp add: payload_policy_def or_dict_def py_or_def dict_get_def has_key_def)
    then show ?thesis using f(3) that
      by (simp add: extract_policy_outcome_def extract_dry_run_def extract_requires_confirmation_def py_or_def dict_get_def has_key_def
          resolve_execution_authority_def py_upper_def)
  qed
  ultimately show ?thesis using f(4) by (auto simp: out)
qed

text \<open>A supported proof about a suspicious proxy, with no policy named.\<close>

theorem attach_governance_stable_witness:
  "\<exists>out. attach_governance_envelope [(''classification'', PyStr ''SUSPICIOUS_PROXY''), (''conclusion'', PyDict [(''status'', PyStr ''supported'')])] [] = Inr out \<and>
     attach_governance_envelope out [] = Inr out \<and>
     dict_get (as_dict (dict_get out ''governance'')) ''execution_authority'' = PyStr ''preview_only''"
proof -
  let ?p = "[(''classification'', PyStr ''SUSPICIOUS_PROXY''), (''conclusion'', PyDict [(''status'', PyStr ''supported'')])]"
  have "isl (attach_governance_envelope ?p []) = False" by code_simp
  then obtain out where o: "attach_governance_envelope ?p [] = Inr out" by (cases "attach_governance_envelope ?p []") auto
  have "\<not> has_key ?p ''dry_run'' \<and> \<not> has_key ?p ''policy_decision'' \<and> \<not> has_key ?p ''policy''" by (simp add: has_key_def)
  with attach_governance_stable[OF o] o show ?thesis by blast
qed

section \<open>Facts about human review\<close>

lemma risky_iff: "review_action_value a \<in> set risky_approve_actions \<longleftrightarrow> a \<in> {APPROVE_REMEDIATION_PREVIEW, OVERRIDE_CLASSIFICATION}"
  by (cases a) (simp_all add: risky_approve_actions_def)

lemma rows_agree:
  "k \<in> {''timestamp'', ''action'', ''actor'', ''reason'', ''evidence_id'', ''policy_decision_id''} \<Longrightarrow> dict_get (mirror_row d) k = dict_get (decision_row d) k"
  by (auto simp: mirror_row_def decision_row_def dict_get_def)

text \<open>
  (the review gate). Recording a human review decision raises, and writes nothing, exactly when the action approves a remediation or
  overrides a label and the actor's name starts like an AI's, or the evidence or the policy decision is not named; otherwise it
  appends one row to each of the two files, the rows agree on what was decided, by whom and why, and carry a time stamp.
\<close>

theorem review_gate:
  assumes "record_review_decision now d files = (res, files')" and "now \<noteq> []"
  shows "if hrd_action d \<in> {APPROVE_REMEDIATION_PREVIEW, OVERRIDE_CLASSIFICATION} \<and>
      ((\<exists>p \<in> set ai_actor_prefixes. prefix p (py_lower (hrd_actor d))) \<or> py_strip (hrd_evidence_id d) = [] \<or> py_strip (hrd_policy_decision_id d) = [])
    then (\<exists>m. res = Inl (ValueError m)) \<and> files' = files
    else \<exists>row mirror. res = Inr row \<and> review_rows files' = review_rows files @ [row] \<and> audit_rows files' = audit_rows files @ [mirror] \<and>
      (\<forall>k \<in> {''timestamp'', ''action'', ''actor'', ''reason'', ''evidence_id'', ''policy_decision_id''}. dict_get mirror k = dict_get row k) \<and>
      dict_get mirror ''dry_run'' = PyBool True \<and> dict_get row ''timestamp'' \<noteq> PyStr []"
proof (cases "validate_decision_actor d")
  case (Inl e)
  then show ?thesis using assms(1)
    unfolding record_review_decision_def validate_decision_actor_def Let_def risky_iff py_startswith_def by (auto split: if_splits)
next
  case (Inr u)
  let ?d = "if hrd_timestamp d = [] then d\<lparr>hrd_timestamp := now\<rparr> else d"
  have ok: "\<not> (hrd_action d \<in> {APPROVE_REMEDIATION_PREVIEW, OVERRIDE_CLASSIFICATION} \<and>
      ((\<exists>p \<in> set ai_actor_prefixes. prefix p (py_lower (hrd_actor d))) \<or> py_strip (hrd_evidence_id d) = [] \<or> py_strip (hrd_policy_decision_id d) = []))"
    using Inr unfolding validate_decision_actor_def Let_def risky_iff py_startswith_def by (auto split: if_splits)
  have "res = Inr (decision_row ?d) \<and> review_rows files' = review_rows files @ [decision_row ?d] \<and> audit_rows files' = audit_rows files @ [mirror_row ?d]"
    using assms(1) Inr by (auto simp: record_review_decision_def Let_def)
  moreover have "dict_get (mirror_row ?d) ''dry_run'' = PyBool True \<and> dict_get (decision_row ?d) ''timestamp'' \<noteq> PyStr []"
    using assms(2) by (simp add: mirror_row_def decision_row_def dict_get_def)
  ultimately show ?thesis using ok rows_agree by (simp only: if_False) blast
qed

text \<open>A person approves a preview, citing the evidence and the policy decision.\<close>

theorem review_gate_witness:
  "\<exists>res files'. record_review_decision ''t'' \<lparr>hrd_review_id = ''HR-1'', hrd_action = APPROVE_REMEDIATION_PREVIEW, hrd_reason = ''ok'', hrd_actor = ''alice'',
       hrd_timestamp = [], hrd_evidence_id = ''ev-1'', hrd_policy_decision_id = ''pd-1'', hrd_override = None\<rparr> \<lparr>review_rows = [], audit_rows = []\<rparr> = (res, files') \<and>
     length (review_rows files') = 1 \<and> length (audit_rows files') = 1"
proof -
  let ?d = "\<lparr>hrd_review_id = ''HR-1'', hrd_action = APPROVE_REMEDIATION_PREVIEW, hrd_reason = ''ok'', hrd_actor = ''alice'',
       hrd_timestamp = [], hrd_evidence_id = ''ev-1'', hrd_policy_decision_id = ''pd-1'', hrd_override = None\<rparr>"
  obtain res files' where r: "record_review_decision ''t'' ?d \<lparr>review_rows = [], audit_rows = []\<rparr> = (res, files')" by (metis surj_pair)
  have "\<not> (\<exists>p \<in> set ai_actor_prefixes. prefix p (py_lower ''alice''))" "py_strip ''ev-1'' \<noteq> []" "py_strip ''pd-1'' \<noteq> []" by code_simp+
  then show ?thesis using review_gate[OF r] r by auto
qed

end
