(* ===== verification/Registry_Writer.thy ===== *)
theory Registry_Writer
  imports Py_Values "HOL-Library.Product_Lexorder" "HOL-Library.Multiset"
begin

text \<open>
  Proof of the registry writer, \<open>src/telemetry/registry_targets.py\<close> and \<open>src/proxy_guard/registry_writer_proof.py\<close>: which registry
  paths are proxy settings, the evidence rows built from Sysmon events, and the choice of the best writer. The evidence rows are
  exactly the events 12 and 13 on proxy settings, and a chosen writer is proven exactly when an event 13 names a proxy setting.

  The fallback of \<open>proxy_registry_value_name\<close> returns the first name of a \<open>frozenset\<close> that occurs in the path; the iteration
  order of that set, which Python does not fix, is the argument \<open>names\<close>.
\<close>

section \<open>Proxy settings among registry paths\<close>

definition bslash :: char where
  "bslash = CHR 0x5C"

definition internet_settings_suffix :: string where
  "internet_settings_suffix =
     ''software'' @ [bslash] @ ''microsoft'' @ [bslash] @ ''windows'' @ [bslash] @ ''currentversion'' @ [bslash] @ ''internet settings''"

definition proxy_value_names :: "string list" where
  "proxy_value_names = [''proxyenable'', ''proxyserver'', ''autoconfigurl'', ''proxyoverride'']"

definition hkcu_prefixes :: "string list" where
  "hkcu_prefixes = [''hkcu'' @ [bslash], ''hkey_current_user'' @ [bslash], ''hkey_current_user/'']"

definition normalize_registry_path :: "string \<Rightarrow> string option \<Rightarrow> string" where
  "normalize_registry_path target user_sid =
     (if target = [] then []
      else let txt = py_replace_char (CHR ''/'') bslash (py_strip target);
               low = (case List.find (\<lambda>p. py_startswith (py_lower txt) p) hkcu_prefixes of
                        None \<Rightarrow> py_lower txt
                      | Some p \<Rightarrow>
                          (let sid = (case user_sid of Some s \<Rightarrow> (if s = [] then ''<current_user>'' else s) | None \<Rightarrow> ''<current_user>'');
                               rest = py_lstrip_chars [bslash, CHR ''/''] (drop (length p) txt)
                           in py_lower (''HKU'' @ [bslash] @ sid @ [bslash] @ rest)))
           in replace_sub (''hkey_users'' @ [bslash]) (''hku'' @ [bslash]) low)"

definition canonical_suffix :: "string \<Rightarrow> string option" where
  "canonical_suffix low_path =
     (let norm = py_replace_char (CHR ''/'') bslash low_path
      in case find_sub internet_settings_suffix norm of
           None \<Rightarrow> None
         | Some i \<Rightarrow>
             (let tail = py_strip_chars [bslash] (drop (i + length internet_settings_suffix) norm)
              in if tail = [] then None
                 else let atom = py_rstrip_chars '':'' (py_strip (last_field bslash tail))
                      in if atom \<in> set proxy_value_names then Some atom else None))"

definition flat_path :: "string \<Rightarrow> string" where
  "flat_path low = filter (\<lambda>c. c \<noteq> bslash) low"

definition is_proxy_registry_target :: "string \<Rightarrow> string option \<Rightarrow> bool" where
  "is_proxy_registry_target target user_sid =
     (if target = [] then False
      else let low = normalize_registry_path target user_sid
           in if canonical_suffix low \<noteq> None then True
              else py_in ''internetsettings'' (flat_path low) \<and> (\<exists>nm \<in> set proxy_value_names. py_in nm (flat_path low)))"

definition proxy_registry_value_name :: "string list \<Rightarrow> string \<Rightarrow> string option \<Rightarrow> string option" where
  "proxy_registry_value_name names target user_sid =
     (if target = [] then None
      else let low = normalize_registry_path target user_sid
           in case canonical_suffix low of
                Some nm \<Rightarrow> Some nm
              | None \<Rightarrow> List.find (\<lambda>pv. py_in pv (flat_path low)) names)"

section \<open>Sysmon events and evidence rows\<close>

record sysmon_event =
  sm_utc_time :: string
  sm_event_id :: int
  sm_process_guid :: "string option"
  sm_process_id :: "int option"
  sm_image :: "string option"
  sm_command_line :: "string option"
  sm_parent_process_guid :: "string option"
  sm_parent_image :: "string option"
  sm_parent_command_line :: "string option"
  sm_target_object :: "string option"
  sm_details :: "string option"
  sm_user :: "string option"
  sm_hashes :: "string option"
  sm_rule_name :: "string option"

datatype write_proof = OBSERVED | CORRELATED | PROVEN

record registry_write =
  rw_timestamp_utc :: string
  rw_event_source :: string
  rw_event_id :: int
  rw_registry_path :: string
  rw_value_name :: string
  rw_written_value :: string
  rw_process_id :: "int option"
  rw_process_guid :: "string option"
  rw_image :: string
  rw_command_line :: string
  rw_user :: string
  rw_confidence :: rat
  rw_proof_level :: write_proof
  rw_rule_name :: string
  rw_details :: string
  rw_raw :: sysmon_event

text \<open>\<open>x or ""\<close> on an optional string.\<close>

fun or_blank :: "string option \<Rightarrow> string" where
  "or_blank None = []"
| "or_blank (Some s) = s"

definition proof_level_for_event :: "sysmon_event \<Rightarrow> write_proof" where
  "proof_level_for_event ev =
     (if sm_event_id ev = 13 \<and> or_blank (sm_target_object ev) \<noteq> [] \<and> is_proxy_registry_target (or_blank (sm_target_object ev)) None then PROVEN
      else if sm_event_id ev \<in> {12, 13} then CORRELATED else OBSERVED)"

definition normalize_sysmon_event :: "string list \<Rightarrow> sysmon_event \<Rightarrow> registry_write option" where
  "normalize_sysmon_event names ev =
     (if sm_event_id ev \<notin> {12, 13} then None
      else let target = or_blank (sm_target_object ev)
           in if sm_event_id ev = 13 \<and> \<not> is_proxy_registry_target target None then None
              else let value_name = or_blank (proxy_registry_value_name names target None)
                   in if sm_event_id ev = 13 \<and> value_name = [] then None
                      else let prf_level = proof_level_for_event ev
                           in Some \<lparr>rw_timestamp_utc = sm_utc_time ev, rw_event_source = ''sysmon'', rw_event_id = sm_event_id ev,
                                rw_registry_path = target,
                                rw_value_name = (if value_name \<noteq> [] then value_name else if target \<noteq> [] then last_field bslash target else []),
                                rw_written_value = or_blank (sm_details ev), rw_process_id = sm_process_id ev, rw_process_guid = sm_process_guid ev,
                                rw_image = or_blank (sm_image ev), rw_command_line = or_blank (sm_command_line ev), rw_user = or_blank (sm_user ev),
                                rw_confidence = (if prf_level = PROVEN then 95/100 else if prf_level = CORRELATED then 55/100 else 25/100),
                                rw_proof_level = prf_level, rw_rule_name = or_blank (sm_rule_name ev), rw_details = or_blank (sm_details ev), rw_raw = ev\<rparr>)"

definition evidence_of_event :: "string list \<Rightarrow> sysmon_event \<Rightarrow> registry_write list" where
  "evidence_of_event names ev =
     (if sm_event_id ev = 13 \<or>
         sm_event_id ev = 12 \<and> or_blank (sm_target_object ev) \<noteq> [] \<and> is_proxy_registry_target (or_blank (sm_target_object ev)) None
      then (case normalize_sysmon_event names ev of Some row \<Rightarrow> [row] | None \<Rightarrow> []) else [])"

definition collect_registry_writer_evidence :: "string list \<Rightarrow> sysmon_event list \<Rightarrow> registry_write list" where
  "collect_registry_writer_evidence names evs =
     sort_key (\<lambda>r. (rw_timestamp_utc r, rw_value_name r)) (concat (map (evidence_of_event names) evs))"

text \<open>\<open>max(rows, key=...)\<close> returns the first row of greatest key.\<close>

fun max_first :: "('a \<Rightarrow> rat) \<Rightarrow> 'a \<Rightarrow> 'a list \<Rightarrow> 'a" where
  "max_first key best [] = best"
| "max_first key best (x # xs) = max_first key (if key x > key best then x else best) xs"

definition best_registry_writer :: "registry_write list \<Rightarrow> registry_write option" where
  "best_registry_writer evidence =
     (case filter (\<lambda>e. rw_proof_level e = PROVEN) evidence of
        e # es \<Rightarrow> Some (max_first rw_confidence e es)
      | [] \<Rightarrow> (case filter (\<lambda>e. rw_proof_level e = CORRELATED) evidence of
          e # es \<Rightarrow> Some (max_first rw_confidence e es)
        | [] \<Rightarrow> (case evidence of e # es \<Rightarrow> Some e | [] \<Rightarrow> None)))"

section \<open>Exactly the writes to proxy settings\<close>

definition proxy_write :: "sysmon_event \<Rightarrow> bool" where
  "proxy_write ev \<longleftrightarrow> sm_event_id ev \<in> {12, 13} \<and> is_proxy_registry_target (or_blank (sm_target_object ev)) None"

lemma find_in: "List.find P xs = Some x \<Longrightarrow> x \<in> set xs \<and> P x"
  by (auto simp: find_Some_iff)

lemma proxy_value_names_ne: "nm \<in> set proxy_value_names \<Longrightarrow> nm \<noteq> []"
  by (auto simp: proxy_value_names_def)

lemma value_name_found:
  assumes "is_proxy_registry_target target sid" and "set names = set proxy_value_names"
  shows "\<exists>nm \<in> set proxy_value_names. proxy_registry_value_name names target sid = Some nm"
proof (cases "canonical_suffix (normalize_registry_path target sid)")
  case (Some nm)
  then have "nm \<in> set proxy_value_names" by (auto simp: canonical_suffix_def Let_def split: option.splits if_splits)
  then show ?thesis using Some assms(1) by (auto simp: proxy_registry_value_name_def is_proxy_registry_target_def)
next
  case None
  let ?P = "\<lambda>pv. py_in pv (flat_path (normalize_registry_path target sid))"
  have ne: "target \<noteq> []" using assms(1) by (auto simp: is_proxy_registry_target_def)
  have "\<exists>nm \<in> set names. ?P nm" using assms None by (auto simp: is_proxy_registry_target_def Let_def split: if_splits)
  then obtain nm where f: "List.find ?P names = Some nm" by (cases "List.find ?P names") (auto simp: find_None_iff)
  then have "nm \<in> set proxy_value_names" using find_in assms(2) by fastforce
  then show ?thesis using f None ne by (auto simp: proxy_registry_value_name_def Let_def)
qed

lemma target_not_blank: "is_proxy_registry_target target sid \<Longrightarrow> target \<noteq> []"
  by (auto simp: is_proxy_registry_target_def)

lemma evidence_row:
  assumes "proxy_write ev" and "set names = set proxy_value_names"
  obtains row where "evidence_of_event names ev = [row]" "rw_raw row = ev" "rw_event_id row = sm_event_id ev"
    "rw_value_name row \<in> set proxy_value_names" "rw_proof_level row = (if sm_event_id ev = 13 then PROVEN else CORRELATED)"
proof -
  obtain nm where nm: "nm \<in> set proxy_value_names" "proxy_registry_value_name names (or_blank (sm_target_object ev)) None = Some nm"
    using value_name_found[OF _ assms(2), of "or_blank (sm_target_object ev)" None] assms(1) by (auto simp: proxy_write_def)
  have t: "is_proxy_registry_target (or_blank (sm_target_object ev)) None" using assms(1) by (simp add: proxy_write_def)
  have id: "sm_event_id ev = 12 \<or> sm_event_id ev = 13" using assms(1) by (auto simp: proxy_write_def)
  have pl: "proof_level_for_event ev = (if sm_event_id ev = 13 then PROVEN else CORRELATED)"
    using t id target_not_blank[OF t] by (auto simp: proof_level_for_event_def)
  obtain row where row: "normalize_sysmon_event names ev = Some row" "rw_raw row = ev" "rw_event_id row = sm_event_id ev"
    "rw_value_name row = nm" "rw_proof_level row = proof_level_for_event ev"
    using id t nm(2) proxy_value_names_ne[OF nm(1)] by (auto simp: normalize_sysmon_event_def Let_def)
  have "evidence_of_event names ev = [row]" using row(1) id t target_not_blank[OF t] by (auto simp: evidence_of_event_def)
  then show ?thesis using that row nm(1) pl by simp
qed

lemma evidence_none: "\<not> proxy_write ev \<Longrightarrow> evidence_of_event names ev = []"
  by (auto simp: proxy_write_def evidence_of_event_def normalize_sysmon_event_def Let_def)

lemma evidence_rows:
  assumes "set names = set proxy_value_names"
  shows "map rw_raw (concat (map (evidence_of_event names) evs)) = filter proxy_write evs"
    and "r \<in> set (concat (map (evidence_of_event names) evs)) \<Longrightarrow> proxy_write (rw_raw r) \<and> rw_value_name r \<in> set proxy_value_names \<and>
      rw_event_id r = sm_event_id (rw_raw r) \<and> rw_proof_level r = (if sm_event_id (rw_raw r) = 13 then PROVEN else CORRELATED)"
proof -
  show "map rw_raw (concat (map (evidence_of_event names) evs)) = filter proxy_write evs"
  proof (induction evs)
    case (Cons ev evs)
    then show ?case by (cases "proxy_write ev") (auto simp: evidence_none elim: evidence_row[OF _ assms])
  qed simp
  assume "r \<in> set (concat (map (evidence_of_event names) evs))"
  then obtain ev where ev: "r \<in> set (evidence_of_event names ev)" by auto
  then have "proxy_write ev" using evidence_none[of ev names] by fastforce
  then obtain row where row: "evidence_of_event names ev = [row]" "rw_raw row = ev" "rw_event_id row = sm_event_id ev"
    "rw_value_name row \<in> set proxy_value_names" "rw_proof_level row = (if sm_event_id ev = 13 then PROVEN else CORRELATED)"
    by (rule evidence_row[OF _ assms])
  from row(1) ev have "r = row" by simp
  then show "proxy_write (rw_raw r) \<and> rw_value_name r \<in> set proxy_value_names \<and>
      rw_event_id r = sm_event_id (rw_raw r) \<and> rw_proof_level r = (if sm_event_id (rw_raw r) = 13 then PROVEN else CORRELATED)"
    using row \<open>proxy_write ev\<close> by simp
qed

lemma collect_set: "set (collect_registry_writer_evidence names evs) = set (concat (map (evidence_of_event names) evs))"
  by (simp add: collect_registry_writer_evidence_def)

lemma max_first_in: "max_first key b xs \<in> set (b # xs)"
proof (induction xs arbitrary: b)
  case (Cons x xs)
  show ?case using Cons[of "if key x > key b then x else b"] by (auto split: if_splits)
qed simp

lemma best_writer_in: "best_registry_writer evidence = Some w \<Longrightarrow> w \<in> set evidence"
  using max_first_in[of rw_confidence]
  by (fastforce simp: best_registry_writer_def filter_eq_Cons_iff split: list.splits)

lemma best_writer_None: "best_registry_writer evidence = None \<longleftrightarrow> evidence = []"
  by (auto simp: best_registry_writer_def split: list.splits)

lemma best_writer_proven:
  "(\<exists>w. best_registry_writer evidence = Some w \<and> rw_proof_level w = PROVEN) \<longleftrightarrow> (\<exists>e \<in> set evidence. rw_proof_level e = PROVEN)"
proof (cases "filter (\<lambda>e. rw_proof_level e = PROVEN) evidence")
  case Nil
  then show ?thesis using best_writer_in[of evidence] by (fastforce simp: filter_empty_conv)
next
  case (Cons e es)
  then have "set (e # es) \<subseteq> {e \<in> set evidence. rw_proof_level e = PROVEN}" by (metis order_refl set_filter)
  then show ?thesis using max_first_in[of rw_confidence e es] Cons by (auto simp: best_registry_writer_def)
qed

lemma proven_writer_iff:
  assumes "set names = set proxy_value_names"
  shows "(\<exists>w. best_registry_writer (collect_registry_writer_evidence names evs) = Some w \<and> rw_proof_level w = PROVEN) \<longleftrightarrow>
       (\<exists>ev \<in> set evs. sm_event_id ev = 13 \<and> is_proxy_registry_target (or_blank (sm_target_object ev)) None)"
proof -
  let ?rows = "concat (map (evidence_of_event names) evs)" and ?ev = "collect_registry_writer_evidence names evs"
  note rows = evidence_rows[OF assms, where evs = evs]
  have "(\<exists>e \<in> set ?ev. rw_proof_level e = PROVEN) \<longleftrightarrow> (\<exists>ev \<in> set (map rw_raw ?rows). sm_event_id ev = 13)"
  proof -
    have "rw_proof_level e = PROVEN \<longleftrightarrow> sm_event_id (rw_raw e) = 13" if "e \<in> set ?rows" for e using rows(2)[OF that] by simp
    then show ?thesis unfolding collect_set list.set_map bex_simps(7) by blast
  qed
  also have "\<dots> \<longleftrightarrow> (\<exists>ev \<in> set evs. sm_event_id ev = 13 \<and> is_proxy_registry_target (or_blank (sm_target_object ev)) None)"
    unfolding rows(1) by (auto simp: proxy_write_def)
  finally show ?thesis using best_writer_proven[of ?ev] by simp
qed

text \<open>
  (a proven writer is a recorded write). Whatever order the set of value names is iterated in, the evidence rows are exactly the
  Sysmon events 12 and 13 on proxy settings, each once, sorted by time and value; every row names one of the four values and is
  proven exactly for event 13; and the chosen writer is proven exactly when some event 13 wrote a proxy setting.
\<close>

theorem registry_evidence_exact:
  assumes "set names = set proxy_value_names"
  shows "mset (map rw_raw (collect_registry_writer_evidence names evs)) = mset (filter proxy_write evs) \<and>
    sorted (map (\<lambda>r. (rw_timestamp_utc r, rw_value_name r)) (collect_registry_writer_evidence names evs)) \<and>
    (\<forall>r \<in> set (collect_registry_writer_evidence names evs).
       rw_value_name r \<in> {''proxyenable'', ''proxyserver'', ''autoconfigurl'', ''proxyoverride''} \<and> (rw_proof_level r = PROVEN \<longleftrightarrow> rw_event_id r = 13)) \<and>
    ((\<exists>w. best_registry_writer (collect_registry_writer_evidence names evs) = Some w \<and> rw_proof_level w = PROVEN) \<longleftrightarrow>
       (\<exists>ev \<in> set evs. sm_event_id ev = 13 \<and> is_proxy_registry_target (or_blank (sm_target_object ev)) None))"
proof -
  let ?rows = "concat (map (evidence_of_event names) evs)" and ?ev = "collect_registry_writer_evidence names evs"
  note rows = evidence_rows[OF assms, where evs = evs]
  have "mset ?ev = mset ?rows" by (simp add: collect_registry_writer_evidence_def)
  then have m: "mset (map rw_raw ?ev) = mset (filter proxy_write evs)" using rows(1) by (metis mset_map)
  have s: "sorted (map (\<lambda>r. (rw_timestamp_utc r, rw_value_name r)) ?ev)" by (simp add: collect_registry_writer_evidence_def)
  have a: "rw_value_name r \<in> {''proxyenable'', ''proxyserver'', ''autoconfigurl'', ''proxyoverride''} \<and> (rw_proof_level r = PROVEN \<longleftrightarrow> rw_event_id r = 13)"
    if "r \<in> set ?ev" for r
    using rows(2)[of r] that unfolding collect_set by (simp add: proxy_value_names_def)
  show ?thesis using m s a proven_writer_iff[OF assms, of evs] by (simp del: insert_iff)
qed

text \<open>One event 13 that switched the proxy on, and one that wrote an unrelated key.\<close>

definition sample_event :: "string \<Rightarrow> sysmon_event" where
  "sample_event target = \<lparr>sm_utc_time = ''t'', sm_event_id = 13, sm_process_guid = None, sm_process_id = Some 42, sm_image = Some ''node.exe'',
     sm_command_line = None, sm_parent_process_guid = None, sm_parent_image = None, sm_parent_command_line = None, sm_target_object = Some target,
     sm_details = None, sm_user = None, sm_hashes = None, sm_rule_name = None\<rparr>"

definition sample_target :: string where
  "sample_target = ''HKCU'' @ [bslash] @ ''Software'' @ [bslash] @ ''Microsoft'' @ [bslash] @ ''Windows'' @ [bslash] @ ''CurrentVersion'' @
     [bslash] @ ''Internet Settings'' @ [bslash] @ ''ProxyEnable''"

lemma sample_targets: "is_proxy_registry_target sample_target None" "\<not> is_proxy_registry_target ''HKLM'' None"
  by code_simp+

theorem registry_evidence_exact_witness:
  "mset (map rw_raw (collect_registry_writer_evidence proxy_value_names [sample_event sample_target, sample_event ''HKLM''])) = {#sample_event sample_target#} \<and>
   (\<exists>w. best_registry_writer (collect_registry_writer_evidence proxy_value_names [sample_event sample_target, sample_event ''HKLM'']) = Some w \<and> rw_proof_level w = PROVEN)"
  using registry_evidence_exact[OF refl, of "[sample_event sample_target, sample_event ''HKLM'']"] sample_targets
  by (simp add: proxy_write_def sample_event_def)

end
