(* ===== verification/Process_Tree.thy ===== *)
theory Process_Tree
  imports Registry_Writer
begin

text \<open>
  Process lineage, \<open>src/correlation/process_tree.py\<close> and \<open>src/proxy_guard/process_tree.py\<close>: the index of Sysmon process creations, the
  bounded walk along parent identifiers, the walk along parent process numbers of an inventory, and the lineage evidence chosen
  from them. Both walks end on every input, cyclic parent pointers included, and give a chain of distinct processes linked by
  their parent pointers that ends in the focus process. The JSON fixture variant is not modelled.
\<close>

section \<open>Lineage from Sysmon process creations\<close>

definition creation_key :: "sysmon_event \<Rightarrow> string" where
  "creation_key ev = py_lower (or_blank (sm_process_guid ev))"

definition index_creations :: "sysmon_event list \<Rightarrow> (string \<times> sysmon_event) list" where
  "index_creations evs =
     foldl (\<lambda>d ev. if sm_event_id ev \<noteq> 1 \<or> or_blank (sm_process_guid ev) = [] then d else dict_set d (creation_key ev) ev) [] evs"

definition get_creation :: "(string \<times> sysmon_event) list \<Rightarrow> string option \<Rightarrow> sysmon_event option" where
  "get_creation by_guid guid = (if or_blank guid = [] then None else map_of by_guid (py_lower (or_blank guid)))"

definition missing_node :: "string \<Rightarrow> pydict" where
  "missing_node guid = [(''process_guid'', PyStr guid), (''process_id'', PyNone), (''image'', PyNone), (''command_line'', PyNone),
     (''parent_process_guid'', PyNone), (''note'', PyStr ''process_create_event_missing'')]"

definition creation_node :: "sysmon_event \<Rightarrow> pydict" where
  "creation_node ev = [(''process_guid'', optional_text (sm_process_guid ev)), (''process_id'', optional_int (sm_process_id ev)),
     (''image'', optional_text (sm_image ev)), (''command_line'', optional_text (sm_command_line ev)),
     (''parent_process_guid'', optional_text (sm_parent_process_guid ev)), (''parent_image'', optional_text (sm_parent_image ev)),
     (''parent_command_line'', optional_text (sm_parent_command_line ev))]"

text \<open>The loop of \<open>ancestor_chain\<close>; the number is what is left of \<open>max_depth\<close>.\<close>

fun ancestor_walk :: "(string \<times> sysmon_event) list \<Rightarrow> nat \<Rightarrow> string list \<Rightarrow> string option \<Rightarrow> pydict list" where
  "ancestor_walk by_guid 0 seen guid = []"
| "ancestor_walk by_guid (Suc n) seen guid =
     (let g = or_blank guid
      in if g = [] \<or> py_lower g \<in> set seen then []
         else case get_creation by_guid guid of
                None \<Rightarrow> [missing_node g]
              | Some ev \<Rightarrow> creation_node ev # ancestor_walk by_guid n (py_lower g # seen) (sm_parent_process_guid ev))"

definition ancestor_chain :: "(string \<times> sysmon_event) list \<Rightarrow> string option \<Rightarrow> nat \<Rightarrow> pydict list" where
  "ancestor_chain by_guid guid max_depth = rev (ancestor_walk by_guid max_depth [] guid)"

definition enrich_node :: "(string \<times> sysmon_event) list \<Rightarrow> pydict \<Rightarrow> pydict" where
  "enrich_node by_guid node =
     (case map_of by_guid (py_lower (py_str (py_or (dict_get node ''process_guid'') (PyStr [])))) of
        None \<Rightarrow> node
      | Some ev \<Rightarrow>
          (let r1 = dict_setdefault node ''user'' (optional_text (sm_user ev));
               r2 = dict_setdefault r1 ''start_time_utc'' (PyStr (sm_utc_time ev));
               r3 = dict_setdefault r2 ''hashes'' (optional_text (sm_hashes ev));
               r4 = dict_setdefault r3 ''executable_path'' (dict_get r3 ''image'')
           in dict_setdefault r4 ''signed'' PyNone))"

definition enrich_chain_from_sysmon :: "pydict list \<Rightarrow> sysmon_event list \<Rightarrow> pydict list" where
  "enrich_chain_from_sysmon chain evs = map (enrich_node (index_creations evs)) chain"

section \<open>Lineage from a process inventory\<close>

text \<open>\<open>isinstance(v, int)\<close> accepts booleans as well.\<close>

fun int_instance :: "pyval \<Rightarrow> int option" where
  "int_instance (PyInt i) = Some i"
| "int_instance (PyBool b) = Some (if b then 1 else 0)"
| "int_instance v = None"

definition index_pids :: "pydict list \<Rightarrow> (int \<rightharpoonup> pydict)" where
  "index_pids rows = foldl (\<lambda>m r. case int_instance (dict_get r ''pid'') of Some p \<Rightarrow> m(p \<mapsto> r) | None \<Rightarrow> m) Map.empty rows"

definition pid_row :: "(int \<rightharpoonup> pydict) \<Rightarrow> int \<Rightarrow> pydict" where
  "pid_row by_pid p = (case by_pid p of Some r \<Rightarrow> r | None \<Rightarrow> [])"

definition parent_of :: "(int \<rightharpoonup> pydict) \<Rightarrow> int \<Rightarrow> int option" where
  "parent_of by_pid p = int_instance (dict_get (pid_row by_pid p) ''parent_pid'')"

definition pid_node :: "(int \<rightharpoonup> pydict) \<Rightarrow> int \<Rightarrow> int option \<Rightarrow> int \<Rightarrow> pydict" where
  "pid_node by_pid focus port p =
     (let row = pid_row by_pid p
      in [(''pid'', PyInt p), (''process_name'', py_or (dict_get row ''process_name'') (dict_get row ''parent_process_name'')),
          (''executable_path'', dict_get row ''executable_path''), (''command_line'', dict_get row ''command_line''),
          (''parent_pid'', dict_get row ''parent_pid''), (''listens_on_localhost_port'', (if p = focus then optional_int port else PyNone))])"

text \<open>
  The process numbers visited by the loop, the focus first. The walk ends because a number that is not in the inventory has no
  parent and every other step uses up one row of it.
\<close>

function pid_walk :: "pydict list \<Rightarrow> int list \<Rightarrow> int option \<Rightarrow> int list" where
  "pid_walk rows seen None = []"
| "pid_walk rows seen (Some p) =
     (if p \<in> set seen \<or> p \<le> 4 then [] else p # pid_walk rows (p # seen) (parent_of (index_pids rows) p))"
  by pat_completeness auto

lemma dom_index_pids: "dom (index_pids rows) = {p. \<exists>r \<in> set rows. int_instance (dict_get r ''pid'') = Some p}"
proof (induction rows rule: rev_induct)
  case (snoc r rows)
  then show ?case by (auto simp: index_pids_def split: option.splits)
qed (simp add: index_pids_def)

lemma finite_dom_index_pids: "finite (dom (index_pids rows))"
proof -
  have "dom (index_pids rows) \<subseteq> (\<lambda>r. the (int_instance (dict_get r ''pid''))) ` set rows"
    unfolding dom_index_pids by (auto intro!: rev_image_eqI)
  then show ?thesis by (rule finite_subset) simp
qed

lemma parent_of_outside: "p \<notin> dom (index_pids rows) \<Longrightarrow> parent_of (index_pids rows) p = None"
  by (simp add: parent_of_def pid_row_def domIff dict_get_def)

termination pid_walk
proof (relation "measure (\<lambda>(rows, seen, pid). case pid of None \<Rightarrow> 0 | Some p \<Rightarrow> Suc (card (dom (index_pids rows) - set seen)))")
  fix rows seen p
  assume a: "\<not> (p \<in> set seen \<or> p \<le> (4::int))"
  have "card (dom (index_pids rows) - set (p # seen)) < card (dom (index_pids rows) - set seen)" if "p \<in> dom (index_pids rows)"
    using that a finite_dom_index_pids by (intro psubset_card_mono) auto
  then show "((rows, p # seen, parent_of (index_pids rows) p), rows, seen, Some p)
      \<in> measure (\<lambda>(rows, seen, pid). case pid of None \<Rightarrow> 0 | Some p \<Rightarrow> Suc (card (dom (index_pids rows) - set seen)))"
    using parent_of_outside[of p rows] by (cases "p \<in> dom (index_pids rows)") (auto split: option.splits)
qed simp

definition build_process_chain_nodes :: "int option \<Rightarrow> pydict list \<Rightarrow> int option \<Rightarrow> pydict list" where
  "build_process_chain_nodes focus rows port =
     (case focus of None \<Rightarrow> [] | Some f \<Rightarrow> rev (map (pid_node (index_pids rows) f port) (pid_walk rows [] (Some f))))"

section \<open>The lineage evidence\<close>

record process_tree_evidence =
  pte_process :: pydict
  pte_parent :: "pydict option"
  pte_grandparent :: "pydict option"
  pte_chain :: "pydict list"
  pte_source :: string
  pte_confidence :: rat

definition tree_of_chain :: "string \<Rightarrow> rat \<Rightarrow> pydict list \<Rightarrow> process_tree_evidence" where
  "tree_of_chain source conf chain =
     \<lparr>pte_process = last chain, pte_parent = (if length chain \<ge> 2 then Some (chain ! (length chain - 2)) else None),
      pte_grandparent = (if length chain \<ge> 3 then Some (chain ! (length chain - 3)) else None), pte_chain = chain, pte_source = source,
      pte_confidence = conf\<rparr>"

definition focus_guid :: "sysmon_event list \<Rightarrow> int option \<Rightarrow> string option \<Rightarrow> string option" where
  "focus_guid evs process_id guid =
     (if or_blank guid = [] \<and> process_id \<noteq> None
      then (case List.find (\<lambda>ev. sm_event_id ev = 1 \<and> sm_process_id ev = process_id \<and> or_blank (sm_process_guid ev) \<noteq> []) evs of
              Some ev \<Rightarrow> sm_process_guid ev | None \<Rightarrow> guid)
      else guid)"

definition correlate_process_tree :: "int option \<Rightarrow> string option \<Rightarrow> sysmon_event list \<Rightarrow> pydict list \<Rightarrow> process_tree_evidence" where
  "correlate_process_tree process_id guid evs rows =
     (let chain = (if evs \<noteq> [] \<and> (or_blank guid \<noteq> [] \<or> process_id \<notin> {None, Some 0})
                   then enrich_chain_from_sysmon (ancestor_chain (index_creations evs) (focus_guid evs process_id guid) 6) evs else [])
      in if chain \<noteq> [] then tree_of_chain ''sysmon_eid1'' (85/100) chain
         else let nodes = (if rows \<noteq> [] then build_process_chain_nodes process_id rows None else [])
              in if nodes \<noteq> [] then tree_of_chain ''process_inventory'' (6/10) nodes
                 else \<lparr>pte_process = [], pte_parent = None, pte_grandparent = None, pte_chain = [], pte_source = ''unavailable'', pte_confidence = 0\<rparr>)"

section \<open>Both walks are sound\<close>

lemma pid_walk_sound:
  "distinct (pid_walk rows seen pid) \<and> set (pid_walk rows seen pid) \<inter> set seen = {} \<and> (\<forall>p \<in> set (pid_walk rows seen pid). 4 < p)"
  by (induction rows seen pid rule: pid_walk.induct) auto

lemma pid_walk_inside: "set (butlast (pid_walk rows seen pid)) \<subseteq> dom (index_pids rows)"
proof (induction rows seen pid rule: pid_walk.induct)
  case (2 rows seen p)
  show ?case
  proof (cases "p \<in> dom (index_pids rows)")
    case True
    then show ?thesis using 2 by auto
  next
    case False
    then show ?thesis using parent_of_outside[OF False] by simp
  qed
qed simp

lemma pid_walk_length: "length (pid_walk rows [] pid) \<le> Suc (length rows)"
proof -
  let ?w = "pid_walk rows [] pid"
  have "dom (index_pids rows) \<subseteq> (\<lambda>r. the (int_instance (dict_get r ''pid''))) ` set rows"
    unfolding dom_index_pids by (auto intro!: rev_image_eqI)
  then have "card (dom (index_pids rows)) \<le> card (set rows)" by (meson List.finite_set surj_card_le)
  moreover have "length (butlast ?w) \<le> card (dom (index_pids rows))"
    using pid_walk_inside[of rows "[]" pid] pid_walk_sound[of rows "[]" pid] finite_dom_index_pids
    by (metis card_mono distinct_butlast distinct_card)
  ultimately show ?thesis using card_length[of rows] by simp
qed

lemma pid_walk_links: "Suc i < length (pid_walk rows seen pid) \<Longrightarrow> parent_of (index_pids rows) (pid_walk rows seen pid ! i) = Some (pid_walk rows seen pid ! Suc i)"
proof (induction rows seen pid arbitrary: i rule: pid_walk.induct)
  case (2 rows seen p)
  have go: "\<not> (p \<in> set seen \<or> p \<le> 4)" using 2(2) by (auto split: if_splits)
  let ?w = "pid_walk rows (p # seen) (parent_of (index_pids rows) p)"
  show ?case
  proof (cases i)
    case 0
    then have "?w \<noteq> []" using 2(2) go by auto
    then show ?thesis using 0 go by (cases "parent_of (index_pids rows) p") (auto split: if_splits)
  next
    case (Suc j)
    then show ?thesis using 2 go by simp
  qed
qed simp

text \<open>Why the walk stops: the last process has no recorded parent, a system process as its parent, or one that was visited.\<close>

lemma pid_walk_stops:
  assumes "pid_walk rows seen pid \<noteq> []"
  shows "case parent_of (index_pids rows) (last (pid_walk rows seen pid)) of None \<Rightarrow> True
    | Some q \<Rightarrow> q \<le> 4 \<or> q \<in> set seen \<or> q \<in> set (pid_walk rows seen pid)"
  using assms
proof (induction rows seen pid rule: pid_walk.induct)
  case (2 rows seen p)
  then have go: "\<not> (p \<in> set seen \<or> p \<le> 4)" by (auto split: if_splits)
  let ?w = "pid_walk rows (p # seen) (parent_of (index_pids rows) p)"
  show ?case
  proof (cases "?w = []")
    case True
    then show ?thesis using go by (cases "parent_of (index_pids rows) p") (auto split: if_splits)
  next
    case False
    then show ?thesis using 2(1)[OF go False] go by (auto split: option.splits)
  qed
qed simp

lemma node_pids: "dict_get (pid_node by_pid f port p) ''pid'' = PyInt p" "int_instance (dict_get (pid_node by_pid f port p) ''parent_pid'') = parent_of by_pid p"
  by (simp_all add: pid_node_def dict_get_def parent_of_def Let_def)

text \<open>
  C24 (the inventory lineage). For a user process the walk along the parent numbers ends, whatever cycles the inventory has, after at most one
  node more than the inventory has rows. The chain ends in the focus process, has distinct process numbers above 4, each node is
  the recorded parent of the next, and the chain starts at a process whose parent is not recorded, is a system process or is in the chain.
\<close>

theorem process_chain_sound:
  assumes "4 < f" and "nodes = build_process_chain_nodes (Some f) rows port"
  shows "\<exists>pids. map (\<lambda>n. dict_get n ''pid'') nodes = map PyInt pids \<and> pids \<noteq> [] \<and> last pids = f \<and> distinct pids \<and>
      length pids \<le> Suc (length rows) \<and> (\<forall>p \<in> set pids. 4 < p) \<and>
      (\<forall>i. Suc i < length pids \<longrightarrow> int_instance (dict_get (nodes ! Suc i) ''parent_pid'') = Some (pids ! i)) \<and>
      (case int_instance (dict_get (hd nodes) ''parent_pid'') of None \<Rightarrow> True | Some q \<Rightarrow> q \<le> 4 \<or> q \<in> set pids)"
proof -
  let ?w = "pid_walk rows [] (Some f)" and ?node = "pid_node (index_pids rows) f port"
  have nodes: "nodes = rev (map ?node ?w)" using assms(2) by (simp add: build_process_chain_nodes_def)
  have ne: "?w \<noteq> []" and hd: "hd ?w = f" using assms(1) by simp_all
  have "int_instance (dict_get (nodes ! Suc i) ''parent_pid'') = Some (rev ?w ! i)" if i: "Suc i < length ?w" for i
  proof -
    let ?j = "length ?w - Suc (Suc i)"
    have "nodes ! Suc i = ?node (?w ! ?j)" "rev ?w ! i = ?w ! Suc ?j"
      using i by (simp_all add: nodes rev_nth Suc_diff_Suc del: pid_walk.simps)
    moreover have "Suc ?j < length ?w" using i by (simp del: pid_walk.simps)
    ultimately show ?thesis using pid_walk_links[of ?j rows "[]" "Some f"] by (simp add: node_pids del: pid_walk.simps)
  qed
  moreover have "int_instance (dict_get (hd nodes) ''parent_pid'') = parent_of (index_pids rows) (last ?w)"
    using ne by (simp add: nodes hd_rev last_map node_pids del: pid_walk.simps)
  ultimately show ?thesis
    using ne hd pid_walk_sound[of rows "[]" "Some f"] pid_walk_length[of rows "Some f"] pid_walk_stops[OF ne]
    by (intro exI[of _ "rev ?w"]) (simp add: nodes node_pids rev_map last_rev comp_def del: pid_walk.simps cong: option.case_cong)
qed

text \<open>Two processes that name each other as parent.\<close>

theorem process_chain_sound_witness:
  "\<exists>pids. map (\<lambda>n. dict_get n ''pid'') (build_process_chain_nodes (Some 10) [[(''pid'', PyInt 10), (''parent_pid'', PyInt 20)],
      [(''pid'', PyInt 20), (''parent_pid'', PyInt 10)]] None) = map PyInt pids \<and> last pids = 10 \<and> distinct pids \<and> length pids \<le> 3"
proof -
  let ?rows = "[[(''pid'', PyInt 10), (''parent_pid'', PyInt 20)], [(''pid'', PyInt 20), (''parent_pid'', PyInt 10)]]"
  have "(4::int) < 10" by simp
  from process_chain_sound[OF this refl, of ?rows None] obtain pids where
    "map (\<lambda>n. dict_get n ''pid'') (build_process_chain_nodes (Some 10) ?rows None) = map PyInt pids" "last pids = 10" "distinct pids"
    "length pids \<le> Suc (length ?rows)" by blast
  moreover have "Suc (length ?rows) = 3" by simp
  ultimately show ?thesis by metis
qed

lemma ancestor_walk_length: "length (ancestor_walk by_guid n seen guid) \<le> n"
proof (induction n arbitrary: seen guid)
  case (Suc n)
  then show ?case by (simp add: Let_def split: option.split)
qed simp

lemma creation_key_of: "map_of (index_creations evs) k = Some ev \<Longrightarrow> creation_key ev = k \<and> ev \<in> set evs \<and> or_blank (sm_process_guid ev) \<noteq> []"
proof (induction evs rule: rev_induct)
  case (snoc x evs)
  show ?case
  proof (cases "sm_event_id x \<noteq> 1 \<or> or_blank (sm_process_guid x) = []")
    case True
    then show ?thesis using snoc by (simp add: index_creations_def)
  next
    case False
    then have "map_of (index_creations (evs @ [x])) = (map_of (index_creations evs))(creation_key x \<mapsto> x)"
      by (simp add: index_creations_def map_of_dict_set)
    then show ?thesis using snoc False by (cases "k = creation_key x") simp_all
  qed
qed (simp add: index_creations_def)

definition node_key :: "pydict \<Rightarrow> string" where
  "node_key node = py_lower (py_str (dict_get node ''process_guid''))"

lemma node_key_missing: "node_key (missing_node g) = py_lower g"
  by (simp add: node_key_def missing_node_def dict_get_def)

lemma node_key_creation: "or_blank (sm_process_guid ev) \<noteq> [] \<Longrightarrow> node_key (creation_node ev) = creation_key ev"
  by (cases "sm_process_guid ev") (simp_all add: node_key_def creation_node_def dict_get_def creation_key_def)

lemma ancestor_walk_keys:
  "distinct (map node_key (ancestor_walk (index_creations evs) n seen guid)) \<and>
   set (map node_key (ancestor_walk (index_creations evs) n seen guid)) \<inter> set seen = {}"
proof (induction n arbitrary: seen guid)
  case (Suc n)
  let ?g = "or_blank guid"
  show ?case
  proof (cases "?g = [] \<or> py_lower ?g \<in> set seen")
    case True
    then show ?thesis by (simp add: Let_def)
  next
    case False
    show ?thesis
    proof (cases "get_creation (index_creations evs) guid")
      case None
      then show ?thesis using False by (simp add: node_key_missing)
    next
      case (Some ev)
      then have "map_of (index_creations evs) (py_lower ?g) = Some ev" using False by (simp add: get_creation_def)
      then have k: "node_key (creation_node ev) = py_lower ?g" using creation_key_of node_key_creation by metis
      show ?thesis using Suc[of "py_lower ?g # seen" "sm_parent_process_guid ev"] False Some k by (simp add: Let_def)
    qed
  qed
qed simp

lemma ancestor_chain_sound:
  "length (ancestor_chain (index_creations evs) guid depth) \<le> depth" "distinct (map node_key (ancestor_chain (index_creations evs) guid depth))"
  using ancestor_walk_length[of "index_creations evs" depth "[]" guid] ancestor_walk_keys[of evs depth "[]" guid]
  by (simp_all add: ancestor_chain_def rev_map[symmetric])

end
