(* ===== verification/Risk_Score.thy ===== *)
theory Risk_Score
  imports Py_Values
begin

text \<open>
  Technology risk scoring, \<open>windows_network_toolkit/risk_scoring_engine.py\<close>: weights of proof tiers and controls, the ordinal risk score
  with its level, the worst control outcome and the score of a classified incident. Floating point numbers are rationals; incidents
  and control tests are records of the keys the function reads. The lemmas give the exact range of the score, which is wider than
  the documented one, its monotonicity, and when the textual maximum of tier names is the strongest tier.
\<close>

section \<open>Weights\<close>

definition governance_limitations :: "string list" where
  "governance_limitations = [''Risk score is ordinal governance input, not a statistical probability.'',
     ''Correlation and listener attribution do not prove registry writer identity without T4 proof.'',
     ''Classification is not accusation '' @ em_dash @ '' this is not malware or EDR verdicting.'',
     ''Policy permission is not a safety guarantee; human review may still be required.'']"

datatype scoring_proof = T0_OBSERVATION | T1_CORRELATION | T2_SUPPORTED | T3_STRONG | T4_WRITER_PROOF | PROOF_NOT_RUN | PROOF_UNKNOWN

fun scoring_proof_value :: "scoring_proof \<Rightarrow> string" where
  "scoring_proof_value T0_OBSERVATION = ''T0''"
| "scoring_proof_value T1_CORRELATION = ''T1''"
| "scoring_proof_value T2_SUPPORTED = ''T2''"
| "scoring_proof_value T3_STRONG = ''T3''"
| "scoring_proof_value T4_WRITER_PROOF = ''T4''"
| "scoring_proof_value PROOF_NOT_RUN = ''NOT_RUN''"
| "scoring_proof_value PROOF_UNKNOWN = ''UNKNOWN''"

fun proof_weight :: "scoring_proof \<Rightarrow> rat" where
  "proof_weight T0_OBSERVATION = 15/100"
| "proof_weight T1_CORRELATION = 35/100"
| "proof_weight T2_SUPPORTED = 55/100"
| "proof_weight T3_STRONG = 75/100"
| "proof_weight T4_WRITER_PROOF = 9/10"
| "proof_weight PROOF_NOT_RUN = 1/10"
| "proof_weight PROOF_UNKNOWN = 2/10"

text \<open>The dictionary of impact scores.\<close>

definition impact_table :: "(string \<times> rat) list" where
  "impact_table = [(''low'', 1), (''medium'', 25/10), (''high'', 4), (''critical'', 5)]"

definition high_classes :: "string list" where
  "high_classes = [''REVERTER_SUSPECTED'', ''PROXY_FLAPPING'', ''POSSIBLE_MITM_RISK'', ''BOTH_DIRECT_AND_PROXY_FAIL'', ''DEAD_PROXY_CONFIG'']"

definition medium_classes :: "string list" where
  "medium_classes = [''LOCAL_PROXY_ACTIVE'', ''UNKNOWN_LOCAL_PROXY'', ''WININET_WINHTTP_MISMATCH'', ''DIRECT_ONLY_WORKS'', ''STALE_PROXY_AFTER_PROCESS_EXIT'']"

definition control_table :: "(string \<times> rat) list" where
  "control_table = [(''PASS'', - 15/100), (''PARTIAL'', 5/100), (''FAIL'', 25/100), (''NOT_TESTED'', 1/10)]"

definition control_modifier :: "string \<Rightarrow> rat" where
  "control_modifier r = (case map_of control_table r of Some x \<Rightarrow> x | None \<Rightarrow> 1/10)"

definition normalize_proof_level :: "string \<Rightarrow> scoring_proof" where
  "normalize_proof_level level =
     (let raw = py_upper (if level = [] then ''UNKNOWN'' else level)
      in if py_startswith raw ''T4'' then T4_WRITER_PROOF else if py_startswith raw ''T3'' then T3_STRONG
         else if py_startswith raw ''T2'' then T2_SUPPORTED else if py_startswith raw ''T1'' then T1_CORRELATION
         else if py_startswith raw ''T0'' then T0_OBSERVATION
         else if raw = ''NOT_RUN'' then PROOF_NOT_RUN else PROOF_UNKNOWN)"

definition class_likelihood_base :: "string \<Rightarrow> rat" where
  "class_likelihood_base c =
     (if c \<in> set high_classes then 75/100 else if c \<in> set medium_classes then 1/2
      else if c \<in> {''NO_PROXY'', ''BOTH_DIRECT_AND_PROXY_WORK'', ''PROXY_ONLY_WORKS''} then 2/10 else 35/100)"

definition score_to_level :: "rat \<Rightarrow> string" where
  "score_to_level x = (if x \<ge> 70 then ''HIGH'' else if x \<ge> 40 then ''MEDIUM'' else ''LOW'')"

definition likelihood_label :: "rat \<Rightarrow> string" where
  "likelihood_label x = (if x \<ge> 7/10 then ''high'' else if x \<ge> 4/10 then ''medium'' else ''low'')"

section \<open>The score\<close>

record scoring_input =
  si_incident_class :: string
  si_evidence_quality :: rat
  si_proof_level :: string
  si_business_impact :: string
  si_recurrence_count :: int
  si_control_result :: string

text \<open>The constructor clamps the quality to [0, 1] and the count to the non-negative numbers.\<close>

definition new_scoring_input :: "string \<Rightarrow> rat \<Rightarrow> string \<Rightarrow> string \<Rightarrow> int \<Rightarrow> string \<Rightarrow> scoring_input" where
  "new_scoring_input cls q lvl impact n ctl =
     \<lparr>si_incident_class = cls, si_evidence_quality = max 0 (min 1 q), si_proof_level = lvl, si_business_impact = impact,
      si_recurrence_count = max 0 n, si_control_result = ctl\<rparr>"

record scoring_result =
  sr_likelihood :: string
  sr_impact :: string
  sr_risk_score :: rat
  sr_risk_level :: string
  sr_explanation :: string
  sr_limitations :: "string list"
  sr_incident_class :: string
  sr_human_review :: bool

definition likelihood_raw :: "scoring_input \<Rightarrow> rat" where
  "likelihood_raw i =
     min 1 (class_likelihood_base (si_incident_class i) * (45/100) + si_evidence_quality i * (25/100) +
       proof_weight (normalize_proof_level (si_proof_level i)) * (2/10) + min (2/10) (of_int (si_recurrence_count i) * (5/100)) +
       control_modifier (si_control_result i))"

definition impact_key :: "scoring_input \<Rightarrow> string" where
  "impact_key i = py_lower (if si_business_impact i = [] then ''medium'' else si_business_impact i)"

definition impact_score :: "scoring_input \<Rightarrow> rat" where
  "impact_score i = (case map_of impact_table (impact_key i) of Some x \<Rightarrow> x | None \<Rightarrow> 25/10)"

text \<open>\<open>round(x, 1)\<close>.\<close>

definition round1 :: "rat \<Rightarrow> rat" where
  "round1 x = of_int (round_half_even (10 * x)) / 10"

definition risk_score :: "scoring_input \<Rightarrow> rat" where
  "risk_score i = round1 (min 100 (likelihood_raw i * impact_score i * 20))"

text \<open>\<open>f"{x:.2f}"\<close> for a number in [0, 1], and the text of a score with one digit.\<close>

definition fixed2 :: "rat \<Rightarrow> string" where
  "fixed2 x = (let n = nat (round_half_even (100 * x)) in nat_str (n div 100) @ ''.'' @ tl (nat_str (100 + n mod 100)))"

definition score_text :: "rat \<Rightarrow> string" where
  "score_text x = decimal3 (round_half_even (1000 * x))"

definition score_risk :: "scoring_input \<Rightarrow> scoring_result" where
  "score_risk i =
     (let prf_key = normalize_proof_level (si_proof_level i); score = risk_score i; level = score_to_level score;
          likelihood = likelihood_label (likelihood_raw i);
          impact = (if map_of impact_table (impact_key i) \<noteq> None then impact_key i else ''medium'');
          limitations = governance_limitations @
            (if prf_key \<in> {T0_OBSERVATION, T1_CORRELATION, PROOF_UNKNOWN}
             then [''Proof tier is observation or correlation '' @ em_dash @ '' escalate only with additional validation.''] else []) @
            (if si_control_result i = ''NOT_TESTED'' then [''One or more controls were NOT_TESTED; residual risk may be understated.''] else []) @
            (if si_recurrence_count i \<ge> 3 then [''Recurrence pattern observed '' @ em_dash @ '' review change management and writer attribution.''] else [])
      in \<lparr>sr_likelihood = likelihood, sr_impact = impact, sr_risk_score = score, sr_risk_level = level,
          sr_explanation = ''Incident class '' @ si_incident_class i @ '' with '' @ likelihood @ '' likelihood and '' @ impact @ '' impact (evidence_quality='' @
            fixed2 (si_evidence_quality i) @ '', proof='' @ scoring_proof_value prf_key @ '', controls='' @ si_control_result i @ '', recurrence='' @
            int_str (si_recurrence_count i) @ '') yields risk_score='' @ score_text score @ '' ('' @ level @ '').'',
          sr_limitations = limitations, sr_incident_class = si_incident_class i,
          sr_human_review = (level = ''HIGH'' \<or> si_control_result i = ''FAIL'')\<rparr>)"

section \<open>Scores of incidents\<close>

definition control_order :: "string list" where
  "control_order = [''FAIL'', ''PARTIAL'', ''NOT_TESTED'', ''PASS'']"

definition aggregate_control_result :: "string list \<Rightarrow> string" where
  "aggregate_control_result results =
     (case List.find (\<lambda>outcome. outcome \<in> set (map py_upper results)) control_order of Some outcome \<Rightarrow> outcome | None \<Rightarrow> ''NOT_TESTED'')"

record scored_incident =
  inc_incident_id :: "string option"
  inc_incident_class :: "string option"
  inc_confidence :: "rat option"
  inc_risk_level :: "string option"

record control_test =
  ct_incident_id :: "string option"
  ct_test_result :: string
  ct_evidence_tier :: string

definition related_controls :: "string \<Rightarrow> control_test list \<Rightarrow> control_test list" where
  "related_controls inc tests =
     (let rel = filter (\<lambda>c. inc = [] \<or> ct_incident_id c \<in> {Some inc, None, Some []}) tests in if rel = [] then tests else rel)"

fun max_text :: "string \<Rightarrow> string list \<Rightarrow> string" where
  "max_text best [] = best"
| "max_text best (t # ts) = max_text (if t > best then t else best) ts"

definition inferred_tier :: "control_test list \<Rightarrow> string" where
  "inferred_tier rel = (case filter (\<lambda>t. t \<noteq> []) (map ct_evidence_tier rel) of [] \<Rightarrow> ''T1'' | t # ts \<Rightarrow> max_text t ts)"

definition score_risk_from_incident ::
    "scored_incident \<Rightarrow> control_test list \<Rightarrow> string option \<Rightarrow> string option \<Rightarrow> int \<Rightarrow> scoring_result" where
  "score_risk_from_incident inc tests level impact n =
     (let inc_id = (case inc_incident_id inc of Some s \<Rightarrow> s | None \<Rightarrow> []);
          cls = (case inc_incident_class inc of Some c \<Rightarrow> (if c = [] then ''UNKNOWN'' else c) | None \<Rightarrow> ''UNKNOWN'');
          quality = (case inc_confidence inc of Some q \<Rightarrow> (if q = 0 then 1/2 else q) | None \<Rightarrow> 1/2);
          rel = related_controls inc_id tests
      in score_risk (new_scoring_input cls quality
           (case level of Some l \<Rightarrow> l | None \<Rightarrow> inferred_tier rel)
           (case impact of Some b \<Rightarrow> b | None \<Rightarrow> (if inc_risk_level inc = Some ''HIGH'' then ''high'' else ''medium''))
           n (aggregate_control_result (map ct_test_result rel))))"

section \<open>Range and monotonicity\<close>

lemma round1_mono: "x \<le> y \<Longrightarrow> round1 x \<le> round1 y"
  by (simp add: round1_def round_half_even_mono)

lemma round1_int: "round1 (of_int n) = of_int n"
  using round_half_even_int[of "10 * n"] by (simp add: round1_def)

definition quiet_classes :: "string set" where
  "quiet_classes = {''NO_PROXY'', ''BOTH_DIRECT_AND_PROXY_WORK'', ''PROXY_ONLY_WORKS''}"

lemma class_base_bounds: "2/10 \<le> class_likelihood_base c" "c \<notin> quiet_classes \<Longrightarrow> 35/100 \<le> class_likelihood_base c"
  by (auto simp: class_likelihood_base_def quiet_classes_def)

lemma proof_weight_bounds: "1/10 \<le> proof_weight p" "p \<notin> {T0_OBSERVATION, PROOF_NOT_RUN, PROOF_UNKNOWN} \<Longrightarrow> 35/100 \<le> proof_weight p"
  by (cases p; simp)+

lemma control_modifier_bounds: "- 15/100 \<le> control_modifier r" "r \<noteq> ''PASS'' \<Longrightarrow> 5/100 \<le> control_modifier r"
  by (simp_all add: control_modifier_def control_table_def)

lemma impact_score_bounds: "1 \<le> impact_score i \<and> impact_score i \<le> 5"
  by (simp add: impact_score_def impact_table_def)

text \<open>The sum before it is cut at 1.\<close>

definition likelihood_sum :: "scoring_input \<Rightarrow> rat" where
  "likelihood_sum i = class_likelihood_base (si_incident_class i) * (45/100) + si_evidence_quality i * (25/100) +
       proof_weight (normalize_proof_level (si_proof_level i)) * (2/10) + min (2/10) (of_int (si_recurrence_count i) * (5/100)) +
       control_modifier (si_control_result i)"

lemma likelihood_raw_sum: "likelihood_raw i = min 1 (likelihood_sum i)"
  by (simp add: likelihood_raw_def likelihood_sum_def)

lemma recurrence_bounds: "0 \<le> n \<Longrightarrow> 0 \<le> min (2/10) (of_int n * (5/100) :: rat)" "1 \<le> n \<Longrightarrow> 5/100 \<le> min (2/10) (of_int n * (5/100) :: rat)"
  by auto

lemma likelihood_lower:
  assumes "0 \<le> si_evidence_quality i" and "0 \<le> si_recurrence_count i"
  shows "- 4/100 \<le> likelihood_sum i"
  using assms class_base_bounds(1)[of "si_incident_class i"] proof_weight_bounds(1)[of "normalize_proof_level (si_proof_level i)"]
    control_modifier_bounds(1)[of "si_control_result i"] recurrence_bounds(1)[OF assms(2)]
  unfolding likelihood_sum_def by linarith

lemma likelihood_negative:
  assumes "0 \<le> si_evidence_quality i" and "0 \<le> si_recurrence_count i" and neg: "likelihood_sum i < 0"
  shows "si_control_result i = ''PASS'' \<and> si_incident_class i \<in> quiet_classes \<and> si_recurrence_count i = 0 \<and> si_evidence_quality i < 16/100 \<and>
    normalize_proof_level (si_proof_level i) \<in> {T0_OBSERVATION, PROOF_NOT_RUN, PROOF_UNKNOWN}"
proof -
  note b = class_base_bounds(1)[of "si_incident_class i"] proof_weight_bounds(1)[of "normalize_proof_level (si_proof_level i)"]
    control_modifier_bounds(1)[of "si_control_result i"] recurrence_bounds(1)[OF assms(2)]
  note n = neg[unfolded likelihood_sum_def]
  have "si_control_result i = ''PASS''" using b n assms(1) control_modifier_bounds(2)[of "si_control_result i"] by (rule_tac ccontr) linarith
  moreover have "si_incident_class i \<in> quiet_classes" using b n assms(1) class_base_bounds(2)[of "si_incident_class i"] by (rule_tac ccontr) linarith
  moreover have "\<not> 1 \<le> si_recurrence_count i"
    using b n assms(1) recurrence_bounds(2)[of "si_recurrence_count i"] by (rule_tac notI) linarith
  moreover have "si_evidence_quality i < 16/100" using b n by linarith
  moreover have "normalize_proof_level (si_proof_level i) \<in> {T0_OBSERVATION, PROOF_NOT_RUN, PROOF_UNKNOWN}"
    using b n assms(1) proof_weight_bounds(2)[of "normalize_proof_level (si_proof_level i)"] by (rule_tac ccontr) linarith
  ultimately show ?thesis using assms(2) by simp
qed

lemma score_product_bounds:
  assumes "- 4/100 \<le> (l :: rat)" and "1 \<le> m" and "m \<le> 5"
  shows "- 4 \<le> l * m * 20" and "l * m * 20 < 0 \<Longrightarrow> l < 0"
proof -
  show "- 4 \<le> l * m * 20"
  proof (cases "0 \<le> l")
    case True
    then have "0 \<le> l * m" using assms by simp
    then show ?thesis by simp
  next
    case False
    then have "l * 5 \<le> l * m" using assms by (simp add: mult_left_mono_neg)
    then show ?thesis using assms by linarith
  qed
  show "l < 0" if "l * m * 20 < 0" using that assms by (simp add: mult_less_0_iff)
qed

text \<open>
  C26 (the exact range of risk scores). Every score is between \<open>- 4\<close> and 100. It is negative only for a quiet class with passing controls, no
  recurrence, a quality below 0.16 and no proof above observation. The level is its band, and human review is recommended
  exactly for scores of 70 and more and for failed controls.
\<close>

theorem risk_score_range:
  assumes "i = new_scoring_input cls q lvl impact n ctl"
  shows "- 4 \<le> sr_risk_score (score_risk i) \<and> sr_risk_score (score_risk i) \<le> 100 \<and>
    (sr_risk_score (score_risk i) < 0 \<longrightarrow>
       ctl = ''PASS'' \<and> cls \<in> {''NO_PROXY'', ''BOTH_DIRECT_AND_PROXY_WORK'', ''PROXY_ONLY_WORKS''} \<and> n \<le> 0 \<and> q < 16/100 \<and>
       normalize_proof_level lvl \<in> {T0_OBSERVATION, PROOF_NOT_RUN, PROOF_UNKNOWN}) \<and>
    (sr_human_review (score_risk i) \<longleftrightarrow> 70 \<le> sr_risk_score (score_risk i) \<or> ctl = ''FAIL'') \<and>
    set governance_limitations \<subseteq> set (sr_limitations (score_risk i))"
proof -
  let ?x = "likelihood_raw i * impact_score i * 20"
  have f: "si_evidence_quality i = max 0 (min 1 q)" "si_recurrence_count i = max 0 n" "si_control_result i = ctl" "si_incident_class i = cls"
    "si_proof_level i = lvl" using assms by (simp_all add: new_scoring_input_def)
  have nn: "0 \<le> si_evidence_quality i" "0 \<le> si_recurrence_count i" by (simp_all add: f)
  have score: "sr_risk_score (score_risk i) = round1 (min 100 ?x)" by (simp add: score_risk_def risk_score_def Let_def)
  have "- 4/100 \<le> likelihood_raw i" using likelihood_lower[OF nn] by (simp add: likelihood_raw_sum)
  note p = score_product_bounds[OF this conjunct1[OF impact_score_bounds] conjunct2[OF impact_score_bounds], of i]
  have lo: "- 4 \<le> round1 (min 100 ?x)" using round1_mono[of "- 4" "min 100 ?x"] round1_int[of "- 4"] p(1) by simp
  have hi: "round1 (min 100 ?x) \<le> 100" using round1_mono[of "min 100 ?x" 100] round1_int[of 100] by simp
  have neg: "likelihood_sum i < 0" if "round1 (min 100 ?x) < 0"
  proof -
    have "?x < 0" using that round1_mono[of 0 "min 100 ?x"] round1_int[of 0] by (force simp: not_le[symmetric])
    then show ?thesis using p(2) by (simp add: likelihood_raw_sum min_less_iff_disj)
  qed
  have review: "sr_human_review (score_risk i) \<longleftrightarrow> 70 \<le> sr_risk_score (score_risk i) \<or> ctl = ''FAIL''"
    by (simp add: score_risk_def Let_def f score_to_level_def)
  have lims: "set governance_limitations \<subseteq> set (sr_limitations (score_risk i))" by (simp add: score_risk_def Let_def)
  have cause: "ctl = ''PASS'' \<and> cls \<in> {''NO_PROXY'', ''BOTH_DIRECT_AND_PROXY_WORK'', ''PROXY_ONLY_WORKS''} \<and> n \<le> 0 \<and> q < 16/100 \<and>
       normalize_proof_level lvl \<in> {T0_OBSERVATION, PROOF_NOT_RUN, PROOF_UNKNOWN}" if "round1 (min 100 ?x) < 0"
    using likelihood_negative[OF nn neg[OF that]] unfolding f quiet_classes_def by (auto simp: max_def min_def split: if_splits)
  show ?thesis unfolding score using lo hi cause review[unfolded score] lims by blast
qed

text \<open>A clean host with nearly no confidence has a negative score, although the documented range is [0, 100].\<close>

theorem risk_score_range_witness:
  "let i = new_scoring_input ''NO_PROXY'' (1/100) ''NOT_RUN'' ''critical'' 0 ''PASS'' in
     sr_risk_score (score_risk i) < 0 \<and> - 4 \<le> sr_risk_score (score_risk i) \<and> \<not> sr_human_review (score_risk i)"
proof -
  let ?i = "new_scoring_input ''NO_PROXY'' (1/100) ''NOT_RUN'' ''critical'' 0 ''PASS''"
  have "sr_risk_score (score_risk ?i) = risk_score ?i" by (simp add: score_risk_def Let_def)
  moreover have "risk_score ?i < 0" by code_simp
  ultimately have "sr_risk_score (score_risk ?i) < 0" by simp
  with risk_score_range[OF refl, of "''NO_PROXY''" "1/100" "''NOT_RUN''" "''critical''" 0 "''PASS''"] show ?thesis by (auto simp: Let_def)
qed

text \<open>
  (the score is monotone). For the same class and impact, more evidence quality, a heavier proof tier, more recurrence or a worse control
  outcome never lower the score, and a level that was HIGH stays HIGH.
\<close>

theorem risk_score_monotone:
  assumes "q \<le> q'" and "proof_weight (normalize_proof_level lvl) \<le> proof_weight (normalize_proof_level lvl')" and "n \<le> n'"
    and "control_modifier ctl \<le> control_modifier ctl'"
    and "r = score_risk (new_scoring_input cls q lvl impact n ctl)" and "r' = score_risk (new_scoring_input cls q' lvl' impact n' ctl')"
  shows "sr_risk_score r \<le> sr_risk_score r' \<and> (sr_risk_level r = ''HIGH'' \<longrightarrow> sr_risk_level r' = ''HIGH'' \<and> sr_human_review r')"
proof -
  let ?i = "new_scoring_input cls q lvl impact n ctl" and ?j = "new_scoring_input cls q' lvl' impact n' ctl'"
  have q: "max 0 (min 1 q) \<le> max 0 (min 1 q')" using assms(1) by (simp add: max_def min_def)
  have n: "min (2/10) (of_int (max 0 n) * (5/100) :: rat) \<le> min (2/10) (of_int (max 0 n') * (5/100))"
    using assms(3) by (intro min.mono order_refl mult_right_mono) (simp_all add: max_def)
  have "likelihood_sum ?i \<le> likelihood_sum ?j"
    unfolding likelihood_sum_def new_scoring_input_def scoring_input.select_convs using q n assms(2,4) by linarith
  then have "likelihood_raw ?i \<le> likelihood_raw ?j" unfolding likelihood_raw_sum by (rule min.mono[OF order_refl])
  moreover have imp: "impact_score ?j = impact_score ?i" by (simp add: impact_score_def impact_key_def new_scoring_input_def)
  ultimately have "likelihood_raw ?i * impact_score ?i * 20 \<le> likelihood_raw ?j * impact_score ?j * 20"
    unfolding imp using impact_score_bounds[of ?i] by (intro mult_right_mono) auto
  then have le: "risk_score ?i \<le> risk_score ?j" unfolding risk_score_def by (intro round1_mono min.mono order_refl)
  have f: "sr_risk_score (score_risk k) = risk_score k" "sr_risk_level (score_risk k) = score_to_level (risk_score k)"
    "sr_risk_level (score_risk k) = ''HIGH'' \<Longrightarrow> sr_human_review (score_risk k)" for k
    by (simp_all add: score_risk_def Let_def)
  have "score_to_level x = ''HIGH'' \<longleftrightarrow> 70 \<le> x" for x by (simp add: score_to_level_def)
  then show ?thesis unfolding assms(5,6) using le f by auto
qed

text \<open>The same dead proxy seen three times more.\<close>

theorem risk_score_monotone_witness:
  "sr_risk_score (score_risk (new_scoring_input ''DEAD_PROXY_CONFIG'' (8/10) ''T2'' ''high'' 0 ''PARTIAL'')) \<le>
   sr_risk_score (score_risk (new_scoring_input ''DEAD_PROXY_CONFIG'' (8/10) ''T2'' ''high'' 3 ''PARTIAL''))"
  using risk_score_monotone[of "8/10" "8/10" "''T2''" "''T2''" 0 3 "''PARTIAL''" "''PARTIAL''", OF _ _ _ _ refl refl] by simp

section \<open>Control outcomes and tiers of an incident\<close>

lemma aggregate_worst:
  "aggregate_control_result rs = ''FAIL'' \<longleftrightarrow> ''FAIL'' \<in> set (map py_upper rs)"
  "aggregate_control_result rs = ''PASS'' \<longleftrightarrow> ''PASS'' \<in> set (map py_upper rs) \<and> set (map py_upper rs) \<inter> {''FAIL'', ''PARTIAL'', ''NOT_TESTED''} = {}"
  by (auto simp: aggregate_control_result_def control_order_def simp del: set_map)

text \<open>An unknown outcome beside a passing one aggregates to PASS.\<close>

lemma aggregate_ignores_unknown: "aggregate_control_result [''PASS'', ''ERROR''] = ''PASS''"
  by code_simp

lemma max_text_ge: "t \<in> set (b # ts) \<Longrightarrow> t \<le> max_text b ts" "max_text b ts \<in> set (b # ts)"
proof -
  have "max_text b ts \<in> set (b # ts) \<and> (\<forall>t \<in> set (b # ts). t \<le> max_text b ts)"
  proof (induction ts arbitrary: b)
    case (Cons x ts)
    show ?case using Cons[of "if x > b then x else b"] by (auto split: if_splits)
  qed simp
  then show "t \<in> set (b # ts) \<Longrightarrow> t \<le> max_text b ts" "max_text b ts \<in> set (b # ts)" by blast+
qed

text \<open>Names of tiers as the pipeline writes them: the letter T and a digit from 0 to 4, then anything.\<close>

definition tier_name :: "string \<Rightarrow> bool" where
  "tier_name t = (case t of c # d # r \<Rightarrow> c = CHR ''T'' \<and> d \<in> set ''01234'' | _ \<Rightarrow> False)"

lemma tier_name_weight:
  assumes "tier_name t" and "tier_name u" and "t \<le> u"
  shows "proof_weight (normalize_proof_level t) \<le> proof_weight (normalize_proof_level u)"
proof -
  obtain d r e s where t: "t = CHR ''T'' # d # r" and d: "d \<in> set ''01234''" and u: "u = CHR ''T'' # e # s" and e: "e \<in> set ''01234''"
    using assms(1,2) by (auto simp: tier_name_def split: list.splits)
  have de: "d \<le> e" using assms(3) unfolding t u by (auto simp: order.order_iff_strict)
  have w: "proof_weight (normalize_proof_level (CHR ''T'' # x # y)) =
      (if x = CHR ''4'' then 9/10 else if x = CHR ''3'' then 75/100 else if x = CHR ''2'' then 55/100 else if x = CHR ''1'' then 35/100 else 15/100)"
    if "x \<in> set ''01234''" for x y
    using that by (auto simp: normalize_proof_level_def py_eval)
  have "\<forall>x \<in> set ''01234''. \<forall>y \<in> set ''01234''. x \<le> y \<longrightarrow>
      (if x = CHR ''4'' then 9/10 else if x = CHR ''3'' then 75/100 else if x = CHR ''2'' then 55/100 else if x = CHR ''1'' then 35/100 else (15/100 :: rat)) \<le>
      (if y = CHR ''4'' then 9/10 else if y = CHR ''3'' then 75/100 else if y = CHR ''2'' then 55/100 else if y = CHR ''1'' then 35/100 else 15/100)"
    by code_simp
  then show ?thesis unfolding t u w[OF d] w[OF e] using de d e by blast
qed

lemma inferred_tier_strongest:
  assumes "\<forall>c \<in> set rel. ct_evidence_tier c \<noteq> [] \<longrightarrow> tier_name (ct_evidence_tier c)" and "c \<in> set rel" and "ct_evidence_tier c \<noteq> []"
  shows "proof_weight (normalize_proof_level (ct_evidence_tier c)) \<le> proof_weight (normalize_proof_level (inferred_tier rel))"
proof -
  have "ct_evidence_tier c \<in> set (filter (\<lambda>t. t \<noteq> []) (map ct_evidence_tier rel))" using assms(2,3) by simp
  then obtain t ts where f: "filter (\<lambda>t. t \<noteq> []) (map ct_evidence_tier rel) = t # ts" "ct_evidence_tier c \<in> set (t # ts)"
    by (cases "filter (\<lambda>t. t \<noteq> []) (map ct_evidence_tier rel)") auto
  have names: "tier_name x" if "x \<in> set (t # ts)" for x
  proof -
    have "x \<in> set (filter (\<lambda>t. t \<noteq> []) (map ct_evidence_tier rel))" using that f(1) by simp
    then show ?thesis using assms(1) by auto
  qed
  show ?thesis using tier_name_weight[OF names names max_text_ge(1)[OF f(2)]] f max_text_ge(2)[of t ts] by (simp add: inferred_tier_def)
qed

text \<open>A tier without such a name outranks every proof: the textual maximum picks it and its weight is small.\<close>

lemma unknown_tier_outranks_proof:
  "normalize_proof_level (inferred_tier [\<lparr>ct_incident_id = None, ct_test_result = ''PASS'', ct_evidence_tier = ''T4_WRITER_PROOF''\<rparr>,
     \<lparr>ct_incident_id = None, ct_test_result = ''PASS'', ct_evidence_tier = ''UNKNOWN''\<rparr>]) = PROOF_UNKNOWN"
  by code_simp

end
