(* ===== verification/Blake2b.thy ===== *)
theory Blake2b
  imports Sha256
begin

text \<open>
  BLAKE2b without a key, as \<open>hashlib.blake2b(data, digest_size=n).digest()\<close> computes it: the fleet partitioner takes eight bytes of it.
  State and message are lists of 64-bit words, the compression is a fold of the mixing function over the rounds of the schedule.
  The lemmas give the length of a digest and the range of the number that \<open>int.from_bytes(digest, "big")\<close> reads.
\<close>

unbundle bit_operations_syntax

type_synonym w64 = "64 word"

definition blake_IV :: "w64 list" where
  "blake_IV = [0x6a09e667f3bcc908, 0xbb67ae8584caa73b, 0x3c6ef372fe94f82b, 0xa54ff53a5f1d36f1,
               0x510e527fade682d1, 0x9b05688c2b3e6c1f, 0x1f83d9abfb41bd6b, 0x5be0cd19137e2179]"

definition blake_sigma :: "nat list list" where
  "blake_sigma =
     [[0, 1, 2, 3, 4, 5, 6, 7, 8, 9, 10, 11, 12, 13, 14, 15], [14, 10, 4, 8, 9, 15, 13, 6, 1, 12, 0, 2, 11, 7, 5, 3],
      [11, 8, 12, 0, 5, 2, 15, 13, 10, 14, 3, 6, 7, 1, 9, 4], [7, 9, 3, 1, 13, 12, 11, 14, 2, 6, 5, 10, 4, 0, 15, 8],
      [9, 0, 5, 7, 2, 4, 10, 15, 14, 1, 11, 12, 6, 8, 3, 13], [2, 12, 6, 10, 0, 11, 8, 3, 4, 13, 7, 5, 15, 14, 1, 9],
      [12, 5, 1, 15, 14, 13, 4, 10, 0, 7, 6, 3, 9, 2, 8, 11], [13, 11, 7, 14, 12, 1, 3, 9, 5, 0, 15, 4, 8, 6, 2, 10],
      [6, 15, 14, 9, 11, 3, 0, 8, 12, 2, 13, 7, 1, 4, 10, 5], [10, 2, 8, 4, 7, 6, 1, 5, 15, 11, 9, 14, 3, 12, 13, 0]]"

text \<open>The eight quarters of a round: which state words are mixed.\<close>

definition blake_quarters :: "(nat \<times> nat \<times> nat \<times> nat) list" where
  "blake_quarters = [(0, 4, 8, 12), (1, 5, 9, 13), (2, 6, 10, 14), (3, 7, 11, 15),
                     (0, 5, 10, 15), (1, 6, 11, 12), (2, 7, 8, 13), (3, 4, 9, 14)]"

definition blake_mix :: "w64 list \<Rightarrow> (nat \<times> nat \<times> nat \<times> nat) \<times> w64 \<times> w64 \<Rightarrow> w64 list" where
  "blake_mix v q =
     (case q of ((a, b, c, d), x, y) \<Rightarrow>
       (let a1 = v ! a + v ! b + x; d1 = word_rotr 32 (v ! d XOR a1); c1 = v ! c + d1; b1 = word_rotr 24 (v ! b XOR c1);
            a2 = a1 + b1 + y; d2 = word_rotr 16 (d1 XOR a2); c2 = c1 + d2; b2 = word_rotr 63 (b1 XOR c2)
        in v[a := a2, b := b2, c := c2, d := d2]))"

definition blake_round :: "w64 list \<Rightarrow> w64 list \<Rightarrow> nat list \<Rightarrow> w64 list" where
  "blake_round ms v s =
     foldl blake_mix v (map (\<lambda>i. (blake_quarters ! i, ms ! (s ! (2 * i)), ms ! (s ! (2 * i + 1)))) [0..<8])"

definition word_le :: "nat list \<Rightarrow> w64" where
  "word_le bs = of_nat (foldr (\<lambda>b n. b + 256 * n) bs 0)"

definition blake_compress :: "w64 list \<Rightarrow> nat list \<Rightarrow> nat \<Rightarrow> bool \<Rightarrow> w64 list" where
  "blake_compress h block t final =
     (let ms = map word_le (chunks 8 block);
          v0 = h @ blake_IV;
          v1 = v0[12 := v0 ! 12 XOR of_nat t, 13 := v0 ! 13 XOR of_nat (t div 2 ^ 64)];
          v2 = (if final then v1[14 := NOT (v1 ! 14)] else v1);
          v = foldl (blake_round ms) v2 (map (\<lambda>r. blake_sigma ! (r mod 10)) [0..<12])
      in map (\<lambda>i. h ! i XOR v ! i XOR v ! (i + 8)) [0..<8])"

fun blake_blocks :: "w64 list \<Rightarrow> nat \<Rightarrow> nat list \<Rightarrow> w64 list" where
  "blake_blocks h t bs =
     (if length bs \<le> 128 then blake_compress h (bs @ replicate (128 - length bs) 0) (t + length bs) True
      else blake_blocks (blake_compress h (take 128 bs) (t + 128) False) (t + 128) (drop 128 bs))"

declare blake_blocks.simps [simp del]

definition le_bytes :: "w64 \<Rightarrow> nat list" where
  "le_bytes w = rev (be_bytes 8 (unat w))"

definition blake2b_digest :: "nat \<Rightarrow> nat list \<Rightarrow> nat list" where
  "blake2b_digest n bs =
     take n (concat (map le_bytes (blake_blocks (blake_IV[0 := hd blake_IV XOR 0x01010000 XOR of_nat n]) 0 bs)))"

definition from_bytes_big :: "nat list \<Rightarrow> nat" where
  "from_bytes_big bs = foldl (\<lambda>n b. 256 * n + b) 0 bs"

section \<open>Shape\<close>

lemma length_blake_compress: "length (blake_compress h b t f) = 8"
  by (simp add: blake_compress_def Let_def)

lemma length_blake_blocks: "length (blake_blocks h t bs) = 8"
  by (induction h t bs rule: blake_blocks.induct)
    (subst blake_blocks.simps, simp add: length_blake_compress)

lemma length_blake2b_digest: "n \<le> 64 \<Longrightarrow> length (blake2b_digest n bs) = n"
  unfolding blake2b_digest_def
  by (subst length_take, subst length_concat_map_const [where k = 8])
    (simp_all add: le_bytes_def be_bytes_def length_blake_blocks)

lemma blake2b_digest_bytes: "b \<in> set (blake2b_digest n bs) \<Longrightarrow> b < 256"
  by (auto simp: blake2b_digest_def le_bytes_def be_bytes_def dest!: in_set_takeD)

lemma from_bytes_big_less:
  assumes "\<And>b. b \<in> set bs \<Longrightarrow> b < 256"
  shows "from_bytes_big bs < 256 ^ length bs"
  using assms
proof (induction bs rule: rev_induct)
  case Nil
  then show ?case by (simp add: from_bytes_big_def)
next
  case (snoc b bs)
  then have "from_bytes_big bs < 256 ^ length bs" and "b < 256" by auto
  then have "256 * from_bytes_big bs + b < 256 * 256 ^ length bs" by linarith
  then show ?case by (simp add: from_bytes_big_def)
qed

end
