(* ===== verification/Fleet.thy ===== *)
theory Fleet
  imports Blake2b Py_Values
begin

text \<open>
  Fleet ingestion, \<open>platform_core/fleet/{models,deduplication,ingestion,partitioning}.py\<close>: the event envelope with its derived fields, the
  in-memory idempotency store with its time to live, the assignment of partitions and topics, and the gateway that deduplicates and
  publishes. What a call reads from its surroundings (the monotonic clock, the wall clock, three environment variables, the outcome
  of writing a row and the publisher) is the record \<open>call_env\<close>. The lemmas show that, within the time to live, the gateway
  implements a plain specification: the first event of each key is published, later ones are answered from it.
\<close>

section \<open>Envelope\<close>

record tenant_context =
  tc_tenant_id :: string
  tc_org_id :: string
  tc_region :: string
  tc_data_residency :: string
  tc_tier :: string

record fleet_envelope =
  fe_schema_version :: string
  fe_event_id :: string
  fe_idempotency_key :: string
  fe_tenant :: tenant_context
  fe_producer_id :: string
  fe_producer_kind :: string
  fe_endpoint_id_hash :: string
  fe_partition_key :: string
  fe_stream :: string
  fe_timestamp_utc :: string
  fe_correlation_id :: string
  fe_causation_id :: "string option"
  fe_payload :: pydict
  fe_payload_hash :: string

text \<open>
  Validation of the endpoint hash by the constructor: the length is checked first, then the validator of the class is applied. The
  exception carries the error type of the schema library.
\<close>

definition lower_hex_hash :: "string \<Rightarrow> string" where
  "lower_hex_hash v = py_strip (py_lower v)"

definition validate_endpoint_hash :: "string \<Rightarrow> string py_result" where
  "validate_endpoint_hash v =
     (if length v < 32 then Inl (ValueError ''string_too_short'') else if 64 < length v then Inl (ValueError ''string_too_long'')
      else Inr (lower_hex_hash v))"

definition compute_partition_key :: "fleet_envelope \<Rightarrow> string" where
  "compute_partition_key e = tc_tenant_id (fe_tenant e) @ '':'' @ fe_endpoint_id_hash e"

definition compute_payload_hash :: "fleet_envelope \<Rightarrow> string" where
  "compute_payload_hash e = sha256_hexdigest (json_text True '','' '':'' (PyDict (fe_payload e)))"

definition finalize :: "fleet_envelope \<Rightarrow> fleet_envelope" where
  "finalize e = e\<lparr>fe_partition_key := compute_partition_key e, fe_payload_hash := compute_payload_hash e\<rparr>"

text \<open>\<open>model_dump(mode="json")\<close> of an envelope.\<close>

definition tenant_dump :: "tenant_context \<Rightarrow> pydict" where
  "tenant_dump t =
     [(''tenant_id'', PyStr (tc_tenant_id t)), (''org_id'', PyStr (tc_org_id t)), (''region'', PyStr (tc_region t)),
      (''data_residency'', PyStr (tc_data_residency t)), (''tier'', PyStr (tc_tier t))]"

definition envelope_dump :: "fleet_envelope \<Rightarrow> pydict" where
  "envelope_dump e =
     [(''schema_version'', PyStr (fe_schema_version e)), (''event_id'', PyStr (fe_event_id e)),
      (''idempotency_key'', PyStr (fe_idempotency_key e)), (''tenant'', PyDict (tenant_dump (fe_tenant e))),
      (''producer_id'', PyStr (fe_producer_id e)), (''producer_kind'', PyStr (fe_producer_kind e)),
      (''endpoint_id_hash'', PyStr (fe_endpoint_id_hash e)), (''partition_key'', PyStr (fe_partition_key e)),
      (''stream'', PyStr (fe_stream e)), (''timestamp_utc'', PyStr (fe_timestamp_utc e)),
      (''correlation_id'', PyStr (fe_correlation_id e)), (''causation_id'', optional_text (fe_causation_id e)),
      (''payload'', PyDict (fe_payload e)), (''payload_hash'', PyStr (fe_payload_hash e))]"

section \<open>Idempotency store\<close>

datatype dedup_outcome = D_accepted | D_duplicate | D_conflict

record dedup_decision =
  dd_outcome :: dedup_outcome
  dd_event_id :: string
  dd_reason :: string
  dd_existing_event_id :: "string option"

record idempotency_record =
  ir_tenant_id :: string
  ir_producer_id :: string
  ir_idempotency_key :: string
  ir_event_id :: string
  ir_first_seen_utc :: string
  ir_expires_at_utc :: string

type_synonym dedup_key = "string \<times> string \<times> string"

text \<open>
  The two dictionaries of the store. The attribute \<open>_insert_times\<close> is created on first use; an absent attribute is an empty map.
\<close>

record idempotency_store =
  is_ttl :: rat
  is_keys :: "dedup_key \<Rightarrow> idempotency_record option"
  is_insert_times :: "dedup_key \<Rightarrow> rat option"

definition new_idempotency_store :: "rat \<Rightarrow> idempotency_store" where
  "new_idempotency_store ttl = \<lparr>is_ttl = ttl, is_keys = (\<lambda>k. None), is_insert_times = (\<lambda>k. None)\<rparr>"

definition default_ttl :: rat where
  "default_ttl = 72 * 3600"

definition expired :: "rat \<Rightarrow> idempotency_store \<Rightarrow> dedup_key \<Rightarrow> bool" where
  "expired now st k = (case is_insert_times st k of None \<Rightarrow> False | Some t \<Rightarrow> is_ttl st < now - t)"

definition purge_expired :: "rat \<Rightarrow> idempotency_store \<Rightarrow> idempotency_store" where
  "purge_expired now st =
     st\<lparr>is_keys := (\<lambda>k. if expired now st k then None else is_keys st k),
        is_insert_times := (\<lambda>k. if expired now st k then None else is_insert_times st k)\<rparr>"

definition envelope_key :: "fleet_envelope \<Rightarrow> dedup_key" where
  "envelope_key e = (tc_tenant_id (fe_tenant e), fe_producer_id e, fe_idempotency_key e)"

text \<open>
  \<open>check_and_record\<close> with the two readings of the monotonic clock (in the purge and at the insertion) and the wall clock of the record.
\<close>

definition check_and_record ::
  "rat \<Rightarrow> rat \<Rightarrow> string \<Rightarrow> fleet_envelope \<Rightarrow> idempotency_store \<Rightarrow> idempotency_store \<times> dedup_decision" where
  "check_and_record now ins utc e st =
     (if fe_idempotency_key e = []
      then (st, \<lparr>dd_outcome = D_conflict, dd_event_id = fe_event_id e, dd_reason = ''missing_idempotency_key'', dd_existing_event_id = None\<rparr>)
      else let key = envelope_key e; st1 = purge_expired now st
           in case is_keys st1 key of
                Some existing \<Rightarrow>
                  (if ir_event_id existing = fe_event_id e
                   then (st1, \<lparr>dd_outcome = D_duplicate, dd_event_id = fe_event_id e, dd_reason = ''retry_same_event_id'',
                               dd_existing_event_id = Some (ir_event_id existing)\<rparr>)
                   else (st1, \<lparr>dd_outcome = D_conflict, dd_event_id = fe_event_id e, dd_reason = ''idempotency_key_reuse_different_payload'',
                               dd_existing_event_id = Some (ir_event_id existing)\<rparr>))
              | None \<Rightarrow>
                  (st1\<lparr>is_keys := (is_keys st1)(key \<mapsto> \<lparr>ir_tenant_id = tc_tenant_id (fe_tenant e), ir_producer_id = fe_producer_id e,
                         ir_idempotency_key = fe_idempotency_key e, ir_event_id = fe_event_id e, ir_first_seen_utc = utc, ir_expires_at_utc = []\<rparr>),
                       is_insert_times := (is_insert_times st1)(key \<mapsto> ins)\<rparr>,
                   \<lparr>dd_outcome = D_accepted, dd_event_id = fe_event_id e, dd_reason = [], dd_existing_event_id = None\<rparr>))"

definition get_by_key :: "string \<Rightarrow> string \<Rightarrow> string \<Rightarrow> idempotency_store \<Rightarrow> idempotency_record option" where
  "get_by_key tenant producer key st = is_keys st (tenant, producer, key)"

section \<open>Partitions and topics\<close>

text \<open>The argument is the value of \<open>FLEET_PARTITION_COUNT\<close>, if it is set.\<close>

definition partition_count :: "string option \<Rightarrow> int" where
  "partition_count raw =
     (let n = (case py_int_of_str (case raw of None \<Rightarrow> ''256'' | Some r \<Rightarrow> r) of None \<Rightarrow> 256 | Some n \<Rightarrow> n)
      in max 16 (min n 4096))"

record fleet_partition =
  pk_tenant_id :: string
  pk_endpoint_id_hash :: string
  pk_partition_id :: int
  pk_partition_total :: int

definition kafka_key :: "fleet_partition \<Rightarrow> string" where
  "kafka_key p = pk_tenant_id p @ '':'' @ pk_endpoint_id_hash p"

definition assign_partition :: "string option \<Rightarrow> string \<Rightarrow> string \<Rightarrow> int option \<Rightarrow> fleet_partition" where
  "assign_partition raw tenant endpoint wanted =
     (let total_parts = (case wanted of None \<Rightarrow> partition_count raw | Some n \<Rightarrow> if n = 0 then partition_count raw else n);
          material = map char_code (tenant @ '':'' @ py_lower endpoint);
          pid = int (from_bytes_big (blake2b_digest 8 material)) mod total_parts
      in \<lparr>pk_tenant_id = tenant, pk_endpoint_id_hash = py_lower endpoint, pk_partition_id = pid, pk_partition_total = total_parts\<rparr>)"

definition topic_for_stream :: "string option \<Rightarrow> string \<Rightarrow> string \<Rightarrow> string" where
  "topic_for_stream raw_prefix stream tier =
     (let pre = (case raw_prefix of None \<Rightarrow> ''erp'' | Some p \<Rightarrow> p)
      in if tier = ''enterprise'' then pre @ ''.'' @ stream @ ''.enterprise'' else pre @ ''.'' @ stream @ ''.shared'')"

section \<open>Gateway\<close>

record stream_message =
  sm_topic :: string
  sm_key :: string
  sm_value :: string
  sm_headers :: "(string \<times> string) list"

text \<open>
  The surroundings of one call: clocks, environment, the error of writing to the local log if there is one, and the publisher with the
  error it raises for a message.
\<close>

record call_env =
  ce_now :: rat
  ce_insert :: rat
  ce_utc :: string
  ce_fleet_mode :: "string option"
  ce_partition_count :: "string option"
  ce_topic_prefix :: "string option"
  ce_wal_error :: "py_error option"
  ce_publisher :: "(stream_message \<Rightarrow> py_error option) option"

record 's gateway =
  gw_store :: 's
  gw_wal :: "pydict list"
  gw_stream :: "stream_message list"

definition new_gateway :: "'s \<Rightarrow> 's gateway" where
  "new_gateway st = \<lparr>gw_store = st, gw_wal = [], gw_stream = []\<rparr>"

text \<open>
  The gateway is written against the abstract class \<open>IdempotencyStore\<close>: the operation \<open>check_and_record\<close> of the store is an argument.
  The in-memory store is \<open>memory_check\<close>.
\<close>

type_synonym 's store_check = "call_env \<Rightarrow> fleet_envelope \<Rightarrow> 's \<Rightarrow> 's \<times> dedup_decision"

definition memory_check :: "idempotency_store store_check" where
  "memory_check c e st = check_and_record (ce_now c) (ce_insert c) (ce_utc c) e st"

record ingest_result =
  ig_accepted :: bool
  ig_event_id :: string
  ig_partition_id :: int
  ig_topic :: string
  ig_dedup :: dedup_decision
  ig_published :: bool

definition stream_message_of :: "fleet_envelope \<Rightarrow> string \<Rightarrow> int \<Rightarrow> stream_message" where
  "stream_message_of e topic pid =
     \<lparr>sm_topic = topic, sm_key = fe_partition_key e, sm_value = json_text False '', '' '': '' (PyDict (envelope_dump e)),
      sm_headers = [(''tenant_id'', tc_tenant_id (fe_tenant e)), (''event_id'', fe_event_id e), (''partition_id'', int_str pid),
                    (''schema_version'', fe_schema_version e)]\<rparr>"

definition fleet_publish ::
  "call_env \<Rightarrow> fleet_envelope \<Rightarrow> string \<Rightarrow> int \<Rightarrow> 's gateway \<Rightarrow> 's gateway \<times> bool py_result" where
  "fleet_publish c e topic pid gw =
     (if (case ce_fleet_mode c of None \<Rightarrow> ''local'' | Some v \<Rightarrow> v) = ''local''
      then (case ce_wal_error c of
              Some err \<Rightarrow> (gw, Inl err)
            | None \<Rightarrow> (gw\<lparr>gw_wal := gw_wal gw @ [envelope_dump e]\<rparr>, Inr True))
      else case ce_publisher c of
             None \<Rightarrow> (gw, Inr False)
           | Some pub \<Rightarrow>
               (let msg = stream_message_of e topic pid
                in case pub msg of
                     Some err \<Rightarrow> (gw, Inl err)
                   | None \<Rightarrow> (gw\<lparr>gw_stream := gw_stream gw @ [msg]\<rparr>, Inr True)))"

definition ingest_one ::
  "'s store_check \<Rightarrow> call_env \<Rightarrow> fleet_envelope \<Rightarrow> 's gateway \<Rightarrow> 's gateway \<times> ingest_result py_result" where
  "ingest_one check c envelope gw =
     (let fin = finalize envelope;
          (st, dedup) = check c fin (gw_store gw);
          gw1 = gw\<lparr>gw_store := st\<rparr>;
          part = assign_partition (ce_partition_count c) (tc_tenant_id (fe_tenant fin)) (fe_endpoint_id_hash fin) None;
          topic = topic_for_stream (ce_topic_prefix c) (fe_stream fin) (tc_tier (fe_tenant fin))
      in case dd_outcome dedup of
           D_conflict \<Rightarrow>
             (gw1, Inr \<lparr>ig_accepted = False, ig_event_id = fe_event_id fin, ig_partition_id = -1, ig_topic = [], ig_dedup = dedup,
                        ig_published = False\<rparr>)
         | D_duplicate \<Rightarrow>
             (gw1, Inr \<lparr>ig_accepted = True, ig_event_id = fe_event_id fin, ig_partition_id = pk_partition_id part, ig_topic = topic,
                        ig_dedup = dedup, ig_published = False\<rparr>)
         | D_accepted \<Rightarrow>
             (let (gw2, r) = fleet_publish c fin topic (pk_partition_id part) gw1
              in (gw2, bind_r r (\<lambda>published.
                    Inr \<lparr>ig_accepted = True, ig_event_id = fe_event_id fin, ig_partition_id = pk_partition_id part, ig_topic = topic,
                         ig_dedup = dedup, ig_published = published\<rparr>))))"

text \<open>A batch stops at the first exception; the calls before it have had their effect. Each call has its own surroundings.\<close>

fun ingest_batch ::
  "'s store_check \<Rightarrow> (call_env \<times> fleet_envelope) list \<Rightarrow> 's gateway \<Rightarrow> 's gateway \<times> ingest_result list py_result" where
  "ingest_batch check [] gw = (gw, Inr [])"
| "ingest_batch check ((c, e) # calls) gw =
     (case ingest_one check c e gw of
        (gw1, Inl err) \<Rightarrow> (gw1, Inl err)
      | (gw1, Inr r) \<Rightarrow>
          (case ingest_batch check calls gw1 of (gw2, rest) \<Rightarrow> (gw2, bind_r rest (\<lambda>rs. Inr (r # rs)))))"

section \<open>The contract of a store, and what the gateway does with it\<close>

text \<open>What a store answers for an envelope when it remembers the first event of each key, and what it remembers afterwards.\<close>

definition first_decision :: "(dedup_key \<Rightarrow> string option) \<Rightarrow> fleet_envelope \<Rightarrow> dedup_decision" where
  "first_decision seen e =
     (if fe_idempotency_key e = []
      then \<lparr>dd_outcome = D_conflict, dd_event_id = fe_event_id e, dd_reason = ''missing_idempotency_key'', dd_existing_event_id = None\<rparr>
      else case seen (envelope_key e) of
             None \<Rightarrow> \<lparr>dd_outcome = D_accepted, dd_event_id = fe_event_id e, dd_reason = [], dd_existing_event_id = None\<rparr>
           | Some i \<Rightarrow>
               \<lparr>dd_outcome = (if i = fe_event_id e then D_duplicate else D_conflict), dd_event_id = fe_event_id e,
                dd_reason = (if i = fe_event_id e then ''retry_same_event_id'' else ''idempotency_key_reuse_different_payload''),
                dd_existing_event_id = Some i\<rparr>)"

definition remember :: "(dedup_key \<Rightarrow> string option) \<Rightarrow> fleet_envelope \<Rightarrow> dedup_key \<Rightarrow> string option" where
  "remember seen e =
     (if fe_idempotency_key e = [] \<or> seen (envelope_key e) \<noteq> None then seen else seen(envelope_key e \<mapsto> fe_event_id e))"

text \<open>The effects of publishing an envelope: rows of the local log, messages of the stream, and the answer.\<close>

definition local_mode :: "call_env \<Rightarrow> bool" where
  "local_mode c \<longleftrightarrow> ce_fleet_mode c = None \<or> ce_fleet_mode c = Some ''local''"

definition call_partition :: "call_env \<Rightarrow> fleet_envelope \<Rightarrow> int" where
  "call_partition c e =
     pk_partition_id (assign_partition (ce_partition_count c) (tc_tenant_id (fe_tenant e)) (fe_endpoint_id_hash e) None)"

definition call_topic :: "call_env \<Rightarrow> fleet_envelope \<Rightarrow> string" where
  "call_topic c e = topic_for_stream (ce_topic_prefix c) (fe_stream e) (tc_tier (fe_tenant e))"

definition call_message :: "call_env \<Rightarrow> fleet_envelope \<Rightarrow> stream_message" where
  "call_message c e = stream_message_of (finalize e) (call_topic c e) (call_partition c e)"

definition wal_rows :: "call_env \<Rightarrow> fleet_envelope \<Rightarrow> pydict list" where
  "wal_rows c e = (if local_mode c \<and> ce_wal_error c = None then [envelope_dump (finalize e)] else [])"

definition stream_rows :: "call_env \<Rightarrow> fleet_envelope \<Rightarrow> stream_message list" where
  "stream_rows c e =
     (case ce_publisher c of
        Some pub \<Rightarrow> if \<not> local_mode c \<and> pub (call_message c e) = None then [call_message c e] else []
      | None \<Rightarrow> [])"

definition publish_answer :: "call_env \<Rightarrow> fleet_envelope \<Rightarrow> bool py_result" where
  "publish_answer c e =
     (if local_mode c then (case ce_wal_error c of None \<Rightarrow> Inr True | Some err \<Rightarrow> Inl err)
      else case ce_publisher c of
             None \<Rightarrow> Inr False
           | Some pub \<Rightarrow> (case pub (call_message c e) of None \<Rightarrow> Inr True | Some err \<Rightarrow> Inl err))"

lemma finalize_simps [simp]:
  "fe_idempotency_key (finalize e) = fe_idempotency_key e" "fe_tenant (finalize e) = fe_tenant e"
  "fe_event_id (finalize e) = fe_event_id e" "fe_producer_id (finalize e) = fe_producer_id e"
  "fe_endpoint_id_hash (finalize e) = fe_endpoint_id_hash e" "fe_stream (finalize e) = fe_stream e"
  "envelope_key (finalize e) = envelope_key e"
  by (simp_all add: finalize_def envelope_key_def)

lemma finalize_first [simp]: "first_decision seen (finalize e) = first_decision seen e" "remember seen (finalize e) = remember seen e"
  by (simp_all add: first_decision_def remember_def split: option.split)

lemma fleet_publish_effects:
  "fleet_publish c (finalize e) (call_topic c e) (call_partition c e) gw =
     (gw\<lparr>gw_wal := gw_wal gw @ wal_rows c e, gw_stream := gw_stream gw @ stream_rows c e\<rparr>, publish_answer c e)"
  by (auto simp: fleet_publish_def wal_rows_def stream_rows_def publish_answer_def local_mode_def call_message_def Let_def
      split: option.splits)

text \<open>The answer of the gateway, given the decision of the store.\<close>

definition gateway_answer :: "dedup_decision \<Rightarrow> call_env \<Rightarrow> fleet_envelope \<Rightarrow> ingest_result py_result" where
  "gateway_answer d c e =
     (if dd_outcome d = D_conflict
      then Inr \<lparr>ig_accepted = False, ig_event_id = fe_event_id e, ig_partition_id = -1, ig_topic = [], ig_dedup = d, ig_published = False\<rparr>
      else bind_r (if dd_outcome d = D_accepted then publish_answer c e else Inr False) (\<lambda>published.
        Inr \<lparr>ig_accepted = True, ig_event_id = fe_event_id e, ig_partition_id = call_partition c e, ig_topic = call_topic c e, ig_dedup = d,
             ig_published = published\<rparr>))"

lemma ingest_one_effects:
  assumes "check c (finalize e) (gw_store gw) = (st, d)"
  shows "ingest_one check c e gw =
     (gw\<lparr>gw_store := st, gw_wal := gw_wal gw @ (if dd_outcome d = D_accepted then wal_rows c e else []),
         gw_stream := gw_stream gw @ (if dd_outcome d = D_accepted then stream_rows c e else [])\<rparr>, gateway_answer d c e)"
proof -
  have part: "pk_partition_id (assign_partition (ce_partition_count c) (tc_tenant_id (fe_tenant e)) (fe_endpoint_id_hash e) None)
    = call_partition c e" by (simp add: call_partition_def)
  have topic: "topic_for_stream (ce_topic_prefix c) (fe_stream e) (tc_tier (fe_tenant e)) = call_topic c e" by (simp add: call_topic_def)
  show ?thesis
    by (cases "dd_outcome d") (simp_all add: ingest_one_def assms gateway_answer_def part topic fleet_publish_effects)
qed

text \<open>A sequence of separate calls, each answered or failing on its own, and what a store with perfect memory answers.\<close>

fun ingest_all ::
  "'s store_check \<Rightarrow> (call_env \<times> fleet_envelope) list \<Rightarrow> 's gateway \<Rightarrow> 's gateway \<times> ingest_result py_result list" where
  "ingest_all check [] gw = (gw, [])"
| "ingest_all check ((c, e) # calls) gw =
     (let (gw1, r) = ingest_one check c e gw; (gw2, rs) = ingest_all check calls gw1 in (gw2, r # rs))"

fun answers :: "(dedup_key \<Rightarrow> string option) \<Rightarrow> (call_env \<times> fleet_envelope) list \<Rightarrow> ingest_result py_result list" where
  "answers m [] = []"
| "answers m ((c, e) # calls) = gateway_answer (first_decision m e) c e # answers (remember m e) calls"

fun firsts ::
  "(dedup_key \<Rightarrow> string option) \<Rightarrow> (call_env \<times> fleet_envelope) list \<Rightarrow> (call_env \<times> fleet_envelope) list" where
  "firsts m [] = []"
| "firsts m ((c, e) # calls) =
     (if dd_outcome (first_decision m e) = D_accepted then [(c, e)] else []) @ firsts (remember m e) calls"

locale idempotency_contract =
  fixes check :: "'s store_check"
    and seen :: "'s \<Rightarrow> dedup_key \<Rightarrow> string option"
    and live :: "'s \<Rightarrow> bool"
    and usable :: "call_env \<Rightarrow> bool"
  assumes keeps: "live st \<Longrightarrow> usable c \<Longrightarrow> live (fst (check c e st))"
    and decides: "live st \<Longrightarrow> usable c \<Longrightarrow> snd (check c e st) = first_decision (seen st) e"
    and records: "live st \<Longrightarrow> usable c \<Longrightarrow> seen (fst (check c e st)) = remember (seen st) e"
begin

lemma gateway_run:
  assumes "live (gw_store gw)" and "\<And>c e. (c, e) \<in> set calls \<Longrightarrow> usable c"
  shows "\<exists>st. live st \<and> ingest_all check calls gw =
     (gw\<lparr>gw_store := st, gw_wal := gw_wal gw @ concat (map (\<lambda>(c, e). wal_rows c e) (firsts (seen (gw_store gw)) calls)),
         gw_stream := gw_stream gw @ concat (map (\<lambda>(c, e). stream_rows c e) (firsts (seen (gw_store gw)) calls))\<rparr>,
      answers (seen (gw_store gw)) calls)"
  using assms
proof (induction calls arbitrary: gw)
  case Nil
  then show ?case by (intro exI [of _ "gw_store gw"]) simp
next
  case (Cons call calls)
  obtain c e where call: "call = (c, e)" by fastforce
  obtain st d where chk: "check c (finalize e) (gw_store gw) = (st, d)" by fastforce
  have ok: "usable c" using Cons.prems(2) [of c e] call by simp
  have d: "d = first_decision (seen (gw_store gw)) e" and m: "seen st = remember (seen (gw_store gw)) e" and l: "live st"
    using decides [OF Cons.prems(1) ok, of "finalize e"] records [OF Cons.prems(1) ok, of "finalize e"]
      keeps [OF Cons.prems(1) ok, of "finalize e"] by (simp_all add: chk)
  define gw1 where "gw1 = gw\<lparr>gw_store := st, gw_wal := gw_wal gw @ (if dd_outcome d = D_accepted then wal_rows c e else []),
         gw_stream := gw_stream gw @ (if dd_outcome d = D_accepted then stream_rows c e else [])\<rparr>"
  have head: "ingest_one check c e gw = (gw1, gateway_answer d c e)"
    by (simp only: ingest_one_effects [of check c e gw st d, OF chk] gw1_def)
  have g1: "gw_store gw1 = st" by (simp add: gw1_def)
  have "\<exists>st'. live st' \<and> ingest_all check calls gw1 =
     (gw1\<lparr>gw_store := st', gw_wal := gw_wal gw1 @ concat (map (\<lambda>(c, e). wal_rows c e) (firsts (seen (gw_store gw1)) calls)),
         gw_stream := gw_stream gw1 @ concat (map (\<lambda>(c, e). stream_rows c e) (firsts (seen (gw_store gw1)) calls))\<rparr>,
      answers (seen (gw_store gw1)) calls)"
    using Cons.IH [of gw1] Cons.prems(2) l g1 by auto
  then obtain st' where "live st'" and rest: "ingest_all check calls gw1 =
     (gw1\<lparr>gw_store := st', gw_wal := gw_wal gw1 @ concat (map (\<lambda>(c, e). wal_rows c e) (firsts (seen st) calls)),
         gw_stream := gw_stream gw1 @ concat (map (\<lambda>(c, e). stream_rows c e) (firsts (seen st) calls))\<rparr>,
      answers (seen st) calls)" by (auto simp: g1)
  have "ingest_all check (call # calls) gw =
     (gw1\<lparr>gw_store := st', gw_wal := gw_wal gw1 @ concat (map (\<lambda>(c, e). wal_rows c e) (firsts (seen st) calls)),
         gw_stream := gw_stream gw1 @ concat (map (\<lambda>(c, e). stream_rows c e) (firsts (seen st) calls))\<rparr>,
      gateway_answer d c e # answers (seen st) calls)" by (simp add: call head rest)
  with \<open>live st'\<close> show ?case
    by (intro exI [of _ st']) (simp add: call m d [symmetric] gw1_def)
qed

end

subsection \<open>The in-memory store keeps the contract within its time to live\<close>

definition memory_seen :: "idempotency_store \<Rightarrow> dedup_key \<Rightarrow> string option" where
  "memory_seen st k = map_option ir_event_id (is_keys st k)"

definition memory_live :: "call_env set \<Rightarrow> rat \<Rightarrow> idempotency_store \<Rightarrow> bool" where
  "memory_live C ttl st \<longleftrightarrow>
     is_ttl st = ttl \<and> (\<forall>k t. is_insert_times st k = Some t \<longrightarrow> (\<forall>c\<in>C. ce_now c - t \<le> ttl))"

definition memory_usable :: "call_env set \<Rightarrow> rat \<Rightarrow> call_env \<Rightarrow> bool" where
  "memory_usable C ttl c \<longleftrightarrow> c \<in> C \<and> (\<forall>c'\<in>C. ce_now c' - ce_insert c \<le> ttl)"

lemma purge_nothing:
  assumes "memory_live C ttl st" and "c \<in> C"
  shows "purge_expired (ce_now c) st = st"
proof -
  have "expired (ce_now c) st = (\<lambda>k. False)"
    using assms by (intro ext) (force simp: memory_live_def expired_def not_less split: option.split)
  then show ?thesis by (simp add: purge_expired_def)
qed

interpretation mem: idempotency_contract memory_check memory_seen "memory_live C ttl" "memory_usable C ttl" for C ttl
proof
  fix st :: idempotency_store and c e
  assume l: "memory_live C ttl st" and u: "memory_usable C ttl c"
  then have purge: "purge_expired (ce_now c) st = st" by (simp add: purge_nothing memory_usable_def)
  show "memory_live C ttl (fst (memory_check c e st))"
    using l u by (auto simp: memory_check_def check_and_record_def purge memory_live_def memory_usable_def Let_def split: option.split)
  show "snd (memory_check c e st) = first_decision (memory_seen st) e"
    by (simp add: memory_check_def check_and_record_def purge first_decision_def memory_seen_def Let_def split: option.split)
  show "memory_seen (fst (memory_check c e st)) = remember (memory_seen st) e"
    by (auto simp: memory_check_def check_and_record_def purge remember_def memory_seen_def fun_eq_iff Let_def split: option.split)
qed

subsection \<open>Answers by history\<close>

definition seen_in :: "fleet_envelope list \<Rightarrow> dedup_key \<Rightarrow> string option" where
  "seen_in hist k = map_option fe_event_id (find (\<lambda>e. fe_idempotency_key e \<noteq> [] \<and> envelope_key e = k) hist)"

lemma find_append: "find p (xs @ ys) = (case find p xs of None \<Rightarrow> find p ys | Some x \<Rightarrow> Some x)"
  by (induction xs) auto

lemma seen_in_Nil [simp]: "seen_in [] = (\<lambda>k. None)"
  by (simp add: seen_in_def fun_eq_iff)

lemma remember_seen_in: "remember (seen_in h) e = seen_in (h @ [e])"
  by (auto simp: remember_def seen_in_def find_append fun_eq_iff split: option.split)

lemma first_accepted_iff:
  "dd_outcome (first_decision (seen_in h) e) = D_accepted \<longleftrightarrow>
     fe_idempotency_key e \<noteq> [] \<and> (\<forall>e'\<in>set h. envelope_key e' \<noteq> envelope_key e)"
proof (cases "fe_idempotency_key e = []")
  case False
  have "seen_in h (envelope_key e) = None \<longleftrightarrow> (\<forall>e'\<in>set h. envelope_key e' \<noteq> envelope_key e)"
    using False by (auto simp: seen_in_def find_None_iff envelope_key_def)
  with False show ?thesis by (auto simp: first_decision_def split: option.split)
qed (simp add: first_decision_def)

lemma answers_history:
  "answers (seen_in h) calls =
     map (\<lambda>i. gateway_answer (first_decision (seen_in (h @ map snd (take i calls))) (snd (calls ! i))) (fst (calls ! i)) (snd (calls ! i)))
       [0..<length calls]"
proof (induction calls arbitrary: h)
  case (Cons call calls)
  obtain c e where call: "call = (c, e)" by fastforce
  show ?case by (simp add: call remember_seen_in Cons.IH upt_conv_Cons map_Suc_upt [symmetric] comp_def del: upt_Suc)
qed simp

lemma firsts_history:
  "firsts (seen_in h) calls =
     nths calls {i. i < length calls \<and> dd_outcome (first_decision (seen_in (h @ map snd (take i calls))) (snd (calls ! i))) = D_accepted}"
proof (induction calls arbitrary: h)
  case (Cons call calls)
  obtain c e where call: "call = (c, e)" by fastforce
  show ?case by (simp add: call remember_seen_in Cons.IH nths_Cons)
qed simp

lemma firsts_distinct:
  "distinct (map (\<lambda>(c, e). envelope_key e) (firsts m calls)) \<and>
   (\<forall>(c, e)\<in>set (firsts m calls). m (envelope_key e) = None \<and> fe_idempotency_key e \<noteq> [])"
proof (induction calls arbitrary: m)
  case (Cons call calls)
  obtain c e where call: "call = (c, e)" by fastforce
  have acc: "dd_outcome (first_decision m e) = D_accepted \<longleftrightarrow> fe_idempotency_key e \<noteq> [] \<and> m (envelope_key e) = None"
    by (auto simp: first_decision_def split: option.split if_split)
  show ?case using Cons.IH [of "remember m e"] by (auto simp: call acc remember_def split: if_splits)
qed simp

lemma memory_run:
  assumes "\<forall>c\<in>fst ` set calls. \<forall>c'\<in>fst ` set calls. ce_now c - ce_insert c' \<le> ttl"
  shows "\<exists>gw. ingest_all memory_check calls (new_gateway (new_idempotency_store ttl)) = (gw, answers (seen_in []) calls) \<and>
     gw_wal gw = concat (map (\<lambda>(c, e). wal_rows c e) (firsts (seen_in []) calls)) \<and>
     gw_stream gw = concat (map (\<lambda>(c, e). stream_rows c e) (firsts (seen_in []) calls))"
proof -
  let ?gw = "new_gateway (new_idempotency_store ttl)" and ?C = "fst ` set calls"
  have "memory_live ?C ttl (gw_store ?gw)" by (simp add: memory_live_def new_gateway_def new_idempotency_store_def)
  moreover have "memory_usable ?C ttl c" if "(c, e) \<in> set calls" for c e
    using assms that by (force simp: memory_usable_def)
  moreover have "memory_seen (gw_store ?gw) = seen_in []"
    by (simp add: memory_seen_def new_gateway_def new_idempotency_store_def fun_eq_iff)
  ultimately show ?thesis
    using mem.gateway_run [of ?C ttl ?gw calls] by (auto simp: new_gateway_def)
qed

section \<open>Facts about partitions, keys and the store\<close>

lemma partition_count_range: "16 \<le> partition_count raw \<and> partition_count raw \<le> 4096"
  by (simp add: partition_count_def Let_def)

lemma py_lower_lower_hex_hash: "py_lower (lower_hex_hash v) = lower_hex_hash v"
proof -
  have "lower_char c = c" if "c \<in> set (lower_hex_hash v)" for c
    using that set_strip_by [of is_space "py_lower v"] by (auto simp: lower_hex_hash_def py_strip_def py_lower_def)
  then show ?thesis by (simp add: py_lower_def map_idI)
qed

lemma colon_split:
  assumes "CHR '':'' \<notin> set a" and "CHR '':'' \<notin> set b"
  shows "a @ '':'' @ x = b @ '':'' @ y \<longleftrightarrow> a = b \<and> x = y"
proof
  assume eq: "a @ '':'' @ x = b @ '':'' @ y"
  have "takeWhile (\<lambda>c. c \<noteq> CHR '':'') (a @ '':'' @ x) = a" "takeWhile (\<lambda>c. c \<noteq> CHR '':'') (b @ '':'' @ y) = b"
    using assms by (subst takeWhile_append2, auto)+
  with eq have "a = b" by simp
  with eq show "a = b \<and> x = y" by simp
qed simp

text \<open>The records of the store carry their own key and each has an insertion time; every operation keeps this.\<close>

definition record_key :: "idempotency_record \<Rightarrow> dedup_key" where
  "record_key r = (ir_tenant_id r, ir_producer_id r, ir_idempotency_key r)"

definition store_wf :: "idempotency_store \<Rightarrow> bool" where
  "store_wf st \<longleftrightarrow>
     (\<forall>k. is_keys st k = None \<longleftrightarrow> is_insert_times st k = None) \<and>
     (\<forall>k r. is_keys st k = Some r \<longrightarrow> k = record_key r \<and> ir_idempotency_key r \<noteq> [])"

lemma purge_wf: "store_wf st \<Longrightarrow> store_wf (purge_expired now st)"
  unfolding store_wf_def purge_expired_def by (auto split: if_splits simp del: split_paired_All)

lemma check_and_record_wf:
  assumes "store_wf st"
  shows "store_wf (fst (check_and_record now ins utc e st))"
proof -
  define st1 where "st1 = purge_expired now st"
  have wf: "store_wf st1" unfolding st1_def by (rule purge_wf) (rule assms)
  show ?thesis unfolding check_and_record_def Let_def st1_def [symmetric] using wf assms
    by (auto simp: store_wf_def envelope_key_def record_key_def split: option.split simp del: split_paired_All)
qed

lemma new_idempotency_store_wf: "store_wf (new_idempotency_store ttl)"
  by (simp add: store_wf_def new_idempotency_store_def)

section \<open>Properties\<close>

text \<open>
  C27. As long as no recorded key outlives the time to live, every sequence of ingest calls on a new gateway with the in-memory store is
  answered from the history: the answer of a call depends only on the first earlier envelope with the same tenant, producer and key.
  The local log and the stream hold exactly the publications of the first call of each non-empty key, in order, each key once.
\<close>

theorem ingest_first_wins:
  assumes "\<forall>c\<in>fst ` set calls. \<forall>c'\<in>fst ` set calls. ce_now c - ce_insert c' \<le> ttl"
  shows "\<exists>gw. ingest_all memory_check calls (new_gateway (new_idempotency_store ttl)) =
      (gw, map (\<lambda>i. gateway_answer (first_decision (seen_in (map snd (take i calls))) (snd (calls ! i))) (fst (calls ! i)) (snd (calls ! i)))
             [0..<length calls]) \<and>
    (let first = nths calls {i. i < length calls \<and> fe_idempotency_key (snd (calls ! i)) \<noteq> [] \<and>
                   (\<forall>e\<in>set (map snd (take i calls)). envelope_key e \<noteq> envelope_key (snd (calls ! i)))}
     in gw_wal gw = concat (map (\<lambda>(c, e). wal_rows c e) first) \<and>
        gw_stream gw = concat (map (\<lambda>(c, e). stream_rows c e) first) \<and>
        distinct (map (\<lambda>(c, e). envelope_key e) first))"
proof -
  have "firsts (seen_in []) calls = nths calls {i. i < length calls \<and> fe_idempotency_key (snd (calls ! i)) \<noteq> [] \<and>
          (\<forall>e\<in>set (map snd (take i calls)). envelope_key e \<noteq> envelope_key (snd (calls ! i)))}"
    by (simp only: firsts_history first_accepted_iff append_Nil)
  with memory_run [OF assms] firsts_distinct [of "seen_in []" calls] show ?thesis
    by (simp only: answers_history append_Nil Let_def) fastforce
qed

definition sample_fleet_envelope :: "string \<Rightarrow> fleet_envelope" where
  "sample_fleet_envelope i =
     \<lparr>fe_schema_version = ''fleet.envelope.v1'', fe_event_id = i, fe_idempotency_key = ''k'',
      fe_tenant = \<lparr>tc_tenant_id = ''t'', tc_org_id = [], tc_region = ''default'', tc_data_residency = ''default'', tc_tier = ''standard''\<rparr>,
      fe_producer_id = ''p'', fe_producer_kind = ''endpoint_agent'', fe_endpoint_id_hash = replicate 32 (CHR ''a''), fe_partition_key = [],
      fe_stream = ''telemetry.normalized'', fe_timestamp_utc = [], fe_correlation_id = [], fe_causation_id = None, fe_payload = [],
      fe_payload_hash = []\<rparr>"

definition sample_call_env :: "rat \<Rightarrow> string option \<Rightarrow> call_env" where
  "sample_call_env t mode =
     \<lparr>ce_now = t, ce_insert = t, ce_utc = [], ce_fleet_mode = mode, ce_partition_count = None, ce_topic_prefix = None, ce_wal_error = None,
      ce_publisher = None\<rparr>"

theorem ingest_first_wins_witness:
  "\<exists>gw rs. ingest_all memory_check [(sample_call_env 0 None, sample_fleet_envelope ''a''), (sample_call_env 1 None, sample_fleet_envelope ''b'')]
      (new_gateway (new_idempotency_store default_ttl)) = (gw, rs) \<and>
    gw_wal gw = [envelope_dump (finalize (sample_fleet_envelope ''a''))] \<and> gw_stream gw = []"
proof -
  let ?calls = "[(sample_call_env 0 None, sample_fleet_envelope ''a''), (sample_call_env 1 None, sample_fleet_envelope ''b'')]"
  have ok: "\<forall>c\<in>fst ` set ?calls. \<forall>c'\<in>fst ` set ?calls. ce_now c - ce_insert c' \<le> default_ttl"
    by (simp add: sample_call_env_def default_ttl_def)
  have one: "nths ?calls {i. i < length ?calls \<and> fe_idempotency_key (snd (?calls ! i)) \<noteq> [] \<and>
      (\<forall>e\<in>set (map snd (take i ?calls)). envelope_key e \<noteq> envelope_key (snd (?calls ! i)))} = [?calls ! 0]"
    by (simp add: nths_Cons sample_fleet_envelope_def envelope_key_def)
  have rows: "wal_rows (sample_call_env 0 None) (sample_fleet_envelope ''a'') = [envelope_dump (finalize (sample_fleet_envelope ''a''))]"
    "stream_rows (sample_call_env 0 None) (sample_fleet_envelope ''a'') = []"
    by (simp_all add: wal_rows_def stream_rows_def local_mode_def sample_call_env_def)
  show ?thesis using ingest_first_wins [OF ok] unfolding Let_def one by (auto simp: rows simp del: ingest_all.simps)
qed

text \<open>
  An event whose publication failed is lost: the key is recorded before the event is published, so within the time to live every
  retry of the same envelope, with whatever publisher, is answered as an accepted duplicate and nothing is ever written or published.
\<close>

theorem failed_publication_never_retried:
  assumes "\<forall>x\<in>set (c # cs). \<forall>y\<in>set (c # cs). ce_now x - ce_insert y \<le> ttl"
    and "fe_idempotency_key e \<noteq> []" and "publish_answer c e \<noteq> Inr True"
  shows "\<exists>gw first retries. ingest_all memory_check (map (\<lambda>x. (x, e)) (c # cs)) (new_gateway (new_idempotency_store ttl)) = (gw, first # retries) \<and>
      gw_wal gw = [] \<and> gw_stream gw = [] \<and> length retries = length cs \<and>
      (\<forall>r\<in>set retries. \<exists>x. r = Inr x \<and> ig_accepted x \<and> dd_outcome (ig_dedup x) = D_duplicate \<and> \<not> ig_published x)"
proof -
  let ?calls = "map (\<lambda>x. (x, e)) (c # cs)" and ?m = "remember (seen_in []) e"
  have m: "?m (envelope_key e) = Some (fe_event_id e)" using assms(2) by (simp add: remember_def)
  then have again: "remember ?m e = ?m" and dup: "dd_outcome (first_decision ?m e) = D_duplicate"
    using assms(2) by (simp_all add: remember_def first_decision_def)
  have acc: "dd_outcome (first_decision (seen_in []) e) = D_accepted" using assms(2) by (simp add: first_decision_def)
  have f: "firsts ?m (map (\<lambda>x. (x, e)) cs) = []" by (induction cs) (simp_all add: again dup del: seen_in_Nil)
  have a: "answers ?m (map (\<lambda>x. (x, e)) cs) = map (\<lambda>x. gateway_answer (first_decision ?m e) x e) cs"
    by (induction cs) (simp_all add: again del: seen_in_Nil)
  have lost: "wal_rows c e = []" "stream_rows c e = []"
    using assms(3) by (auto simp: wal_rows_def stream_rows_def publish_answer_def split: option.splits if_splits)
  have "\<forall>x\<in>fst ` set ?calls. \<forall>y\<in>fst ` set ?calls. ce_now x - ce_insert y \<le> ttl" using assms(1) by (simp add: image_image)
  from memory_run [OF this] obtain gw where run: "ingest_all memory_check ?calls (new_gateway (new_idempotency_store ttl)) = (gw, answers (seen_in []) ?calls)"
    and out: "gw_wal gw = [] \<and> gw_stream gw = []"
    by (auto simp: f acc lost simp del: seen_in_Nil)
  show ?thesis unfolding run using out
    by (auto simp: a gateway_answer_def dup simp del: seen_in_Nil)
qed

theorem failed_publication_never_retried_witness:
  "\<exists>gw first retries. ingest_all memory_check (map (\<lambda>x. (x, sample_fleet_envelope ''a''))
        [sample_call_env 0 (Some ''stream''), sample_call_env 1 None]) (new_gateway (new_idempotency_store default_ttl)) = (gw, first # retries) \<and>
      gw_wal gw = [] \<and> gw_stream gw = [] \<and> length retries = 1 \<and>
      (\<forall>r\<in>set retries. \<exists>x. r = Inr x \<and> ig_accepted x \<and> dd_outcome (ig_dedup x) = D_duplicate \<and> \<not> ig_published x)"
  using failed_publication_never_retried [of "sample_call_env 0 (Some ''stream'')" "[sample_call_env 1 None]" default_ttl "sample_fleet_envelope ''a''"]
  by (simp add: sample_call_env_def default_ttl_def sample_fleet_envelope_def publish_answer_def local_mode_def)

text \<open>
  The store at any time, expiry included: it stays well formed; a call is accepted exactly when the key is not empty and no live record
  of it exists; an accepted call leaves a record with its event and the time of insertion, a record of another key survives exactly when it
  has not expired, and nothing else is added.
\<close>

theorem dedup_store_exact:
  assumes "store_wf st" and "check_and_record now ins utc e st = (st', d)"
  shows "store_wf st' \<and>
    (dd_outcome d = D_accepted \<longleftrightarrow> fe_idempotency_key e \<noteq> [] \<and> (is_keys st (envelope_key e) = None \<or> expired now st (envelope_key e))) \<and>
    (dd_outcome d = D_duplicate \<longleftrightarrow> fe_idempotency_key e \<noteq> [] \<and> \<not> expired now st (envelope_key e) \<and>
       map_option ir_event_id (is_keys st (envelope_key e)) = Some (fe_event_id e)) \<and>
    (dd_outcome d = D_accepted \<longrightarrow>
       map_option ir_event_id (get_by_key (tc_tenant_id (fe_tenant e)) (fe_producer_id e) (fe_idempotency_key e) st') = Some (fe_event_id e) \<and>
       is_insert_times st' (envelope_key e) = Some ins) \<and>
    (fe_idempotency_key e \<noteq> [] \<longrightarrow>
      (\<forall>k. k \<noteq> envelope_key e \<longrightarrow> is_keys st' k = (if expired now st k then None else is_keys st k)))"
proof -
  have "store_wf st'" using check_and_record_wf [OF assms(1), of now ins utc e] by (simp add: assms(2))
  then show ?thesis
    using assms(2)
    by (auto simp: check_and_record_def purge_expired_def get_by_key_def envelope_key_def Let_def
        split: if_splits option.splits)
qed

theorem dedup_store_exact_witness:
  "dd_outcome (snd (check_and_record 5 5 [] (sample_fleet_envelope ''a'') (new_idempotency_store default_ttl))) = D_accepted"
  using dedup_store_exact [of "new_idempotency_store default_ttl" 5 5 "[]" "sample_fleet_envelope ''a''"
      "fst (check_and_record 5 5 [] (sample_fleet_envelope ''a'') (new_idempotency_store default_ttl))"
      "snd (check_and_record 5 5 [] (sample_fleet_envelope ''a'') (new_idempotency_store default_ttl))"]
  by (simp add: new_idempotency_store_wf) (simp add: new_idempotency_store_def sample_fleet_envelope_def)

text \<open>
  Partitions: the configured number is within 16 and 4096 whatever the environment says, the partition is within the number used, case
  of the endpoint does not matter, and for a validated endpoint the key of the partition is the key the envelope is published under.
  Keys of two tenants without a colon in their identifiers differ.
\<close>

theorem partition_bounds:
  assumes "validate_endpoint_hash v = Inr (fe_endpoint_id_hash e)" and "p = assign_partition raw (tc_tenant_id (fe_tenant e)) (fe_endpoint_id_hash e) wanted"
    and "case wanted of None \<Rightarrow> True | Some n \<Rightarrow> 0 \<le> n"
  shows "0 \<le> pk_partition_id p \<and> pk_partition_id p < pk_partition_total p \<and>
    (wanted = None \<or> wanted = Some 0 \<longrightarrow> 16 \<le> pk_partition_total p \<and> pk_partition_total p \<le> 4096) \<and>
    assign_partition raw (tc_tenant_id (fe_tenant e)) (py_strip v) wanted = p \<and>
    kafka_key p = fe_partition_key (finalize e) \<and>
    (\<forall>e'. CHR '':'' \<notin> set (tc_tenant_id (fe_tenant e)) \<longrightarrow> CHR '':'' \<notin> set (tc_tenant_id (fe_tenant e')) \<longrightarrow>
       (fe_partition_key (finalize e) = fe_partition_key (finalize e') \<longleftrightarrow>
        tc_tenant_id (fe_tenant e) = tc_tenant_id (fe_tenant e') \<and> fe_endpoint_id_hash e = fe_endpoint_id_hash e'))"
proof -
  have h: "fe_endpoint_id_hash e = lower_hex_hash v" using assms(1) by (auto simp: validate_endpoint_hash_def split: if_splits)
  then have low: "py_lower (fe_endpoint_id_hash e) = fe_endpoint_id_hash e" by (simp add: py_lower_lower_hex_hash)
  have strip: "py_lower (py_strip v) = fe_endpoint_id_hash e" by (simp add: h lower_hex_hash_def py_lower_strip)
  have tot: "0 < pk_partition_total p"
    using partition_count_range [of raw] assms(3) by (auto simp: assms(2) assign_partition_def Let_def split: option.split)
  have pid: "pk_partition_id p = int (from_bytes_big (blake2b_digest 8 (map char_code (tc_tenant_id (fe_tenant e) @ '':'' @
      py_lower (fe_endpoint_id_hash e))))) mod pk_partition_total p" by (simp add: assms(2) assign_partition_def Let_def)
  have range: "wanted = None \<or> wanted = Some 0 \<longrightarrow> 16 \<le> pk_partition_total p \<and> pk_partition_total p \<le> 4096"
    using partition_count_range [of raw] by (auto simp: assms(2) assign_partition_def Let_def)
  have same: "assign_partition raw (tc_tenant_id (fe_tenant e)) (py_strip v) wanted = p"
    by (simp add: assms(2) assign_partition_def strip low)
  have key: "kafka_key p = fe_partition_key (finalize e)"
    by (simp add: kafka_key_def assms(2) assign_partition_def Let_def finalize_def compute_partition_key_def low)
  have inj: "fe_partition_key (finalize e) = fe_partition_key (finalize e') \<longleftrightarrow>
        tc_tenant_id (fe_tenant e) = tc_tenant_id (fe_tenant e') \<and> fe_endpoint_id_hash e = fe_endpoint_id_hash e'"
    if "CHR '':'' \<notin> set (tc_tenant_id (fe_tenant e))" "CHR '':'' \<notin> set (tc_tenant_id (fe_tenant e'))" for e'
    using colon_split [OF that] by (simp add: finalize_def compute_partition_key_def)
  show ?thesis using tot range same key inj unfolding pid by (simp add: pos_mod_bound pos_mod_sign)
qed

theorem partition_bounds_witness:
  "16 \<le> pk_partition_total (assign_partition (Some ''7'') ''t'' (fe_endpoint_id_hash (sample_fleet_envelope ''a'')) None)"
  using partition_bounds [of "replicate 32 (CHR ''a'')" "sample_fleet_envelope ''a''"
      "assign_partition (Some ''7'') ''t'' (fe_endpoint_id_hash (sample_fleet_envelope ''a'')) None" "Some ''7''" None]
  by (simp add: validate_endpoint_hash_def lower_hex_hash_def py_eval sample_fleet_envelope_def)

text \<open>The length of the endpoint hash is checked before blanks are removed, and nothing checks for hexadecimal digits.\<close>

lemma blank_endpoint_accepted: "validate_endpoint_hash (replicate 32 (CHR '' '')) = Inr []"
  by (simp add: validate_endpoint_hash_def lower_hex_hash_def py_eval)

lemma partition_key_collision:
  "validate_endpoint_hash (''x:'' @ replicate 32 (CHR ''a'')) = Inr (''x:'' @ replicate 32 (CHR ''a'')) \<and>
   (''t'' @ '':'' @ ''x:'' @ replicate 32 (CHR ''a'') = ''t:x'' @ '':'' @ replicate 32 (CHR ''a''))"
  by (simp add: validate_endpoint_hash_def lower_hex_hash_def py_eval)

end
