(* ===== verification/Access_Control.thy ===== *)
theory Access_Control
  imports Py_Values
begin

text \<open>
  Access control: \<open>platform_core/rbac.py\<close> and \<open>backend/platform_auth.py\<close> (roles of the \<open>/platform\<close> API, from headers or a bearer key),
  \<open>backend/auth/rbac.py\<close> (roles of the \<open>/v1\<close> API) and \<open>platform_core/fleet/tenancy.py\<close> (tenant boundary). A guard returns nothing or raises an
  \<open>HTTPException\<close>; environment variables and the configured key are arguments. The lemmas give the exact permission matrices and who
  obtains which role.
\<close>

section \<open>Roles of the platform API\<close>

record demo_principal =
  dp_operator_id :: string
  dp_role :: string

text \<open>\<open>a or b or c\<close> on optional texts.\<close>

definition str_or :: "string option \<Rightarrow> string option \<Rightarrow> string \<Rightarrow> string" where
  "str_or a b c =
     (case a of Some x \<Rightarrow> if x \<noteq> [] then x else (case b of Some y \<Rightarrow> if y \<noteq> [] then y else c | None \<Rightarrow> c)
      | None \<Rightarrow> (case b of Some y \<Rightarrow> if y \<noteq> [] then y else c | None \<Rightarrow> c))"

text \<open>The first argument is \<open>PLATFORM_DEFAULT_ROLE\<close>.\<close>

definition normalize_role :: "string option \<Rightarrow> string option \<Rightarrow> string" where
  "normalize_role env raw =
     (let r = py_lower (py_strip (str_or raw env ''operator''))
      in if r = ''security'' then ''security_auditor''
         else if r \<in> {''viewer'', ''operator'', ''admin'', ''security_auditor''} then r
         else ''operator'')"

definition parse_demo_principal :: "string option \<Rightarrow> string option \<Rightarrow> string option \<Rightarrow> string option \<Rightarrow> demo_principal" where
  "parse_demo_principal env_id env_role x_operator_id x_operator_role =
     \<lparr>dp_operator_id = py_strip (str_or x_operator_id env_id ''anonymous''), dp_role = normalize_role env_role x_operator_role\<rparr>"

definition denied :: "string \<Rightarrow> 'a py_result" where
  "denied detail = Inl (HTTPException 403 detail)"

definition assert_can_preview :: "demo_principal \<Rightarrow> unit py_result" where
  "assert_can_preview p =
     (if dp_role p = ''viewer'' then denied ''viewer is read-only''
      else if dp_role p = ''security_auditor'' then denied ''security role may view audit/attribution only''
      else if dp_role p \<notin> {''operator'', ''admin''} then denied ''remediation preview requires operator or admin''
      else Inr ())"

definition assert_can_execute :: "demo_principal \<Rightarrow> bool \<Rightarrow> unit py_result" where
  "assert_can_execute p dry_run =
     (if dp_role p \<notin> {''operator'', ''admin''} then denied ''remediation execute requires operator or admin''
      else if dp_role p = ''operator'' \<and> \<not> dry_run
      then denied ''operator role may only run dry_run executions; admin executes allowlisted repair''
      else Inr ())"

definition assert_can_read_audit :: "demo_principal \<Rightarrow> unit py_result" where
  "assert_can_read_audit p =
     (if dp_role p \<notin> {''admin'', ''security_auditor''} then denied ''audit log restricted to admin or security'' else Inr ())"

definition assert_can_read_attribution :: "demo_principal \<Rightarrow> unit py_result" where
  "assert_can_read_attribution p =
     (if dp_role p \<notin> {''operator'', ''admin'', ''security_auditor''}
      then denied ''attribution detail requires operator, admin, or security'' else Inr ())"

definition reader_roles :: "string set" where
  "reader_roles = {''viewer'', ''operator'', ''admin'', ''security_auditor''}"

definition assert_can_read_normalized_events :: "demo_principal \<Rightarrow> unit py_result" where
  "assert_can_read_normalized_events p = (if dp_role p \<notin> reader_roles then denied ''events list requires viewer or higher'' else Inr ())"

definition platform_can_read_incidents :: "demo_principal \<Rightarrow> unit py_result" where
  "platform_can_read_incidents p = (if dp_role p \<notin> reader_roles then denied ''incidents requires viewer or higher'' else Inr ())"

definition assert_can_read_metrics :: "demo_principal \<Rightarrow> unit py_result" where
  "assert_can_read_metrics p = (if dp_role p \<notin> reader_roles then denied ''invalid role for metrics'' else Inr ())"

definition assert_can_write_platform_payload :: "demo_principal \<Rightarrow> unit py_result" where
  "assert_can_write_platform_payload p =
     (if dp_role p = ''viewer'' then denied ''viewer is read-only''
      else if dp_role p = ''security_auditor'' then denied ''security role is read-only except audit/attribution views''
      else if dp_role p \<notin> {''operator'', ''admin''} then denied ''ingestion requires operator or admin''
      else Inr ())"

text \<open>\<open>get_settings().resolved_api_key()\<close> and the principal of a request.\<close>

definition resolved_api_key :: "string option \<Rightarrow> string option \<Rightarrow> string option" where
  "resolved_api_key platform_api_key er_platform_api_key =
     (case filter (\<lambda>c. py_strip c \<noteq> []) (List.map_filter id [platform_api_key, er_platform_api_key]) of
        [] \<Rightarrow> None | c # _ \<Rightarrow> Some (py_strip c))"

definition bearer_token :: "string option \<Rightarrow> string option" where
  "bearer_token authorization =
     (case authorization of
        None \<Rightarrow> None
      | Some a \<Rightarrow> if a \<noteq> [] \<and> py_startswith (py_lower a) ''bearer '' then Some (py_strip (tl (dropWhile (\<lambda>c. c \<noteq> CHR '' '') a))) else None)"

definition get_platform_principal ::
  "string option \<Rightarrow> string option \<Rightarrow> string option \<Rightarrow> string option \<Rightarrow> string option \<Rightarrow> string option \<Rightarrow> demo_principal py_result" where
  "get_platform_principal api_key env_id env_role x_operator_id x_operator_role authorization =
     (let by_headers = Inr (parse_demo_principal env_id env_role (Some (str_or x_operator_id None ''anonymous''))
                              (Some (str_or x_operator_role None ''viewer'')))
      in case bearer_token authorization of
           None \<Rightarrow> by_headers
         | Some token \<Rightarrow>
             (case api_key of
                None \<Rightarrow> by_headers
              | Some key \<Rightarrow>
                  if token = key then Inr (parse_demo_principal env_id env_role (Some ''api-key-client'') (Some ''admin''))
                  else Inl (HTTPException 401 ''invalid platform API key'')))"

section \<open>Roles of the v1 API\<close>

datatype v1_role = V1_ADMIN | V1_OPERATOR | V1_RISK_REVIEWER | V1_AUDITOR_READONLY | V1_DEMO_VIEWER

fun v1_role_value :: "v1_role \<Rightarrow> string" where
  "v1_role_value V1_ADMIN = ''admin''"
| "v1_role_value V1_OPERATOR = ''operator''"
| "v1_role_value V1_RISK_REVIEWER = ''risk_reviewer''"
| "v1_role_value V1_AUDITOR_READONLY = ''auditor_readonly''"
| "v1_role_value V1_DEMO_VIEWER = ''demo_viewer''"

record v1_principal =
  vp_actor_id :: string
  vp_role :: v1_role
  vp_tenant_id :: string

definition v1_roles :: "v1_role list" where
  "v1_roles = [V1_ADMIN, V1_OPERATOR, V1_RISK_REVIEWER, V1_AUDITOR_READONLY, V1_DEMO_VIEWER]"

definition parse_role :: "string option \<Rightarrow> v1_role" where
  "parse_role raw =
     (case raw of
        None \<Rightarrow> V1_DEMO_VIEWER
      | Some r \<Rightarrow>
          if r = [] then V1_DEMO_VIEWER
          else (case find (\<lambda>x. v1_role_value x = py_lower (py_strip r)) v1_roles of Some x \<Rightarrow> x | None \<Rightarrow> V1_DEMO_VIEWER))"

definition assert_can_manage_policy :: "v1_principal \<Rightarrow> unit py_result" where
  "assert_can_manage_policy p = (if vp_role p \<notin> {V1_ADMIN} then denied ''policy management requires admin'' else Inr ())"

definition assert_can_run_pipeline :: "v1_principal \<Rightarrow> unit py_result" where
  "assert_can_run_pipeline p =
     (if vp_role p \<notin> {V1_ADMIN, V1_OPERATOR, V1_RISK_REVIEWER} then denied ''pipeline requires operator, reviewer, or admin'' else Inr ())"

definition assert_can_ingest :: "v1_principal \<Rightarrow> unit py_result" where
  "assert_can_ingest p = (if vp_role p \<notin> {V1_ADMIN, V1_OPERATOR} then denied ''ingest requires operator or admin'' else Inr ())"

definition assert_can_review :: "v1_principal \<Rightarrow> unit py_result" where
  "assert_can_review p = (if vp_role p \<notin> {V1_ADMIN, V1_RISK_REVIEWER} then denied ''review requires risk_reviewer or admin'' else Inr ())"

definition v1_can_read_incidents :: "v1_principal \<Rightarrow> unit py_result" where
  "v1_can_read_incidents p =
     (if vp_role p = V1_DEMO_VIEWER then Inr ()
      else if vp_role p \<in> {V1_ADMIN, V1_OPERATOR, V1_RISK_REVIEWER, V1_AUDITOR_READONLY} then Inr ()
      else denied ''read incidents denied'')"

definition assert_can_read_audit_reports :: "v1_principal \<Rightarrow> unit py_result" where
  "assert_can_read_audit_reports p =
     (if vp_role p \<in> {V1_ADMIN, V1_RISK_REVIEWER, V1_AUDITOR_READONLY, V1_DEMO_VIEWER} then Inr () else denied ''audit/report read denied'')"

section \<open>Tenant boundary\<close>

record tenant_principal =
  tp_subject :: string
  tp_tenant_id :: string
  tp_roles :: "string set"
  tp_org_id :: string

definition has_role :: "tenant_principal \<Rightarrow> string \<Rightarrow> bool" where
  "has_role p r \<longleftrightarrow> r \<in> tp_roles p \<or> ''platform_admin'' \<in> tp_roles p"

definition tenant_role_map :: "(string \<times> string list) list" where
  "tenant_role_map =
     [(''read'', [''tenant_viewer'', ''tenant_operator'', ''tenant_admin'', ''tenant_security_auditor'']),
      (''write'', [''tenant_operator'', ''tenant_admin'']),
      (''replay'', [''tenant_admin'', ''tenant_security_auditor'']),
      (''admin'', [''tenant_admin''])]"

definition assert_tenant_access :: "tenant_principal \<Rightarrow> string \<Rightarrow> string \<Rightarrow> unit py_result" where
  "assert_tenant_access p resource_tenant_id action =
     (if ''platform_admin'' \<in> tp_roles p then Inr ()
      else if tp_tenant_id p \<noteq> resource_tenant_id then denied ''tenant_boundary_violation''
      else let allowed = (case map_of tenant_role_map action of Some rs \<Rightarrow> rs | None \<Rightarrow> [])
           in if \<not> list_ex (\<lambda>r. r \<in> tp_roles p) allowed then denied (''tenant_rbac_denied:'' @ action) else Inr ())"

section \<open>Facts\<close>

lemma denied_not_ok [simp]: "denied d \<noteq> Inr x"
  by (simp add: denied_def)

lemma normalize_role_range: "normalize_role env raw \<in> {''viewer'', ''operator'', ''admin'', ''security_auditor''}"
  by (simp add: normalize_role_def Let_def)

lemma str_or_nonempty: "c \<noteq> [] \<Longrightarrow> str_or a b c \<noteq> []"
  by (simp add: str_or_def split: option.split)

lemma str_or_Some: "x \<noteq> [] \<Longrightarrow> str_or (Some x) b c = x"
  by (simp add: str_or_def)

lemma normalize_admin_iff: "normalize_role env raw = ''admin'' \<longleftrightarrow> py_lower (py_strip (str_or raw env ''operator'')) = ''admin''"
  by (auto simp: normalize_role_def Let_def)

lemma unknown_role_is_operator:
  "py_lower (py_strip (str_or raw env ''operator'')) \<notin> {''viewer'', ''admin'', ''security'', ''security_auditor''} \<Longrightarrow>
   normalize_role env raw = ''operator''"
  by (simp add: normalize_role_def Let_def)

text \<open>An unknown role of the v1 API becomes the demo viewer, which can only read.\<close>

lemma v1_unknown_role_reads_only:
  assumes "\<forall>x. v1_role_value x \<noteq> py_lower (py_strip r)"
  shows "parse_role (Some r) = V1_DEMO_VIEWER"
proof -
  have "find (\<lambda>x. v1_role_value x = py_lower (py_strip r)) v1_roles = None" using assms by (simp add: find_None_iff)
  then show ?thesis by (simp add: parse_role_def)
qed

lemma v1_demo_viewer_rights:
  assumes "vp_role p = V1_DEMO_VIEWER"
  shows "assert_can_manage_policy p \<noteq> Inr () \<and> assert_can_run_pipeline p \<noteq> Inr () \<and> assert_can_ingest p \<noteq> Inr () \<and>
    assert_can_review p \<noteq> Inr () \<and> v1_can_read_incidents p = Inr () \<and> assert_can_read_audit_reports p = Inr ()"
  using assms
  by (simp add: assert_can_manage_policy_def assert_can_run_pipeline_def assert_can_ingest_def assert_can_review_def
      v1_can_read_incidents_def assert_can_read_audit_reports_def)

section \<open>Properties\<close>

text \<open>
  Who is whom on the platform API: a request is refused exactly when a key is configured and another bearer token is sent; it has the
  role admin exactly with the right token or, without a bearer token of a configured key, with the header value admin, so that a configured
  key protects nothing. Live execution is open to admin only, previews and writes to operator and admin, the audit log to admin and
  security; reading is open to every role.
\<close>

theorem platform_principal_exact:
  "(case get_platform_principal api_key env_id env_role x_id x_role auth of
      Inl e \<Rightarrow> e = HTTPException 401 ''invalid platform API key'' \<and> (\<exists>k t. api_key = Some k \<and> bearer_token auth = Some t \<and> t \<noteq> k)
    | Inr p \<Rightarrow>
        (\<forall>k t. api_key = Some k \<longrightarrow> bearer_token auth = Some t \<longrightarrow> t = k) \<and>
        (dp_role p = ''admin'' \<longleftrightarrow>
           (api_key \<noteq> None \<and> bearer_token auth \<noteq> None) \<or> py_lower (py_strip (str_or x_role None ''viewer'')) = ''admin'') \<and>
        (assert_can_execute p False = Inr () \<longleftrightarrow> dp_role p = ''admin'') \<and>
        (assert_can_execute p True = Inr () \<longleftrightarrow> dp_role p \<in> {''operator'', ''admin''}) \<and>
        (assert_can_preview p = Inr () \<longleftrightarrow> dp_role p \<in> {''operator'', ''admin''}) \<and>
        (assert_can_write_platform_payload p = Inr () \<longleftrightarrow> dp_role p \<in> {''operator'', ''admin''}) \<and>
        (assert_can_read_audit p = Inr () \<longleftrightarrow> dp_role p \<in> {''admin'', ''security_auditor''}) \<and>
        (assert_can_read_attribution p = Inr () \<longleftrightarrow> dp_role p \<noteq> ''viewer'') \<and>
        assert_can_read_normalized_events p = Inr () \<and> platform_can_read_incidents p = Inr () \<and> assert_can_read_metrics p = Inr ())"
proof (cases "get_platform_principal api_key env_id env_role x_id x_role auth")
  case (Inl e)
  then show ?thesis by (auto simp: get_platform_principal_def Let_def split: option.splits if_splits)
next
  case (Inr p)
  have ne: "str_or (Some (str_or x_role None ''viewer'')) env_role ''operator'' = str_or x_role None ''viewer''"
    by (rule str_or_Some) (simp add: str_or_nonempty)
  have adm: "normalize_role env_role (Some ''admin'') = ''admin''" by (simp add: normalize_admin_iff str_or_def py_eval)
  have role: "(\<forall>k t. api_key = Some k \<longrightarrow> bearer_token auth = Some t \<longrightarrow> t = k) \<and>
      (dp_role p = ''admin'' \<longleftrightarrow>
        (api_key \<noteq> None \<and> bearer_token auth \<noteq> None) \<or> py_lower (py_strip (str_or x_role None ''viewer'')) = ''admin'')"
    using Inr by (auto simp: get_platform_principal_def Let_def parse_demo_principal_def adm normalize_admin_iff ne
        split: option.splits if_splits)
  have "\<exists>raw. dp_role p = normalize_role env_role raw"
    using Inr by (auto simp: get_platform_principal_def Let_def parse_demo_principal_def split: option.splits if_splits)
  then have known: "dp_role p \<in> {''viewer'', ''operator'', ''admin'', ''security_auditor''}" using normalize_role_range by metis
  have guards: "(assert_can_execute p False = Inr () \<longleftrightarrow> dp_role p = ''admin'')"
    "(assert_can_execute p True = Inr () \<longleftrightarrow> dp_role p \<in> {''operator'', ''admin''})"
    "(assert_can_preview p = Inr () \<longleftrightarrow> dp_role p \<in> {''operator'', ''admin''})"
    "(assert_can_write_platform_payload p = Inr () \<longleftrightarrow> dp_role p \<in> {''operator'', ''admin''})"
    "(assert_can_read_audit p = Inr () \<longleftrightarrow> dp_role p \<in> {''admin'', ''security_auditor''})"
    "(assert_can_read_attribution p = Inr () \<longleftrightarrow> dp_role p \<noteq> ''viewer'')"
    "assert_can_read_normalized_events p = Inr ()" "platform_can_read_incidents p = Inr ()" "assert_can_read_metrics p = Inr ()"
    using known
    by (auto simp: assert_can_execute_def assert_can_preview_def assert_can_write_platform_payload_def assert_can_read_audit_def
        assert_can_read_attribution_def assert_can_read_normalized_events_def platform_can_read_incidents_def
        assert_can_read_metrics_def reader_roles_def)
  show ?thesis unfolding Inr sum.case using role guards by blast
qed

text \<open>A request without the configured key is admin by its header, and a misspelt role is an operator.\<close>

lemma header_bypasses_key:
  "get_platform_principal (Some ''k'') None None (Some ''x'') (Some ''Admin'') None = Inr \<lparr>dp_operator_id = ''x'', dp_role = ''admin''\<rparr>"
  by code_simp

theorem platform_principal_exact_witness:
  "\<exists>p. get_platform_principal (Some ''k'') None None (Some ''x'') (Some ''Admin'') None = Inr p \<and> assert_can_execute p False = Inr ()"
  using platform_principal_exact [where api_key = "Some ''k''" and env_id = None and env_role = None and x_id = "Some ''x''"
      and x_role = "Some ''Admin''" and auth = None]
  by (simp add: header_bypasses_key)

text \<open>
  The tenant boundary: access is granted exactly to platform administrators and to principals of the tenant with a role of the action;
  a foreign tenant is refused with the boundary error whatever the roles, an unknown action is refused to everyone else.
\<close>

theorem tenant_access_iff:
  "(assert_tenant_access p t action = Inr () \<longleftrightarrow>
      ''platform_admin'' \<in> tp_roles p \<or>
      (tp_tenant_id p = t \<and> (\<exists>rs r. map_of tenant_role_map action = Some rs \<and> r \<in> set rs \<and> has_role p r))) \<and>
   (assert_tenant_access p t action = Inl (HTTPException 403 ''tenant_boundary_violation'') \<longleftrightarrow>
      ''platform_admin'' \<notin> tp_roles p \<and> tp_tenant_id p \<noteq> t) \<and>
   (tp_tenant_id p = t \<and> ''tenant_admin'' \<in> tp_roles p \<longrightarrow>
      (assert_tenant_access p t action = Inr () \<longleftrightarrow> action \<in> {''read'', ''write'', ''replay'', ''admin''} \<or> ''platform_admin'' \<in> tp_roles p)) \<and>
   (tp_tenant_id p = t \<and> tp_roles p = {''tenant_viewer''} \<longrightarrow> (assert_tenant_access p t action = Inr () \<longleftrightarrow> action = ''read''))"
proof -
  have ok: "assert_tenant_access p t action = Inr () \<longleftrightarrow>
      ''platform_admin'' \<in> tp_roles p \<or>
      (tp_tenant_id p = t \<and> (\<exists>rs r. map_of tenant_role_map action = Some rs \<and> r \<in> set rs \<and> r \<in> tp_roles p))"
    by (cases "map_of tenant_role_map action") (auto simp: assert_tenant_access_def list_ex_iff Let_def)
  have bad: "assert_tenant_access p t action = Inl (HTTPException 403 ''tenant_boundary_violation'') \<longleftrightarrow>
      ''platform_admin'' \<notin> tp_roles p \<and> tp_tenant_id p \<noteq> t"
    by (auto simp: assert_tenant_access_def denied_def Let_def split: if_splits)
  have adm: "(\<exists>rs. map_of tenant_role_map action = Some rs \<and> ''tenant_admin'' \<in> set rs) \<longleftrightarrow> action \<in> {''read'', ''write'', ''replay'', ''admin''}"
    by (auto simp: tenant_role_map_def)
  have known: "map_of tenant_role_map action \<noteq> None \<longleftrightarrow> action \<in> {''read'', ''write'', ''replay'', ''admin''}"
    by (auto simp: tenant_role_map_def)
  have view: "(\<exists>rs. map_of tenant_role_map action = Some rs \<and> ''tenant_viewer'' \<in> set rs) \<longleftrightarrow> action = ''read''"
    by (auto simp: tenant_role_map_def)
  show ?thesis unfolding ok bad has_role_def using adm known view by (auto; blast)
qed

theorem tenant_access_iff_witness:
  "assert_tenant_access \<lparr>tp_subject = ''s'', tp_tenant_id = ''t'', tp_roles = {''tenant_viewer''}, tp_org_id = []\<rparr> ''t'' ''write'' \<noteq> Inr ()"
proof -
  let ?p = "\<lparr>tp_subject = ''s'', tp_tenant_id = ''t'', tp_roles = {''tenant_viewer''}, tp_org_id = []\<rparr>"
  have "tp_tenant_id ?p = ''t'' \<and> tp_roles ?p = {''tenant_viewer''} \<longrightarrow> (assert_tenant_access ?p ''t'' ''write'' = Inr () \<longleftrightarrow> ''write'' = ''read'')"
    using tenant_access_iff [of ?p "''t''" "''write''"] by blast
  then show ?thesis by simp
qed

end
