(* ===== verification/Privacy.thy ===== *)
theory Privacy
  imports Sha256 Py_Values
begin

text \<open>
  Redaction of host names, addresses, domains and free text, \<open>platform_core/privacy.py\<close>. The regular expressions are matchers that return the
  length of the match at a position, given the character before it; \<open>re_sub\<close> replaces the matches from left to right. The lemmas give
  what the redaction of free text leaves alone: a profile path written with single backslashes among it.
\<close>

section \<open>Substitution\<close>

text \<open>\<open>re.sub\<close> with a pattern that does not match the empty text; the argument \<open>prev\<close> is the character before the position.\<close>

fun re_sub :: "(char option \<Rightarrow> string \<Rightarrow> nat option) \<Rightarrow> string \<Rightarrow> char option \<Rightarrow> string \<Rightarrow> string" where
  "re_sub f rep prev [] = []"
| "re_sub f rep prev (c # cs) =
     (case f prev (c # cs) of
        Some (Suc n) \<Rightarrow> rep @ re_sub f rep (Some ((c # cs) ! n)) (drop n cs)
      | _ \<Rightarrow> c # re_sub f rep (Some c) cs)"

definition word_char :: "char \<Rightarrow> bool" where
  "word_char c \<longleftrightarrow> is_alpha c \<or> is_digit c \<or> c = CHR ''_''"

section \<open>Identifiers\<close>

definition sanitize_hostname :: "string \<Rightarrow> string" where
  "sanitize_hostname v =
     (if v = [] \<or> py_strip v = [] then ''[empty]''
      else ''host_sha256_'' @ take 16 (sha256_hexdigest (py_lower (py_strip v))))"

definition sanitize_username :: "string \<Rightarrow> string" where
  "sanitize_username v = (if v = [] \<or> py_strip v = [] then ''[user]'' else ''user_redacted'')"

fun split_dots :: "string \<Rightarrow> string list" where
  "split_dots [] = [[]]"
| "split_dots (c # s) = (if c = CHR ''.'' then [] # split_dots s else (c # hd (split_dots s)) # tl (split_dots s))"

definition digits :: "string \<Rightarrow> bool" where
  "digits s \<longleftrightarrow> s \<noteq> [] \<and> list_all is_digit s"

text \<open>The three anchored patterns: a first number, then as many numbers as are missing to four.\<close>

definition match_10 :: "string \<Rightarrow> bool" where
  "match_10 s = (case split_dots s of [a, b, c, d] \<Rightarrow> a = ''10'' \<and> digits b \<and> digits c \<and> digits d | _ \<Rightarrow> False)"

definition match_192 :: "string \<Rightarrow> bool" where
  "match_192 s = (case split_dots s of [a, b, c, d] \<Rightarrow> a = ''192'' \<and> b = ''168'' \<and> digits c \<and> digits d | _ \<Rightarrow> False)"

definition match_172 :: "string \<Rightarrow> bool" where
  "match_172 s =
     (case split_dots s of
        [a, b, c, d] \<Rightarrow>
          a = ''172'' \<and>
          (case b of [x, y] \<Rightarrow> (x = CHR ''1'' \<and> y \<in> set ''6789'') \<or> (x = CHR ''2'' \<and> is_digit y) \<or> (x = CHR ''3'' \<and> y \<in> set ''01'') | _ \<Rightarrow> False) \<and>
          digits c \<and> digits d
      | _ \<Rightarrow> False)"

definition sanitize_ip :: "string \<Rightarrow> string" where
  "sanitize_ip v =
     (let s = py_strip v
      in if s = ''127.0.0.1'' \<or> s = ''::1'' then s
         else if match_10 s then ''10.x.x.x''
         else if match_192 s then ''192.168.x.x''
         else if match_172 s then ''172.16-31.x.x''
         else if py_startswith s ''fe80:'' then ''fe80::/link-local''
         else s)"

definition public_suffix_allowlist :: "string list" where
  "public_suffix_allowlist = [''google.com'', ''microsoft.com'', ''cloudflare.com'', ''example.com'']"

definition sanitize_domain :: "string \<Rightarrow> string" where
  "sanitize_domain value =
     (let v = py_rstrip_chars ''.'' (py_lower (py_strip value))
      in if v \<in> set public_suffix_allowlist then v
         else if v = [] then ''[domain]''
         else ''domain_sha256_'' @ take 12 (sha256_hexdigest v))"

definition stable_endpoint_hash :: "string \<Rightarrow> string \<Rightarrow> string option \<Rightarrow> string" where
  "stable_endpoint_hash hostname os_version machine_hint =
     take 32 (sha256_hexdigest (join_with ''|'' [hostname, os_version, case machine_hint of None \<Rightarrow> [] | Some m \<Rightarrow> m]))"

section \<open>Free text\<close>

definition bslash2 :: string where
  "bslash2 = [CHR 0x5C, CHR 0x5C]"

text \<open>
  The pattern of the first substitution, without regard to case: a drive \<open>C:\<close>, two backslashes, \<open>Users\<close>, two backslashes and at least one character
  that is not a backslash. The template of the replacement holds two backslashes each, which stand for one.
\<close>

definition match_profile :: "char option \<Rightarrow> string \<Rightarrow> nat option" where
  "match_profile prev s =
     (let head = ''c:'' @ bslash2 @ ''users'' @ bslash2; rest = takeWhile (\<lambda>c. c \<noteq> CHR 0x5C) (drop (length head) s)
      in if py_lower (take (length head) s) = head \<and> rest \<noteq> [] then Some (length head + length rest) else None)"

definition profile_replacement :: string where
  "profile_replacement = ''C:'' @ [CHR 0x5C] @ ''Users'' @ [CHR 0x5C] @ ''[redacted]''"

text \<open>
  The second pattern: \<open>/users/\<close>, at least one character other than a slash, a backslash and the letter s, and a slash. In the raw string of the
  template the references are escaped, so that their text is inserted.
\<close>

definition match_home :: "char option \<Rightarrow> string \<Rightarrow> nat option" where
  "match_home prev s =
     (let name = takeWhile (\<lambda>c. c \<notin> {CHR ''/'', CHR 0x5C, CHR ''s'', CHR ''S''}) (drop 7 s)
      in if py_lower (take 7 s) = ''/users/'' \<and> name \<noteq> [] \<and> take 1 (drop (7 + length name) s) = ''/''
         then Some (7 + length name + 1) else None)"

definition home_replacement :: string where
  "home_replacement = [CHR 0x5C] @ ''1[redacted]'' @ [CHR 0x5C] @ ''3''"

text \<open>
  The two patterns of private addresses: a literal prefix at the beginning of a word and the given number of groups of one to three digits,
  separated by points, up to the end of the word. Groups are maximal, since neither a point nor the end of a word can follow inside one.
\<close>

fun match_groups :: "nat \<Rightarrow> string \<Rightarrow> nat option" where
  "match_groups 0 s = None"
| "match_groups (Suc 0) s =
     (let g = takeWhile is_digit s; rest = drop (length g) s
      in if 1 \<le> length g \<and> length g \<le> 3 \<and> (rest = [] \<or> \<not> word_char (hd rest)) then Some (length g) else None)"
| "match_groups (Suc (Suc k)) s =
     (let g = takeWhile is_digit s; rest = drop (length g) s
      in if 1 \<le> length g \<and> length g \<le> 3 \<and> take 1 rest = ''.''
         then map_option (\<lambda>n. length g + 1 + n) (match_groups (Suc k) (drop 1 rest)) else None)"

definition match_private :: "string \<Rightarrow> nat \<Rightarrow> char option \<Rightarrow> string \<Rightarrow> nat option" where
  "match_private pre k prev s =
     (if (case prev of None \<Rightarrow> True | Some c \<Rightarrow> \<not> word_char c) \<and> py_startswith s pre
      then map_option (\<lambda>n. length pre + n) (match_groups k (drop (length pre) s)) else None)"

definition redact_text :: "string \<Rightarrow> string" where
  "redact_text text0 =
     (let s1 = re_sub match_profile profile_replacement None text0;
          s2 = re_sub match_home home_replacement None s1;
          s3 = re_sub (match_private ''192.168.'' 2) ''192.168.x.x'' None s2
      in re_sub (match_private ''10.'' 3) ''10.x.x.x'' None s3)"

section \<open>What free text keeps\<close>

lemma re_sub_id:
  assumes "\<And>p t. suffix t s \<Longrightarrow> f p t = None"
  shows "re_sub f rep prev s = s"
  using assms
proof (induction s arbitrary: prev)
  case (Cons c cs)
  have "f prev (c # cs) = None" by (rule Cons.prems) simp
  moreover have "re_sub f rep (Some c) cs = cs" by (rule Cons.IH) (simp add: Cons.prems suffix_Cons)
  ultimately show ?case by simp
qed simp

lemma set_suffix_subset: "suffix t s \<Longrightarrow> set t \<subseteq> set s"
  by (auto simp: suffix_def)

lemma lower_char_backslash: "lower_char c = CHR 0x5C \<Longrightarrow> c = CHR 0x5C"
proof (cases "is_upper c")
  case True
  then have r: "65 \<le> char_code c" "char_code c \<le> 90" by (auto simp: is_upper_def Let_def)
  assume "lower_char c = CHR 0x5C"
  then have "char_code (lower_char c) = 92" by (simp add: char_code_def)
  then show ?thesis using True r by (simp add: lower_char_def char_code_char_of)
qed (simp add: lower_char_def)

lemma match_profile_backslashes:
  assumes "match_profile p t \<noteq> None"
  shows "sublist bslash2 t"
proof -
  define head where "head = ''c:'' @ bslash2 @ ''users'' @ bslash2"
  have low: "py_lower (take (length head) t) = head"
    using assms unfolding match_profile_def Let_def head_def [symmetric] by (metis option.distinct(1))
  then have "length (take (length head) t) = length head" by (metis length_map py_lower_def)
  moreover have "length head = 11" by (simp add: head_def bslash2_def)
  ultimately obtain a b c d r where t: "t = a # b # c # d # r"
    by (cases t; cases "tl t"; cases "tl (tl t)"; cases "tl (tl (tl t))") auto
  have "lower_char c = CHR 0x5C \<and> lower_char d = CHR 0x5C" using low by (simp add: t py_lower_def head_def bslash2_def)
  then have "t = [a, b] @ bslash2 @ r" using lower_char_backslash t by (auto simp: bslash2_def)
  then show ?thesis unfolding sublist_def by blast
qed

lemma match_home_slash: "match_home p t \<noteq> None \<Longrightarrow> CHR ''/'' \<in> set t"
proof -
  assume "match_home p t \<noteq> None"
  then have "take 1 (drop (7 + length (takeWhile (\<lambda>c. c \<notin> {CHR ''/'', CHR 0x5C, CHR ''s'', CHR ''S''}) (drop 7 t))) t) = ''/''"
    by (auto simp: match_home_def Let_def split: if_splits)
  then show ?thesis by (metis in_set_dropD in_set_takeD list.set_intros(1))
qed

lemma match_private_dot: "match_private pre k p t \<noteq> None \<Longrightarrow> CHR ''.'' \<in> set pre \<Longrightarrow> CHR ''.'' \<in> set t"
  by (auto simp: match_private_def py_startswith_def dest: set_mono_prefix split: if_splits)

text \<open>
  Text without two backslashes in a row, without slashes and points is not touched. A profile path with single backslashes, as Windows
  prints it, keeps the name of the user.
\<close>

lemma redact_keeps:
  assumes "\<not> sublist bslash2 s" and "CHR ''/'' \<notin> set s" and "CHR ''.'' \<notin> set s"
  shows "redact_text s = s"
proof -
  have p: "re_sub match_profile profile_replacement None s = s"
  proof (rule re_sub_id)
    fix q t assume "suffix t s"
    then have "\<not> sublist bslash2 t" using assms(1) by (auto simp: suffix_def sublist_def) (metis append.assoc)
    then show "match_profile q t = None" using match_profile_backslashes by blast
  qed
  have h: "re_sub match_home home_replacement None s = s"
    using assms(2) match_home_slash set_suffix_subset by (intro re_sub_id) blast
  have i: "re_sub (match_private pre k) rep None s = s" if "CHR ''.'' \<in> set pre" for pre k rep
    using assms(3) match_private_dot [OF _ that] set_suffix_subset by (intro re_sub_id) blast
  show ?thesis by (simp add: redact_text_def p h i)
qed

lemma profile_name_not_redacted:
  assumes "CHR 0x5C \<notin> set name" and "CHR ''/'' \<notin> set name" and "CHR ''.'' \<notin> set name" and "name \<noteq> []"
  shows "redact_text (''C:'' @ [CHR 0x5C] @ ''Users'' @ [CHR 0x5C] @ name) = ''C:'' @ [CHR 0x5C] @ ''Users'' @ [CHR 0x5C] @ name"
proof (rule redact_keeps)
  let ?s = "''C:'' @ [CHR 0x5C] @ ''Users'' @ [CHR 0x5C] @ name"
  show "\<not> sublist bslash2 ?s"
    using assms(1,4) by (auto simp: bslash2_def sublist_Cons_right prefix_Cons dest: set_mono_sublist set_mono_prefix)
  show "CHR ''/'' \<notin> set ?s" "CHR ''.'' \<notin> set ?s" using assms(2,3) by auto
qed

section \<open>Private addresses\<close>

lemma split_dots_digits:
  assumes "\<And>c. c \<in> set a \<Longrightarrow> c \<noteq> CHR ''.''"
  shows "split_dots (a @ ''.'' @ s) = a # split_dots s" and "split_dots a = [a]"
  using assms by (induction a) auto

lemma nat_str_no_dot: "c \<in> set (nat_str n) \<Longrightarrow> c \<noteq> CHR ''.''"
  by (drule nat_str_digits) (auto simp: is_digit_def char_code_def)

lemma nat_str_inj: "nat_str a = nat_str b \<longleftrightarrow> a = b"
  by (metis digits_val_nat_str)

lemma digits_nat_str [simp]: "digits (nat_str n)"
  by (auto simp: digits_def list_all_iff nat_str_digits)

definition dotted :: "nat \<Rightarrow> nat \<Rightarrow> nat \<Rightarrow> nat \<Rightarrow> string" where
  "dotted a b c d = nat_str a @ ''.'' @ nat_str b @ ''.'' @ nat_str c @ ''.'' @ nat_str d"

lemma split_dotted: "split_dots (dotted a b c d) = [nat_str a, nat_str b, nat_str c, nat_str d]"
  by (simp only: dotted_def split_dots_digits(1) [OF nat_str_no_dot] split_dots_digits(2) [OF nat_str_no_dot])

lemma digit_char_eq: "digit_char n = c \<longleftrightarrow> char_code c = 48 + n mod 10"
proof -
  have "char_code (digit_char n) = 48 + n mod 10" by (simp add: digit_char_def char_code_char_of)
  then show ?thesis by (metis char_code_inj)
qed

lemma octets: "nat_str 10 = ''10''" "nat_str 192 = ''192''" "nat_str 168 = ''168''" "nat_str 172 = ''172''"
  by (simp_all add: nat_str.simps digit_char_eq char_code_def)

text \<open>The second octet of the third private range: the pattern on its two digits is the range 16 to 31.\<close>

lemma second_octet:
  "(case nat_str b of [x, y] \<Rightarrow> (x = CHR ''1'' \<and> y \<in> set ''6789'') \<or> (x = CHR ''2'' \<and> is_digit y) \<or> (x = CHR ''3'' \<and> y \<in> set ''01'') | _ \<Rightarrow> False)
   \<longleftrightarrow> 16 \<le> b \<and> b \<le> 31"
proof (cases "10 \<le> b \<and> b < 100")
  case True
  define q r where "q = b div 10" and "r = b mod 10"
  have qr: "b = 10 * q + r" "r < 10" "q < 10" using True by (auto simp: q_def r_def)
  have codes: "digit_char q = CHR ''1'' \<longleftrightarrow> q = 1" "digit_char q = CHR ''2'' \<longleftrightarrow> q = 2" "digit_char q = CHR ''3'' \<longleftrightarrow> q = 3"
    "digit_char r \<in> set ''6789'' \<longleftrightarrow> r \<ge> 6" "digit_char r \<in> set ''01'' \<longleftrightarrow> r \<le> 1"
    using qr(2,3) by (simp_all add: digit_char_eq char_code_def) arith+
  have range: "16 \<le> b \<and> b \<le> 31 \<longleftrightarrow> (q = 1 \<and> r \<ge> 6) \<or> q = 2 \<or> (q = 3 \<and> r \<le> 1)"
    unfolding qr(1) using qr(2,3) by arith
  have "nat_str q = [digit_char q]" using qr(3) by (subst nat_str.simps) simp
  then have "nat_str b = [digit_char q, digit_char r]" using True by (subst nat_str.simps) (simp add: q_def [symmetric] r_def [symmetric])
  then show ?thesis by (simp only: list.case codes digit_char_digit range) blast
next
  case False
  have "\<not> (\<exists>x y. nat_str b = [x, y])"
  proof (cases "b < 10")
    case True
    then show ?thesis by (simp add: nat_str.simps)
  next
    case big: False
    then have "\<not> b div 10 < 10" using False by auto
    then have "nat_str (b div 10) = nat_str (b div 10 div 10) @ [digit_char (b div 10 mod 10)]" by (subst nat_str.simps) simp
    moreover have "nat_str b = nat_str (b div 10) @ [digit_char (b mod 10)]" using big by (subst nat_str.simps) simp
    ultimately show ?thesis by (auto simp: append_eq_Cons_conv)
  qed
  then show ?thesis using False by (auto split: list.splits)
qed

section \<open>Properties\<close>

text \<open>
  The address of a host is masked exactly when it is private: of the forms 10.b.c.d, 192.168.c.d and 172.16.c.d to 172.31.c.d, whatever the
  other numbers are, each with its own mask; another dotted address is returned unchanged, and masking twice changes nothing.
\<close>

theorem private_address_masked:
  "sanitize_ip (dotted a b c d) =
     (if a = 10 then ''10.x.x.x'' else if a = 192 \<and> b = 168 then ''192.168.x.x''
      else if a = 172 \<and> 16 \<le> b \<and> b \<le> 31 then ''172.16-31.x.x'' else dotted a b c d) \<and>
   sanitize_ip (sanitize_ip (dotted a b c d)) = sanitize_ip (dotted a b c d)"
proof -
  have ne: "dotted a b c d \<noteq> []" by (simp add: dotted_def)
  have chars: "is_digit x \<or> x = CHR ''.''" if "x \<in> set (dotted a b c d)" for x
    using that nat_str_digits by (auto simp: dotted_def)
  have sp: "\<not> is_space x" if "x \<in> set (dotted a b c d)" for x
    using chars [OF that] is_space_not_digit by (auto simp: is_space_def char_code_def)
  have strip: "py_strip (dotted a b c d) = dotted a b c d" using sp by (rule py_strip_no_space)
  have m: "match_10 (dotted a b c d) \<longleftrightarrow> a = 10" "match_192 (dotted a b c d) \<longleftrightarrow> a = 192 \<and> b = 168"
    "match_172 (dotted a b c d) \<longleftrightarrow> a = 172 \<and> 16 \<le> b \<and> b \<le> 31"
    by (simp_all only: match_10_def match_192_def match_172_def split_dotted list.case octets [symmetric] nat_str_inj digits_nat_str second_octet simp_thms)
  have colon: "CHR '':'' \<notin> set (dotted a b c d)" "CHR ''f'' \<notin> set (dotted a b c d)"
    using chars [of "CHR '':''"] chars [of "CHR ''f''"] by (auto simp: is_digit_def char_code_def)
  then have loop: "dotted a b c d \<noteq> ''::1''" "\<not> py_startswith (dotted a b c d) ''fe80:''"
    by (auto simp: py_startswith_def dest: set_mono_prefix)
  have "dotted 127 0 0 1 = ''127.0.0.1''" by (simp add: dotted_def nat_str.simps digit_char_eq char_code_def)
  then have local0: "dotted a b c d = ''127.0.0.1'' \<longleftrightarrow> a = 127 \<and> b = 0 \<and> c = 0 \<and> d = 1"
    by (metis split_dotted list.inject nat_str_inj)
  have one: "sanitize_ip (dotted a b c d) =
     (if a = 10 then ''10.x.x.x'' else if a = 192 \<and> b = 168 then ''192.168.x.x''
      else if a = 172 \<and> 16 \<le> b \<and> b \<le> 31 then ''172.16-31.x.x'' else dotted a b c d)"
    unfolding sanitize_ip_def Let_def strip m using loop local0 by auto
  have masks: "sanitize_ip ''10.x.x.x'' = ''10.x.x.x''" "sanitize_ip ''192.168.x.x'' = ''192.168.x.x''"
    "sanitize_ip ''172.16-31.x.x'' = ''172.16-31.x.x''" by code_simp+
  show ?thesis using one masks by (simp split: if_splits)
qed

end
