(* ===== verification/Remediation_Api.thy ===== *)
theory Remediation_Api
  imports Access_Control Privacy Rollback_Plan
begin

text \<open>
  The remediation API: the registry of actions \<open>platform_core/remediation_registry.py\<close>, the policy gates
  \<open>platform_core/policy/{classic,engine}.py\<close>, the script allowlist \<open>platform_core/remediation.py\<close>, the contract audit of
  \<open>platform_core/product_contract.py\<close> with \<open>platform_core/audit.py\<close>, and the handlers of \<open>/remediation/preview\<close> and \<open>/remediation/execute\<close>
  of \<open>backend/platform_routes.py\<close>. The JSONL files are lists of rows; what a request reads from the host is the record \<open>api_host\<close>. The
  properties say exactly when a script is started, over every sequence of requests.
\<close>

section \<open>Registry\<close>

record action_def =
  ad_action_name :: string
  ad_script_path :: "string option"
  ad_risk_level :: string
  ad_allowed_surfaces :: "string list"
  ad_api_execute_allowed :: bool
  ad_requires_confirmation :: bool
  ad_confirmation_phrase :: string
  ad_dry_run_allowed :: bool
  ad_manual_only :: bool
  ad_rollback_plan :: string

definition all_surfaces :: "string list" where
  "all_surfaces = [''api'', ''cli'', ''dashboard'']"

text \<open>The three shapes of rows: read-only actions, repairs and forbidden patterns.\<close>

definition read_only_row :: "string \<Rightarrow> string \<Rightarrow> string \<times> action_def" where
  "read_only_row name plan =
     (name, \<lparr>ad_action_name = name, ad_script_path = None, ad_risk_level = ''read_only'', ad_allowed_surfaces = all_surfaces,
             ad_api_execute_allowed = False, ad_requires_confirmation = False, ad_confirmation_phrase = [], ad_dry_run_allowed = True,
             ad_manual_only = False, ad_rollback_plan = plan\<rparr>)"

definition repair_row ::
  "string \<Rightarrow> string option \<Rightarrow> string \<Rightarrow> string list \<Rightarrow> bool \<Rightarrow> string \<Rightarrow> bool \<Rightarrow> string \<Rightarrow> string \<times> action_def" where
  "repair_row name script risk surfaces api phrase manual plan =
     (name, \<lparr>ad_action_name = name, ad_script_path = script, ad_risk_level = risk, ad_allowed_surfaces = surfaces,
             ad_api_execute_allowed = api, ad_requires_confirmation = True, ad_confirmation_phrase = phrase, ad_dry_run_allowed = True,
             ad_manual_only = manual, ad_rollback_plan = plan\<rparr>)"

definition forbidden_row :: "string \<Rightarrow> string \<times> action_def" where
  "forbidden_row name =
     (name, \<lparr>ad_action_name = name, ad_script_path = None, ad_risk_level = ''forbidden'', ad_allowed_surfaces = [],
             ad_api_execute_allowed = False, ad_requires_confirmation = False, ad_confirmation_phrase = [], ad_dry_run_allowed = False,
             ad_manual_only = False, ad_rollback_plan = ''Not applicable.''\<rparr>)"

definition remediation_registry :: "(string \<times> action_def) list" where
  "remediation_registry =
     [read_only_row ''inspect_proxy'' ''N/A (read-only inspection).'',
      read_only_row ''preview_dns_flush'' ''N/A (preview only).'',
      read_only_row ''export_report'' ''Re-run collector; reports are non-destructive.'',
      repair_row ''reset_dns'' (Some ''reset_dns.bat'') ''medium'' all_surfaces True ''RUN_DNS_RESET'' False
        ''Restore prior DNS servers from backup notes if applicable.'',
      repair_row ''reset_proxy'' (Some ''reset_proxy.bat'') ''medium'' all_surfaces True ''RUN_PROXY_RESET'' False
        ''Reconfigure WinHTTP/user proxy per policy documentation.'',
      repair_row ''stop_proxy_listener'' None ''high'' [''cli''] False ''STOP_PROXY_LISTENER'' True
        ''Process termination is not reversible; restart dev tooling manually if needed.'',
      repair_row ''stop_proxy_reverter'' None ''high'' [''cli''] False ''STOP_PROXY_REVERTER'' True
        ''Parent powershell termination is not reversible; restart dev proxy scripts manually if needed.'',
      repair_row ''winsock_reset'' None ''medium'' all_surfaces False ''RUN_WINSOCK_RESET'' True
        ''Requires reboot planning; follow enterprise change windows.'',
      repair_row ''tcpip_reset'' None ''medium'' all_surfaces False ''RUN_TCPIP_RESET'' True
        ''Document interface settings before stack reset.'',
      repair_row ''firewall_reset_manual_only'' (Some ''reset_firewall.bat'') ''high'' all_surfaces False ''RUN_FIREWALL_RESET'' True
        ''Manual restore of firewall profiles from backup or GPO.'',
      forbidden_row ''arbitrary_command_forbidden'', forbidden_row ''adapter_disable_forbidden'',
      forbidden_row ''process_kill_forbidden'', forbidden_row ''certificate_delete_forbidden'']"

definition remediation_aliases :: "(string \<times> string) list" where
  "remediation_aliases =
     [(''reset_winsock'', ''winsock_reset''), (''reset_tcpip'', ''tcpip_reset''), (''reset_firewall'', ''firewall_reset_manual_only''),
      (''arbitrary_command'', ''arbitrary_command_forbidden''), (''arbitrary_command_forbidden'', ''arbitrary_command_forbidden''),
      (''process_kill'', ''process_kill_forbidden''), (''kill_process'', ''process_kill_forbidden''),
      (''certificate_delete'', ''certificate_delete_forbidden''), (''delete_certificate'', ''certificate_delete_forbidden'')]"

definition canonical_action_name :: "string \<Rightarrow> string" where
  "canonical_action_name a = (case map_of remediation_aliases a of Some t \<Rightarrow> t | None \<Rightarrow> a)"

definition get_action_def :: "string \<Rightarrow> action_def option" where
  "get_action_def a = map_of remediation_registry (canonical_action_name a)"

definition list_script_basenames :: "string set" where
  "list_script_basenames = set (filter (\<lambda>s. s \<noteq> []) (List.map_filter (\<lambda>(k, d). ad_script_path d) remediation_registry))"

definition to_policy_meta :: "action_def \<Rightarrow> pydict" where
  "to_policy_meta d =
     [(''risk'', PyStr (ad_risk_level d)), (''script'', optional_text (ad_script_path d)), (''phrase'', PyStr (ad_confirmation_phrase d)),
      (''allowed_surfaces'', PyList (map PyStr (ad_allowed_surfaces d))), (''api_execute_allowed'', PyBool (ad_api_execute_allowed d)),
      (''manual_only'', PyBool (ad_manual_only d))]"

definition build_action_registry_legacy_dict :: "(string \<times> pydict) list" where
  "build_action_registry_legacy_dict =
     foldl (\<lambda>flat (alias, target). case map_of remediation_registry target of Some d \<Rightarrow> dict_set flat alias (to_policy_meta d) | None \<Rightarrow> flat)
       (foldl (\<lambda>flat (key, d). dict_set flat key (to_policy_meta d)) [] remediation_registry) remediation_aliases"

definition allowlist :: "string set" where
  "allowlist = list_script_basenames \<union> {''auto_diagnose.bat'', ''proxy_status.bat''}"

text \<open>The second argument says whether the file exists in the scripts directory; the result is the name of the script.\<close>

definition allowlisted_script :: "(string \<Rightarrow> bool) \<Rightarrow> string \<Rightarrow> string option" where
  "allowlisted_script is_file b = (if b \<notin> allowlist then None else if is_file b then Some b else None)"

section \<open>Classic policy\<close>

record remediation_policy =
  po_allowed_risk_levels :: "string list"
  po_forbidden_actions :: "string list"
  po_requires_confirmation :: bool
  po_can_run_from_api :: bool
  po_can_run_from_cli :: bool

definition default_remediation_policy :: remediation_policy where
  "default_remediation_policy =
     \<lparr>po_allowed_risk_levels = [''read_only'', ''low'', ''medium''], po_forbidden_actions = [], po_requires_confirmation = True,
      po_can_run_from_api = True, po_can_run_from_cli = True\<rparr>"

record classic_decision =
  cd_allowed :: bool
  cd_reason :: string
  cd_effective_risk :: string

definition require_typed_confirmation :: "string \<Rightarrow> string" where
  "require_typed_confirmation a = (case get_action_def a of None \<Rightarrow> [] | Some d \<Rightarrow> ad_confirmation_phrase d)"

definition deny :: "string \<Rightarrow> string \<Rightarrow> classic_decision" where
  "deny reason risk = \<lparr>cd_allowed = False, cd_reason = reason, cd_effective_risk = risk\<rparr>"

definition evaluate_action :: "string \<Rightarrow> string \<Rightarrow> remediation_policy \<Rightarrow> classic_decision" where
  "evaluate_action action surface pol =
     (case get_action_def action of
        None \<Rightarrow> deny ''unknown_action'' ''forbidden''
      | Some d \<Rightarrow>
          (let risk = ad_risk_level d
           in if risk = ''forbidden'' then deny ''forbidden_action'' ''forbidden''
              else if risk = ''high'' then deny ''high_risk_blocked_from_platform'' ''high''
              else if ad_allowed_surfaces d \<noteq> [] \<and> surface \<notin> set (ad_allowed_surfaces d) then deny ''surface_not_allowed'' risk
              else if surface = ''api'' \<and> \<not> po_can_run_from_api pol then deny ''api_disabled_by_policy'' risk
              else if surface = ''cli'' \<and> \<not> po_can_run_from_cli pol then deny ''cli_disabled_by_policy'' risk
              else if risk \<notin> set (po_allowed_risk_levels pol) then deny ''risk_level_not_allowed'' risk
              else if action \<in> set (po_forbidden_actions pol) then deny ''action_forbidden_by_policy'' risk
              else \<lparr>cd_allowed = True, cd_reason = ''ok'', cd_effective_risk = risk\<rparr>))"

definition validate_confirmation_phrase :: "string \<Rightarrow> string \<Rightarrow> bool" where
  "validate_confirmation_phrase action phrase =
     (let expected = require_typed_confirmation action in expected = [] \<or> py_strip phrase = expected)"

definition is_shell_injection :: "string \<Rightarrow> bool" where
  "is_shell_injection s =
     (list_ex (\<lambda>c. c \<in> {CHR '';'', CHR ''&'', CHR ''|'', CHR 0x60, CHR ''$''}) s \<or> CHR 0x0A \<in> set s \<or> CHR 0x0D \<in> set s)"

section \<open>Previews\<close>

record failure_event =
  fv_event_id :: string
  fv_endpoint_id :: string
  fv_summary :: string
  fv_confidence :: pyval

record remediation_preview =
  pv_preview_id :: string
  pv_endpoint_id :: string
  pv_failure_event_id :: string
  pv_proposed_action :: string
  pv_risk_level :: string
  pv_rationale :: string
  pv_commands_preview :: "string list"
  pv_rollback_plan :: string
  pv_rollback_preview :: "pydict option"
  pv_requires_typed_confirmation :: bool
  pv_confirmation_phrase :: string
  pv_allowed_by_policy :: bool
  pv_policy_reason :: string
  pv_created_at :: string

definition rollback_fields :: "pydict \<Rightarrow> pydict" where
  "rollback_fields pkg =
     (let rb = as_dict (dict_get pkg ''rollback_preview'')
      in [(''rollback_preview_id'', PyStr (py_str (dict_get pkg ''rollback_preview_id''))),
          (''pre_change_snapshot'', dict_get pkg ''pre_change_snapshot''),
          (''proposed_mutation_preview'', dict_get pkg ''proposed_mutation_preview''),
          (''human_approval_token_required'', PyBool (truthy (dict_get (as_dict (dict_get pkg ''human_approval_token'')) ''required''))),
          (''reversible_action_record'', dict_get pkg ''reversible_action_record''),
          (''rollback_steps'', dict_get rb ''steps''), (''required_confirmation'', PyStr (py_str (dict_get rb ''required_confirmation''))),
          (''dry_run'', PyBool (truthy (dict_get rb ''dry_run''))), (''limitations'', dict_get rb ''limitations'')])"

text \<open>The arguments: the host of the rollback preview, the fresh identifier of the preview and the clock.\<close>

definition build_preview ::
  "host \<Rightarrow> string \<Rightarrow> string \<Rightarrow> failure_event \<Rightarrow> string \<Rightarrow> string \<Rightarrow> remediation_policy \<Rightarrow> remediation_preview py_result" where
  "build_preview rh uid clock fe action surface pol =
     (case get_action_def action of
        None \<Rightarrow>
          Inr \<lparr>pv_preview_id = uid, pv_endpoint_id = fv_endpoint_id fe, pv_failure_event_id = fv_event_id fe, pv_proposed_action = action,
               pv_risk_level = ''high'', pv_rationale = (if fv_summary fe \<noteq> [] then fv_summary fe else ''Unknown action key.''),
               pv_commands_preview = [], pv_rollback_plan = [], pv_rollback_preview = None, pv_requires_typed_confirmation = True,
               pv_confirmation_phrase = [], pv_allowed_by_policy = False, pv_policy_reason = ''unknown_action'', pv_created_at = clock\<rparr>
      | Some d \<Rightarrow>
          (let risk = ad_risk_level d;
               commands =
                 (case ad_script_path d of
                    Some sp \<Rightarrow> [''scripts'' @ bslash2 @ sp @ ''  (allowlisted)'']
                  | None \<Rightarrow> if ad_manual_only d then [''[manual] follow FailureBlock / operator runbook; no allowlisted .bat in prototype''] else []);
               pd = evaluate_action action surface pol;
               needs_confirm = (po_requires_confirmation pol \<and> risk \<in> {''low'', ''medium''})
           in bind_r
                (if ad_rollback_plan d \<noteq> []
                 then bind_r (build_rollback_preview_package rh (fv_endpoint_id fe) (fv_event_id fe) action
                        (capture_pre_change_snapshot rh (fv_endpoint_id fe) (fv_event_id fe) [] None None)
                        (build_proposed_mutation_preview action (fv_endpoint_id fe) True PyNone) True [] [] [])
                        (\<lambda>pkg. Inr (Some (rollback_fields pkg)))
                 else Inr None)
                (\<lambda>rollback. Inr
                  \<lparr>pv_preview_id = uid, pv_endpoint_id = fv_endpoint_id fe, pv_failure_event_id = fv_event_id fe, pv_proposed_action = action,
                   pv_risk_level = risk, pv_rationale = (if fv_summary fe \<noteq> [] then fv_summary fe else ''See FailureBlock / event linkage.''),
                   pv_commands_preview = commands, pv_rollback_plan = ad_rollback_plan d, pv_rollback_preview = rollback,
                   pv_requires_typed_confirmation = (needs_confirm \<and> ad_confirmation_phrase d \<noteq> []),
                   pv_confirmation_phrase = ad_confirmation_phrase d, pv_allowed_by_policy = cd_allowed pd, pv_policy_reason = cd_reason pd,
                   pv_created_at = clock\<rparr>)))"

section \<open>Unified gate\<close>

record structured_decision =
  sd_execute_allowed :: bool
  sd_preview_allowed :: bool
  sd_reason_codes :: "string list"
  sd_required_role :: string
  sd_required_confirmation :: "string option"
  sd_risk_tier :: string

definition refuse_all :: "string list \<Rightarrow> string \<Rightarrow> string \<Rightarrow> structured_decision" where
  "refuse_all codes role tier =
     \<lparr>sd_execute_allowed = False, sd_preview_allowed = False, sd_reason_codes = codes, sd_required_role = role,
      sd_required_confirmation = None, sd_risk_tier = tier\<rparr>"

text \<open>
  \<open>evaluate\<close> of the engine. The argument \<open>snapshot\<close> is the validation of the signal snapshot by the schema library; role and surface are those of the operator.
\<close>

definition evaluate_gate ::
  "unit py_result \<Rightarrow> string option \<Rightarrow> string \<Rightarrow> string \<Rightarrow> remediation_policy \<Rightarrow> bool \<Rightarrow> structured_decision py_result" where
  "evaluate_gate snapshot remediation_action role surface pol allow_arbitrary_shell =
     (if allow_arbitrary_shell then Inr (refuse_all [''arbitrary_shell_forbidden_even_if_requested''] ''admin'' ''forbidden'')
      else bind_r snapshot (\<lambda>_.
        if role = ''viewer'' then Inr (refuse_all [''viewer_preview_blocked''] ''operator'' ''read_only'')
        else case remediation_action of
          None \<Rightarrow> Inr (refuse_all [''no_remediation_action''] ''admin'' ''read_only'')
        | Some raw \<Rightarrow>
          if raw = [] then Inr (refuse_all [''no_remediation_action''] ''admin'' ''read_only'')
          else let key = canonical_action_name (py_strip raw) in
          case get_action_def key of
            None \<Rightarrow> Inr (refuse_all [''unknown_action''] ''admin'' ''read_only'')
          | Some d \<Rightarrow>
            (let pd = evaluate_action key surface pol;
                 risk = cd_effective_risk pd;
                 preview0 = (cd_allowed pd \<and> role \<in> {''operator'', ''admin''});
                 confirmation = (if ad_confirmation_phrase d \<noteq> [] then Some (ad_confirmation_phrase d) else None);
                 arbitrary = py_in ''arbitrary'' key;
                 preview = (preview0 \<and> \<not> arbitrary);
                 exec_candidate = (preview \<and> role = ''admin'' \<and> cd_allowed pd \<and> ad_api_execute_allowed d \<and> \<not> ad_manual_only d \<and>
                                   risk \<notin> {''high'', ''forbidden''});
                 codes =
                   (if \<not> preview0 then [cd_reason pd, ''classic_gate_denied''] else if cd_reason pd \<noteq> ''ok'' then [cd_reason pd] else []) @
                   (if ad_risk_level d \<in> {''forbidden'', ''high''} then [''execute_blocked_high_or_forbidden_tier''] else []) @
                   (if py_in ''firewall'' (py_lower key) \<or> py_in ''adapter_disable'' (py_lower key) then [''firewall_or_adapter_manual_only''] else []) @
                   (if arbitrary then [''arbitrary_commands_forbidden''] else []) @
                   (if exec_candidate
                    then [''eligible_pending_confirmation_and_route_gates''] @ (if confirmation \<noteq> None then [''confirmation_phrase_required''] else [])
                    else if role \<noteq> ''admin'' \<and> preview \<and> cd_allowed pd then [''operator_may_preview_only_live_requires_admin''] else []) @
                   (if ad_manual_only d \<and> \<not> arbitrary then [''manual_only_registry_entry''] else [])
             in Inr \<lparr>sd_execute_allowed = (exec_candidate \<and> \<not> (ad_manual_only d \<and> \<not> arbitrary)), sd_preview_allowed = preview,
                      sd_reason_codes = dict_fromkeys (filter (\<lambda>c. c \<noteq> []) codes), sd_required_role = ''admin'',
                      sd_required_confirmation = confirmation, sd_risk_tier = risk\<rparr>)))"

section \<open>Files and audit\<close>

datatype script_outcome = Finished int string string | Timeout_Expired | Raised py_error

record api_host =
  ah_uuid :: "nat \<Rightarrow> string"
  ah_clock :: string
  ah_demo_mode :: "string option"
  ah_safe_mode :: bool
  ah_allow_execute :: "string option"
  ah_windows :: bool
  ah_is_file :: "string \<Rightarrow> bool"
  ah_run :: "string \<Rightarrow> script_outcome"
  ah_rollback :: host

record execution =
  ex_execution_id :: string
  ex_preview_id :: string
  ex_endpoint_id :: string
  ex_action :: string
  ex_confirmed_by :: string
  ex_result :: string
  ex_stdout_redacted :: string
  ex_stderr_redacted :: string

record api_state =
  ap_failure_events :: "failure_event list"
  ap_previews :: "remediation_preview list"
  ap_executions :: "execution list"
  ap_audit :: "pydict list"
  ap_runs :: "string list"

definition write_audit :: "api_host \<Rightarrow> nat \<Rightarrow> string \<Rightarrow> string \<Rightarrow> string \<Rightarrow> string \<Rightarrow> string \<Rightarrow> string \<Rightarrow> api_state \<Rightarrow> api_state" where
  "write_audit h n actor action target_type target_id decision rationale st =
     st\<lparr>ap_audit := ap_audit st @
        [[(''audit_id'', PyStr (ah_uuid h n)), (''actor'', PyStr actor), (''action'', PyStr action), (''target_type'', PyStr target_type),
          (''target_id'', PyStr target_id), (''decision'', PyStr decision), (''rationale'', PyStr rationale), (''timestamp'', PyStr (ah_clock h))]]\<rparr>"

definition contract_event ::
  "api_host \<Rightarrow> nat \<Rightarrow> string \<Rightarrow> string \<Rightarrow> string \<Rightarrow> string list \<Rightarrow> pyval \<Rightarrow> string \<Rightarrow> string \<Rightarrow> string \<Rightarrow> string \<Rightarrow> pydict" where
  "contract_event h n endpoint kind summary hypothesis confidence level decision actor replay_ref =
     [(''event_id'', PyStr (ah_uuid h n)), (''timestamp'', PyStr (ah_clock h)), (''endpoint_id'', PyStr endpoint), (''event_kind'', PyStr kind),
      (''observations'', PyList []), (''summary'', PyStr summary), (''hypothesis'', PyList (map PyStr hypothesis)), (''confidence'', confidence),
      (''evidence_level'', PyStr level), (''policy_decision'', PyStr decision), (''actor'', PyStr actor), (''replay_ref'', PyStr replay_ref),
      (''run_id'', PyStr []), (''previous_hash'', PyStr []), (''hash'', PyStr [])]"

definition hash_event_payload :: "pydict \<Rightarrow> string \<Rightarrow> string" where
  "hash_event_payload payload previous =
     sha256_hexdigest (json_text True '', '' '': ''
       (PyDict [(''previous_hash'', PyStr previous), (''event'', PyDict (filter (\<lambda>(k, v). k \<noteq> ''hash'') payload))]))"

definition append_contract_audit :: "pydict \<Rightarrow> api_state \<Rightarrow> api_state \<times> string" where
  "append_contract_audit event st =
     (let previous =
            (if ap_audit st = [] then []
             else py_str (py_or (dict_get (last (ap_audit st)) ''hash'') (py_or (dict_get (last (ap_audit st)) ''event_hash'') (PyStr []))));
          payload = dict_set event ''previous_hash'' (PyStr previous)
      in (st\<lparr>ap_audit := ap_audit st @ [dict_set payload ''hash'' (PyStr (hash_event_payload payload previous))]\<rparr>,
          py_str (dict_get event ''event_id'')))"

section \<open>Handlers\<close>

record preview_in =
  pi_endpoint_id :: string
  pi_failure_event_id :: string
  pi_requested_action :: string
  pi_surface :: string

record execute_in =
  ei_preview_id :: string
  ei_confirmation_phrase :: string
  ei_dry_run :: bool
  ei_actor :: string

record preview_response =
  pr_preview :: remediation_preview
  pr_decision :: string
  pr_required_confirmation :: string
  pr_audit_event_id :: string

record execute_response =
  er_execution :: execution
  er_allowed :: bool
  er_decision :: string
  er_reason :: string
  er_required_confirmation :: string
  er_audit_event_id :: string
  er_dry_run :: bool

definition http_error :: "nat \<Rightarrow> string \<Rightarrow> 'a py_result" where
  "http_error code detail = Inl (HTTPException code detail)"

definition is_demo_mode :: "api_host \<Rightarrow> bool" where
  "is_demo_mode h = (py_lower (case ah_demo_mode h of None \<Rightarrow> [] | Some v \<Rightarrow> v) \<in> {''1'', ''true'', ''yes''})"

definition find_last :: "('a \<Rightarrow> bool) \<Rightarrow> 'a list \<Rightarrow> 'a option" where
  "find_last q xs = find q (rev xs)"

definition decision_for_preview :: "bool \<Rightarrow> string" where
  "decision_for_preview allowed = (if allowed then ''preview_only'' else ''blocked'')"

definition phrase_shown :: "remediation_preview \<Rightarrow> string" where
  "phrase_shown pv = (if pv_requires_typed_confirmation pv then pv_confirmation_phrase pv else [])"

definition remediation_preview_route ::
  "api_host \<Rightarrow> preview_in \<Rightarrow> demo_principal \<Rightarrow> api_state \<Rightarrow> api_state \<times> preview_response py_result" where
  "remediation_preview_route h b p st =
     (case assert_can_preview p of
        Inl e \<Rightarrow> (st, Inl e)
      | Inr _ \<Rightarrow>
        if is_shell_injection (pi_requested_action b) then (st, http_error 400 ''invalid action'')
        else case find_last (\<lambda>fe. fv_event_id fe = pi_failure_event_id b) (ap_failure_events st) of
          None \<Rightarrow> (st, http_error 404 ''failure event not found'')
        | Some fe \<Rightarrow>
          (case build_preview (ah_rollback h) (ah_uuid h 0) (ah_clock h) fe (pi_requested_action b) (pi_surface b) default_remediation_policy of
             Inl e \<Rightarrow> (st, Inl e)
           | Inr pv \<Rightarrow>
             (let st1 = st\<lparr>ap_previews := ap_previews st @ [pv]\<rparr>;
                  st2 = write_audit h 1 (dp_operator_id p) ''remediation_preview'' ''failure_event'' (pi_failure_event_id b)
                          (if pv_allowed_by_policy pv then ''allowed'' else ''blocked'') (pv_policy_reason pv) st1;
                  decision = decision_for_preview (pv_allowed_by_policy pv);
                  (st3, aid) = append_contract_audit
                    (contract_event h 2 (pv_endpoint_id pv) ''remediation_preview'' (''Preview requested for '' @ pv_proposed_action pv)
                       (if pv_rationale pv \<noteq> [] then [pv_rationale pv] else []) (fv_confidence fe) ''inference'' decision
                       (dp_operator_id p) (pv_preview_id pv)) st2
              in (st3, Inr \<lparr>pr_preview = pv, pr_decision = decision, pr_required_confirmation = phrase_shown pv, pr_audit_event_id = aid\<rparr>))))"

text \<open>
  The blocks of \<open>remediation_execute\<close> that end a request share one shape: the execution row, the contract audit and the response.
  \<open>report\<close> is a contract audit alone, before an exception.
\<close>

definition report ::
  "api_host \<Rightarrow> execute_in \<Rightarrow> demo_principal \<Rightarrow> remediation_preview \<Rightarrow> string \<Rightarrow> string \<Rightarrow> pyval \<Rightarrow> string \<Rightarrow> string \<Rightarrow> api_state \<Rightarrow> api_state \<times> string" where
  "report h b p pv kind summary confidence level decision st =
     append_contract_audit
       (contract_event h 1 (pv_endpoint_id pv) kind summary [] confidence level decision (dp_operator_id p) (ei_preview_id b)) st"

definition execution_row ::
  "api_host \<Rightarrow> execute_in \<Rightarrow> demo_principal \<Rightarrow> remediation_preview \<Rightarrow> string \<Rightarrow> string \<Rightarrow> string \<Rightarrow> execution" where
  "execution_row h b p pv result out err =
     \<lparr>ex_execution_id = ah_uuid h 0, ex_preview_id = ei_preview_id b, ex_endpoint_id = pv_endpoint_id pv, ex_action = pv_proposed_action pv,
      ex_confirmed_by = dp_operator_id p, ex_result = result, ex_stdout_redacted = out, ex_stderr_redacted = err\<rparr>"

definition append_execution :: "execution \<Rightarrow> api_state \<Rightarrow> api_state" where
  "append_execution ex st = st\<lparr>ap_executions := ap_executions st @ [ex]\<rparr>"

definition execution_contract_payload ::
  "execution \<Rightarrow> remediation_preview \<Rightarrow> string \<Rightarrow> string \<Rightarrow> bool \<Rightarrow> string \<Rightarrow> execute_response" where
  "execution_contract_payload ex pv decision reason allowed aid =
     \<lparr>er_execution = ex, er_allowed = allowed, er_decision = decision, er_reason = reason, er_required_confirmation = phrase_shown pv,
      er_audit_event_id = aid, er_dry_run = (ex_result ex = ''dry_run'')\<rparr>"

definition float1 :: pyval where "float1 = PyFloat 1 ''1.0''"

definition float09 :: pyval where "float09 = PyFloat (9/10) ''0.9''"

definition float095 :: pyval where "float095 = PyFloat (95/100) ''0.95''"

definition blocked_response ::
  "api_host \<Rightarrow> execute_in \<Rightarrow> demo_principal \<Rightarrow> remediation_preview \<Rightarrow> string \<Rightarrow> pyval \<Rightarrow> api_state \<Rightarrow> api_state \<times> execute_response py_result" where
  "blocked_response h b p pv reason confidence st =
     (let ex = execution_row h b p pv ''blocked'' [] reason;
          st1 = write_audit h 2 (dp_operator_id p) ''execute'' [] [] ''blocked'' reason (append_execution ex st);
          (st2, aid) = report h b p pv ''remediation_blocked'' reason confidence ''inference'' ''blocked'' st1
      in (st2, Inr (execution_contract_payload ex pv ''blocked'' reason False aid)))"

definition dry_run_response ::
  "api_host \<Rightarrow> execute_in \<Rightarrow> demo_principal \<Rightarrow> remediation_preview \<Rightarrow> api_state \<Rightarrow> api_state \<times> execute_response py_result" where
  "dry_run_response h b p pv st =
     (let ex = execution_row h b p pv ''dry_run'' ''[dry-run] no subprocess'' [];
          (st2, aid) = report h b p pv ''remediation_execute_attempt'' ''[dry-run] no subprocess'' float09 ''observation'' ''preview_only''
                         (append_execution ex st)
      in (st2, Inr (execution_contract_payload ex pv ''preview_only'' ''[dry-run] no subprocess'' True aid)))"

definition unsupported_response ::
  "api_host \<Rightarrow> execute_in \<Rightarrow> demo_principal \<Rightarrow> remediation_preview \<Rightarrow> api_state \<Rightarrow> api_state \<times> execute_response py_result" where
  "unsupported_response h b p pv st =
     (let ex = execution_row h b p pv ''failure'' [] ''execution_only_supported_on_windows'';
          (st2, aid) = report h b p pv ''remediation_execute_attempt'' ''execution_only_supported_on_windows'' float1 ''observation'' ''blocked''
                         (append_execution ex st)
      in (st2, Inr (execution_contract_payload ex pv ''blocked'' ''execution_only_supported_on_windows'' False aid)))"

definition run_live ::
  "api_host \<Rightarrow> execute_in \<Rightarrow> demo_principal \<Rightarrow> remediation_preview \<Rightarrow> string \<Rightarrow> api_state \<Rightarrow> api_state \<times> execute_response py_result" where
  "run_live h b p pv path st =
     (let st1 = write_audit h 2 (dp_operator_id p) ''execute_live_pending'' ''preview'' (ei_preview_id b) ''pending'' (''spawn_allowlisted:'' @ path) st;
          st2 = st1\<lparr>ap_runs := ap_runs st1 @ [path]\<rparr>
      in case ah_run h path of
           Finished code out err \<Rightarrow>
             (let ok = (code = 0);
                  ex = execution_row h b p pv (if ok then ''success'' else ''failure'') (redact_text (take 4000 out)) (redact_text (take 4000 err));
                  st3 = write_audit h 3 (dp_operator_id p) ''execute'' ''preview'' (ei_preview_id b) (if ok then ''success'' else ''failure'') []
                          (append_execution ex st2);
                  (st4, aid) = report h b p pv ''remediation_execute_attempt''
                    (if ok then ''allowlisted subprocess completed'' else ''allowlisted subprocess failed'') float1 ''observation''
                    (if ok then ''allow'' else ''preview_only'') st3
              in (st4, Inr (execution_contract_payload ex pv (if ok then ''allow'' else ''preview_only'') (if ok then ''success'' else ''failure'') ok aid)))
         | Timeout_Expired \<Rightarrow>
             (let ex = execution_row h b p pv ''failure'' [] ''timeout'';
                  (st4, aid) = report h b p pv ''remediation_execute_attempt'' ''timeout'' float1 ''observation'' ''preview_only'' (append_execution ex st2)
              in (st4, Inr (execution_contract_payload ex pv ''preview_only'' ''timeout'' False aid)))
         | Raised e \<Rightarrow> (st2, Inl e))"

definition remediation_execute ::
  "api_host \<Rightarrow> execute_in \<Rightarrow> demo_principal \<Rightarrow> api_state \<Rightarrow> api_state \<times> execute_response py_result" where
  "remediation_execute h b p st =
     (case assert_can_execute p (ei_dry_run b) of
        Inl e \<Rightarrow> (st, Inl e)
      | Inr _ \<Rightarrow>
        if is_demo_mode h \<and> \<not> ei_dry_run b then (st, http_error 403 ''DEMO_MODE blocks live remediation execute'')
        else case find_last (\<lambda>pv. pv_preview_id pv = ei_preview_id b) (ap_previews st) of
          None \<Rightarrow> (st, http_error 404 ''preview not found'')
        | Some pv \<Rightarrow>
          (case get_action_def (pv_proposed_action pv) of
             None \<Rightarrow>
               (fst (report h b p pv ''remediation_blocked'' ''unknown_action'' float1 ''observation'' ''blocked'' st), http_error 400 ''unknown action'')
           | Some d \<Rightarrow>
             (let pd = evaluate_action (pv_proposed_action pv) ''api'' default_remediation_policy
              in if \<not> cd_allowed pd then blocked_response h b p pv (cd_reason pd) float09 st
                 else if pv_requires_typed_confirmation pv \<and>
                         \<not> validate_confirmation_phrase (pv_proposed_action pv) (ei_confirmation_phrase b)
                 then (fst (report h b p pv ''remediation_blocked'' ''confirmation_phrase mismatch'' float1 ''observation'' ''blocked'' st),
                       http_error 400 ''confirmation_phrase mismatch'')
                 else if \<not> ei_dry_run b \<and> (ad_manual_only d \<or> \<not> ad_api_execute_allowed d)
                 then blocked_response h b p pv ''manual_only_or_api_execute_disabled'' float095 st
                 else case (if ei_dry_run b then None else ad_script_path d) of
                        None \<Rightarrow> dry_run_response h b p pv st
                      | Some script \<Rightarrow>
                          if \<not> ah_windows h then unsupported_response h b p pv st
                          else case allowlisted_script (ah_is_file h) script of
                                 None \<Rightarrow>
                                   (fst (report h b p pv ''remediation_blocked'' ''script not allowlisted'' float1 ''observation'' ''blocked'' st),
                                    http_error 400 ''script not allowlisted'')
                               | Some path \<Rightarrow> run_live h b p pv path st)))"

section \<open>Facts about the registry\<close>

text \<open>The actions that the API can execute, with the phrase to type and the script.\<close>

definition live_actions :: "(string \<times> string \<times> string) list" where
  "live_actions = [(''reset_dns'', ''RUN_DNS_RESET'', ''reset_dns.bat''), (''reset_proxy'', ''RUN_PROXY_RESET'', ''reset_proxy.bat'')]"

definition live_row :: "string \<Rightarrow> action_def \<Rightarrow> bool" where
  "live_row k d \<longleftrightarrow>
     (case ad_script_path d of
        None \<Rightarrow> False
      | Some sc \<Rightarrow> (k, ad_confirmation_phrase d, sc) \<in> set live_actions \<and> ad_risk_level d = ''medium'' \<and> ad_allowed_surfaces d = all_surfaces \<and>
                    ad_api_execute_allowed d \<and> \<not> ad_manual_only d)"

lemma registry_rows:
  "list_all (\<lambda>(k, d). ad_api_execute_allowed d = live_row k d \<and> (ad_risk_level d \<in> {''low'', ''medium''} \<longrightarrow> ad_confirmation_phrase d \<noteq> []) \<and>
     (ad_risk_level d \<noteq> ''forbidden'' \<longrightarrow> set (ad_allowed_surfaces d) \<noteq> {})) remediation_registry"
  by code_simp

lemma alias_targets: "list_all (\<lambda>(a, t). map_of remediation_registry t \<noteq> None \<and> t \<notin> fst ` set live_actions) remediation_aliases"
  by code_simp

lemma live_found:
  "map_of remediation_registry ''reset_dns'' = Some (snd (remediation_registry ! 3))"
  "map_of remediation_registry ''reset_proxy'' = Some (snd (remediation_registry ! 4))"
  "live_row ''reset_dns'' (snd (remediation_registry ! 3))" "live_row ''reset_proxy'' (snd (remediation_registry ! 4))"
  "map_of remediation_aliases ''reset_dns'' = None" "map_of remediation_aliases ''reset_proxy'' = None"
  by code_simp+

lemma live_names: "(a, ph, sc) \<in> set live_actions \<Longrightarrow> a = ''reset_dns'' \<or> a = ''reset_proxy''"
  by (auto simp: live_actions_def)

lemma live_not_alias: "(a, ph, sc) \<in> set live_actions \<Longrightarrow> map_of remediation_aliases a = None"
  by (drule live_names) (auto simp: live_found)

lemma canonical_live:
  assumes "(canonical_action_name a, ph, sc) \<in> set live_actions"
  shows "canonical_action_name a = a"
proof (cases "map_of remediation_aliases a")
  case (Some t)
  then have "t \<notin> fst ` set live_actions" using alias_targets by (auto simp: list_all_iff dest!: map_of_SomeD)
  moreover have "canonical_action_name a = t" using Some by (simp add: canonical_action_name_def)
  ultimately show ?thesis using assms by force
qed (simp add: canonical_action_name_def)

lemma live_action_iff:
  assumes "get_action_def a = Some d"
  shows "ad_api_execute_allowed d \<longleftrightarrow> live_row a d"
proof -
  have mem: "(canonical_action_name a, d) \<in> set remediation_registry"
    using assms by (simp add: get_action_def_def map_of_SomeD)
  then have "ad_api_execute_allowed d = live_row (canonical_action_name a) d" using registry_rows by (auto simp: list_all_iff)
  moreover have "canonical_action_name a = a" if "live_row (canonical_action_name a) d"
    using that canonical_live by (auto simp: live_row_def split: option.splits)
  moreover have "canonical_action_name a = a" if "live_row a d"
    using that live_not_alias by (auto simp: live_row_def canonical_action_name_def split: option.splits)
  ultimately show ?thesis by metis
qed

lemma live_action_defined:
  assumes "(a, ph, sc) \<in> set live_actions"
  shows "\<exists>d. get_action_def a = Some d \<and> live_row a d \<and> ad_script_path d = Some sc \<and> ad_confirmation_phrase d = ph"
proof -
  have "\<exists>d. get_action_def a = Some d \<and> live_row a d"
    using live_names [OF assms] live_found live_not_alias [OF assms] by (auto simp: get_action_def_def canonical_action_name_def)
  then obtain d where d: "get_action_def a = Some d" "live_row a d" by blast
  then obtain sc' where "ad_script_path d = Some sc'" "(a, ad_confirmation_phrase d, sc') \<in> set live_actions"
    by (auto simp: live_row_def split: option.splits)
  with assms d show ?thesis by (auto simp: live_actions_def)
qed

lemma live_row_allowed:
  assumes "get_action_def a = Some d" and "live_row a d"
  shows "cd_allowed (evaluate_action a ''api'' default_remediation_policy)" "cd_effective_risk (evaluate_action a ''api'' default_remediation_policy) = ''medium''"
  using assms
  by (auto simp: evaluate_action_def default_remediation_policy_def live_row_def all_surfaces_def Let_def split: option.splits)

lemma allowlisted_live: "(a, ph, sc) \<in> set live_actions \<Longrightarrow> allowlisted_script f sc = (if f sc then Some sc else None)"
proof -
  have "list_all (\<lambda>(a, ph, sc). sc \<in> allowlist) live_actions" by code_simp
  then show "(a, ph, sc) \<in> set live_actions \<Longrightarrow> ?thesis" by (auto simp: list_all_iff allowlisted_script_def)
qed

section \<open>Requests\<close>

lemma audit_only [simp]:
  "ap_runs (fst (append_contract_audit ev st)) = ap_runs st" "ap_previews (fst (append_contract_audit ev st)) = ap_previews st"
  "ap_executions (fst (append_contract_audit ev st)) = ap_executions st"
  "ap_runs (write_audit h n x1 x2 x3 x4 x5 x6 st) = ap_runs st" "ap_previews (write_audit h n x1 x2 x3 x4 x5 x6 st) = ap_previews st"
  "ap_executions (write_audit h n x1 x2 x3 x4 x5 x6 st) = ap_executions st"
  "ap_runs (append_execution ex st) = ap_runs st" "ap_previews (append_execution ex st) = ap_previews st"
  "ap_executions (append_execution ex st) = ap_executions st @ [ex]"
  by (simp_all add: append_contract_audit_def write_audit_def append_execution_def Let_def)

lemma report_only [simp]:
  "ap_runs (fst (report h b p pv k s c l d st)) = ap_runs st" "ap_previews (fst (report h b p pv k s c l d st)) = ap_previews st"
  "ap_executions (fst (report h b p pv k s c l d st)) = ap_executions st"
  by (simp_all add: report_def)

text \<open>What each block does to the files that matter, and its answer.\<close>

definition answered :: "api_state \<Rightarrow> string list \<Rightarrow> string \<Rightarrow> api_state \<times> execute_response py_result \<Rightarrow> bool" where
  "answered st runs result res \<longleftrightarrow>
     (\<exists>x. snd res = Inr x \<and> ap_executions (fst res) = ap_executions st @ [er_execution x] \<and> ex_result (er_execution x) = result \<and>
        ap_previews (fst res) = ap_previews st \<and> ap_runs (fst res) = ap_runs st @ runs \<and>
        er_allowed x = (result \<in> {''success'', ''dry_run''}) \<and> (er_decision x = ''allow'' \<longleftrightarrow> result = ''success'') \<and>
        er_dry_run x = (result = ''dry_run''))"

lemma answered_blocks:
  "answered st [] ''blocked'' (blocked_response h b p pv reason c st)"
  "answered st [] ''dry_run'' (dry_run_response h b p pv st)"
  "answered st [] ''failure'' (unsupported_response h b p pv st)"
  by (simp_all add: answered_def blocked_response_def dry_run_response_def unsupported_response_def execution_contract_payload_def
      execution_row_def case_prod_beta Let_def)

lemma answered_live:
  "(case ah_run h path of
      Finished code out err \<Rightarrow> answered st [path] (if code = 0 then ''success'' else ''failure'') (run_live h b p pv path st)
    | Timeout_Expired \<Rightarrow> answered st [path] ''failure'' (run_live h b p pv path st)
    | Raised e \<Rightarrow> snd (run_live h b p pv path st) = Inl e \<and> ap_runs (fst (run_live h b p pv path st)) = ap_runs st @ [path] \<and>
        ap_executions (fst (run_live h b p pv path st)) = ap_executions st \<and> ap_previews (fst (run_live h b p pv path st)) = ap_previews st)"
  by (simp add: answered_def run_live_def execution_contract_payload_def execution_row_def case_prod_beta Let_def split: script_outcome.split)

lemma run_live_runs [simp]:
  "ap_runs (fst (run_live h b p pv path st)) = ap_runs st @ [path]" "ap_previews (fst (run_live h b p pv path st)) = ap_previews st"
  by (simp_all add: run_live_def case_prod_beta Let_def split: script_outcome.split)

lemma blocks_only [simp]:
  "ap_runs (fst (blocked_response h b p pv reason c st)) = ap_runs st" "ap_previews (fst (blocked_response h b p pv reason c st)) = ap_previews st"
  "ap_runs (fst (dry_run_response h b p pv st)) = ap_runs st" "ap_previews (fst (dry_run_response h b p pv st)) = ap_previews st"
  "ap_runs (fst (unsupported_response h b p pv st)) = ap_runs st" "ap_previews (fst (unsupported_response h b p pv st)) = ap_previews st"
  by (simp_all add: blocked_response_def dry_run_response_def unsupported_response_def case_prod_beta Let_def)

lemma execute_previews: "ap_previews (fst (remediation_execute h b p st)) = ap_previews st"
  by (simp add: remediation_execute_def Let_def split: sum.split option.split)

lemma assert_live: "assert_can_execute p False = Inr u \<longleftrightarrow> dp_role p = ''admin''"
  by (auto simp: assert_can_execute_def)

text \<open>The gate of a live run, for any preview rows in the file.\<close>

definition live_gate :: "api_host \<Rightarrow> execute_in \<Rightarrow> demo_principal \<Rightarrow> api_state \<Rightarrow> string \<Rightarrow> bool" where
  "live_gate h b p st script \<longleftrightarrow>
     dp_role p = ''admin'' \<and> \<not> ei_dry_run b \<and> \<not> is_demo_mode h \<and> ah_windows h \<and> ah_is_file h script \<and>
     (\<exists>pv phrase. find_last (\<lambda>pv. pv_preview_id pv = ei_preview_id b) (ap_previews st) = Some pv \<and>
        (pv_proposed_action pv, phrase, script) \<in> set live_actions \<and>
        (pv_requires_typed_confirmation pv \<longrightarrow> py_strip (ei_confirmation_phrase b) = phrase))"

lemma live_phrase:
  assumes "(a, ph, sc) \<in> set live_actions"
  shows "validate_confirmation_phrase a text0 \<longleftrightarrow> py_strip text0 = ph"
proof -
  have "ph \<noteq> []" using assms by (auto simp: live_actions_def)
  with live_action_defined [OF assms] show ?thesis
    by (auto simp: validate_confirmation_phrase_def require_typed_confirmation_def Let_def)
qed

lemma execute_runs_inv:
  assumes "ap_runs (fst (remediation_execute h b p st)) \<noteq> ap_runs st"
  shows "\<exists>pv d sc path. assert_can_execute p False = Inr () \<and> \<not> ei_dry_run b \<and> \<not> is_demo_mode h \<and> ah_windows h \<and>
     find_last (\<lambda>pv. pv_preview_id pv = ei_preview_id b) (ap_previews st) = Some pv \<and> get_action_def (pv_proposed_action pv) = Some d \<and>
     (pv_requires_typed_confirmation pv \<longrightarrow> validate_confirmation_phrase (pv_proposed_action pv) (ei_confirmation_phrase b)) \<and>
     ad_api_execute_allowed d \<and> ad_script_path d = Some sc \<and> allowlisted_script (ah_is_file h) sc = Some path \<and>
     ap_runs (fst (remediation_execute h b p st)) = ap_runs st @ [path]"
  using assms unfolding remediation_execute_def Let_def by (auto split: sum.splits option.splits if_splits)

lemma execute_runs:
  assumes "ap_runs (fst (remediation_execute h b p st)) \<noteq> ap_runs st"
  shows "\<exists>script. live_gate h b p st script \<and> ap_runs (fst (remediation_execute h b p st)) = ap_runs st @ [script]"
proof -
  from execute_runs_inv [OF assms] obtain pv d sc path where e:
    "assert_can_execute p False = Inr ()" "\<not> ei_dry_run b" "\<not> is_demo_mode h" "ah_windows h"
    "find_last (\<lambda>pv. pv_preview_id pv = ei_preview_id b) (ap_previews st) = Some pv" "get_action_def (pv_proposed_action pv) = Some d"
    "pv_requires_typed_confirmation pv \<longrightarrow> validate_confirmation_phrase (pv_proposed_action pv) (ei_confirmation_phrase b)"
    "ad_api_execute_allowed d" "ad_script_path d = Some sc" "allowlisted_script (ah_is_file h) sc = Some path"
    "ap_runs (fst (remediation_execute h b p st)) = ap_runs st @ [path]" by blast
  have "live_row (pv_proposed_action pv) d" using live_action_iff [OF e(6)] e(8) by simp
  then have live: "(pv_proposed_action pv, ad_confirmation_phrase d, sc) \<in> set live_actions" using e(9) by (simp add: live_row_def)
  then have "ah_is_file h sc" "path = sc" using allowlisted_live [OF live] e(10) by (auto split: if_splits)
  moreover have "live_gate h b p st sc"
    unfolding live_gate_def using e live live_phrase [OF live] assert_live [of p "()"] \<open>ah_is_file h sc\<close> by blast
  ultimately show ?thesis using e(11) by blast
qed

lemma execute_runs_if:
  assumes "live_gate h b p st script"
  shows "ap_runs (fst (remediation_execute h b p st)) = ap_runs st @ [script]"
proof -
  from assms obtain pv phrase where g: "dp_role p = ''admin''" "\<not> ei_dry_run b" "\<not> is_demo_mode h" "ah_windows h" "ah_is_file h script"
    "find_last (\<lambda>pv. pv_preview_id pv = ei_preview_id b) (ap_previews st) = Some pv"
    "(pv_proposed_action pv, phrase, script) \<in> set live_actions"
    "pv_requires_typed_confirmation pv \<longrightarrow> py_strip (ei_confirmation_phrase b) = phrase" by (auto simp: live_gate_def)
  from live_action_defined [OF g(7)] obtain d where d: "get_action_def (pv_proposed_action pv) = Some d" "live_row (pv_proposed_action pv) d"
    "ad_script_path d = Some script" "ad_confirmation_phrase d = phrase" by blast
  have adm: "assert_can_execute p False = Inr ()" using g(1) by (simp add: assert_can_execute_def)
  have ok: "pv_requires_typed_confirmation pv \<longrightarrow> validate_confirmation_phrase (pv_proposed_action pv) (ei_confirmation_phrase b)"
    using g(8) live_phrase [OF g(7)] by simp
  have api: "ad_api_execute_allowed d" "\<not> ad_manual_only d" using d(2) by (auto simp: live_row_def split: option.splits)
  show ?thesis
    unfolding remediation_execute_def Let_def
    using g(2-6) adm d(1,3) api ok live_row_allowed(1) [OF d(1,2)] allowlisted_live [OF g(7), of "ah_is_file h"] by simp
qed

text \<open>Previews that the API writes ask for the phrase of every executable action.\<close>

lemma built_preview_confirms:
  assumes "build_preview rh uid clock fe action surface default_remediation_policy = Inr pv"
    and "(pv_proposed_action pv, phrase, script) \<in> set live_actions"
  shows "pv_requires_typed_confirmation pv"
proof -
  have a: "pv_proposed_action pv = action"
    using assms(1) by (auto simp: build_preview_def bind_r_Inr Let_def split: option.splits if_splits)
  from live_action_defined [OF assms(2)] obtain d where d: "get_action_def action = Some d" "live_row action d" "ad_confirmation_phrase d = phrase"
    by (auto simp: a)
  have "phrase \<noteq> []" using assms(2) by (auto simp: live_actions_def)
  moreover have "ad_risk_level d = ''medium''" using d(2) by (auto simp: live_row_def split: option.splits)
  ultimately show ?thesis
    using assms(1) d by (auto simp: build_preview_def bind_r_Inr default_remediation_policy_def Let_def split: if_splits)
qed

text \<open>The states that requests and incoming failure events reach from empty files.\<close>

inductive api_reach :: "api_state \<Rightarrow> bool" where
  api_init: "api_reach \<lparr>ap_failure_events = evs, ap_previews = [], ap_executions = [], ap_audit = [], ap_runs = []\<rparr>"
| api_event: "api_reach st \<Longrightarrow> api_reach (st\<lparr>ap_failure_events := ap_failure_events st @ [fe]\<rparr>)"
| api_preview: "api_reach st \<Longrightarrow> api_reach (fst (remediation_preview_route h pb p st))"
| api_execute: "api_reach st \<Longrightarrow> api_reach (fst (remediation_execute h b p st))"

lemma preview_route_files:
  "ap_runs (fst (remediation_preview_route h b p st)) = ap_runs st"
  "ap_previews (fst (remediation_preview_route h b p st)) = ap_previews st \<or>
   (\<exists>fe pv. build_preview (ah_rollback h) (ah_uuid h 0) (ah_clock h) fe (pi_requested_action b) (pi_surface b) default_remediation_policy = Inr pv \<and>
      ap_previews (fst (remediation_preview_route h b p st)) = ap_previews st @ [pv])"
  by (auto simp: remediation_preview_route_def case_prod_beta Let_def split: sum.split option.split)

lemma reach_previews:
  assumes "api_reach st" and "pv \<in> set (ap_previews st)" and "(pv_proposed_action pv, phrase, script) \<in> set live_actions"
  shows "pv_requires_typed_confirmation pv"
  using assms
proof (induction arbitrary: pv rule: api_reach.induct)
  case (api_preview st h pb p)
  then show ?case using preview_route_files(2) [of h pb p st] by (auto dest: built_preview_confirms)
qed (auto simp: execute_previews)

lemma reach_runs:
  assumes "api_reach st"
  shows "set (ap_runs st) \<subseteq> {''reset_dns.bat'', ''reset_proxy.bat''}"
  using assms
proof (induction rule: api_reach.induct)
  case (api_execute st h b p)
  have "set (ap_runs (fst (remediation_execute h b p st))) \<subseteq> set (ap_runs st) \<union> {''reset_dns.bat'', ''reset_proxy.bat''}"
    using execute_runs [of h b p st] by (force simp: live_gate_def live_actions_def)
  with api_execute.IH show ?case by blast
qed (simp_all add: preview_route_files(1))

lemma find_last_in: "find_last q xs = Some x \<Longrightarrow> x \<in> set xs \<and> q x"
  unfolding find_last_def by (metis (no_types, lifting) find_Some_iff nth_mem set_rev)

text \<open>The unified gate on an action that the API can execute, and what it grants.\<close>

lemma gate_fields:
  assumes "role \<noteq> ''viewer''" and "a \<noteq> []" and "get_action_def (canonical_action_name (py_strip a)) = Some d"
  shows "\<exists>sd. evaluate_gate (Inr ()) (Some a) role surface pol False = Inr sd \<and>
    sd_execute_allowed sd = (cd_allowed (evaluate_action (canonical_action_name (py_strip a)) surface pol) \<and> role = ''admin'' \<and>
      \<not> py_in ''arbitrary'' (canonical_action_name (py_strip a)) \<and> ad_api_execute_allowed d \<and> \<not> ad_manual_only d \<and>
      cd_effective_risk (evaluate_action (canonical_action_name (py_strip a)) surface pol) \<notin> {''high'', ''forbidden''})"
proof -
  have "(role \<in> {''operator'', ''admin''} \<and> role = ''admin'') = (role = ''admin'')" by auto
  then show ?thesis unfolding evaluate_gate_def
    by (simp add: assms Let_def split del: if_split) blast
qed

lemma gate_refused:
  "role = ''viewer'' \<or> a = [] \<or> get_action_def (canonical_action_name (py_strip a)) = None \<Longrightarrow>
   evaluate_gate (Inr ()) (Some a) role surface pol False = Inr sd \<Longrightarrow> \<not> sd_execute_allowed sd"
  by (cases "role = ''viewer''"; cases "a = []") (auto simp: evaluate_gate_def refuse_all_def Let_def split del: if_split)

lemma gate_execute_iff:
  assumes "evaluate_gate (Inr ()) (Some a) role ''api'' default_remediation_policy False = Inr sd"
  shows "sd_execute_allowed sd \<longleftrightarrow> role = ''admin'' \<and> (\<exists>ph sc. (py_strip a, ph, sc) \<in> set live_actions)"
proof
  assume sd: "sd_execute_allowed sd"
  have "\<exists>d. get_action_def (canonical_action_name (py_strip a)) = Some d \<and> ad_api_execute_allowed d \<and> role = ''admin''"
    using gate_refused [OF _ assms] gate_fields [of role a _ "''api''" default_remediation_policy] assms sd by fastforce
  then obtain d where d: "get_action_def (canonical_action_name (py_strip a)) = Some d" "ad_api_execute_allowed d" "role = ''admin''" by blast
  then have "live_row (canonical_action_name (py_strip a)) d" using live_action_iff by blast
  then obtain ph sc where live: "(canonical_action_name (py_strip a), ph, sc) \<in> set live_actions"
    by (auto simp: live_row_def split: option.splits)
  then show "role = ''admin'' \<and> (\<exists>ph sc. (py_strip a, ph, sc) \<in> set live_actions)" using canonical_live [OF live] d(3) by auto
next
  assume r: "role = ''admin'' \<and> (\<exists>ph sc. (py_strip a, ph, sc) \<in> set live_actions)"
  then obtain ph sc where live: "(py_strip a, ph, sc) \<in> set live_actions" by blast
  have "list_all (\<lambda>(k, _). \<not> py_in ''arbitrary'' k) live_actions" by code_simp
  with live have arb: "\<not> py_in ''arbitrary'' (py_strip a)" by (auto simp: list_all_iff)
  have key: "canonical_action_name (py_strip a) = py_strip a" using live_not_alias [OF live] by (simp add: canonical_action_name_def)
  have ne: "a \<noteq> []" using live by (auto simp: live_actions_def)
  from live_action_defined [OF live] obtain d where d: "get_action_def (py_strip a) = Some d" "live_row (py_strip a) d" by blast
  have api: "ad_api_execute_allowed d" "\<not> ad_manual_only d" using d(2) by (auto simp: live_row_def split: option.splits)
  show "sd_execute_allowed sd"
    using gate_fields [of role a d "''api''" default_remediation_policy] assms r arb ne d(1) api live_row_allowed [OF d] by (simp add: key)
qed

section \<open>Properties\<close>

text \<open>
  C28. In every state that requests reach, an execute request starts a script exactly when the principal is an admin, the request is not a dry
  run, demo mode is off, the host is Windows, the latest preview of the identifier proposes one of the two executable actions, its phrase is
  typed and the script exists; it starts that one script. Nothing but the two reset scripts is ever started.
\<close>

theorem live_script_iff:
  assumes "api_reach st"
  shows "(ap_runs (fst (remediation_execute h b p st)) = ap_runs st @ [script] \<longleftrightarrow>
      dp_role p = ''admin'' \<and> \<not> ei_dry_run b \<and> \<not> is_demo_mode h \<and> ah_windows h \<and> ah_is_file h script \<and>
      (\<exists>pv. find_last (\<lambda>pv. pv_preview_id pv = ei_preview_id b) (ap_previews st) = Some pv \<and>
         (pv_proposed_action pv, py_strip (ei_confirmation_phrase b), script) \<in> set live_actions)) \<and>
    (ap_runs (fst (remediation_execute h b p st)) = ap_runs st \<or>
      (\<exists>sc. ap_runs (fst (remediation_execute h b p st)) = ap_runs st @ [sc])) \<and>
    set (ap_runs st) \<subseteq> {''reset_dns.bat'', ''reset_proxy.bat''}"
proof -
  have confirmed: "pv_requires_typed_confirmation pv"
    if "find_last (\<lambda>pv. pv_preview_id pv = ei_preview_id b) (ap_previews st) = Some pv" "(pv_proposed_action pv, ph, sc) \<in> set live_actions" for pv ph sc
    using reach_previews [OF assms _ that(2)] find_last_in [OF that(1)] by blast
  have gate: "live_gate h b p st sc \<longleftrightarrow>
      dp_role p = ''admin'' \<and> \<not> ei_dry_run b \<and> \<not> is_demo_mode h \<and> ah_windows h \<and> ah_is_file h sc \<and>
      (\<exists>pv. find_last (\<lambda>pv. pv_preview_id pv = ei_preview_id b) (ap_previews st) = Some pv \<and>
         (pv_proposed_action pv, py_strip (ei_confirmation_phrase b), sc) \<in> set live_actions)" for sc
    unfolding live_gate_def using confirmed by blast
  have "ap_runs (fst (remediation_execute h b p st)) = ap_runs st @ [sc] \<longleftrightarrow> live_gate h b p st sc" for sc
    using execute_runs [of h b p st] execute_runs_if [of h b p st sc] by force
  moreover have "ap_runs (fst (remediation_execute h b p st)) = ap_runs st \<or>
      (\<exists>sc. ap_runs (fst (remediation_execute h b p st)) = ap_runs st @ [sc])"
    using execute_runs [of h b p st] by blast
  ultimately show ?thesis using gate reach_runs [OF assms] by simp
qed

definition sample_api_host :: api_host where
  "sample_api_host =
     \<lparr>ah_uuid = (\<lambda>n. ''id''), ah_clock = ''now'', ah_demo_mode = None, ah_safe_mode = True, ah_allow_execute = None, ah_windows = True,
      ah_is_file = (\<lambda>f. True), ah_run = (\<lambda>f. Finished 0 [] []), ah_rollback = sample_host\<rparr>"

definition sample_failure :: failure_event where
  "sample_failure = \<lparr>fv_event_id = ''e'', fv_endpoint_id = ''h'', fv_summary = [], fv_confidence = PyFloat 1 ''1.0''\<rparr>"

definition previewed_state :: api_state where
  "previewed_state = fst (remediation_preview_route sample_api_host
     \<lparr>pi_endpoint_id = ''h'', pi_failure_event_id = ''e'', pi_requested_action = ''reset_dns'', pi_surface = ''api''\<rparr>
     \<lparr>dp_operator_id = ''x'', dp_role = ''operator''\<rparr>
     \<lparr>ap_failure_events = [sample_failure], ap_previews = [], ap_executions = [], ap_audit = [], ap_runs = []\<rparr>)"

lemma previewed_row:
  "\<exists>pv. ap_previews previewed_state = [pv] \<and> pv_preview_id pv = ''id'' \<and> pv_proposed_action pv = ''reset_dns'' \<and> ap_runs previewed_state = []"
proof -
  have inj: "\<not> is_shell_injection ''reset_dns''" by code_simp
  have "\<exists>pv. build_preview sample_host ''id'' ''now'' sample_failure ''reset_dns'' ''api'' default_remediation_policy = Inr pv \<and>
      pv_preview_id pv = ''id'' \<and> pv_proposed_action pv = ''reset_dns''"
    by (auto simp: build_preview_def build_rollback_preview_package_def can_execute_rollback_def Let_def split: option.split)
  then show ?thesis
    by (auto simp: previewed_state_def remediation_preview_route_def assert_can_preview_def inj find_last_def sample_failure_def [symmetric]
        sample_api_host_def case_prod_beta Let_def) (simp_all add: sample_failure_def)
qed

theorem live_script_iff_witness:
  "ap_runs (fst (remediation_execute sample_api_host \<lparr>ei_preview_id = ''id'', ei_confirmation_phrase = '' RUN_DNS_RESET'', ei_dry_run = False, ei_actor = []\<rparr>
      \<lparr>dp_operator_id = ''x'', dp_role = ''admin''\<rparr> previewed_state)) = [''reset_dns.bat'']"
proof -
  have reach: "api_reach previewed_state" unfolding previewed_state_def by (rule api_preview, rule api_init)
  obtain pv where pv: "ap_previews previewed_state = [pv]" "pv_preview_id pv = ''id''" "pv_proposed_action pv = ''reset_dns''" "ap_runs previewed_state = []"
    using previewed_row by blast
  have phrase: "py_strip '' RUN_DNS_RESET'' = ''RUN_DNS_RESET''" by code_simp
  have demo: "\<not> is_demo_mode sample_api_host" by (simp add: is_demo_mode_def sample_api_host_def py_lower_def)
  from live_script_iff [OF reach, of sample_api_host
      "\<lparr>ei_preview_id = ''id'', ei_confirmation_phrase = '' RUN_DNS_RESET'', ei_dry_run = False, ei_actor = []\<rparr>"
      "\<lparr>dp_operator_id = ''x'', dp_role = ''admin''\<rparr>" "''reset_dns.bat''"]
  show ?thesis by (simp add: pv find_last_def phrase demo live_actions_def) (simp add: sample_api_host_def)
qed

text \<open>
  The answer of an execute request: it returns exactly when it appends one execution row, the row of the answer; a raised exception appends
  none. The answer is allowed exactly for success and dry run, its decision is allow exactly for success, and a dry run, a refusal and an
  unsupported host start nothing.
\<close>

theorem execute_answer_exact:
  "case remediation_execute h b p st of
     (st', Inl e) \<Rightarrow> ap_executions st' = ap_executions st
   | (st', Inr x) \<Rightarrow>
       ap_executions st' = ap_executions st @ [er_execution x] \<and>
       ex_result (er_execution x) \<in> {''success'', ''failure'', ''blocked'', ''dry_run''} \<and>
       er_allowed x = (ex_result (er_execution x) \<in> {''success'', ''dry_run''}) \<and>
       (er_decision x = ''allow'' \<longleftrightarrow> ex_result (er_execution x) = ''success'') \<and>
       er_dry_run x = (ex_result (er_execution x) = ''dry_run'') \<and>
       (ex_result (er_execution x) \<in> {''blocked'', ''dry_run''} \<longrightarrow> ap_runs st' = ap_runs st) \<and>
       (ex_result (er_execution x) = ''success'' \<longrightarrow> (\<exists>script. ap_runs st' = ap_runs st @ [script])) \<and>
       (ei_dry_run b \<longrightarrow> ex_result (er_execution x) \<in> {''blocked'', ''dry_run''})"
proof -
  define good where "good = (\<lambda>res :: api_state \<times> execute_response py_result. case res of (st', Inl e) \<Rightarrow> ap_executions st' = ap_executions st
   | (st', Inr x) \<Rightarrow>
       ap_executions st' = ap_executions st @ [er_execution x] \<and>
       ex_result (er_execution x) \<in> {''success'', ''failure'', ''blocked'', ''dry_run''} \<and>
       er_allowed x = (ex_result (er_execution x) \<in> {''success'', ''dry_run''}) \<and>
       (er_decision x = ''allow'' \<longleftrightarrow> ex_result (er_execution x) = ''success'') \<and>
       er_dry_run x = (ex_result (er_execution x) = ''dry_run'') \<and>
       (ex_result (er_execution x) \<in> {''blocked'', ''dry_run''} \<longrightarrow> ap_runs st' = ap_runs st) \<and>
       (ex_result (er_execution x) = ''success'' \<longrightarrow> (\<exists>script. ap_runs st' = ap_runs st @ [script])) \<and>
       (ei_dry_run b \<longrightarrow> ex_result (er_execution x) \<in> {''blocked'', ''dry_run''}))"
  have settled: "good res" if "answered st runs result res" "result \<in> {''success'', ''failure'', ''blocked'', ''dry_run''}"
    "result \<in> {''blocked'', ''dry_run''} \<longrightarrow> runs = []" "result = ''success'' \<longrightarrow> (\<exists>sc. runs = [sc])"
    "ei_dry_run b \<longrightarrow> result \<in> {''blocked'', ''dry_run''}" for res runs result
    using that by (cases res) (auto simp: good_def answered_def)
  have raised: "good (st', Inl e)" if "ap_executions st' = ap_executions st" for st' e
    using that by (simp add: good_def)
  have live: "good (run_live h b p pv path st)" if "\<not> ei_dry_run b" for pv path
    using answered_live [where h = h and path = path and st = st and b = b and p = p and pv = pv] that settled raised
    by (cases "ah_run h path"; cases "run_live h b p pv path st") (auto split: if_splits)
  have blocks: "good (blocked_response h b p pv reason c st)" "good (dry_run_response h b p pv st)"
    "\<not> ei_dry_run b \<Longrightarrow> good (unsupported_response h b p pv st)" for pv reason c
    by (rule settled [OF answered_blocks(1)], simp_all) (rule settled [OF answered_blocks(2)], simp_all, rule settled [OF answered_blocks(3)], simp_all)
  have "good (remediation_execute h b p st)"
    unfolding remediation_execute_def Let_def http_error_def using live blocks raised
    by (auto split: sum.split option.split)
  then show ?thesis unfolding good_def .
qed

theorem execute_answer_exact_witness:
  "case remediation_execute sample_api_host \<lparr>ei_preview_id = ''none'', ei_confirmation_phrase = [], ei_dry_run = True, ei_actor = []\<rparr>
      \<lparr>dp_operator_id = ''x'', dp_role = ''operator''\<rparr> previewed_state of
     (st', Inl e) \<Rightarrow> ap_executions st' = ap_executions previewed_state
   | (st', Inr x) \<Rightarrow> ap_runs st' = ap_runs previewed_state"
  using execute_answer_exact [where h = sample_api_host and p = "\<lparr>dp_operator_id = ''x'', dp_role = ''operator''\<rparr>" and st = previewed_state
      and b = "\<lparr>ei_preview_id = ''none'', ei_confirmation_phrase = [], ei_dry_run = True, ei_actor = []\<rparr>"]
  by (auto split: prod.splits sum.splits)

text \<open>
  The unified gate and the handler agree: under the default policy, for the API surface, the gate offers execution exactly to an admin and
  exactly for the actions the handler can start, and then a confirmation phrase is required; the handler starts nothing that the gate refuses.
\<close>

theorem unified_gate_agrees:
  assumes "evaluate_gate (Inr ()) (Some a) role ''api'' default_remediation_policy False = Inr sd"
  shows "(sd_execute_allowed sd \<longleftrightarrow> role = ''admin'' \<and> (\<exists>ph sc. (py_strip a, ph, sc) \<in> set live_actions)) \<and>
    (\<forall>h b p st script pv. dp_role p = role \<longrightarrow> find_last (\<lambda>pv. pv_preview_id pv = ei_preview_id b) (ap_previews st) = Some pv \<longrightarrow>
       pv_proposed_action pv = py_strip a \<longrightarrow> ap_runs (fst (remediation_execute h b p st)) = ap_runs st @ [script] \<longrightarrow> sd_execute_allowed sd)"
proof -
  have "sd_execute_allowed sd" if "dp_role p = role" "find_last (\<lambda>pv. pv_preview_id pv = ei_preview_id b) (ap_previews st) = Some pv"
    "pv_proposed_action pv = py_strip a" "ap_runs (fst (remediation_execute h b p st)) = ap_runs st @ [script]" for h b p st script pv
    using execute_runs [of h b p st] that unfolding gate_execute_iff [OF assms] live_gate_def by force
  then show ?thesis using gate_execute_iff [OF assms] by blast
qed

theorem unified_gate_agrees_witness:
  "\<exists>sd. evaluate_gate (Inr ()) (Some ''reset_proxy'') ''admin'' ''api'' default_remediation_policy False = Inr sd \<and> sd_execute_allowed sd"
proof -
  have strip: "py_strip ''reset_proxy'' = ''reset_proxy''" by code_simp
  have live: "(''reset_proxy'', ''RUN_PROXY_RESET'', ''reset_proxy.bat'') \<in> set live_actions" by (simp add: live_actions_def)
  obtain d where "get_action_def ''reset_proxy'' = Some d" using live_action_defined [OF live] by blast
  then obtain sd where sd: "evaluate_gate (Inr ()) (Some ''reset_proxy'') ''admin'' ''api'' default_remediation_policy False = Inr sd"
    using gate_fields [of "''admin''" "''reset_proxy''" d "''api''" default_remediation_policy] live_not_alias [OF live]
    by (auto simp: strip canonical_action_name_def)
  then show ?thesis using unified_gate_agrees [OF sd] live by (auto simp: strip)
qed

section \<open>What the code does not do\<close>

text \<open>\<open>PLATFORM_SAFE_MODE\<close> and \<open>ALLOW_PLATFORM_EXECUTE\<close> have no effect on an execute request.\<close>

lemma flags_ignored:
  fixes s a h
  defines "g \<equiv> h\<lparr>ah_safe_mode := s, ah_allow_execute := a\<rparr>"
  shows "is_demo_mode g = is_demo_mode h" "ah_windows g = ah_windows h" "ah_is_file g = ah_is_file h" "ah_run g = ah_run h"
    "report g = report h" "execution_row g = execution_row h" "write_audit g = write_audit h"
  by (simp_all add: g_def is_demo_mode_def fun_eq_iff report_def contract_event_def execution_row_def write_audit_def)

lemma safe_mode_ignored:
  "remediation_execute (h\<lparr>ah_safe_mode := s, ah_allow_execute := a\<rparr>) b p st = remediation_execute h b p st"
  by (simp only: remediation_execute_def blocked_response_def dry_run_response_def unsupported_response_def run_live_def flags_ignored)

text \<open>A plain audit row has no hash, so the contract row that follows it starts a new chain; every preview request writes both.\<close>

lemma contract_chain_restarts:
  assumes "remediation_preview_route h b p st = (st', Inr x)"
  shows "dict_get (last (ap_audit st')) ''previous_hash'' = PyStr []"
proof -
  have plain: "dict_get (last (ap_audit (fst (append_contract_audit ev (write_audit h n x1 x2 x3 x4 x5 x6 s0))))) ''previous_hash'' = PyStr []" for ev n x1 x2 x3 x4 x5 x6 s0
    by (simp add: append_contract_audit_def write_audit_def py_or_def Let_def) (simp add: dict_get_def py_or_def map_of_dict_set)
  from assms show ?thesis
    by (auto simp: remediation_preview_route_def http_error_def case_prod_beta Let_def plain split: sum.splits option.splits if_splits)
qed

end
