(* ===== verification/Stakeholders.thy ===== *)
theory Stakeholders
  imports Sha256 Py_Values
begin

text \<open>
  The stakeholder resolver, \<open>src/platform_core/stakeholder/{models,registry,escalation,resolver}.py\<close>: the tables that map classifications and controls to
  organisational roles, the choice of each role from configuration, asset data, controls and classification, the separation of approver and
  executor, and the escalation path. The resolver is a function of its arguments; the exception for identities that are not a dictionary
  is the only one it raises.

  The lemmas trace every role and every named identity of a result to the tables or the configuration, and say exactly what is left
  unresolved and when approver and executor are the same role.
\<close>

section \<open>Models\<close>

datatype resolution_source =
    EXPLICIT_CONFIGURATION | ASSET_METADATA | CONTROL_MAPPING | CLASSIFICATION_MAPPING | DEFAULT_ROLE_MAPPING | UNRESOLVED

datatype stakeholder_reason =
    STAKEHOLDER_RESOLVED | OWNER_UNRESOLVED | APPROVER_REQUIRED | SECURITY_ESCALATION_REQUIRED | SEGREGATION_OF_DUTIES_REQUIRED
  | EXECUTION_AUTHORITY_MISSING | INFORMED_ROLE_MAPPED | AFFECTED_PARTY_MAPPED

fun stakeholder_reason_value :: "stakeholder_reason \<Rightarrow> string" where
  "stakeholder_reason_value STAKEHOLDER_RESOLVED = ''STAKEHOLDER_RESOLVED''"
| "stakeholder_reason_value OWNER_UNRESOLVED = ''OWNER_UNRESOLVED''"
| "stakeholder_reason_value APPROVER_REQUIRED = ''APPROVER_REQUIRED''"
| "stakeholder_reason_value SECURITY_ESCALATION_REQUIRED = ''SECURITY_ESCALATION_REQUIRED''"
| "stakeholder_reason_value SEGREGATION_OF_DUTIES_REQUIRED = ''SEGREGATION_OF_DUTIES_REQUIRED''"
| "stakeholder_reason_value EXECUTION_AUTHORITY_MISSING = ''EXECUTION_AUTHORITY_MISSING''"
| "stakeholder_reason_value INFORMED_ROLE_MAPPED = ''INFORMED_ROLE_MAPPED''"
| "stakeholder_reason_value AFFECTED_PARTY_MAPPED = ''AFFECTED_PARTY_MAPPED''"

record role_ref =
  rr_role_id :: string
  rr_display_name :: string
  rr_kind :: string
  rr_identity :: "string option"
  rr_source :: resolution_source
  rr_reason_code :: stakeholder_reason
  rr_rationale :: string

record escalation_hop =
  eh_order :: int
  eh_role :: role_ref
  eh_trigger :: string

record stakeholder_context =
  sc_case_id :: string
  sc_classification :: string
  sc_asset_owner :: "role_ref option"
  sc_control_owner :: "role_ref option"
  sc_affected_parties :: "role_ref list"
  sc_approver_roles :: "role_ref list"
  sc_executor_roles :: "role_ref list"
  sc_informed_roles :: "role_ref list"
  sc_escalation_path :: "escalation_hop list"
  sc_execution_authority :: "role_ref option"
  sc_segregation_of_duties_required :: bool
  sc_resolution_confidence :: string
  sc_unresolved_fields :: "string list"
  sc_reason_codes :: "stakeholder_reason list"
  sc_inputs_fingerprint :: string
  sc_config_refs :: pydict

section \<open>Registry\<close>

type_synonym role_map = "(string \<times> string) list"

definition role_row :: "string \<Rightarrow> string \<Rightarrow> string \<Rightarrow> string \<Rightarrow> string \<Rightarrow> string \<Rightarrow> role_map" where
  "role_row owner control approver executor informed escalation =
     [(''asset_owner'', owner), (''control_owner'', control), (''approver'', approver), (''executor'', executor),
      (''informed'', informed), (''escalation'', escalation)]"

definition default_role_map :: role_map where
  "default_role_map = role_row ''endpoint_owner'' ''endpoint_reliability_control_owner'' ''it_operations_approver'' ''desktop_support_executor''
     ''service_desk'' ''it_operations_lead''"

definition classification_role_map :: "(string \<times> role_map) list" where
  "classification_role_map =
     [(''DEAD_PROXY_CONFIG'', role_row ''endpoint_owner'' ''endpoint_reliability_control_owner'' ''it_operations_approver'' ''desktop_support_executor''
        ''service_desk'' ''it_operations_lead''),
      (''KNOWN_DEV_PROXY'', role_row ''endpoint_owner'' ''developer_tooling_control_owner'' ''it_operations_approver'' ''endpoint_owner''
        ''developer_experience'' ''it_operations_lead''),
      (''LOCAL_PROXY_ACTIVE'', role_row ''endpoint_owner'' ''endpoint_reliability_control_owner'' ''it_operations_approver'' ''desktop_support_executor''
        ''service_desk'' ''it_operations_lead''),
      (''UNKNOWN_LOCAL_PROXY'', role_row ''endpoint_owner'' ''security_control_owner'' ''security_approver'' ''security_operations_executor''
        ''it_operations_lead'' ''security_incident_manager''),
      (''POSSIBLE_MITM_RISK'', role_row ''endpoint_owner'' ''security_control_owner'' ''security_approver'' ''security_operations_executor''
        ''ciso_office'' ''security_incident_manager''),
      (''WININET_WINHTTP_MISMATCH'', role_row ''endpoint_owner'' ''endpoint_reliability_control_owner'' ''it_operations_approver'' ''desktop_support_executor''
        ''service_desk'' ''it_operations_lead''),
      (''OS_NETWORK_OK_BROWSER_PROFILE_FAIL'', role_row ''endpoint_owner'' ''endpoint_reliability_control_owner'' ''it_operations_approver''
        ''desktop_support_executor'' ''service_desk'' ''it_operations_lead'')]"

definition role_display_table :: role_map where
  "role_display_table =
     [(''endpoint_owner'', ''Endpoint Owner''),
      (''endpoint_reliability_control_owner'', ''Endpoint Reliability Control Owner''),
      (''developer_tooling_control_owner'', ''Developer Tooling Control Owner''),
      (''security_control_owner'', ''Security Control Owner''),
      (''it_operations_approver'', ''IT Operations Approver''),
      (''security_approver'', ''Security Approver''),
      (''desktop_support_executor'', ''Desktop Support Executor''),
      (''security_operations_executor'', ''Security Operations Executor''),
      (''service_desk'', ''Service Desk (Informed)''),
      (''developer_experience'', ''Developer Experience (Informed)''),
      (''it_operations_lead'', ''IT Operations Lead''),
      (''security_incident_manager'', ''Security Incident Manager''),
      (''ciso_office'', ''CISO Office (Informed)'')]"

definition security_escalation_classifications :: "string list" where
  "security_escalation_classifications = [''UNKNOWN_LOCAL_PROXY'', ''POSSIBLE_MITM_RISK'', ''SUSPICIOUS_PROXY'']"

definition control_owner_map :: role_map where
  "control_owner_map =
     [(''CTRL-PROXY-001'', ''endpoint_reliability_control_owner''), (''CTRL-PROXY-002'', ''security_control_owner''),
      (''CTRL-TLS-001'', ''security_control_owner'')]"

definition role_display :: "string \<Rightarrow> string" where
  "role_display role_id =
     (case map_of role_display_table role_id of
        Some t \<Rightarrow> t | None \<Rightarrow> py_title (py_replace_char (CHR ''_'') (CHR '' '') role_id))"

definition map_for_classification :: "string \<Rightarrow> role_map" where
  "map_for_classification classification =
     (case map_of classification_role_map (py_upper (py_strip classification)) of Some r \<Rightarrow> r | None \<Rightarrow> default_role_map)"

definition explicit_config_keys :: "string list" where
  "explicit_config_keys =
     [''asset_owner'', ''control_owner'', ''approver'', ''executor'', ''informed'', ''escalation'', ''identities'', ''segregation_of_duties_required'']"

definition load_explicit_config :: "pydict \<Rightarrow> pydict" where
  "load_explicit_config config = filter (\<lambda>kv. fst kv \<in> set explicit_config_keys) config"

section \<open>Escalation\<close>

definition security_hop :: escalation_hop where
  "security_hop =
     \<lparr>eh_order = 2,
      eh_role = \<lparr>rr_role_id = ''security_incident_manager'', rr_display_name = role_display ''security_incident_manager'', rr_kind = ''role'',
                 rr_identity = None, rr_source = CLASSIFICATION_MAPPING, rr_reason_code = SECURITY_ESCALATION_REQUIRED,
                 rr_rationale = ''Classification maps to security escalation path.''\<rparr>,
      eh_trigger = ''security_escalation_required''\<rparr>"

definition build_escalation_path :: "string \<Rightarrow> role_ref \<Rightarrow> bool option \<Rightarrow> escalation_hop list" where
  "build_escalation_path classification primary_escalation security_required =
     (let need_security = (case security_required of
                             Some b \<Rightarrow> b | None \<Rightarrow> py_upper classification \<in> set security_escalation_classifications)
      in \<lparr>eh_order = 1, eh_role = primary_escalation, eh_trigger = ''primary_escalation''\<rparr> # (if need_security then [security_hop] else []))"

section \<open>Resolver\<close>

definition stakeholder_fingerprint :: "pydict \<Rightarrow> string" where
  "stakeholder_fingerprint payload = take 16 (sha256_hexdigest (json_text True '', '' '': '' (PyDict payload)))"

definition role_from_config ::
  "string \<Rightarrow> string \<Rightarrow> (string \<times> string) list \<Rightarrow> resolution_source \<Rightarrow> stakeholder_reason \<Rightarrow> string \<Rightarrow> role_ref option" where
  "role_from_config field role_id identities source reason rationale =
     (if role_id = [] then None
      else let identity = (case map_of identities role_id of Some v \<Rightarrow> if v \<noteq> [] then Some v else map_of identities field
                           | None \<Rightarrow> map_of identities field);
               named = (case identity of Some v \<Rightarrow> v \<noteq> [] | None \<Rightarrow> False)
           in Some \<lparr>rr_role_id = role_id, rr_display_name = role_display role_id,
                    rr_kind = (if named then ''configured_identity'' else ''role''), rr_identity = identity,
                    rr_source = (if named \<or> source = EXPLICIT_CONFIGURATION then EXPLICIT_CONFIGURATION else source),
                    rr_reason_code = reason, rr_rationale = rationale\<rparr>)"

text \<open>The identities of the configuration: the texts that are not blank.\<close>

fun named_identity :: "string \<times> pyval \<Rightarrow> (string \<times> string) option" where
  "named_identity (k, PyStr v) = (if py_strip v \<noteq> [] then Some (k, v) else None)"
| "named_identity _ = None"

definition configured_identities :: "pydict \<Rightarrow> (string \<times> string) list py_result" where
  "configured_identities cfg =
     (case py_or (dict_get cfg ''identities'') (PyDict []) of
        PyDict d \<Rightarrow> Inr (List.map_filter named_identity d)
      | v \<Rightarrow> Inl (no_attribute v ''items''))"

record stakeholder_request =
  sq_case_id :: string
  sq_classification :: string
  sq_evidence_summary :: pydict
  sq_proof_status :: string
  sq_policy_outcome :: string
  sq_policy_requires_approval :: bool
  sq_control_ids :: "string list"
  sq_config :: pydict

text \<open>\<open>class_map[field]\<close>; every map of the registry has the six fields.\<close>

definition role_of :: "role_map \<Rightarrow> string \<Rightarrow> string" where
  "role_of class_map field = (case map_of class_map field of Some r \<Rightarrow> r | None \<Rightarrow> [])"

definition asset_role :: "pydict \<Rightarrow> string \<Rightarrow> string option" where
  "asset_role evidence_summary field =
     (case py_or (dict_get evidence_summary ''asset'') (PyDict []) of
        PyDict a \<Rightarrow> if truthy (dict_get a field) then Some (py_str (dict_get a field)) else None
      | _ \<Rightarrow> None)"

definition pick :: "stakeholder_request \<Rightarrow> pydict \<Rightarrow> role_map \<Rightarrow> string \<Rightarrow> string \<times> resolution_source \<times> string" where
  "pick q cfg class_map field =
     (if truthy (dict_get cfg field) then (py_str (dict_get cfg field), EXPLICIT_CONFIGURATION, ''explicit config'')
      else case asset_role (sq_evidence_summary q) field of
             Some r \<Rightarrow> (r, ASSET_METADATA, ''asset metadata'')
           | None \<Rightarrow>
             (case (if field = ''control_owner'' then find (\<lambda>cid. map_of control_owner_map cid \<noteq> None) (sq_control_ids q) else None) of
                Some cid \<Rightarrow> (role_of control_owner_map cid, CONTROL_MAPPING, ''control '' @ cid)
              | None \<Rightarrow>
                if sq_classification q \<noteq> [] \<and> role_of class_map field \<noteq> []
                then (role_of class_map field, CLASSIFICATION_MAPPING, ''classification '' @ sq_classification q)
                else (role_of class_map field, DEFAULT_ROLE_MAPPING, ''default role map'')))"

definition picked_role ::
  "stakeholder_request \<Rightarrow> pydict \<Rightarrow> (string \<times> string) list \<Rightarrow> string \<Rightarrow> stakeholder_reason \<Rightarrow> role_ref option" where
  "picked_role q cfg identities field reason =
     (case pick q cfg (map_for_classification (sq_classification q)) field of
        (rid, src, why) \<Rightarrow> role_from_config field rid identities src reason why)"

definition approval_outcomes :: "string list" where
  "approval_outcomes =
     [''REQUIRE_HUMAN_APPROVAL'', ''REQUIRE_TYPED_CONFIRMATION'', ''REQUIRE_CONFIRMATION'', ''ROLLBACK_REQUIRED'', ''PREVIEW_ONLY'', ''PREVIEW'',
      ''ALLOW_PREVIEW'', ''CORRELATION_ONLY_ALERT'']"

definition needs_approval :: "stakeholder_request \<Rightarrow> bool" where
  "needs_approval q \<longleftrightarrow> sq_policy_requires_approval q \<or> py_upper (sq_policy_outcome q) \<in> set approval_outcomes"

definition sod_approver :: "role_ref \<Rightarrow> role_ref" where
  "sod_approver escalation = escalation\<lparr>rr_source := DEFAULT_ROLE_MAPPING, rr_reason_code := SEGREGATION_OF_DUTIES_REQUIRED,
     rr_rationale := ''Approver must differ from executor (SoD).''\<rparr>"

definition fallback_escalation :: role_ref where
  "fallback_escalation = \<lparr>rr_role_id = ''it_operations_lead'', rr_display_name = role_display ''it_operations_lead'', rr_kind = ''role'',
     rr_identity = None, rr_source = DEFAULT_ROLE_MAPPING, rr_reason_code = STAKEHOLDER_RESOLVED, rr_rationale = ''fallback escalation''\<rparr>"

text \<open>\<open>a and b and a.role_id == b.role_id\<close>, and the negated comparison \<open>a and a.role_id != b.role_id\<close>.\<close>

fun same_role :: "role_ref option \<Rightarrow> role_ref option \<Rightarrow> bool" where
  "same_role (Some a) (Some b) = (rr_role_id a = rr_role_id b)"
| "same_role _ _ = False"

definition affected_party :: "role_ref \<Rightarrow> role_ref" where
  "affected_party owner = owner\<lparr>rr_reason_code := AFFECTED_PARTY_MAPPED, rr_rationale := ''Asset owner is an affected party.''\<rparr>"

text \<open>
  The statements of \<open>resolve\<close> after the roles are chosen: the list of approvers, the executing authority, and the reasons and unresolved fields
  in the order the code appends them.
\<close>

definition approvers_of :: "bool \<Rightarrow> bool \<Rightarrow> role_ref option \<Rightarrow> role_ref option \<Rightarrow> role_ref option \<Rightarrow> role_ref list" where
  "approvers_of needs sod approver executor escalation =
     (let approvers = (if needs then (case approver of None \<Rightarrow> [] | Some a \<Rightarrow> [a]) else [])
      in if sod \<and> same_role approver executor
         then (case escalation of Some x \<Rightarrow> if same_role escalation executor then approvers else [sod_approver x] | None \<Rightarrow> approvers)
         else approvers)"

definition execution_authority_of :: "bool \<Rightarrow> role_ref list \<Rightarrow> role_ref option \<Rightarrow> role_ref option" where
  "execution_authority_of needs approvers executor =
     (case executor of None \<Rightarrow> None | Some x \<Rightarrow> if \<not> needs \<or> approvers \<noteq> [] then Some x else None)"

definition reasons_of :: "bool \<Rightarrow> bool \<Rightarrow> bool \<Rightarrow> role_ref option \<Rightarrow> role_ref option \<Rightarrow> role_ref option \<Rightarrow> role_ref option \<Rightarrow> stakeholder_reason list" where
  "reasons_of needs security sod asset_owner approver executor authority =
     [case asset_owner of None \<Rightarrow> OWNER_UNRESOLVED | Some _ \<Rightarrow> STAKEHOLDER_RESOLVED]
     @ (if needs then [APPROVER_REQUIRED] else [])
     @ (if security then [SECURITY_ESCALATION_REQUIRED] else [])
     @ (if sod \<and> same_role approver executor then [SEGREGATION_OF_DUTIES_REQUIRED] else [])
     @ (case authority of None \<Rightarrow> [EXECUTION_AUTHORITY_MISSING] | Some _ \<Rightarrow> [])"

definition unresolved_of :: "bool \<Rightarrow> role_ref option \<Rightarrow> role_ref option \<Rightarrow> role_ref option \<Rightarrow> string list" where
  "unresolved_of needs asset_owner approver authority =
     (case asset_owner of None \<Rightarrow> [''asset_owner''] | Some _ \<Rightarrow> [])
     @ (if needs then (case approver of None \<Rightarrow> [''approver''] | Some _ \<Rightarrow> []) else [])
     @ (case authority of None \<Rightarrow> [''execution_authority''] | Some _ \<Rightarrow> [])"

text \<open>The confidence and, without classification and configuration, the field that is reported although its role is set.\<close>

definition confidence_of :: "bool \<Rightarrow> bool \<Rightarrow> string list \<Rightarrow> bool \<Rightarrow> string \<times> string list" where
  "confidence_of named anchored unresolved owned =
     (let c1 = (if named then ''configured'' else ''role_only'');
          c2 = (if unresolved \<noteq> [] then (if owned then ''partial'' else ''unresolved'') else c1)
      in if \<not> anchored then (''unresolved'', if ''asset_owner'' \<in> set unresolved then unresolved else unresolved @ [''asset_owner''])
         else (c2, unresolved))"

definition resolve_stakeholders :: "stakeholder_request \<Rightarrow> stakeholder_context py_result" where
  "resolve_stakeholders q =
     (let cfg = load_explicit_config (sq_config q)
      in bind_r (configured_identities cfg) (\<lambda>identities.
        let role = picked_role q cfg identities;
            asset_owner = role ''asset_owner'' STAKEHOLDER_RESOLVED;
            control_owner = role ''control_owner'' STAKEHOLDER_RESOLVED;
            approver = role ''approver'' APPROVER_REQUIRED;
            executor = role ''executor'' STAKEHOLDER_RESOLVED;
            informed = role ''informed'' INFORMED_ROLE_MAPPED;
            escalation = role ''escalation'' STAKEHOLDER_RESOLVED;
            needs = needs_approval q;
            security_required = (py_upper (sq_classification q) \<in> set security_escalation_classifications);
            sod = truthy (dict_get_or cfg ''segregation_of_duties_required'' (PyBool True));
            approvers = approvers_of needs sod approver executor escalation;
            authority = execution_authority_of needs approvers executor;
            reasons = reasons_of needs security_required sod asset_owner approver executor authority;
            (confidence, unresolved) = confidence_of (identities \<noteq> []) (sq_classification q \<noteq> [] \<or> cfg \<noteq> [])
               (unresolved_of needs asset_owner approver authority) (asset_owner \<noteq> None \<or> control_owner \<noteq> None)
        in Inr \<lparr>sc_case_id = sq_case_id q, sc_classification = sq_classification q, sc_asset_owner = asset_owner,
                sc_control_owner = control_owner,
                sc_affected_parties = (case asset_owner of None \<Rightarrow> [] | Some x \<Rightarrow> [affected_party x]),
                sc_approver_roles = approvers, sc_executor_roles = (case executor of None \<Rightarrow> [] | Some x \<Rightarrow> [x]),
                sc_informed_roles = (case informed of None \<Rightarrow> [] | Some x \<Rightarrow> [x]),
                sc_escalation_path = build_escalation_path (sq_classification q)
                  (case escalation of Some x \<Rightarrow> x | None \<Rightarrow> fallback_escalation) (Some security_required),
                sc_execution_authority = authority, sc_segregation_of_duties_required = sod, sc_resolution_confidence = confidence,
                sc_unresolved_fields = dict_fromkeys unresolved, sc_reason_codes = dict_fromkeys reasons,
                sc_inputs_fingerprint = stakeholder_fingerprint
                  [(''case_id'', PyStr (sq_case_id q)), (''classification'', PyStr (sq_classification q)),
                   (''policy_outcome'', PyStr (sq_policy_outcome q)), (''policy_requires_approval'', PyBool needs),
                   (''proof_status'', PyStr (sq_proof_status q)), (''control_ids'', PyList (map PyStr (sq_control_ids q))),
                   (''config'', PyDict cfg)],
                sc_config_refs = [(''has_explicit_config'', PyBool (cfg \<noteq> [])), (''identity_count'', PyInt (int (length identities)))]\<rparr>))"


section \<open>Roles and where they come from\<close>

definition role_fields :: "string list" where
  "role_fields = [''asset_owner'', ''control_owner'', ''approver'', ''executor'', ''informed'', ''escalation'']"

definition registry_roles :: "string list" where
  "registry_roles = map fst role_display_table"

text \<open>Every float has a text.\<close>

fun printable :: "pyval \<Rightarrow> bool" where
  "printable (PyFloat x t) = (t \<noteq> [])"
| "printable _ = True"

lemma truthy_text: "truthy v \<Longrightarrow> printable v \<Longrightarrow> py_str v \<noteq> []"
  by (cases v) (auto simp: int_str_def)

lemma registry_tables:
  "list_all (\<lambda>m. list_all (\<lambda>f. role_of m f \<in> set registry_roles) role_fields) (default_role_map # map snd classification_role_map)"
  "list_all (\<lambda>r. r \<in> set registry_roles) (map snd control_owner_map)" "[] \<notin> set registry_roles"
  by code_simp+

lemma class_role:
  assumes "f \<in> set role_fields"
  shows "role_of (map_for_classification c) f \<in> set registry_roles"
proof -
  have "map_for_classification c \<in> set (default_role_map # map snd classification_role_map)"
    unfolding map_for_classification_def by (auto split: option.split dest!: map_of_SomeD intro: rev_image_eqI)
  then show ?thesis using registry_tables(1) assms unfolding list_all_iff by blast
qed

lemma control_role: "map_of control_owner_map c \<noteq> None \<Longrightarrow> role_of control_owner_map c \<in> set registry_roles"
  using registry_tables(2) by (fastforce simp: role_of_def list_all_iff dest: map_of_SomeD)

lemma explicit_get: "k \<in> set explicit_config_keys \<Longrightarrow> dict_get (load_explicit_config c) k = dict_get c k"
proof -
  assume k: "k \<in> set explicit_config_keys"
  have "map_of (filter (\<lambda>kv. fst kv \<in> A) xs) k = map_of xs k" if "k \<in> A" for A and xs :: pydict
    using that by (induction xs) auto
  from this [OF k] show ?thesis by (simp add: load_explicit_config_def dict_get_def)
qed

lemma role_fields_explicit: "set role_fields \<subseteq> set explicit_config_keys" "''identities'' \<in> set explicit_config_keys"
  by (simp_all add: role_fields_def explicit_config_keys_def)

definition known_role :: "stakeholder_request \<Rightarrow> string \<Rightarrow> bool" where
  "known_role q r \<longleftrightarrow> r \<in> set registry_roles \<or>
     (\<exists>f \<in> set role_fields. truthy (dict_get (sq_config q) f) \<and> r = py_str (dict_get (sq_config q) f) \<or> asset_role (sq_evidence_summary q) f = Some r)"

lemma pick_cases:
  obtains (config) "truthy (dict_get cfg f)" "fst (pick q cfg m f) = py_str (dict_get cfg f)"
  | (asset) r where "asset_role (sq_evidence_summary q) f = Some r" "fst (pick q cfg m f) = r"
  | (control) c where "map_of control_owner_map c \<noteq> None" "fst (pick q cfg m f) = role_of control_owner_map c"
  | (class_map) "fst (pick q cfg m f) = role_of m f"
proof (cases "truthy (dict_get cfg f)")
  case True
  then show ?thesis using config by (simp add: pick_def)
next
  case cfg: False
  show ?thesis
  proof (cases "asset_role (sq_evidence_summary q) f")
    case (Some r)
    with cfg show ?thesis using asset by (simp add: pick_def)
  next
    case asset: None
    show ?thesis
    proof (cases "if f = ''control_owner'' then find (\<lambda>cid. map_of control_owner_map cid \<noteq> None) (sq_control_ids q) else None")
      case None
      with cfg asset show ?thesis using class_map by (simp add: pick_def del: not_None_eq)
    next
      case (Some c)
      then have "find (\<lambda>cid. map_of control_owner_map cid \<noteq> None) (sq_control_ids q) = Some c" by (cases "f = ''control_owner''") (simp_all del: not_None_eq)
      then have "map_of control_owner_map c \<noteq> None" unfolding find_Some_iff by blast
      moreover have "fst (pick q cfg m f) = role_of control_owner_map c" using cfg asset Some by (simp add: pick_def del: not_None_eq)
      ultimately show ?thesis using control by blast
    qed
  qed
qed

lemma pick_known:
  assumes "f \<in> set role_fields"
  shows "known_role q (fst (pick q (load_explicit_config (sq_config q)) (map_for_classification (sq_classification q)) f))"
proof -
  have cfg: "dict_get (load_explicit_config (sq_config q)) f = dict_get (sq_config q) f"
    using explicit_get role_fields_explicit(1) assms by blast
  show ?thesis
  proof (cases rule: pick_cases [of "load_explicit_config (sq_config q)" f q "map_for_classification (sq_classification q)"])
    case config
    then show ?thesis using assms unfolding known_role_def cfg by blast
  next
    case (asset r)
    then show ?thesis using assms unfolding known_role_def by blast
  next
    case (control c)
    then show ?thesis using control_role unfolding known_role_def by metis
  next
    case class_map
    then show ?thesis using class_role [OF assms] unfolding known_role_def by metis
  qed
qed

text \<open>Every configuration value of a role has a text.\<close>

definition texts_given :: "stakeholder_request \<Rightarrow> bool" where
  "texts_given q \<longleftrightarrow> list_all (\<lambda>f. printable (dict_get (sq_config q) f) \<and>
     (case dict_get (sq_evidence_summary q) ''asset'' of PyDict a \<Rightarrow> printable (dict_get a f) | _ \<Rightarrow> True)) role_fields"

lemma asset_role_text: "texts_given q \<Longrightarrow> f \<in> set role_fields \<Longrightarrow> asset_role (sq_evidence_summary q) f = Some r \<Longrightarrow> r \<noteq> []"
  by (auto simp: asset_role_def texts_given_def list_all_iff py_or_def dict_get_def [of "[]"] split: pyval.splits if_splits dest: truthy_text)

lemma pick_text:
  assumes "texts_given q" and "f \<in> set role_fields"
  shows "fst (pick q (load_explicit_config (sq_config q)) (map_for_classification (sq_classification q)) f) \<noteq> []"
proof -
  have "\<And>r. r \<in> set registry_roles \<Longrightarrow> r \<noteq> []" using registry_tables(3) by blast
  moreover have "printable (dict_get (sq_config q) f)" using assms by (simp add: texts_given_def list_all_iff)
  ultimately show ?thesis
    by (cases rule: pick_cases [of "load_explicit_config (sq_config q)" f q "map_for_classification (sq_classification q)"])
       (use asset_role_text [OF assms] class_role [OF assms(2)] control_role explicit_get [of f "sq_config q"] role_fields_explicit(1) assms(2) truthy_text
        in auto)
qed

abbreviation explicit :: "stakeholder_request \<Rightarrow> pydict" where
  "explicit q \<equiv> load_explicit_config (sq_config q)"

abbreviation picked_id :: "stakeholder_request \<Rightarrow> string \<Rightarrow> string" where
  "picked_id q f \<equiv> fst (pick q (explicit q) (map_for_classification (sq_classification q)) f)"

text \<open>The identity a role may carry: a text of the configured dictionary, under the role or under the field.\<close>

definition configured_identity :: "stakeholder_request \<Rightarrow> string \<Rightarrow> string \<Rightarrow> bool" where
  "configured_identity q r v \<longleftrightarrow>
     (\<exists>d k. dict_get (sq_config q) ''identities'' = PyDict d \<and> (k, PyStr v) \<in> set d \<and> py_strip v \<noteq> [] \<and> (k = r \<or> k \<in> set role_fields))"

definition traced :: "stakeholder_request \<Rightarrow> role_ref \<Rightarrow> bool" where
  "traced q r \<longleftrightarrow> known_role q (rr_role_id r) \<and> rr_display_name r = role_display (rr_role_id r) \<and>
     (case rr_identity r of
        None \<Rightarrow> rr_kind r = ''role''
      | Some v \<Rightarrow> rr_kind r = ''configured_identity'' \<and> configured_identity q (rr_role_id r) v)"

lemma identity_pairs:
  assumes "configured_identities (explicit q) = Inr ids" and "map_of ids k = Some v"
  shows "(\<exists>d. dict_get (sq_config q) ''identities'' = PyDict d \<and> (k, PyStr v) \<in> set d) \<and> py_strip v \<noteq> [] \<and> v \<noteq> []"
proof -
  have get: "dict_get (explicit q) ''identities'' = dict_get (sq_config q) ''identities''"
    by (rule explicit_get [OF role_fields_explicit(2)])
  obtain d where d: "py_or (dict_get (sq_config q) ''identities'') (PyDict []) = PyDict d" "ids = List.map_filter named_identity d"
    using assms(1) unfolding configured_identities_def get by (auto split: pyval.splits)
  then obtain x where x: "x \<in> set d" "named_identity x = Some (k, v)"
    using map_of_SomeD [OF assms(2)] by (auto simp: List.map_filter_def)
  then have kv: "x = (k, PyStr v)" "py_strip v \<noteq> []" by (cases x rule: named_identity.cases; simp split: if_splits)+
  moreover have "dict_get (sq_config q) ''identities'' = PyDict d" using d(1) x(1) by (auto simp: py_or_def split: if_splits)
  moreover have "v \<noteq> []" using kv(2) by (auto simp: py_strip_def strip_by_def)
  ultimately show ?thesis using x(1) by blast
qed

lemma picked_role_None: "picked_role q (explicit q) ids f reason = None \<longleftrightarrow> picked_id q f = []"
  by (simp add: picked_role_def role_from_config_def Let_def split: prod.split)

lemma picked_role_id: "picked_role q (explicit q) ids f reason = Some r \<Longrightarrow> rr_role_id r = picked_id q f"
  by (auto simp: picked_role_def role_from_config_def Let_def split: prod.splits if_splits)

lemma picked_role_traced:
  assumes "configured_identities (explicit q) = Inr ids" and "f \<in> set role_fields"
    and "picked_role q (explicit q) ids f reason = Some r"
  shows "traced q r"
proof -
  obtain rid src why where p: "pick q (explicit q) (map_for_classification (sq_classification q)) f = (rid, src, why)" by (metis surj_pair)
  have known: "known_role q rid" using pick_known [OF assms(2), of q] p by simp
  let ?i = "case map_of ids rid of Some v \<Rightarrow> if v \<noteq> [] then Some v else map_of ids f | None \<Rightarrow> map_of ids f"
  have i: "?i = None \<or> (\<exists>k v. ?i = Some v \<and> map_of ids k = Some v \<and> (k = rid \<or> k = f))"
    by (cases "map_of ids rid"; cases "map_of ids f") auto
  have r: "rr_role_id r = rid" "rr_display_name r = role_display rid" "rr_identity r = ?i"
    "rr_kind r = (if (case ?i of Some v \<Rightarrow> v \<noteq> [] | None \<Rightarrow> False) then ''configured_identity'' else ''role'')"
    using assms(3) unfolding picked_role_def p by (auto simp: role_from_config_def Let_def split: if_splits)
  show ?thesis
  proof (cases ?i)
    case None
    then show ?thesis using r known by (simp add: traced_def)
  next
    case (Some v)
    then obtain k where k: "map_of ids k = Some v" "k = rid \<or> k = f" using i by (metis option.distinct(1) option.inject)
    from identity_pairs [OF assms(1) k(1)] k(2) assms(2) have "configured_identity q rid v" "v \<noteq> []"
      unfolding configured_identity_def by blast+
    then show ?thesis using r known Some by (simp add: traced_def)
  qed
qed

text \<open>All roles a result names.\<close>

definition context_roles :: "stakeholder_context \<Rightarrow> role_ref set" where
  "context_roles sc = set_option (sc_asset_owner sc) \<union> set_option (sc_control_owner sc) \<union> set (sc_affected_parties sc) \<union> set (sc_approver_roles sc)
     \<union> set (sc_executor_roles sc) \<union> set (sc_informed_roles sc) \<union> eh_role ` set (sc_escalation_path sc) \<union> set_option (sc_execution_authority sc)"

lemma resolve_result:
  assumes "resolve_stakeholders q = Inr sc"
  obtains ids where "configured_identities (explicit q) = Inr ids"
    and "sc_asset_owner sc = picked_role q (explicit q) ids ''asset_owner'' STAKEHOLDER_RESOLVED"
    and "sc_control_owner sc = picked_role q (explicit q) ids ''control_owner'' STAKEHOLDER_RESOLVED"
    and "sc_affected_parties sc = (case sc_asset_owner sc of None \<Rightarrow> [] | Some x \<Rightarrow> [affected_party x])"
    and "sc_executor_roles sc = (case picked_role q (explicit q) ids ''executor'' STAKEHOLDER_RESOLVED of None \<Rightarrow> [] | Some x \<Rightarrow> [x])"
    and "sc_informed_roles sc = (case picked_role q (explicit q) ids ''informed'' INFORMED_ROLE_MAPPED of None \<Rightarrow> [] | Some x \<Rightarrow> [x])"
    and "sc_approver_roles sc = approvers_of (needs_approval q) (sc_segregation_of_duties_required sc)
       (picked_role q (explicit q) ids ''approver'' APPROVER_REQUIRED) (picked_role q (explicit q) ids ''executor'' STAKEHOLDER_RESOLVED)
       (picked_role q (explicit q) ids ''escalation'' STAKEHOLDER_RESOLVED)"
    and "sc_escalation_path sc = build_escalation_path (sq_classification q)
       (case picked_role q (explicit q) ids ''escalation'' STAKEHOLDER_RESOLVED of Some x \<Rightarrow> x | None \<Rightarrow> fallback_escalation)
       (Some (py_upper (sq_classification q) \<in> set security_escalation_classifications))"
    and "sc_execution_authority sc = execution_authority_of (needs_approval q) (sc_approver_roles sc)
       (picked_role q (explicit q) ids ''executor'' STAKEHOLDER_RESOLVED)"
    and "set (sc_reason_codes sc) = set (reasons_of (needs_approval q) (py_upper (sq_classification q) \<in> set security_escalation_classifications)
       (sc_segregation_of_duties_required sc) (sc_asset_owner sc) (picked_role q (explicit q) ids ''approver'' APPROVER_REQUIRED)
       (picked_role q (explicit q) ids ''executor'' STAKEHOLDER_RESOLVED) (sc_execution_authority sc))"
    and "sc_unresolved_fields sc = dict_fromkeys (snd (confidence_of (ids \<noteq> []) (sq_classification q \<noteq> [] \<or> explicit q \<noteq> [])
       (unresolved_of (needs_approval q) (sc_asset_owner sc) (picked_role q (explicit q) ids ''approver'' APPROVER_REQUIRED) (sc_execution_authority sc))
       (sc_asset_owner sc \<noteq> None \<or> sc_control_owner sc \<noteq> None)))"
    and "sc_segregation_of_duties_required sc = truthy (dict_get_or (explicit q) ''segregation_of_duties_required'' (PyBool True))"
proof -
  obtain ids where ids: "configured_identities (explicit q) = Inr ids"
    using assms by (cases "configured_identities (explicit q)") (auto simp: resolve_stakeholders_def Let_def)
  show ?thesis
    by (rule that [OF ids])
       (insert assms ids, unfold resolve_stakeholders_def Let_def, simp_all only: bind_r.simps split_beta sum.inject, auto)
qed

lemma resolve_sod:
  "resolve_stakeholders q = Inr sc \<Longrightarrow> sc_segregation_of_duties_required sc = truthy (dict_get_or (explicit q) ''segregation_of_duties_required'' (PyBool True))"
  by (rule resolve_result)

lemma traced_derived [simp]: "traced q (affected_party r) = traced q r" "traced q (sod_approver r) = traced q r"
  by (simp_all add: traced_def affected_party_def sod_approver_def split: option.split)

lemma registry_traced: "rr_role_id r \<in> set registry_roles \<Longrightarrow> rr_display_name r = role_display (rr_role_id r) \<Longrightarrow> rr_identity r = None \<Longrightarrow>
    rr_kind r = ''role'' \<Longrightarrow> traced q r"
  by (simp add: traced_def known_role_def)

lemma fixed_roles_traced: "traced q fallback_escalation" "traced q (eh_role security_hop)"
  by (rule registry_traced; simp add: fallback_escalation_def security_hop_def registry_roles_def role_display_table_def)+

lemma approvers_all:
  "pred_option P approver \<Longrightarrow> pred_option (\<lambda>x. P (sod_approver x)) escalation \<Longrightarrow> list_all P (approvers_of needs sod approver executor escalation)"
  unfolding approvers_of_def Let_def by (cases approver; cases escalation) simp_all

lemma context_roles_traced:
  assumes "resolve_stakeholders q = Inr sc" and "r \<in> context_roles sc"
  shows "traced q r"
proof (rule resolve_result [OF assms(1)])
  fix ids
  let ?p = "picked_role q (explicit q) ids"
  assume ids: "configured_identities (explicit q) = Inr ids"
    and owner: "sc_asset_owner sc = ?p ''asset_owner'' STAKEHOLDER_RESOLVED"
    and control: "sc_control_owner sc = ?p ''control_owner'' STAKEHOLDER_RESOLVED"
    and affected: "sc_affected_parties sc = (case sc_asset_owner sc of None \<Rightarrow> [] | Some x \<Rightarrow> [affected_party x])"
    and executor: "sc_executor_roles sc = (case ?p ''executor'' STAKEHOLDER_RESOLVED of None \<Rightarrow> [] | Some x \<Rightarrow> [x])"
    and informed: "sc_informed_roles sc = (case ?p ''informed'' INFORMED_ROLE_MAPPED of None \<Rightarrow> [] | Some x \<Rightarrow> [x])"
    and approver: "sc_approver_roles sc = approvers_of (needs_approval q) (sc_segregation_of_duties_required sc)
       (?p ''approver'' APPROVER_REQUIRED) (?p ''executor'' STAKEHOLDER_RESOLVED) (?p ''escalation'' STAKEHOLDER_RESOLVED)"
    and path: "sc_escalation_path sc = build_escalation_path (sq_classification q)
       (case ?p ''escalation'' STAKEHOLDER_RESOLVED of Some x \<Rightarrow> x | None \<Rightarrow> fallback_escalation)
       (Some (py_upper (sq_classification q) \<in> set security_escalation_classifications))"
    and authority: "sc_execution_authority sc = execution_authority_of (needs_approval q) (sc_approver_roles sc) (?p ''executor'' STAKEHOLDER_RESOLVED)"
  have t: "traced q x" if "?p f c = Some x" "f \<in> set role_fields" for f c x using picked_role_traced [OF ids that(2,1)] .
  note fields = role_fields_def
  have "list_all (traced q) (sc_approver_roles sc)"
    unfolding approver by (rule approvers_all) (simp_all add: fields option.pred_set t)
  then have "r \<in> set (sc_approver_roles sc) \<Longrightarrow> traced q r" by (simp add: list_all_iff)
  moreover have "r \<in> eh_role ` set (sc_escalation_path sc) \<Longrightarrow> traced q r"
    unfolding path build_escalation_path_def using fixed_roles_traced
    by (auto simp: Let_def fields split: option.splits if_splits intro: t)
  moreover have "r \<in> set_option (sc_execution_authority sc) \<Longrightarrow> traced q r"
    unfolding authority execution_authority_of_def by (auto simp: fields split: option.splits if_splits intro: t)
  moreover have "r \<in> set (sc_affected_parties sc) \<Longrightarrow> traced q r"
    unfolding affected owner
    by (cases "?p ''asset_owner'' STAKEHOLDER_RESOLVED") (simp_all add: fields t)
  moreover have "r \<in> set_option (sc_asset_owner sc) \<union> set_option (sc_control_owner sc) \<union> set (sc_executor_roles sc) \<union> set (sc_informed_roles sc) \<Longrightarrow> traced q r"
    unfolding owner control executor informed by (auto simp: fields split: option.splits intro: t)
  ultimately show ?thesis using assms(2) unfolding context_roles_def by blast
qed

section \<open>Properties\<close>

text \<open>
  No role and no person is invented: every role of a result is a role of the registry or the text of a role field of the configuration or of
  the asset data, with the name the registry displays; a role carries an identity exactly when it is marked as configured, and the identity
  is a text that the configuration holds for that role or for a role field.
\<close>

theorem stakeholders_never_invented:
  assumes "resolve_stakeholders q = Inr sc" and "r \<in> context_roles sc"
  shows "(rr_role_id r \<in> set registry_roles \<or>
      (\<exists>f \<in> set role_fields. truthy (dict_get (sq_config q) f) \<and> rr_role_id r = py_str (dict_get (sq_config q) f) \<or>
         asset_role (sq_evidence_summary q) f = Some (rr_role_id r))) \<and>
    rr_display_name r = role_display (rr_role_id r) \<and>
    (rr_kind r = ''configured_identity'' \<longleftrightarrow> rr_identity r \<noteq> None) \<and>
    (\<forall>v. rr_identity r = Some v \<longrightarrow>
      (\<exists>d k. dict_get (sq_config q) ''identities'' = PyDict d \<and> (k, PyStr v) \<in> set d \<and> (k = rr_role_id r \<or> k \<in> set role_fields)))"
  using context_roles_traced [OF assms] unfolding traced_def known_role_def configured_identity_def
  by (cases "rr_identity r") auto

definition sample_stakeholder_request :: stakeholder_request where
  "sample_stakeholder_request = \<lparr>sq_case_id = ''c1'', sq_classification = ''DEAD_PROXY_CONFIG'', sq_evidence_summary = [], sq_proof_status = [],
     sq_policy_outcome = ''ALLOW'', sq_policy_requires_approval = True, sq_control_ids = [],
     sq_config = [(''approver'', PyStr ''ops''), (''executor'', PyStr ''ops''), (''identities'', PyDict [(''ops'', PyStr ''Kim'')])]\<rparr>"

definition sample_role :: role_ref where
  "sample_role = \<lparr>rr_role_id = ''ops'', rr_display_name = ''Ops'', rr_kind = ''configured_identity'', rr_identity = Some ''Kim'',
     rr_source = EXPLICIT_CONFIGURATION, rr_reason_code = STAKEHOLDER_RESOLVED, rr_rationale = ''explicit config''\<rparr>"

lemma sample_executor: "picked_role sample_stakeholder_request (explicit sample_stakeholder_request) [(''ops'', ''Kim'')] ''executor'' STAKEHOLDER_RESOLVED = Some sample_role"
  "configured_identities (explicit sample_stakeholder_request) = Inr [(''ops'', ''Kim'')]"
  by code_simp+

lemma sample_resolved: "\<exists>sc. resolve_stakeholders sample_stakeholder_request = Inr sc \<and> sc_executor_roles sc = [sample_role]"
  using sample_executor by (simp add: resolve_stakeholders_def Let_def split_beta)

theorem stakeholders_never_invented_witness:
  "\<exists>sc. resolve_stakeholders sample_stakeholder_request = Inr sc \<and> sample_role \<in> context_roles sc \<and> rr_identity sample_role = Some ''Kim'' \<and>
     (\<exists>d k. dict_get (sq_config sample_stakeholder_request) ''identities'' = PyDict d \<and> (k, PyStr ''Kim'') \<in> set d)"
proof -
  obtain sc where sc: "resolve_stakeholders sample_stakeholder_request = Inr sc" "sc_executor_roles sc = [sample_role]" using sample_resolved by blast
  then have r: "sample_role \<in> context_roles sc" by (simp add: context_roles_def)
  have "rr_identity sample_role = Some ''Kim''" by (simp add: sample_role_def)
  with stakeholders_never_invented [OF sc(1) r] sc(1) r show ?thesis by blast
qed

lemma role_given:
  assumes "texts_given q" and "f \<in> set role_fields"
  obtains x where "picked_role q (explicit q) ids f c = Some x" and "rr_role_id x = picked_id q f"
  using pick_text [OF assms] picked_role_None picked_role_id by (metis not_Some_eq)

lemma sod_approver_id [simp]: "rr_role_id (sod_approver x) = rr_role_id x"
  by (simp add: sod_approver_def)

lemma approvers_given:
  "approvers_of needs sod (Some a) (Some x) (Some l) =
     (if sod \<and> rr_role_id a = rr_role_id x \<and> rr_role_id l \<noteq> rr_role_id x then [sod_approver l] else if needs then [a] else [])"
  by (simp add: approvers_of_def Let_def)

lemma fields_in: "''asset_owner'' \<in> set role_fields" "''approver'' \<in> set role_fields" "''executor'' \<in> set role_fields" "''escalation'' \<in> set role_fields"
  by (simp_all add: role_fields_def)

lemma assignment:
  assumes "resolve_stakeholders q = Inr sc" and "texts_given q"
  obtains o' a x l where "sc_asset_owner sc = Some o'" and "sc_executor_roles sc = [x]" and "sc_execution_authority sc = Some x"
    and "sc_approver_roles sc = approvers_of (needs_approval q) (sc_segregation_of_duties_required sc) (Some a) (Some x) (Some l)"
    and "rr_role_id a = picked_id q ''approver''" "rr_role_id x = picked_id q ''executor''" "rr_role_id l = picked_id q ''escalation''"
    and "sc_unresolved_fields sc = (if sq_classification q = [] \<and> explicit q = [] then [''asset_owner''] else [])"
    and "set (sc_reason_codes sc) = set (reasons_of (needs_approval q) (py_upper (sq_classification q) \<in> set security_escalation_classifications)
       (sc_segregation_of_duties_required sc) (Some o') (Some a) (Some x) (Some x))"
proof (rule resolve_result [OF assms(1)])
  fix ids
  let ?p = "picked_role q (explicit q) ids"
  obtain o' where o: "?p ''asset_owner'' STAKEHOLDER_RESOLVED = Some o'" by (rule role_given [OF assms(2) fields_in(1)])
  obtain a where a: "?p ''approver'' APPROVER_REQUIRED = Some a" "rr_role_id a = picked_id q ''approver''" by (rule role_given [OF assms(2) fields_in(2)])
  obtain x where x: "?p ''executor'' STAKEHOLDER_RESOLVED = Some x" "rr_role_id x = picked_id q ''executor''" by (rule role_given [OF assms(2) fields_in(3)])
  obtain l where l: "?p ''escalation'' STAKEHOLDER_RESOLVED = Some l" "rr_role_id l = picked_id q ''escalation''" by (rule role_given [OF assms(2) fields_in(4)])
  assume owner: "sc_asset_owner sc = ?p ''asset_owner'' STAKEHOLDER_RESOLVED"
    and executor: "sc_executor_roles sc = (case ?p ''executor'' STAKEHOLDER_RESOLVED of None \<Rightarrow> [] | Some x \<Rightarrow> [x])"
    and approver: "sc_approver_roles sc = approvers_of (needs_approval q) (sc_segregation_of_duties_required sc)
       (?p ''approver'' APPROVER_REQUIRED) (?p ''executor'' STAKEHOLDER_RESOLVED) (?p ''escalation'' STAKEHOLDER_RESOLVED)"
    and authority: "sc_execution_authority sc = execution_authority_of (needs_approval q) (sc_approver_roles sc) (?p ''executor'' STAKEHOLDER_RESOLVED)"
    and reasons: "set (sc_reason_codes sc) = set (reasons_of (needs_approval q) (py_upper (sq_classification q) \<in> set security_escalation_classifications)
       (sc_segregation_of_duties_required sc) (sc_asset_owner sc) (?p ''approver'' APPROVER_REQUIRED) (?p ''executor'' STAKEHOLDER_RESOLVED)
       (sc_execution_authority sc))"
    and unresolved: "sc_unresolved_fields sc = dict_fromkeys (snd (confidence_of (ids \<noteq> []) (sq_classification q \<noteq> [] \<or> explicit q \<noteq> [])
       (unresolved_of (needs_approval q) (sc_asset_owner sc) (?p ''approver'' APPROVER_REQUIRED) (sc_execution_authority sc))
       (sc_asset_owner sc \<noteq> None \<or> sc_control_owner sc \<noteq> None)))"
  have auth: "sc_execution_authority sc = Some x"
    unfolding authority approver x(1) a(1) l(1) approvers_given by (simp add: execution_authority_of_def)
  show ?thesis
  proof (rule that [OF _ _ auth _ a(2) x(2) l(2)])
    show "sc_unresolved_fields sc = (if sq_classification q = [] \<and> explicit q = [] then [''asset_owner''] else [])"
      unfolding unresolved auth owner o a by (simp add: unresolved_of_def confidence_of_def dict_fromkeys_def)
  qed (simp_all add: owner o executor x approver a l reasons auth)
qed

text \<open>
  C30. Separation of duties, exactly: when the values of the role fields have texts, there is one executor and it always holds the execution
  authority; where approval is needed there is one approver; approver and executor are the same role exactly when approval is needed, the
  chosen roles agree, and either separation is switched off or the escalation role is that role too.
\<close>

theorem segregation_of_duties_exact:
  assumes "resolve_stakeholders q = Inr sc" and "texts_given q"
  shows "\<exists>x. sc_executor_roles sc = [x] \<and> sc_execution_authority sc = Some x \<and> rr_role_id x = picked_id q ''executor'' \<and>
    length (sc_approver_roles sc) \<le> 1 \<and> (needs_approval q \<longrightarrow> sc_approver_roles sc \<noteq> []) \<and>
    (rr_role_id x \<in> rr_role_id ` set (sc_approver_roles sc) \<longleftrightarrow>
       needs_approval q \<and> picked_id q ''approver'' = picked_id q ''executor'' \<and>
       (\<not> truthy (dict_get_or (explicit q) ''segregation_of_duties_required'' (PyBool True)) \<or> picked_id q ''escalation'' = picked_id q ''executor''))"
proof (rule assignment [OF assms])
  fix a x l
  assume *: "sc_executor_roles sc = [x]" "sc_execution_authority sc = Some x"
    "sc_approver_roles sc = approvers_of (needs_approval q) (sc_segregation_of_duties_required sc) (Some a) (Some x) (Some l)"
    "rr_role_id a = picked_id q ''approver''" "rr_role_id x = picked_id q ''executor''" "rr_role_id l = picked_id q ''escalation''"
  show ?thesis unfolding *(3) approvers_given using * resolve_sod [OF assms(1)] by auto
qed

lemma sample_picks: "picked_id sample_stakeholder_request ''executor'' = ''ops''" "picked_id sample_stakeholder_request ''approver'' = ''ops''"
  "picked_id sample_stakeholder_request ''escalation'' = ''it_operations_lead''" "needs_approval sample_stakeholder_request" "texts_given sample_stakeholder_request"
  by code_simp+

theorem segregation_of_duties_exact_witness:
  "\<exists>sc x. resolve_stakeholders sample_stakeholder_request = Inr sc \<and> sc_executor_roles sc = [x] \<and> rr_role_id x = ''ops'' \<and> sc_approver_roles sc \<noteq> [] \<and>
     ''ops'' \<notin> rr_role_id ` set (sc_approver_roles sc)"
proof -
  obtain sc where sc: "resolve_stakeholders sample_stakeholder_request = Inr sc" using sample_resolved by blast
  have "truthy (dict_get_or (explicit sample_stakeholder_request) ''segregation_of_duties_required'' (PyBool True))" by code_simp
  then show ?thesis using segregation_of_duties_exact [OF sc sample_picks(5)] sc sample_picks by auto
qed

text \<open>
  What is unresolved: with texts for the role fields, the owner is reported as unresolved exactly without classification and configuration, although
  its role is set; the reasons for a missing owner or authority are never given.
\<close>

theorem unresolved_exact:
  assumes "resolve_stakeholders q = Inr sc" and "texts_given q"
  shows "sc_unresolved_fields sc = (if sq_classification q = [] \<and> explicit q = [] then [''asset_owner''] else []) \<and>
    sc_asset_owner sc \<noteq> None \<and> OWNER_UNRESOLVED \<notin> set (sc_reason_codes sc) \<and> EXECUTION_AUTHORITY_MISSING \<notin> set (sc_reason_codes sc) \<and>
    (APPROVER_REQUIRED \<in> set (sc_reason_codes sc) \<longleftrightarrow> needs_approval q)"
  by (rule assignment [OF assms]) (simp add: reasons_of_def)

section \<open>Observations\<close>

text \<open>When approver, executor and escalation are one role, the separation is required, reported and not kept.\<close>

lemma separation_not_kept:
  "\<exists>sc a x. resolve_stakeholders (sample_stakeholder_request\<lparr>sq_config := [(''approver'', PyStr ''ops''), (''executor'', PyStr ''ops''), (''escalation'', PyStr ''ops'')]\<rparr>) = Inr sc \<and>
     sc_segregation_of_duties_required sc \<and> sc_approver_roles sc = [a] \<and> sc_execution_authority sc = Some x \<and> rr_role_id a = rr_role_id x"
proof -
  let ?q = "sample_stakeholder_request\<lparr>sq_config := [(''approver'', PyStr ''ops''), (''executor'', PyStr ''ops''), (''escalation'', PyStr ''ops'')]\<rparr>"
  have cfg: "configured_identities (explicit ?q) = Inr []" "truthy (dict_get_or (explicit ?q) ''segregation_of_duties_required'' (PyBool True))"
    "needs_approval ?q" "texts_given ?q" "picked_id ?q ''approver'' = ''ops''" "picked_id ?q ''executor'' = ''ops''" "picked_id ?q ''escalation'' = ''ops''"
    by code_simp+
  then obtain sc where sc: "resolve_stakeholders ?q = Inr sc" by (simp add: resolve_stakeholders_def Let_def split_beta)
  have sod: "sc_segregation_of_duties_required sc" using cfg(2) unfolding resolve_sod [OF sc] .
  show ?thesis by (rule assignment [OF sc cfg(4)]) (use sc sod cfg in \<open>auto simp: approvers_given\<close>)
qed

text \<open>A blank before the classification keeps the security roles and drops the security escalation.\<close>

lemma padded_classification_not_escalated:
  "role_of (map_for_classification '' POSSIBLE_MITM_RISK'') ''escalation'' = ''security_incident_manager'' \<and>
   py_upper '' POSSIBLE_MITM_RISK'' \<notin> set security_escalation_classifications"
  by code_simp

text \<open>The fingerprint of the inputs leaves out the asset data, which decide roles.\<close>

lemma stakeholder_fingerprint_ignores_assets:
  "resolve_stakeholders q = Inr sc \<Longrightarrow> resolve_stakeholders (q\<lparr>sq_evidence_summary := e\<rparr>) = Inr sc' \<Longrightarrow> sc_inputs_fingerprint sc = sc_inputs_fingerprint sc'"
  by (cases "configured_identities (explicit q)") (auto simp: resolve_stakeholders_def Let_def split_beta needs_approval_def)

end
