(* ===== verification/Timing.thy ===== *)
theory Timing
  imports Sha256 Py_Values
begin

text \<open>
  Timing of remediation, \<open>src/platform_core/timing/{models,sla,windows,evaluator}.py\<close>: due times by urgency, local business hours and
  maintenance windows, and the decision when to act. An aware \<open>datetime\<close> is its instant, an integer number of microseconds since the
  year 1 in UTC; a zone gives its offset at an instant and at a wall time, as \<open>zoneinfo\<close> does. Parameters are the zone data base, the ISO
  parser and the clock. The lemmas give the exact order of precedence of the decisions and the correctness of the search for the next window.
\<close>

section \<open>Instants and zones\<close>

definition day_us :: int where
  "day_us = 86400 * 1000000"

definition hour_us :: int where
  "hour_us = 3600 * 1000000"

record zone =
  zo_key :: string
  zo_at :: "int \<Rightarrow> int"
  zo_wall :: "int \<Rightarrow> int"

datatype zone_lookup = Zone_Found zone | Zone_Not_Found | Zone_Error py_error

definition utc_zone :: zone where
  "utc_zone = \<lparr>zo_key = ''UTC'', zo_at = (\<lambda>u. 0), zo_wall = (\<lambda>w. 0)\<rparr>"

text \<open>The calendar date of a day number (day 0 is Monday, 1 January of the year 1), as \<open>datetime\<close> computes it.\<close>

definition days_before_month :: "int list" where
  "days_before_month = [-1, 0, 31, 59, 90, 120, 151, 181, 212, 243, 273, 304, 334]"

definition days_in_month :: "int list" where
  "days_in_month = [-1, 31, 28, 31, 30, 31, 30, 31, 31, 30, 31, 30, 31]"

definition month_day :: "bool \<Rightarrow> int \<Rightarrow> int \<times> int" where
  "month_day leap n =
     (let month = (n + 50) div 32;
          preceding = days_before_month ! nat month + (if month > 2 \<and> leap then 1 else 0)
      in if preceding > n
         then (month - 1, n - (preceding - (days_in_month ! nat (month - 1) + (if month - 1 = 2 \<and> leap then 1 else 0))) + 1)
         else (month, n - preceding + 1))"

definition ord2ymd :: "int \<Rightarrow> int \<times> int \<times> int" where
  "ord2ymd n =
     (let n400 = n div 146097; r400 = n mod 146097; n100 = r400 div 36524; r100 = r400 mod 36524; n4 = r100 div 1461; r4 = r100 mod 1461;
          n1 = r4 div 365; r1 = r4 mod 365; year = n400 * 400 + 1 + n100 * 100 + n4 * 4 + n1
      in if n1 = 4 \<or> n100 = 4 then (year - 1, 12, 31)
         else let (m, d) = month_day (n1 = 3 \<and> (n4 \<noteq> 24 \<or> n100 = 3)) r1 in (year, m, d))"

definition pad2 :: "int \<Rightarrow> string" where
  "pad2 n = (if n < 10 then ''0'' @ int_str n else int_str n)"

definition pad4 :: "int \<Rightarrow> string" where
  "pad4 n = (let t = int_str n in replicate (4 - length t) (CHR ''0'') @ t)"

definition format_utc :: "int \<Rightarrow> string" where
  "format_utc u =
     (let (y, m, d) = ord2ymd (u div day_us); t = (u mod day_us) div 1000000
      in pad4 y @ ''-'' @ pad2 m @ ''-'' @ pad2 d @ ''T'' @ pad2 (t div 3600) @ '':'' @ pad2 (t div 60 mod 60) @ '':'' @ pad2 (t mod 60) @ ''Z'')"

section \<open>Windows\<close>

definition resolve_tz :: "(string \<Rightarrow> zone_lookup) \<Rightarrow> string option \<Rightarrow> zone py_result" where
  "resolve_tz zones tz_name =
     (let n0 = py_strip (case tz_name of None \<Rightarrow> ''UTC'' | Some t \<Rightarrow> if t = [] then ''UTC'' else t); name = (if n0 = [] then ''UTC'' else n0)
      in case zones name of
           Zone_Found z \<Rightarrow> Inr z
         | Zone_Error e \<Rightarrow> Inl e
         | Zone_Not_Found \<Rightarrow>
             (case zones ''UTC'' of Zone_Found z \<Rightarrow> Inr z | Zone_Error e \<Rightarrow> Inl e | Zone_Not_Found \<Rightarrow> Inl (KeyError ''No time zone found with key UTC'')))"

text \<open>The parser returns the wall time and, for an aware text, its offset.\<close>

definition parse_utc :: "(string \<Rightarrow> (int \<times> int option) option) \<Rightarrow> string \<Rightarrow> int py_result" where
  "parse_utc fromiso iso_text =
     (let raw = py_replace_str (CHR ''Z'') ''+00:00'' (py_strip iso_text)
      in case fromiso raw of
           None \<Rightarrow> Inl (ValueError (''Invalid isoformat string: '' @ py_repr_str raw))
         | Some (wall, None) \<Rightarrow> Inr wall
         | Some (wall, Some off) \<Rightarrow> Inr (wall - off))"

definition to_local :: "int \<Rightarrow> zone \<Rightarrow> int" where
  "to_local u z = u + zo_at z u"

definition weekday :: "int \<Rightarrow> int" where
  "weekday wall = (wall div day_us) mod 7"

definition clock_time :: "int \<Rightarrow> int" where
  "clock_time wall = wall mod day_us"

definition work_days :: "int list" where
  "work_days = [0, 1, 2, 3, 4]"

definition is_business_hours :: "int \<Rightarrow> zone \<Rightarrow> int \<Rightarrow> int \<Rightarrow> int list option \<Rightarrow> bool" where
  "is_business_hours u z start finish weekdays =
     (let days = (case weekdays of None \<Rightarrow> work_days | Some ds \<Rightarrow> ds); wall = to_local u z
      in if weekday wall \<notin> set days then False else start \<le> clock_time wall \<and> clock_time wall < finish)"

definition in_named_window :: "int \<Rightarrow> zone \<Rightarrow> int \<Rightarrow> int \<Rightarrow> int list option \<Rightarrow> bool" where
  "in_named_window u z start finish weekdays = is_business_hours u z start finish weekdays"

text \<open>The instant of a wall time on the given day.\<close>

definition combine :: "zone \<Rightarrow> int \<Rightarrow> int \<Rightarrow> int" where
  "combine z d start = (let wall = d * day_us + start in wall - zo_wall z wall)"

fun first_window :: "zone \<Rightarrow> int \<Rightarrow> int list \<Rightarrow> int \<Rightarrow> int \<Rightarrow> int list \<Rightarrow> int option" where
  "first_window z start days now today [] = None"
| "first_window z start days now today (k # ks) =
     (if (today + k) mod 7 \<notin> set days then first_window z start days now today ks
      else if combine z (today + k) start > now then Some (combine z (today + k) start)
      else first_window z start days now today ks)"

definition next_window_start_utc :: "int \<Rightarrow> zone \<Rightarrow> int \<Rightarrow> int list option \<Rightarrow> int" where
  "next_window_start_utc u z start weekdays =
     (let days = (case weekdays of None \<Rightarrow> [0, 1, 2, 3, 4, 5, 6] | Some ds \<Rightarrow> ds); today = to_local u z div day_us
      in case first_window z start days u today [0, 1, 2, 3, 4, 5, 6, 7] of
           Some w \<Rightarrow> w
         | None \<Rightarrow> combine z (today + 1) start)"

section \<open>Due times\<close>

datatype urgency = U_LOW | U_MEDIUM | U_HIGH | U_CRITICAL

fun urgency_value :: "urgency \<Rightarrow> string" where
  "urgency_value U_LOW = ''low''"
| "urgency_value U_MEDIUM = ''medium''"
| "urgency_value U_HIGH = ''high''"
| "urgency_value U_CRITICAL = ''critical''"

fun default_sla_hours :: "urgency \<Rightarrow> rat" where
  "default_sla_hours U_LOW = 72"
| "default_sla_hours U_MEDIUM = 24"
| "default_sla_hours U_HIGH = 8"
| "default_sla_hours U_CRITICAL = 2"

fun default_evidence_ttl_hours :: "urgency \<Rightarrow> rat" where
  "default_evidence_ttl_hours U_LOW = 168"
| "default_evidence_ttl_hours U_MEDIUM = 48"
| "default_evidence_ttl_hours U_HIGH = 24"
| "default_evidence_ttl_hours U_CRITICAL = 12"

text \<open>\<open>timedelta(hours=h)\<close> in microseconds.\<close>

definition timedelta_hours :: "rat \<Rightarrow> int" where
  "timedelta_hours h = round_half_even (h * of_int hour_us)"

definition sla_due_utc :: "int \<Rightarrow> urgency \<Rightarrow> rat option \<Rightarrow> int" where
  "sla_due_utc detected u hours = detected + timedelta_hours (case hours of Some h \<Rightarrow> h | None \<Rightarrow> default_sla_hours u)"

definition evidence_expires_utc :: "int \<Rightarrow> urgency \<Rightarrow> rat option \<Rightarrow> int" where
  "evidence_expires_utc detected u hours = detected + timedelta_hours (case hours of Some h \<Rightarrow> h | None \<Rightarrow> default_evidence_ttl_hours u)"

section \<open>Evaluator\<close>

datatype timing_decision =
    READY | ESCALATE_NOW | MONITOR_UNTIL | DEFERRED_TO_WINDOW | BLOCKED_BY_CHANGE_FREEZE | EVIDENCE_EXPIRED | SLA_OVERDUE

datatype timing_reason =
    WITHIN_SLA | SLA_BREACHED | EVIDENCE_VALID | EVIDENCE_STALE | IN_MAINTENANCE_WINDOW | OUTSIDE_MAINTENANCE_WINDOW
  | CHANGE_FREEZE_ACTIVE | BUSINESS_HOURS | AFTER_HOURS | HIGH_URGENCY_ESCALATION | RETRY_AFTER_SET

definition all_urgencies :: "urgency list" where
  "all_urgencies = [U_LOW, U_MEDIUM, U_HIGH, U_CRITICAL]"

definition urgency_from :: "string \<Rightarrow> string \<Rightarrow> pyval \<Rightarrow> urgency" where
  "urgency_from classification policy_outcome explicit =
     (case (if truthy explicit then find (\<lambda>u. urgency_value u = py_lower (py_str explicit)) all_urgencies else None) of
        Some u \<Rightarrow> u
      | None \<Rightarrow>
          (let cls = py_upper classification
           in if cls \<in> {''POSSIBLE_MITM_RISK'', ''UNKNOWN_LOCAL_PROXY''} then U_HIGH
              else if cls \<in> {''DEAD_PROXY_CONFIG''} then U_HIGH
              else if py_upper policy_outcome \<in> {''BLOCK'', ''BLOCK_DESTRUCTIVE''} then U_MEDIUM
              else U_MEDIUM))"

definition timing_fingerprint :: "pydict \<Rightarrow> string" where
  "timing_fingerprint payload = take 16 (sha256_hexdigest (json_text True '', '' '': '' (PyDict payload)))"

record timing_request =
  tq_case_id :: string
  tq_detected_at_utc :: string
  tq_evaluated_at_utc :: "string option"
  tq_timezone_name :: "string option"
  tq_classification :: string
  tq_policy_outcome :: string
  tq_urgency :: "string option"
  tq_maintenance_window_required :: bool
  tq_change_freeze_active :: bool
  tq_retry_after_utc :: "string option"
  tq_sla_hours :: "rat option"
  tq_evidence_ttl_hours :: "rat option"
  tq_business_hours_start :: int
  tq_business_hours_end :: int
  tq_maintenance_start :: int
  tq_maintenance_end :: int
  tq_config :: pydict

record timing_context =
  tx_case_id :: string
  tx_detected_at_utc :: string
  tx_evaluated_at_utc :: string
  tx_timezone :: string
  tx_urgency :: urgency
  tx_action_window_start_utc :: "string option"
  tx_sla_due_utc :: string
  tx_evidence_expires_utc :: string
  tx_retry_after_utc :: "string option"
  tx_maintenance_window_required :: bool
  tx_in_maintenance_window :: "bool option"
  tx_change_freeze_active :: bool
  tx_business_hours :: bool
  tx_decision :: timing_decision
  tx_reason_codes :: "timing_reason list"
  tx_inputs_fingerprint :: string

text \<open>The maintenance window may wrap around midnight.\<close>

definition in_maintenance :: "int \<Rightarrow> int \<Rightarrow> int \<Rightarrow> bool" where
  "in_maintenance start finish t = (if start \<le> finish then start \<le> t \<and> t < finish else t \<ge> start \<or> t < finish)"

text \<open>The cascade of \<open>evaluate\<close> on decision and reasons; \<open>retry\<close> is absent, unparsable or the instant to wait for.\<close>

definition evidence_step :: "bool \<Rightarrow> timing_decision \<times> timing_reason list" where
  "evidence_step expired = (if expired then (EVIDENCE_EXPIRED, [EVIDENCE_STALE]) else (READY, [EVIDENCE_VALID]))"

definition sla_step :: "bool \<Rightarrow> timing_decision \<times> timing_reason list \<Rightarrow> timing_decision \<times> timing_reason list" where
  "sla_step overdue s =
     (case s of (d, rs) \<Rightarrow>
        if overdue \<and> d \<noteq> EVIDENCE_EXPIRED then (SLA_OVERDUE, rs @ [SLA_BREACHED])
        else if d \<notin> {EVIDENCE_EXPIRED} then (d, rs @ [WITHIN_SLA]) else (d, rs))"

definition freeze_step :: "bool \<Rightarrow> urgency \<Rightarrow> timing_decision \<times> timing_reason list \<Rightarrow> timing_decision \<times> timing_reason list" where
  "freeze_step freeze u s =
     (case s of (d, rs) \<Rightarrow>
        if freeze \<and> d \<in> {READY, DEFERRED_TO_WINDOW, MONITOR_UNTIL}
        then (if u \<in> {U_HIGH, U_CRITICAL} then (ESCALATE_NOW, rs @ [HIGH_URGENCY_ESCALATION, CHANGE_FREEZE_ACTIVE])
              else (BLOCKED_BY_CHANGE_FREEZE, rs @ [CHANGE_FREEZE_ACTIVE]))
        else (d, rs))"

definition window_step :: "bool \<Rightarrow> bool option \<Rightarrow> timing_decision \<times> timing_reason list \<Rightarrow> timing_decision \<times> timing_reason list" where
  "window_step required in_maint s =
     (case s of (d, rs) \<Rightarrow>
        if required \<and> in_maint = Some False \<and> d \<in> {READY, MONITOR_UNTIL} then (DEFERRED_TO_WINDOW, rs @ [OUTSIDE_MAINTENANCE_WINDOW])
        else if required \<and> in_maint = Some True then (d, rs @ [IN_MAINTENANCE_WINDOW]) else (d, rs))"

definition urgency_step :: "urgency \<Rightarrow> bool \<Rightarrow> timing_decision \<times> timing_reason list \<Rightarrow> timing_decision \<times> timing_reason list" where
  "urgency_step u biz s =
     (case s of (d, rs) \<Rightarrow>
        if u \<in> {U_HIGH, U_CRITICAL} \<and> d = READY
        then (if \<not> biz then (ESCALATE_NOW, rs @ [HIGH_URGENCY_ESCALATION, AFTER_HOURS])
              else (if u = U_CRITICAL then ESCALATE_NOW else d, rs @ [BUSINESS_HOURS, HIGH_URGENCY_ESCALATION]))
        else (d, rs))"

definition retry_step :: "int \<Rightarrow> int py_result option \<Rightarrow> timing_decision \<times> timing_reason list \<Rightarrow> timing_decision \<times> timing_reason list" where
  "retry_step now retry s =
     (case s of (d, rs) \<Rightarrow>
        (case retry of
           None \<Rightarrow> (d, rs)
         | Some (Inl e) \<Rightarrow> (d, rs @ [RETRY_AFTER_SET])
         | Some (Inr ra) \<Rightarrow> (if now < ra \<and> d = READY then MONITOR_UNTIL else d, rs @ [RETRY_AFTER_SET])))"

definition hours_step :: "bool \<Rightarrow> timing_decision \<times> timing_reason list \<Rightarrow> timing_decision \<times> timing_reason list" where
  "hours_step biz s =
     (case s of (d, rs) \<Rightarrow>
        if biz then (if BUSINESS_HOURS \<notin> set rs \<and> AFTER_HOURS \<notin> set rs then (d, rs @ [BUSINESS_HOURS]) else (d, rs))
        else if AFTER_HOURS \<notin> set rs then (d, rs @ [AFTER_HOURS]) else (d, rs))"

definition timing_cascade ::
  "bool \<Rightarrow> bool \<Rightarrow> bool \<Rightarrow> urgency \<Rightarrow> bool \<Rightarrow> bool option \<Rightarrow> bool \<Rightarrow> int \<Rightarrow> int py_result option \<Rightarrow> timing_decision \<times> timing_reason list" where
  "timing_cascade expired overdue freeze u required in_maint biz now retry =
     hours_step biz (retry_step now retry (urgency_step u biz (window_step required in_maint (freeze_step freeze u
       (sla_step overdue (evidence_step expired))))))"

definition py_or_text :: "string option \<Rightarrow> pyval \<Rightarrow> pyval" where
  "py_or_text a b = (case a of Some t \<Rightarrow> if t \<noteq> [] then PyStr t else b | None \<Rightarrow> b)"

definition evaluate_timing ::
  "(string \<Rightarrow> zone_lookup) \<Rightarrow> (string \<Rightarrow> (int \<times> int option) option) \<Rightarrow> int \<Rightarrow> timing_request \<Rightarrow> timing_context py_result" where
  "evaluate_timing zones fromiso clock q =
     (let cfg = tq_config q;
          tz_name = py_or (py_or_text (tq_timezone_name q) (dict_get cfg ''timezone'')) (PyStr ''UTC'')
      in bind_r (resolve_tz zones (Some (py_str tz_name))) (\<lambda>z.
         bind_r (parse_utc fromiso (tq_detected_at_utc q)) (\<lambda>detected.
         bind_r (case tq_evaluated_at_utc q of Some t \<Rightarrow> if t \<noteq> [] then parse_utc fromiso t else Inr clock | None \<Rightarrow> Inr clock) (\<lambda>now.
           let u = urgency_from (tq_classification q) (tq_policy_outcome q) (py_or_text (tq_urgency q) (dict_get cfg ''urgency''));
               required = (if has_key cfg ''maintenance_window_required'' then truthy (dict_get cfg ''maintenance_window_required'')
                           else tq_maintenance_window_required q);
               freeze = (if has_key cfg ''change_freeze_active'' then truthy (dict_get cfg ''change_freeze_active'') else tq_change_freeze_active q);
               sla_due = sla_due_utc detected u (tq_sla_hours q);
               evidence_exp = evidence_expires_utc detected u (tq_evidence_ttl_hours q);
               biz = is_business_hours now z (tq_business_hours_start q) (tq_business_hours_end q) None;
               in_maint = (if required then Some (in_maintenance (tq_maintenance_start q) (tq_maintenance_end q) (clock_time (to_local now z))) else None);
               action_start = (if in_maint = Some False then Some (format_utc (next_window_start_utc now z (tq_maintenance_start q) None)) else None);
               retry = (case tq_retry_after_utc q of Some t \<Rightarrow> if t \<noteq> [] then Some (parse_utc fromiso t) else None | None \<Rightarrow> None);
               (decision, reasons) = timing_cascade (now \<ge> evidence_exp) (now \<ge> sla_due) freeze u required in_maint biz now retry;
               fp = timing_fingerprint
                 [(''case_id'', PyStr (tq_case_id q)), (''detected_at_utc'', PyStr (format_utc detected)),
                  (''evaluated_at_utc'', PyStr (format_utc now)), (''timezone'', PyStr (zo_key z)), (''urgency'', PyStr (urgency_value u)),
                  (''classification'', PyStr (tq_classification q)), (''maintenance_window_required'', PyBool required),
                  (''change_freeze_active'', PyBool freeze), (''retry_after_utc'', optional_text (tq_retry_after_utc q))]
           in Inr \<lparr>tx_case_id = tq_case_id q, tx_detected_at_utc = format_utc detected, tx_evaluated_at_utc = format_utc now,
                   tx_timezone = zo_key z, tx_urgency = u, tx_action_window_start_utc = action_start, tx_sla_due_utc = format_utc sla_due,
                   tx_evidence_expires_utc = format_utc evidence_exp, tx_retry_after_utc = tq_retry_after_utc q,
                   tx_maintenance_window_required = required, tx_in_maintenance_window = in_maint, tx_change_freeze_active = freeze,
                   tx_business_hours = biz, tx_decision = decision, tx_reason_codes = dict_fromkeys reasons, tx_inputs_fingerprint = fp\<rparr>))))"

section \<open>The order of precedence\<close>

lemmas cascade_defs = timing_cascade_def hours_step_def retry_step_def urgency_step_def window_step_def freeze_step_def sla_step_def evidence_step_def

definition timing_rule :: "bool \<Rightarrow> bool \<Rightarrow> bool \<Rightarrow> urgency \<Rightarrow> bool \<Rightarrow> bool \<Rightarrow> bool \<Rightarrow> timing_decision" where
  "timing_rule expired overdue freeze u outside biz pending =
     (if expired then EVIDENCE_EXPIRED else if overdue then SLA_OVERDUE
      else if freeze then (if u \<in> {U_HIGH, U_CRITICAL} then ESCALATE_NOW else BLOCKED_BY_CHANGE_FREEZE)
      else if outside then DEFERRED_TO_WINDOW
      else if u = U_CRITICAL \<or> (u = U_HIGH \<and> \<not> biz) then ESCALATE_NOW
      else if pending then MONITOR_UNTIL else READY)"

lemma cascade_decision:
  "fst (timing_cascade expired overdue freeze u required in_maint biz now retry) =
     timing_rule expired overdue freeze u (required \<and> in_maint = Some False) biz (\<exists>ra. retry = Some (Inr ra) \<and> now < ra)"
proof -
  define s where "s = urgency_step u biz (window_step required in_maint (freeze_step freeze u (sla_step overdue (evidence_step expired))))"
  obtain d rs where s: "s = (d, rs)" by fastforce
  have "fst s = timing_rule expired overdue freeze u (required \<and> in_maint = Some False) biz False"
    unfolding s_def urgency_step_def window_step_def freeze_step_def sla_step_def evidence_step_def timing_rule_def
    by (cases expired; cases overdue; cases freeze; cases u) auto
  then have d: "d = timing_rule expired overdue freeze u (required \<and> in_maint = Some False) biz False" by (simp add: s)
  define pending where "pending = (\<exists>ra. retry = Some (Inr ra) \<and> now < ra)"
  have "fst (hours_step biz (retry_step now retry s)) = (if d = READY \<and> pending then MONITOR_UNTIL else d)"
    by (auto simp: s pending_def hours_step_def retry_step_def split: option.split sum.split)
  then show ?thesis unfolding timing_cascade_def s_def [symmetric] d pending_def [symmetric] by (auto simp: timing_rule_def)
qed

text \<open>Reasons accumulate: whether it is business time is always among them, and an escalation is always explained.\<close>

lemma cascade_hours:
  "AFTER_HOURS \<in> set (snd (hours_step False s))" "BUSINESS_HOURS \<in> set (snd (hours_step True s)) \<or> AFTER_HOURS \<in> set (snd s)"
  by (auto simp: hours_step_def split: prod.split)

section \<open>The search for the next window\<close>

lemma first_window_find:
  "first_window z start days now today ks =
     map_option (\<lambda>k. combine z (today + k) start) (find (\<lambda>k. (today + k) mod 7 \<in> set days \<and> combine z (today + k) start > now) ks)"
  by (induction ks) auto

definition fixed_zone :: "int \<Rightarrow> zone \<Rightarrow> bool" where
  "fixed_zone off z \<longleftrightarrow> zo_at z = (\<lambda>u. off) \<and> zo_wall z = (\<lambda>w. off)"

lemma combine_fixed: "fixed_zone off z \<Longrightarrow> combine z d start = d * day_us + start - off"
  by (simp add: combine_def fixed_zone_def Let_def)

lemma day_us_pos [simp]: "0 < day_us"
  by (simp add: day_us_def)

text \<open>The instants at which the local clock shows the start are the combinations of a day with it.\<close>

lemma at_start_iff:
  assumes "fixed_zone off z" and "0 \<le> start" "start < day_us"
  shows "clock_time (to_local v z) = start \<longleftrightarrow> v = combine z (to_local v z div day_us) start"
proof -
  have l: "to_local v z = v + off" using assms(1) by (simp add: to_local_def fixed_zone_def)
  have "v + off = (v + off) div day_us * day_us + (v + off) mod day_us" by simp
  then show ?thesis unfolding combine_fixed [OF assms(1)] clock_time_def l by linarith
qed

lemma combine_local:
  assumes "fixed_zone off z" and "0 \<le> start" "start < day_us"
  shows "to_local (combine z d start) z div day_us = d" "clock_time (to_local (combine z d start) z) = start"
proof -
  have "to_local (combine z d start) z = start + d * day_us"
    using assms(1) by (simp add: combine_fixed to_local_def) (simp add: fixed_zone_def)
  then show "to_local (combine z d start) z div day_us = d" "clock_time (to_local (combine z d start) z) = start"
    using assms(2,3) by (simp_all add: clock_time_def)
qed

lemma find_first_index:
  assumes "find q [0, 1, 2, 3, 4, 5, 6, 7] = Some (k :: int)"
  shows "q k \<and> 0 \<le> k \<and> k \<le> 7 \<and> (\<forall>j. 0 \<le> j \<longrightarrow> j < k \<longrightarrow> \<not> q j)"
proof -
  have "[0, 1, 2, 3, 4, 5, 6, 7] = [0..7 :: int]" by code_simp
  then obtain i where "i < length [0..7 :: int]" "q ([0..7] ! i)" "k = [0..7] ! i" "\<forall>j<i. \<not> q ([0..7] ! j)"
    using assms by (auto simp: find_Some_iff)
  then have i: "i < 8" "q k" "k = int i" "\<forall>j<i. \<not> q (int j)" by (auto simp: nth_upto)
  have "\<not> q j" if "0 \<le> j" "j < k" for j using i(3,4) that by (metis zero_le_imp_eq_int of_nat_less_iff)
  with i show ?thesis by auto
qed

lemma weekday_ahead:
  fixes w t :: int
  assumes "0 \<le> w" "w \<le> 6"
  shows "\<exists>k. 1 \<le> k \<and> k \<le> 7 \<and> (t + k) mod 7 = w"
proof (intro exI conjI)
  have "0 \<le> (w - t - 1) mod 7" "(w - t - 1) mod 7 < 7" by simp_all
  then show "1 \<le> 1 + (w - t - 1) mod 7" "1 + (w - t - 1) mod 7 \<le> 7" by linarith+
  have "(t + (1 + (w - t - 1) mod 7)) mod 7 = (t + 1 + (w - t - 1)) mod 7" by (metis add.assoc mod_add_right_eq)
  then show "(t + (1 + (w - t - 1) mod 7)) mod 7 = w" using assms by simp
qed

lemma next_window_found:
  assumes z: "fixed_zone off z" and start: "0 \<le> start" "start < day_us" and days: "set days \<inter> {0..6} \<noteq> {}"
    and today: "today = to_local u z div day_us"
  shows "\<exists>k. next_window_start_utc u z start (Some days) = combine z (today + k) start \<and>
     ((today + k) mod 7 \<in> set days \<and> combine z (today + k) start > u) \<and>
     (\<forall>j. 0 \<le> j \<longrightarrow> j < k \<longrightarrow> \<not> ((today + j) mod 7 \<in> set days \<and> combine z (today + j) start > u))"
proof -
  define q where "q = (\<lambda>k. (today + k) mod 7 \<in> set days \<and> combine z (today + k) start > u)"
  have local0: "to_local u z = u + off" using z by (simp add: to_local_def fixed_zone_def)
  have "(u + off) div day_us * day_us + (u + off) mod day_us = u + off" "(u + off) mod day_us < day_us" by simp_all
  then have before: "u + off < (today + 1) * day_us" unfolding today local0 by (simp only: distrib_right mult_1)
  from days obtain w where w: "w \<in> set days" "0 \<le> w" "w \<le> 6" by auto
  then obtain k0 where k0: "1 \<le> k0" "k0 \<le> 7" "(today + k0) mod 7 = w" using weekday_ahead by blast
  have "(today + 1) * day_us \<le> (today + k0) * day_us" using k0(1) by (intro mult_right_mono) (simp_all add: day_us_def)
  then have "u < combine z (today + k0) start" unfolding combine_fixed [OF z] using before start(1) by linarith
  then have "q k0" using w(1) k0(3) by (simp add: q_def)
  moreover have "k0 \<in> set [0, 1, 2, 3, 4, 5, 6, 7]" using k0(1,2) by auto
  ultimately have "find q [0, 1, 2, 3, 4, 5, 6, 7] \<noteq> None" unfolding find_None_iff by blast
  then obtain k where k: "find q [0, 1, 2, 3, 4, 5, 6, 7] = Some k" by blast
  then have "next_window_start_utc u z start (Some days) = combine z (today + k) start"
    by (simp only: next_window_start_utc_def Let_def option.case today [symmetric] first_window_find q_def [symmetric] option.map)
  with find_first_index [OF k] show ?thesis unfolding q_def by blast
qed

lemma next_window_least:
  assumes z: "fixed_zone off z" and start: "0 \<le> start" "start < day_us" and days: "set days \<inter> {0..6} \<noteq> {}"
    and r: "r = next_window_start_utc u z start (Some days)"
  shows "u < r \<and> clock_time (to_local r z) = start \<and> weekday (to_local r z) \<in> set days \<and>
    (\<forall>v. u < v \<longrightarrow> clock_time (to_local v z) = start \<longrightarrow> weekday (to_local v z) \<in> set days \<longrightarrow> r \<le> v)"
proof -
  define today where "today = to_local u z div day_us"
  have local0: "to_local u z = u + off" using z by (simp add: to_local_def fixed_zone_def)
  have "(u + off) div day_us * day_us + (u + off) mod day_us = u + off" "0 \<le> (u + off) mod day_us" by simp_all
  then have after: "today * day_us \<le> u + off" unfolding today_def local0 by linarith
  obtain k where k: "r = combine z (today + k) start" "(today + k) mod 7 \<in> set days" "combine z (today + k) start > u"
    "\<forall>j. 0 \<le> j \<longrightarrow> j < k \<longrightarrow> \<not> ((today + j) mod 7 \<in> set days \<and> combine z (today + j) start > u)"
    using next_window_found [OF z start days today_def] unfolding r by blast
  have least: "r \<le> v" if v: "u < v" "clock_time (to_local v z) = start" "weekday (to_local v z) \<in> set days" for v
  proof -
    define d where "d = to_local v z div day_us"
    have vd: "v = combine z d start" using at_start_iff [OF z start] v(2) by (simp add: d_def)
    have "today \<le> d"
    proof (rule ccontr)
      assume "\<not> today \<le> d"
      then have "d + 1 \<le> today" by simp
      then have "(d + 1) * day_us \<le> today * day_us" by (intro mult_right_mono) (simp_all add: day_us_def)
      then have "v < u" using after start(2) unfolding vd combine_fixed [OF z] by (simp only: distrib_right mult_1)
      with v(1) show False by simp
    qed
    moreover have "(today + (d - today)) mod 7 \<in> set days" using v(3) by (simp add: weekday_def d_def)
    moreover have "combine z (today + (d - today)) start > u" using v(1) vd by simp
    moreover have "\<not> (0 \<le> d - today \<and> d - today < k)" using calculation(2,3) k(4) by blast
    ultimately have "today + k \<le> d" by linarith
    then have "(today + k) * day_us \<le> d * day_us" by (intro mult_right_mono) (simp_all add: day_us_def)
    then show "r \<le> v" unfolding k(1) vd combine_fixed [OF z] by linarith
  qed
  have "weekday (to_local r z) = (today + k) mod 7" unfolding k(1) weekday_def combine_local(1) [OF z start] ..
  then show ?thesis using k(2,3) least combine_local(2) [OF z start, of "today + k"] unfolding k(1) [symmetric] by simp
qed

text \<open>
  In a zone whose offset varies by at most a day, as with daylight saving time, the search over all days still finds a later instant at the
  wanted wall time, at most nine days ahead.
\<close>

lemma next_window_later:
  assumes spread: "\<And>a w. \<bar>zo_wall z w - zo_at z a\<bar> \<le> day_us" and start: "0 \<le> start" "start < day_us"
  shows "u < next_window_start_utc u z start None \<and> next_window_start_utc u z start None \<le> u + 9 * day_us"
proof -
  define today where "today = to_local u z div day_us"
  define q where "q = (\<lambda>k. (today + k) mod 7 \<in> set [0, 1, 2, 3, 4, 5, 6] \<and> combine z (today + k) start > u)"
  have split: "today * day_us + to_local u z mod day_us = to_local u z" "0 \<le> to_local u z mod day_us" "to_local u z mod day_us < day_us"
    by (simp_all add: today_def)
  have gap: "combine z (today + k) start - u = k * day_us + start - to_local u z mod day_us + (zo_at z u - zo_wall z ((today + k) * day_us + start))" for k
    using split(1) by (simp add: combine_def to_local_def Let_def algebra_simps)
  have off: "- day_us \<le> zo_at z u - zo_wall z w \<and> zo_at z u - zo_wall z w \<le> day_us" for w using spread [of w u] by linarith
  have all: "m mod 7 \<in> set [0, 1, 2, 3, 4, 5, 6]" for m :: int
    using pos_mod_bound [of 7 m] pos_mod_sign [of 7 m] by (simp add: insert_iff) presburger
  have "u < combine z (today + 2) start" using gap [of 2] off [of "(today + 2) * day_us + start"] split(3) start(1) by linarith
  then have "q 2" unfolding q_def using all by blast
  then have "find q [0, 1, 2, 3, 4, 5, 6, 7] \<noteq> None" unfolding find_None_iff by (metis list.set_intros)
  then obtain k where k: "find q [0, 1, 2, 3, 4, 5, 6, 7] = Some k" by blast
  then have r: "next_window_start_utc u z start None = combine z (today + k) start"
    by (simp only: next_window_start_utc_def Let_def option.case today_def [symmetric] first_window_find q_def [symmetric] option.map)
  from find_first_index [OF k] have "q k" "k \<le> 7" by auto
  then have "k * day_us \<le> 7 * day_us" by (intro mult_right_mono) (simp_all add: day_us_def)
  then have "combine z (today + k) start \<le> u + 9 * day_us"
    using gap [of k] off [of "(today + k) * day_us + start"] split(2) start(2) by linarith
  with \<open>q k\<close> show ?thesis unfolding r q_def by blast
qed

section \<open>Properties\<close>

text \<open>
  C29. The decision of the evaluator is the first that applies of: evidence expired, due time passed, change freeze (escalated for high urgency,
  blocked otherwise), required maintenance window not open, escalation (critical, or high outside business hours), retry time not reached,
  ready. The maintenance flag, the start of the next window and the business hours are those of the local time of the evaluation.
\<close>

theorem timing_decision_exact:
  assumes "resolve_tz zones (Some (py_str (py_or (py_or_text (tq_timezone_name q) (dict_get (tq_config q) ''timezone'')) (PyStr ''UTC'')))) = Inr z"
    and "parse_utc fromiso (tq_detected_at_utc q) = Inr detected"
    and "tq_evaluated_at_utc q = Some t" and "t \<noteq> []" and "parse_utc fromiso t = Inr now"
  shows "\<exists>tx. evaluate_timing zones fromiso clock q = Inr tx \<and>
    tx_decision tx =
      timing_rule (evidence_expires_utc detected (tx_urgency tx) (tq_evidence_ttl_hours q) \<le> now)
        (sla_due_utc detected (tx_urgency tx) (tq_sla_hours q) \<le> now) (tx_change_freeze_active tx) (tx_urgency tx)
        (tx_in_maintenance_window tx = Some False) (tx_business_hours tx)
        (\<exists>r ra. tq_retry_after_utc q = Some r \<and> r \<noteq> [] \<and> parse_utc fromiso r = Inr ra \<and> now < ra) \<and>
    tx_in_maintenance_window tx =
      (if tx_maintenance_window_required tx
       then Some (in_maintenance (tq_maintenance_start q) (tq_maintenance_end q) (clock_time (to_local now z))) else None) \<and>
    tx_action_window_start_utc tx =
      (if tx_in_maintenance_window tx = Some False then Some (format_utc (next_window_start_utc now z (tq_maintenance_start q) None)) else None) \<and>
    tx_business_hours tx = (weekday (to_local now z) \<in> {0, 1, 2, 3, 4} \<and>
      tq_business_hours_start q \<le> clock_time (to_local now z) \<and> clock_time (to_local now z) < tq_business_hours_end q) \<and>
    tx_urgency tx = urgency_from (tq_classification q) (tq_policy_outcome q) (py_or_text (tq_urgency q) (dict_get (tq_config q) ''urgency'')) \<and>
    tx_change_freeze_active tx = (if has_key (tq_config q) ''change_freeze_active''
      then truthy (dict_get (tq_config q) ''change_freeze_active'') else tq_change_freeze_active q)"
proof -
  define u where "u = urgency_from (tq_classification q) (tq_policy_outcome q) (py_or_text (tq_urgency q) (dict_get (tq_config q) ''urgency''))"
  define required where "required = (if has_key (tq_config q) ''maintenance_window_required''
    then truthy (dict_get (tq_config q) ''maintenance_window_required'') else tq_maintenance_window_required q)"
  define in_maint where "in_maint =
    (if required then Some (in_maintenance (tq_maintenance_start q) (tq_maintenance_end q) (clock_time (to_local now z))) else None)"
  define retry where "retry = (case tq_retry_after_utc q of Some t \<Rightarrow> if t \<noteq> [] then Some (parse_utc fromiso t) else None | None \<Rightarrow> None)"
  have pend: "(\<exists>ra. retry = Some (Inr ra) \<and> now < ra) \<longleftrightarrow>
      (\<exists>r ra. tq_retry_after_utc q = Some r \<and> r \<noteq> [] \<and> parse_utc fromiso r = Inr ra \<and> now < ra)"
    by (auto simp: retry_def split: option.split)
  have out: "(required \<and> in_maint = Some False) = (in_maint = Some False)" by (auto simp: in_maint_def)
  have biz: "is_business_hours now z s f None = (weekday (to_local now z) \<in> {0, 1, 2, 3, 4} \<and> s \<le> clock_time (to_local now z) \<and>
      clock_time (to_local now z) < f)" for s f by (simp add: is_business_hours_def work_days_def Let_def)
  show ?thesis
    unfolding evaluate_timing_def Let_def assms(1-3,5) option.case bind_r.simps if_P [OF assms(4)]
      u_def [symmetric] required_def [symmetric] in_maint_def [symmetric] retry_def [symmetric] case_prod_beta cascade_decision out pend
    by (simp add: biz in_maint_def)
qed

definition sample_timing :: timing_request where
  "sample_timing =
     \<lparr>tq_case_id = [], tq_detected_at_utc = ''a'', tq_evaluated_at_utc = Some ''b'', tq_timezone_name = None, tq_classification = [], tq_policy_outcome = [],
      tq_urgency = Some ''critical'', tq_maintenance_window_required = False, tq_change_freeze_active = True, tq_retry_after_utc = None,
      tq_sla_hours = None, tq_evidence_ttl_hours = None, tq_business_hours_start = 9 * hour_us, tq_business_hours_end = 18 * hour_us,
      tq_maintenance_start = 22 * hour_us, tq_maintenance_end = 5 * hour_us, tq_config = []\<rparr>"

theorem timing_decision_exact_witness:
  "\<exists>tx. evaluate_timing (\<lambda>n. Zone_Found utc_zone) (\<lambda>s. Some (0, None)) 0 sample_timing = Inr tx \<and> tx_decision tx = ESCALATE_NOW"
proof -
  let ?f = "\<lambda>s. Some (0, None)"
  have z: "resolve_tz (\<lambda>n. Zone_Found utc_zone) (Some (py_str (py_or (py_or_text (tq_timezone_name sample_timing)
      (dict_get (tq_config sample_timing) ''timezone'')) (PyStr ''UTC'')))) = Inr utc_zone"
    by (simp add: resolve_tz_def Let_def)
  have t: "tq_evaluated_at_utc sample_timing = Some ''b''" by (simp add: sample_timing_def)
  have p: "parse_utc ?f s = Inr 0" for s by (simp add: parse_utc_def Let_def)
  have later: "0 < timedelta_hours 2" "0 < timedelta_hours 12"
    by (simp_all add: timedelta_hours_def round_half_even_def hour_us_def Let_def)
  have u: "urgency_from (tq_classification sample_timing) (tq_policy_outcome sample_timing)
      (py_or_text (tq_urgency sample_timing) (dict_get (tq_config sample_timing) ''urgency'')) = U_CRITICAL" by code_simp
  have freeze: "\<not> has_key (tq_config sample_timing) ''change_freeze_active''" "tq_change_freeze_active sample_timing"
    by (simp_all add: sample_timing_def has_key_def)
  from timing_decision_exact [OF z p t _ p, of 0] show ?thesis
    using later by (auto simp: u freeze timing_rule_def sla_due_utc_def evidence_expires_utc_def) (simp_all add: sample_timing_def)
qed

text \<open>
  The next maintenance window in a zone with a fixed offset: the result of the search is the least later instant whose local time is the
  start of the window and whose local weekday is allowed, for every non-empty choice of weekdays.
\<close>

theorem next_window_exact:
  assumes "fixed_zone off z" and "0 \<le> start" and "start < day_us" and "set days \<inter> {0..6} \<noteq> {}"
  shows "u < next_window_start_utc u z start (Some days) \<and>
    clock_time (to_local (next_window_start_utc u z start (Some days)) z) = start \<and>
    weekday (to_local (next_window_start_utc u z start (Some days)) z) \<in> set days \<and>
    (\<forall>v. u < v \<longrightarrow> clock_time (to_local v z) = start \<longrightarrow> weekday (to_local v z) \<in> set days \<longrightarrow>
       next_window_start_utc u z start (Some days) \<le> v) \<and>
    next_window_start_utc u z start None = next_window_start_utc u z start (Some [0, 1, 2, 3, 4, 5, 6])"
proof -
  have "next_window_start_utc u z start None = next_window_start_utc u z start (Some [0, 1, 2, 3, 4, 5, 6])"
    by (simp add: next_window_start_utc_def)
  then show ?thesis using next_window_least [OF assms refl] by blast
qed

theorem next_window_exact_witness:
  "0 < next_window_start_utc 0 utc_zone (22 * hour_us) (Some [5])"
  using next_window_exact [of 0 utc_zone "22 * hour_us" "[5]" 0] by (simp add: fixed_zone_def utc_zone_def hour_us_def day_us_def)

section \<open>What the code does not do\<close>

text \<open>Two evaluations that differ in the hours of the due time have the same fingerprint, whatever they decide.\<close>

lemma fingerprint_ignores_sla:
  assumes "evaluate_timing zones fromiso clock q = Inr x" and "evaluate_timing zones fromiso clock (q\<lparr>tq_sla_hours := s, tq_evidence_ttl_hours := e\<rparr>) = Inr y"
  shows "tx_inputs_fingerprint x = tx_inputs_fingerprint y"
  using assms unfolding evaluate_timing_def Let_def case_prod_beta by (auto simp: bind_r_Inr)

text \<open>A high urgency in business hours is reported as escalated and is not.\<close>

lemma escalation_reason_without_decision:
  "timing_cascade False False False U_HIGH False None True now None = (READY, [EVIDENCE_VALID, WITHIN_SLA, BUSINESS_HOURS, HIGH_URGENCY_ESCALATION])"
  by (simp add: cascade_defs)

text \<open>An empty choice of weekdays falls back to the next day.\<close>

lemma no_weekday_falls_back: "next_window_start_utc u z start (Some []) = combine z (to_local u z div day_us + 1) start"
  by (simp add: next_window_start_utc_def Let_def)

section \<open>The calendar\<close>

definition days_before_year :: "int \<Rightarrow> int" where
  "days_before_year y = (y - 1) * 365 + (y - 1) div 4 - (y - 1) div 100 + (y - 1) div 400"

definition is_leap :: "int \<Rightarrow> bool" where
  "is_leap y \<longleftrightarrow> y mod 4 = 0 \<and> (y mod 100 \<noteq> 0 \<or> y mod 400 = 0)"

definition ymd2ord :: "int \<times> int \<times> int \<Rightarrow> int" where
  "ymd2ord ymd =
     (case ymd of (y, m, d) \<Rightarrow> days_before_year y + days_before_month ! nat m + (if m > 2 \<and> is_leap y then 1 else 0) + d - 1)"

text \<open>Within a year: month and day of a day number give it back, for common and leap years.\<close>

lemma month_days:
  "list_all (\<lambda>n. case month_day False n of (m, d) \<Rightarrow> 1 \<le> m \<and> m \<le> 12 \<and> 1 \<le> d \<and> d \<le> 31 \<and> days_before_month ! nat m + d - 1 = n) [0..364]"
  "list_all (\<lambda>n. case month_day True n of (m, d) \<Rightarrow> 1 \<le> m \<and> m \<le> 12 \<and> 1 \<le> d \<and> d \<le> 31 \<and>
     days_before_month ! nat m + (if m > 2 then 1 else 0) + d - 1 = n) [0..365]"
  by code_simp+

lemma month_day_ord:
  assumes "0 \<le> n" and "n \<le> 364" and "month_day leap n = (m, d)"
  shows "1 \<le> m \<and> m \<le> 12 \<and> 1 \<le> d \<and> d \<le> 31 \<and> days_before_month ! nat m + (if m > 2 \<and> leap then 1 else 0) + d - 1 = n"
  using assms month_days by (cases leap) (force simp: list_all_iff)+

text \<open>The year of a day number in the cycle of 400 years.\<close>

lemma year_parts:
  fixes a b c d :: int
  assumes "0 \<le> b" "b \<le> 3" "0 \<le> c" "c \<le> 24" "0 \<le> d" "d \<le> 3"
  defines "y \<equiv> a * 400 + 1 + b * 100 + c * 4 + d"
  shows "days_before_year y = 146097 * a + 36524 * b + 1461 * c + 365 * d" and "is_leap y \<longleftrightarrow> d = 3 \<and> (c \<noteq> 24 \<or> b = 3)"
proof -
  have "(y - 1) div 4 = 100 * a + 25 * b + c" "(y - 1) div 100 = 4 * a + b" "(y - 1) div 400 = a"
    using assms(1-6) by (auto simp: y_def)
  then show "days_before_year y = 146097 * a + 36524 * b + 1461 * c + 365 * d" by (simp add: days_before_year_def y_def)
  have y: "y = (d + 1) + (100 * a + 25 * b + c) * 4" "y = (4 * c + d + 1) + (4 * a + b) * 100" "y = (100 * b + 4 * c + d + 1) + a * 400"
    by (simp_all add: y_def)
  have m: "y mod 4 = (d + 1) mod 4" "y mod 100 = (4 * c + d + 1) mod 100" "y mod 400 = (100 * b + 4 * c + d + 1) mod 400"
    by (subst y(1), simp only: mod_mult_self1) (subst y(2), simp only: mod_mult_self1, subst y(3), simp only: mod_mult_self1)
  have "(d + 1) mod 4 = 0 \<longleftrightarrow> d = 3" using assms(5,6) by presburger
  moreover have "(4 * c + 3 + 1) mod 100 = 0 \<longleftrightarrow> c = 24" using assms(3,4) by presburger
  moreover have "(100 * b + 4 * 24 + 3 + 1) mod 400 = 0 \<longleftrightarrow> b = 3" using assms(1,2) by presburger
  ultimately show "is_leap y \<longleftrightarrow> d = 3 \<and> (c \<noteq> 24 \<or> b = 3)" unfolding is_leap_def m by metis
qed

lemma ord2ymd_inverse: "ymd2ord (ord2ymd n) = n"
proof -
  define a r where "a = n div 146097" and "r = n mod 146097"
  define b r2 where "b = r div 36524" and "r2 = r mod 36524"
  define c r3 where "c = r2 div 1461" and "r3 = r2 mod 1461"
  define d r4 where "d = r3 div 365" and "r4 = r3 mod 365"
  have n: "n = 146097 * a + r" "r = 36524 * b + r2" "r2 = 1461 * c + r3" "r3 = 365 * d + r4"
    by (simp_all add: a_def r_def b_def r2_def c_def r3_def d_def r4_def)
  have bnd: "0 \<le> r" "r < 146097" "0 \<le> r2" "r2 < 36524" "0 \<le> r3" "r3 < 1461" "0 \<le> r4" "r4 < 365"
    by (simp_all add: r_def r2_def r3_def r4_def)
  have pos: "0 \<le> b" "b \<le> 4" "0 \<le> c" "c \<le> 24" "0 \<le> d" "d \<le> 4" using n bnd by linarith+
  show ?thesis
  proof (cases "d = 4 \<or> b = 4")
    case True
    then have "(d = 4 \<and> r4 = 0 \<and> b \<le> 3) \<or> (b = 4 \<and> c = 0 \<and> d = 0 \<and> r4 = 0)" using n bnd pos by linarith
    then show ?thesis
    proof
      assume d4: "d = 4 \<and> r4 = 0 \<and> b \<le> 3"
      then have c23: "c \<noteq> 24" using n bnd by linarith
      have "ord2ymd n = (a * 400 + 1 + b * 100 + c * 4 + 3, 12, 31)"
        using d4 by (simp add: ord2ymd_def Let_def a_def r_def b_def r2_def c_def r3_def d_def r4_def)
      then show ?thesis using year_parts [of b c 3 a] d4 c23 pos n by (simp add: ymd2ord_def days_before_month_def)
    next
      assume b4: "b = 4 \<and> c = 0 \<and> d = 0 \<and> r4 = 0"
      then have "ord2ymd n = (a * 400 + 1 + 3 * 100 + 24 * 4 + 3, 12, 31)"
        by (simp add: ord2ymd_def Let_def a_def r_def b_def r2_def c_def r3_def d_def r4_def)
      then show ?thesis using year_parts [of 3 24 3 a] b4 n by (simp add: ymd2ord_def days_before_month_def)
    qed
  next
    case False
    then have small: "b \<le> 3" "d \<le> 3" using pos by linarith+
    obtain m e where me: "month_day (d = 3 \<and> (c \<noteq> 24 \<or> b = 3)) r4 = (m, e)" by fastforce
    have "ord2ymd n = (a * 400 + 1 + b * 100 + c * 4 + d, m, e)"
      using False me by (simp add: ord2ymd_def Let_def a_def r_def b_def r2_def c_def r3_def d_def r4_def)
    then show ?thesis
      using year_parts [OF pos(1) small(1) pos(3,4,5) small(2), of a] month_day_ord [OF bnd(7) _ me] n bnd(8) by (simp add: ymd2ord_def)
  qed
qed

end
