(* ===== verification/Decision_Context.thy ===== *)
theory Decision_Context
  imports Stakeholders Timing Audit_Chain
begin

text \<open>
  Coordination of policy, stakeholders and timing: \<open>src/platform_core/policy/outcome_normalizer.py\<close>,
  \<open>src/platform_core/decision_context/{models,orchestrator,explanation,store}.py\<close> and the routes of \<open>backend/decision_context_routes.py\<close>.

  Building an envelope runs the resolver of \<open>Stakeholders\<close> and the evaluator of \<open>Timing\<close>, derives the coordination status and appends four rows to the
  audit file of \<open>Audit_Chain\<close>. Envelopes are kept in files named after their case; a file holds the envelope its JSON text denotes, and the pointer
  file holds the case last saved. The clock, the audit identifiers, the zone data base and the parser of time stamps are parameters.

  The lemmas give the status as a decision table, show what the audit file holds after a build, and when a stored envelope is found again.
\<close>

section \<open>Policy outcomes\<close>

datatype policy_gate = G_ALLOW | G_PREVIEW | G_BLOCK | G_REQUIRE_CONFIRMATION | G_REQUIRE_ADMIN | G_REQUIRE_HUMAN_REVIEW

definition outcome_map :: "(string \<times> policy_gate) list" where
  "outcome_map =
     [(''ALLOW'', G_ALLOW), (''ALLOW_OBSERVE'', G_ALLOW), (''ALLOW_PREVIEW'', G_PREVIEW), (''PREVIEW'', G_PREVIEW), (''PREVIEW_ONLY'', G_PREVIEW),
      (''OBSERVE'', G_ALLOW), (''BLOCK'', G_BLOCK), (''BLOCK_DESTRUCTIVE'', G_BLOCK), (''BLOCK_RECOMMENDED'', G_BLOCK),
      (''BLOCK_UNSAFE_ACTION'', G_BLOCK), (''BLOCK_AUTOMATION'', G_BLOCK), (''BLOCK_LOW_CONFIDENCE'', G_BLOCK),
      (''REQUIRE_TYPED_CONFIRMATION'', G_REQUIRE_CONFIRMATION), (''REQUIRE_CONFIRMATION'', G_REQUIRE_CONFIRMATION),
      (''REQUIRE_ADMIN'', G_REQUIRE_ADMIN), (''REQUIRE_HUMAN_APPROVAL'', G_REQUIRE_HUMAN_REVIEW),
      (''REQUIRE_HUMAN_REVIEW'', G_REQUIRE_HUMAN_REVIEW), (''HUMAN_REVIEW_REQUIRED'', G_REQUIRE_HUMAN_REVIEW),
      (''ESCALATE_REVIEW'', G_REQUIRE_HUMAN_REVIEW), (''CORRELATION_ONLY_ALERT'', G_PREVIEW), (''ROLLBACK_REQUIRED'', G_REQUIRE_HUMAN_REVIEW)]"

definition normalize_policy_outcome :: "string \<Rightarrow> policy_gate" where
  "normalize_policy_outcome outcome =
     (let key = py_upper (py_strip outcome)
      in if key = [] then G_PREVIEW else case map_of outcome_map key of Some g \<Rightarrow> g | None \<Rightarrow> G_PREVIEW)"

definition blocking_outcomes :: "string list" where
  "blocking_outcomes = [''BLOCK'', ''BLOCK_DESTRUCTIVE'', ''BLOCK_LOW_CONFIDENCE'', ''BLOCK_UNSAFE_ACTION'', ''BLOCK_AUTOMATION'']"

definition policy_blocks_execution :: "string \<Rightarrow> bool \<Rightarrow> bool" where
  "policy_blocks_execution policy_decision policy_allowed =
     (if normalize_policy_outcome policy_decision = G_BLOCK then True
      else if py_upper policy_decision \<in> set blocking_outcomes then True else False)"

section \<open>Coordination\<close>

datatype coordination_status =
    CS_READY | CS_NEEDS_OWNER | CS_NEEDS_APPROVAL | CS_DEFERRED_TO_WINDOW | CS_ESCALATE_NOW | CS_MONITOR_UNTIL | CS_EXPIRED
  | CS_BLOCKED_BY_CHANGE_FREEZE | CS_BLOCKED_BY_POLICY

fun status_value :: "coordination_status \<Rightarrow> string" where
  "status_value CS_READY = ''READY''"
| "status_value CS_NEEDS_OWNER = ''NEEDS_OWNER''"
| "status_value CS_NEEDS_APPROVAL = ''NEEDS_APPROVAL''"
| "status_value CS_DEFERRED_TO_WINDOW = ''DEFERRED_TO_WINDOW''"
| "status_value CS_ESCALATE_NOW = ''ESCALATE_NOW''"
| "status_value CS_MONITOR_UNTIL = ''MONITOR_UNTIL''"
| "status_value CS_EXPIRED = ''EXPIRED''"
| "status_value CS_BLOCKED_BY_CHANGE_FREEZE = ''BLOCKED_BY_CHANGE_FREEZE''"
| "status_value CS_BLOCKED_BY_POLICY = ''BLOCKED_BY_POLICY''"

definition derive_coordination_status ::
  "string \<Rightarrow> bool \<Rightarrow> bool \<Rightarrow> string list \<Rightarrow> stakeholder_reason list \<Rightarrow> timing_decision option \<Rightarrow> coordination_status" where
  "derive_coordination_status policy_decision policy_allowed policy_requires_approval unresolved reasons timing =
     (if policy_blocks_execution policy_decision policy_allowed
      then (if timing = Some ESCALATE_NOW then CS_ESCALATE_NOW else CS_BLOCKED_BY_POLICY)
      else if timing = Some EVIDENCE_EXPIRED then CS_EXPIRED
      else if timing = Some SLA_OVERDUE
      then (if OWNER_UNRESOLVED \<in> set reasons \<or> ''asset_owner'' \<in> set unresolved then CS_NEEDS_OWNER
            else if policy_requires_approval then CS_NEEDS_APPROVAL else CS_ESCALATE_NOW)
      else if timing = Some BLOCKED_BY_CHANGE_FREEZE then CS_BLOCKED_BY_CHANGE_FREEZE
      else if timing = Some DEFERRED_TO_WINDOW then CS_DEFERRED_TO_WINDOW
      else if timing = Some MONITOR_UNTIL then CS_MONITOR_UNTIL
      else if timing = Some ESCALATE_NOW then CS_ESCALATE_NOW
      else if ''asset_owner'' \<in> set unresolved \<or> OWNER_UNRESOLVED \<in> set reasons then CS_NEEDS_OWNER
      else if policy_requires_approval \<or> APPROVER_REQUIRED \<in> set reasons
      then (if ''approver'' \<in> set unresolved \<or> ''execution_authority'' \<in> set unresolved then CS_NEEDS_APPROVAL else CS_NEEDS_APPROVAL)
      else CS_READY)"

section \<open>Envelopes\<close>

record context_request =
  dq_case_id :: string
  dq_decision_id :: string
  dq_evidence_refs :: "string list"
  dq_ranked_hypotheses :: "pydict list"
  dq_proof_result :: pydict
  dq_policy_decision :: string
  dq_policy_allowed :: bool
  dq_policy_requires_approval :: bool
  dq_classification :: string
  dq_proof_status :: string
  dq_detected_at_utc :: "string option"
  dq_timezone_name :: "string option"
  dq_stakeholder_config :: pydict
  dq_timing_config :: pydict
  dq_remediation_preview :: pydict
  dq_control_ids :: "string list"
  dq_evidence_summary :: pydict
  dq_write_audit :: bool
  dq_actor :: string

record decision_envelope =
  en_case_id :: string
  en_decision_id :: string
  en_evidence_refs :: "string list"
  en_ranked_hypotheses :: "pydict list"
  en_proof_result :: pydict
  en_policy_decision :: string
  en_policy_allowed :: bool
  en_policy_requires_approval :: bool
  en_stakeholder :: "stakeholder_context option"
  en_timing :: "timing_context option"
  en_coordination_status :: coordination_status
  en_remediation_preview :: pydict
  en_audit_metadata :: pydict

text \<open>An envelope with every field but the case at its default.\<close>

definition default_envelope :: "string \<Rightarrow> decision_envelope" where
  "default_envelope case_id = \<lparr>en_case_id = case_id, en_decision_id = [], en_evidence_refs = [], en_ranked_hypotheses = [], en_proof_result = [],
     en_policy_decision = ''PREVIEW_ONLY'', en_policy_allowed = False, en_policy_requires_approval = True, en_stakeholder = None, en_timing = None,
     en_coordination_status = CS_NEEDS_APPROVAL, en_remediation_preview = [], en_audit_metadata = []\<rparr>"

definition envelope_limitations :: "string list" where
  "envelope_limitations =
     [''Observation is not proof.'', ''Correlation is not causation.'', ''Confidence is not certainty.'', ''Classification is not accusation.'',
      ''Policy permission is not a safety guarantee.'', ''Stakeholder assignment is not approval.'',
      ''A valid maintenance window is not execution authorization.'', ''Remediation remains preview-only by default.'']"

definition envelope_non_claims :: "string list" where
  "envelope_non_claims =
     [''Does not authorize silent destructive action.'', ''Does not bypass typed confirmation via urgency.'', ''Does not invent stakeholder identities.'']"

section \<open>Orchestration\<close>

fun timing_decision_value :: "timing_decision \<Rightarrow> string" where
  "timing_decision_value READY = ''READY''"
| "timing_decision_value ESCALATE_NOW = ''ESCALATE_NOW''"
| "timing_decision_value MONITOR_UNTIL = ''MONITOR_UNTIL''"
| "timing_decision_value DEFERRED_TO_WINDOW = ''DEFERRED_TO_WINDOW''"
| "timing_decision_value BLOCKED_BY_CHANGE_FREEZE = ''BLOCKED_BY_CHANGE_FREEZE''"
| "timing_decision_value EVIDENCE_EXPIRED = ''EVIDENCE_EXPIRED''"
| "timing_decision_value SLA_OVERDUE = ''SLA_OVERDUE''"

fun timing_reason_value :: "timing_reason \<Rightarrow> string" where
  "timing_reason_value WITHIN_SLA = ''WITHIN_SLA''"
| "timing_reason_value SLA_BREACHED = ''SLA_BREACHED''"
| "timing_reason_value EVIDENCE_VALID = ''EVIDENCE_VALID''"
| "timing_reason_value EVIDENCE_STALE = ''EVIDENCE_STALE''"
| "timing_reason_value IN_MAINTENANCE_WINDOW = ''IN_MAINTENANCE_WINDOW''"
| "timing_reason_value OUTSIDE_MAINTENANCE_WINDOW = ''OUTSIDE_MAINTENANCE_WINDOW''"
| "timing_reason_value CHANGE_FREEZE_ACTIVE = ''CHANGE_FREEZE_ACTIVE''"
| "timing_reason_value BUSINESS_HOURS = ''BUSINESS_HOURS''"
| "timing_reason_value AFTER_HOURS = ''AFTER_HOURS''"
| "timing_reason_value HIGH_URGENCY_ESCALATION = ''HIGH_URGENCY_ESCALATION''"
| "timing_reason_value RETRY_AFTER_SET = ''RETRY_AFTER_SET''"

text \<open>\<open>classification or str(proof_result.get("classification") or "")\<close> and the proof status in the same way.\<close>

definition or_proof :: "string \<Rightarrow> pydict \<Rightarrow> string \<Rightarrow> string" where
  "or_proof given proof_result key = (if given \<noteq> [] then given else py_str (py_or (dict_get proof_result key) (PyStr [])))"

definition stakeholder_request_of :: "context_request \<Rightarrow> stakeholder_request" where
  "stakeholder_request_of q =
     \<lparr>sq_case_id = dq_case_id q, sq_classification = or_proof (dq_classification q) (dq_proof_result q) ''classification'',
      sq_evidence_summary = dq_evidence_summary q, sq_proof_status = or_proof (dq_proof_status q) (dq_proof_result q) ''proof_tier'',
      sq_policy_outcome = dq_policy_decision q, sq_policy_requires_approval = dq_policy_requires_approval q,
      sq_control_ids = dq_control_ids q, sq_config = dq_stakeholder_config q\<rparr>"

definition timing_request_of :: "string \<Rightarrow> context_request \<Rightarrow> timing_request" where
  "timing_request_of now q =
     \<lparr>tq_case_id = dq_case_id q,
      tq_detected_at_utc = (case dq_detected_at_utc q of Some t \<Rightarrow> if t \<noteq> [] then t else now | None \<Rightarrow> now),
      tq_evaluated_at_utc = Some now, tq_timezone_name = dq_timezone_name q,
      tq_classification = or_proof (dq_classification q) (dq_proof_result q) ''classification'',
      tq_policy_outcome = dq_policy_decision q, tq_urgency = None, tq_maintenance_window_required = False, tq_change_freeze_active = False,
      tq_retry_after_utc = None, tq_sla_hours = None, tq_evidence_ttl_hours = None, tq_business_hours_start = 9 * hour_us,
      tq_business_hours_end = 18 * hour_us, tq_maintenance_start = 22 * hour_us, tq_maintenance_end = 5 * hour_us, tq_config = dq_timing_config q\<rparr>"

definition audit_rows :: "context_request \<Rightarrow> stakeholder_context \<Rightarrow> timing_context \<Rightarrow> coordination_status \<Rightarrow> audit_input list" where
  "audit_rows q sc tx status =
     map (\<lambda>(a, p). \<lparr>in_action_type = a, in_trace_id = dq_case_id q,
                    in_decision_id = (if dq_decision_id q \<noteq> [] then dq_decision_id q else dq_case_id q), in_incident_id = dq_case_id q,
                    in_actor = dq_actor q, in_payload = p\<rparr>)
       [(''stakeholder_resolved'',
          [(''reason_codes'', PyList (map (PyStr \<circ> stakeholder_reason_value) (sc_reason_codes sc))),
           (''unresolved_fields'', PyList (map PyStr (sc_unresolved_fields sc))),
           (''resolution_confidence'', PyStr (sc_resolution_confidence sc)), (''inputs_fingerprint'', PyStr (sc_inputs_fingerprint sc))]),
        (''timing_evaluated'',
          [(''decision'', PyStr (timing_decision_value (tx_decision tx))), (''urgency'', PyStr (urgency_value (tx_urgency tx))),
           (''sla_due_utc'', PyStr (tx_sla_due_utc tx)), (''evidence_expires_utc'', PyStr (tx_evidence_expires_utc tx)),
           (''reason_codes'', PyList (map (PyStr \<circ> timing_reason_value) (tx_reason_codes tx))),
           (''timezone'', PyStr (tx_timezone tx)), (''inputs_fingerprint'', PyStr (tx_inputs_fingerprint tx))]),
        (''coordination_status_set'',
          [(''policy_decision'', PyStr (dq_policy_decision q)), (''coordination_status'', PyStr (status_value status)),
           (''execution_authority_present'', PyBool (sc_execution_authority sc \<noteq> None))]),
        (''decision_context_built'', [(''schema_version'', PyStr ''decision_context.v1''), (''case_id'', PyStr (dq_case_id q))])]"

fun append_rows :: "(nat \<Rightarrow> audit_call) \<Rightarrow> nat \<Rightarrow> audit_input list \<Rightarrow> audit_store \<Rightarrow> audit_store \<times> pyval list py_result" where
  "append_rows calls k [] st = (st, Inr [])"
| "append_rows calls k (i # rows) st =
     (case append_audit (ac_uid (calls k)) (ac_now (calls k)) (ac_tip_ok (calls k)) st i True of
        Inl e \<Rightarrow> (st, Inl e)
      | Inr (rec, st1) \<Rightarrow>
          (case append_rows calls (Suc k) rows st1 of (st2, r) \<Rightarrow> (st2, bind_r r (\<lambda>ids. Inr (dict_get rec ''audit_id'' # ids)))))"

definition default_preview :: "coordination_status \<Rightarrow> string \<Rightarrow> pydict" where
  "default_preview status policy_decision =
     [(''dry_run'', PyBool True), (''preview_only'', PyBool True),
      (''message'', PyStr ''Remediation remains preview-only; coordination does not authorize apply.''),
      (''coordination_status'', PyStr (status_value status)), (''policy_decision'', PyStr policy_decision)]"

text \<open>The zone data base and the parser of time stamps, the clock as text and as instant, and the audit calls.\<close>

record orchestrator_env =
  oe_zones :: "string \<Rightarrow> zone_lookup"
  oe_fromiso :: "string \<Rightarrow> (int \<times> int option) option"
  oe_now :: string
  oe_clock :: int
  oe_calls :: "nat \<Rightarrow> audit_call"

definition base_metadata :: "context_request \<Rightarrow> stakeholder_context \<Rightarrow> timing_context \<Rightarrow> coordination_status \<Rightarrow> pydict" where
  "base_metadata q sc tx status =
     [(''schema_version'', PyStr ''decision_context.v1''), (''policy_decision'', PyStr (dq_policy_decision q)),
      (''coordination_status'', PyStr (status_value status)), (''stakeholder_fingerprint'', PyStr (sc_inputs_fingerprint sc)),
      (''timing_fingerprint'', PyStr (tx_inputs_fingerprint tx))]"

definition envelope_of :: "context_request \<Rightarrow> stakeholder_context \<Rightarrow> timing_context \<Rightarrow> coordination_status \<Rightarrow> pydict \<Rightarrow> decision_envelope" where
  "envelope_of q sc tx status audit_meta =
     \<lparr>en_case_id = dq_case_id q, en_decision_id = (if dq_decision_id q \<noteq> [] then dq_decision_id q else dq_case_id q),
      en_evidence_refs = dq_evidence_refs q, en_ranked_hypotheses = dq_ranked_hypotheses q, en_proof_result = dq_proof_result q,
      en_policy_decision = dq_policy_decision q, en_policy_allowed = dq_policy_allowed q,
      en_policy_requires_approval = dq_policy_requires_approval q, en_stakeholder = Some sc, en_timing = Some tx, en_coordination_status = status,
      en_remediation_preview = (if dq_remediation_preview q \<noteq> [] then dq_remediation_preview q else default_preview status (dq_policy_decision q)),
      en_audit_metadata = audit_meta\<rparr>"

definition build_decision_envelope :: "orchestrator_env \<Rightarrow> context_request \<Rightarrow> audit_store \<Rightarrow> audit_store \<times> decision_envelope py_result" where
  "build_decision_envelope oe q st =
     (case bind_r (resolve_stakeholders (stakeholder_request_of q)) (\<lambda>sc.
             bind_r (evaluate_timing (oe_zones oe) (oe_fromiso oe) (oe_clock oe) (timing_request_of (oe_now oe) q)) (\<lambda>tx. Inr (sc, tx))) of
        Inl e \<Rightarrow> (st, Inl e)
      | Inr (sc, tx) \<Rightarrow>
        (let status = derive_coordination_status (dq_policy_decision q) (dq_policy_allowed q) (dq_policy_requires_approval q)
               (sc_unresolved_fields sc) (sc_reason_codes sc) (Some (tx_decision tx));
             meta = base_metadata q sc tx status;
             (st1, written) = (if dq_write_audit q
                               then (case append_rows (oe_calls oe) 0 (audit_rows q sc tx status) st of
                                       (s, r) \<Rightarrow> (s, bind_r r (\<lambda>ids. Inr (meta @ [(''audit_ids'', PyList ids)]))))
                               else (st, Inr meta))
         in (st1, bind_r written (\<lambda>audit_meta. Inr (envelope_of q sc tx status audit_meta)))))"

section \<open>Explanation\<close>

definition stakeholder_lines :: "stakeholder_context \<Rightarrow> string list" where
  "stakeholder_lines sc =
     [''Asset owner role: '' @ (case sc_asset_owner sc of Some r \<Rightarrow> rr_display_name r | None \<Rightarrow> ''(unresolved)'')]
     @ (if sc_unresolved_fields sc \<noteq> [] then [''Unresolved stakeholder fields: '' @ join_with '', '' (sc_unresolved_fields sc)] else [])
     @ [''Stakeholder confidence: '' @ sc_resolution_confidence sc]"

definition timing_lines :: "timing_context \<Rightarrow> string list" where
  "timing_lines tx =
     [''Timing decision: '' @ timing_decision_value (tx_decision tx), ''Urgency: '' @ urgency_value (tx_urgency tx), ''Timezone: '' @ tx_timezone tx]
     @ (if tx_sla_due_utc tx \<noteq> [] then [''SLA due (UTC): '' @ tx_sla_due_utc tx] else [])
     @ (if tx_evidence_expires_utc tx \<noteq> [] then [''Evidence expires (UTC): '' @ tx_evidence_expires_utc tx] else [])"

definition explanation_lines :: "decision_envelope \<Rightarrow> string list" where
  "explanation_lines e =
     [''Case: '' @ en_case_id e, ''Policy decision: '' @ en_policy_decision e,
      ''Coordination status: '' @ status_value (en_coordination_status e)]
     @ (case en_stakeholder e of Some sc \<Rightarrow> stakeholder_lines sc | None \<Rightarrow> [])
     @ (case en_timing e of Some tx \<Rightarrow> timing_lines tx | None \<Rightarrow> [])
     @ [[], ''Principles:''] @ map (\<lambda>p. ''- '' @ p) envelope_limitations"

definition explain_decision_envelope :: "decision_envelope \<Rightarrow> pydict" where
  "explain_decision_envelope e =
     [(''schema_version'', PyStr ''decision_context.v1''), (''case_id'', PyStr (en_case_id e)),
      (''policy_decision'', PyStr (en_policy_decision e)), (''coordination_status'', PyStr (status_value (en_coordination_status e))),
      (''summary_lines'', PyList (map PyStr (explanation_lines e))),
      (''text'', PyStr (join_with [CHR 0x0A] (explanation_lines e))),
      (''limitations'', PyList (map PyStr envelope_limitations)), (''non_claims'', PyList (map PyStr envelope_non_claims))]"

definition format_decision_text :: "decision_envelope \<Rightarrow> string" where
  "format_decision_text e = py_str (dict_get (explain_decision_envelope e) ''text'')"

section \<open>Files\<close>

datatype context_file = Envelope_File decision_envelope | Latest_File string string

type_synonym context_dir = "string \<Rightarrow> context_file option"

definition safe_char :: "char \<Rightarrow> bool" where
  "safe_char c = (is_alpha c \<or> is_digit c \<or> c \<in> set ''-._'')"

definition safe_case_filename :: "string \<Rightarrow> string" where
  "safe_case_filename case_id =
     (let cleaned = take 180 (map (\<lambda>c. if safe_char c then c else CHR ''_'') (py_strip case_id))
      in if cleaned \<noteq> [] then cleaned else ''case'')"

definition context_path :: "string \<Rightarrow> string" where
  "context_path case_id = safe_case_filename case_id @ ''.json''"

definition save_decision_envelope :: "decision_envelope \<Rightarrow> context_dir \<Rightarrow> context_dir" where
  "save_decision_envelope e dir =
     (dir(context_path (en_case_id e) \<mapsto> Envelope_File e))(''latest.json'' \<mapsto> Latest_File (en_case_id e) (context_path (en_case_id e)))"

text \<open>The pointer file, read as an envelope, leaves every field but the case at its default.\<close>

fun file_envelope :: "context_file \<Rightarrow> decision_envelope" where
  "file_envelope (Envelope_File e) = e"
| "file_envelope (Latest_File case_id path) = default_envelope case_id"

fun file_case :: "context_file \<Rightarrow> string" where
  "file_case (Envelope_File e) = en_case_id e"
| "file_case (Latest_File case_id path) = case_id"

definition load_decision_envelope :: "context_dir \<Rightarrow> string \<Rightarrow> decision_envelope option" where
  "load_decision_envelope dir case_id = map_option file_envelope (dir (context_path case_id))"

definition load_latest_decision_envelope :: "context_dir \<Rightarrow> decision_envelope option" where
  "load_latest_decision_envelope dir =
     (case dir ''latest.json'' of
        None \<Rightarrow> None
      | Some f \<Rightarrow> if file_case f = [] then None else load_decision_envelope dir (file_case f))"

section \<open>Routes\<close>

record context_state =
  cx_audit :: audit_store
  cx_dir :: context_dir

definition api_preview_message :: pydict where
  "api_preview_message = [(''dry_run'', PyBool True), (''preview_only'', PyBool True),
     (''message'', PyStr ''API evaluate is preview-only; does not execute remediation.'')]"

text \<open>The request of the route: the fields it does not take are at their defaults; an empty case is refused by the request model.\<close>

definition route_request :: "context_request \<Rightarrow> context_request" where
  "route_request b = b\<lparr>dq_evidence_refs := [], dq_ranked_hypotheses := [], dq_control_ids := [], dq_evidence_summary := [], dq_actor := ''platform'',
     dq_remediation_preview := (if dq_remediation_preview b \<noteq> [] then dq_remediation_preview b else api_preview_message)\<rparr>"

definition post_decision_context_evaluate ::
  "orchestrator_env \<Rightarrow> bool \<Rightarrow> context_request \<Rightarrow> context_state \<Rightarrow> context_state \<times> (decision_envelope \<times> pydict) py_result" where
  "post_decision_context_evaluate oe persist b st =
     (if dq_case_id b = [] then (st, Inl (HTTPException 422 ''case_id''))
      else case build_decision_envelope oe (route_request b) (cx_audit st) of
             (audit, Inl e) \<Rightarrow> (st\<lparr>cx_audit := audit\<rparr>, Inl e)
           | (audit, Inr env) \<Rightarrow>
               (st\<lparr>cx_audit := audit, cx_dir := (if persist then save_decision_envelope env (cx_dir st) else cx_dir st)\<rparr>,
                Inr (env, explain_decision_envelope env)))"

definition get_decision_context_latest :: "string option \<Rightarrow> context_state \<Rightarrow> decision_envelope py_result" where
  "get_decision_context_latest case_id st =
     (case (case case_id of
              Some c \<Rightarrow> if c \<noteq> [] then load_decision_envelope (cx_dir st) c else load_latest_decision_envelope (cx_dir st)
            | None \<Rightarrow> load_latest_decision_envelope (cx_dir st)) of
        None \<Rightarrow> Inl (HTTPException 404 ''No decision context found'')
      | Some e \<Rightarrow> Inr e)"

definition post_stakeholders_resolve :: "stakeholder_request \<Rightarrow> stakeholder_context py_result" where
  "post_stakeholders_resolve b = (if sq_case_id b = [] then Inl (HTTPException 422 ''case_id'') else resolve_stakeholders b)"

definition post_timing_evaluate :: "orchestrator_env \<Rightarrow> timing_request \<Rightarrow> timing_context py_result" where
  "post_timing_evaluate oe b =
     (if tq_case_id b = [] then Inl (HTTPException 422 ''case_id'')
      else evaluate_timing (oe_zones oe) (oe_fromiso oe) (oe_clock oe)
             \<lparr>tq_case_id = tq_case_id b, tq_detected_at_utc = tq_detected_at_utc b, tq_evaluated_at_utc = None, tq_timezone_name = tq_timezone_name b,
              tq_classification = tq_classification b, tq_policy_outcome = tq_policy_outcome b, tq_urgency = tq_urgency b,
              tq_maintenance_window_required = tq_maintenance_window_required b, tq_change_freeze_active = tq_change_freeze_active b,
              tq_retry_after_utc = None, tq_sla_hours = None, tq_evidence_ttl_hours = None, tq_business_hours_start = 9 * hour_us,
              tq_business_hours_end = 18 * hour_us, tq_maintenance_start = 22 * hour_us, tq_maintenance_end = 5 * hour_us, tq_config = tq_config b\<rparr>)"

section \<open>The decision table\<close>

lemma upper_space: "is_space c \<Longrightarrow> upper_char c = c"
  by (auto simp: is_space_def upper_char_def is_lower_def char_code_def Let_def)

lemma upper_strip: "s \<noteq> [] \<Longrightarrow> \<not> is_space (hd (py_upper s)) \<Longrightarrow> \<not> is_space (last (py_upper s)) \<Longrightarrow> py_strip s = s"
  by (rule py_strip_id) (metis hd_map last_map py_upper_def upper_space)

text \<open>The second test of the block adds nothing to the normalised outcome, and the flag is not looked at.\<close>

lemma policy_blocks_iff: "policy_blocks_execution p allowed \<longleftrightarrow> normalize_policy_outcome p = G_BLOCK"
proof -
  have words: "list_all (\<lambda>w. w \<noteq> [] \<and> \<not> is_space (hd w) \<and> \<not> is_space (last w) \<and> map_of outcome_map w = Some G_BLOCK) blocking_outcomes"
    by code_simp
  have "normalize_policy_outcome p = G_BLOCK" if "py_upper p \<in> set blocking_outcomes"
  proof -
    from that words have w: "py_upper p \<noteq> []" "\<not> is_space (hd (py_upper p))" "\<not> is_space (last (py_upper p))"
      "map_of outcome_map (py_upper p) = Some G_BLOCK" unfolding list_all_iff by blast+
    then have "py_strip p = p" using upper_strip [of p] by (auto simp: py_upper_def)
    then show ?thesis using w by (simp add: normalize_policy_outcome_def)
  qed
  then show ?thesis by (auto simp: policy_blocks_execution_def)
qed

abbreviation unowned :: "context_request \<Rightarrow> bool" where
  "unowned q \<equiv> or_proof (dq_classification q) (dq_proof_result q) ''classification'' = [] \<and> load_explicit_config (dq_stakeholder_config q) = []"

lemma build_result:
  assumes "build_decision_envelope oe q st = (st', Inr e)"
  obtains sc tx where "resolve_stakeholders (stakeholder_request_of q) = Inr sc"
    and "evaluate_timing (oe_zones oe) (oe_fromiso oe) (oe_clock oe) (timing_request_of (oe_now oe) q) = Inr tx"
    and "en_stakeholder e = Some sc" and "en_timing e = Some tx" and "en_case_id e = dq_case_id q"
    and "en_coordination_status e = derive_coordination_status (dq_policy_decision q) (dq_policy_allowed q) (dq_policy_requires_approval q)
      (sc_unresolved_fields sc) (sc_reason_codes sc) (Some (tx_decision tx))"
proof -
  obtain sc tx where r: "resolve_stakeholders (stakeholder_request_of q) = Inr sc"
    "evaluate_timing (oe_zones oe) (oe_fromiso oe) (oe_clock oe) (timing_request_of (oe_now oe) q) = Inr tx"
    using assms unfolding build_decision_envelope_def
    by (cases "resolve_stakeholders (stakeholder_request_of q)";
        cases "evaluate_timing (oe_zones oe) (oe_fromiso oe) (oe_clock oe) (timing_request_of (oe_now oe) q)") auto
  show ?thesis
    by (rule that [OF r]) (use assms in \<open>auto simp: build_decision_envelope_def envelope_of_def r Let_def bind_r_Inr split: prod.splits if_splits\<close>)
qed

lemma derive_table:
  assumes "unresolved = (if u then [''asset_owner''] else [])" and "OWNER_UNRESOLVED \<notin> set reasons" and "APPROVER_REQUIRED \<in> set reasons \<longleftrightarrow> needs"
    and "requires \<longrightarrow> needs"
  shows "derive_coordination_status p allowed requires unresolved reasons (Some d) =
    (if normalize_policy_outcome p = G_BLOCK then (if d = ESCALATE_NOW then CS_ESCALATE_NOW else CS_BLOCKED_BY_POLICY)
     else case d of
            EVIDENCE_EXPIRED \<Rightarrow> CS_EXPIRED
          | SLA_OVERDUE \<Rightarrow> (if u then CS_NEEDS_OWNER else if requires then CS_NEEDS_APPROVAL else CS_ESCALATE_NOW)
          | BLOCKED_BY_CHANGE_FREEZE \<Rightarrow> CS_BLOCKED_BY_CHANGE_FREEZE
          | DEFERRED_TO_WINDOW \<Rightarrow> CS_DEFERRED_TO_WINDOW
          | MONITOR_UNTIL \<Rightarrow> CS_MONITOR_UNTIL
          | ESCALATE_NOW \<Rightarrow> CS_ESCALATE_NOW
          | READY \<Rightarrow> (if u then CS_NEEDS_OWNER else if needs then CS_NEEDS_APPROVAL else CS_READY))"
  using assms by (cases d) (simp_all add: derive_coordination_status_def policy_blocks_iff)

section \<open>The audit file\<close>

lemma append_step:
  assumes "appended st" and "in_action_type i \<in> set audit_actions"
  obtains rec st1 where "append_audit uid now tip_ok st i True = Inr (rec, st1)" and "appended st1"
    and "audit_lines st1 = audit_lines st @ [JsonLine (PyDict rec)]" and "dict_get rec ''action_type'' = PyStr (in_action_type i)"
    and "dict_get rec ''payload'' = PyDict (in_payload i)"
proof -
  obtain recs where recs: "audit_lines st = map record_line recs" "good_records recs" using appended_good [OF assms(1)] by blast
  obtain rec st1 where a: "append_audit uid now tip_ok st i True = Inr (rec, st1)"
    and f: "dict_get rec ''action_type'' = PyStr (in_action_type i)" "dict_get rec ''payload'' = PyDict (in_payload i)"
    using assms(2) tip_of_good [OF recs(2)] by (simp add: append_audit_def recs(1) Let_def audit_record_def dict_get_def)
  show ?thesis
    by (rule that [OF a grown [OF assms(1) a] _ f]) (use append_good [OF recs a] recs(1) in \<open>simp add: record_line_def\<close>)
qed

lemma append_rows_recorded:
  "appended st \<Longrightarrow> list_all (\<lambda>i. in_action_type i \<in> set audit_actions) rows \<Longrightarrow>
   \<exists>recs st'. append_rows calls k rows st = (st', Inr (map (\<lambda>r. dict_get r ''audit_id'') recs)) \<and> appended st' \<and>
     audit_lines st' = audit_lines st @ map (\<lambda>r. JsonLine (PyDict r)) recs \<and>
     map (\<lambda>r. (dict_get r ''action_type'', dict_get r ''payload'')) recs = map (\<lambda>i. (PyStr (in_action_type i), PyDict (in_payload i))) rows"
proof (induction rows arbitrary: st k)
  case Nil
  then show ?case by (intro exI [of _ "[]"]) simp
next
  case (Cons i rows)
  obtain rec st1 where a: "append_audit (ac_uid (calls k)) (ac_now (calls k)) (ac_tip_ok (calls k)) st i True = Inr (rec, st1)" "appended st1"
    "audit_lines st1 = audit_lines st @ [JsonLine (PyDict rec)]" "dict_get rec ''action_type'' = PyStr (in_action_type i)"
    "dict_get rec ''payload'' = PyDict (in_payload i)"
    by (rule append_step [OF Cons.prems(1)]) (use Cons.prems(2) in auto)
  from Cons.IH [OF a(2), of "Suc k"] Cons.prems(2) obtain recs st' where
    "append_rows calls (Suc k) rows st1 = (st', Inr (map (\<lambda>r. dict_get r ''audit_id'') recs))" "appended st'"
    "audit_lines st' = audit_lines st1 @ map (\<lambda>r. JsonLine (PyDict r)) recs"
    "map (\<lambda>r. (dict_get r ''action_type'', dict_get r ''payload'')) recs = map (\<lambda>i. (PyStr (in_action_type i), PyDict (in_payload i))) rows"
    by auto
  then show ?case using a by (intro exI [of _ "rec # recs"] exI [of _ st']) simp
qed

lemma audit_row_actions: "map in_action_type (audit_rows q sc tx status) =
    [''stakeholder_resolved'', ''timing_evaluated'', ''coordination_status_set'', ''decision_context_built'']"
  "list_all (\<lambda>i. in_action_type i \<in> set audit_actions) (audit_rows q sc tx status)"
  by (simp_all add: audit_rows_def audit_actions_def)

lemma appended_verifies: "appended st \<Longrightarrow> verify_chain (read_audit_records (audit_lines st)) = (True, ''ok'')"
  using appended_good [of st] by (auto simp: read_record_lines good_records_def)

lemma build_audited:
  assumes "appended st" and "resolve_stakeholders (stakeholder_request_of q) = Inr sc"
    and "evaluate_timing (oe_zones oe) (oe_fromiso oe) (oe_clock oe) (timing_request_of (oe_now oe) q) = Inr tx"
  obtains recs st' e where "build_decision_envelope oe q st = (st', Inr e)" and "appended st'"
    and "audit_lines st' = audit_lines st @ map (\<lambda>r. JsonLine (PyDict r)) recs"
    and "map (\<lambda>r. (dict_get r ''action_type'', dict_get r ''payload'')) recs =
      (if dq_write_audit q then map (\<lambda>i. (PyStr (in_action_type i), PyDict (in_payload i))) (audit_rows q sc tx (en_coordination_status e)) else [])"
    and "dict_get (en_audit_metadata e) ''audit_ids'' = (if dq_write_audit q then PyList (map (\<lambda>r. dict_get r ''audit_id'') recs) else PyNone)"
    and "dict_get (en_audit_metadata e) ''coordination_status'' = PyStr (status_value (en_coordination_status e))"
proof -
  let ?status = "derive_coordination_status (dq_policy_decision q) (dq_policy_allowed q) (dq_policy_requires_approval q)
               (sc_unresolved_fields sc) (sc_reason_codes sc) (Some (tx_decision tx))"
  show ?thesis
  proof (cases "dq_write_audit q")
    case True
    obtain recs st' where *: "append_rows (oe_calls oe) 0 (audit_rows q sc tx ?status) st = (st', Inr (map (\<lambda>r. dict_get r ''audit_id'') recs))"
      "appended st'" "audit_lines st' = audit_lines st @ map (\<lambda>r. JsonLine (PyDict r)) recs"
      "map (\<lambda>r. (dict_get r ''action_type'', dict_get r ''payload'')) recs =
        map (\<lambda>i. (PyStr (in_action_type i), PyDict (in_payload i))) (audit_rows q sc tx ?status)"
      using append_rows_recorded [OF assms(1) audit_row_actions(2), of "oe_calls oe" 0 q sc tx ?status] by blast
    show ?thesis
      by (rule that [of _ "envelope_of q sc tx ?status (base_metadata q sc tx ?status @ [(''audit_ids'', PyList (map (\<lambda>r. dict_get r ''audit_id'') recs))])",
            OF _ *(2,3)])
         (use True * in \<open>simp_all add: build_decision_envelope_def envelope_of_def base_metadata_def assms dict_get_def [of "_ # _"] Let_def\<close>)
  next
    case False
    show ?thesis
      by (rule that [of st "envelope_of q sc tx ?status (base_metadata q sc tx ?status)" "[]", OF _ assms(1)])
         (use False in \<open>simp_all add: build_decision_envelope_def envelope_of_def base_metadata_def assms dict_get_def Let_def\<close>)
  qed
qed

lemma build_error:
  assumes "appended st" and "build_decision_envelope oe q st = (st', Inl e)"
  shows "st' = st"
proof (cases "bind_r (resolve_stakeholders (stakeholder_request_of q)) (\<lambda>sc.
    bind_r (evaluate_timing (oe_zones oe) (oe_fromiso oe) (oe_clock oe) (timing_request_of (oe_now oe) q)) (\<lambda>tx. Inr (sc, tx)))")
  case (Inl x)
  with assms(2) show ?thesis by (simp add: build_decision_envelope_def)
next
  case (Inr x)
  then obtain sc tx where "resolve_stakeholders (stakeholder_request_of q) = Inr sc"
    "evaluate_timing (oe_zones oe) (oe_fromiso oe) (oe_clock oe) (timing_request_of (oe_now oe) q) = Inr tx" by (auto simp: bind_r_Inr)
  then show ?thesis by (rule build_audited [OF assms(1)]) (simp add: assms(2))
qed

section \<open>Properties\<close>

text \<open>
  C31. The coordination status of an envelope as a decision table over the policy gate, the timing decision, the ownership and the approval: an
  envelope is ready exactly when the policy does not block, timing is ready, a classification or configuration names an owner and no approval
  is needed; it is blocked by policy exactly when the gate blocks and timing does not escalate.
\<close>

theorem coordination_exact:
  assumes "build_decision_envelope oe q st = (st', Inr e)" and "texts_given (stakeholder_request_of q)"
  shows "\<exists>tx. en_timing e = Some tx \<and>
    en_coordination_status e =
      (if normalize_policy_outcome (dq_policy_decision q) = G_BLOCK
       then (if tx_decision tx = ESCALATE_NOW then CS_ESCALATE_NOW else CS_BLOCKED_BY_POLICY)
       else case tx_decision tx of
              EVIDENCE_EXPIRED \<Rightarrow> CS_EXPIRED
            | SLA_OVERDUE \<Rightarrow> (if unowned q then CS_NEEDS_OWNER else if dq_policy_requires_approval q then CS_NEEDS_APPROVAL else CS_ESCALATE_NOW)
            | BLOCKED_BY_CHANGE_FREEZE \<Rightarrow> CS_BLOCKED_BY_CHANGE_FREEZE
            | DEFERRED_TO_WINDOW \<Rightarrow> CS_DEFERRED_TO_WINDOW
            | MONITOR_UNTIL \<Rightarrow> CS_MONITOR_UNTIL
            | ESCALATE_NOW \<Rightarrow> CS_ESCALATE_NOW
            | READY \<Rightarrow> (if unowned q then CS_NEEDS_OWNER
                         else if dq_policy_requires_approval q \<or> py_upper (dq_policy_decision q) \<in> set approval_outcomes
                         then CS_NEEDS_APPROVAL else CS_READY)) \<and>
    (en_coordination_status e = CS_READY \<longleftrightarrow>
       normalize_policy_outcome (dq_policy_decision q) \<noteq> G_BLOCK \<and> tx_decision tx = READY \<and> \<not> unowned q \<and>
       \<not> dq_policy_requires_approval q \<and> py_upper (dq_policy_decision q) \<notin> set approval_outcomes)"
proof (rule build_result [OF assms(1)])
  fix sc tx
  assume sc: "resolve_stakeholders (stakeholder_request_of q) = Inr sc" and t: "en_timing e = Some tx"
    and st: "en_coordination_status e = derive_coordination_status (dq_policy_decision q) (dq_policy_allowed q) (dq_policy_requires_approval q)
      (sc_unresolved_fields sc) (sc_reason_codes sc) (Some (tx_decision tx))"
  have u: "sc_unresolved_fields sc = (if unowned q then [''asset_owner''] else [])" "OWNER_UNRESOLVED \<notin> set (sc_reason_codes sc)"
    "APPROVER_REQUIRED \<in> set (sc_reason_codes sc) \<longleftrightarrow> needs_approval (stakeholder_request_of q)"
    by (rule assignment [OF sc assms(2)]; simp add: reasons_of_def stakeholder_request_of_def)+
  have n: "needs_approval (stakeholder_request_of q) \<longleftrightarrow>
      dq_policy_requires_approval q \<or> py_upper (dq_policy_decision q) \<in> set approval_outcomes"
    by (simp add: needs_approval_def stakeholder_request_of_def)
  show ?thesis
    unfolding st derive_table [OF u, of "dq_policy_requires_approval q", unfolded n, simplified]
    by (intro exI [of _ tx] conjI t) (auto split: timing_decision.split)
qed

definition sample_env :: orchestrator_env where
  "sample_env = \<lparr>oe_zones = (\<lambda>n. Zone_Found utc_zone), oe_fromiso = (\<lambda>t. Some (0, None)), oe_now = ''now'', oe_clock = 0,
     oe_calls = (\<lambda>k. \<lparr>ac_uid = ''u'', ac_now = ''now'', ac_tip_ok = True\<rparr>)\<rparr>"

definition sample_context_request :: context_request where
  "sample_context_request = \<lparr>dq_case_id = ''case-1'', dq_decision_id = [], dq_evidence_refs = [], dq_ranked_hypotheses = [], dq_proof_result = [],
     dq_policy_decision = ''ALLOW'', dq_policy_allowed = True, dq_policy_requires_approval = False, dq_classification = ''KNOWN_DEV_PROXY'',
     dq_proof_status = [], dq_detected_at_utc = None, dq_timezone_name = None, dq_stakeholder_config = [], dq_timing_config = [],
     dq_remediation_preview = [], dq_control_ids = [], dq_evidence_summary = [], dq_write_audit = True, dq_actor = ''platform''\<rparr>"

lemma sample_stakeholders: "\<exists>sc. resolve_stakeholders (stakeholder_request_of sample_context_request) = Inr sc"
proof -
  have "configured_identities (explicit (stakeholder_request_of sample_context_request)) = Inr []" by code_simp
  then show ?thesis by (simp add: resolve_stakeholders_def Let_def split_beta)
qed

lemma sample_timing_ready:
  "\<exists>tx. evaluate_timing (oe_zones sample_env) (oe_fromiso sample_env) (oe_clock sample_env) (timing_request_of (oe_now sample_env) sample_context_request) = Inr tx \<and>
     tx_decision tx = READY"
proof -
  let ?q = "timing_request_of (oe_now sample_env) sample_context_request"
  have cfg: "tq_config ?q = []" "tq_timezone_name ?q = None" "tq_evaluated_at_utc ?q = Some ''now''" "tq_urgency ?q = None" "tq_retry_after_utc ?q = None"
    "tq_change_freeze_active ?q = False" "tq_maintenance_window_required ?q = False" "tq_sla_hours ?q = None" "tq_evidence_ttl_hours ?q = None"
    "tq_classification ?q = ''KNOWN_DEV_PROXY''" "tq_policy_outcome ?q = ''ALLOW''"
    by (simp_all add: timing_request_of_def sample_context_request_def sample_env_def or_proof_def)
  have u: "urgency_from ''KNOWN_DEV_PROXY'' ''ALLOW'' PyNone = U_MEDIUM" by code_simp
  have later: "\<not> timedelta_hours 24 \<le> 0" "\<not> timedelta_hours 48 \<le> 0"
    by (simp_all add: timedelta_hours_def round_half_even_def hour_us_def Let_def)
  have p: "parse_utc (oe_fromiso sample_env) t = Inr 0" for t by (simp add: parse_utc_def Let_def sample_env_def)
  have z: "resolve_tz (oe_zones sample_env) n = Inr utc_zone" for n by (simp add: resolve_tz_def Let_def sample_env_def)
  show ?thesis
    using later
    by (simp add: evaluate_timing_def z p cfg Let_def split_beta dict_get_def has_key_def py_or_text_def u
        sla_due_utc_def evidence_expires_utc_def cascade_decision timing_rule_def)
qed

lemma sample_built: "\<exists>st' e tx. build_decision_envelope sample_env sample_context_request empty_store = (st', Inr e) \<and>
    en_timing e = Some tx \<and> tx_decision tx = READY"
proof -
  obtain sc where sc: "resolve_stakeholders (stakeholder_request_of sample_context_request) = Inr sc" using sample_stakeholders by blast
  obtain tx where tx: "evaluate_timing (oe_zones sample_env) (oe_fromiso sample_env) (oe_clock sample_env)
      (timing_request_of (oe_now sample_env) sample_context_request) = Inr tx" "tx_decision tx = READY" using sample_timing_ready by blast
  have "appended empty_store" by (rule created) (simp add: empty_store_def)
  then obtain st' e where b: "build_decision_envelope sample_env sample_context_request empty_store = (st', Inr e)"
    by (rule build_audited [OF _ sc tx(1)])
  then have "en_timing e = Some tx" by (rule build_result) (simp add: tx(1))
  with b tx(2) show ?thesis by blast
qed

theorem coordination_exact_witness:
  "\<exists>st' e. build_decision_envelope sample_env sample_context_request empty_store = (st', Inr e) \<and> en_coordination_status e = CS_READY"
proof -
  obtain st' e tx where b: "build_decision_envelope sample_env sample_context_request empty_store = (st', Inr e)"
    "en_timing e = Some tx" "tx_decision tx = READY" using sample_built by blast
  have g: "texts_given (stakeholder_request_of sample_context_request)" by code_simp
  have "normalize_policy_outcome (dq_policy_decision sample_context_request) = G_ALLOW" "\<not> unowned sample_context_request" "\<not> dq_policy_requires_approval sample_context_request"
    "py_upper (dq_policy_decision sample_context_request) \<notin> set approval_outcomes" by code_simp+
  with coordination_exact [OF b(1) g] b show ?thesis by auto
qed

text \<open>
  Building an envelope on an audit file grown by appends: it returns exactly when the stakeholders and the timing can be computed; it then
  appends the four rows of the decision in order (none when auditing is off), the third with the status of the envelope, whose metadata name
  their identifiers; an exception writes nothing; the file still verifies.
\<close>

theorem envelope_audited:
  assumes "appended st" and "build_decision_envelope oe q st = (st', r)"
  shows "appended st' \<and> verify_chain (read_audit_records (audit_lines st')) = (True, ''ok'') \<and>
    ((\<exists>e. r = Inr e) \<longleftrightarrow> (\<exists>sc tx. resolve_stakeholders (stakeholder_request_of q) = Inr sc \<and>
       evaluate_timing (oe_zones oe) (oe_fromiso oe) (oe_clock oe) (timing_request_of (oe_now oe) q) = Inr tx)) \<and>
    (case r of
       Inl x \<Rightarrow> st' = st
     | Inr e \<Rightarrow> \<exists>recs. audit_lines st' = audit_lines st @ map (\<lambda>x. JsonLine (PyDict x)) recs \<and>
         map (\<lambda>x. dict_get x ''action_type'') recs =
           (if dq_write_audit q then map PyStr [''stakeholder_resolved'', ''timing_evaluated'', ''coordination_status_set'', ''decision_context_built'']
            else []) \<and>
         (dq_write_audit q \<longrightarrow>
            dict_get (as_dict (dict_get (recs ! 2) ''payload'')) ''coordination_status'' = PyStr (status_value (en_coordination_status e)) \<and>
            dict_get (en_audit_metadata e) ''audit_ids'' = PyList (map (\<lambda>x. dict_get x ''audit_id'') recs)))"
proof (cases r)
  case (Inl x)
  have "st' = st" using build_error [OF assms(1)] assms(2) Inl by blast
  moreover have "\<nexists>sc tx. resolve_stakeholders (stakeholder_request_of q) = Inr sc \<and>
      evaluate_timing (oe_zones oe) (oe_fromiso oe) (oe_clock oe) (timing_request_of (oe_now oe) q) = Inr tx"
    using assms(2) Inl by (auto elim!: build_audited [OF assms(1)])
  ultimately show ?thesis using assms(1) appended_verifies [OF assms(1)] Inl by simp
next
  case (Inr e)
  with assms(2) have b: "build_decision_envelope oe q st = (st', Inr e)" by simp
  show ?thesis
  proof (rule build_result [OF b])
    fix sc tx
    assume ok: "resolve_stakeholders (stakeholder_request_of q) = Inr sc"
      "evaluate_timing (oe_zones oe) (oe_fromiso oe) (oe_clock oe) (timing_request_of (oe_now oe) q) = Inr tx"
    obtain recs where a: "appended st'" "audit_lines st' = audit_lines st @ map (\<lambda>x. JsonLine (PyDict x)) recs"
      "map (\<lambda>x. (dict_get x ''action_type'', dict_get x ''payload'')) recs =
        (if dq_write_audit q then map (\<lambda>i. (PyStr (in_action_type i), PyDict (in_payload i))) (audit_rows q sc tx (en_coordination_status e)) else [])"
      "dict_get (en_audit_metadata e) ''audit_ids'' = (if dq_write_audit q then PyList (map (\<lambda>x. dict_get x ''audit_id'') recs) else PyNone)"
      by (rule build_audited [OF assms(1) ok]) (use b in auto)
    from a(3) show ?thesis using ok a(1,2,4) appended_verifies [OF a(1)] Inr
      by (auto simp: audit_rows_def dict_get_def map_eq_Cons_conv split: if_splits)
  qed
qed

theorem envelope_audited_witness:
  "\<exists>st' e. build_decision_envelope sample_env sample_context_request empty_store = (st', Inr e) \<and>
     verify_chain (read_audit_records (audit_lines st')) = (True, ''ok'') \<and> length (audit_lines st') = 4"
proof -
  have a: "appended empty_store" by (rule created) (simp add: empty_store_def)
  obtain st' e where b: "build_decision_envelope sample_env sample_context_request empty_store = (st', Inr e)" using sample_built by blast
  have w: "dq_write_audit sample_context_request" "audit_lines empty_store = []" by (simp_all add: sample_context_request_def empty_store_def)
  from envelope_audited [OF a b] w show ?thesis using b by (auto simp: map_eq_Cons_conv)
qed

text \<open>
  What is stored is found again: after an evaluation that is persisted, for a case whose file is not that of the pointer, the case's context
  and the latest context are the envelope just answered, and the context of every case with another file name is what it was.
\<close>

theorem evaluated_context_retrieved:
  assumes "post_decision_context_evaluate oe True b st = (st', Inr (e, ex))" and "context_path (dq_case_id b) \<noteq> ''latest.json''"
  shows "get_decision_context_latest (Some (dq_case_id b)) st' = Inr e \<and> get_decision_context_latest None st' = Inr e \<and>
    (\<forall>c. c \<noteq> [] \<and> context_path c \<noteq> context_path (dq_case_id b) \<and> context_path c \<noteq> ''latest.json'' \<longrightarrow>
       get_decision_context_latest (Some c) st' = get_decision_context_latest (Some c) st)"
proof -
  obtain audit where b: "build_decision_envelope oe (route_request b) (cx_audit st) = (audit, Inr e)" and ne: "dq_case_id b \<noteq> []"
    and st': "cx_dir st' = save_decision_envelope e (cx_dir st)"
    using assms(1) by (auto simp: post_decision_context_evaluate_def split: prod.splits sum.splits if_splits)
  have c: "en_case_id e = dq_case_id b" by (rule build_result [OF b]) (simp add: route_request_def)
  show ?thesis
    using assms(2) ne
    by (simp add: get_decision_context_latest_def load_decision_envelope_def load_latest_decision_envelope_def st' save_decision_envelope_def c)
qed

lemma sample_posted:
  "\<exists>st' e ex. post_decision_context_evaluate sample_env True sample_context_request \<lparr>cx_audit = empty_store, cx_dir = Map.empty\<rparr> = (st', Inr (e, ex))"
proof -
  let ?q = "route_request sample_context_request"
  have same: "stakeholder_request_of ?q = stakeholder_request_of sample_context_request" "timing_request_of n ?q = timing_request_of n sample_context_request" for n
    by (simp_all add: route_request_def stakeholder_request_of_def timing_request_of_def sample_context_request_def)
  obtain sc where sc: "resolve_stakeholders (stakeholder_request_of ?q) = Inr sc" using sample_stakeholders unfolding same by blast
  obtain tx where tx: "evaluate_timing (oe_zones sample_env) (oe_fromiso sample_env) (oe_clock sample_env) (timing_request_of (oe_now sample_env) ?q) = Inr tx"
    using sample_timing_ready unfolding same by blast
  have "appended empty_store" by (rule created) (simp add: empty_store_def)
  then obtain st' e where "build_decision_envelope sample_env ?q empty_store = (st', Inr e)" by (rule build_audited [OF _ sc tx])
  then show ?thesis by (simp add: post_decision_context_evaluate_def sample_context_request_def)
qed

theorem evaluated_context_retrieved_witness:
  "\<exists>st' e ex. post_decision_context_evaluate sample_env True sample_context_request \<lparr>cx_audit = empty_store, cx_dir = Map.empty\<rparr> = (st', Inr (e, ex)) \<and>
     get_decision_context_latest (Some ''case-1'') st' = Inr e"
proof -
  obtain st' e ex where p: "post_decision_context_evaluate sample_env True sample_context_request \<lparr>cx_audit = empty_store, cx_dir = Map.empty\<rparr> = (st', Inr (e, ex))"
    using sample_posted by blast
  have "context_path (dq_case_id sample_context_request) \<noteq> ''latest.json''" "dq_case_id sample_context_request = ''case-1''" by code_simp+
  with evaluated_context_retrieved [OF p] p show ?thesis by auto
qed

section \<open>Observations\<close>

text \<open>A blocking policy does not dominate: timing that escalates turns the block into an escalation.\<close>

lemma blocked_policy_escalates:
  "derive_coordination_status ''BLOCK'' False True unresolved reasons (Some ESCALATE_NOW) = CS_ESCALATE_NOW"
  by (simp add: derive_coordination_status_def policy_blocks_iff normalize_policy_outcome_def outcome_map_def py_eval)

text \<open>The flag that the policy does not allow the action, and the outcome that asks for an administrator, do not keep an envelope from being ready.\<close>

lemma disallowed_policy_ready:
  "derive_coordination_status ''ALLOW'' False False [] [] (Some READY) = CS_READY"
  "derive_coordination_status ''REQUIRE_ADMIN'' False False [] [] (Some READY) = CS_READY"
  by code_simp+

text \<open>Two cases may share a file: the envelope of the one is returned for the other.\<close>

lemma case_files_collide:
  assumes "en_case_id e = ''a:b''"
  shows "load_decision_envelope (save_decision_envelope e dir) ''a_b'' = Some e"
proof -
  have "context_path ''a:b'' = ''a_b.json''" "context_path ''a_b'' = ''a_b.json''" by code_simp+
  then show ?thesis by (simp add: load_decision_envelope_def save_decision_envelope_def assms)
qed

text \<open>The case named latest is overwritten by the pointer: its envelope is lost and an envelope of defaults is returned.\<close>

lemma case_named_latest_lost:
  assumes "en_case_id e = ''latest''"
  shows "load_decision_envelope (save_decision_envelope e dir) ''latest'' = Some (default_envelope ''latest'')"
proof -
  have "context_path ''latest'' = ''latest.json''" by code_simp
  then show ?thesis by (simp add: load_decision_envelope_def save_decision_envelope_def assms)
qed

end
