(* ===== verification/Proxy_Drift.thy ===== *)
theory Proxy_Drift
  imports Guard_Restore Audit_Chain
begin

text \<open>
  Repair of drifted proxy settings: \<open>src/proxy_drift/{classify,proxy_fix,guardian,auto_fix}.py\<close>. The classification of the settings, the typed
  confirmation and the registry commands of the fix, the binary connection settings, the guardian that clears dead, broken or unwanted
  localhost proxies once or in a loop, and the one-shot automatic fix that composes them.

  The machine is a world with the program runner and the registry probe of \<open>Guard_Restore\<close> and further probes (listening sockets, \<open>netstat\<close> and \<open>tasklist\<close>
  texts, the path probe, the binary values of the connections key) as fields of \<open>drift_host\<close>. The state adds the custody chain of \<open>Audit_Chain\<close> and
  the log of the guardian. Time stamps of the results are left out; the identifiers and clock readings of custody rows are given per row.

  The lemmas say exactly when the settings are changed and to what, that the guardian holds its promise whatever happens between its
  turns, and that the automatic fix clears a dead proxy.
\<close>

unbundle bit_operations_syntax

section \<open>Classification\<close>

definition dev_process_fragments :: "string list" where
  "dev_process_fragments = [''node.exe'', ''cursor.exe'', ''code.exe'', ''electron'', ''python.exe'', ''powershell.exe'', ''cmd.exe'']"

definition vpn_fragments :: "string list" where
  "vpn_fragments = [''hide.me'', ''hideme'', ''openvpn'', ''wireguard'', ''nordvpn'', ''expressvpn'', ''vpn'', ''tailscale'']"

definition drift_limitations :: "string list" where
  "drift_limitations =
     [''Classification is triage guidance '' @ em_dash @ '' not malware verdict or registry writer proof.'',
      ''Listener correlation does not prove which process wrote ProxyEnable/ProxyServer.'']"

definition text_or_empty :: "string option \<Rightarrow> string" where
  "text_or_empty v = (case v of None \<Rightarrow> [] | Some t \<Rightarrow> t)"

definition name_hints :: "string option \<Rightarrow> string option \<Rightarrow> bool \<times> bool" where
  "name_hints process_name command =
     (let blob = py_lower (text_or_empty process_name @ '' '' @ text_or_empty command)
      in (list_ex (\<lambda>f. py_in f blob) dev_process_fragments, list_ex (\<lambda>f. py_in f blob) vpn_fragments))"

record drift_evidence =
  de_proxy_enable :: "int option"
  de_proxy_server :: "string option"
  de_auto_config_url :: "string option"
  de_winhttp_direct :: "bool option"
  de_listener_found :: "bool option"
  de_listener_exited :: bool
  de_process_name :: "string option"
  de_command_line :: "string option"
  de_proxy_probe_ok :: "bool option"
  de_direct_probe_ok :: "bool option"

record drift_class =
  dc_label :: string
  dc_rationale :: string
  dc_localhost_port :: "int option"
  dc_is_localhost :: bool
  dc_limitations :: "string list"

definition drift_label :: "drift_evidence \<Rightarrow> parsed_proxy \<Rightarrow> string \<times> string" where
  "drift_label x parsed =
     (let enabled = (de_proxy_enable x = Some 1);
          (dev_hint, vpn_hint) = name_hints (de_process_name x) (de_command_line x)
      in if py_strip (text_or_empty (de_auto_config_url x)) \<noteq> []
         then (''PAC_CONFIGURED'', ''AutoConfigURL is set; PAC path requires separate validation.'')
         else if \<not> enabled \<and> text_or_empty (pp_raw parsed) = []
         then (''NO_PROXY'', ''WinINET proxy disabled with no ProxyServer value.'')
         else if enabled \<and> \<not> is_localhost_proxy parsed \<and> text_or_empty (pp_raw parsed) \<noteq> []
         then (''INSUFFICIENT_EVIDENCE'', ''Non-localhost proxy configured; corporate proxy policy may apply '' @ em_dash @ '' do not auto-clear.'')
         else if enabled \<and> is_localhost_proxy parsed \<and> de_listener_found x = Some True \<and> de_proxy_probe_ok x = Some False \<and>
                 de_direct_probe_ok x = Some True
         then (''BROKEN_LOCALHOST_PROXY'', ''Localhost listener is present but the proxy path failed while direct HTTPS works '' @
                 ''(active-but-broken '' @ em_dash @ '' prefer-direct clear is appropriate).'')
         else if enabled \<and> is_localhost_proxy parsed \<and> de_listener_found x = Some True
         then (if vpn_hint then ''KNOWN_VPN_PROXY'' else if dev_hint then ''KNOWN_DEV_PROXY'' else ''LOCAL_PROXY_ACTIVE'',
               ''Localhost proxy enabled with an active listener on the configured port.'' @
                 (if de_proxy_probe_ok x = Some False \<and> de_direct_probe_ok x = Some False
                  then '' Proxy and direct HTTPS probes both failed '' @ em_dash @ '' path triage inconclusive.'' else []))
         else if enabled \<and> is_localhost_proxy parsed \<and> de_listener_found x = Some False
         then (if de_listener_exited x
               then (''STALE_PROXY_AFTER_PROCESS_EXIT'', ''Proxy still points at localhost after listener disappeared.'')
               else (''STALE_LOCALHOST_PROXY'', ''ProxyEnable=1 toward localhost but no listener '' @ em_dash @ '' likely ERR_PROXY_CONNECTION_FAILED.''))
         else if enabled \<and> is_localhost_proxy parsed \<and> de_listener_found x = None
         then (''UNKNOWN_LOCAL_PROXY'', ''Localhost proxy configured; listener state unknown at probe time.'')
         else if de_winhttp_direct x = Some False \<and> enabled
         then (''WINHTTP_WININET_MISMATCH'', ''WinINET proxy enabled while WinHTTP reports non-direct access.'')
         else (''INSUFFICIENT_EVIDENCE'', ''Insufficient contrasting evidence for a stronger label.''))"

definition classify_proxy_drift :: "drift_evidence \<Rightarrow> drift_class" where
  "classify_proxy_drift x =
     (let parsed = parse_proxy_server (de_proxy_server x); (label, why) = drift_label x parsed
      in \<lparr>dc_label = label, dc_rationale = why, dc_localhost_port = localhost_port parsed, dc_is_localhost = is_localhost_proxy parsed,
          dc_limitations = drift_limitations\<rparr>)"

section \<open>The machine\<close>

text \<open>The entries of a path probe that are read by the code.\<close>

record path_view =
  pt_proxy_ok :: "bool option"
  pt_direct_ok :: "bool option"
  pt_status :: "string option"
  pt_probed :: bool

text \<open>A value of the connections key.\<close>

datatype blob_value = Binary "8 word list" | Other_Type

record 'w drift_host =
  dh_platform :: string
  dh_run :: "'w runner"
  dh_read :: "'w \<Rightarrow> registry_snapshot"
  dh_listening :: "int \<Rightarrow> 'w \<Rightarrow> bool"
  dh_netstat :: "'w \<Rightarrow> string option"
  dh_tasklist :: "int \<Rightarrow> 'w \<Rightarrow> string option"
  dh_path :: "int \<Rightarrow> 'w \<Rightarrow> path_view"
  dh_open_connections :: "'w \<Rightarrow> string option"
  dh_query_blob :: "string \<Rightarrow> 'w \<Rightarrow> blob_value option"
  dh_set_blob :: "string \<Rightarrow> 8 word list \<Rightarrow> 'w \<Rightarrow> string option \<times> 'w"
  dh_script :: "string \<Rightarrow> string option"
  dh_call :: "nat \<Rightarrow> audit_call"

section \<open>Binary connection settings\<close>

definition proxy_type_proxy :: "8 word" where
  "proxy_type_proxy = 2"

definition clear_blob_bytes :: "8 word list \<Rightarrow> 8 word list" where
  "clear_blob_bytes data = data[8 := (data ! 8) AND (NOT proxy_type_proxy), 12 := 0, 13 := 0, 14 := 0, 15 := 0]"

text \<open>The loop over the two values: names cleared, the error that ended it, and the world.\<close>

fun clear_blobs :: "'w drift_host \<Rightarrow> string list \<Rightarrow> 'w \<Rightarrow> string list \<times> string list \<times> 'w" where
  "clear_blobs h [] w = ([], [], w)"
| "clear_blobs h (n # ns) w =
     (case dh_query_blob h n w of
        Some (Binary data) \<Rightarrow>
          if length data < 16 \<or> clear_blob_bytes data = data then clear_blobs h ns w
          else (case dh_set_blob h n (clear_blob_bytes data) w of
                  (Some e, w1) \<Rightarrow> ([], [e], w1)
                | (None, w1) \<Rightarrow> (case clear_blobs h ns w1 of (cleared, errs, w2) \<Rightarrow> (n # cleared, errs, w2)))
      | _ \<Rightarrow> clear_blobs h ns w)"

record blob_report =
  br_cleared :: "string list"
  br_errors :: "string list"
  br_action :: string

definition clear_wininet_connection_proxy_blob :: "'w drift_host \<Rightarrow> 'w \<Rightarrow> blob_report \<times> 'w" where
  "clear_wininet_connection_proxy_blob h w =
     (let (cleared, errs, w1) = (case dh_open_connections h w of
            Some e \<Rightarrow> ([], [e], w)
          | None \<Rightarrow> clear_blobs h [''DefaultConnectionSettings'', ''SavedLegacySettings''] w)
      in (\<lparr>br_cleared = cleared, br_errors = errs,
           br_action = (if cleared \<noteq> [] then ''cleared'' else if errs = [] then ''unchanged'' else ''failed'')\<rparr>, w1))"

section \<open>The fix\<close>

definition CONFIRM_CLEAR_PAC :: string where
  "CONFIRM_CLEAR_PAC = ''CLEAR_PAC_TOO''"

definition CONFIRMATION_PHRASE :: string where
  "CONFIRMATION_PHRASE = ''DISABLE_WININET_PROXY''"

definition nonempty_text :: "string option \<Rightarrow> bool" where
  "nonempty_text v = (text_or_empty v \<noteq> [])"

definition build_proxy_fix_mutations :: "string option \<Rightarrow> bool \<Rightarrow> disable_mutation list \<times> string list" where
  "build_proxy_fix_mutations server clear_pac =
     (let parsed = parse_proxy_server server;
          m_enable = \<lparr>m_argv = reg_add ''ProxyEnable'' ''REG_DWORD'' ''0'',
                      human = ''reg add '' @ quoted_key @ '' /v ProxyEnable /t REG_DWORD /d 0 /f''\<rparr>;
          m_server = \<lparr>m_argv = reg_delete ''ProxyServer'', human = ''reg delete '' @ quoted_key @ '' /v ProxyServer /f''\<rparr>;
          m_pac = \<lparr>m_argv = reg_delete ''AutoConfigURL'', human = ''reg delete '' @ quoted_key @ '' /v AutoConfigURL /f''\<rparr>;
          local = (is_localhost_proxy parsed \<and> nonempty_text server)
      in ([m_enable] @ (if local then [m_server] else []) @ (if clear_pac then [m_pac] else []),
          [human m_enable]
          @ (if local then [human m_server]
             else if nonempty_text server
             then [''ProxyServer not cleared '' @ em_dash @ '' non-localhost corporate proxy preserved.''] else [])
          @ (if clear_pac then [human m_pac] else [])
          @ [''WinHTTP unchanged; observation is not proof of root cause.'']))"

record fix_result =
  fr_dry_run :: bool
  fr_planned :: "string list"
  fr_before :: registry_snapshot
  fr_allowed :: bool
  fr_reason :: string
  fr_blob :: "blob_report option"
  fr_after :: "registry_snapshot option"

definition fix_limitations :: "string list" where
  "fix_limitations = [''Remediation is preview-only unless confirmed.'', ''Does not prove malware or registry writer identity.'']"

record listener_fingerprint =
  lf_pid :: "int option"
  lf_port :: "int option"
  lf_name :: "string option"

record guardian_result =
  gr_dry_run :: bool
  gr_label :: string
  gr_dead :: bool
  gr_broken :: bool
  gr_hold_direct :: bool
  gr_hold_hit :: bool
  gr_clear_broken :: bool
  gr_registry :: registry_snapshot
  gr_port :: "int option"
  gr_listener :: bool
  gr_proxy_ok :: "bool option"
  gr_direct_ok :: "bool option"
  gr_status :: "string option"
  gr_action :: string
  gr_recommended :: string
  gr_limitations :: "string list"
  gr_fingerprint :: listener_fingerprint
  gr_reason :: string
  gr_confirmation_required :: "string option"
  gr_remediation :: "fix_result option"
  gr_cleared_broken :: bool
  gr_cleared_hold :: bool

record 'w drift_state =
  dr_world :: 'w
  dr_audit :: audit_store
  dr_log :: "(string \<times> guardian_result) list"

definition custody :: "'w drift_host \<Rightarrow> string \<Rightarrow> custody_input \<Rightarrow> audit_store \<Rightarrow> audit_store" where
  "custody h event c a =
     (let k = dh_call h (length (audit_lines a))
      in case append_custody_event (ac_uid k) (ac_now k) (ac_tip_ok k) a event c True True of
           Inr (_, a1) \<Rightarrow> a1
         | Inl _ \<Rightarrow> a)"

definition view_dict :: "registry_snapshot \<Rightarrow> pydict" where
  "view_dict r = [(''proxy_enable'', optional_int (rs_proxy_enable r)), (''proxy_server'', optional_text (rs_proxy_server r)),
     (''auto_config_url'', optional_text (rs_auto_config_url r))]"

definition custody_proxy_fix :: "'w drift_host \<Rightarrow> string \<Rightarrow> fix_result \<Rightarrow> bool \<Rightarrow> audit_store \<Rightarrow> audit_store" where
  "custody_proxy_fix h event r supplied a =
     custody h event
       \<lparr>cu_actor = ''proxy_fix'', cu_subsystem = ''proxy_fix'', cu_dry_run = Some (fr_dry_run r), cu_confirmation_supplied = supplied,
        cu_before = Some (view_dict (fr_before r)), cu_after = map_option view_dict (fr_after r),
        cu_outcome = Some (if fr_allowed r then ''applied'' else ''blocked_or_preview''), cu_limitations = fix_limitations,
        cu_extra = [(''reason'', PyStr (fr_reason r)), (''prefer_direct'', PyNone)]\<rparr> a"

definition blob_plan_line :: string where
  "blob_plan_line = ''Also clear manual-proxy flag in HKCU ...'' @ [backslash] @ ''Internet Settings'' @ [backslash] @
     ''Connections (DefaultConnectionSettings / SavedLegacySettings).''"

definition apply_proxy_fix :: "'w drift_host \<Rightarrow> bool \<Rightarrow> string \<Rightarrow> bool \<Rightarrow> 'w drift_state \<Rightarrow> fix_result \<times> 'w drift_state" where
  "apply_proxy_fix h dry_run confirm clear_pac st =
     (let reg = dh_read h (dr_world st);
          parsed = parse_proxy_server (rs_proxy_server reg);
          requested = [''ProxyEnable''] @ (if is_localhost_proxy parsed \<and> nonempty_text (rs_proxy_server reg) then [''ProxyServer''] else [])
                      @ (if clear_pac then [''AutoConfigURL''] else []);
          required = (if clear_pac then CONFIRM_CLEAR_PAC else CONFIRMATION_PHRASE);
          (mutations, lns) = build_proxy_fix_mutations (rs_proxy_server reg) clear_pac;
          refuse = (\<lambda>why. \<lparr>fr_dry_run = False, fr_planned = lns, fr_before = reg, fr_allowed = False, fr_reason = why, fr_blob = None, fr_after = None\<rparr>)
      in if dry_run
         then (let r = \<lparr>fr_dry_run = True, fr_planned = lns @ [blob_plan_line], fr_before = reg, fr_allowed = False,
                        fr_reason = ''Dry-run preview only.'', fr_blob = None, fr_after = None\<rparr>
               in (r, st\<lparr>dr_audit := custody_proxy_fix h ''proxy_fix_preview'' r False (dr_audit st)\<rparr>))
         else if confirm \<noteq> required
         then (let r = refuse (''Typed confirmation required: '' @ required)
               in (r, st\<lparr>dr_audit := custody_proxy_fix h ''proxy_fix_blocked'' r False (dr_audit st)\<rparr>))
         else (case validate_action_confirmation ''disable_wininet_proxy'' False (if clear_pac then confirm else CONFIRMATION_PHRASE) requested of
                 (verdict, note, _) \<Rightarrow>
                   if verdict \<noteq> ALLOW then (refuse (if note \<noteq> [] then note else ''Typed confirmation required: '' @ required), st)
                   else if clear_pac \<and> confirm \<noteq> CONFIRM_CLEAR_PAC then (refuse (''Typed confirmation required: '' @ CONFIRM_CLEAR_PAC), st)
                   else (let w1 = snd (apply_mutations (dh_run h) False mutations (dr_world st));
                             (blob, w2) = clear_wininet_connection_proxy_blob h w1;
                             r = \<lparr>fr_dry_run = False, fr_planned = lns, fr_before = reg, fr_allowed = True,
                                  fr_reason = ''HKCU WinINET proxy fix applied (including Connections blob).'', fr_blob = Some blob,
                                  fr_after = Some (dh_read h w2)\<rparr>
                         in (r, st\<lparr>dr_world := w2, dr_audit := custody_proxy_fix h ''proxy_fix_applied'' r True (dr_audit st)\<rparr>))))"

section \<open>Guardian\<close>

definition CONFIRM_CLEAR_DEAD :: string where
  "CONFIRM_CLEAR_DEAD = ''CLEAR_DEAD_LOCALHOST_PROXY''"

definition CONFIRM_PREFER_DIRECT :: string where
  "CONFIRM_PREFER_DIRECT = ''PREFER_DIRECT_WININET''"

text \<open>\<open>str.split()\<close> at white space.\<close>

fun py_split_words :: "string \<Rightarrow> string \<Rightarrow> string list" where
  "py_split_words acc [] = (if acc = [] then [] else [rev acc])"
| "py_split_words acc (c # cs) =
     (if is_space c then (if acc = [] then py_split_words [] cs else rev acc # py_split_words [] cs) else py_split_words (c # acc) cs)"

definition listening_line :: "int \<Rightarrow> string \<Rightarrow> bool" where
  "listening_line port line \<longleftrightarrow>
     py_in ''LISTENING'' (py_upper line) \<and> py_in (CHR '':'' # int_str port) line \<and>
     (py_in ''127.0.0.1'' line \<or> py_in ''[::1]'' line \<or> py_in ''0.0.0.0'' line)"

fun netstat_pid :: "int \<Rightarrow> int option \<Rightarrow> string list \<Rightarrow> int option" where
  "netstat_pid port found [] = found"
| "netstat_pid port found (line # rest) =
     (if \<not> listening_line port line then netstat_pid port found rest
      else case py_split_words [] line of
             [] \<Rightarrow> netstat_pid port found rest
           | parts \<Rightarrow> (case py_int_of_str (last parts) of
                         None \<Rightarrow> netstat_pid port found rest
                       | Some n \<Rightarrow> if n > 0 then Some n else netstat_pid port (Some n) rest))"

definition no_fingerprint :: listener_fingerprint where
  "no_fingerprint = \<lparr>lf_pid = None, lf_port = None, lf_name = None\<rparr>"

definition tasklist_name :: "string \<Rightarrow> string option" where
  "tasklist_name out =
     (case py_splitlines [] (py_strip out) of
        [] \<Rightarrow> None
      | row # _ \<Rightarrow>
          (let name = py_strip_chars [CHR 0x22] (py_strip (takeWhile (\<lambda>c. c \<noteq> CHR '','') row))
           in if name \<noteq> [] then Some name else None))"

definition listener_fingerprint_of :: "'w drift_host \<Rightarrow> int option \<Rightarrow> 'w \<Rightarrow> listener_fingerprint" where
  "listener_fingerprint_of h port w =
     (case port of
        None \<Rightarrow> no_fingerprint
      | Some p \<Rightarrow>
        if p = 0 then no_fingerprint
        else case dh_netstat h w of
               None \<Rightarrow> no_fingerprint
             | Some out \<Rightarrow>
                 (case netstat_pid p None (py_splitlines [] out) of
                    None \<Rightarrow> no_fingerprint\<lparr>lf_port := Some p\<rparr>
                  | Some n \<Rightarrow>
                      if n = 0 then no_fingerprint\<lparr>lf_port := Some p\<rparr>
                      else \<lparr>lf_pid = Some n, lf_port = Some p,
                            lf_name = (case dh_tasklist h n w of None \<Rightarrow> None | Some t \<Rightarrow> tasklist_name t)\<rparr>))"

definition assess_localhost_proxy_path :: "'w drift_host \<Rightarrow> int \<Rightarrow> path_view option \<Rightarrow> 'w \<Rightarrow> path_view" where
  "assess_localhost_proxy_path h port inject w = (case inject of Some i \<Rightarrow> i\<lparr>pt_probed := True\<rparr> | None \<Rightarrow> dh_path h port w)"

definition no_path :: path_view where
  "no_path = \<lparr>pt_proxy_ok = None, pt_direct_ok = None, pt_status = None, pt_probed = False\<rparr>"

definition port_given :: "int option \<Rightarrow> bool" where
  "port_given p = (case p of None \<Rightarrow> False | Some n \<Rightarrow> n \<noteq> 0)"

definition assess_broken :: "'w drift_host \<Rightarrow> bool \<Rightarrow> bool \<Rightarrow> int option \<Rightarrow> bool \<Rightarrow> path_view option \<Rightarrow> 'w \<Rightarrow> bool \<times> path_view" where
  "assess_broken h enabled is_localhost port listener path_health w =
     (case port of
        None \<Rightarrow> (False, no_path)
      | Some p \<Rightarrow>
        if \<not> (enabled \<and> is_localhost \<and> p \<noteq> 0 \<and> listener) then (False, no_path)
        else let path = assess_localhost_proxy_path h p path_health w
             in (pt_proxy_ok path = Some False \<and> pt_direct_ok path \<noteq> None, path))"

record guardian_options =
  go_dry_run :: bool
  go_confirm :: string
  go_clear_broken :: bool
  go_confirm_broken :: string
  go_hold_direct :: bool
  go_path_health :: "path_view option"

text \<open>\<open>_audit\<close>: the row of the log and the custody event.\<close>

definition guardian_audit ::
  "'w drift_host \<Rightarrow> string \<Rightarrow> guardian_result \<Rightarrow> 'w drift_state \<Rightarrow> 'w drift_state" where
  "guardian_audit h event r st =
     st\<lparr>dr_audit := custody h event
             \<lparr>cu_actor = ''proxy_guardian'', cu_subsystem = ''proxy_guardian'', cu_dry_run = Some (gr_dry_run r),
              cu_confirmation_supplied = (gr_action r = ''remediated''),
              cu_before = Some [(''proxy_enable'', optional_int (rs_proxy_enable (gr_registry r))),
                                (''proxy_server'', optional_text (rs_proxy_server (gr_registry r)))],
              cu_after = None, cu_outcome = Some (gr_action r), cu_limitations = gr_limitations r,
              cu_extra = [(''classification'', PyStr (gr_label r)), (''dead_localhost_proxy'', PyBool (gr_dead r)),
                          (''broken_localhost_proxy'', PyBool (gr_broken r)), (''hold_direct'', PyBool (gr_hold_direct r)),
                          (''reason'', PyStr (gr_reason r)), (''listener_pid'', optional_int (lf_pid (gr_fingerprint r))),
                          (''listener_name'', optional_text (lf_name (gr_fingerprint r)))]\<rparr> (dr_audit st),
        dr_log := dr_log st @ [(event, r)]\<rparr>"

definition clear_broken_note :: string where
  "clear_broken_note = ''clear_broken remediates listener-up cases where the proxy path probe failed; '' @
     ''without --hold-direct, healthy active localhost (proxy path ok) is left alone.''"

definition hold_direct_note :: string where
  "hold_direct_note = ''hold_direct clears ANY enabled localhost WinINET proxy (including healthy tunnels); '' @
     ''use only when prefer-direct browsing is the policy goal. '' @
     ''Listener process fingerprint is correlation only '' @ em_dash @ '' not registry-writer proof.''"

text \<open>The observations of one check, up to the test whether there is anything to do.\<close>

definition guardian_observe :: "'w drift_host \<Rightarrow> guardian_options \<Rightarrow> 'w \<Rightarrow> guardian_result" where
  "guardian_observe h g w =
     (let reg = dh_read h w;
          parsed = parse_proxy_server (rs_proxy_server reg);
          enabled = (rs_proxy_enable reg = Some 1);
          port = localhost_port parsed;
          listener = (case port of None \<Rightarrow> False | Some p \<Rightarrow> p \<noteq> 0 \<and> dh_listening h p w);
          fp = listener_fingerprint_of h (if listener then port else None) w;
          need_path = ((go_clear_broken g \<or> go_hold_direct g) \<and> enabled \<and> is_localhost_proxy parsed \<and> port_given port \<and> listener);
          (broken0, path) = (if need_path \<and> go_clear_broken g
                             then assess_broken h enabled (is_localhost_proxy parsed) port listener (go_path_health g) w else (False, no_path));
          class = classify_proxy_drift
            \<lparr>de_proxy_enable = rs_proxy_enable reg, de_proxy_server = rs_proxy_server reg, de_auto_config_url = rs_auto_config_url reg,
             de_winhttp_direct = None, de_listener_found = (if port_given port then Some listener else None), de_listener_exited = False,
             de_process_name = lf_name fp, de_command_line = None, de_proxy_probe_ok = pt_proxy_ok path, de_direct_probe_ok = pt_direct_ok path\<rparr>;
          dead = (enabled \<and> is_localhost_proxy parsed \<and> port_given port \<and> \<not> listener);
          localhost_enabled = (enabled \<and> is_localhost_proxy parsed \<and> port_given port);
          hold_hit0 = (go_hold_direct g \<and> localhost_enabled \<and> \<not> dead);
          (broken, hold_hit) = (if dead then (False, False) else if hold_hit0 then (False, True) else (broken0, hold_hit0))
      in \<lparr>gr_dry_run = go_dry_run g, gr_label = dc_label class, gr_dead = dead, gr_broken = broken, gr_hold_direct = go_hold_direct g,
          gr_hold_hit = hold_hit, gr_clear_broken = go_clear_broken g, gr_registry = reg, gr_port = port, gr_listener = listener,
          gr_proxy_ok = pt_proxy_ok path, gr_direct_ok = pt_direct_ok path, gr_status = pt_status path, gr_action = ''none'',
          gr_recommended = ''No change required.'',
          gr_limitations = dc_limitations class @ (if go_clear_broken g then [clear_broken_note] else []) @ (if go_hold_direct g then [hold_direct_note] else []),
          gr_fingerprint = fp, gr_reason = [], gr_confirmation_required = None, gr_remediation = None,
          gr_cleared_broken = False, gr_cleared_hold = False\<rparr>)"

text \<open>The texts of the three cases: recommendation, required phrase, whether it was typed, and the event names with their reasons.\<close>

record guardian_case =
  gc_recommended :: string
  gc_required :: string
  gc_confirm_ok :: bool
  gc_event_preview :: string
  gc_event_blocked :: string
  gc_event_apply :: string
  gc_preview_reason :: string

definition guardian_case_of :: "guardian_options \<Rightarrow> guardian_result \<Rightarrow> guardian_case" where
  "guardian_case_of g r =
     (if gr_dead r
      then \<lparr>gc_recommended = ''Set ProxyEnable=0 and clear localhost ProxyServer (preview by default).'', gc_required = CONFIRM_CLEAR_DEAD,
            gc_confirm_ok = (go_confirm g = CONFIRM_CLEAR_DEAD), gc_event_preview = ''guardian_preview'', gc_event_blocked = ''guardian_blocked'',
            gc_event_apply = ''guardian_apply'',
            gc_preview_reason = ''Dead localhost proxy detected; dry-run '' @ em_dash @ '' no registry mutation.''\<rparr>
      else if gr_hold_hit r
      then \<lparr>gc_recommended = ''Hold-direct: clear localhost WinINET rewrite (confirm '' @ CONFIRM_PREFER_DIRECT @ '').'',
            gc_required = CONFIRM_PREFER_DIRECT, gc_confirm_ok = (go_confirm_broken g = CONFIRM_PREFER_DIRECT),
            gc_event_preview = ''guardian_hold_direct_preview'', gc_event_blocked = ''guardian_hold_direct_blocked'',
            gc_event_apply = ''guardian_hold_direct_apply'',
            gc_preview_reason = ''Hold-direct: enabled localhost WinINET detected; dry-run '' @ em_dash @ '' no registry mutation.''\<rparr>
      else \<lparr>gc_recommended = ''Clear active-but-broken / unusable localhost WinINET proxy (confirm '' @ CONFIRM_PREFER_DIRECT @ '').'',
            gc_required = CONFIRM_PREFER_DIRECT, gc_confirm_ok = (go_confirm_broken g = CONFIRM_PREFER_DIRECT),
            gc_event_preview = ''guardian_broken_preview'', gc_event_blocked = ''guardian_broken_blocked'', gc_event_apply = ''guardian_broken_apply'',
            gc_preview_reason = ''Active-but-broken localhost proxy detected; dry-run '' @ em_dash @ '' no registry mutation.''\<rparr>)"

definition run_dead_proxy_guardian_once ::
  "'w drift_host \<Rightarrow> guardian_options \<Rightarrow> 'w drift_state \<Rightarrow>
     guardian_result \<times> 'w drift_state" where
  "run_dead_proxy_guardian_once h g st =
     (let r0 = guardian_observe h g (dr_world st)
      in if \<not> gr_dead r0 \<and> \<not> gr_broken r0 \<and> \<not> gr_hold_hit r0
         then (let r = r0\<lparr>gr_reason := (if go_hold_direct g then ''No localhost WinINET proxy to clear (hold-direct idle).''
                                        else if go_clear_broken g then ''No dead or active-but-broken localhost proxy detected.''
                                        else ''No dead localhost proxy detected.'')\<rparr>
               in (r, guardian_audit h ''guardian_check'' r st))
         else (let c = guardian_case_of g r0; r1 = r0\<lparr>gr_recommended := gc_recommended c\<rparr>
               in if go_dry_run g
                  then (let r = r1\<lparr>gr_action := ''preview_only'', gr_reason := gc_preview_reason c, gr_confirmation_required := Some (gc_required c)\<rparr>
                        in (r, guardian_audit h (gc_event_preview c) r st))
                  else if \<not> gc_confirm_ok c
                  then (let r = r1\<lparr>gr_action := ''blocked'', gr_reason := ''Confirmation required: '' @ gc_required c,
                                   gr_confirmation_required := Some (gc_required c)\<rparr>
                        in (r, guardian_audit h (gc_event_blocked c) r st))
                  else (let (fix_r, st1) = apply_proxy_fix h False ''DISABLE_WININET_PROXY'' False st;
                            r = r1\<lparr>gr_action := (if fr_allowed fix_r then ''remediated'' else ''blocked''),
                                   gr_reason := (if fr_reason fix_r \<noteq> [] then fr_reason fix_r else ''Guardian remediation completed.''),
                                   gr_remediation := Some fix_r, gr_cleared_broken := gr_broken r0, gr_cleared_hold := gr_hold_hit r0\<rparr>
                        in (r, guardian_audit h (gc_event_apply c) r st1))))"

text \<open>
  The loop of the guardian, interrupted after a number of turns; \<open>sleep\<close> is what the rest of the machine does while it sleeps after a turn.
\<close>

fun run_dead_proxy_guardian_loop ::
  "'w drift_host \<Rightarrow> guardian_options \<Rightarrow> (nat \<Rightarrow> 'w \<Rightarrow> 'w) \<Rightarrow> nat \<Rightarrow> nat \<Rightarrow> 'w drift_state \<Rightarrow>
     guardian_result list \<times> 'w drift_state" where
  "run_dead_proxy_guardian_loop h g sleep k 0 s = ([], s)"
| "run_dead_proxy_guardian_loop h g sleep k (Suc n) s =
     (case run_dead_proxy_guardian_once h g s of
        (r, s1) \<Rightarrow>
          if n = 0 then ([r], s1)
          else (case run_dead_proxy_guardian_loop h g sleep (Suc k) n (s1\<lparr>dr_world := sleep k (dr_world s1)\<rparr>) of
                  (rs, s2) \<Rightarrow> (r # rs, s2)))"

section \<open>Automatic fix\<close>

definition dead_classifications :: "string list" where
  "dead_classifications = [''STALE_LOCALHOST_PROXY'', ''STALE_PROXY_AFTER_PROCESS_EXIT'', ''DEAD_PROXY_CONFIG'']"

definition broken_classifications :: "string list" where
  "broken_classifications = [''BROKEN_LOCALHOST_PROXY'']"

record drift_status =
  ps_label :: string
  ps_legacy :: string
  ps_dead :: bool
  ps_broken :: bool
  ps_registry :: registry_snapshot
  ps_port :: "int option"
  ps_listener :: "bool option"
  ps_path :: "path_view option"
  ps_limitations :: "string list"

definition path_note :: string where
  "path_note = ''Path probe contrasts proxied HTTPS vs direct; success does not prove proxy safety or intent.''"

definition legacy_label :: "string \<Rightarrow> bool \<Rightarrow> parsed_proxy \<Rightarrow> string" where
  "legacy_label label enabled parsed =
     (if \<not> enabled \<and> text_or_empty (pp_raw parsed) = [] then ''NO_PROXY''
      else if label \<in> {''STALE_LOCALHOST_PROXY'', ''STALE_PROXY_AFTER_PROCESS_EXIT''} then ''DEAD_PROXY_CONFIG''
      else if label = ''BROKEN_LOCALHOST_PROXY'' then ''DEAD_PROXY_CONFIG'' else label)"

definition read_proxy_drift_status ::
  "'w drift_host \<Rightarrow> path_view option \<Rightarrow> (int \<Rightarrow> path_view) option \<Rightarrow> bool \<Rightarrow> 'w \<Rightarrow> drift_status" where
  "read_proxy_drift_status h path_health path_health_fn skip_path_probe w =
     (let reg = dh_read h w;
          parsed = parse_proxy_server (rs_proxy_server reg);
          listener = map_option (\<lambda>p. dh_listening h p w) (localhost_port parsed);
          path = (case localhost_port parsed of
                    None \<Rightarrow> None
                  | Some p \<Rightarrow>
                      if listener = Some True \<and> \<not> skip_path_probe
                      then Some (case path_health of
                                   Some i \<Rightarrow> assess_localhost_proxy_path h p (Some i) w
                                 | None \<Rightarrow> (case path_health_fn of Some f \<Rightarrow> f p | None \<Rightarrow> assess_localhost_proxy_path h p None w))
                      else None);
          label = dc_label (classify_proxy_drift
            \<lparr>de_proxy_enable = rs_proxy_enable reg, de_proxy_server = rs_proxy_server reg, de_auto_config_url = rs_auto_config_url reg,
             de_winhttp_direct = None, de_listener_found = listener, de_listener_exited = False, de_process_name = None, de_command_line = None,
             de_proxy_probe_ok = Option.bind path pt_proxy_ok, de_direct_probe_ok = Option.bind path pt_direct_ok\<rparr>)
      in \<lparr>ps_label = label, ps_legacy = legacy_label label (rs_proxy_enable reg = Some 1) parsed,
          ps_dead = (label \<in> set dead_classifications), ps_broken = (label \<in> set broken_classifications), ps_registry = reg,
          ps_port = localhost_port parsed, ps_listener = listener, ps_path = path,
          ps_limitations = drift_limitations @ (case path of Some v \<Rightarrow> if pt_probed v then [path_note] else [] | None \<Rightarrow> [])\<rparr>)"

text \<open>\<open>proxy_enable == 1\<close> and \<open>localhost_port is not None\<close>.\<close>

definition localhost_enabled :: "drift_status \<Rightarrow> bool" where
  "localhost_enabled s \<longleftrightarrow> rs_proxy_enable (ps_registry s) = Some 1 \<and> ps_port s \<noteq> None"

record script_report =
  sp_step :: string
  sp_skip_reason :: "string option"
  sp_returncode :: int
  sp_stdout :: string
  sp_stderr :: string

definition slice_end :: "nat \<Rightarrow> string \<Rightarrow> string" where
  "slice_end n s = drop (length s - n) s"

text \<open>A PowerShell script of the repository, when its file exists; an exception of the runner propagates.\<close>

definition run_repo_script ::
  "'w drift_host \<Rightarrow> string \<Rightarrow> string \<Rightarrow> string \<Rightarrow> string list \<Rightarrow> nat \<Rightarrow> 'w drift_state \<Rightarrow> script_report py_result \<times> 'w drift_state" where
  "run_repo_script h step script missing extra tail_len st =
     (case dh_script h script of
        None \<Rightarrow> (Inr \<lparr>sp_step = step, sp_skip_reason = Some missing, sp_returncode = 0, sp_stdout = [], sp_stderr = []\<rparr>, st)
      | Some path \<Rightarrow>
          (case dh_run h ([''powershell'', ''-NoProfile'', ''-ExecutionPolicy'', ''Bypass'', ''-File'', path] @ extra) (dr_world st) of
             (Raised e, w) \<Rightarrow> (Inl (OSError e), st\<lparr>dr_world := w\<rparr>)
           | (Finished rc out err, w) \<Rightarrow>
               (Inr \<lparr>sp_step = step, sp_skip_reason = None, sp_returncode = rc, sp_stdout = slice_end tail_len (py_strip out),
                     sp_stderr = slice_end 2000 (py_strip err)\<rparr>, st\<lparr>dr_world := w\<rparr>)))"

definition run_cursor_no_proxy_script :: "'w drift_host \<Rightarrow> 'w drift_state \<Rightarrow> script_report py_result \<times> 'w drift_state" where
  "run_cursor_no_proxy_script h st = run_repo_script h ''cursor_no_proxy'' ''configure-cursor-no-proxy.ps1'' ''script missing'' [] 2000 st"

definition install_guardian_loop :: "'w drift_host \<Rightarrow> int \<Rightarrow> 'w drift_state \<Rightarrow> script_report py_result \<times> 'w drift_state" where
  "install_guardian_loop h interval st =
     run_repo_script h ''guardian_install'' ''install-dead-proxy-guardian.ps1'' ''installer missing''
       [''-IntervalSeconds'', int_str (max 5 interval)] 3000 st"

datatype prefer_result = Prefer_Preview string | Prefer_Blocked string | Prefer_Applied fix_result bool

definition prefer_direct_clear ::
  "'w drift_host \<Rightarrow> bool \<Rightarrow> string \<Rightarrow> drift_status \<Rightarrow> string \<Rightarrow> 'w drift_state \<Rightarrow> prefer_result \<times> 'w drift_state" where
  "prefer_direct_clear h dry_run confirm status reason_preview st =
     (if dry_run then (Prefer_Preview reason_preview, st)
      else if confirm \<noteq> CONFIRM_PREFER_DIRECT then (Prefer_Blocked (''Confirmation required: '' @ CONFIRM_PREFER_DIRECT), st)
      else (case apply_proxy_fix h False CONFIRMATION_PHRASE False st of (r, st1) \<Rightarrow> (Prefer_Applied r (ps_broken status), st1)))"

record auto_options =
  ao_dry_run :: bool
  ao_skip_guardian_install :: bool
  ao_skip_cursor_fix :: bool
  ao_interval :: int
  ao_prefer_direct :: bool
  ao_confirm :: string

datatype auto_step =
    Script_Step script_report
  | Status_Step string drift_status
  | Guardian_Step guardian_result
  | Fix_Step fix_result
  | Prefer_Step prefer_result

definition guardian_for_auto :: "bool \<Rightarrow> guardian_options" where
  "guardian_for_auto dry_run = \<lparr>go_dry_run = dry_run, go_confirm = (if dry_run then [] else CONFIRM_CLEAR_DEAD), go_clear_broken = False,
     go_confirm_broken = [], go_hold_direct = False, go_path_health = None\<rparr>"

definition prefer_reason :: "bool \<Rightarrow> string" where
  "prefer_reason broken =
     (if broken then ''Would clear active-but-broken localhost WinINET proxy (confirm '' @ CONFIRM_PREFER_DIRECT @ '').''
      else ''Would clear active localhost WinINET proxy (confirm '' @ CONFIRM_PREFER_DIRECT @ '').'')"

definition is_blocked :: "prefer_result option \<Rightarrow> bool" where
  "is_blocked p = (case p of Some (Prefer_Blocked _) \<Rightarrow> True | _ \<Rightarrow> False)"

definition auto_outcome :: "bool \<Rightarrow> bool \<Rightarrow> drift_status \<Rightarrow> bool \<Rightarrow> bool \<Rightarrow> string" where
  "auto_outcome dry_run prefer_direct final was_enabled prefer_blocked =
     (if ps_dead final then (if dry_run then ''would_remediate'' else ''still_dead'')
      else if ps_broken final \<and> prefer_blocked then ''needs_prefer_direct_confirm''
      else if ps_broken final then (if dry_run then ''would_remediate'' else ''localhost_proxy_broken'')
      else if prefer_direct \<and> was_enabled \<and> prefer_blocked then ''needs_prefer_direct_confirm''
      else if localhost_enabled final then ''localhost_proxy_active''
      else ''healthy'')"

abbreviation drift_status_of :: "'w drift_host \<Rightarrow> 'w drift_state \<Rightarrow> drift_status" where
  "drift_status_of h st \<equiv> read_proxy_drift_status h None None False (dr_world st)"

text \<open>The statements between the two scripts: the steps, the final status, the outcome and the state.\<close>

definition auto_fix_core :: "'w drift_host \<Rightarrow> auto_options \<Rightarrow> 'w drift_state \<Rightarrow> (auto_step list \<times> drift_status \<times> string) \<times> 'w drift_state" where
  "auto_fix_core h ao st0 =
     (let s0 = drift_status_of h st0;
          (guardian, st1) = run_dead_proxy_guardian_once h (guardian_for_auto (ao_dry_run ao)) st0;
          s1 = drift_status_of h st1;
          (fixes, st2) = (if ps_dead s1 \<and> \<not> ao_dry_run ao
                          then (case apply_proxy_fix h False CONFIRMATION_PHRASE False st1 of (r, s) \<Rightarrow> ([Fix_Step r], s)) else ([], st1));
          s2 = drift_status_of h st2;
          (prefer, st3) = (if localhost_enabled s2 \<and> (ao_prefer_direct ao \<or> ps_broken s2)
                           then (case prefer_direct_clear h (ao_dry_run ao) (ao_confirm ao) s2 (prefer_reason (ps_broken s2)) st2 of (r, s) \<Rightarrow> (Some r, s))
                           else (None, st2));
          final = drift_status_of h st3
      in (([Status_Step ''status_before'' s0, Guardian_Step guardian, Status_Step ''status_after_guardian'' s1] @ fixes
           @ (case prefer of None \<Rightarrow> [] | Some r \<Rightarrow> [Prefer_Step r]) @ [Status_Step ''status_final'' final],
           final, auto_outcome (ao_dry_run ao) (ao_prefer_direct ao) final (localhost_enabled s2) (is_blocked prefer)), st3))"

record auto_result =
  ar_outcome :: string
  ar_final :: "drift_status option"
  ar_steps :: "auto_step list"

definition run_auto_fix_proxy :: "'w drift_host \<Rightarrow> auto_options \<Rightarrow> 'w drift_state \<Rightarrow> auto_result py_result \<times> 'w drift_state" where
  "run_auto_fix_proxy h ao st =
     (if dh_platform h \<noteq> ''Windows'' then (Inr \<lparr>ar_outcome = ''unsupported'', ar_final = None, ar_steps = []\<rparr>, st)
      else case (if \<not> ao_skip_cursor_fix ao \<and> \<not> ao_dry_run ao
                 then (case run_cursor_no_proxy_script h st of (r, s) \<Rightarrow> (bind_r r (\<lambda>x. Inr [Script_Step x]), s)) else (Inr [], st)) of
             (Inl e, st1) \<Rightarrow> (Inl e, st1)
           | (Inr pre, st1) \<Rightarrow>
             (case auto_fix_core h ao st1 of
                ((steps, final, outcome), st2) \<Rightarrow>
                (case (if \<not> ao_skip_guardian_install ao \<and> \<not> ao_dry_run ao
                       then (case install_guardian_loop h (ao_interval ao) st2 of (r, s) \<Rightarrow> (bind_r r (\<lambda>x. Inr [Script_Step x]), s)) else (Inr [], st2)) of
                   (Inl e, st3) \<Rightarrow> (Inl e, st3)
                 | (Inr post, st3) \<Rightarrow> (Inr \<lparr>ar_outcome = outcome, ar_final = Some final, ar_steps = pre @ steps @ post\<rparr>, st3))))"

section \<open>What the fix does to the registry\<close>

text \<open>
  The documented behaviour of the host: \<open>reg.exe\<close> as in \<open>Guard_Restore\<close>, the probe reads the values, and writing a value of the connections key leaves
  the values of the settings key alone.
\<close>

definition drift_documented :: "'w drift_host \<Rightarrow> ('w \<Rightarrow> string \<Rightarrow> reg_value option) \<Rightarrow> bool" where
  "drift_documented h val \<longleftrightarrow> reg_documented (dh_run h) val \<and> dh_read h = observed val \<and> (\<forall>n d w. val (snd (dh_set_blob h n d w)) = val w)"

definition loopback :: "registry_snapshot \<Rightarrow> bool" where
  "loopback r \<longleftrightarrow> is_localhost_proxy (parse_proxy_server (rs_proxy_server r))"

definition cleared :: "bool \<Rightarrow> (string \<Rightarrow> reg_value option) \<Rightarrow> string \<Rightarrow> reg_value option" where
  "cleared local v = (v(''ProxyEnable'' \<mapsto> DWORD 0))(''ProxyServer'' := if local then None else v ''ProxyServer'')"

lemma loopback_text: "loopback r \<Longrightarrow> nonempty_text (rs_proxy_server r)"
  by (cases "rs_proxy_server r")
     (auto simp: loopback_def nonempty_text_def text_or_empty_def parse_proxy_server_def missing_proxy_def)

lemma loopback_port:
  assumes "loopback r"
  obtains p where "localhost_port (parse_proxy_server (rs_proxy_server r)) = Some p" and "1 \<le> p" and "p \<le> 65535"
  using assms parse_wf [of "rs_proxy_server r"] by (auto simp: loopback_def wf_parsed_def)

lemma int_str_0: "int_str 0 = ''0''"
  by code_simp

lemma run_delete:
  assumes "reg_documented run val"
  shows "val (snd (run_external_argv t run False (reg_delete name) w)) = (val w)(name := None)"
proof -
  obtain out err where "fst (run (reg_delete name) w) = Finished (if val w name = None then 1 else 0) out err"
    "val (snd (run (reg_delete name) w)) = (val w)(name := None)" using assms unfolding reg_documented_def by blast
  then show ?thesis by (cases "run (reg_delete name) w") (simp add: run_external_argv_def)
qed

lemma run_disable: "reg_documented run val \<Longrightarrow>
    val (snd (run_external_argv t run False (reg_add ''ProxyEnable'' ''REG_DWORD'' ''0'') w)) = (val w)(''ProxyEnable'' \<mapsto> DWORD 0)"
  using run_dword(1) [of run val 0 t "''ProxyEnable''" w] by (simp add: int_str_0)

lemma mutations_effect:
  assumes "reg_documented run val"
  shows "val (snd (apply_mutations run False (fst (build_proxy_fix_mutations (rs_proxy_server r) False)) w)) = cleared (loopback r) (val w)"
proof -
  have "is_localhost_proxy (parse_proxy_server (rs_proxy_server r)) \<and> nonempty_text (rs_proxy_server r) \<longleftrightarrow> loopback r"
    using loopback_text by (auto simp: loopback_def)
  then show ?thesis
    using assms by (auto simp: apply_mutations_def build_proxy_fix_mutations_def Let_def split_beta run_disable run_delete cleared_def fun_eq_iff)
qed

lemma blobs_effect:
  assumes "\<And>n d w. val (snd (dh_set_blob h n d w)) = val w"
  shows "val (snd (snd (clear_blobs h ns w))) = val w"
proof (induction ns arbitrary: w)
  case (Cons n ns)
  have "val w1 = val w" if "dh_set_blob h n d w = (e, w1)" for d e w1 using assms [of n d w] that by simp
  moreover have "val w2 = val w1" if "clear_blobs h ns w1 = (c, e, w2)" for c e w1 w2 using Cons.IH [of w1] that by simp
  ultimately show ?case using Cons.IH by (auto split: option.split blob_value.split prod.split)
qed simp

lemma blob_effect:
  assumes "drift_documented h val"
  shows "val (snd (clear_wininet_connection_proxy_blob h w)) = val w"
proof -
  have "val (snd (snd (clear_blobs h ns w))) = val w" for ns using assms by (intro blobs_effect) (simp add: drift_documented_def)
  then show ?thesis
    by (cases "dh_open_connections h w")
       (simp_all add: clear_wininet_connection_proxy_blob_def split_beta Let_def del: clear_blobs.simps)
qed

lemma confirmed_disable:
  "set requested \<subseteq> {''ProxyEnable'', ''ProxyServer'', ''AutoConfigURL''} \<Longrightarrow>
     fst (validate_action_confirmation ''disable_wininet_proxy'' False phrase requested) = ALLOW \<longleftrightarrow> py_strip phrase = ''DISABLE_WININET_PROXY''"
proof -
  assume r: "set requested \<subseteq> {''ProxyEnable'', ''ProxyServer'', ''AutoConfigURL''}"
  obtain a where a: "get_remediation_action ''disable_wininet_proxy'' = Some a" "blocked_reason a = []"
    "allowed_registry_fields a = [''ProxyEnable'', ''ProxyServer'', ''AutoConfigURL'']" "required_confirmation a = ''DISABLE_WININET_PROXY''"
    by (simp add: get_remediation_action_def remediation_action_catalog_def)
  have "filter (\<lambda>f. f \<notin> set (allowed_registry_fields a)) requested = []" using r a(3) by (auto simp: filter_empty_conv)
  then show ?thesis using a by (auto simp: validate_action_confirmation_def Let_def sorted_set_def)
qed

lemma phrase_strips: "py_strip CONFIRM_CLEAR_PAC \<noteq> ''DISABLE_WININET_PROXY''" "py_strip CONFIRMATION_PHRASE = ''DISABLE_WININET_PROXY''"
  by code_simp+

lemma fix_allowed: "fr_allowed (fst (apply_proxy_fix h dry_run confirm pac st)) \<longleftrightarrow> \<not> dry_run \<and> \<not> pac \<and> confirm = CONFIRMATION_PHRASE"
proof -
  let ?req = "[''ProxyEnable''] @ (if is_localhost_proxy (parse_proxy_server (rs_proxy_server (dh_read h (dr_world st))))
      \<and> nonempty_text (rs_proxy_server (dh_read h (dr_world st))) then [''ProxyServer''] else []) @ (if pac then [''AutoConfigURL''] else [])"
  have v: "fst (validate_action_confirmation ''disable_wininet_proxy'' False ph ?req) = ALLOW \<longleftrightarrow> py_strip ph = ''DISABLE_WININET_PROXY''" for ph
    by (rule confirmed_disable) auto
  show ?thesis
    using v [of CONFIRMATION_PHRASE] v [of CONFIRM_CLEAR_PAC] phrase_strips
    by (auto simp: apply_proxy_fix_def Let_def split_beta)
qed

lemma fix_world:
  assumes "drift_documented h val"
  shows "fr_allowed (fst (apply_proxy_fix h dry_run confirm pac st)) \<Longrightarrow>
      val (dr_world (snd (apply_proxy_fix h dry_run confirm pac st))) = cleared (loopback (dh_read h (dr_world st))) (val (dr_world st)) \<and>
      fr_after (fst (apply_proxy_fix h dry_run confirm pac st)) = Some (dh_read h (dr_world (snd (apply_proxy_fix h dry_run confirm pac st))))"
    and "\<not> fr_allowed (fst (apply_proxy_fix h dry_run confirm pac st)) \<Longrightarrow>
      dr_world (snd (apply_proxy_fix h dry_run confirm pac st)) = dr_world st"
proof -
  assume a: "fr_allowed (fst (apply_proxy_fix h dry_run confirm pac st))"
  then have "\<not> dry_run" "\<not> pac" "confirm = CONFIRMATION_PHRASE" by (simp_all add: fix_allowed)
  with a show "val (dr_world (snd (apply_proxy_fix h dry_run confirm pac st))) = cleared (loopback (dh_read h (dr_world st))) (val (dr_world st)) \<and>
      fr_after (fst (apply_proxy_fix h dry_run confirm pac st)) = Some (dh_read h (dr_world (snd (apply_proxy_fix h dry_run confirm pac st))))"
    using blob_effect [OF assms] mutations_effect [of "dh_run h" val] assms
    by (auto simp: apply_proxy_fix_def Let_def split_beta drift_documented_def split: if_splits)
next
  assume "\<not> fr_allowed (fst (apply_proxy_fix h dry_run confirm pac st))"
  then show "dr_world (snd (apply_proxy_fix h dry_run confirm pac st)) = dr_world st"
    by (auto simp: apply_proxy_fix_def Let_def split_beta split: if_splits)
qed

section \<open>A turn of the guardian\<close>

text \<open>The machine as a turn sees it: an enabled proxy on the loopback, its port, whether something listens there, and a failed path.\<close>

definition loopback_on :: "'w drift_host \<Rightarrow> 'w \<Rightarrow> bool" where
  "loopback_on h w \<longleftrightarrow> rs_proxy_enable (dh_read h w) = Some 1 \<and> loopback (dh_read h w)"

definition proxy_port :: "'w drift_host \<Rightarrow> 'w \<Rightarrow> int option" where
  "proxy_port h w = localhost_port (parse_proxy_server (rs_proxy_server (dh_read h w)))"

definition listens :: "'w drift_host \<Rightarrow> 'w \<Rightarrow> bool" where
  "listens h w \<longleftrightarrow> (case proxy_port h w of None \<Rightarrow> False | Some p \<Rightarrow> dh_listening h p w)"

definition path_fails :: "'w drift_host \<Rightarrow> guardian_options \<Rightarrow> 'w \<Rightarrow> bool" where
  "path_fails h g w \<longleftrightarrow> (case proxy_port h w of
     None \<Rightarrow> False
   | Some p \<Rightarrow> pt_proxy_ok (assess_localhost_proxy_path h p (go_path_health g) w) = Some False \<and>
               pt_direct_ok (assess_localhost_proxy_path h p (go_path_health g) w) \<noteq> None)"

lemma observe_findings:
  "gr_dead (guardian_observe h g w) \<longleftrightarrow> loopback_on h w \<and> \<not> listens h w"
  "gr_hold_hit (guardian_observe h g w) \<longleftrightarrow> go_hold_direct g \<and> loopback_on h w \<and> listens h w"
  "gr_broken (guardian_observe h g w) \<longleftrightarrow> \<not> go_hold_direct g \<and> go_clear_broken g \<and> loopback_on h w \<and> listens h w \<and> path_fails h g w"
proof -
  have "gr_dead (guardian_observe h g w) = (loopback_on h w \<and> \<not> listens h w) \<and>
    gr_hold_hit (guardian_observe h g w) = (go_hold_direct g \<and> loopback_on h w \<and> listens h w) \<and>
    gr_broken (guardian_observe h g w) = (\<not> go_hold_direct g \<and> go_clear_broken g \<and> loopback_on h w \<and> listens h w \<and> path_fails h g w)"
  proof (cases "loopback_on h w")
    case True
    then obtain p where p: "localhost_port (parse_proxy_server (rs_proxy_server (dh_read h w))) = Some p" "1 \<le> p"
      using loopback_port [of "dh_read h w"] unfolding loopback_on_def by blast
    have l: "rs_proxy_enable (dh_read h w) = Some 1" "is_localhost_proxy (parse_proxy_server (rs_proxy_server (dh_read h w)))"
      using True by (simp_all add: loopback_on_def loopback_def)
    show ?thesis
      using p(2) True by (auto simp: guardian_observe_def Let_def split_beta l p(1) listens_def proxy_port_def path_fails_def port_given_def assess_broken_def)
  next
    case False
    then have "\<not> (rs_proxy_enable (dh_read h w) = Some 1 \<and> is_localhost_proxy (parse_proxy_server (rs_proxy_server (dh_read h w))))"
      by (simp add: loopback_on_def loopback_def)
    then show ?thesis using False by (auto simp: guardian_observe_def Let_def split_beta)
  qed
  then show
    "gr_dead (guardian_observe h g w) \<longleftrightarrow> loopback_on h w \<and> \<not> listens h w"
    "gr_hold_hit (guardian_observe h g w) \<longleftrightarrow> go_hold_direct g \<and> loopback_on h w \<and> listens h w"
    "gr_broken (guardian_observe h g w) \<longleftrightarrow> \<not> go_hold_direct g \<and> go_clear_broken g \<and> loopback_on h w \<and> listens h w \<and> path_fails h g w"
    by blast+
qed

text \<open>When a turn clears the settings.\<close>

definition clear_due :: "'w drift_host \<Rightarrow> guardian_options \<Rightarrow> 'w \<Rightarrow> bool" where
  "clear_due h g w \<longleftrightarrow> \<not> go_dry_run g \<and> loopback_on h w \<and>
     (if listens h w then (go_hold_direct g \<or> go_clear_broken g \<and> path_fails h g w) \<and> go_confirm_broken g = CONFIRM_PREFER_DIRECT
      else go_confirm g = CONFIRM_CLEAR_DEAD)"

lemma audit_world [simp]: "dr_world (guardian_audit h e r st) = dr_world st" "dr_log (guardian_audit h e r st) = dr_log st @ [(e, r)]"
  by (simp_all add: guardian_audit_def)

lemma fix_log [simp]: "dr_log (snd (apply_proxy_fix h d c p st)) = dr_log st"
  by (auto simp: apply_proxy_fix_def Let_def split_beta)

lemma fix_default: "fr_allowed (fst (apply_proxy_fix h False CONFIRMATION_PHRASE False st))"
  by (simp add: fix_allowed)

lemma observe_action: "gr_action (guardian_observe h g w) = ''none''" "gr_registry (guardian_observe h g w) = dh_read h w"
  by (simp_all add: guardian_observe_def Let_def split_beta)

lemma turn_cases:
  "(clear_due h g (dr_world st) \<longrightarrow>
      gr_action (fst (run_dead_proxy_guardian_once h g st)) = ''remediated'' \<and>
      dr_world (snd (run_dead_proxy_guardian_once h g st)) = dr_world (snd (apply_proxy_fix h False CONFIRMATION_PHRASE False st))) \<and>
   (\<not> clear_due h g (dr_world st) \<longrightarrow>
      gr_action (fst (run_dead_proxy_guardian_once h g st)) \<noteq> ''remediated'' \<and>
      dr_world (snd (run_dead_proxy_guardian_once h g st)) = dr_world st) \<and>
   (\<exists>e. dr_log (snd (run_dead_proxy_guardian_once h g st)) = dr_log st @ [(e, fst (run_dead_proxy_guardian_once h g st))])"
  using fix_default [of h st]
  by (auto simp: run_dead_proxy_guardian_once_def Let_def split_beta clear_due_def guardian_case_of_def observe_findings observe_action
      CONFIRMATION_PHRASE_def)

lemma read_cleared:
  assumes "drift_documented h val" and "val w = cleared l v"
  shows "rs_proxy_enable (dh_read h w) = Some 0" and "l \<Longrightarrow> rs_proxy_server (dh_read h w) = None"
  using assms by (simp_all add: drift_documented_def observed_def cleared_def)

lemma turn_effect:
  assumes "drift_documented h val"
  shows "val (dr_world (snd (run_dead_proxy_guardian_once h g st))) =
    (if clear_due h g (dr_world st) then cleared True (val (dr_world st)) else val (dr_world st))"
proof (cases "clear_due h g (dr_world st)")
  case True
  then have "loopback (dh_read h (dr_world st))" by (simp add: clear_due_def loopback_on_def)
  then show ?thesis using turn_cases [of h g st] True fix_world(1) [OF assms fix_default, of st] by simp
next
  case False
  then show ?thesis using turn_cases [of h g st] by simp
qed

lemma cleared_off: "drift_documented h val \<Longrightarrow> val w = cleared l v \<Longrightarrow> \<not> loopback_on h w"
  using read_cleared(1) by (fastforce simp: loopback_on_def)

section \<open>The automatic fix\<close>

lemma status_facts:
  "ps_registry (read_proxy_drift_status h a b c w) = dh_read h w"
  "ps_port (read_proxy_drift_status h a b c w) = proxy_port h w"
  "ps_dead (read_proxy_drift_status h a b c w) \<Longrightarrow> loopback_on h w \<and> \<not> listens h w"
  "ps_broken (read_proxy_drift_status h a b c w) \<Longrightarrow> loopback_on h w \<and> listens h w"
proof -
  let ?x = "\<lambda>l p d. \<lparr>de_proxy_enable = rs_proxy_enable (dh_read h w), de_proxy_server = rs_proxy_server (dh_read h w),
     de_auto_config_url = rs_auto_config_url (dh_read h w), de_winhttp_direct = None, de_listener_found = l, de_listener_exited = False,
     de_process_name = None, de_command_line = None, de_proxy_probe_ok = p, de_direct_probe_ok = d\<rparr>"
  have dead: "dc_label (classify_proxy_drift (?x l p d)) \<in> set dead_classifications \<Longrightarrow> l = Some False \<and> loopback_on h w" for l p d
    by (auto simp: classify_proxy_drift_def drift_label_def Let_def split_beta dead_classifications_def loopback_on_def loopback_def split: if_splits)
  have broken: "dc_label (classify_proxy_drift (?x l p d)) \<in> set broken_classifications \<Longrightarrow> l = Some True \<and> loopback_on h w" for l p d
    by (auto simp: classify_proxy_drift_def drift_label_def Let_def split_beta broken_classifications_def loopback_on_def loopback_def split: if_splits)
  show "ps_registry (read_proxy_drift_status h a b c w) = dh_read h w" "ps_port (read_proxy_drift_status h a b c w) = proxy_port h w"
    by (simp_all add: read_proxy_drift_status_def Let_def proxy_port_def)
  show "ps_dead (read_proxy_drift_status h a b c w) \<Longrightarrow> loopback_on h w \<and> \<not> listens h w"
    by (simp add: read_proxy_drift_status_def Let_def) (drule dead, auto simp: listens_def proxy_port_def split: option.splits)
  show "ps_broken (read_proxy_drift_status h a b c w) \<Longrightarrow> loopback_on h w \<and> listens h w"
    by (simp add: read_proxy_drift_status_def Let_def) (drule broken, auto simp: listens_def proxy_port_def split: option.splits)
qed

lemma auto_turn: "clear_due h (guardian_for_auto d) w \<longleftrightarrow> \<not> d \<and> loopback_on h w \<and> \<not> listens h w"
  by (auto simp: clear_due_def guardian_for_auto_def)

text \<open>When the automatic fix clears an active proxy.\<close>

definition prefer_due :: "'w drift_host \<Rightarrow> auto_options \<Rightarrow> 'w \<Rightarrow> bool" where
  "prefer_due h ao w \<longleftrightarrow> rs_proxy_enable (dh_read h w) = Some 1 \<and> proxy_port h w \<noteq> None \<and>
     (ao_prefer_direct ao \<or> ps_broken (read_proxy_drift_status h None None False w)) \<and> ao_confirm ao = CONFIRM_PREFER_DIRECT"

lemma core_effect:
  assumes "drift_documented h val"
  shows "val (dr_world (snd (auto_fix_core h ao st))) =
      (if ao_dry_run ao then val (dr_world st)
       else if loopback_on h (dr_world st) \<and> \<not> listens h (dr_world st) then cleared True (val (dr_world st))
       else if prefer_due h ao (dr_world st) then cleared (loopback (dh_read h (dr_world st))) (val (dr_world st))
       else val (dr_world st))" (is ?V)
    and "\<not> ao_dry_run ao \<Longrightarrow> (loopback_on h (dr_world st) \<and> \<not> listens h (dr_world st)) \<or> prefer_due h ao (dr_world st) \<Longrightarrow>
      snd (snd (fst (auto_fix_core h ao st))) = ''healthy''"
proof -
  let ?st1 = "snd (run_dead_proxy_guardian_once h (guardian_for_auto (ao_dry_run ao)) st)"
  let ?dead = "loopback_on h (dr_world st) \<and> \<not> listens h (dr_world st)"
  let ?H = "\<not> ao_dry_run ao \<longrightarrow> ?dead \<or> prefer_due h ao (dr_world st) \<longrightarrow> snd (snd (fst (auto_fix_core h ao st))) = ''healthy''"
  have e1: "val (dr_world ?st1) = (if \<not> ao_dry_run ao \<and> ?dead then cleared True (val (dr_world st)) else val (dr_world st))"
    using turn_effect [OF assms, of "guardian_for_auto (ao_dry_run ao)" st] by (simp add: auto_turn)
  have same: "\<not> (\<not> ao_dry_run ao \<and> ?dead) \<Longrightarrow> dr_world ?st1 = dr_world st"
    using turn_cases [of h "guardian_for_auto (ao_dry_run ao)" st] by (simp add: auto_turn)
  have off: "\<not> (ps_dead (drift_status_of h ?st1) \<and> \<not> ao_dry_run ao)"
  proof (cases "\<not> ao_dry_run ao \<and> ?dead")
    case True
    then show ?thesis using e1 cleared_off [OF assms, of "dr_world ?st1"] status_facts(3) by fastforce
  next
    case False
    then show ?thesis using same status_facts(3) by fastforce
  qed
  let ?s2 = "drift_status_of h ?st1"
  let ?p = "localhost_enabled ?s2 \<and> (ao_prefer_direct ao \<or> ps_broken ?s2)"
  let ?c = "prefer_direct_clear h (ao_dry_run ao) (ao_confirm ao) ?s2 (prefer_reason (ps_broken ?s2)) ?st1"
  have core: "snd (auto_fix_core h ao st) = (if ?p then snd ?c else ?st1)"
    "snd (snd (fst (auto_fix_core h ao st))) = auto_outcome (ao_dry_run ao) (ao_prefer_direct ao) (drift_status_of h (if ?p then snd ?c else ?st1))
       (localhost_enabled ?s2) (is_blocked (if ?p then Some (fst ?c) else None))"
    unfolding auto_fix_core_def Let_def split_beta if_not_P [OF off] by auto
  have gone: "\<not> localhost_enabled (drift_status_of h st') \<and> \<not> ps_dead (drift_status_of h st') \<and> \<not> ps_broken (drift_status_of h st')"
    if "val (dr_world st') = cleared l v" for st' l v
    using read_cleared(1) [OF assms that] cleared_off [OF assms that] status_facts(3,4) [of h None None False "dr_world st'"]
    by (auto simp: localhost_enabled_def status_facts(1))
  have "?V \<and> ?H"
  proof (cases "ao_dry_run ao")
    case True
    then show ?thesis using e1 core(1) by (simp add: prefer_direct_clear_def)
  next
    case live: False
    show ?thesis
    proof (cases ?dead)
      case True
      with live e1 have c: "val (dr_world ?st1) = cleared True (val (dr_world st))" by simp
      then show ?thesis using live True core gone [OF c] by (simp add: auto_outcome_def is_blocked_def)
    next
      case False
      then have w: "dr_world ?st1 = dr_world st" using same by blast
      have due: "prefer_due h ao (dr_world st) \<longleftrightarrow> ?p \<and> ao_confirm ao = CONFIRM_PREFER_DIRECT"
        using w by (auto simp: prefer_due_def localhost_enabled_def status_facts(1,2))
      have fx: "val (dr_world (snd (apply_proxy_fix h False CONFIRMATION_PHRASE False ?st1))) = cleared (loopback (dh_read h (dr_world st))) (val (dr_world st))"
        using fix_world(1) [OF assms fix_default, of ?st1] w by simp
      show ?thesis
      proof (cases "prefer_due h ao (dr_world st)")
        case True
        then have "snd ?c = snd (apply_proxy_fix h False CONFIRMATION_PHRASE False ?st1)" "\<not> is_blocked (Some (fst ?c))"
          using due live by (simp_all add: prefer_direct_clear_def split_beta is_blocked_def)
        moreover from True due have "?p" by blast
        note core = core [unfolded if_P [OF this]]
        ultimately have "dr_world (snd (auto_fix_core h ao st)) = dr_world (snd (apply_proxy_fix h False CONFIRMATION_PHRASE False ?st1))"
          "snd (snd (fst (auto_fix_core h ao st))) = ''healthy''"
          using core gone [OF fx] by (simp_all add: auto_outcome_def)
        then show ?thesis using True live False fx by auto
      next
        case never: False
        then have keep: "?p \<Longrightarrow> snd ?c = ?st1" using due live by (simp add: prefer_direct_clear_def)
        have "snd (auto_fix_core h ao st) = ?st1" unfolding core(1) using keep by (rule if_split [THEN iffD2, OF conjI, OF impI impI]) simp_all
        then have "dr_world (snd (auto_fix_core h ao st)) = dr_world st" using w by simp
        then show ?thesis using never live False by auto
      qed
    qed
  qed
  then show ?V "\<not> ao_dry_run ao \<Longrightarrow> ?dead \<or> prefer_due h ao (dr_world st) \<Longrightarrow> snd (snd (fst (auto_fix_core h ao st))) = ''healthy''"
    by blast+
qed

section \<open>Properties\<close>

text \<open>The binary settings: the flag of the manual proxy and the four bytes after it are cleared, every other byte and the length are kept.\<close>

lemma blob_bytes_exact:
  assumes "16 \<le> length data"
  shows "length (clear_blob_bytes data) = length data"
    and "bit (clear_blob_bytes data ! 8) n \<longleftrightarrow> bit (data ! 8) n \<and> n \<noteq> 1"
    and "i < length data \<Longrightarrow> i \<noteq> 8 \<Longrightarrow> clear_blob_bytes data ! i = (if i \<in> {12, 13, 14, 15} then 0 else data ! i)"
    and "clear_blob_bytes (clear_blob_bytes data) = clear_blob_bytes data"
proof -
  show l: "length (clear_blob_bytes data) = length data" by (simp add: clear_blob_bytes_def)
  have two: "bit (2 :: 8 word) n \<longleftrightarrow> n = 1" for n using bit_exp_iff [of 1 n, where 'a = "8 word"] by auto
  show b: "bit (clear_blob_bytes data ! 8) n \<longleftrightarrow> bit (data ! 8) n \<and> n \<noteq> 1" for n
  proof -
    have "clear_blob_bytes data ! 8 = data ! 8 AND NOT proxy_type_proxy" using assms by (simp add: clear_blob_bytes_def)
    moreover have "bit (NOT proxy_type_proxy) n \<longleftrightarrow> n < 8 \<and> n \<noteq> 1" unfolding proxy_type_proxy_def bit_not_iff two by simp
    ultimately show ?thesis by (auto simp: bit_and_iff dest: bit_imp_le_length)
  qed
  show o: "i < length data \<Longrightarrow> i \<noteq> 8 \<Longrightarrow> clear_blob_bytes data ! i = (if i \<in> {12, 13, 14, 15} then 0 else data ! i)" for i
    using assms by (auto simp: clear_blob_bytes_def nth_list_update)
  show "clear_blob_bytes (clear_blob_bytes data) = clear_blob_bytes data"
    using assms by (intro nth_equalityI) (auto simp: clear_blob_bytes_def nth_list_update proxy_type_proxy_def)
qed

text \<open>The fix runs exactly for a live call with the phrase for the manual proxy; a call that asks to clear the PAC address is refused with every phrase.\<close>

lemma proxy_fix_exact:
  assumes "drift_documented h val"
  shows "let (r, st') = apply_proxy_fix h dry_run confirm clear_pac st
    in fr_allowed r = (\<not> dry_run \<and> \<not> clear_pac \<and> confirm = CONFIRMATION_PHRASE) \<and>
       (fr_allowed r \<longrightarrow> val (dr_world st') = cleared (loopback (dh_read h (dr_world st))) (val (dr_world st)) \<and>
          fr_after r = Some (dh_read h (dr_world st'))) \<and>
       (\<not> fr_allowed r \<longrightarrow> dr_world st' = dr_world st) \<and> dr_log st' = dr_log st"
  using fix_world [OF assms, of dry_run confirm clear_pac st] fix_allowed [of h dry_run confirm clear_pac st] fix_log [of h dry_run confirm clear_pac st]
  by (cases "apply_proxy_fix h dry_run confirm clear_pac st") auto

lemma pac_never_cleared: "\<not> fr_allowed (fst (apply_proxy_fix h dry_run confirm True st))"
  by (simp add: fix_allowed)

text \<open>
  C32. One turn of the guardian: it remediates exactly on a live turn that finds an enabled loopback proxy which is dead and its phrase was typed, or
  which is alive, unwanted or with a failed path as the options ask, and the other phrase was typed. It then leaves the settings with the proxy off and its
  address removed and every other value as it was; otherwise the machine is untouched. Each turn writes one row, its result.
\<close>

theorem guardian_turn_exact:
  assumes "drift_documented h val"
  shows "let (r, st') = run_dead_proxy_guardian_once h g st; w = dr_world st; on_loopback = loopback_on h w; alive = listens h w
    in (gr_action r = ''remediated'' \<longleftrightarrow> \<not> go_dry_run g \<and> on_loopback \<and>
          (\<not> alive \<and> go_confirm g = CONFIRM_CLEAR_DEAD \<or>
           alive \<and> (go_hold_direct g \<or> go_clear_broken g \<and> path_fails h g w) \<and> go_confirm_broken g = CONFIRM_PREFER_DIRECT)) \<and>
       (gr_action r = ''remediated'' \<longrightarrow> val (dr_world st') = (val w)(''ProxyEnable'' \<mapsto> DWORD 0, ''ProxyServer'' := None)) \<and>
       (gr_action r \<noteq> ''remediated'' \<longrightarrow> dr_world st' = w) \<and>
       (\<exists>e. dr_log st' = dr_log st @ [(e, r)])"
proof -
  have "clear_due h g (dr_world st) \<longleftrightarrow> \<not> go_dry_run g \<and> loopback_on h (dr_world st) \<and>
      (\<not> listens h (dr_world st) \<and> go_confirm g = CONFIRM_CLEAR_DEAD \<or>
       listens h (dr_world st) \<and> (go_hold_direct g \<or> go_clear_broken g \<and> path_fails h g (dr_world st)) \<and> go_confirm_broken g = CONFIRM_PREFER_DIRECT)"
    by (auto simp: clear_due_def)
  then show ?thesis
    using turn_cases [of h g st] turn_effect [OF assms, of g st]
    by (cases "run_dead_proxy_guardian_once h g st"; cases "clear_due h g (dr_world st)") (simp_all add: Let_def cleared_def)
qed

text \<open>The options under which the guardian promises direct access.\<close>

definition holds_direct :: "guardian_options \<Rightarrow> bool" where
  "holds_direct g \<longleftrightarrow> \<not> go_dry_run g \<and> go_hold_direct g \<and> go_confirm g = CONFIRM_CLEAR_DEAD \<and> go_confirm_broken g = CONFIRM_PREFER_DIRECT"

lemma turn_off:
  assumes "drift_documented h val" and "holds_direct g"
  shows "\<not> loopback_on h (dr_world (snd (run_dead_proxy_guardian_once h g st)))"
proof (cases "loopback_on h (dr_world st)")
  case True
  then have "clear_due h g (dr_world st)" using assms(2) by (simp add: clear_due_def holds_direct_def)
  then show ?thesis using turn_effect [OF assms(1), of g st] cleared_off [OF assms(1)] by fastforce
next
  case False
  then have "\<not> clear_due h g (dr_world st)" by (simp add: clear_due_def)
  then show ?thesis using turn_cases [of h g st] False by simp
qed

lemma loop_run:
  assumes "drift_documented h val" and "holds_direct g" and "n \<noteq> 0"
  shows "\<not> loopback_on h (dr_world (snd (run_dead_proxy_guardian_loop h g sleep k n st))) \<and>
     length (fst (run_dead_proxy_guardian_loop h g sleep k n st)) = n \<and>
     map snd (dr_log (snd (run_dead_proxy_guardian_loop h g sleep k n st))) =
       map snd (dr_log st) @ fst (run_dead_proxy_guardian_loop h g sleep k n st)"
  using assms(3)
proof (induction n arbitrary: k st)
  case (Suc n)
  obtain e where e: "dr_log (snd (run_dead_proxy_guardian_once h g st)) = dr_log st @ [(e, fst (run_dead_proxy_guardian_once h g st))]"
    using turn_cases [of h g st] by blast
  show ?case
  proof (cases "n = 0")
    case True
    then show ?thesis using turn_off [OF assms(1,2), of st] e by (simp add: split_beta)
  next
    case False
    then show ?thesis using Suc.IH e by (simp add: split_beta)
  qed
qed simp

text \<open>
  C33. With both phrases typed the guardian that holds direct access keeps its promise: whatever the rest of the machine does to the settings while it sleeps,
  after each of its turns no loopback proxy is enabled, and every turn has returned a result and written it to the log.
\<close>

theorem guardian_holds_direct:
  assumes "drift_documented h val" and "holds_direct g" and "0 < n"
  shows "let (results, st') = run_dead_proxy_guardian_loop h g sleep 0 n st
    in (rs_proxy_enable (dh_read h (dr_world st')) = Some 1 \<longrightarrow>
          \<not> is_localhost_proxy (parse_proxy_server (rs_proxy_server (dh_read h (dr_world st'))))) \<and>
       length results = n \<and> map snd (dr_log st') = map snd (dr_log st) @ results"
  using loop_run [OF assms(1,2), of n sleep 0 st] assms(3)
  by (cases "run_dead_proxy_guardian_loop h g sleep 0 n st") (simp add: loopback_on_def loopback_def)

text \<open>
  A script of the repository as the automatic fix runs it, on the world alone: unless it is left out or its file is missing the runner is called; the first
  component is the exception the runner raises, if any.
\<close>

definition script_run :: "'w drift_host \<Rightarrow> bool \<Rightarrow> string \<Rightarrow> string list \<Rightarrow> 'w \<Rightarrow> string option \<times> 'w" where
  "script_run h left_out script extra w =
     (if left_out then (None, w)
      else case dh_script h script of
             None \<Rightarrow> (None, w)
           | Some path \<Rightarrow>
               (case dh_run h ([''powershell'', ''-NoProfile'', ''-ExecutionPolicy'', ''Bypass'', ''-File'', path] @ extra) w of
                  (Raised e, w') \<Rightarrow> (Some e, w')
                | (Finished rc out err, w') \<Rightarrow> (None, w')))"

text \<open>A script step of the fix: the report or the exception, and the world of \<open>script_run\<close>.\<close>

lemma script_step:
  fixes h :: "'w drift_host"
  defines "step \<equiv> \<lambda>left_out name script missing extra len st :: 'w drift_state.
      if \<not> left_out then (case run_repo_script h name script missing extra len st of (r, s) \<Rightarrow> (bind_r r (\<lambda>x. Inr [Script_Step x]), s)) else (Inr [], st)"
  shows "snd (step left_out name script missing extra len st) = st\<lparr>dr_world := snd (script_run h left_out script extra (dr_world st))\<rparr>"
    and "case fst (script_run h left_out script extra (dr_world st)) of
        None \<Rightarrow> \<exists>xs. fst (step left_out name script missing extra len st) = Inr xs
      | Some e \<Rightarrow> fst (step left_out name script missing extra len st) = Inl (OSError e)"
  by (auto simp: step_def script_run_def run_repo_script_def split: option.splits prod.splits run_outcome.splits)

lemma core_final: "fst (snd (fst (auto_fix_core h ao st))) = drift_status_of h (snd (auto_fix_core h ao st))"
  by (simp add: auto_fix_core_def Let_def split_beta)

text \<open>What the statements between the scripts leave of the settings, and when they change them.\<close>

definition fix_due :: "'w drift_host \<Rightarrow> auto_options \<Rightarrow> 'w \<Rightarrow> bool" where
  "fix_due h ao w \<longleftrightarrow> \<not> ao_dry_run ao \<and> (loopback_on h w \<and> \<not> listens h w \<or> prefer_due h ao w)"

lemma core_settings:
  assumes "drift_documented h val"
  shows "val (dr_world (snd (auto_fix_core h ao st))) =
     (if fix_due h ao (dr_world st)
      then (val (dr_world st))(''ProxyEnable'' \<mapsto> DWORD 0,
             ''ProxyServer'' := if loopback (dh_read h (dr_world st)) then None else val (dr_world st) ''ProxyServer'')
      else val (dr_world st))"
proof -
  have "loopback_on h (dr_world st) \<Longrightarrow> loopback (dh_read h (dr_world st))" by (simp add: loopback_on_def)
  then show ?thesis using core_effect(1) [OF assms, of ao st] by (auto simp: fix_due_def cleared_def)
qed

text \<open>The run as a whole: the first script, the statements in between on the machine it leaves, the second script.\<close>

lemma auto_fix_run:
  fixes h :: "'w drift_host"
  assumes "dh_platform h = ''Windows''"
    and r1: "script_run h (ao_skip_cursor_fix ao \<or> ao_dry_run ao) ''configure-cursor-no-proxy.ps1'' [] (dr_world st) = (e1, w)"
    and c: "auto_fix_core h ao (st\<lparr>dr_world := w\<rparr>) = ((steps, final, outcome), st2)"
    and r2: "script_run h (ao_skip_guardian_install ao \<or> ao_dry_run ao) ''install-dead-proxy-guardian.ps1''
        [''-IntervalSeconds'', int_str (max 5 (ao_interval ao))] (dr_world st2) = (e2, w2)"
  shows "case e1 of
      Some e \<Rightarrow> run_auto_fix_proxy h ao st = (Inl (OSError e), st\<lparr>dr_world := w\<rparr>)
    | None \<Rightarrow> (case e2 of
        Some e \<Rightarrow> run_auto_fix_proxy h ao st = (Inl (OSError e), st2\<lparr>dr_world := w2\<rparr>)
      | None \<Rightarrow> \<exists>all. run_auto_fix_proxy h ao st =
          (Inr \<lparr>ar_outcome = outcome, ar_final = Some final, ar_steps = all\<rparr>, st2\<lparr>dr_world := w2\<rparr>))"
proof -
  let ?skip1 = "ao_skip_cursor_fix ao \<or> ao_dry_run ao" and ?skip2 = "ao_skip_guardian_install ao \<or> ao_dry_run ao"
  let ?args = "[''-IntervalSeconds'', int_str (max 5 (ao_interval ao))]"
  define p1 where "p1 = (if \<not> ?skip1 then (case run_repo_script h ''cursor_no_proxy'' ''configure-cursor-no-proxy.ps1'' ''script missing'' [] 2000 st of
      (r, s) \<Rightarrow> (bind_r r (\<lambda>x. Inr [Script_Step x]), s)) else (Inr [], st))"
  define p2 where "p2 = (if \<not> ?skip2 then (case run_repo_script h ''guardian_install'' ''install-dead-proxy-guardian.ps1'' ''installer missing'' ?args 3000 st2 of
      (r, s) \<Rightarrow> (bind_r r (\<lambda>x. Inr [Script_Step x]), s)) else (Inr [], st2))"
  have s1: "snd p1 = st\<lparr>dr_world := w\<rparr>" "case e1 of None \<Rightarrow> \<exists>xs. fst p1 = Inr xs | Some e \<Rightarrow> fst p1 = Inl (OSError e)"
    using script_step [where h = h and left_out = ?skip1 and script = "''configure-cursor-no-proxy.ps1''" and extra = "[]" and st = st
        and name = "''cursor_no_proxy''" and missing = "''script missing''" and len = 2000]
    unfolding p1_def [symmetric] r1 fst_conv snd_conv by blast+
  have s2: "snd p2 = st2\<lparr>dr_world := w2\<rparr>" "case e2 of None \<Rightarrow> \<exists>xs. fst p2 = Inr xs | Some e \<Rightarrow> fst p2 = Inl (OSError e)"
    using script_step [where h = h and left_out = ?skip2 and script = "''install-dead-proxy-guardian.ps1''" and extra = ?args and st = st2
        and name = "''guardian_install''" and missing = "''installer missing''" and len = 3000]
    unfolding p2_def [symmetric] r2 fst_conv snd_conv by blast+
  have "run_auto_fix_proxy h ao st = (case fst p1 of Inl e \<Rightarrow> (Inl e, snd p1)
      | Inr pre \<Rightarrow> (case fst p2 of Inl e \<Rightarrow> (Inl e, snd p2)
          | Inr post \<Rightarrow> (Inr \<lparr>ar_outcome = outcome, ar_final = Some final, ar_steps = pre @ steps @ post\<rparr>, snd p2)))"
    using assms(1) c s1(1) unfolding run_auto_fix_proxy_def run_cursor_no_proxy_script_def install_guardian_loop_def p2_def p1_def
    by (auto simp: split_beta split: sum.split if_splits)
  then show ?thesis using s1 s2 by (auto split: option.splits)
qed

text \<open>
  C34. The automatic fix, for every choice of options, with its two scripts. Off Windows nothing is done and the outcome is \<open>unsupported\<close>. Otherwise a live run
  that does not skip it first runs the Cursor script; if the runner raises, so does the fix, and nothing else is touched. Let \<open>w\<close> be the machine it leaves (a script whose own
  text says that it does not change the Internet Settings). The fix then sets \<open>ProxyEnable\<close> to 0, and removes \<open>ProxyServer\<close> where that names a loopback proxy,
  exactly when the run is live and the loopback proxy is enabled and dead, or a manual proxy with a port is enabled, direct access is preferred or its path failed, and the phrase was typed;
  a proxy on another host thus loses only \<open>ProxyEnable\<close>. Every other value is kept, the status reported as final is that of this machine, and after a
  change the outcome is healthy. Last, a live run that does not skip it hands this machine to the guardian's installer, whose exception is raised too.
\<close>

theorem auto_fix_exact:
  assumes "drift_documented h val"
  shows "let (res, st') = run_auto_fix_proxy h ao st;
       (e1, w) = script_run h (ao_skip_cursor_fix ao \<or> ao_dry_run ao) ''configure-cursor-no-proxy.ps1'' [] (dr_world st);
       due = (\<not> ao_dry_run ao \<and> (loopback_on h w \<and> \<not> listens h w \<or> prefer_due h ao w))
    in if dh_platform h \<noteq> ''Windows'' then res = Inr \<lparr>ar_outcome = ''unsupported'', ar_final = None, ar_steps = []\<rparr> \<and> st' = st
       else case e1 of
         Some e \<Rightarrow> res = Inl (OSError e) \<and> dr_world st' = w \<and> dr_log st' = dr_log st
       | None \<Rightarrow> \<exists>w1.
           val w1 = (if due then (val w)(''ProxyEnable'' \<mapsto> DWORD 0,
                       ''ProxyServer'' := if loopback (dh_read h w) then None else val w ''ProxyServer'') else val w) \<and>
           (let (e2, w2) = script_run h (ao_skip_guardian_install ao \<or> ao_dry_run ao) ''install-dead-proxy-guardian.ps1''
                  [''-IntervalSeconds'', int_str (max 5 (ao_interval ao))] w1
            in dr_world st' = w2 \<and>
               (case e2 of
                  Some e \<Rightarrow> res = Inl (OSError e)
                | None \<Rightarrow> \<exists>r. res = Inr r \<and> ar_final r = Some (read_proxy_drift_status h None None False w1) \<and>
                    (due \<longrightarrow> ar_outcome r = ''healthy'')))"
proof (cases "dh_platform h = ''Windows''")
  case True
  obtain e1 w where r1: "script_run h (ao_skip_cursor_fix ao \<or> ao_dry_run ao) ''configure-cursor-no-proxy.ps1'' [] (dr_world st) = (e1, w)" by fastforce
  obtain steps final outcome st2 where c: "auto_fix_core h ao (st\<lparr>dr_world := w\<rparr>) = ((steps, final, outcome), st2)" by (metis prod.exhaust)
  obtain e2 w2 where r2: "script_run h (ao_skip_guardian_install ao \<or> ao_dry_run ao) ''install-dead-proxy-guardian.ps1''
      [''-IntervalSeconds'', int_str (max 5 (ao_interval ao))] (dr_world st2) = (e2, w2)" by fastforce
  note run = auto_fix_run [OF True r1 c r2]
  have final: "final = read_proxy_drift_status h None None False (dr_world st2)" using core_final [of h ao "st\<lparr>dr_world := w\<rparr>"] c by simp
  have healthy: "fix_due h ao w \<Longrightarrow> outcome = ''healthy''"
    using core_effect(2) [OF assms, of ao "st\<lparr>dr_world := w\<rparr>"] c by (auto simp: fix_due_def)
  note settings = core_settings [OF assms, of ao "st\<lparr>dr_world := w\<rparr>", unfolded c snd_conv]
  show ?thesis
  proof (cases e1)
    case None
    with run show ?thesis
      unfolding r1 Let_def prod.case None option.case fix_due_def [symmetric]
      using True settings final healthy r2 by (cases e2) (auto intro!: exI [of _ "dr_world st2"])
  qed (use run in \<open>simp add: True r1\<close>)
qed (simp add: run_auto_fix_proxy_def Let_def split_beta)

text \<open>Three consequences: a preferred direct access takes any manual proxy with one address, the custody chain files the two other repairs as mere events, and the search for a
  port takes longer port numbers for it.\<close>

lemma prefer_direct_any_host:
  assumes "dh_read h w = r\<lparr>rs_proxy_enable := Some 1, rs_proxy_server := Some (host @ CHR '':'' # nat_str p)\<rparr>"
    and "host \<noteq> []" and "list_all (\<lambda>c. \<not> is_space c \<and> c \<noteq> CHR '':'' \<and> c \<noteq> CHR ''='') host" and "1 \<le> p" and "p \<le> 65535"
  shows "prefer_due h ao w \<longleftrightarrow>
    (ao_prefer_direct ao \<or> ps_broken (read_proxy_drift_status h None None False w)) \<and> ao_confirm ao = CONFIRM_PREFER_DIRECT"
  using parse_host_port [OF assms(2-5)] assms(1) by (simp add: prefer_due_def proxy_port_def)

lemma repairs_filed_as_events:
  "map_event_to_action ''guardian_apply'' = ''action_executed''"
  "map_event_to_action ''guardian_hold_direct_apply'' = ''event_received''" "map_event_to_action ''guardian_broken_apply'' = ''event_received''"
  by code_simp+

lemma longer_port_listens: "listening_line 80 ''TCP 127.0.0.1:8080 0.0.0.0:0 LISTENING 7''"
  by code_simp

section \<open>A machine with a dead loopback proxy\<close>

definition dead_world :: "(string \<times> reg_value) list" where
  "dead_world = [(''ProxyServer'', SZ (''127.0.0.1'' @ CHR '':'' # nat_str 8888)), (''ProxyEnable'', DWORD 1)]"

definition sample_host :: "(string \<times> reg_value) list drift_host" where
  "sample_host = \<lparr>dh_platform = ''Windows'', dh_run = reg_exe, dh_read = observed reg_read, dh_listening = (\<lambda>_ _. False), dh_netstat = (\<lambda>_. None),
     dh_tasklist = (\<lambda>_ _. None), dh_path = (\<lambda>_ _. no_path), dh_open_connections = (\<lambda>_. None), dh_query_blob = (\<lambda>_ _. None),
     dh_set_blob = (\<lambda>_ _ w. (None, w)), dh_script = (\<lambda>s. Some s), dh_call = (\<lambda>_. \<lparr>ac_uid = ''u'', ac_now = ''t'', ac_tip_ok = True\<rparr>)\<rparr>"

definition sample_drift_state :: "(string \<times> reg_value) list drift_state" where
  "sample_drift_state = \<lparr>dr_world = dead_world, dr_audit = \<lparr>audit_path = ''a.jsonl'', audit_lines = [], tip_file = None\<rparr>, dr_log = []\<rparr>"

definition hold_options :: guardian_options where
  "hold_options = \<lparr>go_dry_run = False, go_confirm = CONFIRM_CLEAR_DEAD, go_clear_broken = False, go_confirm_broken = CONFIRM_PREFER_DIRECT,
     go_hold_direct = True, go_path_health = None\<rparr>"

definition live_fix :: auto_options where
  "live_fix = \<lparr>ao_dry_run = False, ao_skip_guardian_install = False, ao_skip_cursor_fix = False, ao_interval = 15, ao_prefer_direct = False, ao_confirm = []\<rparr>"

lemma sample_documented: "drift_documented sample_host reg_read"
  using reg_exe_documented by (simp add: drift_documented_def sample_host_def)

lemma sample_dead: "loopback_on sample_host (dr_world sample_drift_state)" "\<not> listens sample_host (dr_world sample_drift_state)"
  using parse_loopback [of 8888]
  by (simp_all add: loopback_on_def loopback_def listens_def proxy_port_def sample_host_def sample_drift_state_def dead_world_def observed_def reg_read_def)

lemma hold_options_hold: "holds_direct hold_options"
  by (simp add: holds_direct_def hold_options_def)

theorem guardian_turn_exact_witness:
  "let (r, st') = run_dead_proxy_guardian_once sample_host hold_options sample_drift_state
   in gr_action r = ''remediated'' \<and> reg_read (dr_world st') = [''ProxyEnable'' \<mapsto> DWORD 0]"
proof -
  have w: "(reg_read (dr_world sample_drift_state))(''ProxyEnable'' \<mapsto> DWORD 0, ''ProxyServer'' := None) = [''ProxyEnable'' \<mapsto> DWORD 0]"
    by (auto simp: sample_drift_state_def dead_world_def reg_read_def fun_eq_iff)
  have "\<not> go_dry_run hold_options" "go_confirm hold_options = CONFIRM_CLEAR_DEAD" by (simp_all add: hold_options_def)
  then show ?thesis using guardian_turn_exact [OF sample_documented, of hold_options sample_drift_state] sample_dead w
    by (auto simp: Let_def split_beta)
qed

theorem guardian_holds_direct_witness:
  "let (results, st') = run_dead_proxy_guardian_loop sample_host hold_options (\<lambda>_ _. dead_world) 0 3 sample_drift_state
   in length results = 3 \<and> (rs_proxy_enable (dh_read sample_host (dr_world st')) = Some 1 \<longrightarrow>
        \<not> is_localhost_proxy (parse_proxy_server (rs_proxy_server (dh_read sample_host (dr_world st')))))"
  using guardian_holds_direct [OF sample_documented hold_options_hold, of 3 "\<lambda>_ _. dead_world" sample_drift_state] by (auto simp: split_beta)

lemma sample_script: "script_run sample_host b s extra w = (None, w)"
  by (simp add: script_run_def sample_host_def reg_exe.simps)

theorem auto_fix_exact_witness:
  "\<exists>r st'. run_auto_fix_proxy sample_host live_fix sample_drift_state = (Inr r, st') \<and> ar_outcome r = ''healthy'' \<and>
     reg_read (dr_world st') ''ProxyEnable'' = Some (DWORD 0) \<and> reg_read (dr_world st') ''ProxyServer'' = None"
proof -
  have "dh_platform sample_host = ''Windows''" "\<not> ao_dry_run live_fix" by (simp_all add: sample_host_def live_fix_def)
  moreover have "loopback (dh_read sample_host (dr_world sample_drift_state))" using sample_dead(1) by (simp add: loopback_on_def)
  ultimately show ?thesis using auto_fix_exact [OF sample_documented, of live_fix sample_drift_state] sample_dead
    by (cases "run_auto_fix_proxy sample_host live_fix sample_drift_state") (auto simp: Let_def sample_script)
qed

end
