(* ===== verification/Reasoning.thy ===== *)
theory Reasoning
  imports Canonical_State
begin

text \<open>
  The reasoning engine of the platform, \<open>platform_core/{reasoning_engine,failure_scenarios,impact_score,evidence_tree,policy_v2,reasoning_audit}.py\<close> over the
  models of \<open>platform_core/reasoning_models.py\<close>: observations become signals and events, events drive the scenario states and the canonical states of
  \<open>Canonical_State\<close>, hypotheses are ranked, an impact is derived, the requested action is judged, and the run is stored and replayed.

  Time stamps, audit metadata and the generated identifiers that no other part refers to are left out; the identifiers of events are given by their number. A
  stored record is the typed row it encodes.

  The lemmas give the exact verdict and show the guards after it to be redundant, say when a run raises and bound its numbers, and show that a stored
  run replays to the same decision.
\<close>

section \<open>Models\<close>

record reasoning_observation =
  ob_id :: string
  ob_source :: string
  ob_signal_name :: string
  ob_value :: pyval
  ob_normalized_value :: pyval
  ob_confidence :: rat
  ob_limitations :: "string list"
  ob_next_steps :: "string list"

record detected_event = endpoint_event +
  ev_source :: string
  ev_category :: string
  ev_severity :: string
  ev_confidence :: rat
  ev_observation_ids :: "string list"
  ev_details :: pydict
  ev_limitations :: "string list"
  ev_next_steps :: "string list"

record state_transition = scenario_transition +
  sx_evidence_level :: string
  sx_limitations :: "string list"
  sx_next_steps :: "string list"

datatype proof_status = NOT_RUN | CONFIRMED | REJECTED | INCONCLUSIVE

fun proof_status_value :: "proof_status \<Rightarrow> string" where
  "proof_status_value NOT_RUN = ''NOT_RUN''"
| "proof_status_value CONFIRMED = ''CONFIRMED''"
| "proof_status_value REJECTED = ''REJECTED''"
| "proof_status_value INCONCLUSIVE = ''INCONCLUSIVE''"

record proof_result =
  pf_source :: string
  pf_hypothesis :: string
  pf_status :: proof_status
  pf_confidence :: rat
  pf_checks_run :: "string list"
  pf_evidence :: "string list"
  pf_limitations :: "string list"
  pf_next_steps :: "string list"

definition default_proof :: proof_result where
  "default_proof = \<lparr>pf_source = ''proof_engine'', pf_hypothesis = [], pf_status = NOT_RUN, pf_confidence = 0, pf_checks_run = [], pf_evidence = [],
     pf_limitations = [], pf_next_steps = []\<rparr>"

datatype impact_severity = Low | Medium | High | Critical

fun severity_value :: "impact_severity \<Rightarrow> string" where
  "severity_value Low = ''low''"
| "severity_value Medium = ''medium''"
| "severity_value High = ''high''"
| "severity_value Critical = ''critical''"

datatype tri_state = PT_ALLOW | PT_PREVIEW | PT_BLOCK

record reasoning_policy =
  rp_source :: string
  rp_outcome :: tri_state
  rp_requested_action :: "string option"
  rp_hypothesis :: string
  rp_state_transition :: string
  rp_evidence_level :: string
  rp_proof_status :: proof_status
  rp_confidence :: rat
  rp_trust_level :: string
  rp_impact_level :: impact_severity
  rp_requires_confirmation :: bool
  rp_confirmation_phrase :: "string option"
  rp_reason_codes :: "string list"
  rp_blocked_actions :: "string list"
  rp_limitations :: "string list"
  rp_next_steps :: "string list"

section \<open>Signals and events\<close>

definition true_texts :: "string list" where
  "true_texts = [''true'', ''yes'', ''ok'', ''success'', ''succeeded'', ''enabled'', ''1'']"

text \<open>\<open>value in TRUE_VALUES\<close>: the set holds \<open>True\<close>, which equals 1 and 1.0; a list or dictionary has no hash.\<close>

fun is_true_value :: "pyval \<Rightarrow> bool py_result" where
  "is_true_value (PyStr s) = Inr (py_lower (py_strip s) \<in> set true_texts)"
| "is_true_value PyNone = Inr False"
| "is_true_value (PyBool b) = Inr b"
| "is_true_value (PyInt i) = Inr (i = 1)"
| "is_true_value (PyFloat v r) = Inr (v = 1)"
| "is_true_value v = Inl (TypeError (''unhashable type: '' @ py_repr_str (py_type_name v)))"

definition obs_value :: "reasoning_observation \<Rightarrow> pyval" where
  "obs_value ob = (if ob_normalized_value ob \<noteq> PyNone then ob_normalized_value ob else ob_value ob)"

definition observation_signal_map :: "reasoning_observation list \<Rightarrow> (string \<times> reasoning_observation) list" where
  "observation_signal_map obs = foldl (\<lambda>d ob. dict_set d (ob_signal_name ob) ob) [] obs"

definition normalize_signals :: "reasoning_observation list \<Rightarrow> pydict" where
  "normalize_signals obs = foldl (\<lambda>d ob. dict_set d (ob_signal_name ob) (obs_value ob)) [] obs"

definition event_severity :: "string \<Rightarrow> string" where
  "event_severity name =
     (if name \<in> {''wininet_proxy_changed'', ''localhost_proxy_detected'', ''wininet_proxy_enabled''} then ''low''
      else if name \<in> {''browser_https_failed'', ''proxied_path_failed''} then ''medium'' else ''info'')"

definition event_of :: "string \<Rightarrow> reasoning_observation \<Rightarrow> detected_event" where
  "event_of i ob = \<lparr>ee_id = i, ee_event_type = ob_signal_name ob, ev_source = ob_source ob, ev_category = event_category (ob_signal_name ob),
     ev_severity = event_severity (ob_signal_name ob), ev_confidence = ob_confidence ob, ev_observation_ids = [ob_id ob],
     ev_details = [(''value'', ob_value ob)], ev_limitations = ob_limitations ob, ev_next_steps = ob_next_steps ob\<rparr>"

text \<open>\<open>eid k\<close> is the identifier of the \<open>k\<close>-th event.\<close>

fun detect_from :: "(nat \<Rightarrow> string) \<Rightarrow> nat \<Rightarrow> reasoning_observation list \<Rightarrow> detected_event list py_result" where
  "detect_from eid k [] = Inr []"
| "detect_from eid k (ob # obs) =
     bind_r (is_true_value (obs_value ob)) (\<lambda>t.
       if \<not> t then detect_from eid k obs
       else bind_r (detect_from eid (Suc k) obs) (\<lambda>es. Inr (event_of (eid k) ob # es)))"

definition detect_endpoint_events :: "(nat \<Rightarrow> string) \<Rightarrow> reasoning_observation list \<Rightarrow> detected_event list py_result" where
  "detect_endpoint_events eid obs = detect_from eid 0 obs"

definition event_types :: "detected_event list \<Rightarrow> string set" where
  "event_types events = ee_event_type ` set events"

definition signal_has :: "pydict \<Rightarrow> string \<Rightarrow> bool" where
  "signal_has signals name =
     (case dict_get signals name of PyStr s \<Rightarrow> py_lower (py_strip s) \<in> set true_texts | v \<Rightarrow> truthy v)"

section \<open>Scenario\<close>

record scenario_rule =
  sr_id :: string
  sr_requires_any :: "string list"
  sr_requires_all :: "string list"
  sr_from_state :: string
  sr_to_state :: string

record failure_scenario =
  fs_id :: string
  fs_name :: string
  fs_description :: string
  fs_states :: "string list"
  fs_events :: "string list"
  fs_rules :: "scenario_rule list"
  fs_alternatives :: "string list"
  fs_limitations :: "string list"
  fs_next_steps :: "string list"

definition browser_proxy_path_regression :: failure_scenario where
  "browser_proxy_path_regression = \<lparr>fs_id = ''browser_proxy_path_regression'', fs_name = ''Browser proxy path regression'',
     fs_description = ''Browser and developer-tool HTTPS traffic is routed through a changed or broken local '' @ ''proxy while lower network layers remain healthy.'',
     fs_states = [''healthy_browser_path'', ''proxy_drift_detected'', ''browser_path_failure_suspected'', ''proxy_path_failure_confirmed'',
       ''remediation_preview_ready'', ''resolved'', ''unresolved''],
     fs_events = [''wininet_proxy_changed'', ''localhost_proxy_detected'', ''browser_https_failed'', ''dns_ok'', ''tcp443_ok'', ''proxy_bypass_succeeded'',
       ''proxied_path_failed'', ''policy_preview_allowed''],
     fs_rules =
       [\<lparr>sr_id = ''proxy_drift'', sr_requires_any = [''wininet_proxy_changed'', ''wininet_proxy_enabled'', ''localhost_proxy_detected''], sr_requires_all = [],
         sr_from_state = ''healthy_browser_path'', sr_to_state = ''proxy_drift_detected''\<rparr>,
        \<lparr>sr_id = ''browser_path_suspected'', sr_requires_any = [],
         sr_requires_all = [''ping_ok'', ''dns_ok'', ''tcp443_ok'', ''browser_https_failed'', ''wininet_proxy_enabled''],
         sr_from_state = ''proxy_drift_detected'', sr_to_state = ''browser_path_failure_suspected''\<rparr>,
        \<lparr>sr_id = ''proxy_path_confirmed'', sr_requires_any = [], sr_requires_all = [''proxy_bypass_succeeded'', ''proxied_path_failed''],
         sr_from_state = ''browser_path_failure_suspected'', sr_to_state = ''proxy_path_failure_confirmed''\<rparr>,
        \<lparr>sr_id = ''preview_ready'', sr_requires_any = [], sr_requires_all = [''policy_preview_allowed''],
         sr_from_state = ''proxy_path_failure_confirmed'', sr_to_state = ''remediation_preview_ready''\<rparr>],
     fs_alternatives = [''total_network_outage'', ''dns_only_failure'', ''tcp_blocked'', ''upstream_isp_issue'', ''certificate_tls_issue''],
     fs_limitations = [''Listener/process correlation does not prove registry writer identity.'',
       ''Registry writer proof requires Sysmon/EventLog/Procmon-style telemetry.''],
     fs_next_steps = [''Run a proxy bypass contrast proof before changing registry values.'',
       ''Preserve proxy and process attribution evidence before remediation.'']\<rparr>"

section \<open>Scenario states\<close>

definition event_ids_for :: "string list \<Rightarrow> detected_event list \<Rightarrow> string list" where
  "event_ids_for required events = map ee_id (filter (\<lambda>e. ee_event_type e \<in> set required) events)"

definition transition_to :: "string \<Rightarrow> string \<Rightarrow> string \<Rightarrow> rat \<Rightarrow> string \<Rightarrow> string list \<Rightarrow> state_transition" where
  "transition_to current next rule c level ids = \<lparr>st_from_state = current, st_to_state = next, st_event_ids = ids, st_rule_id = rule, st_confidence = c,
     sx_evidence_level = level, sx_limitations = [], sx_next_steps = []\<rparr>"

definition drift_required :: "string list" where
  "drift_required = [''wininet_proxy_changed'', ''wininet_proxy_enabled'', ''localhost_proxy_detected'']"

definition suspect_required :: "string list" where
  "suspect_required = [''ping_ok'', ''dns_ok'', ''tcp443_ok'', ''browser_https_failed'', ''wininet_proxy_enabled'']"

definition confirmed_required :: "string list" where
  "confirmed_required = [''proxy_bypass_succeeded'', ''proxied_path_failed'']"

definition infer_browser_proxy_transitions :: "detected_event list \<Rightarrow> pydict \<Rightarrow> state_transition list" where
  "infer_browser_proxy_transitions events signals =
     (let observed = event_types events;
          c0 = ''healthy_browser_path'';
          drift = (set drift_required \<inter> observed \<noteq> {});
          t1 = (if drift then [transition_to c0 ''proxy_drift_detected'' ''proxy_drift'' (72/100) ''inferred''
                                (event_ids_for (filter (\<lambda>x. x \<in> observed) drift_required) events)] else []);
          c1 = (if drift then ''proxy_drift_detected'' else c0);
          suspect = (set suspect_required \<subseteq> observed);
          t2 = (if suspect then [transition_to c1 ''browser_path_failure_suspected'' ''browser_path_suspected'' (84/100) ''inferred''
                                  (event_ids_for suspect_required events)] else []);
          c2 = (if suspect then ''browser_path_failure_suspected'' else c1);
          confirmed = (set confirmed_required \<subseteq> observed);
          t3 = (if confirmed then [transition_to c2 ''proxy_path_failure_confirmed'' ''proxy_path_confirmed'' (92/100) ''validated''
                                    (event_ids_for confirmed_required events)] else []);
          c3 = (if confirmed then ''proxy_path_failure_confirmed'' else c2);
          t4 = (if signal_has signals ''policy_preview_allowed'' \<and> c3 = ''proxy_path_failure_confirmed''
                then [transition_to c3 ''remediation_preview_ready'' ''preview_ready'' (90/100) ''validated''
                       (event_ids_for [''policy_preview_allowed''] events)] else [])
      in t1 @ t2 @ t3 @ t4)"

section \<open>Hypotheses\<close>

definition reject_alternatives :: "pydict \<Rightarrow> (string \<times> string) list" where
  "reject_alternatives signals =
     (let has = signal_has signals
      in (if has ''ping_ok'' \<or> has ''dns_ok'' \<or> has ''tcp443_ok'' then [(''total_network_outage'', ''ping/dns/tcp checks succeeded'')] else [])
         @ (if has ''dns_ok'' then [(''dns_only_failure'', ''dns resolution succeeded'')] else [])
         @ (if has ''tcp443_ok'' then [(''tcp_blocked'', ''TCP 443 connectivity succeeded'')] else [])
         @ (if has ''tcp443_ok'' \<and> has ''proxy_bypass_succeeded'' then [(''upstream_isp_issue'', ''direct HTTPS path succeeded outside proxy'')] else [])
         @ (if has ''proxy_bypass_succeeded'' \<and> \<not> has ''tls_certificate_error''
            then [(''certificate_tls_issue'', ''proxy bypass succeeded without TLS error signal'')] else []))"

record ranking_row =
  rk_hypothesis :: string
  rk_confidence :: rat
  rk_evidence :: "string list"
  rk_state_depth :: "nat option"
  rk_rejected :: bool

text \<open>\<open>round(x, 2)\<close>.\<close>

definition round2 :: "rat \<Rightarrow> rat" where
  "round2 x = of_int (round_half_even (100 * x)) / 100"

definition layer_signals :: "string list" where
  "layer_signals = [''ping_ok'', ''dns_ok'', ''tcp443_ok'', ''browser_https_failed'', ''wininet_proxy_enabled'']"

definition rank_evidence :: "pydict \<Rightarrow> proof_result \<Rightarrow> rat \<times> string list" where
  "rank_evidence signals proof =
     (let has = signal_has signals;
          present = filter has layer_signals;
          contrast = (has ''proxy_bypass_succeeded'' \<and> has ''proxied_path_failed'')
      in (20/100 + 10/100 * of_nat (length present) + (if has ''localhost_proxy_detected'' then 8/100 else 0) + (if contrast then 18/100 else 0)
            + (if pf_status proof = CONFIRMED then 12/100 else 0),
          present @ (if has ''localhost_proxy_detected'' then [''localhost_proxy_detected''] else [])
            @ (if contrast then [''proxy_bypass_succeeded'', ''proxied_path_failed''] else [])
            @ (if pf_status proof = CONFIRMED then [''proof_confirmed''] else [])))"

definition rank_run_hypotheses :: "state_transition list \<Rightarrow> pydict \<Rightarrow> proof_result \<Rightarrow> ranking_row list" where
  "rank_run_hypotheses transitions signals proof =
     (let (score0, evidence) = rank_evidence signals proof;
          score1 = (if transitions = [] then min score0 (30/100) else score0);
          score = round2 (max 0 (min (98/100) score1))
      in \<lparr>rk_hypothesis = ''browser_proxy_path_regression'', rk_confidence = score, rk_evidence = evidence, rk_state_depth = Some (length transitions),
          rk_rejected = False\<rparr>
         # map (\<lambda>(alternative, why). \<lparr>rk_hypothesis = alternative, rk_confidence = 10/100, rk_evidence = [why], rk_state_depth = None, rk_rejected = True\<rparr>)
             (reject_alternatives signals))"

section \<open>Impact\<close>

datatype impact_scope = Browser_Only | Dev_Tools | Browser_And_Dev_Tools | System_Wide | Multi_Endpoint

fun scope_value :: "impact_scope \<Rightarrow> string" where
  "scope_value Browser_Only = ''browser_only''"
| "scope_value Dev_Tools = ''dev_tools''"
| "scope_value Browser_And_Dev_Tools = ''browser_and_dev_tools''"
| "scope_value System_Wide = ''system_wide''"
| "scope_value Multi_Endpoint = ''multi_endpoint''"

datatype impact_duration = Short_Time | Medium_Time | Long_Time | Unknown_Time

fun duration_value :: "impact_duration \<Rightarrow> string" where
  "duration_value Short_Time = ''short''"
| "duration_value Medium_Time = ''medium''"
| "duration_value Long_Time = ''long''"
| "duration_value Unknown_Time = ''unknown''"

fun severity_weight :: "impact_severity \<Rightarrow> rat" where
  "severity_weight Low = 25/100"
| "severity_weight Medium = 55/100"
| "severity_weight High = 85/100"
| "severity_weight Critical = 1"

fun scope_weight :: "impact_scope \<Rightarrow> rat" where
  "scope_weight Browser_Only = 65/100"
| "scope_weight Dev_Tools = 55/100"
| "scope_weight Browser_And_Dev_Tools = 90/100"
| "scope_weight System_Wide = 1"
| "scope_weight Multi_Endpoint = 1"

fun duration_weight :: "impact_duration \<Rightarrow> rat" where
  "duration_weight Short_Time = 65/100"
| "duration_weight Medium_Time = 85/100"
| "duration_weight Long_Time = 1"
| "duration_weight Unknown_Time = 85/100"

definition impact_level :: "rat \<Rightarrow> impact_severity" where
  "impact_level score = (if score \<ge> 75/100 then Critical else if score \<ge> 50/100 then High else if score \<ge> 25/100 then Medium else Low)"

text \<open>The format \<open>.2f\<close> of a number that is not negative.\<close>

definition format2 :: "rat \<Rightarrow> string" where
  "format2 x = (let n = nat (round_half_even (100 * x)) in nat_str (n div 100) @ ''.'' @ tl (nat_str (100 + n mod 100)))"

record reliability_impact =
  ri_severity :: impact_severity
  ri_scope :: impact_scope
  ri_confidence :: rat
  ri_duration :: impact_duration
  ri_score :: rat
  ri_level :: impact_severity
  ri_explanation :: string
  ri_limitations :: "string list"
  ri_next_steps :: "string list"

definition calculate_reliability_impact :: "impact_severity \<Rightarrow> impact_scope \<Rightarrow> rat \<Rightarrow> impact_duration \<Rightarrow> reliability_impact" where
  "calculate_reliability_impact severity scope c duration =
     (let bounded = max 0 (min 1 c);
          score = round2 (max 0 (min 1 (severity_weight severity * scope_weight scope * bounded * duration_weight duration)))
      in \<lparr>ri_severity = severity, ri_scope = scope, ri_confidence = bounded, ri_duration = duration, ri_score = score, ri_level = impact_level score,
          ri_explanation = ''Impact uses severity='' @ severity_value severity @ '', scope='' @ scope_value scope @ '', confidence='' @ format2 bounded @
            '', duration='' @ duration_value duration @ ''. The score is a ranking aid, not a financial loss model.'',
          ri_limitations = [''Impact score is ordinal and explainable; it is not a calibrated outage probability.''],
          ri_next_steps = [''Validate user-visible workflow impact before executing remediation.'']\<rparr>)"

section \<open>Policy\<close>

definition ALWAYS_BLOCKED_ACTIONS :: "string list" where
  "ALWAYS_BLOCKED_ACTIONS = [''firewall_reset'', ''reset_firewall'', ''adapter_disable'', ''process_kill'', ''kill'', ''arbitrary_shell'', ''arbitrary_command'',
     ''delete_certificates'', ''netsh_reset'']"

text \<open>\<open>(requested_action or "").strip().lower() or None\<close>.\<close>

definition norm_action :: "string option \<Rightarrow> string option" where
  "norm_action requested = (case requested of None \<Rightarrow> None | Some a \<Rightarrow> (let t = py_lower (py_strip a) in if t = [] then None else Some t))"

definition with_blocked :: "string list \<Rightarrow> tri_state \<Rightarrow> string option \<Rightarrow> string list" where
  "with_blocked blocked outcome requested =
     dict_fromkeys (blocked @ (case norm_action requested of
        Some a \<Rightarrow> if outcome = PT_BLOCK \<and> a \<notin> set blocked then [a] else [] | None \<Rightarrow> []))"

definition blocked_actions_for_request :: "tri_state \<Rightarrow> string option \<Rightarrow> string list" where
  "blocked_actions_for_request outcome requested = with_blocked ALWAYS_BLOCKED_ACTIONS outcome requested"

definition SAFE_REGISTRY_ACTIONS :: "string list" where
  "SAFE_REGISTRY_ACTIONS = [''restore_proxy'', ''disable_proxy'', ''reset_wininet_proxy'', ''restore_known_good_proxy'']"

definition DESTRUCTIVE_ACTION_TOKENS :: "string list" where
  "DESTRUCTIVE_ACTION_TOKENS = [''firewall'', ''adapter_disable'', ''kill'', ''process_kill'', ''arbitrary_shell'', ''netsh_reset'']"

text \<open>
  The verdict on an allowlisted action, before and after the guards: reason codes, limitations, outcome. A guard that applies adds its
  code, explains itself when it takes back an approval, and sets the outcome to preview.
\<close>

type_synonym verdict = "string list \<times> string list \<times> tri_state"

definition first_verdict :: "bool \<Rightarrow> proof_status \<Rightarrow> bool \<Rightarrow> verdict" where
  "first_verdict conflicting status confirmation =
     (if conflicting
      then ([''CONFLICTING_SIGNALS''], [''Conflicting observations reduce trust; live execution is not allowed.''], PT_PREVIEW)
      else if status = CONFIRMED \<and> confirmation
      then ([''CONFIRMED_SAFE_TIER_WITH_CONFIRMATION'', ''SAFE_TIER_ACTION''], [], PT_ALLOW)
      else ([''REQUIRES_OPERATOR_CONFIRMATION'', ''PREVIEW_UNTIL_PROOF''], [], PT_PREVIEW))"

definition downgrade_verdict :: "bool \<Rightarrow> string \<Rightarrow> string list \<Rightarrow> verdict \<Rightarrow> verdict" where
  "downgrade_verdict applies code notes v =
     (case v of (codes, lims, outcome) \<Rightarrow>
        if applies then (codes @ [code], lims @ (if outcome = PT_ALLOW then notes else []), PT_PREVIEW) else v)"

definition trust_of :: "bool \<Rightarrow> proof_status \<Rightarrow> string" where
  "trust_of conflicting status = (if conflicting then ''low'' else if status = CONFIRMED then ''high'' else ''medium'')"

definition guarded_verdict :: "impact_severity \<Rightarrow> bool \<Rightarrow> proof_status \<Rightarrow> bool \<Rightarrow> verdict" where
  "guarded_verdict impact conflicting status confirmation =
     (let v0 = first_verdict conflicting status confirmation;
          v1 = downgrade_verdict (impact \<in> {High, Critical} \<and> status \<noteq> CONFIRMED) ''HIGH_IMPACT_UNPROVEN''
                 [''High or critical reliability impact requires CONFIRMED proof before live execute.''] v0;
          v2 = downgrade_verdict (impact = Critical \<and> trust_of conflicting status \<noteq> ''high'') ''CRITICAL_IMPACT_LOW_TRUST''
                 [''Critical reliability impact requires high trust (CONFIRMED proof, no conflicting signals).''] v1
      in downgrade_verdict (status \<noteq> CONFIRMED) ''HIGH_CONFIDENCE_UNPROVEN''
           [''Unproven hypothesis cannot grant execute authority even with high confidence.''] v2)"

text \<open>The fields that all answers share.\<close>

definition policy_answer ::
  "string \<Rightarrow> state_transition list \<Rightarrow> proof_result \<Rightarrow> rat \<Rightarrow> impact_severity \<Rightarrow> bool \<Rightarrow> string option \<Rightarrow>
     tri_state \<Rightarrow> bool \<Rightarrow> string option \<Rightarrow> string list \<Rightarrow> string list \<Rightarrow> string list \<Rightarrow> reasoning_policy" where
  "policy_answer hypothesis transitions proof c impact conflicting action outcome needs phrase codes lims steps =
     \<lparr>rp_source = ''reasoning_policy'', rp_outcome = outcome, rp_requested_action = action, rp_hypothesis = hypothesis,
      rp_state_transition = (if transitions = [] then ''unknown'' else st_to_state (last transitions)),
      rp_evidence_level = (if pf_status proof = CONFIRMED then ''proof'' else if transitions \<noteq> [] then ''validated'' else ''inferred''),
      rp_proof_status = pf_status proof, rp_confidence = c, rp_trust_level = trust_of conflicting (pf_status proof), rp_impact_level = impact,
      rp_requires_confirmation = needs, rp_confirmation_phrase = phrase, rp_reason_codes = codes,
      rp_blocked_actions = blocked_actions_for_request outcome action, rp_limitations = lims, rp_next_steps = steps\<rparr>"

definition evaluate_reasoning_policy ::
  "string \<Rightarrow> state_transition list \<Rightarrow> proof_result \<Rightarrow> rat \<Rightarrow> impact_severity \<Rightarrow> string option \<Rightarrow> bool \<Rightarrow> bool \<Rightarrow> reasoning_policy" where
  "evaluate_reasoning_policy hypothesis transitions proof c impact requested confirmation conflicting =
     (let action = norm_action requested; answer = policy_answer hypothesis transitions proof c impact conflicting action
      in case action of
           None \<Rightarrow> answer PT_PREVIEW False None [''DIAGNOSTIC_ONLY''] [] [''Run preview with a safe remediation action if repair is needed.'']
         | Some a \<Rightarrow>
           if list_ex (\<lambda>token. py_in token a) DESTRUCTIVE_ACTION_TOKENS
           then answer PT_BLOCK False None [''DESTRUCTIVE_ACTION_BLOCKED'']
                  [''Firewall reset, adapter disable, process kill, and arbitrary shell remain blocked.'']
                  [''Use manual incident response after preserving evidence.'']
           else if a \<notin> set SAFE_REGISTRY_ACTIONS
           then answer PT_BLOCK False None [''UNKNOWN_ACTION''] [''Only allowlisted remediation action keys can pass policy.'']
                  [''Choose an allowlisted preview action or continue diagnostics.'']
           else (case guarded_verdict impact conflicting (pf_status proof) confirmation of
                   (codes, lims, outcome) \<Rightarrow>
                     answer outcome True (Some ''RESTORE_PROXY'') (dict_fromkeys (codes @ [''REQUIRES_TYPED_CONFIRMATION''])) lims
                       [''Show remediation preview and require typed operator confirmation.'']))"

definition conflicting_signals :: "pydict \<Rightarrow> bool" where
  "conflicting_signals signals \<longleftrightarrow>
     (signal_has signals ''browser_https_failed'' \<and> signal_has signals ''browser_https_ok'') \<or>
     (signal_has signals ''dns_ok'' \<and> signal_has signals ''dns_failed'')"

section \<open>Evidence tree\<close>

datatype evidence_node = Evidence_Node
  (en_label: string)
  (en_level: string)
  (en_confidence: rat)
  (en_observation_ids: "string list")
  (en_event_ids: "string list")
  (en_details: pydict)
  (en_limitations: "string list")
  (en_next_steps: "string list")
  (en_children: "evidence_node list")

record evidence_tree =
  tree_run_id :: string
  tree_accepted :: string
  tree_state_path :: "string list"
  tree_because :: "string list"
  tree_rejected :: "(string \<times> string) list"
  tree_root :: evidence_node
  tree_limitations :: "string list"
  tree_next_steps :: "string list"

definition observed_node :: "detected_event \<Rightarrow> evidence_node" where
  "observed_node e = Evidence_Node (ee_event_type e) ''observed'' (ev_confidence e) (ev_observation_ids e) [ee_id e] (ev_details e) (ev_limitations e) (ev_next_steps e) []"

definition inferred_node :: "state_transition \<Rightarrow> evidence_node" where
  "inferred_node t = Evidence_Node (st_from_state t @ ''->'' @ st_to_state t) ''inferred'' (st_confidence t) [] (st_event_ids t)
     [(''rule_id'', PyStr (st_rule_id t))] (sx_limitations t) (sx_next_steps t) []"

definition rejected_node :: "string \<times> string \<Rightarrow> evidence_node" where
  "rejected_node r = Evidence_Node (fst r) ''rejected'' 1 [] [] [(''reason'', PyStr (snd r))] [] [] []"

definition result_node :: "proof_result \<Rightarrow> evidence_node" where
  "result_node p = Evidence_Node (''proof:'' @ proof_status_value (pf_status p)) (if pf_status p = CONFIRMED then ''proof'' else ''validated'') (pf_confidence p) [] []
     [(''checks_run'', PyList (map PyStr (pf_checks_run p))), (''evidence'', PyList (map PyStr (pf_evidence p)))] (pf_limitations p) (pf_next_steps p) []"

definition group_node :: "string \<Rightarrow> string \<Rightarrow> evidence_node list \<Rightarrow> evidence_node" where
  "group_node label level children = Evidence_Node label level 1 [] [] [] [] [] children"

fun max_or_zero :: "rat list \<Rightarrow> rat" where
  "max_or_zero [] = 0"
| "max_or_zero [x] = x"
| "max_or_zero (x # y # ys) = max x (max_or_zero (y # ys))"

definition build_evidence_tree ::
  "string \<Rightarrow> string \<Rightarrow> detected_event list \<Rightarrow> state_transition list \<Rightarrow> (string \<times> string) list \<Rightarrow> proof_result \<Rightarrow> string list \<Rightarrow> string list \<Rightarrow> evidence_tree" where
  "build_evidence_tree rid accepted events transitions rejected proof lims steps =
     (let observed = map observed_node events;
          inferred = map inferred_node transitions;
          root = Evidence_Node accepted ''inferred'' (max_or_zero (map en_confidence (observed @ inferred))) [] [] [] lims steps
            [group_node ''observed'' ''observed'' observed, group_node ''state_transitions'' ''inferred'' inferred, result_node proof,
             group_node ''rejected_alternatives'' ''rejected'' (map rejected_node rejected)]
      in \<lparr>tree_run_id = rid, tree_accepted = accepted,
          tree_state_path = (case transitions of [] \<Rightarrow> [] | t # _ \<Rightarrow> [st_from_state t]) @ map st_to_state transitions,
          tree_because = map ee_event_type events, tree_rejected = rejected, tree_root = root, tree_limitations = lims, tree_next_steps = steps\<rparr>)"

section \<open>Runs\<close>

record run_preview =
  pv_action :: "string option"
  pv_requires_confirmation :: bool
  pv_confirmation_phrase :: "string option"

record reasoning_run =
  rr_id :: string
  rr_source :: string
  rr_observations :: "reasoning_observation list"
  rr_signals :: pydict
  rr_events :: "detected_event list"
  rr_transitions :: "state_transition list"
  rr_canonical_path :: "canonical_state list"
  rr_canonical_transitions :: "canonical_transition list"
  rr_ranking :: "ranking_row list"
  rr_accepted :: string
  rr_tree :: evidence_tree
  rr_proof :: proof_result
  rr_impact :: reliability_impact
  rr_policy :: reasoning_policy
  rr_next_test :: string
  rr_preview :: "run_preview option"
  rr_limitations :: "string list"
  rr_next_steps :: "string list"

definition run_limitations :: "pydict \<Rightarrow> proof_result \<Rightarrow> string list" where
  "run_limitations signals proof =
     fs_limitations browser_proxy_path_regression
     @ (if conflicting_signals signals then [''Conflicting signals were observed; policy is downgraded to preview.''] else [])
     @ (if pf_status proof = NOT_RUN then [''Proof checks were not run; confidence remains heuristic.''] else [])"

definition run_impact :: "pydict \<Rightarrow> rat \<Rightarrow> reliability_impact" where
  "run_impact signals c =
     calculate_reliability_impact (if signal_has signals ''browser_https_failed'' then High else Medium)
       (if signal_has signals ''proxied_path_failed'' then Browser_And_Dev_Tools else Browser_Only) c Unknown_Time"

text \<open>\<open>fresh\<close> is the identifier generated for a run without one; \<open>eid\<close> numbers the events.\<close>

definition run_reasoning ::
  "(nat \<Rightarrow> string) \<Rightarrow> string \<Rightarrow> reasoning_observation list \<Rightarrow> proof_result option \<Rightarrow> string option \<Rightarrow> bool \<Rightarrow> string \<Rightarrow> string option \<Rightarrow>
     reasoning_run py_result" where
  "run_reasoning eid fresh obs given requested confirmation source run_id =
     (let proof = (case given of Some p \<Rightarrow> p | None \<Rightarrow> default_proof\<lparr>pf_hypothesis := ''browser_proxy_path_regression''\<rparr>);
          rid = (case run_id of Some r \<Rightarrow> if r = [] then fresh else r | None \<Rightarrow> fresh);
          signals = normalize_signals obs
      in bind_r (detect_endpoint_events eid obs) (\<lambda>events.
         (let transitions = infer_browser_proxy_transitions events signals;
              canonical = infer_canonical_transitions (map scenario_transition.truncate transitions) (map endpoint_event.truncate events) signals;
              ranking = rank_run_hypotheses transitions signals proof;
              accepted = rk_hypothesis (hd ranking);
              c = rk_confidence (hd ranking);
              rejected = reject_alternatives signals;
              lims = run_limitations signals proof;
              impact = run_impact signals c;
              policy = evaluate_reasoning_policy accepted transitions proof c (ri_level impact) requested confirmation (conflicting_signals signals);
              steps = dict_fromkeys (fs_next_steps browser_proxy_path_regression @ rp_next_steps policy)
          in Inr \<lparr>rr_id = rid, rr_source = source, rr_observations = obs, rr_signals = signals, rr_events = events, rr_transitions = transitions,
                  rr_canonical_path = canonical_state_path canonical, rr_canonical_transitions = canonical, rr_ranking = ranking, rr_accepted = accepted,
                  rr_tree = build_evidence_tree rid accepted events transitions rejected proof (lims @ rp_limitations policy) steps,
                  rr_proof = proof, rr_impact = impact, rr_policy = policy,
                  rr_next_test = ''Run proxy bypass contrast proof if not already confirmed.'',
                  rr_preview = (if rp_outcome policy = PT_PREVIEW
                                then Some \<lparr>pv_action = requested, pv_requires_confirmation = rp_requires_confirmation policy,
                                           pv_confirmation_phrase = rp_confirmation_phrase policy\<rparr>
                                else None),
                  rr_limitations = dict_fromkeys (lims @ pf_limitations proof @ rp_limitations policy), rr_next_steps = steps\<rparr>)))"

section \<open>Audit and replay\<close>

text \<open>A stored record; rows of other writers may lack parts.\<close>

record reasoning_record =
  rec_run :: "reasoning_run option"
  rec_observations :: "reasoning_observation list"
  rec_proof :: "proof_result option"
  rec_policy :: "reasoning_policy option"
  rec_run_id :: string

definition to_audit_record :: "reasoning_run \<Rightarrow> reasoning_record" where
  "to_audit_record r = \<lparr>rec_run = Some r, rec_observations = rr_observations r, rec_proof = Some (rr_proof r), rec_policy = Some (rr_policy r), rec_run_id = []\<rparr>"

definition append_reasoning_run :: "reasoning_record list \<Rightarrow> reasoning_run \<Rightarrow> reasoning_record list" where
  "append_reasoning_run file r = file @ [to_audit_record r]"

definition first_given :: "'a option \<Rightarrow> 'a option \<Rightarrow> 'a option" where
  "first_given a b = (case a of Some x \<Rightarrow> Some x | None \<Rightarrow> b)"

definition replay_reasoning_record :: "(nat \<Rightarrow> string) \<Rightarrow> string \<Rightarrow> reasoning_record \<Rightarrow> reasoning_run py_result" where
  "replay_reasoning_record eid fresh rec =
     (let obs = (if rec_observations rec \<noteq> [] then rec_observations rec else (case rec_run rec of Some r \<Rightarrow> rr_observations r | None \<Rightarrow> []));
          proof = (case first_given (rec_proof rec) (map_option rr_proof (rec_run rec)) of Some p \<Rightarrow> p | None \<Rightarrow> default_proof);
          policy = first_given (rec_policy rec) (map_option rr_policy (rec_run rec));
          requested = (case policy of Some p \<Rightarrow> rp_requested_action p | None \<Rightarrow> None);
          codes = (case policy of Some p \<Rightarrow> rp_reason_codes p | None \<Rightarrow> []);
          confirmation = (''CONFIRMED_SAFE_TIER_WITH_CONFIRMATION'' \<in> set codes \<or> ''confirmed_proof_safe_action_confirmation_present'' \<in> set codes);
          rid = (case rec_run rec of Some r \<Rightarrow> if rr_id r \<noteq> [] then rr_id r else rec_run_id rec | None \<Rightarrow> rec_run_id rec)
      in run_reasoning eid fresh obs (Some proof) requested confirmation ''replay'' (Some rid))"

section \<open>Verdicts\<close>

definition destructive_action :: "string \<Rightarrow> bool" where
  "destructive_action a = list_ex (\<lambda>token. py_in token a) DESTRUCTIVE_ACTION_TOKENS"

definition proof_allows :: "proof_result \<Rightarrow> bool \<Rightarrow> bool \<Rightarrow> bool" where
  "proof_allows proof confirmation conflicting \<longleftrightarrow> pf_status proof = CONFIRMED \<and> confirmation \<and> \<not> conflicting"

text \<open>The guards after the first verdict never take back an approval: whatever their codes and notes, the outcome is that of the first verdict.\<close>

lemma guard_cases:
  "fst (downgrade_verdict b code notes v) = fst v @ (if b then [code] else [])"
  "snd (snd (downgrade_verdict b code notes v)) = (if b then PT_PREVIEW else snd (snd v))"
  "\<not> b \<Longrightarrow> downgrade_verdict b code notes v = v"
  by (cases v; simp add: downgrade_verdict_def)+

lemma first_cases:
  "snd (snd (first_verdict conflicting status confirmation)) = (if status = CONFIRMED \<and> confirmation \<and> \<not> conflicting then PT_ALLOW else PT_PREVIEW)"
  "''CONFIRMED_SAFE_TIER_WITH_CONFIRMATION'' \<in> set (fst (first_verdict conflicting status confirmation)) \<longleftrightarrow> status = CONFIRMED \<and> confirmation \<and> \<not> conflicting"
  "''confirmed_proof_safe_action_confirmation_present'' \<notin> set (fst (first_verdict conflicting status confirmation))"
  by (auto simp: first_verdict_def)

lemma trust_high: "trust_of conflicting status \<noteq> ''high'' \<longleftrightarrow> conflicting \<or> status \<noteq> CONFIRMED"
  by (auto simp: trust_of_def)

lemma guarded_outcome:
  "snd (snd (guarded_verdict impact conflicting status confirmation)) = (if status = CONFIRMED \<and> confirmation \<and> \<not> conflicting then PT_ALLOW else PT_PREVIEW)"
  by (auto simp: guarded_verdict_def Let_def guard_cases first_cases trust_high)

lemma guarded_codes:
  "''CONFIRMED_SAFE_TIER_WITH_CONFIRMATION'' \<in> set (fst (guarded_verdict impact conflicting status confirmation)) \<longleftrightarrow> status = CONFIRMED \<and> confirmation \<and> \<not> conflicting"
  "''confirmed_proof_safe_action_confirmation_present'' \<notin> set (fst (guarded_verdict impact conflicting status confirmation))"
  by (auto simp: guarded_verdict_def Let_def guard_cases(1) first_cases(2,3))

lemma guarded_allow:
  "status = CONFIRMED \<and> confirmation \<and> \<not> conflicting \<Longrightarrow>
     guarded_verdict impact conflicting status confirmation = ([''CONFIRMED_SAFE_TIER_WITH_CONFIRMATION'', ''SAFE_TIER_ACTION''], [], PT_ALLOW)"
  by (simp add: guarded_verdict_def Let_def guard_cases(3) trust_of_def first_verdict_def)

lemma answer_fields [simp]:
  "rp_outcome (policy_answer hyp ts proof c impact conflicting action outcome needs phrase codes lims steps) = outcome"
  "rp_requested_action (policy_answer hyp ts proof c impact conflicting action outcome needs phrase codes lims steps) = action"
  "rp_reason_codes (policy_answer hyp ts proof c impact conflicting action outcome needs phrase codes lims steps) = codes"
  "rp_blocked_actions (policy_answer hyp ts proof c impact conflicting action outcome needs phrase codes lims steps) = blocked_actions_for_request outcome action"
  by (simp_all add: policy_answer_def)

lemma action_idem: "norm_action (norm_action requested) = norm_action requested"
  by (cases requested) (auto simp: norm_action_def Let_def py_lower_strip [symmetric])

lemma blocked_contains:
  "set blocked \<subseteq> set (with_blocked blocked outcome requested)"
  "norm_action requested = Some a \<Longrightarrow> outcome = PT_BLOCK \<Longrightarrow> a \<in> set (with_blocked blocked outcome requested)"
  by (auto simp: with_blocked_def)

lemma policy_outcome:
  "rp_outcome (evaluate_reasoning_policy hyp ts proof c impact requested confirmation conflicting) =
     (case norm_action requested of
        None \<Rightarrow> PT_PREVIEW
      | Some a \<Rightarrow> if destructive_action a \<or> a \<notin> set SAFE_REGISTRY_ACTIONS then PT_BLOCK
                  else if proof_allows proof confirmation conflicting then PT_ALLOW else PT_PREVIEW)"
  by (cases "norm_action requested")
     (simp_all add: evaluate_reasoning_policy_def Let_def destructive_action_def proof_allows_def split_beta guarded_outcome)

lemma policy_codes:
  assumes "rp_outcome (evaluate_reasoning_policy hyp ts proof c impact requested confirmation conflicting) = PT_ALLOW"
  shows "rp_reason_codes (evaluate_reasoning_policy hyp ts proof c impact requested confirmation conflicting) =
     [''CONFIRMED_SAFE_TIER_WITH_CONFIRMATION'', ''SAFE_TIER_ACTION'', ''REQUIRES_TYPED_CONFIRMATION'']"
proof -
  obtain a where a: "norm_action requested = Some a" "\<not> destructive_action a" "a \<in> set SAFE_REGISTRY_ACTIONS" "proof_allows proof confirmation conflicting"
    using assms unfolding policy_outcome by (cases "norm_action requested") (auto split: if_splits)
  then show ?thesis
    using guarded_allow [OF a(4) [unfolded proof_allows_def], of impact]
    by (simp add: evaluate_reasoning_policy_def Let_def destructive_action_def dict_fromkeys_def)
qed

lemma policy_action:
  "rp_requested_action (evaluate_reasoning_policy hyp ts proof c impact requested confirmation conflicting) = norm_action requested"
  by (cases "norm_action requested") (simp_all add: evaluate_reasoning_policy_def Let_def split_beta)

lemma policy_confirmation:
  assumes "\<And>a. norm_action requested = Some a \<Longrightarrow> \<not> destructive_action a \<Longrightarrow> a \<in> set SAFE_REGISTRY_ACTIONS \<Longrightarrow>
      proof_allows proof confirmation conflicting = proof_allows proof confirmation' conflicting"
    and "norm_action requested = norm_action requested'"
  shows "evaluate_reasoning_policy hyp ts proof c impact requested confirmation conflicting =
     evaluate_reasoning_policy hyp ts proof c impact requested' confirmation' conflicting"
proof (cases "\<exists>a. norm_action requested = Some a \<and> \<not> destructive_action a \<and> a \<in> set SAFE_REGISTRY_ACTIONS")
  case True
  then have "first_verdict conflicting (pf_status proof) confirmation = first_verdict conflicting (pf_status proof) confirmation'"
    using assms(1) by (auto simp: proof_allows_def first_verdict_def)
  then have v: "guarded_verdict impact conflicting (pf_status proof) confirmation = guarded_verdict impact conflicting (pf_status proof) confirmation'"
    by (simp only: guarded_verdict_def)
  show ?thesis by (simp only: evaluate_reasoning_policy_def Let_def v assms(2))
next
  case False
  then consider "norm_action requested' = None"
    | a where "norm_action requested' = Some a" and "list_ex (\<lambda>token. py_in token a) DESTRUCTIVE_ACTION_TOKENS"
    | a where "norm_action requested' = Some a" and "\<not> list_ex (\<lambda>token. py_in token a) DESTRUCTIVE_ACTION_TOKENS" and "a \<notin> set SAFE_REGISTRY_ACTIONS"
    unfolding assms(2) destructive_action_def by (cases "norm_action requested'") auto
  then show ?thesis
    by cases (simp_all only: evaluate_reasoning_policy_def Let_def assms(2) option.case if_True if_False not_False_eq_True)
qed

lemma confirmation_code:
  "''CONFIRMED_SAFE_TIER_WITH_CONFIRMATION'' \<in> set (rp_reason_codes (evaluate_reasoning_policy hyp ts proof c impact requested confirmation conflicting)) \<longleftrightarrow>
     rp_outcome (evaluate_reasoning_policy hyp ts proof c impact requested confirmation conflicting) = PT_ALLOW"
  "''confirmed_proof_safe_action_confirmation_present'' \<notin> set (rp_reason_codes (evaluate_reasoning_policy hyp ts proof c impact requested confirmation conflicting))"
  unfolding policy_outcome
  by (cases "norm_action requested";
      simp add: evaluate_reasoning_policy_def Let_def split_beta guarded_codes proof_allows_def destructive_action_def)+

lemma policy_replayed:
  assumes "p = evaluate_reasoning_policy hyp ts proof c impact requested confirmation conflicting"
  shows "evaluate_reasoning_policy hyp ts proof c impact (rp_requested_action p)
     (''CONFIRMED_SAFE_TIER_WITH_CONFIRMATION'' \<in> set (rp_reason_codes p) \<or> ''confirmed_proof_safe_action_confirmation_present'' \<in> set (rp_reason_codes p))
     conflicting = p"
  unfolding assms confirmation_code policy_action
  by (rule policy_confirmation) (auto simp: action_idem policy_outcome proof_allows_def confirmation_code(2) split: if_splits)

section \<open>Events without their identifiers\<close>

definition hashable :: "pyval \<Rightarrow> bool" where
  "hashable v \<longleftrightarrow> \<not> is_list v \<and> \<not> is_dict v"

definition true_observations :: "reasoning_observation list \<Rightarrow> reasoning_observation list" where
  "true_observations obs = filter (\<lambda>ob. is_true_value (obs_value ob) = Inr True) obs"

lemma is_true_hashable: "(\<exists>b. is_true_value v = Inr b) \<longleftrightarrow> hashable v"
  by (cases v) (auto simp: hashable_def)

lemma detect_hashable:
  "\<forall>ob\<in>set obs. hashable (obs_value ob) \<Longrightarrow>
     detect_from eid k obs = Inr (map (\<lambda>(j, ob). event_of (eid j) ob) (enumerate k (true_observations obs)))"
proof (induction obs arbitrary: k)
  case (Cons ob obs)
  then obtain b where "is_true_value (obs_value ob) = Inr b" using is_true_hashable by (metis list.set_intros(1))
  then show ?case using Cons by (cases b) (auto simp: true_observations_def)
qed (simp add: true_observations_def)

lemma detect_raises: "ob \<in> set obs \<Longrightarrow> \<not> hashable (obs_value ob) \<Longrightarrow> \<exists>e. detect_from eid k obs = Inl e"
proof (induction obs arbitrary: k)
  case (Cons x obs)
  show ?case
  proof (cases "is_true_value (obs_value x)")
    case (Inr b)
    then have "ob \<in> set obs" using Cons.prems is_true_hashable by auto
    then show ?thesis using Cons.IH [OF _ Cons.prems(2), of k] Cons.IH [OF _ Cons.prems(2), of "Suc k"] Inr by auto
  qed simp
qed simp

lemma event_types_true:
  "map ee_event_type (map (\<lambda>(j, ob). event_of (eid j) ob) (enumerate k xs)) = map ob_signal_name xs"
  by (induction xs arbitrary: k) (auto simp: event_of_def)

lemma detect_types:
  assumes "detect_endpoint_events eid obs = Inr events"
  shows "map ee_event_type events = map ob_signal_name (true_observations obs)"
proof -
  have "\<forall>ob\<in>set obs. hashable (obs_value ob)" using assms detect_raises [of _ obs eid 0] by (force simp: detect_endpoint_events_def)
  then have "events = map (\<lambda>(j, ob). event_of (eid j) ob) (enumerate 0 (true_observations obs))"
    using detect_hashable [of obs eid 0] assms by (simp add: detect_endpoint_events_def)
  then show ?thesis by (simp only: event_types_true)
qed

text \<open>What a transition says apart from the events that caused it.\<close>

definition scenario_shape :: "'a scenario_transition_scheme \<Rightarrow> string \<times> string \<times> string \<times> rat" where
  "scenario_shape t = (st_from_state t, st_to_state t, st_rule_id t, st_confidence t)"

definition canonical_shape :: "canonical_transition \<Rightarrow> canonical_state \<times> canonical_state \<times> string \<times> string \<times> rat \<times> (string \<times> string) option" where
  "canonical_shape t = (ct_from_state t, ct_to_state t, ct_rule_id t, ct_scenario_rule_id t, ct_confidence t, ct_scenario_pair t)"

lemma scenario_shape_eq: "scenario_shape t = scenario_shape t' \<longleftrightarrow>
    st_from_state t = st_from_state t' \<and> st_to_state t = st_to_state t' \<and> st_rule_id t = st_rule_id t' \<and> st_confidence t = st_confidence t'"
  by (auto simp: scenario_shape_def)

lemma canonical_shape_make: "canonical_shape \<lparr>ct_from_state = a, ct_to_state = b, ct_rule_id = r, ct_scenario_rule_id = sr, ct_event_ids = ids,
    ct_confidence = c, ct_scenario_pair = sp\<rparr> = (a, b, r, sr, c, sp)"
  by (simp add: canonical_shape_def)

lemma transitions_shape:
  "event_types es = event_types es' \<Longrightarrow>
     map scenario_shape (infer_browser_proxy_transitions es signals) = map scenario_shape (infer_browser_proxy_transitions es' signals)"
  by (simp add: infer_browser_proxy_transitions_def Let_def transition_to_def scenario_shape_def)

lemma rules_loop_shape:
  assumes "ee_event_type ` set es = ee_event_type ` set es'"
  shows "snd (rules_loop es signals cur rs) = snd (rules_loop es' signals cur rs) \<and>
     map canonical_shape (fst (rules_loop es signals cur rs)) = map canonical_shape (fst (rules_loop es' signals cur rs))"
  by (induction rs arbitrary: cur) (auto simp: rule_applies_def assms Let_def split_beta canonical_shape_make)

lemma scenario_loop_shape:
  "map scenario_shape ts = map scenario_shape ts' \<Longrightarrow> map canonical_shape (scenario_loop seen cur ts) = map canonical_shape (scenario_loop seen cur ts')"
proof (induction ts arbitrary: ts' seen cur)
  case (Cons t ts)
  then obtain t' rest where ts: "ts' = t' # rest" "scenario_shape t = scenario_shape t'" "map scenario_shape ts = map scenario_shape rest" by auto
  then show ?case using Cons.IH [OF ts(3)] by (simp add: Let_def scenario_shape_eq canonical_shape_make)
qed simp

lemma dedupe_shape:
  "map f xs = map f ys \<Longrightarrow> (\<And>x y. f x = f y \<Longrightarrow> key x = key y) \<Longrightarrow> map f (dedupe_by key seen xs) = map f (dedupe_by key seen ys)"
proof (induction xs arbitrary: ys seen)
  case (Cons x xs)
  from Cons.prems(1) obtain y rest where y: "ys = y # rest" "f x = f y" "map f xs = map f rest" by auto
  have "key x = key y" using y(2) by (rule Cons.prems(2))
  moreover have "map f (dedupe_by key sn xs) = map f (dedupe_by key sn rest)" for sn using y(3) Cons.prems(2) by (rule Cons.IH)
  ultimately show ?case using y(1,2) by simp
qed simp

lemma path_loop_shape: "map canonical_shape ts = map canonical_shape ts' \<Longrightarrow> path_loop s ts = path_loop s ts'"
proof (induction ts arbitrary: ts' s)
  case (Cons t ts)
  then obtain t' rest where ts: "ts' = t' # rest" "canonical_shape t = canonical_shape t'" "map canonical_shape ts = map canonical_shape rest" by auto
  then have "ct_to_state t = ct_to_state t'" by (simp add: canonical_shape_def)
  then show ?case using Cons.IH [OF ts(3)] ts(1) by simp
qed simp

lemma path_shape:
  assumes "map canonical_shape ts = map canonical_shape ts'"
  shows "canonical_state_path ts = canonical_state_path ts'"
proof (cases ts)
  case (Cons t xs)
  then obtain t' ys where t': "ts' = t' # ys" using assms by (cases ts') auto
  then have "ct_from_state t = ct_from_state t'" using assms Cons by (simp add: canonical_shape_def)
  then have "canonical_state_path ts = ct_from_state t' # path_loop (ct_from_state t') ts" unfolding canonical_state_path_def Cons list.case by simp
  also have "\<dots> = canonical_state_path ts'" unfolding canonical_state_path_def path_loop_shape [OF assms] t' list.case by simp
  finally show ?thesis .
qed (use assms in simp)

lemma canonical_shapes:
  assumes "ee_event_type ` set es = ee_event_type ` set es'" and "map scenario_shape ts = map scenario_shape ts'"
  shows "map canonical_shape (infer_canonical_transitions ts es signals) = map canonical_shape (infer_canonical_transitions ts' es' signals)"
proof -
  obtain out cur out' cur' where r: "rules_loop es signals NORMAL canonical_transition_rules = (out, cur)"
    "rules_loop es' signals NORMAL canonical_transition_rules = (out', cur')" by (meson prod.exhaust)
  then have e: "cur = cur'" "map canonical_shape out = map canonical_shape out'"
    using rules_loop_shape [OF assms(1), of signals NORMAL canonical_transition_rules] by simp_all
  from arg_cong [OF e(2), of "\<lambda>xs. xs = []"] have "(out = []) = (out' = [])" by simp
  then have "map canonical_shape (raw_canonical_transitions ts es signals) = map canonical_shape (raw_canonical_transitions ts' es' signals)"
    using e scenario_loop_shape [OF assms(2), of "out \<noteq> []" cur] by (simp add: raw_canonical_transitions_def r)
  then show ?thesis unfolding infer_canonical_transitions_def dedupe_canonical_transitions_def
    by (rule dedupe_shape) (simp add: canonical_shape_def transition_key_def)
qed

section \<open>Runs with other identifiers\<close>

lemma policy_shape:
  assumes "map scenario_shape ts = map scenario_shape ts'"
  shows "evaluate_reasoning_policy hyp ts proof c impact requested confirmation conflicting =
    evaluate_reasoning_policy hyp ts' proof c impact requested confirmation conflicting"
proof -
  have n: "(ts = []) = (ts' = [])" using assms by (cases ts; cases ts') auto
  have "st_to_state (last ts) = st_to_state (last ts')" if "ts \<noteq> []"
  proof -
    have "last (map scenario_shape ts) = last (map scenario_shape ts')" using assms by simp
    then show ?thesis using that n by (simp add: last_map scenario_shape_eq)
  qed
  then have "policy_answer hyp ts proof c impact conflicting = policy_answer hyp ts' proof c impact conflicting"
    using n by (intro ext) (simp add: policy_answer_def)
  then show ?thesis by (simp only: evaluate_reasoning_policy_def)
qed

lemma ranking_shape: "map scenario_shape ts = map scenario_shape ts' \<Longrightarrow> rank_run_hypotheses ts signals proof = rank_run_hypotheses ts' signals proof"
  using map_eq_imp_length_eq [of scenario_shape ts scenario_shape ts'] by (cases ts; cases ts') (simp_all add: rank_run_hypotheses_def)

lemma truncated_shapes:
  "map scenario_shape (map scenario_transition.truncate ts) = map scenario_shape ts"
  "ee_event_type ` set (map endpoint_event.truncate es) = event_types es"
  by (simp_all add: scenario_shape_def scenario_transition.truncate_def endpoint_event.truncate_def event_types_def image_image)

text \<open>The parts of a run that do not depend on the generated identifiers.\<close>

lemma run_reasoning_stable:
  assumes "run_reasoning eid fresh obs given requested confirmation source run_id = Inr r"
  obtains r' where "run_reasoning eid' fresh' obs given requested confirmation source' run_id' = Inr r'"
    and "rr_signals r' = rr_signals r" and "map ee_event_type (rr_events r') = map ee_event_type (rr_events r)" and "rr_ranking r' = rr_ranking r"
    and "rr_accepted r' = rr_accepted r" and "rr_impact r' = rr_impact r" and "rr_policy r' = rr_policy r" and "rr_proof r' = rr_proof r"
    and "rr_canonical_path r' = rr_canonical_path r" and "rr_limitations r' = rr_limitations r" and "rr_next_steps r' = rr_next_steps r"
    and "rr_preview r' = rr_preview r"
proof -
  obtain es where es: "detect_endpoint_events eid obs = Inr es" using assms by (auto simp: run_reasoning_def Let_def bind_r_Inr)
  then have "\<forall>ob\<in>set obs. hashable (obs_value ob)" using detect_raises [of _ obs eid 0] by (force simp: detect_endpoint_events_def)
  then obtain es' where es': "detect_endpoint_events eid' obs = Inr es'" using detect_hashable [of obs eid' 0] by (simp add: detect_endpoint_events_def)
  have ty: "map ee_event_type es' = map ee_event_type es" using detect_types [OF es] detect_types [OF es'] by simp
  then have et: "event_types es' = event_types es" unfolding event_types_def by (metis set_map)
  let ?s = "normalize_signals obs"
  let ?t = "infer_browser_proxy_transitions es ?s" and ?t' = "infer_browser_proxy_transitions es' ?s"
  note sh = transitions_shape [OF et, of ?s]
  have p: "canonical_state_path (infer_canonical_transitions (map scenario_transition.truncate ?t') (map endpoint_event.truncate es') ?s) =
      canonical_state_path (infer_canonical_transitions (map scenario_transition.truncate ?t) (map endpoint_event.truncate es) ?s)"
    by (rule path_shape, rule canonical_shapes) (simp_all only: truncated_shapes et sh)
  have r: "r = projr (run_reasoning eid fresh obs given requested confirmation source run_id)" using assms by simp
  show ?thesis
    by (rule that [of "projr (run_reasoning eid' fresh' obs given requested confirmation source' run_id')"], unfold r)
       (simp_all add: run_reasoning_def Let_def es es' ty p ranking_shape [OF sh] policy_shape [OF sh])
qed

lemma run_identity:
  assumes "run_reasoning eid fresh obs given requested confirmation source run_id = Inr r"
  shows "rr_observations r = obs" and "rr_id r = (case run_id of Some i \<Rightarrow> if i = [] then fresh else i | None \<Rightarrow> fresh)"
  using assms by (auto simp: run_reasoning_def Let_def bind_r_Inr)

lemma run_from_record:
  assumes "run_reasoning eid fresh obs given requested confirmation source run_id = Inr r"
    and "confirmed = (''CONFIRMED_SAFE_TIER_WITH_CONFIRMATION'' \<in> set (rp_reason_codes (rr_policy r)) \<or>
      ''confirmed_proof_safe_action_confirmation_present'' \<in> set (rp_reason_codes (rr_policy r)))"
  obtains r' where "run_reasoning eid fresh obs (Some (rr_proof r)) (rp_requested_action (rr_policy r)) confirmed source run_id = Inr r'"
    and "r' = r\<lparr>rr_preview := map_option (\<lambda>v. v\<lparr>pv_action := norm_action requested\<rparr>) (rr_preview r)\<rparr>"
proof -
  obtain es where es: "detect_endpoint_events eid obs = Inr es" using assms(1) by (auto simp: run_reasoning_def Let_def bind_r_Inr)
  let ?p = "case given of Some p \<Rightarrow> p | None \<Rightarrow> default_proof\<lparr>pf_hypothesis := ''browser_proxy_path_regression''\<rparr>"
  let ?s = "normalize_signals obs"
  let ?t = "infer_browser_proxy_transitions es ?s"
  let ?k = "rank_run_hypotheses ?t ?s ?p"
  let ?v = "evaluate_reasoning_policy (rk_hypothesis (hd ?k)) ?t ?p (rk_confidence (hd ?k)) (ri_level (run_impact ?s (rk_confidence (hd ?k))))"
  have r: "r = projr (run_reasoning eid fresh obs given requested confirmation source run_id)" using assms(1) by simp
  have f: "rr_proof r = ?p" "rr_policy r = ?v requested confirmation (conflicting_signals ?s)"
    unfolding r by (simp_all add: run_reasoning_def Let_def es)
  have v: "?v (rp_requested_action (rr_policy r)) confirmed (conflicting_signals ?s) = ?v requested confirmation (conflicting_signals ?s)"
    unfolding assms(2) using policy_replayed [OF f(2)] f(2) by simp
  have a: "rp_requested_action (rr_policy r) = norm_action requested" unfolding f(2) by (rule policy_action)
  show ?thesis
    by (rule that [of "projr (run_reasoning eid fresh obs (Some (rr_proof r)) (rp_requested_action (rr_policy r)) confirmed source run_id)"])
       (simp_all only: f(1) a v [unfolded a], simp_all add: r run_reasoning_def Let_def es v [unfolded a])
qed

section \<open>Properties\<close>

text \<open>
  C35. The verdict on an action is decided by four questions, and the guards for high impact, low trust and missing proof that follow them change nothing: destructive
  or unlisted actions are blocked, a listed one is allowed exactly with a confirmed proof, a typed confirmation and no conflicting signals, and is
  previewed otherwise. An approval carries exactly its three codes, the demand for a
  typed confirmation among them although the confirmation was given (the source's audit note takes such a code beside an approval for a regression of the gate); the blocked list always names the forbidden actions and the action that was blocked.
\<close>

theorem reasoning_policy_exact:
  "let p = evaluate_reasoning_policy hyp ts proof c impact requested confirmation conflicting
   in rp_outcome p =
        (case norm_action requested of
           None \<Rightarrow> PT_PREVIEW
         | Some a \<Rightarrow> if list_ex (\<lambda>token. py_in token a) DESTRUCTIVE_ACTION_TOKENS \<or> a \<notin> set SAFE_REGISTRY_ACTIONS then PT_BLOCK
                     else if pf_status proof = CONFIRMED \<and> confirmation \<and> \<not> conflicting then PT_ALLOW else PT_PREVIEW) \<and>
      (rp_outcome p = PT_ALLOW \<longrightarrow>
         rp_reason_codes p = [''CONFIRMED_SAFE_TIER_WITH_CONFIRMATION'', ''SAFE_TIER_ACTION'', ''REQUIRES_TYPED_CONFIRMATION'']) \<and>
      set ALWAYS_BLOCKED_ACTIONS \<subseteq> set (rp_blocked_actions p) \<and>
      (rp_outcome p = PT_BLOCK \<longrightarrow> the (norm_action requested) \<in> set (rp_blocked_actions p))"
proof -
  let ?p = "evaluate_reasoning_policy hyp ts proof c impact requested confirmation conflicting"
  have b: "rp_blocked_actions ?p = with_blocked ALWAYS_BLOCKED_ACTIONS (rp_outcome ?p) (norm_action requested)"
    by (cases "norm_action requested") (simp_all add: evaluate_reasoning_policy_def blocked_actions_for_request_def Let_def split_beta)
  have "the (norm_action requested) \<in> set (rp_blocked_actions ?p)" if o: "rp_outcome ?p = PT_BLOCK"
  proof -
    obtain a where "norm_action requested = Some a" using o by (cases "norm_action requested") (auto simp: policy_outcome)
    then show ?thesis unfolding b o using blocked_contains(2) [of "norm_action requested" a PT_BLOCK] action_idem [of requested] by simp
  qed
  moreover have "set ALWAYS_BLOCKED_ACTIONS \<subseteq> set (rp_blocked_actions ?p)" unfolding b by (rule blocked_contains(1))
  ultimately show ?thesis
    unfolding Let_def using policy_codes [of hyp ts "proof" c impact requested confirmation conflicting]
    by (simp add: policy_outcome [unfolded destructive_action_def proof_allows_def])
qed

text \<open>
  C36. Replay: a stored run is recomputed to the same signals, events, ranking, impact, canonical path and decision, under the identifier of the run, whatever
  identifiers are generated, although the record holds neither the text of the request nor the confirmation.
\<close>

theorem replay_reproduces_run:
  assumes "run_reasoning eid fresh obs given requested confirmation source run_id = Inr r" and "fresh \<noteq> []"
  shows "\<exists>r'. replay_reasoning_record eid' fresh' (to_audit_record r) = Inr r' \<and> rr_id r' = rr_id r \<and> rr_signals r' = rr_signals r \<and>
     map ee_event_type (rr_events r') = map ee_event_type (rr_events r) \<and> rr_ranking r' = rr_ranking r \<and> rr_accepted r' = rr_accepted r \<and>
     rr_impact r' = rr_impact r \<and> rr_canonical_path r' = rr_canonical_path r \<and> rr_policy r' = rr_policy r \<and>
     rr_limitations r' = rr_limitations r \<and> rr_next_steps r' = rr_next_steps r"
proof -
  let ?codes = "rp_reason_codes (rr_policy r)"
  let ?c = "''CONFIRMED_SAFE_TIER_WITH_CONFIRMATION'' \<in> set ?codes \<or> ''confirmed_proof_safe_action_confirmation_present'' \<in> set ?codes"
  obtain r1 where r1: "run_reasoning eid fresh obs (Some (rr_proof r)) (rp_requested_action (rr_policy r)) ?c source run_id = Inr r1"
    and e1: "r1 = r\<lparr>rr_preview := map_option (\<lambda>v. v\<lparr>pv_action := norm_action requested\<rparr>) (rr_preview r)\<rparr>"
    using run_from_record [OF assms(1) refl] by blast
  have i: "rr_observations r = obs" "rr_id r \<noteq> []"
    using run_identity [OF assms(1)] assms(2) by (auto split: option.split)
  have rp: "replay_reasoning_record eid' fresh' (to_audit_record r) =
      run_reasoning eid' fresh' obs (Some (rr_proof r)) (rp_requested_action (rr_policy r)) ?c ''replay'' (Some (rr_id r))"
    by (simp add: replay_reasoning_record_def to_audit_record_def first_given_def Let_def i)
  show ?thesis unfolding rp
  proof (rule run_reasoning_stable [OF r1, of eid' fresh' "''replay''" "Some (rr_id r)"])
    fix r' assume r': "run_reasoning eid' fresh' obs (Some (rr_proof r)) (rp_requested_action (rr_policy r)) ?c ''replay'' (Some (rr_id r)) = Inr r'"
      and same: "rr_signals r' = rr_signals r1" "map ee_event_type (rr_events r') = map ee_event_type (rr_events r1)" "rr_ranking r' = rr_ranking r1"
        "rr_accepted r' = rr_accepted r1" "rr_impact r' = rr_impact r1" "rr_policy r' = rr_policy r1" "rr_proof r' = rr_proof r1"
        "rr_canonical_path r' = rr_canonical_path r1" "rr_limitations r' = rr_limitations r1" "rr_next_steps r' = rr_next_steps r1" "rr_preview r' = rr_preview r1"
    have "rr_id r' = rr_id r" using run_identity(2) [OF r'] i(2) by simp
    then show "\<exists>r'. run_reasoning eid' fresh' obs (Some (rr_proof r)) (rp_requested_action (rr_policy r)) ?c ''replay'' (Some (rr_id r)) = Inr r' \<and>
        rr_id r' = rr_id r \<and> rr_signals r' = rr_signals r \<and> map ee_event_type (rr_events r') = map ee_event_type (rr_events r) \<and>
        rr_ranking r' = rr_ranking r \<and> rr_accepted r' = rr_accepted r \<and> rr_impact r' = rr_impact r \<and>
        rr_canonical_path r' = rr_canonical_path r \<and> rr_policy r' = rr_policy r \<and> rr_limitations r' = rr_limitations r \<and> rr_next_steps r' = rr_next_steps r"
      using r' same by (simp add: e1)
  qed
qed

lemma round2_mono: "x \<le> y \<Longrightarrow> round2 x \<le> round2 y"
  by (simp add: round2_def round_half_even_mono divide_right_mono)

lemma round2_hundredths: "round2 (of_int n / 100) = of_int n / 100"
  by (simp add: round2_def)

lemma run_ranking_bounds:
  "20/100 \<le> rk_confidence (hd (rank_run_hypotheses ts signals proof))" "rk_confidence (hd (rank_run_hypotheses ts signals proof)) \<le> 98/100"
proof -
  define x where "x = max 0 (min (98/100) (if ts = [] then min (fst (rank_evidence signals proof)) (30/100) else fst (rank_evidence signals proof)))"
  have c: "rk_confidence (hd (rank_run_hypotheses ts signals proof)) = round2 x"
    by (simp add: rank_run_hypotheses_def split_beta Let_def x_def)
  have "20/100 \<le> fst (rank_evidence signals proof)" by (simp add: rank_evidence_def Let_def)
  then have "of_int 20 / 100 \<le> x" "x \<le> of_int 98 / 100" by (simp_all add: x_def max_def min_def)
  then have "round2 (of_int 20 / 100) \<le> round2 x" "round2 x \<le> round2 (of_int 98 / 100)" by (simp_all only: round2_mono)
  then show "20/100 \<le> rk_confidence (hd (rank_run_hypotheses ts signals proof))" "rk_confidence (hd (rank_run_hypotheses ts signals proof)) \<le> 98/100"
    unfolding c round2_hundredths by simp_all
qed

lemma ranking_head: "rk_hypothesis (hd (rank_run_hypotheses ts signals proof)) = ''browser_proxy_path_regression''"
  by (simp add: rank_run_hypotheses_def split_beta Let_def)

lemma impact_fields:
  "ri_level (calculate_reliability_impact sv scope c d) = impact_level (ri_score (calculate_reliability_impact sv scope c d))"
  "ri_score (calculate_reliability_impact sv scope c d) =
     round2 (max 0 (min 1 (severity_weight sv * scope_weight scope * max 0 (min 1 c) * duration_weight d)))"
  by (simp_all add: calculate_reliability_impact_def Let_def)

lemma impact_bounds:
  assumes "0 \<le> c" and "c \<le> 98/100"
  shows "0 \<le> ri_score (run_impact signals c)" and "ri_score (run_impact signals c) \<le> 64/100" and "ri_level (run_impact signals c) \<noteq> Critical"
proof -
  define w where "w = severity_weight (if signal_has signals ''browser_https_failed'' then High else Medium)
    * scope_weight (if signal_has signals ''proxied_path_failed'' then Browser_And_Dev_Tools else Browser_Only)"
  have w: "0 \<le> w" "w \<le> 765/1000" by (simp_all add: w_def)
  have "w * c \<le> 765/1000 * (98/100)" using w assms by (intro mult_mono) simp_all
  then have le: "w * c * (85/100) \<le> of_int 64 / 100" by linarith
  have ge: "of_int 0 / 100 \<le> w * c * (85/100)" using w assms by simp
  have clamp: "0 \<le> x \<Longrightarrow> x \<le> 1 \<Longrightarrow> max 0 (min 1 x) = x" for x :: rat by simp
  have m: "max 0 (min 1 c) = c" "max 0 (min 1 (w * c * (85/100))) = w * c * (85/100)"
    by (rule clamp; use assms le ge in linarith)+
  have sc: "ri_score (run_impact signals c) = round2 (w * c * (85/100))"
    unfolding run_impact_def impact_fields(2) m(1) duration_weight.simps w_def [symmetric] m(2) ..
  show s: "0 \<le> ri_score (run_impact signals c)" "ri_score (run_impact signals c) \<le> 64/100"
    unfolding sc using round2_mono [OF ge, unfolded round2_hundredths] round2_mono [OF le, unfolded round2_hundredths] by simp_all
  have "ri_level (run_impact signals c) = impact_level (ri_score (run_impact signals c))" unfolding run_impact_def by (rule impact_fields(1))
  then show "ri_level (run_impact signals c) \<noteq> Critical" using s by (simp add: impact_level_def)
qed

lemma transition_rule [simp]: "st_rule_id (transition_to a b rule c level ids) = rule"
  by (simp add: transition_to_def)

lemma scenario_rule_ids:
  "distinct (map st_rule_id (infer_browser_proxy_transitions es signals))" "[] \<notin> set (map st_rule_id (infer_browser_proxy_transitions es signals))"
proof -
  have "\<exists>b1 b2 b3 b4. map st_rule_id (infer_browser_proxy_transitions es signals) =
      (if b1 then [''proxy_drift''] else []) @ (if b2 then [''browser_path_suspected''] else []) @
      (if b3 then [''proxy_path_confirmed''] else []) @ (if b4 then [''preview_ready''] else [])"
    unfolding infer_browser_proxy_transitions_def Let_def map_append if_distrib [of "map st_rule_id"] list.map transition_rule by blast
  then obtain b1 b2 b3 b4 where "map st_rule_id (infer_browser_proxy_transitions es signals) =
      (if b1 then [''proxy_drift''] else []) @ (if b2 then [''browser_path_suspected''] else []) @
      (if b3 then [''proxy_path_confirmed''] else []) @ (if b4 then [''preview_ready''] else [])" by blast
  then show "distinct (map st_rule_id (infer_browser_proxy_transitions es signals))" "[] \<notin> set (map st_rule_id (infer_browser_proxy_transitions es signals))"
    by (simp_all only:) (cases b1; cases b2; cases b3; cases b4; simp)+
qed

text \<open>
  C37. A run raises exactly when an observed value is a list or a dictionary. Otherwise it accepts the regression hypothesis, whatever was observed, with a confidence
  between 0.20 and 0.98; its impact is at most 0.64 and never critical; and its canonical transitions lead step by step from the normal state along the reported path.
\<close>

theorem run_reasoning_exact:
  "case run_reasoning eid fresh obs given requested confirmation source run_id of
     Inl e \<Rightarrow> list_ex (\<lambda>ob. is_list (obs_value ob) \<or> is_dict (obs_value ob)) obs
   | Inr r \<Rightarrow> list_all (\<lambda>ob. \<not> is_list (obs_value ob) \<and> \<not> is_dict (obs_value ob)) obs \<and>
       rr_accepted r = ''browser_proxy_path_regression'' \<and>
       20/100 \<le> rk_confidence (hd (rr_ranking r)) \<and> rk_confidence (hd (rr_ranking r)) \<le> 98/100 \<and>
       0 \<le> ri_score (rr_impact r) \<and> ri_score (rr_impact r) \<le> 64/100 \<and> ri_level (rr_impact r) \<noteq> Critical \<and>
       chained NORMAL (rr_canonical_transitions r) \<and> rr_canonical_path r = NORMAL # map ct_to_state (rr_canonical_transitions r)"
proof (cases "run_reasoning eid fresh obs given requested confirmation source run_id")
  case (Inl e)
  then obtain e' where "detect_endpoint_events eid obs = Inl e'"
    by (cases "detect_endpoint_events eid obs") (auto simp: run_reasoning_def Let_def)
  then have "\<not> (\<forall>ob\<in>set obs. hashable (obs_value ob))" using detect_hashable [of obs eid 0] by (auto simp: detect_endpoint_events_def)
  then show ?thesis using Inl by (auto simp: hashable_def list_ex_iff)
next
  case (Inr r)
  then obtain es where es: "detect_endpoint_events eid obs = Inr es" by (auto simp: run_reasoning_def Let_def bind_r_Inr)
  have h: "\<forall>ob\<in>set obs. hashable (obs_value ob)" using es detect_raises [of _ obs eid 0] by (force simp: detect_endpoint_events_def)
  let ?t = "infer_browser_proxy_transitions es (normalize_signals obs)"
  have r: "r = projr (run_reasoning eid fresh obs given requested confirmation source run_id)" using Inr by simp
  have f: "rr_accepted r = ''browser_proxy_path_regression''" "\<exists>p. rr_ranking r = rank_run_hypotheses ?t (normalize_signals obs) p"
    "rr_impact r = run_impact (normalize_signals obs) (rk_confidence (hd (rr_ranking r)))"
    unfolding r by (simp_all add: run_reasoning_def Let_def es ranking_head) blast
  have k: "20/100 \<le> rk_confidence (hd (rr_ranking r))" "rk_confidence (hd (rr_ranking r)) \<le> 98/100" using f(2) run_ranking_bounds by auto
  have "0 \<le> rk_confidence (hd (rr_ranking r))" using k by simp
  note b = impact_bounds [OF this k(2), of "normalize_signals obs"]
  have "map st_rule_id (map scenario_transition.truncate ?t) = map st_rule_id ?t" by (simp add: scenario_transition.truncate_def)
  note c = canonical_transitions_connected [of "map scenario_transition.truncate ?t" "map endpoint_event.truncate es" "normalize_signals obs",
    unfolded this, OF scenario_rule_ids]
  have t: "rr_canonical_transitions r = infer_canonical_transitions (map scenario_transition.truncate ?t) (map endpoint_event.truncate es) (normalize_signals obs)"
    "rr_canonical_path r = canonical_state_path (rr_canonical_transitions r)"
    unfolding r by (simp_all add: run_reasoning_def Let_def es)
  show ?thesis unfolding Inr sum.case using h f(1,3) k b c t by (auto simp: hashable_def list_all_iff)
qed

section \<open>Consequences and witnesses\<close>

text \<open>
  The engine steps to the confirmed failure without the suspicion that the rule of the scenario requires; it takes a number above one for a present signal and for
  no event; and the preview of a run shows the request as it was written, which a replay does not know.
\<close>

definition sample_observation :: "string \<Rightarrow> pyval \<Rightarrow> reasoning_observation" where
  "sample_observation name v = \<lparr>ob_id = name, ob_source = ''fixture'', ob_signal_name = name, ob_value = v, ob_normalized_value = v, ob_confidence = 1,
     ob_limitations = [], ob_next_steps = []\<rparr>"

lemma confirmed_without_suspicion:
  "map (\<lambda>t. (st_from_state t, st_to_state t))
     (infer_browser_proxy_transitions (map (\<lambda>n. event_of n (sample_observation n (PyBool True))) [''proxy_bypass_succeeded'', ''proxied_path_failed'']) []) =
   [(''healthy_browser_path'', ''proxy_path_failure_confirmed'')]"
  "(''healthy_browser_path'', ''proxy_path_failure_confirmed'') \<notin> set (map (\<lambda>r. (sr_from_state r, sr_to_state r)) (fs_rules browser_proxy_path_regression))"
  by code_simp+

lemma counted_signal_without_event:
  "detect_from eid k [sample_observation ''browser_https_failed'' (PyInt 2)] = Inr []"
  "signal_has (normalize_signals [sample_observation ''browser_https_failed'' (PyInt 2)]) ''browser_https_failed''"
  by (simp_all add: obs_value_def sample_observation_def signal_has_def normalize_signals_def dict_get_def)

definition confirmed_proof :: proof_result where
  "confirmed_proof = default_proof\<lparr>pf_hypothesis := ''browser_proxy_path_regression'', pf_status := CONFIRMED\<rparr>"

theorem reasoning_policy_exact_witness:
  "rp_outcome (evaluate_reasoning_policy ''h'' [] confirmed_proof 1 High (Some ''Restore_Proxy '') True False) = PT_ALLOW \<and>
   rp_reason_codes (evaluate_reasoning_policy ''h'' [] confirmed_proof 1 High (Some ''Restore_Proxy '') True False) =
     [''CONFIRMED_SAFE_TIER_WITH_CONFIRMATION'', ''SAFE_TIER_ACTION'', ''REQUIRES_TYPED_CONFIRMATION'']"
proof -
  have n: "norm_action (Some ''Restore_Proxy '') = Some ''restore_proxy''" by code_simp
  have "\<not> list_ex (\<lambda>token. py_in token ''restore_proxy'') DESTRUCTIVE_ACTION_TOKENS" "''restore_proxy'' \<in> set SAFE_REGISTRY_ACTIONS" by code_simp+
  moreover have "pf_status confirmed_proof = CONFIRMED" by (simp add: confirmed_proof_def)
  ultimately show ?thesis
    using reasoning_policy_exact [of "''h''" "[]" confirmed_proof 1 High "Some ''Restore_Proxy ''" True False] n by (simp add: Let_def)
qed

theorem replay_reproduces_run_witness:
  "\<exists>r r'. run_reasoning (\<lambda>k. nat_str k) ''run_1'' [sample_observation ''dns_ok'' (PyBool True)] (Some confirmed_proof) (Some ''Restore_Proxy '') True ''t'' None = Inr r \<and>
     replay_reasoning_record (\<lambda>k. nat_str (k + 7)) ''run_2'' (to_audit_record r) = Inr r' \<and> rr_id r' = ''run_1'' \<and> rr_policy r' = rr_policy r"
proof -
  have "\<exists>r. run_reasoning (\<lambda>k. nat_str k) ''run_1'' [sample_observation ''dns_ok'' (PyBool True)] (Some confirmed_proof) (Some ''Restore_Proxy '') True ''t'' None = Inr r"
    by (simp add: run_reasoning_def Let_def detect_endpoint_events_def obs_value_def sample_observation_def)
  then obtain r where r: "run_reasoning (\<lambda>k. nat_str k) ''run_1'' [sample_observation ''dns_ok'' (PyBool True)] (Some confirmed_proof) (Some ''Restore_Proxy '') True ''t'' None = Inr r"
    by blast
  then show ?thesis using replay_reproduces_run [OF r, of "\<lambda>k. nat_str (k + 7)" "''run_2''"] run_identity(2) [OF r] by auto
qed

end
