(* ===== verification/Edge_Device.thy ===== *)
theory Edge_Device
  imports Reasoning "HOL-Library.Multiset"
begin

text \<open>
  The reliability layer for simulated edge devices, \<open>edge_device/{signals,scenarios,policy,reasoning,models,simulator,audit}.py\<close>: raw telemetry becomes signals and
  events, catalogued hypotheses are ranked, an impact is derived, the requested action is judged, and runs are appended to a log and loaded again. It
  shares the models of \<open>Reasoning\<close>.

  The number a text denotes (\<open>float(str)\<close>), the random numbers and the identifiers of observations and events are parameters. A line of the log is the row it encodes.

  The lemmas give the exact condition for an approval of a run, the order and bounds of the ranking, and the diagnosis of every simulated profile.
\<close>

section \<open>Signals\<close>

datatype edge_value = Ev_None | Ev_Number rat | Ev_Bool bool | Ev_Text string

type_synonym edge_signals = "(string \<times> edge_value) list"

fun edge_truthy :: "edge_value \<Rightarrow> bool" where
  "edge_truthy Ev_None = False"
| "edge_truthy (Ev_Number x) = (x \<noteq> 0)"
| "edge_truthy (Ev_Bool b) = b"
| "edge_truthy (Ev_Text s) = (s \<noteq> [])"

definition flag :: "edge_signals \<Rightarrow> string \<Rightarrow> bool" where
  "flag signals name = (case map_of signals name of None \<Rightarrow> False | Some v \<Rightarrow> edge_truthy v)"

definition CPU_HIGH :: rat where "CPU_HIGH = 85/100"

definition MEMORY_PRESSURE_HIGH :: rat where "MEMORY_PRESSURE_HIGH = 85/100"

definition THERMAL_WARN_C :: rat where "THERMAL_WARN_C = 75"

definition THERMAL_HOT_C :: rat where "THERMAL_HOT_C = 85"

definition LATENCY_REGRESSION_MS :: rat where "LATENCY_REGRESSION_MS = 120"

definition LATENCY_BASELINE_MULTIPLIER :: rat where "LATENCY_BASELINE_MULTIPLIER = 25/10"

definition INFERENCE_ERROR_HIGH :: rat where "INFERENCE_ERROR_HIGH = 5/100"

lemmas edge_limits = CPU_HIGH_def MEMORY_PRESSURE_HIGH_def THERMAL_WARN_C_def THERMAL_HOT_C_def LATENCY_REGRESSION_MS_def LATENCY_BASELINE_MULTIPLIER_def
  INFERENCE_ERROR_HIGH_def

definition raw_signal_names :: "string list" where
  "raw_signal_names = [''cpu_load'', ''memory_pressure'', ''temperature_celsius'', ''npu_available'', ''inference_latency_ms'', ''inference_error_rate'',
     ''driver_status'', ''sensor_input_status'', ''network_uplink_status'']"

fun as_float :: "(string \<Rightarrow> rat option) \<Rightarrow> pyval \<Rightarrow> rat option" where
  "as_float float_of_text (PyInt i) = Some (of_int i)"
| "as_float float_of_text (PyFloat v r) = Some v"
| "as_float float_of_text (PyStr s) = float_of_text s"
| "as_float float_of_text _ = None"

fun as_bool :: "pyval \<Rightarrow> bool option" where
  "as_bool PyNone = None"
| "as_bool (PyBool b) = Some b"
| "as_bool v =
     (let t = py_lower (py_strip (py_str v))
      in if t \<in> {''true'', ''yes'', ''ok'', ''up'', ''available'', ''1'', ''online'', ''healthy''} then Some True
         else if t \<in> {''false'', ''no'', ''down'', ''unavailable'', ''0'', ''offline''} then Some False else None)"

definition observations_from_raw :: "(nat \<Rightarrow> string) \<Rightarrow> pydict \<Rightarrow> string \<Rightarrow> reasoning_observation list" where
  "observations_from_raw oid raw source =
     (let names = filter (has_key raw) raw_signal_names
      in map (\<lambda>k. \<lparr>ob_id = oid k, ob_source = source, ob_signal_name = names ! k, ob_value = dict_get raw (names ! k), ob_normalized_value = PyNone,
                   ob_confidence = 1, ob_limitations = [], ob_next_steps = []\<rparr>) [0..<length names])"

text \<open>\<open>str(v or "").strip().lower() or None\<close>.\<close>

definition status_text :: "pyval \<Rightarrow> string option" where
  "status_text v = (let t = py_lower (py_strip (if truthy v then py_str v else [])) in if t = [] then None else Some t)"

definition at_least :: "rat option \<Rightarrow> rat \<Rightarrow> bool" where
  "at_least x limit = (case x of None \<Rightarrow> False | Some v \<Rightarrow> v \<ge> limit)"

definition among :: "string option \<Rightarrow> string list \<Rightarrow> bool" where
  "among x xs = (case x of None \<Rightarrow> False | Some t \<Rightarrow> t \<in> set xs)"

fun number_value :: "rat option \<Rightarrow> edge_value" where
  "number_value None = Ev_None"
| "number_value (Some x) = Ev_Number x"

fun text_value :: "string option \<Rightarrow> edge_value" where
  "text_value None = Ev_None"
| "text_value (Some t) = Ev_Text t"

fun bool_value :: "bool option \<Rightarrow> edge_value" where
  "bool_value None = Ev_None"
| "bool_value (Some b) = Ev_Bool b"

definition latency_threshold :: "rat option \<Rightarrow> rat" where
  "latency_threshold baseline =
     (case baseline of
        None \<Rightarrow> LATENCY_REGRESSION_MS
      | Some b \<Rightarrow> if b > 0 then min LATENCY_REGRESSION_MS (b * LATENCY_BASELINE_MULTIPLIER) else LATENCY_REGRESSION_MS)"

text \<open>The values read from the telemetry, and the signal map over them.\<close>

record edge_measures =
  em_cpu :: "rat option"
  em_mem :: "rat option"
  em_temp :: "rat option"
  em_npu :: "bool option"
  em_latency :: "rat option"
  em_err :: "rat option"
  em_driver :: "string option"
  em_sensor :: "string option"
  em_uplink :: "string option"
  em_baseline :: "rat option"

definition read_measures :: "(string \<Rightarrow> rat option) \<Rightarrow> pydict \<Rightarrow> edge_measures" where
  "read_measures float_of_text raw =
     (let num = (\<lambda>name. as_float float_of_text (dict_get raw name)); txt = (\<lambda>name. status_text (dict_get raw name))
      in \<lparr>em_cpu = num ''cpu_load'', em_mem = num ''memory_pressure'', em_temp = num ''temperature_celsius'', em_npu = as_bool (dict_get raw ''npu_available''),
          em_latency = num ''inference_latency_ms'', em_err = num ''inference_error_rate'', em_driver = txt ''driver_status'', em_sensor = txt ''sensor_input_status'',
          em_uplink = txt ''network_uplink_status'', em_baseline = num ''baseline_latency_ms''\<rparr>)"

definition edge_slow :: "edge_measures \<Rightarrow> bool" where
  "edge_slow m = at_least (em_latency m) (latency_threshold (em_baseline m))"

definition edge_failing :: "edge_measures \<Rightarrow> bool" where
  "edge_failing m = at_least (em_err m) INFERENCE_ERROR_HIGH"

definition edge_sensor_lost :: "edge_measures \<Rightarrow> bool" where
  "edge_sensor_lost m = among (em_sensor m) [''lost'', ''disconnected'', ''down'']"

definition edge_local_ok :: "edge_measures \<Rightarrow> bool" where
  "edge_local_ok m \<longleftrightarrow> \<not> edge_failing m \<and> \<not> edge_slow m \<and> \<not> edge_sensor_lost m \<and>
     (em_npu m \<noteq> Some False \<or> (em_cpu m \<noteq> None \<and> \<not> at_least (em_cpu m) CPU_HIGH))"

definition signals_of :: "edge_measures \<Rightarrow> edge_signals" where
  "signals_of m =
     [(''cpu_load'', number_value (em_cpu m)), (''memory_pressure'', number_value (em_mem m)), (''temperature_celsius'', number_value (em_temp m)),
      (''npu_available'', bool_value (em_npu m)), (''inference_latency_ms'', number_value (em_latency m)), (''inference_error_rate'', number_value (em_err m)),
      (''driver_status'', text_value (em_driver m)), (''sensor_input_status'', text_value (em_sensor m)), (''network_uplink_status'', text_value (em_uplink m)),
      (''cpu_high'', Ev_Bool (at_least (em_cpu m) CPU_HIGH)), (''memory_pressure_high'', Ev_Bool (at_least (em_mem m) MEMORY_PRESSURE_HIGH)),
      (''thermal_warn'', Ev_Bool (at_least (em_temp m) THERMAL_WARN_C)), (''thermal_hot'', Ev_Bool (at_least (em_temp m) THERMAL_HOT_C)),
      (''npu_unavailable'', Ev_Bool (em_npu m = Some False)), (''latency_regression'', Ev_Bool (edge_slow m)),
      (''inference_error_high'', Ev_Bool (edge_failing m)),
      (''driver_mismatch'', Ev_Bool (em_driver m \<noteq> None \<and> \<not> among (em_driver m) [''ok'', ''match'', ''current''])),
      (''sensor_degraded'', Ev_Bool (among (em_sensor m) [''degraded'', ''intermittent'', ''noisy''] \<or> edge_sensor_lost m)),
      (''sensor_lost'', Ev_Bool (edge_sensor_lost m)),
      (''uplink_degraded'', Ev_Bool (among (em_uplink m) [''degraded'', ''down'', ''offline'', ''lossy''])),
      (''uplink_down'', Ev_Bool (among (em_uplink m) [''down'', ''offline''])), (''local_inference_ok'', Ev_Bool (edge_local_ok m))]"

definition normalize_edge_signals :: "(string \<Rightarrow> rat option) \<Rightarrow> pydict \<Rightarrow> edge_signals" where
  "normalize_edge_signals float_of_text raw = signals_of (read_measures float_of_text raw)"

section \<open>Events\<close>

definition edge_event_rules :: "(string \<times> string \<times> string) list" where
  "edge_event_rules =
     [(''thermal_hot'', ''thermal_threshold_exceeded'', ''high''), (''thermal_warn'', ''thermal_warning'', ''medium''), (''cpu_high'', ''cpu_load_high'', ''medium''),
      (''memory_pressure_high'', ''memory_pressure_high'', ''medium''), (''npu_unavailable'', ''npu_unavailable'', ''high''),
      (''latency_regression'', ''inference_latency_regression'', ''high''), (''inference_error_high'', ''inference_error_elevated'', ''high''),
      (''driver_mismatch'', ''driver_runtime_mismatch'', ''high''), (''sensor_lost'', ''sensor_input_lost'', ''high''),
      (''sensor_degraded'', ''sensor_input_degraded'', ''medium''), (''uplink_down'', ''network_uplink_down'', ''medium''),
      (''uplink_degraded'', ''network_uplink_degraded'', ''low'')]"

definition edge_event :: "string \<Rightarrow> string \<Rightarrow> string \<Rightarrow> string list \<Rightarrow> string \<Rightarrow> detected_event" where
  "edge_event i kind severity obs_ids signal = \<lparr>ee_id = i, ee_event_type = kind, ev_source = ''edge_reasoning'', ev_category = [], ev_severity = severity,
     ev_confidence = 1, ev_observation_ids = obs_ids, ev_details = [(''signal'', PyStr signal)], ev_limitations = [], ev_next_steps = []\<rparr>"

fun edge_events_from ::
  "(nat \<Rightarrow> string) \<Rightarrow> nat \<Rightarrow> string list \<Rightarrow> edge_signals \<Rightarrow> string list \<Rightarrow> (string \<times> string \<times> string) list \<Rightarrow> detected_event list" where
  "edge_events_from eid k seen signals obs_ids [] = []"
| "edge_events_from eid k seen signals obs_ids ((signal, kind, severity) # rules) =
     (if flag signals signal \<and> kind \<notin> set seen
      then edge_event (eid k) kind severity obs_ids signal # edge_events_from eid (Suc k) (kind # seen) signals obs_ids rules
      else edge_events_from eid k seen signals obs_ids rules)"

definition detect_edge_events :: "(nat \<Rightarrow> string) \<Rightarrow> edge_signals \<Rightarrow> reasoning_observation list \<Rightarrow> detected_event list" where
  "detect_edge_events eid signals obs =
     (let obs_ids = map ob_id obs; events = edge_events_from eid 0 [] signals obs_ids edge_event_rules
      in if events = [] then [edge_event (eid 0) ''edge_runtime_nominal'' ''info'' obs_ids ''nominal''] else events)"

section \<open>Hypotheses\<close>

definition NOMINAL_HYPOTHESIS :: string where "NOMINAL_HYPOTHESIS = ''edge_runtime_nominal''"

definition INDETERMINATE_HYPOTHESIS :: string where "INDETERMINATE_HYPOTHESIS = ''edge_state_indeterminate''"

definition CAP_UNPROVEN :: rat where "CAP_UNPROVEN = 90/100"

definition CAP_CONFIRMED :: rat where "CAP_CONFIRMED = 95/100"

definition BASE_REQUIRED :: rat where "BASE_REQUIRED = 50/100"

definition SUPPORT_WEIGHT :: rat where "SUPPORT_WEIGHT = 12/100"

definition CONTRADICT_WEIGHT :: rat where "CONTRADICT_WEIGHT = 20/100"

lemmas edge_weights = CAP_UNPROVEN_def CAP_CONFIRMED_def BASE_REQUIRED_def SUPPORT_WEIGHT_def CONTRADICT_WEIGHT_def

record edge_scenario =
  es_id :: string
  es_title :: string
  es_required :: "string list"
  es_supporting :: "string list"
  es_contradicting :: "string list"
  es_proof_check :: string
  es_safe_action :: "string option"

definition EDGE_SCENARIOS :: "edge_scenario list" where
  "EDGE_SCENARIOS =
     [\<lparr>es_id = ''thermal_throttling_risk'', es_title = ''Thermal threshold exceeded; clock/inference throttling risk'', es_required = [''thermal_warn''],
       es_supporting = [''thermal_hot'', ''cpu_high'', ''latency_regression''], es_contradicting = [], es_proof_check = ''thermal_sensor_corroboration'',
       es_safe_action = Some ''reduce_inference_load''\<rparr>,
      \<lparr>es_id = ''driver_runtime_mismatch'', es_title = ''NPU/accelerator driver or runtime version mismatch'', es_required = [''driver_mismatch''],
       es_supporting = [''npu_unavailable'', ''inference_error_high''], es_contradicting = [], es_proof_check = ''driver_runtime_version_contrast'',
       es_safe_action = Some ''restart_inference_runtime''\<rparr>,
      \<lparr>es_id = ''npu_fallback_to_cpu'', es_title = ''NPU unavailable; inference fell back to CPU path'', es_required = [''npu_unavailable''],
       es_supporting = [''latency_regression'', ''cpu_high''], es_contradicting = [''driver_mismatch''], es_proof_check = ''npu_vs_cpu_inference_contrast'',
       es_safe_action = Some ''switch_to_cpu_fallback''\<rparr>,
      \<lparr>es_id = ''edge_inference_latency_regression'', es_title = ''Inference latency regressed beyond threshold'', es_required = [''latency_regression''],
       es_supporting = [''cpu_high'', ''memory_pressure_high'', ''npu_unavailable'', ''inference_error_high''], es_contradicting = [],
       es_proof_check = ''inference_latency_contrast'', es_safe_action = Some ''reduce_inference_load''\<rparr>,
      \<lparr>es_id = ''sensor_input_degraded'', es_title = ''Sensor input degraded or lost; inference quality at risk'', es_required = [''sensor_degraded''],
       es_supporting = [''sensor_lost'', ''inference_error_high''], es_contradicting = [], es_proof_check = ''sensor_signal_quality_contrast'',
       es_safe_action = Some ''restart_inference_runtime''\<rparr>,
      \<lparr>es_id = ''uplink_degraded_but_local_inference_ok'', es_title = ''Network uplink degraded while local inference remains healthy'',
       es_required = [''uplink_degraded'', ''local_inference_ok''], es_supporting = [''uplink_down''],
       es_contradicting = [''inference_error_high'', ''latency_regression'', ''npu_unavailable''], es_proof_check = ''uplink_vs_local_inference_contrast'',
       es_safe_action = None\<rparr>]"

definition scenario_by_id :: "string \<Rightarrow> edge_scenario option" where
  "scenario_by_id i = find (\<lambda>s. es_id s = i) EDGE_SCENARIOS"

text \<open>\<open>round(x, 4)\<close>.\<close>

definition round4 :: "rat \<Rightarrow> rat" where
  "round4 x = of_int (round_half_even (10000 * x)) / 10000"

definition edge_score :: "edge_scenario \<Rightarrow> edge_signals \<Rightarrow> bool \<Rightarrow> rat" where
  "edge_score s signals proof_confirmed =
     (let score = BASE_REQUIRED + SUPPORT_WEIGHT * of_nat (length (filter (flag signals) (es_supporting s)))
                  - CONTRADICT_WEIGHT * of_nat (length (filter (flag signals) (es_contradicting s)))
      in max 0 (min (if proof_confirmed then CAP_CONFIRMED else CAP_UNPROVEN) (round4 score)))"

record edge_row =
  ew_hypothesis :: string
  ew_title :: string
  ew_confidence :: rat
  ew_supporting :: "string list"
  ew_contradicting :: "string list"
  ew_missing :: "string list"

definition scenario_row :: "edge_signals \<Rightarrow> string \<Rightarrow> bool \<Rightarrow> edge_scenario \<Rightarrow> edge_row" where
  "scenario_row signals proof_hypothesis proof_confirmed s =
     (let confirmed = (proof_confirmed \<and> proof_hypothesis = es_id s);
          c0 = edge_score s signals confirmed;
          c = (if confirmed then min CAP_CONFIRMED (round4 (c0 + 5/100)) else c0)
      in \<lparr>ew_hypothesis = es_id s, ew_title = es_title s, ew_confidence = c, ew_supporting = filter (flag signals) (es_required s @ es_supporting s),
          ew_contradicting = filter (flag signals) (es_contradicting s), ew_missing = filter (\<lambda>x. \<not> flag signals x) (es_supporting s)\<rparr>)"

definition failure_signals :: "string list" where
  "failure_signals = [''cpu_high'', ''memory_pressure_high'', ''thermal_warn'', ''thermal_hot'', ''npu_unavailable'', ''latency_regression'', ''inference_error_high'',
     ''driver_mismatch'', ''sensor_degraded'', ''sensor_lost'', ''uplink_degraded'']"

definition looks_nominal :: "edge_signals \<Rightarrow> bool" where
  "looks_nominal signals = (\<not> list_ex (flag signals) failure_signals)"

definition fallback_row :: "edge_signals \<Rightarrow> edge_row" where
  "fallback_row signals =
     (let nominal = looks_nominal signals
      in \<lparr>ew_hypothesis = (if nominal then NOMINAL_HYPOTHESIS else INDETERMINATE_HYPOTHESIS),
          ew_title = (if nominal then ''Edge runtime nominal; no cataloged failure pattern matched''
                      else ''Edge state indeterminate; insufficient signals to assert a cataloged cause''),
          ew_confidence = (if nominal then 20/100 else 10/100), ew_supporting = [], ew_contradicting = [], ew_missing = []\<rparr>)"

definition candidate :: "edge_signals \<Rightarrow> edge_scenario \<Rightarrow> bool" where
  "candidate signals s = list_all (flag signals) (es_required s)"

definition rank_edge_hypotheses :: "edge_signals \<Rightarrow> string \<Rightarrow> bool \<Rightarrow> edge_row list" where
  "rank_edge_hypotheses signals proof_hypothesis proof_confirmed =
     (let rows = sort_key (\<lambda>r. - ew_confidence r) (map (scenario_row signals proof_hypothesis proof_confirmed) (filter (candidate signals) EDGE_SCENARIOS))
      in if rows \<noteq> [] then rows else [fallback_row signals])"

definition conflicting_edge_signals :: "edge_signals \<Rightarrow> bool" where
  "conflicting_edge_signals signals \<longleftrightarrow>
     (flag signals ''npu_available'' \<and> flag signals ''npu_unavailable'') \<or> (flag signals ''local_inference_ok'' \<and> flag signals ''inference_error_high'') \<or>
     (flag signals ''uplink_down'' \<and> map_of signals ''network_uplink_status'' = Some (Ev_Text ''up''))"

section \<open>Policy\<close>

definition EDGE_SAFE_ACTIONS :: "string list" where
  "EDGE_SAFE_ACTIONS = [''switch_to_cpu_fallback'', ''reduce_inference_load'', ''restart_inference_runtime'', ''clear_inference_cache'']"

definition EDGE_DESTRUCTIVE_TOKENS :: "string list" where
  "EDGE_DESTRUCTIVE_TOKENS = [''flash_firmware'', ''overwrite_firmware'', ''factory_reset'', ''reset_device'', ''disable_thermal'', ''disable_thermal_protection'',
     ''force_overclock'', ''overclock'', ''disable_sensor'', ''wipe'', ''format'', ''delete'', ''kill'', ''arbitrary_shell'']"

definition EDGE_CONFIRMATION_PHRASE :: string where "EDGE_CONFIRMATION_PHRASE = ''APPLY_EDGE_SAFE_ACTION''"

definition edge_blocked_actions :: "tri_state \<Rightarrow> string option \<Rightarrow> string list" where
  "edge_blocked_actions outcome requested = with_blocked (ALWAYS_BLOCKED_ACTIONS @ EDGE_DESTRUCTIVE_TOKENS) outcome requested"

definition edge_verdict :: "impact_severity \<Rightarrow> bool \<Rightarrow> proof_status \<Rightarrow> bool \<Rightarrow> verdict" where
  "edge_verdict impact conflicting status confirmation =
     (let v0 = first_verdict conflicting status confirmation;
          v1 = downgrade_verdict (impact \<in> {High, Critical} \<and> status \<noteq> CONFIRMED) ''HIGH_IMPACT_UNPROVEN'' [] v0;
          v2 = downgrade_verdict (impact = Critical \<and> trust_of conflicting status \<noteq> ''high'') ''CRITICAL_IMPACT_LOW_TRUST'' [] v1
      in downgrade_verdict (status \<noteq> CONFIRMED) ''HIGH_CONFIDENCE_UNPROVEN'' [] v2)"

text \<open>The fields that all answers share; \<open>level\<close> is the evidence level without a confirmed proof.\<close>

definition edge_answer ::
  "string \<Rightarrow> string \<Rightarrow> proof_result \<Rightarrow> rat \<Rightarrow> impact_severity \<Rightarrow> string option \<Rightarrow>
     tri_state \<Rightarrow> string \<Rightarrow> string \<Rightarrow> bool \<Rightarrow> string option \<Rightarrow> string list \<Rightarrow> string list \<Rightarrow> string list \<Rightarrow> reasoning_policy" where
  "edge_answer hypothesis state proof c impact action outcome level trust needs phrase codes lims steps =
     \<lparr>rp_source = ''edge_policy'', rp_outcome = outcome, rp_requested_action = action, rp_hypothesis = hypothesis, rp_state_transition = state,
      rp_evidence_level = (if pf_status proof = CONFIRMED then ''proof'' else level), rp_proof_status = pf_status proof, rp_confidence = c, rp_trust_level = trust,
      rp_impact_level = impact, rp_requires_confirmation = needs, rp_confirmation_phrase = phrase, rp_reason_codes = codes,
      rp_blocked_actions = edge_blocked_actions outcome action, rp_limitations = lims, rp_next_steps = steps\<rparr>"

definition evaluate_edge_policy ::
  "string \<Rightarrow> string \<Rightarrow> proof_result \<Rightarrow> rat \<Rightarrow> impact_severity \<Rightarrow> string option \<Rightarrow> bool \<Rightarrow> bool \<Rightarrow> reasoning_policy" where
  "evaluate_edge_policy hypothesis state proof c impact requested confirmation conflicting =
     (let action = norm_action requested;
          answer = edge_answer hypothesis state proof c impact action;
          plain = (if conflicting then ''low'' else ''medium'')
      in case action of
           None \<Rightarrow> answer PT_PREVIEW ''inferred'' plain False None [''DIAGNOSTIC_ONLY''] []
                    [''Run a safe remediation action in preview if intervention is needed.'']
         | Some a \<Rightarrow>
           if list_ex (\<lambda>token. py_in token a) EDGE_DESTRUCTIVE_TOKENS
           then answer PT_BLOCK ''inferred'' plain False None [''DESTRUCTIVE_ACTION_BLOCKED'']
                  [''Firmware flash, factory reset, thermal-protection disable, overclock, and '' @ ''sensor disable are never auto-executed by the edge layer.'']
                  [''Use manual, hardware-vendor-guided recovery after preserving evidence.'']
           else if a \<notin> set EDGE_SAFE_ACTIONS
           then answer PT_BLOCK ''inferred'' plain False None [''UNKNOWN_ACTION''] [''Only allowlisted low-risk edge actions can pass policy.'']
                  [''Choose an allowlisted safe action or continue diagnostics.'']
           else (case edge_verdict impact conflicting (pf_status proof) confirmation of
                   (codes, lims, outcome) \<Rightarrow>
                     answer outcome ''validated'' (trust_of conflicting (pf_status proof)) True (Some EDGE_CONFIRMATION_PHRASE)
                       (dict_fromkeys (codes @ [''REQUIRES_TYPED_CONFIRMATION''])) lims
                       [''Show remediation preview and require typed operator confirmation.'']))"

section \<open>Runs\<close>

definition edge_limitations :: "string list" where
  "edge_limitations = [''Edge signals are simulated; no real FPGA/NPU/x86-embedded hardware is queried.'',
     ''Confidence and impact are ordinal rankings, not calibrated probabilities.'',
     ''Listener/process/heuristic context never proves a hardware-fault root cause without '' @ ''vendor telemetry; proof checks here are simulated contrasts.'']"

definition edge_state_path :: "edge_signals \<Rightarrow> string list" where
  "edge_state_path signals =
     (let has = flag signals;
          path = [''EDGE_BASELINE'']
            @ (if has ''npu_available'' \<and> \<not> has ''npu_unavailable'' then [''NPU_INFERENCE_ACTIVE''] else [])
            @ (if has ''npu_unavailable'' then [''CPU_FALLBACK_INFERENCE''] else [])
            @ (if has ''driver_mismatch'' then [''DRIVER_RUNTIME_MISMATCH''] else [])
            @ (if has ''thermal_warn'' \<or> has ''thermal_hot'' then [''THERMAL_THROTTLING_RISK''] else [])
            @ (if has ''latency_regression'' \<or> has ''inference_error_high'' then [''INFERENCE_DEGRADED''] else [])
            @ (if has ''sensor_degraded'' then [''SENSOR_DEGRADED''] else [])
            @ (if has ''uplink_degraded'' \<and> has ''local_inference_ok'' then [''UPLINK_DEGRADED_LOCAL_OK''] else [])
      in if length path = 1 then path @ [''EDGE_HEALTHY''] else path)"

definition edge_transitions :: "detected_event list \<Rightarrow> string list \<Rightarrow> state_transition list" where
  "edge_transitions events path =
     map (\<lambda>(a, b). transition_to a b ''edge_state_machine'' 0 ''inferred'' (map ee_id events)) (zip path (tl path))"

record edge_impact =
  ei_severity :: impact_severity
  ei_scope :: string
  ei_score :: rat
  ei_level :: impact_severity
  ei_explanation :: string

definition edge_impact_for :: "string \<Rightarrow> edge_signals \<Rightarrow> rat \<Rightarrow> edge_impact" where
  "edge_impact_for hypothesis signals c =
     (if hypothesis = ''uplink_degraded_but_local_inference_ok''
      then \<lparr>ei_severity = Low, ei_scope = ''device_and_uplink'', ei_score = round4 (min (40/100) (20/100 + 10/100 * c)), ei_level = Low,
            ei_explanation = ''Uplink degraded but local inference remains healthy; cloud sync delayed only.''\<rparr>
      else if hypothesis = NOMINAL_HYPOTHESIS \<or> hypothesis = ''edge_state_indeterminate''
      then \<lparr>ei_severity = Low, ei_scope = ''none'', ei_score = 5/100, ei_level = Low,
            ei_explanation = ''No cataloged failure pattern matched; device appears nominal.''\<rparr>
      else (let has = flag signals;
                severe = (has ''thermal_hot'' \<or> has ''driver_mismatch'' \<or> has ''inference_error_high'' \<or> has ''sensor_lost'');
                moderate = (has ''thermal_warn'' \<or> has ''latency_regression'' \<or> has ''npu_unavailable'' \<or> has ''sensor_degraded'');
                (severity, score) = (if severe then (High, 75/100) else if moderate then (Medium, 55/100) else (Low, 30/100))
            in \<lparr>ei_severity = severity, ei_scope = ''device_local'', ei_score = round4 (min (95/100) (score + 5/100 * c)), ei_level = severity,
                ei_explanation = ''Accepted hypothesis '' @ [CHR 0x27] @ hypothesis @ [CHR 0x27] @ '' implies '' @ severity_value severity @
                  '' local inference reliability impact.''\<rparr>))"

definition signals_node :: "string \<Rightarrow> string list \<Rightarrow> evidence_node" where
  "signals_node label names = Evidence_Node label ''inferred'' 0 [] [] [(''signals'', PyList (map PyStr names))] [] [] []"

definition edge_evidence_tree :: "string \<Rightarrow> string \<Rightarrow> string list \<Rightarrow> edge_row \<Rightarrow> (string \<times> string) list \<Rightarrow> evidence_tree" where
  "edge_evidence_tree rid accepted path row rejected =
     \<lparr>tree_run_id = rid, tree_accepted = accepted, tree_state_path = path, tree_because = ew_supporting row, tree_rejected = rejected,
      tree_root = Evidence_Node (''accepted:'' @ accepted) ''inferred'' 0 [] [] [(''state_path'', PyList (map PyStr path))] [] []
        [signals_node ''supporting_evidence'' (ew_supporting row), signals_node ''contradicting_evidence'' (ew_contradicting row),
         signals_node ''missing_evidence'' (ew_missing row)],
      tree_limitations = edge_limitations, tree_next_steps = []\<rparr>"

record edge_run =
  er_id :: string
  er_source :: string
  er_device_profile :: pydict
  er_observations :: "reasoning_observation list"
  er_signals :: edge_signals
  er_events :: "detected_event list"
  er_transitions :: "state_transition list"
  er_ranking :: "edge_row list"
  er_accepted :: string
  er_supporting :: "string list"
  er_contradicting :: "string list"
  er_missing :: "string list"
  er_tree :: evidence_tree
  er_proof :: proof_result
  er_impact :: edge_impact
  er_policy :: reasoning_policy
  er_safe_next_action :: "string option"
  er_next_test :: string
  er_limitations :: "string list"
  er_next_steps :: "string list"

record edge_request =
  eq_device_profile :: "pydict option"
  eq_proof :: "proof_result option"
  eq_requested_action :: "string option"
  eq_confirmation :: bool
  eq_source :: string
  eq_run_id :: "string option"

record edge_host =
  eh_float_of_text :: "string \<Rightarrow> rat option"
  eh_observation_id :: "nat \<Rightarrow> string"
  eh_event_id :: "nat \<Rightarrow> string"
  eh_fresh :: string

definition edge_next_steps :: "reasoning_policy \<Rightarrow> string option \<Rightarrow> string \<Rightarrow> string list" where
  "edge_next_steps policy safe test =
     (case safe of
        Some a \<Rightarrow> if rp_outcome policy = PT_PREVIEW \<and> a \<noteq> [] \<and> rp_requested_action policy = None
                  then [''Preview safe action '' @ [CHR 0x27] @ a @ [CHR 0x27] @ '' if intervention is needed.''] else []
      | None \<Rightarrow> [])
     @ (if test \<noteq> [] then [''Run proof check '' @ [CHR 0x27] @ test @ [CHR 0x27] @ '' to strengthen or reject the hypothesis.''] else [])"

definition run_edge_reasoning :: "edge_host \<Rightarrow> edge_request \<Rightarrow> pydict \<Rightarrow> edge_run" where
  "run_edge_reasoning h q raw =
     (let rid = (case eq_run_id q of Some r \<Rightarrow> if r = [] then eh_fresh h else r | None \<Rightarrow> eh_fresh h);
          proof = (case eq_proof q of Some p \<Rightarrow> p | None \<Rightarrow> default_proof\<lparr>pf_source := ''edge_proof_engine''\<rparr>);
          obs = observations_from_raw (eh_observation_id h) raw ''edge_fixture'';
          signals = normalize_edge_signals (eh_float_of_text h) raw;
          events = detect_edge_events (eh_event_id h) signals obs;
          path = edge_state_path signals;
          ranking = rank_edge_hypotheses signals (pf_hypothesis proof) (pf_status proof = CONFIRMED);
          row = hd ranking;
          accepted = ew_hypothesis row;
          rejected = map (\<lambda>r. (ew_hypothesis r, ''lower_ordinal_confidence'')) (tl ranking);
          impact = edge_impact_for accepted signals (ew_confidence row);
          policy = evaluate_edge_policy accepted (if path \<noteq> [] then last path else ''unknown'') proof (ew_confidence row) (ei_level impact)
            (eq_requested_action q) (eq_confirmation q) (conflicting_edge_signals signals);
          safe = Option.bind (scenario_by_id accepted) es_safe_action;
          test = (case scenario_by_id accepted of Some s \<Rightarrow> es_proof_check s | None \<Rightarrow> [])
      in \<lparr>er_id = rid, er_source = eq_source q, er_device_profile = (case eq_device_profile q of Some d \<Rightarrow> d | None \<Rightarrow> []), er_observations = obs,
          er_signals = signals, er_events = events, er_transitions = edge_transitions events path, er_ranking = ranking, er_accepted = accepted,
          er_supporting = ew_supporting row, er_contradicting = ew_contradicting row, er_missing = ew_missing row,
          er_tree = edge_evidence_tree rid accepted path row rejected, er_proof = proof, er_impact = impact, er_policy = policy,
          er_safe_next_action = safe, er_next_test = test, er_limitations = edge_limitations, er_next_steps = edge_next_steps policy safe test\<rparr>)"

definition is_safe_edge_action :: "string option \<Rightarrow> bool" where
  "is_safe_edge_action action = (py_lower (py_strip (case action of None \<Rightarrow> [] | Some a \<Rightarrow> a)) \<in> set EDGE_SAFE_ACTIONS)"

section \<open>Log\<close>

text \<open>The output contract of a run.\<close>

record edge_output =
  eo_run_id :: string
  eo_device_profile :: pydict
  eo_signals :: edge_signals
  eo_hypotheses :: "(string \<times> string \<times> rat) list"
  eo_accepted :: string
  eo_supporting :: "string list"
  eo_contradicting :: "string list"
  eo_missing :: "string list"
  eo_proof_status :: proof_status
  eo_policy :: reasoning_policy
  eo_safe_next_action :: "string option"
  eo_blocked_actions :: "string list"
  eo_impact :: edge_impact
  eo_events :: "detected_event list"
  eo_transitions :: "state_transition list"
  eo_tree :: evidence_tree
  eo_next_test :: string
  eo_limitations :: "string list"
  eo_next_steps :: "string list"

definition to_output_dict :: "edge_run \<Rightarrow> edge_output" where
  "to_output_dict r = \<lparr>eo_run_id = er_id r, eo_device_profile = er_device_profile r, eo_signals = er_signals r,
     eo_hypotheses = map (\<lambda>x. (ew_hypothesis x, ew_title x, ew_confidence x)) (er_ranking r), eo_accepted = er_accepted r, eo_supporting = er_supporting r,
     eo_contradicting = er_contradicting r, eo_missing = er_missing r, eo_proof_status = pf_status (er_proof r), eo_policy = er_policy r,
     eo_safe_next_action = er_safe_next_action r, eo_blocked_actions = rp_blocked_actions (er_policy r), eo_impact = er_impact r, eo_events = er_events r,
     eo_transitions = er_transitions r, eo_tree = er_tree r, eo_next_test = er_next_test r, eo_limitations = er_limitations r, eo_next_steps = er_next_steps r\<rparr>"

text \<open>Lines of the log: a row of this writer, another JSON value, or a line that is not JSON.\<close>

datatype edge_line = Edge_Row edge_output | Foreign_Row pyval | Bad_Line

definition append_edge_run :: "edge_line list option \<Rightarrow> edge_run \<Rightarrow> edge_line list option" where
  "append_edge_run file r = Some ((case file of Some ls \<Rightarrow> ls | None \<Rightarrow> []) @ [Edge_Row (to_output_dict r)])"

fun line_matches :: "string \<Rightarrow> edge_line \<Rightarrow> bool" where
  "line_matches rid (Edge_Row r) = (eo_run_id r = rid)"
| "line_matches rid (Foreign_Row (PyDict d)) = (py_str (dict_get d ''run_id'') = rid)"
| "line_matches rid _ = False"

definition load_edge_run :: "edge_line list option \<Rightarrow> string \<Rightarrow> edge_line option" where
  "load_edge_run file run_id =
     (case file of
        None \<Rightarrow> None
      | Some ls \<Rightarrow> foldl (\<lambda>acc line. if line_matches (py_strip run_id) line then Some line else acc) None ls)"

section \<open>Simulator\<close>

definition SIM_PROFILES :: "string list" where
  "SIM_PROFILES = [''nominal'', ''thermal'', ''npu_fallback'', ''latency'', ''driver'', ''sensor'', ''uplink'']"

text \<open>\<open>rnd k\<close> is the \<open>k\<close>-th random number of the generator, in the order of the calls, and \<open>float_text\<close> prints a number.\<close>

definition round_places :: "nat \<Rightarrow> rat \<Rightarrow> rat" where
  "round_places n x = of_int (round_half_even (10 ^ n * x)) / 10 ^ n"

definition jitter :: "(rat \<Rightarrow> string) \<Rightarrow> (nat \<Rightarrow> rat) \<Rightarrow> nat \<Rightarrow> rat \<Rightarrow> rat \<Rightarrow> nat \<Rightarrow> pyval" where
  "jitter float_text rnd k base spread n =
     (let v = round_places n (base + (- spread + (spread - (- spread)) * rnd k)) in PyFloat v (float_text v))"

definition simulate_edge_observations :: "(rat \<Rightarrow> string) \<Rightarrow> (nat \<Rightarrow> rat) \<Rightarrow> string \<Rightarrow> pydict" where
  "simulate_edge_observations float_text rnd profile =
     (let j = jitter float_text rnd;
          base = [(''cpu_load'', j 0 (45/100) (5/100) 3), (''memory_pressure'', j 1 (50/100) (5/100) 3), (''temperature_celsius'', j 2 55 2 1),
                  (''npu_available'', PyBool True), (''inference_latency_ms'', j 3 35 5 1), (''inference_error_rate'', j 4 (1/100) (5/1000) 4),
                  (''driver_status'', PyStr ''ok''), (''sensor_input_status'', PyStr ''ok''), (''network_uplink_status'', PyStr ''up'')];
          changes =
            (if profile = ''thermal'' then [(''temperature_celsius'', j 5 89 (15/10) 1), (''cpu_load'', j 6 (90/100) (3/100) 3)]
             else if profile = ''npu_fallback''
             then [(''npu_available'', PyBool False), (''inference_latency_ms'', j 5 160 10 1), (''cpu_load'', j 6 (88/100) (3/100) 3)]
             else if profile = ''latency'' then [(''inference_latency_ms'', j 5 180 15 1), (''memory_pressure'', j 6 (88/100) (2/100) 3)]
             else if profile = ''driver''
             then [(''driver_status'', PyStr ''version_mismatch''), (''npu_available'', PyBool False), (''inference_error_rate'', j 5 (8/100) (1/100) 4)]
             else if profile = ''sensor'' then [(''sensor_input_status'', PyStr ''degraded''), (''inference_error_rate'', j 5 (7/100) (1/100) 4)]
             else if profile = ''uplink'' then [(''network_uplink_status'', PyStr ''degraded'')]
             else [])
      in dict_update base changes)"

definition simulated_device_profile :: "string \<Rightarrow> pydict" where
  "simulated_device_profile profile = [(''device_id'', PyStr (''sim-edge-'' @ profile)), (''device_class'', PyStr ''x86_embedded_npu_simulated''),
     (''model'', PyStr ''simulated-ai-edge-soc''), (''simulation_profile'', PyStr profile), (''hardware_present'', PyBool False)]"

section \<open>The signals of a device\<close>

lemma signal_flags:
  "flag (signals_of m) ''cpu_high'' = at_least (em_cpu m) CPU_HIGH"
  "flag (signals_of m) ''memory_pressure_high'' = at_least (em_mem m) MEMORY_PRESSURE_HIGH"
  "flag (signals_of m) ''thermal_warn'' = at_least (em_temp m) THERMAL_WARN_C"
  "flag (signals_of m) ''thermal_hot'' = at_least (em_temp m) THERMAL_HOT_C"
  "flag (signals_of m) ''npu_unavailable'' = (em_npu m = Some False)"
  "flag (signals_of m) ''npu_available'' = (em_npu m = Some True)"
  "flag (signals_of m) ''latency_regression'' = edge_slow m"
  "flag (signals_of m) ''inference_error_high'' = edge_failing m"
  "flag (signals_of m) ''driver_mismatch'' = (em_driver m \<noteq> None \<and> \<not> among (em_driver m) [''ok'', ''match'', ''current''])"
  "flag (signals_of m) ''sensor_lost'' = edge_sensor_lost m"
  "flag (signals_of m) ''sensor_degraded'' = (among (em_sensor m) [''degraded'', ''intermittent'', ''noisy''] \<or> edge_sensor_lost m)"
  "flag (signals_of m) ''uplink_degraded'' = among (em_uplink m) [''degraded'', ''down'', ''offline'', ''lossy'']"
  "flag (signals_of m) ''uplink_down'' = among (em_uplink m) [''down'', ''offline'']"
  "flag (signals_of m) ''local_inference_ok'' = edge_local_ok m"
  unfolding flag_def signals_of_def by (simp_all, cases "em_npu m", simp_all)

text \<open>Normalised signals never contradict each other, so the test for conflicts and the policy for them are never reached in a run.\<close>

lemma no_conflicts: "\<not> conflicting_edge_signals (normalize_edge_signals float_of_text raw)"
proof -
  have "map_of (signals_of m) ''network_uplink_status'' = Some (text_value (em_uplink m))" for m by (simp add: signals_of_def)
  moreover have "\<not> among x [''down'', ''offline'']" if "text_value x = Ev_Text ''up''" for x using that by (cases x) (auto simp: among_def)
  ultimately show ?thesis unfolding conflicting_edge_signals_def normalize_edge_signals_def signal_flags edge_local_ok_def by auto
qed

section \<open>The ranking\<close>

lemma round_numeral [simp]: "round_half_even (numeral k) = numeral k" "round_half_even 0 = 0" "round_half_even 1 = 1"
  using round_half_even_int [of "numeral k"] round_half_even_int [of 0] round_half_even_int [of 1] by simp_all

lemma round4_mono: "x \<le> y \<Longrightarrow> round4 x \<le> round4 y"
  by (simp add: round4_def round_half_even_mono divide_right_mono)

lemma row_bounds:
  "0 \<le> ew_confidence (scenario_row signals hyp proved s)"
  "ew_confidence (scenario_row signals hyp proved s) \<le> (if proved \<and> hyp = es_id s then CAP_CONFIRMED else CAP_UNPROVEN)"
proof -
  have sc: "0 \<le> edge_score s signals b" "edge_score s signals b \<le> (if b then CAP_CONFIRMED else CAP_UNPROVEN)" for b
    by (auto simp: edge_score_def Let_def edge_weights)
  have "round4 0 = 0" by (simp add: round4_def)
  then have "0 \<le> round4 (edge_score s signals True + 5/100)" using round4_mono [of 0 "edge_score s signals True + 5/100"] sc(1) [of True] by simp
  then show "0 \<le> ew_confidence (scenario_row signals hyp proved s)"
    "ew_confidence (scenario_row signals hyp proved s) \<le> (if proved \<and> hyp = es_id s then CAP_CONFIRMED else CAP_UNPROVEN)"
    using sc [of True] sc [of False] by (auto simp: scenario_row_def Let_def)
qed

lemma row_hypothesis [simp]: "ew_hypothesis (scenario_row signals hyp proved s) = es_id s"
  by (simp add: scenario_row_def Let_def)

lemma scenario_ids: "distinct (map es_id EDGE_SCENARIOS)"
  by (simp add: EDGE_SCENARIOS_def)

lemma ranking_candidates:
  assumes "filter (candidate signals) EDGE_SCENARIOS \<noteq> []"
  shows "rank_edge_hypotheses signals hyp proved = sort_key (\<lambda>r. - ew_confidence r) (map (scenario_row signals hyp proved) (filter (candidate signals) EDGE_SCENARIOS))"
proof -
  have "length (sort_key (\<lambda>r. - ew_confidence r) (map (scenario_row signals hyp proved) (filter (candidate signals) EDGE_SCENARIOS))) \<noteq> 0" using assms by simp
  then show ?thesis by (simp only: rank_edge_hypotheses_def Let_def length_0_conv not_False_eq_True if_True)
qed

lemma sorted_key_desc: "sorted (map (\<lambda>r. - ew_confidence r) rows) \<Longrightarrow> sorted_wrt (\<lambda>a b. ew_confidence b \<le> ew_confidence a) rows"
  by (simp add: sorted_map)

section \<open>Properties\<close>

text \<open>
  C39. The ranking holds exactly the catalogued scenarios whose required signals are all present, each once, by falling confidence and in the order of the
  catalogue where confidences agree; every confidence lies between 0 and 0.9, and up to 0.95 for the hypothesis a confirmed proof is about. Without a candidate there is
  the one nominal or indeterminate row.
\<close>

theorem edge_ranking_exact:
  "let rows = rank_edge_hypotheses signals hyp proved; cands = filter (candidate signals) EDGE_SCENARIOS
   in (if cands = [] then rows = [fallback_row signals]
       else mset (map ew_hypothesis rows) = mset (map es_id cands) \<and> distinct (map ew_hypothesis rows) \<and>
            sorted_wrt (\<lambda>a b. ew_confidence b \<le> ew_confidence a) rows \<and>
            (\<forall>x. filter (\<lambda>r. ew_confidence r = x) rows = filter (\<lambda>r. ew_confidence r = x) (map (scenario_row signals hyp proved) cands)) \<and>
            list_all (\<lambda>r. 0 \<le> ew_confidence r \<and> ew_confidence r \<le> (if proved \<and> ew_hypothesis r = hyp then 95/100 else 90/100)) rows)"
proof (cases "filter (candidate signals) EDGE_SCENARIOS = []")
  case True
  then show ?thesis by (simp add: rank_edge_hypotheses_def Let_def)
next
  case False
  let ?c = "filter (candidate signals) EDGE_SCENARIOS"
  let ?m = "map (scenario_row signals hyp proved) ?c"
  let ?r = "rank_edge_hypotheses signals hyp proved"
  have r: "?r = sort_key (\<lambda>r. - ew_confidence r) ?m" by (rule ranking_candidates [OF False])
  have ids: "map ew_hypothesis ?m = map es_id ?c" by simp
  have ms: "mset (map ew_hypothesis ?r) = mset (map es_id ?c)" unfolding ids [symmetric] r mset_map mset_sort ..
  have "distinct (map es_id ?c)" using scenario_ids by (rule distinct_map_filter)
  then have d: "distinct (map ew_hypothesis ?r)" using mset_eq_imp_distinct_iff [OF ms] by simp
  have so: "sorted_wrt (\<lambda>a b. ew_confidence b \<le> ew_confidence a) ?r" unfolding r by (rule sorted_key_desc) (rule sorted_sort_key)
  have st: "filter (\<lambda>r. ew_confidence r = x) ?r = filter (\<lambda>r. ew_confidence r = x) ?m" for x
    unfolding r using sort_key_stable [of "\<lambda>r. - ew_confidence r" "- x" ?m] by (simp add: eq_commute)
  have b: "list_all (\<lambda>r. 0 \<le> ew_confidence r \<and> ew_confidence r \<le> (if proved \<and> ew_hypothesis r = hyp then 95/100 else 90/100)) ?r"
  proof -
    have "0 \<le> ew_confidence (scenario_row signals hyp proved s) \<and>
        ew_confidence (scenario_row signals hyp proved s) \<le> (if proved \<and> es_id s = hyp then 95/100 else 90/100)" for s
      using row_bounds [of signals hyp proved s] by (auto simp: CAP_CONFIRMED_def CAP_UNPROVEN_def split: if_splits)
    then show ?thesis unfolding r by (simp add: list_all_iff)
  qed
  show ?thesis unfolding Let_def if_not_P [OF False] using ms d so st b by blast
qed

lemma edge_verdict_outcome:
  "snd (snd (edge_verdict impact conflicting status confirmation)) = (if status = CONFIRMED \<and> confirmation \<and> \<not> conflicting then PT_ALLOW else PT_PREVIEW)"
  by (auto simp: edge_verdict_def Let_def guard_cases first_cases trust_high)

lemma edge_answer_fields [simp]:
  "rp_outcome (edge_answer hyp state proof c impact action outcome level trust needs phrase codes lims steps) = outcome"
  "rp_blocked_actions (edge_answer hyp state proof c impact action outcome level trust needs phrase codes lims steps) = edge_blocked_actions outcome action"
  by (simp_all add: edge_answer_def)

lemma edge_policy_outcome:
  "rp_outcome (evaluate_edge_policy hyp state proof c impact requested confirmation conflicting) =
     (case norm_action requested of
        None \<Rightarrow> PT_PREVIEW
      | Some a \<Rightarrow> if list_ex (\<lambda>token. py_in token a) EDGE_DESTRUCTIVE_TOKENS \<or> a \<notin> set EDGE_SAFE_ACTIONS then PT_BLOCK
                  else if pf_status proof = CONFIRMED \<and> confirmation \<and> \<not> conflicting then PT_ALLOW else PT_PREVIEW)"
  by (cases "norm_action requested") (simp_all add: evaluate_edge_policy_def Let_def split_beta edge_verdict_outcome)

lemma edge_policy_blocked:
  "set (ALWAYS_BLOCKED_ACTIONS @ EDGE_DESTRUCTIVE_TOKENS) \<subseteq> set (rp_blocked_actions (evaluate_edge_policy hyp state proof c impact requested confirmation conflicting))"
proof -
  have "\<exists>outcome. rp_blocked_actions (evaluate_edge_policy hyp state proof c impact requested confirmation conflicting) = edge_blocked_actions outcome (norm_action requested)"
    by (cases "norm_action requested") (auto simp: evaluate_edge_policy_def Let_def split_beta)
  then show ?thesis using blocked_contains(1) by (metis edge_blocked_actions_def)
qed

text \<open>No safe action contains a destructive token.\<close>

lemma safe_not_destructive: "a \<in> set EDGE_SAFE_ACTIONS \<Longrightarrow> \<not> list_ex (\<lambda>token. py_in token a) EDGE_DESTRUCTIVE_TOKENS"
proof -
  have "list_all (\<lambda>a. \<not> list_ex (\<lambda>token. py_in token a) EDGE_DESTRUCTIVE_TOKENS) EDGE_SAFE_ACTIONS" by code_simp
  then show "a \<in> set EDGE_SAFE_ACTIONS \<Longrightarrow> \<not> list_ex (\<lambda>token. py_in token a) EDGE_DESTRUCTIVE_TOKENS" by (simp add: list_all_iff)
qed

lemma accepted_hypothesis:
  "er_accepted (run_edge_reasoning h q raw) \<in> set (NOMINAL_HYPOTHESIS # INDETERMINATE_HYPOTHESIS # map es_id EDGE_SCENARIOS)"
proof -
  have "ew_hypothesis (hd (rank_edge_hypotheses signals hyp proved)) \<in> set (NOMINAL_HYPOTHESIS # INDETERMINATE_HYPOTHESIS # map es_id EDGE_SCENARIOS)" for signals hyp proved
  proof (cases "filter (candidate signals) EDGE_SCENARIOS = []")
    case True
    then show ?thesis by (simp add: rank_edge_hypotheses_def Let_def fallback_row_def)
  next
    case False
    let ?r = "sort_key (\<lambda>r. - ew_confidence r) (map (scenario_row signals hyp proved) (filter (candidate signals) EDGE_SCENARIOS))"
    have "length ?r \<noteq> 0" using False by simp
    then have "?r \<noteq> []" by (simp only: length_0_conv not_False_eq_True)
    then have "hd ?r \<in> set ?r" by (rule hd_in_set)
    then have "hd ?r \<in> scenario_row signals hyp proved ` set EDGE_SCENARIOS" by auto
    then show ?thesis unfolding ranking_candidates [OF False] by auto
  qed
  then show ?thesis by (simp add: run_edge_reasoning_def Let_def)
qed

lemma edge_run_outcome:
  "rp_outcome (er_policy (run_edge_reasoning h q raw)) =
     (case norm_action (eq_requested_action q) of
        None \<Rightarrow> PT_PREVIEW
      | Some a \<Rightarrow> if a \<notin> set EDGE_SAFE_ACTIONS then PT_BLOCK
                  else if map_option pf_status (eq_proof q) = Some CONFIRMED \<and> eq_confirmation q then PT_ALLOW else PT_PREVIEW)" (is ?outcome)
  and edge_run_blocked: "set (ALWAYS_BLOCKED_ACTIONS @ EDGE_DESTRUCTIVE_TOKENS) \<subseteq> set (rp_blocked_actions (er_policy (run_edge_reasoning h q raw)))" (is ?blocked)
proof -
  let ?s = "normalize_edge_signals (eh_float_of_text h) raw"
  let ?p = "case eq_proof q of Some p \<Rightarrow> p | None \<Rightarrow> default_proof\<lparr>pf_source := ''edge_proof_engine''\<rparr>"
  have "\<exists>hyp state c impact. er_policy (run_edge_reasoning h q raw) =
      evaluate_edge_policy hyp state ?p c impact (eq_requested_action q) (eq_confirmation q) (conflicting_edge_signals ?s)"
    unfolding run_edge_reasoning_def Let_def edge_run.select_convs by blast
  then obtain hyp state c impact where p: "er_policy (run_edge_reasoning h q raw) =
      evaluate_edge_policy hyp state ?p c impact (eq_requested_action q) (eq_confirmation q) False" using no_conflicts by auto
  have st: "pf_status ?p = CONFIRMED \<longleftrightarrow> map_option pf_status (eq_proof q) = Some CONFIRMED" by (cases "eq_proof q") (simp_all add: default_proof_def)
  show ?outcome unfolding p edge_policy_outcome st using safe_not_destructive by (cases "norm_action (eq_requested_action q)") auto
  show ?blocked unfolding p by (rule edge_policy_blocked)
qed

text \<open>
  C38. A run of the edge layer approves an action exactly when it is one of the four safe actions, the proof is confirmed and the operator confirmed; a request for another action is blocked
  and everything else is a preview, whatever the telemetry says. A run never names a cause outside the catalogue, and its list of blocked
  actions always holds the forbidden ones.
\<close>

theorem edge_run_verdict_exact:
  "let r = run_edge_reasoning h q raw; confirmed = (map_option pf_status (eq_proof q) = Some CONFIRMED)
   in rp_outcome (er_policy r) =
        (case norm_action (eq_requested_action q) of
           None \<Rightarrow> PT_PREVIEW
         | Some a \<Rightarrow> if a \<notin> set EDGE_SAFE_ACTIONS then PT_BLOCK else if confirmed \<and> eq_confirmation q then PT_ALLOW else PT_PREVIEW) \<and>
      er_accepted r \<in> set (NOMINAL_HYPOTHESIS # INDETERMINATE_HYPOTHESIS # map es_id EDGE_SCENARIOS) \<and>
      set (ALWAYS_BLOCKED_ACTIONS @ EDGE_DESTRUCTIVE_TOKENS) \<subseteq> set (rp_blocked_actions (er_policy r))"
  unfolding Let_def using edge_run_outcome [of h q raw] accepted_hypothesis [of h q raw] edge_run_blocked [of h q raw] by blast

text \<open>
  A run is not told which hypothesis its proof is about: a confirmed proof of one fault, or of a fault that is not in the catalogue, opens every safe action, also
  on a device that looks nominal.
\<close>

lemma unrelated_proof_allows:
  assumes "eq_proof q = Some p" and "pf_status p = CONFIRMED" and "eq_confirmation q" and "norm_action (eq_requested_action q) = Some a" and "a \<in> set EDGE_SAFE_ACTIONS"
  shows "rp_outcome (er_policy (run_edge_reasoning h q raw)) = PT_ALLOW"
  using assms by (simp add: edge_run_outcome)

text \<open>
  The log: the run that was appended last is found under its identifier, and runs with other identifiers are found as before.
\<close>

lemma edge_log_roundtrip:
  assumes "py_strip (er_id r) = er_id r"
  shows "load_edge_run (append_edge_run file r) (er_id r) = Some (Edge_Row (to_output_dict r)) \<and>
     (\<forall>i. py_strip i \<noteq> er_id r \<longrightarrow> load_edge_run (append_edge_run file r) i = load_edge_run file i)"
  using assms by (cases "file") (auto simp: load_edge_run_def append_edge_run_def to_output_dict_def)

section \<open>Simulated profiles\<close>

lemma round_places_between:
  assumes "of_int a / 10 ^ n \<le> x" and "x \<le> of_int b / 10 ^ n"
  shows "of_int a / 10 ^ n \<le> round_places n x \<and> round_places n x \<le> of_int b / 10 ^ n"
proof -
  have "of_int a \<le> 10 ^ n * x" "10 ^ n * x \<le> of_int b" using assms by (simp_all add: field_simps)
  then have "a \<le> round_half_even (10 ^ n * x)" "round_half_even (10 ^ n * x) \<le> b"
    using round_half_even_mono [of "of_int a" "10 ^ n * x"] round_half_even_mono [of "10 ^ n * x" "of_int b"] by simp_all
  then show ?thesis by (simp add: round_places_def divide_right_mono)
qed

text \<open>A draw stays within the spread when its ends have the printed number of digits.\<close>

lemma jitter_value:
  assumes "0 \<le> rnd k" and "rnd k < 1" and "0 \<le> spread" and "base - spread = of_int a / 10 ^ n" and "base + spread = of_int b / 10 ^ n"
  obtains v t where "jitter float_text rnd k base spread n = PyFloat v t" and "base - spread \<le> v" and "v \<le> base + spread"
proof -
  let ?x = "base + (- spread + (spread - (- spread)) * rnd k)"
  have "spread * rnd k \<le> spread * 1" "0 \<le> spread * rnd k" using assms(1-3) by (intro mult_left_mono mult_nonneg_nonneg; simp)+
  then have "base - spread \<le> ?x" "?x \<le> base + spread" by (simp_all add: algebra_simps)
  then have "base - spread \<le> round_places n ?x" "round_places n ?x \<le> base + spread"
    using round_places_between [of a n ?x b] assms(4,5) by simp_all
  then show ?thesis using that by (simp add: jitter_def Let_def)
qed

text \<open>The telemetry with its changes applied, in the shape of a profile.\<close>

definition telemetry :: "rat \<Rightarrow> rat \<Rightarrow> rat \<Rightarrow> bool \<Rightarrow> rat \<Rightarrow> rat \<Rightarrow> string \<Rightarrow> string \<Rightarrow> string \<Rightarrow> pydict \<Rightarrow> bool" where
  "telemetry cpu mem temp npu latency err driver sensor uplink raw \<longleftrightarrow>
     (\<exists>t. dict_get raw ''cpu_load'' = PyFloat cpu t) \<and> (\<exists>t. dict_get raw ''memory_pressure'' = PyFloat mem t) \<and>
     (\<exists>t. dict_get raw ''temperature_celsius'' = PyFloat temp t) \<and> dict_get raw ''npu_available'' = PyBool npu \<and>
     (\<exists>t. dict_get raw ''inference_latency_ms'' = PyFloat latency t) \<and> (\<exists>t. dict_get raw ''inference_error_rate'' = PyFloat err t) \<and>
     dict_get raw ''driver_status'' = PyStr driver \<and> dict_get raw ''sensor_input_status'' = PyStr sensor \<and>
     dict_get raw ''network_uplink_status'' = PyStr uplink \<and> dict_get raw ''baseline_latency_ms'' = PyNone"

lemma telemetry_flags:
  assumes "telemetry cpu mem temp npu latency err driver sensor uplink raw"
  shows "flag (normalize_edge_signals f raw) ''cpu_high'' = (cpu \<ge> 85/100)"
    and "flag (normalize_edge_signals f raw) ''memory_pressure_high'' = (mem \<ge> 85/100)"
    and "flag (normalize_edge_signals f raw) ''thermal_warn'' = (temp \<ge> 75)"
    and "flag (normalize_edge_signals f raw) ''thermal_hot'' = (temp \<ge> 85)"
    and "flag (normalize_edge_signals f raw) ''npu_unavailable'' = (\<not> npu)"
    and "flag (normalize_edge_signals f raw) ''latency_regression'' = (latency \<ge> 120)"
    and "flag (normalize_edge_signals f raw) ''inference_error_high'' = (err \<ge> 5/100)"
    and "flag (normalize_edge_signals f raw) ''driver_mismatch'' = (status_text (PyStr driver) \<noteq> None \<and> \<not> among (status_text (PyStr driver)) [''ok'', ''match'', ''current''])"
    and "flag (normalize_edge_signals f raw) ''sensor_lost'' = among (status_text (PyStr sensor)) [''lost'', ''disconnected'', ''down'']"
    and "flag (normalize_edge_signals f raw) ''sensor_degraded'' = (among (status_text (PyStr sensor)) [''degraded'', ''intermittent'', ''noisy''] \<or>
      among (status_text (PyStr sensor)) [''lost'', ''disconnected'', ''down''])"
    and "flag (normalize_edge_signals f raw) ''uplink_degraded'' = among (status_text (PyStr uplink)) [''degraded'', ''down'', ''offline'', ''lossy'']"
    and "flag (normalize_edge_signals f raw) ''uplink_down'' = among (status_text (PyStr uplink)) [''down'', ''offline'']"
    and "flag (normalize_edge_signals f raw) ''local_inference_ok'' = (\<not> err \<ge> 5/100 \<and> \<not> latency \<ge> 120 \<and>
      \<not> among (status_text (PyStr sensor)) [''lost'', ''disconnected'', ''down''] \<and> (npu \<or> \<not> cpu \<ge> 85/100))"
proof -
  let ?m = "read_measures f raw"
  have m: "em_cpu ?m = Some cpu" "em_mem ?m = Some mem" "em_temp ?m = Some temp" "em_npu ?m = Some npu" "em_latency ?m = Some latency" "em_err ?m = Some err"
    "em_driver ?m = status_text (PyStr driver)" "em_sensor ?m = status_text (PyStr sensor)" "em_uplink ?m = status_text (PyStr uplink)" "em_baseline ?m = None"
    using assms by (auto simp: telemetry_def read_measures_def)
  note e = m edge_limits at_least_def latency_threshold_def edge_slow_def edge_failing_def edge_sensor_lost_def edge_local_ok_def option.case option.inject
  show "flag (normalize_edge_signals f raw) ''cpu_high'' = (cpu \<ge> 85/100)"
    "flag (normalize_edge_signals f raw) ''memory_pressure_high'' = (mem \<ge> 85/100)"
    "flag (normalize_edge_signals f raw) ''thermal_warn'' = (temp \<ge> 75)"
    "flag (normalize_edge_signals f raw) ''thermal_hot'' = (temp \<ge> 85)"
    "flag (normalize_edge_signals f raw) ''npu_unavailable'' = (\<not> npu)"
    "flag (normalize_edge_signals f raw) ''latency_regression'' = (latency \<ge> 120)"
    "flag (normalize_edge_signals f raw) ''inference_error_high'' = (err \<ge> 5/100)"
    "flag (normalize_edge_signals f raw) ''driver_mismatch'' = (status_text (PyStr driver) \<noteq> None \<and> \<not> among (status_text (PyStr driver)) [''ok'', ''match'', ''current''])"
    "flag (normalize_edge_signals f raw) ''sensor_lost'' = among (status_text (PyStr sensor)) [''lost'', ''disconnected'', ''down'']"
    "flag (normalize_edge_signals f raw) ''sensor_degraded'' = (among (status_text (PyStr sensor)) [''degraded'', ''intermittent'', ''noisy''] \<or>
      among (status_text (PyStr sensor)) [''lost'', ''disconnected'', ''down''])"
    "flag (normalize_edge_signals f raw) ''uplink_degraded'' = among (status_text (PyStr uplink)) [''degraded'', ''down'', ''offline'', ''lossy'']"
    "flag (normalize_edge_signals f raw) ''uplink_down'' = among (status_text (PyStr uplink)) [''down'', ''offline'']"
    "flag (normalize_edge_signals f raw) ''local_inference_ok'' = (\<not> err \<ge> 5/100 \<and> \<not> latency \<ge> 120 \<and>
      \<not> among (status_text (PyStr sensor)) [''lost'', ''disconnected'', ''down''] \<and> (npu \<or> \<not> cpu \<ge> 85/100))"
    unfolding normalize_edge_signals_def signal_flags e by simp_all
qed

lemma status_texts:
  "status_text (PyStr ''ok'') = Some ''ok''" "status_text (PyStr ''up'') = Some ''up''" "status_text (PyStr ''degraded'') = Some ''degraded''"
  "status_text (PyStr ''version_mismatch'') = Some ''version_mismatch''"
  by code_simp+

lemma draws:
  assumes "\<forall>k. 0 \<le> rnd k \<and> rnd k < 1"
  shows "\<exists>v t. jitter float_text rnd k (45/100) (5/100) 3 = PyFloat v t \<and> v \<le> 50/100"
    and "\<exists>v t. jitter float_text rnd k (50/100) (5/100) 3 = PyFloat v t \<and> v \<le> 55/100"
    and "\<exists>v t. jitter float_text rnd k 55 2 1 = PyFloat v t \<and> v \<le> 57"
    and "\<exists>v t. jitter float_text rnd k 35 5 1 = PyFloat v t \<and> v \<le> 40"
    and "\<exists>v t. jitter float_text rnd k (1/100) (5/1000) 4 = PyFloat v t \<and> v \<le> 15/1000"
    and "\<exists>v t. jitter float_text rnd k 89 (15/10) 1 = PyFloat v t \<and> 875/10 \<le> v"
    and "\<exists>v t. jitter float_text rnd k (90/100) (3/100) 3 = PyFloat v t \<and> 87/100 \<le> v"
    and "\<exists>v t. jitter float_text rnd k 160 10 1 = PyFloat v t \<and> 150 \<le> v"
    and "\<exists>v t. jitter float_text rnd k (88/100) (3/100) 3 = PyFloat v t \<and> 85/100 \<le> v"
    and "\<exists>v t. jitter float_text rnd k 180 15 1 = PyFloat v t \<and> 165 \<le> v"
    and "\<exists>v t. jitter float_text rnd k (88/100) (2/100) 3 = PyFloat v t \<and> 86/100 \<le> v"
    and "\<exists>v t. jitter float_text rnd k (8/100) (1/100) 4 = PyFloat v t \<and> 7/100 \<le> v"
    and "\<exists>v t. jitter float_text rnd k (7/100) (1/100) 4 = PyFloat v t \<and> 6/100 \<le> v"
proof -
  have r: "0 \<le> rnd k" "rnd k < 1" using assms by simp_all
  have "\<exists>v t. jitter float_text rnd k base spread n = PyFloat v t \<and> base - spread \<le> v \<and> v \<le> base + spread"
    if "0 \<le> spread" "base - spread = of_int a / 10 ^ n" "base + spread = of_int b / 10 ^ n" for base spread n a b
    using jitter_value [of rnd k, OF r that, of float_text] by blast
  note j = this
  show "\<exists>v t. jitter float_text rnd k (45/100) (5/100) 3 = PyFloat v t \<and> v \<le> 50/100" using j [of "5/100" "45/100" 400 3 500] by fastforce
  show "\<exists>v t. jitter float_text rnd k (50/100) (5/100) 3 = PyFloat v t \<and> v \<le> 55/100" using j [of "5/100" "50/100" 450 3 550] by fastforce
  show "\<exists>v t. jitter float_text rnd k 55 2 1 = PyFloat v t \<and> v \<le> 57" using j [of 2 55 530 1 570] by fastforce
  show "\<exists>v t. jitter float_text rnd k 35 5 1 = PyFloat v t \<and> v \<le> 40" using j [of 5 35 300 1 400] by fastforce
  show "\<exists>v t. jitter float_text rnd k (1/100) (5/1000) 4 = PyFloat v t \<and> v \<le> 15/1000" using j [of "5/1000" "1/100" 50 4 150] by fastforce
  show "\<exists>v t. jitter float_text rnd k 89 (15/10) 1 = PyFloat v t \<and> 875/10 \<le> v" using j [of "15/10" 89 875 1 905] by fastforce
  show "\<exists>v t. jitter float_text rnd k (90/100) (3/100) 3 = PyFloat v t \<and> 87/100 \<le> v" using j [of "3/100" "90/100" 870 3 930] by fastforce
  show "\<exists>v t. jitter float_text rnd k 160 10 1 = PyFloat v t \<and> 150 \<le> v" using j [of 10 160 1500 1 1700] by fastforce
  show "\<exists>v t. jitter float_text rnd k (88/100) (3/100) 3 = PyFloat v t \<and> 85/100 \<le> v" using j [of "3/100" "88/100" 850 3 910] by fastforce
  show "\<exists>v t. jitter float_text rnd k 180 15 1 = PyFloat v t \<and> 165 \<le> v" using j [of 15 180 1650 1 1950] by fastforce
  show "\<exists>v t. jitter float_text rnd k (88/100) (2/100) 3 = PyFloat v t \<and> 86/100 \<le> v" using j [of "2/100" "88/100" 860 3 900] by fastforce
  show "\<exists>v t. jitter float_text rnd k (8/100) (1/100) 4 = PyFloat v t \<and> 7/100 \<le> v" using j [of "1/100" "8/100" 700 4 900] by fastforce
  show "\<exists>v t. jitter float_text rnd k (7/100) (1/100) 4 = PyFloat v t \<and> 6/100 \<le> v" using j [of "1/100" "7/100" 600 4 800] by fastforce
qed

lemma simulated_telemetry:
  assumes "\<forall>k. 0 \<le> rnd k \<and> rnd k < 1"
  obtains cpu mem temp latency err where "cpu \<le> 50/100" and "mem \<le> 55/100" and "temp \<le> 57" and "latency \<le> 40" and "err \<le> 15/1000"
    and "telemetry cpu mem temp True latency err ''ok'' ''ok'' ''up'' (simulate_edge_observations float_text rnd ''nominal'')"
    and "telemetry cpu mem temp True latency err ''ok'' ''ok'' ''degraded'' (simulate_edge_observations float_text rnd ''uplink'')"
    and "\<exists>temp' cpu'. 85 \<le> temp' \<and> 85/100 \<le> cpu' \<and>
      telemetry cpu' mem temp' True latency err ''ok'' ''ok'' ''up'' (simulate_edge_observations float_text rnd ''thermal'')"
    and "\<exists>latency' cpu'. 120 \<le> latency' \<and> 85/100 \<le> cpu' \<and>
      telemetry cpu' mem temp False latency' err ''ok'' ''ok'' ''up'' (simulate_edge_observations float_text rnd ''npu_fallback'')"
    and "\<exists>latency' mem'. 120 \<le> latency' \<and> 85/100 \<le> mem' \<and>
      telemetry cpu mem' temp True latency' err ''ok'' ''ok'' ''up'' (simulate_edge_observations float_text rnd ''latency'')"
    and "\<exists>err'. 5/100 \<le> err' \<and> telemetry cpu mem temp False latency err' ''version_mismatch'' ''ok'' ''up'' (simulate_edge_observations float_text rnd ''driver'')"
    and "\<exists>err'. 5/100 \<le> err' \<and> telemetry cpu mem temp True latency err' ''ok'' ''degraded'' ''up'' (simulate_edge_observations float_text rnd ''sensor'')"
proof -
  note d = draws [OF assms, of float_text]
  obtain cpu t0 where c: "jitter float_text rnd 0 (45/100) (5/100) 3 = PyFloat cpu t0" "cpu \<le> 50/100" using d(1) [of 0] by blast
  obtain mem t1 where m: "jitter float_text rnd 1 (50/100) (5/100) 3 = PyFloat mem t1" "mem \<le> 55/100" using d(2) [of 1] by blast
  obtain temp t2 where p: "jitter float_text rnd 2 55 2 1 = PyFloat temp t2" "temp \<le> 57" using d(3) [of 2] by blast
  obtain latency t3 where l: "jitter float_text rnd 3 35 5 1 = PyFloat latency t3" "latency \<le> 40" using d(4) [of 3] by blast
  obtain err t4 where e: "jitter float_text rnd 4 (1/100) (5/1000) 4 = PyFloat err t4" "err \<le> 15/1000" using d(5) [of 4] by blast
  obtain temp' u5 where p': "jitter float_text rnd 5 89 (15/10) 1 = PyFloat temp' u5" "875/10 \<le> temp'" using d(6) [of 5] by blast
  obtain cpu' u6 where c': "jitter float_text rnd 6 (90/100) (3/100) 3 = PyFloat cpu' u6" "87/100 \<le> cpu'" using d(7) [of 6] by blast
  obtain lat' v5 where l': "jitter float_text rnd 5 160 10 1 = PyFloat lat' v5" "150 \<le> lat'" using d(8) [of 5] by blast
  obtain cpu2 v6 where c2: "jitter float_text rnd 6 (88/100) (3/100) 3 = PyFloat cpu2 v6" "85/100 \<le> cpu2" using d(9) [of 6] by blast
  obtain lat2 w5 where l2: "jitter float_text rnd 5 180 15 1 = PyFloat lat2 w5" "165 \<le> lat2" using d(10) [of 5] by blast
  obtain mem' w6 where m': "jitter float_text rnd 6 (88/100) (2/100) 3 = PyFloat mem' w6" "86/100 \<le> mem'" using d(11) [of 6] by blast
  obtain err' x5 where e': "jitter float_text rnd 5 (8/100) (1/100) 4 = PyFloat err' x5" "7/100 \<le> err'" using d(12) [of 5] by blast
  obtain err2 y5 where e2: "jitter float_text rnd 5 (7/100) (1/100) 4 = PyFloat err2 y5" "6/100 \<le> err2" using d(13) [of 5] by blast
  note s = simulate_edge_observations_def Let_def c(1) m(1) p(1) l(1) e(1) p'(1) c'(1) l'(1) c2(1) l2(1) m'(1) e'(1) e2(1)
  show ?thesis
  proof (rule that [OF c(2) m(2) p(2) l(2) e(2)])
    show "telemetry cpu mem temp True latency err ''ok'' ''ok'' ''up'' (simulate_edge_observations float_text rnd ''nominal'')"
      unfolding s by (simp add: telemetry_def dict_update_def dict_get_def)
    show "telemetry cpu mem temp True latency err ''ok'' ''ok'' ''degraded'' (simulate_edge_observations float_text rnd ''uplink'')"
      unfolding s by (simp add: telemetry_def dict_update_def dict_get_def)
    show "\<exists>temp' cpu'. 85 \<le> temp' \<and> 85/100 \<le> cpu' \<and>
        telemetry cpu' mem temp' True latency err ''ok'' ''ok'' ''up'' (simulate_edge_observations float_text rnd ''thermal'')"
      unfolding s using p'(2) c'(2) by (intro exI [of _ temp'] exI [of _ cpu']) (simp add: telemetry_def dict_update_def dict_get_def)
    show "\<exists>latency' cpu'. 120 \<le> latency' \<and> 85/100 \<le> cpu' \<and>
        telemetry cpu' mem temp False latency' err ''ok'' ''ok'' ''up'' (simulate_edge_observations float_text rnd ''npu_fallback'')"
      unfolding s using l'(2) c2(2) by (intro exI [of _ lat'] exI [of _ cpu2]) (simp add: telemetry_def dict_update_def dict_get_def)
    show "\<exists>latency' mem'. 120 \<le> latency' \<and> 85/100 \<le> mem' \<and>
        telemetry cpu mem' temp True latency' err ''ok'' ''ok'' ''up'' (simulate_edge_observations float_text rnd ''latency'')"
      unfolding s using l2(2) m'(2) by (intro exI [of _ lat2] exI [of _ mem']) (simp add: telemetry_def dict_update_def dict_get_def)
    show "\<exists>err'. 5/100 \<le> err' \<and> telemetry cpu mem temp False latency err' ''version_mismatch'' ''ok'' ''up'' (simulate_edge_observations float_text rnd ''driver'')"
      unfolding s using e'(2) by (intro exI [of _ err']) (simp add: telemetry_def dict_update_def dict_get_def)
    show "\<exists>err'. 5/100 \<le> err' \<and> telemetry cpu mem temp True latency err' ''ok'' ''degraded'' ''up'' (simulate_edge_observations float_text rnd ''sensor'')"
      unfolding s using e2(2) by (intro exI [of _ err2]) (simp add: telemetry_def dict_update_def dict_get_def)
  qed
qed

text \<open>The signals of a device by its measurements, as one list of truth values.\<close>

lemma telemetry_signals:
  fixes f :: "string \<Rightarrow> rat option"
  assumes t: "telemetry cpu mem temp npu latency err driver sensor uplink raw"
    and "cpu_hot \<longleftrightarrow> 85/100 \<le> cpu" and "mem_hot \<longleftrightarrow> 85/100 \<le> mem" and "hot \<longleftrightarrow> 85 \<le> temp" and "temp \<le> 57 \<or> 85 \<le> temp"
    and "slow \<longleftrightarrow> 120 \<le> latency" and "failing \<longleftrightarrow> 5/100 \<le> err" and "sensor \<in> {''ok'', ''degraded''}" and "uplink \<in> {''up'', ''degraded''}"
    and "driver \<in> {''ok'', ''version_mismatch''}"
  defines "s \<equiv> normalize_edge_signals f raw"
  shows "flag s ''cpu_high'' = cpu_hot" and "flag s ''memory_pressure_high'' = mem_hot" and "flag s ''thermal_warn'' = hot" and "flag s ''thermal_hot'' = hot"
    and "flag s ''npu_unavailable'' = (\<not> npu)" and "flag s ''latency_regression'' = slow" and "flag s ''inference_error_high'' = failing"
    and "flag s ''driver_mismatch'' = (driver = ''version_mismatch'')" and "flag s ''sensor_lost'' = False" and "flag s ''sensor_degraded'' = (sensor = ''degraded'')"
    and "flag s ''uplink_degraded'' = (uplink = ''degraded'')" and "flag s ''uplink_down'' = False"
    and "flag s ''local_inference_ok'' = (\<not> failing \<and> \<not> slow \<and> (npu \<or> \<not> cpu_hot))"
proof -
  have sn: "among (status_text (PyStr sensor)) [''lost'', ''disconnected'', ''down''] = False"
    "among (status_text (PyStr sensor)) [''degraded'', ''intermittent'', ''noisy''] = (sensor = ''degraded'')"
    using assms(8) by (auto simp: status_texts among_def)
  have up: "among (status_text (PyStr uplink)) [''degraded'', ''down'', ''offline'', ''lossy''] = (uplink = ''degraded'')"
    "among (status_text (PyStr uplink)) [''down'', ''offline''] = False"
    using assms(9) by (auto simp: status_texts among_def)
  have dr: "(status_text (PyStr driver) \<noteq> None \<and> \<not> among (status_text (PyStr driver)) [''ok'', ''match'', ''current'']) = (driver = ''version_mismatch'')"
    using assms(10) by (auto simp: status_texts among_def)
  have tw: "(75 \<le> temp) = hot" using assms(4,5) by auto
  note e = telemetry_flags [OF t, of f] sn up dr tw assms(2,3,6,7) assms(4) [symmetric]
  show "flag s ''cpu_high'' = cpu_hot" "flag s ''memory_pressure_high'' = mem_hot" "flag s ''thermal_warn'' = hot" "flag s ''thermal_hot'' = hot"
    "flag s ''npu_unavailable'' = (\<not> npu)" "flag s ''latency_regression'' = slow" "flag s ''inference_error_high'' = failing"
    "flag s ''driver_mismatch'' = (driver = ''version_mismatch'')" "flag s ''sensor_lost'' = False" "flag s ''sensor_degraded'' = (sensor = ''degraded'')"
    "flag s ''uplink_degraded'' = (uplink = ''degraded'')" "flag s ''uplink_down'' = False"
    "flag s ''local_inference_ok'' = (\<not> failing \<and> \<not> slow \<and> (npu \<or> \<not> cpu_hot))"
    unfolding s_def by (simp_all only: e not_False_eq_True simp_thms)
qed

lemma accepted_unproven:
  assumes "map_option pf_status (eq_proof q) \<noteq> Some CONFIRMED"
  obtains hyp where "er_accepted (run_edge_reasoning h q raw) = ew_hypothesis (hd (rank_edge_hypotheses (normalize_edge_signals (eh_float_of_text h) raw) hyp False))"
proof -
  let ?p = "case eq_proof q of Some p \<Rightarrow> p | None \<Rightarrow> default_proof\<lparr>pf_source := ''edge_proof_engine''\<rparr>"
  have "pf_status ?p \<noteq> CONFIRMED" using assms by (cases "eq_proof q") (simp_all add: default_proof_def)
  then have "er_accepted (run_edge_reasoning h q raw) =
      ew_hypothesis (hd (rank_edge_hypotheses (normalize_edge_signals (eh_float_of_text h) raw) (pf_hypothesis ?p) False))"
    by (simp add: run_edge_reasoning_def Let_def)
  then show ?thesis by (rule that)
qed

lemmas ranking_eval = rank_edge_hypotheses_def EDGE_SCENARIOS_def candidate_def scenario_row_def edge_score_def edge_weights round4_def Let_def

definition profile_hypothesis :: "(string \<times> string) list" where
  "profile_hypothesis = [(''nominal'', NOMINAL_HYPOTHESIS), (''thermal'', ''thermal_throttling_risk''), (''npu_fallback'', ''npu_fallback_to_cpu''),
     (''latency'', ''edge_inference_latency_regression''), (''driver'', ''driver_runtime_mismatch''), (''sensor'', ''sensor_input_degraded''),
     (''uplink'', ''uplink_degraded_but_local_inference_ok'')]"

lemma simulated_hypotheses:
  assumes "\<forall>k. 0 \<le> rnd k \<and> rnd k < 1" and "(profile, cause) \<in> set profile_hypothesis"
  shows "ew_hypothesis (hd (rank_edge_hypotheses (normalize_edge_signals f (simulate_edge_observations float_text rnd profile)) hyp False)) = cause"
proof (rule simulated_telemetry [OF assms(1), of float_text])
  fix cpu mem temp latency err
  assume b: "cpu \<le> 50/100" "mem \<le> 55/100" "temp \<le> 57" "latency \<le> 40" "err \<le> 15/1000"
    and nominal: "telemetry cpu mem temp True latency err ''ok'' ''ok'' ''up'' (simulate_edge_observations float_text rnd ''nominal'')"
    and uplink: "telemetry cpu mem temp True latency err ''ok'' ''ok'' ''degraded'' (simulate_edge_observations float_text rnd ''uplink'')"
    and thermal: "\<exists>temp' cpu'. 85 \<le> temp' \<and> 85/100 \<le> cpu' \<and>
      telemetry cpu' mem temp' True latency err ''ok'' ''ok'' ''up'' (simulate_edge_observations float_text rnd ''thermal'')"
    and npu: "\<exists>latency' cpu'. 120 \<le> latency' \<and> 85/100 \<le> cpu' \<and>
      telemetry cpu' mem temp False latency' err ''ok'' ''ok'' ''up'' (simulate_edge_observations float_text rnd ''npu_fallback'')"
    and latency: "\<exists>latency' mem'. 120 \<le> latency' \<and> 85/100 \<le> mem' \<and>
      telemetry cpu mem' temp True latency' err ''ok'' ''ok'' ''up'' (simulate_edge_observations float_text rnd ''latency'')"
    and driver: "\<exists>err'. 5/100 \<le> err' \<and> telemetry cpu mem temp False latency err' ''version_mismatch'' ''ok'' ''up'' (simulate_edge_observations float_text rnd ''driver'')"
    and sensor: "\<exists>err'. 5/100 \<le> err' \<and> telemetry cpu mem temp True latency err' ''ok'' ''degraded'' ''up'' (simulate_edge_observations float_text rnd ''sensor'')"
  have n: "False \<longleftrightarrow> 85/100 \<le> cpu" "False \<longleftrightarrow> 85/100 \<le> mem" "False \<longleftrightarrow> 85 \<le> temp" "temp \<le> 57 \<or> 85 \<le> temp" "False \<longleftrightarrow> 120 \<le> latency" "False \<longleftrightarrow> 5/100 \<le> err"
    using b by simp_all
  let ?c = "\<lambda>p. ew_hypothesis (hd (rank_edge_hypotheses (normalize_edge_signals f (simulate_edge_observations float_text rnd p)) hyp False))"
  have c1: "?c ''nominal'' = NOMINAL_HYPOTHESIS"
    using telemetry_signals [OF nominal n, of f] by (simp add: ranking_eval fallback_row_def looks_nominal_def failure_signals_def)
  have c2: "?c ''thermal'' = ''thermal_throttling_risk''"
  proof -
    obtain temp' cpu' where t: "True \<longleftrightarrow> 85 \<le> temp'" "True \<longleftrightarrow> 85/100 \<le> cpu'"
      "telemetry cpu' mem temp' True latency err ''ok'' ''ok'' ''up'' (simulate_edge_observations float_text rnd ''thermal'')" using thermal by blast
    then have "temp' \<le> 57 \<or> 85 \<le> temp'" by simp
    from telemetry_signals [OF t(3,2) n(2) t(1) this n(5,6), of f] show ?thesis by (simp add: ranking_eval)
  qed
  have c3: "?c ''npu_fallback'' = ''npu_fallback_to_cpu''"
  proof -
    obtain latency' cpu' where t: "True \<longleftrightarrow> 120 \<le> latency'" "True \<longleftrightarrow> 85/100 \<le> cpu'"
      "telemetry cpu' mem temp False latency' err ''ok'' ''ok'' ''up'' (simulate_edge_observations float_text rnd ''npu_fallback'')" using npu by blast
    from telemetry_signals [OF t(3,2) n(2,3,4) t(1) n(6), of f] show ?thesis by (simp add: ranking_eval)
  qed
  have c4: "?c ''latency'' = ''edge_inference_latency_regression''"
  proof -
    obtain latency' mem' where t: "True \<longleftrightarrow> 120 \<le> latency'" "True \<longleftrightarrow> 85/100 \<le> mem'"
      "telemetry cpu mem' temp True latency' err ''ok'' ''ok'' ''up'' (simulate_edge_observations float_text rnd ''latency'')" using latency by blast
    from telemetry_signals [OF t(3) n(1) t(2) n(3,4) t(1) n(6), of f] show ?thesis by (simp add: ranking_eval)
  qed
  have c5: "?c ''driver'' = ''driver_runtime_mismatch''"
  proof -
    obtain err' where t: "True \<longleftrightarrow> 5/100 \<le> err'"
      "telemetry cpu mem temp False latency err' ''version_mismatch'' ''ok'' ''up'' (simulate_edge_observations float_text rnd ''driver'')" using driver by blast
    from telemetry_signals [OF t(2) n(1-5) t(1), of f] show ?thesis by (simp add: ranking_eval)
  qed
  have c6: "?c ''sensor'' = ''sensor_input_degraded''"
  proof -
    obtain err' where t: "True \<longleftrightarrow> 5/100 \<le> err'"
      "telemetry cpu mem temp True latency err' ''ok'' ''degraded'' ''up'' (simulate_edge_observations float_text rnd ''sensor'')" using sensor by blast
    from telemetry_signals [OF t(2) n(1-5) t(1), of f] show ?thesis by (simp add: ranking_eval)
  qed
  have c7: "?c ''uplink'' = ''uplink_degraded_but_local_inference_ok''"
    using telemetry_signals [OF uplink n, of f] by (simp add: ranking_eval)
  have "list_all (\<lambda>(p, c). ?c p = c) profile_hypothesis"
    by (simp only: profile_hypothesis_def list.pred_inject prod.case c1 c2 c3 c4 c5 c6 c7 simp_thms)
  then show ?thesis using assms(2) by (auto simp: list_all_iff)
qed

text \<open>
  C40. Whatever numbers the generator draws, the diagnosis of a simulated device without a confirmed proof is the fault its profile simulates, and the nominal profile
  is diagnosed as nominal.
\<close>

theorem simulated_profiles_diagnosed:
  assumes "\<forall>k. 0 \<le> rnd k \<and> rnd k < 1" and "(profile, cause) \<in> set profile_hypothesis" and "map_option pf_status (eq_proof q) \<noteq> Some CONFIRMED"
  shows "er_accepted (run_edge_reasoning h q (simulate_edge_observations float_text rnd profile)) = cause"
  using accepted_unproven [OF assms(3), of h "simulate_edge_observations float_text rnd profile"] simulated_hypotheses [OF assms(1,2)] by metis

definition sample_edge_request :: edge_request where
  "sample_edge_request = \<lparr>eq_device_profile = None, eq_proof = None, eq_requested_action = None, eq_confirmation = False, eq_source = ''edge_simulation'', eq_run_id = None\<rparr>"

definition sample_edge_host :: edge_host where
  "sample_edge_host = \<lparr>eh_float_of_text = (\<lambda>_. None), eh_observation_id = nat_str, eh_event_id = nat_str, eh_fresh = ''edge_1''\<rparr>"

theorem simulated_profiles_diagnosed_witness:
  "er_accepted (run_edge_reasoning sample_edge_host sample_edge_request (simulate_edge_observations (\<lambda>_. ''x'') (\<lambda>_. 1/2) ''thermal'')) = ''thermal_throttling_risk'' \<and>
   er_accepted (run_edge_reasoning sample_edge_host sample_edge_request (simulate_edge_observations (\<lambda>_. ''x'') (\<lambda>_. 1/2) ''nominal'')) = NOMINAL_HYPOTHESIS"
proof -
  have r: "\<forall>k::nat. 0 \<le> (1/2::rat) \<and> (1/2::rat) < 1" by simp
  have p: "(''thermal'', ''thermal_throttling_risk'') \<in> set profile_hypothesis" "(''nominal'', NOMINAL_HYPOTHESIS) \<in> set profile_hypothesis"
    by (simp_all add: profile_hypothesis_def)
  have q: "map_option pf_status (eq_proof sample_edge_request) \<noteq> Some CONFIRMED" by (simp add: sample_edge_request_def)
  show ?thesis using simulated_profiles_diagnosed [OF r p(1) q] simulated_profiles_diagnosed [OF r p(2) q] by blast
qed

end
