(* ===== verification/Spec2Isabelle.thy ===== *)
theory Spec2Isabelle
  imports Proxy_Coalesce Delivery Order_Flow Canonical_State Audit_Chain Rollback_Plan Incident_Investigation Guard_Restore
    Governance Final_Causation Risk_Score Fleet Remediation_Api Decision_Context Proxy_Drift Edge_Device
begin

text \<open>
  Verification of the Windows Network Recovery Toolkit, the diagnosis and governance core of a Windows proxy recovery tool written in Python.

  \<^bold>\<open>The program and its parts.\<close> A watcher observes the WinINET proxy settings of an endpoint. Observations are parsed and classified, coalesced
  into incidents and delivered at most once to a side effect; a guard service judges each change of the settings and may restore the last
  good snapshot; every decision, order and incident is recorded in append-only logs that are chained or signed; policy engines decide what
  may be executed, and governance code says how strongly the result may be worded. The parts interact through function calls on
  records and dictionaries and through the logs that one part appends and another reads.

  \<^bold>\<open>Theories and sources.\<close> Paths are relative to \<open>src/\<close>; a definition has the name of the function or class it models, without a leading underscore.
  \<^item> \<open>Py_Prelude\<close>, \<open>Py_Values\<close>: the part of Python the modules use, that is exceptions as values of a sum, strings, decimal text, dynamically typed
    values, dictionaries in insertion order, searching and replacing, rounding, compact JSON.
  \<^item> \<open>Sha256\<close>: SHA-256 and HMAC over 32-bit words, the digests of \<open>hashlib\<close> and \<open>hmac\<close>; the locale \<open>hex_digest\<close> is what the audit theories rely on.
  \<^item> \<open>Proxy_Parser\<close>: \<open>src/proxy_guard/parser.py\<close>. Well-formed results and round trips of printed servers.
  \<^item> \<open>Proxy_State\<close>, \<open>Proxy_Evidence\<close>, \<open>Proxy_Coalesce\<close>: \<open>windows_network_toolkit/proxy_state_machine.py\<close>. Soundness of the remote classification, safety and
    proof discipline of evidence events, batches as a partition of the rows, the streaming buffer as a refinement of batch coalescing, the
    reverter pattern against its declarative meaning.
  \<^item> \<open>Delivery\<close>: \<open>windows_network_toolkit/distributed_delivery.py\<close>. The locales \<open>bounded_fifo\<close> and \<open>completion_ledger\<close> are the contracts of queue and ledger;
    the step relation \<open>delivery_step\<close> gives at-most-once effects; \<open>drain\<close> is the loop that empties the queue, with a fuel that counts the
    remaining attempts, and the liveness theorem shows that the number of attempts of the retry policy is enough.
  \<^item> \<open>Order_Flow\<close>: \<open>order_flow_simulator/{models,state_machine,simulator}.py\<close>. The audit log determines the orders; the locale \<open>event_machine\<close> is interpreted on
    the order machine.
  \<^item> \<open>Canonical_State\<close>: \<open>platform_core/state_machine.py\<close>. Inferred transitions form a connected path.
  \<^item> \<open>Audit_Chain\<close>: \<open>src/platform_core/governance/chain_of_custody.py\<close> and \<open>src/platform_core/audit\<close>. Appended stores verify, the tip binds the history, and
    the exact condition under which a chain verifies.
  \<^item> \<open>Audit_Sign\<close>: \<open>platform_core/reliability/audit_integrity.py\<close>, over the locale \<open>signature_scheme\<close>.
  \<^item> \<open>Evidence_Policy\<close>, \<open>Rollback_Plan\<close>: \<open>src/platform_core/{evidence,policy,remediation}\<close>. When destructive remediation unlocks, and that previews never
    execute.
  \<^item> \<open>Guard_Policy\<close>, \<open>Guard_Transition\<close>, \<open>Guard_Restore\<close>: the guard service, \<open>src/proxy_guard\<close> and \<open>src/repair/executor.py\<close>. The rollback rate, the verdict on a
    transition, what a restore sets, and the safety of a turn of the polling loop.
  \<^item> \<open>Registry_Writer\<close>, \<open>Process_Tree\<close>, \<open>Final_Causation\<close>: \<open>src/telemetry/registry_targets.py\<close>, \<open>src/correlation/process_tree.py\<close> and
    \<open>src/proxy_guard/{registry_writer_proof,process_tree,port_owner,proxy_path_proof,final_causation}.py\<close>. Evidence rows are exactly the recorded writes, the
    lineage walks end on cyclic inventories, and final causation is claimed exactly with a recorded write.
  \<^item> \<open>Platform_Decision\<close>: \<open>platform_core/reliability\<close> and the decision route of \<open>backend/platform_v2_routes.py\<close>. When an action is allowed, bounds of the
    hypothesis ranking, closed evidence graphs, replay parity.
  \<^item> \<open>Incident_Store\<close>, \<open>Resilience\<close>, \<open>Incident_Investigation\<close>: \<open>platform_core/sre\<close> and \<open>platform_core/reliability/resilience.py\<close>. The locale \<open>sequenced_log\<close>
    and the reachable stores, \<open>store_reach\<close> through one store at a time and \<open>shared_reach\<close> through any number of stores over one log, which may repeat
    sequence numbers but never leave a gap; lifecycle errors; retries and failure domains; the investigation that composes them.
  \<^item> \<open>Governance\<close>: \<open>src/platform_core/governance/{proof_tier,evidence_to_action,human_review,evidence_decision_lifecycle}.py\<close>. Tiers as exactly their evidence, what a
    decision may rest on, the language check, the stable envelope, the review gate.
  \<^item> \<open>Risk_Score\<close>: \<open>windows_network_toolkit/risk_scoring_engine.py\<close>. Range and monotonicity of scores.
  \<^item> \<open>Blake2b\<close>, \<open>Fleet\<close>: \<open>platform_core/fleet/{models,deduplication,partitioning,tenancy,ingestion}.py\<close>. BLAKE2b as \<open>hashlib\<close> computes it; the locale \<open>idempotency_contract\<close> is what the
    gateway relies on in its store; the first event of a key wins and is published once, a failed publication is never retried.
  \<^item> \<open>Access_Control\<close>, \<open>Privacy\<close>: tenants, principals and roles, redaction of addresses and user profiles. Who is accepted, and as what.
  \<^item> \<open>Remediation_Api\<close>: the preview and execute routes with their stores and their contract audit. The states \<open>api_reach\<close> that requests reach, and the
    exact condition under which a script starts.
  \<^item> \<open>Timing\<close>: \<open>src/platform_core/timing\<close>. The proleptic calendar and its inverse, windows in a zone, the decision as the first rule that applies.
  \<^item> \<open>Stakeholders\<close>, \<open>Decision_Context\<close>: \<open>src/platform_core/{stakeholder,decision_context}\<close>, \<open>src/platform_core/policy/outcome_normalizer.py\<close> and
    \<open>backend/decision_context_routes.py\<close>. Roles and identities are never invented, separation of duties exactly, the coordination status as a
    decision table over policy, timing and ownership, the audit rows of a decision, and stored contexts that are found again.
  \<^item> \<open>Proxy_Drift\<close>: \<open>src/proxy_drift/{classify,proxy_fix,guardian,auto_fix}.py\<close>. Exactly when the fix, a turn of the guardian and the automatic fix (its two scripts
    included, as calls of the runner) change the settings and to what, and that the guardian keeps direct access whatever happens between its turns.
  \<^item> \<open>Reasoning\<close>: \<open>platform_core/{reasoning_engine,failure_scenarios,impact_score,evidence_tree,policy_v2,reasoning_audit}.py\<close>. Exactly when an action is allowed, previewed or
    blocked, when a run raises, and that replaying the record of a run reproduces its decision.
  \<^item> \<open>Edge_Device\<close>: \<open>edge_device\<close> without its command handlers. The ranking as exactly the catalogued candidates in order, exactly which actions a run approves, and that
    every simulated fault is diagnosed as itself.
  \<^item> This theory: the property that spans parser, transition policy, limiter and restore.

  \<^bold>\<open>State and effects.\<close> Objects are records that the operations return updated; files are lists of rows; the registry of the host is a
  parameter \<open>w\<close> with a reader \<open>val\<close> and a program runner \<open>run\<close>, constrained where a theorem needs it by the named hypothesis \<open>reg_documented\<close>,
  which states what \<open>reg.exe\<close> documents and is met by the concrete \<open>reg_exe\<close>. Raised exceptions are values \<open>Inl e\<close>. Loops are structural or
  carry a termination proof by a measure; \<open>pid_walk\<close> ends because each step uses up a row of the finite inventory.

  \<^bold>\<open>Parameters.\<close> The clock, random identifiers, the ISO time-stamp parser \<open>fromiso\<close>, the probes of the host, the validation of rows by the schema
  library, the time zone data base, environment variables, the stream publisher, the script runner, the number that a text denotes, random numbers, sockets and the texts of \<open>netstat\<close> and \<open>tasklist\<close>, and the iteration order of a \<open>frozenset\<close> are arguments of the definitions that use them.

  \<^bold>\<open>Idealisations.\<close> Floating point numbers are rationals with the text Python prints; strings are exact for ASCII and hold the bytes of other literals; a
  JSON line is the dictionary or typed event it encodes; the readers' limit of 100000 rows is kept.

  \<^bold>\<open>Not modelled.\<close> Command-line front ends, most HTTP routes, report rendering and CSV export are printing and dispatch around the modelled functions;
  the registry watcher and the import of Sysmon and Procmon exports are input and output of the host; the claims of the product contract are tables checked by
  tests; schema libraries and web frameworks are not part of the repository. The incident classifier and the control tests of \<open>windows_network_toolkit\<close> and the
  risk decision record are left for a later extension.
\<close>

section \<open>The guard against a dead local proxy\<close>

lemma live_gate_auto: "auto_rollback cfg \<Longrightarrow> \<not> dry_run_rollback cfg \<Longrightarrow> live_rollback_gate cfg \<and> effective_rollback cfg"
  by (simp add: live_rollback_gate_def effective_rollback_def Let_def)

lemma dead_loopback_blocked:
  assumes "val w ''ProxyEnable'' = Some (DWORD 1)" and "val w ''ProxyServer'' = Some (SZ (''127.0.0.1'' @ CHR '':'' # nat_str port))"
    and "val w ''AutoConfigURL'' = None" and "1 \<le> port" "port \<le> 65535"
    and "proxy_enable prev = Some 0" and "poll_listen env = Some False" and "mode (poll_attribution env) \<noteq> Verified_eventlog"
  shows "decision (poll_verdict (observed val) pr cfg env prev w) = Blocked"
proof -
  let ?cur = "capture_proxy_snapshot pr w (observed val w)" and ?p = "parse_proxy_server (rs_proxy_server (observed val w))"
  have reg: "rs_proxy_enable (observed val w) = Some 1" "rs_auto_config_url (observed val w) = None"
    "rs_proxy_server (observed val w) = Some (''127.0.0.1'' @ CHR '':'' # nat_str port)"
    using assms(1-3) by (simp_all add: observed_def)
  then have lo: "is_localhost_proxy ?p" using parse_loopback[OF assms(4,5)] by simp
  have core: "hkcu_proxy_core_tuple prev \<noteq> hkcu_proxy_core_tuple ?cur" "\<not> disabling_transition_allowed prev ?cur"
    using assms(6) reg by (simp_all add: hkcu_proxy_core_tuple_def disabling_transition_allowed_def)
  have pac: "norm_str (rs_auto_config_url (observed val w)) = []" using reg by (simp add: norm_str_def py_strip_def strip_by_def)
  have broken: "composite_state (assess_proxy_path_operational (poll_curl env) True (Some 1) (proxy_server ?cur) None ?p (Some False)) = LOOPBACK_BROKEN"
    using assess_loopback_state[of None ?p "poll_curl env" "proxy_server ?cur" "Some False"] lo
    by (simp add: norm_str_def py_strip_def strip_by_def)
  show ?thesis
    unfolding poll_verdict_def Let_def transition_decision localhost_verdict_decision
    using core lo pac broken reg assms(7,8) by (simp add: pac_not_allowlisted_def)
qed

text \<open>
  C15 (the guard undoes a dead local proxy). Parser, transition policy, limiter and restore together: when the settings were switched off and
  something turns on a loopback proxy \<open>127.0.0.1:port\<close> that has no listener, and no verified telemetry names the writer, then a guard with live automatic
  rollback whose limiter agrees blocks the change at the next poll and sets the four managed values back to the last snapshot; the proxy is off again.
\<close>

theorem guard_undoes_dead_loopback:
  assumes "reg_documented run val"
    and "prior_view st = Some view" and "prior_full_snap st = Some prev" and "view \<noteq> observed val w" and "proxy_enable prev = Some 0"
    and "val w ''ProxyEnable'' = Some (DWORD 1)" and "val w ''ProxyServer'' = Some (SZ (''127.0.0.1'' @ CHR '':'' # nat_str port))"
    and "val w ''AutoConfigURL'' = None" and "1 \<le> port" and "port \<le> 65535"
    and "poll_listen env = Some False" and "mode (poll_attribution env) \<noteq> Verified_eventlog"
    and "auto_rollback cfg" and "\<not> dry_run_rollback cfg" and "known_good_snapshot cfg = None" and "\<not> restore_git_npm_env cfg"
    and "fst (fst (limiter_evaluate (fst (poll_clocks env)) (guard_limiter st)))"
    and "guard_poll run (observed val) pr cfg env st w = (r, st', w')"
  shows "val w' = (val w)(''ProxyServer'' := sz_value (proxy_server prev), ''AutoConfigURL'' := sz_value (auto_config_url prev),
              ''ProxyOverride'' := sz_value (proxy_override prev), ''ProxyEnable'' \<mapsto> DWORD 0) \<and>
     (\<exists>out. r = Some (poll_verdict (observed val) pr cfg env prev w, out) \<and>
        rollback_status cfg (poll_verdict (observed val) pr cfg env prev w) out \<in>
          {(''executed_ok'', ''prior_snapshot_restore''), (''executed_partial'', ''prior_snapshot_restore'')})"
proof -
  let ?gd = "poll_verdict (observed val) pr cfg env prev w"
  have blocked: "decision ?gd = Blocked" using assms by (intro dead_loopback_blocked)
  then have rb: "rollback_allowed ?gd" unfolding poll_verdict_def Let_def by (simp add: verdict_rollback)
  note gate = live_gate_auto[OF assms(13,14)]
  obtain plan where poll: "r = Some (?gd, fst (rollback_step run (observed val) cfg ?gd prev plan (poll_clocks env) (guard_limiter st) w))"
    "w' = snd (snd (snd (rollback_step run (observed val) cfg ?gd prev plan (poll_clocks env) (guard_limiter st) w)))"
    using guard_poll_change[of st view "observed val" w prev pr cfg env run, OF assms(2,4,3)] assms(18) by (auto simp: Let_def)
  obtain res where res: "run_restore run cfg prev plan w = (res, w')"
    using poll(2) unfolding rollback_step_agreed[OF blocked rb conjunct2[OF gate] assms(17)] attempt_restore_fields
    by (metis prod.collapse)
  then have lkg: "execute_lkg_snapshot_rollback run (Some prev) False (restore_winhttp plan) False w = (res, w')"
    using gate assms(15,16) by (simp add: run_restore_def)
  have "rb_exec (fst (rollback_step run (observed val) cfg ?gd prev plan (poll_clocks env) (guard_limiter st) w)) = Some res"
    "suppressed_reason (fst (rollback_step run (observed val) cfg ?gd prev plan (poll_clocks env) (guard_limiter st) w)) = None"
    unfolding rollback_step_agreed[OF blocked rb conjunct2[OF gate] assms(17)] attempt_restore_fields
    by (simp_all add: res attempt_restore_def split_beta Let_def)
  then have "rollback_status cfg ?gd (fst (rollback_step run (observed val) cfg ?gd prev plan (poll_clocks env) (guard_limiter st) w)) \<in>
      {(''executed_ok'', ''prior_snapshot_restore''), (''executed_partial'', ''prior_snapshot_restore'')}"
    using blocked rb gate lkg_restore_result(2)[OF lkg] by (simp add: rollback_status_def)
  with poll(1) lkg_restore_values[OF assms(1,5) _ _ lkg] show ?thesis by auto
qed

text \<open>A guarded machine on which some program has just switched on a local proxy that is not running.\<close>

theorem guard_undoes_dead_loopback_witness:
  "let w = [(''ProxyServer'', SZ (''127.0.0.1'' @ CHR '':'' # nat_str 8888)), (''ProxyEnable'', DWORD 1)];
       prev = capture_proxy_snapshot sample_probes proxy_off (observed reg_read proxy_off);
       st = \<lparr>prior_view = Some (observed reg_read proxy_off), prior_full_snap = Some prev, lkg_file = None,
             guard_limiter = new_limiter sample_limits, registry_change_events = 0\<rparr>;
       env = (sample_poll 10)\<lparr>poll_listen := Some False\<rparr>;
       (r, st', w') = guard_poll reg_exe (observed reg_read) sample_probes sample_config env st w
   in reg_read w' ''ProxyEnable'' = Some (DWORD 0) \<and> reg_read w' ''ProxyServer'' = None"
proof -
  let ?w = "[(''ProxyServer'', SZ (''127.0.0.1'' @ CHR '':'' # nat_str 8888)), (''ProxyEnable'', DWORD 1)]"
  let ?prev = "capture_proxy_snapshot sample_probes proxy_off (observed reg_read proxy_off)"
  let ?st = "\<lparr>prior_view = Some (observed reg_read proxy_off), prior_full_snap = Some ?prev, lkg_file = None,
             guard_limiter = new_limiter sample_limits, registry_change_events = 0\<rparr>"
  let ?env = "(sample_poll 10)\<lparr>poll_listen := Some False\<rparr>"
  obtain r st' w' where poll: "guard_poll reg_exe (observed reg_read) sample_probes sample_config ?env ?st ?w = (r, st', w')"
    by (metis surj_pair)
  have h: "prior_view ?st = Some (observed reg_read proxy_off)" "prior_full_snap ?st = Some ?prev"
    "observed reg_read proxy_off \<noteq> observed reg_read ?w" "proxy_enable ?prev = Some 0"
    "reg_read ?w ''ProxyEnable'' = Some (DWORD 1)" "reg_read ?w ''ProxyServer'' = Some (SZ (''127.0.0.1'' @ CHR '':'' # nat_str 8888))"
    "reg_read ?w ''AutoConfigURL'' = None" "(1::nat) \<le> 8888" "(8888::nat) \<le> 65535"
    "poll_listen ?env = Some False" "mode (poll_attribution ?env) \<noteq> Verified_eventlog"
    "auto_rollback sample_config" "\<not> dry_run_rollback sample_config" "known_good_snapshot sample_config = None"
    "\<not> restore_git_npm_env sample_config"
    "fst (fst (limiter_evaluate (fst (poll_clocks ?env)) (guard_limiter ?st)))"
    by (simp_all add: observed_def reg_read_def proxy_off_def sample_poll_def sample_config_def sample_limits_def new_limiter_def
        limiter_evaluate_def Let_def)
  have "proxy_server ?prev = None" by (simp add: observed_def reg_read_def proxy_off_def)
  then have "sz_value (proxy_server ?prev) = None" by (simp add: sz_value_def norm_str_def py_strip_def strip_by_def)
  then show ?thesis
    using guard_undoes_dead_loopback[OF reg_exe_documented h poll, THEN conjunct1] unfolding Let_def poll by simp
qed

end
